(* ===== verification/RES_Prelude.thy ===== *)
theory RES_Prelude
  imports Main "HOL-Library.Char_ord" "HOL-Library.List_Lexorder"
begin

text \<open>
  Shared vocabulary of the development: the exceptions of
  \<^verbatim>\<open>containres/ideadatamodel/exceptions\<close> (a raise is a value of the type \<open>exn\<close>), the
  actions every service method is modelled by (a state goes in; a result or an
  exception comes out together with the state, so that what was written before a
  raise stays written), their combinators and the rules the later theories reason
  with, and the Python string operations the services use.
\<close>

named_theorems act_simps \<open>unfolding rules of the action combinators\<close>
named_theorems keeps_rules \<open>composition rules for state invariants\<close>
named_theorems norm_simps \<open>facts about normalised user names\<close>

section \<open>Exceptions\<close>

text \<open>
  The error codes of \<^verbatim>\<open>ideadatamodel/errorcodes.py\<close> that the modelled services raise.
  A message is text for the log and the caller's screen: an exception is identified
  by its error code, as the code's own handlers do (\<open>e.error_code == ...\<close>).
\<close>

datatype error_code =
    INVALID_PARAMS | UNAUTHORIZED_ACCESS | GENERAL_ERROR
  | AUTH_USER_NOT_FOUND | AUTH_USER_ALREADY_EXISTS | AUTH_USER_IS_DISABLED
  | AUTH_MULTIPLE_USERS_FOUND | AUTH_PASSWORD_RESET_REQUIRED
  | AUTH_GROUP_NOT_FOUND | AUTH_GROUP_IS_DISABLED | AUTH_INVALID_OPERATION
  | PROJECT_NOT_FOUND | GID_NOT_FOUND | UID_AND_GID_NOT_FOUND
  | AUTH_TOKEN_EXPIRED | AUTH_TOKEN_REVOCATION_FAILED | NOT_SUPPORTED | SERVER_IS_SHUTTING_DOWN
  | CONFIG_KEY_NOT_FOUND | DO_NOT_DELETE_MESSAGE | MESSAGE_SOURCE_VALIDATION_FAILED
  | CREATE_SESSION_FAILED | UPDATE_SESSION_FAILED | SESSION_CONNECTION_ERROR
  | CREATED_SOFTWARE_STACK_FROM_SESSION_FAILED
  | CONFIG_TYPE_ERROR | NO_SHARED_FILESYSTEM_FOUND | FILESYSTEM_NOT_FOUND
  | FILESYSTEM_ALREADY_ONBOARDED | FILESYSTEM_NOT_IN_VPC
  | TABLE_IMPORT_FAILED | TABLE_MERGE_FAILED | TABLE_ROLLBACK_FAILED

text \<open>
  \<open>SocaException\<close> is the repository's own exception class; the others are what Python
  and the AWS client raise: a missing dictionary key or list position, an operation on a value of the
  wrong type, a missing attribute or method, a validation error of a data class, a failed condition of a DynamoDB
  write and any other error of an outside service. \<open>DoesNotReturn\<close> is no exception of the
  code: it stands for a loop that never ends, so that a claim that a loop ends is the
  claim that this value does not come out.
\<close>

datatype exn =
    SocaException error_code
  | KeyError string
  | IndexError
  | TypeError
  | AttributeError
  | ValueError
  | ValidationError
  | RuntimeError
  | ConditionalCheckFailed
  | ServiceError string
  | DoesNotReturn

definition invalid_params :: exn where
  "invalid_params = SocaException INVALID_PARAMS"

definition unauthorized_access :: exn where
  "unauthorized_access = SocaException UNAUTHORIZED_ACCESS"

definition general_exception :: exn where
  "general_exception = SocaException GENERAL_ERROR"

fun is_soca :: "exn \<Rightarrow> bool" where
  "is_soca (SocaException c) = True"
| "is_soca _ = False"

section \<open>Actions\<close>

type_synonym ('s, 'a) act = "'s \<Rightarrow> (exn + 'a) \<times> 's"

definition return :: "'a \<Rightarrow> ('s, 'a) act" where
  "return x = (\<lambda>s. (Inr x, s))"

definition raise :: "exn \<Rightarrow> ('s, 'a) act" where
  "raise e = (\<lambda>s. (Inl e, s))"

definition bindA :: "('s, 'a) act \<Rightarrow> ('a \<Rightarrow> ('s, 'b) act) \<Rightarrow> ('s, 'b) act" where
  "bindA m f = (\<lambda>s. case m s of (Inl e, t) \<Rightarrow> (Inl e, t) | (Inr x, t) \<Rightarrow> f x t)"

definition seqA :: "('s, 'a) act \<Rightarrow> ('s, 'b) act \<Rightarrow> ('s, 'b) act" where
  "seqA m k = bindA m (\<lambda>_. k)"

text \<open>\<open>raise_if b e k\<close>: the source's \<open>if b: raise e\<close> followed by \<open>k\<close>.\<close>

definition raise_if :: "bool \<Rightarrow> exn \<Rightarrow> ('s, 'a) act \<Rightarrow> ('s, 'a) act" where
  "raise_if b e k = (if b then raise e else k)"

definition whenA :: "bool \<Rightarrow> ('s, unit) act \<Rightarrow> ('s, unit) act" where
  "whenA b m = (if b then m else return ())"

text \<open>\<open>try: m except Exception as e: h e\<close>: the handler runs in the state the body left.\<close>

definition catchA :: "('s, 'a) act \<Rightarrow> (exn \<Rightarrow> ('s, 'a) act) \<Rightarrow> ('s, 'a) act" where
  "catchA m h = (\<lambda>s. case m s of (Inl e, t) \<Rightarrow> h e t | (Inr x, t) \<Rightarrow> (Inr x, t))"

text \<open>\<open>except exceptions.SocaException as e\<close> lets every other exception through.\<close>

definition catch_soca ::
  "('s, 'a) act \<Rightarrow> (error_code \<Rightarrow> ('s, 'a) act) \<Rightarrow> ('s, 'a) act" where
  "catch_soca m h =
     catchA m (\<lambda>e. case e of SocaException c \<Rightarrow> h c | _ \<Rightarrow> raise e)"

definition getA :: "('s \<Rightarrow> 'a) \<Rightarrow> ('s, 'a) act" where
  "getA f = (\<lambda>s. (Inr (f s), s))"

definition modifyA :: "('s \<Rightarrow> 's) \<Rightarrow> ('s, unit) act" where
  "modifyA f = (\<lambda>s. (Inr (), f s))"

text \<open>Results without a state: a value or an exception, and their composition.\<close>

definition bindE :: "exn + 'a \<Rightarrow> ('a \<Rightarrow> exn + 'b) \<Rightarrow> exn + 'b" where
  "bindE r f = (case r of Inl e \<Rightarrow> Inl e | Inr x \<Rightarrow> f x)"

fun map_sum_list :: "('x \<Rightarrow> exn + 'a) \<Rightarrow> 'x list \<Rightarrow> exn + 'a list" where
  "map_sum_list f [] = Inr []"
| "map_sum_list f (x # xs) = bindE (f x) (\<lambda>y. bindE (map_sum_list f xs) (\<lambda>ys. Inr (y # ys)))"

text \<open>A result computed without touching the state (a lookup that may raise).\<close>

definition liftA :: "exn + 'a \<Rightarrow> ('s, 'a) act" where
  "liftA r = (\<lambda>s. (r, s))"

fun for_each :: "'x list \<Rightarrow> ('x \<Rightarrow> ('s, unit) act) \<Rightarrow> ('s, unit) act" where
  "for_each [] f = return ()"
| "for_each (x # xs) f = seqA (f x) (for_each xs f)"

fun map_each :: "'x list \<Rightarrow> ('x \<Rightarrow> ('s, 'a) act) \<Rightarrow> ('s, 'a list) act" where
  "map_each [] f = return []"
| "map_each (x # xs) f =
     bindA (f x) (\<lambda>y. bindA (map_each xs f) (\<lambda>ys. return (y # ys)))"

lemmas act_defs [act_simps] =
  return_def raise_def bindA_def seqA_def raise_if_def whenA_def catchA_def
  catch_soca_def getA_def modifyA_def liftA_def

subsection \<open>Running an action\<close>

lemma return_run [simp]: "return x s = (Inr x, s)"
  by (simp add: return_def)

lemma raise_run [simp]: "raise e s = (Inl e, s)"
  by (simp add: raise_def)

lemma getA_run [simp]: "getA f s = (Inr (f s), s)"
  by (simp add: getA_def)

lemma modifyA_run [simp]: "modifyA f s = (Inr (), f s)"
  by (simp add: modifyA_def)

lemma liftA_run [simp]: "liftA r s = (r, s)"
  by (simp add: liftA_def)

lemma bindA_Inr [simp]: "m s = (Inr x, t) \<Longrightarrow> bindA m f s = f x t"
  by (simp add: bindA_def)

lemma bindA_Inl [simp]: "m s = (Inl e, t) \<Longrightarrow> bindA m f s = (Inl e, t)"
  by (simp add: bindA_def)

lemma seqA_Inr [simp]: "m s = (Inr x, t) \<Longrightarrow> seqA m k s = k t"
  by (simp add: seqA_def)

lemma seqA_Inl [simp]: "m s = (Inl e, t) \<Longrightarrow> seqA m k s = (Inl e, t)"
  by (simp add: seqA_def)

lemma catchA_Inr [simp]: "m s = (Inr x, t) \<Longrightarrow> catchA m h s = (Inr x, t)"
  by (simp add: catchA_def)

lemma catchA_Inl [simp]: "m s = (Inl e, t) \<Longrightarrow> catchA m h s = h e t"
  by (simp add: catchA_def)

lemma catch_soca_Inr [simp]: "m s = (Inr x, t) \<Longrightarrow> catch_soca m h s = (Inr x, t)"
  by (simp add: catch_soca_def)

lemma catch_soca_Inl [simp]:
  "m s = (Inl (SocaException c), t) \<Longrightarrow> catch_soca m h s = h c t"
  by (simp add: catch_soca_def)

lemma raise_if_False [simp]: "raise_if False e k = k"
  by (simp add: raise_if_def)

lemma raise_if_True [simp]: "raise_if True e k = raise e"
  by (simp add: raise_if_def)

lemma whenA_True [simp]: "whenA True m = m"
  by (simp add: whenA_def)

lemma whenA_False [simp]: "whenA False m = return ()"
  by (simp add: whenA_def)

lemma bindE_simps [simp]: "bindE (Inr x) f = f x" "bindE (Inl e) f = Inl e"
  by (simp_all add: bindE_def)

lemma bindE_eq_Inr: "bindE r f = Inr y \<longleftrightarrow> (\<exists>x. r = Inr x \<and> f x = Inr y)"
  by (cases r) auto

lemma map_sum_list_Inr: "(\<And>x. x \<in> set xs \<Longrightarrow> f x = Inr (g x)) \<Longrightarrow> map_sum_list f xs = Inr (map g xs)"
  by (induction xs) auto

lemma bindA_eq_Inr:
  "bindA m f s = (Inr y, t) \<longleftrightarrow> (\<exists>x u. m s = (Inr x, u) \<and> f x u = (Inr y, t))"
  by (auto simp: bindA_def split: prod.splits sum.splits)

lemma seqA_eq_Inr:
  "seqA m k s = (Inr y, t) \<longleftrightarrow> (\<exists>x u. m s = (Inr x, u) \<and> k u = (Inr y, t))"
  by (simp add: seqA_def bindA_eq_Inr)

lemma raise_if_eq_Inr:
  "raise_if b e k s = (Inr y, t) \<longleftrightarrow> \<not> b \<and> k s = (Inr y, t)"
  by (simp add: raise_if_def)

lemmas act_inversions = bindA_eq_Inr seqA_eq_Inr raise_if_eq_Inr

text \<open>
  A loop does what the loop over the first part does and then the rest: an exception
  in the first part stops it there.
\<close>

lemma for_each_append:
  "for_each (xs @ ys) f = seqA (for_each xs f) (for_each ys f)"
  by (induction xs)
     (auto simp: seqA_def bindA_def fun_eq_iff split: prod.splits sum.splits)

lemma for_each_map: "for_each (map g xs) f = for_each xs (\<lambda>x. f (g x))"
  by (induction xs) simp_all

lemma for_each_total:
  assumes "\<And>x s. \<exists>t. f x s = (Inr (), t)"
  shows "\<exists>t. for_each xs f s = (Inr (), t)"
proof (induction xs arbitrary: s)
  case (Cons x xs)
  obtain t where "f x s = (Inr (), t)" using assms by blast
  then show ?case using Cons by simp
qed simp

subsection \<open>Invariants\<close>

text \<open>
  \<open>keeps I m\<close>: whatever \<open>m\<close> does and however it ends (an exception included), \<open>I\<close>
  holds after it when it held before.
\<close>

definition keeps :: "('s \<Rightarrow> bool) \<Rightarrow> ('s, 'a) act \<Rightarrow> bool" where
  "keeps I m \<longleftrightarrow> (\<forall>s. I s \<longrightarrow> I (snd (m s)))"

lemma keepsD: "keeps I m \<Longrightarrow> I s \<Longrightarrow> m s = (r, t) \<Longrightarrow> I t"
  by (metis keeps_def snd_conv)

lemma keepsI: "(\<And>s r t. I s \<Longrightarrow> m s = (r, t) \<Longrightarrow> I t) \<Longrightarrow> keeps I m"
  by (metis keeps_def prod.collapse)

lemma keeps_return [keeps_rules]: "keeps I (return x)"
  by (simp add: keeps_def)

lemma keeps_raise [keeps_rules]: "keeps I (raise e)"
  by (simp add: keeps_def)

lemma keeps_getA [keeps_rules]: "keeps I (getA f)"
  by (simp add: keeps_def)

lemma keeps_liftA [keeps_rules]: "keeps I (liftA r)"
  by (simp add: keeps_def)

lemma keeps_bindA [keeps_rules]:
  "keeps I m \<Longrightarrow> (\<And>x. keeps I (f x)) \<Longrightarrow> keeps I (bindA m f)"
  by (fastforce simp: keeps_def bindA_def split: prod.splits sum.splits)

lemma keeps_seqA [keeps_rules]:
  "keeps I m \<Longrightarrow> keeps I k \<Longrightarrow> keeps I (seqA m k)"
  by (simp add: seqA_def keeps_bindA)

lemma keeps_raise_if [keeps_rules]: "(\<not> b \<Longrightarrow> keeps I k) \<Longrightarrow> keeps I (raise_if b e k)"
  by (simp add: raise_if_def keeps_raise)

lemma keeps_whenA [keeps_rules]: "(b \<Longrightarrow> keeps I m) \<Longrightarrow> keeps I (whenA b m)"
  by (simp add: whenA_def keeps_return)

lemma keeps_catchA [keeps_rules]:
  "keeps I m \<Longrightarrow> (\<And>e. keeps I (h e)) \<Longrightarrow> keeps I (catchA m h)"
  by (fastforce simp: keeps_def catchA_def split: prod.splits sum.splits)

lemma keeps_catch_soca [keeps_rules]:
  "keeps I m \<Longrightarrow> (\<And>c. keeps I (h c)) \<Longrightarrow> keeps I (catch_soca m h)"
  unfolding catch_soca_def
  by (rule keeps_catchA) (auto split: exn.splits intro: keeps_raise)

lemma keeps_for_each [keeps_rules]:
  "(\<And>x. x \<in> set xs \<Longrightarrow> keeps I (f x)) \<Longrightarrow> keeps I (for_each xs f)"
  by (induction xs) (auto intro: keeps_rules)

lemma keeps_map_each [keeps_rules]:
  "(\<And>x. x \<in> set xs \<Longrightarrow> keeps I (f x)) \<Longrightarrow> keeps I (map_each xs f)"
  by (induction xs) (auto intro!: keeps_bindA keeps_return)

lemma keeps_if [keeps_rules]:
  "(b \<Longrightarrow> keeps I m) \<Longrightarrow> (\<not> b \<Longrightarrow> keeps I k) \<Longrightarrow> keeps I (if b then m else k)"
  by simp

lemma keeps_case_option [keeps_rules]:
  "(x = None \<Longrightarrow> keeps I m) \<Longrightarrow> (\<And>y. x = Some y \<Longrightarrow> keeps I (f y)) \<Longrightarrow>
     keeps I (case x of None \<Rightarrow> m | Some y \<Rightarrow> f y)"
  by (cases x) auto

lemma keeps_case_prod [keeps_rules]:
  "(\<And>a b. x = (a, b) \<Longrightarrow> keeps I (f a b)) \<Longrightarrow> keeps I (case x of (a, b) \<Rightarrow> f a b)"
  by (cases x) auto

lemma keeps_Let [keeps_rules]: "keeps I (f x) \<Longrightarrow> keeps I (let y = x in f y)"
  by simp

section \<open>Strings\<close>

text \<open>
  A Python string is a \<open>string\<close>; characters outside ASCII are outside the model, so
  \<open>str.strip\<close> strips the ASCII white space and \<open>str.lower\<close> maps the letters A to Z.
\<close>

definition py_space :: "char \<Rightarrow> bool" where
  "py_space c \<longleftrightarrow> of_char c \<in> {9, 10, 11, 12, 13, 28, 29, 30, 31, 32 :: nat}"

definition py_strip :: "string \<Rightarrow> string" where
  "py_strip s = rev (dropWhile py_space (rev (dropWhile py_space s)))"

definition lower_char :: "char \<Rightarrow> char" where
  "lower_char c =
     (if 65 \<le> (of_char c :: nat) \<and> (of_char c :: nat) \<le> 90
      then char_of ((of_char c :: nat) + 32) else c)"

definition py_lower :: "string \<Rightarrow> string" where
  "py_lower s = map lower_char s"

fun starts_with :: "string \<Rightarrow> string \<Rightarrow> bool" where
  "starts_with s [] = True"
| "starts_with [] (p # ps) = False"
| "starts_with (c # cs) (p # ps) = (c = p \<and> starts_with cs ps)"

definition ends_with :: "string \<Rightarrow> string \<Rightarrow> bool" where
  "ends_with s p = starts_with (rev s) (rev p)"

lemma starts_with_iff: "starts_with s p \<longleftrightarrow> (\<exists>r. s = p @ r)"
  by (induction s p rule: starts_with.induct) auto

lemma ends_with_iff: "ends_with s p \<longleftrightarrow> (\<exists>r. s = r @ p)"
  by (auto simp: ends_with_def starts_with_iff)
     (metis rev_append rev_rev_ident)

lemma lower_char_of: "of_char (lower_char c) =
    (if 65 \<le> (of_char c :: nat) \<and> (of_char c :: nat) \<le> 90
     then (of_char c :: nat) + 32 else of_char c)"
  by (simp add: lower_char_def)

lemma lower_char_idem [simp]: "lower_char (lower_char c) = lower_char c"
  by (simp add: lower_char_def)

lemma py_space_lower [simp]: "py_space (lower_char c) = py_space c"
  by (auto simp: py_space_def lower_char_of)

lemma py_lower_idem [simp]: "py_lower (py_lower s) = py_lower s"
  by (simp add: py_lower_def comp_def)

lemma dropWhile_map_space:
  "dropWhile py_space (map lower_char s) = map lower_char (dropWhile py_space s)"
  by (induction s) auto

lemma py_strip_lower: "py_strip (py_lower s) = py_lower (py_strip s)"
  by (simp add: py_strip_def py_lower_def dropWhile_map_space rev_map)

lemma dropWhile_rev_fixed:
  assumes "dropWhile P xs = xs"
  shows "dropWhile P (rev (dropWhile P (rev xs))) = rev (dropWhile P (rev xs))"
proof (cases "rev (dropWhile P (rev xs))")
  case Nil
  then show ?thesis by (simp del: dropWhile_eq_Nil_conv)
next
  case (Cons y ys)
  have "\<exists>zs. xs = rev (dropWhile P (rev xs)) @ zs"
    by (metis rev_append rev_rev_ident takeWhile_dropWhile_id)
  then have "hd xs = y" and "xs \<noteq> []" using Cons by auto
  then have "\<not> P y" using assms
    by (metis dropWhile.simps(2) dropWhile_eq_Cons_conv list.exhaust_sel)
  then show ?thesis using Cons by simp
qed

lemma py_strip_idem [simp]: "py_strip (py_strip s) = py_strip s"
proof -
  let ?d = "dropWhile py_space s"
  have "dropWhile py_space (rev (dropWhile py_space (rev ?d)))
      = rev (dropWhile py_space (rev ?d))"
    by (rule dropWhile_rev_fixed) simp
  then show ?thesis by (simp add: py_strip_def)
qed

section \<open>Lists\<close>

text \<open>
  \<open>list(set(xs))\<close>: Python iterates a set of strings in the order of their hashes, which
  differs from one process to the next. The hash is a parameter, and every statement
  holds for each hash: only the elements matter.
\<close>

definition py_set_list :: "('a \<Rightarrow> nat) \<Rightarrow> 'a list \<Rightarrow> 'a list" where
  "py_set_list h xs = sort_key h (remdups xs)"

lemma set_py_set_list [simp]: "set (py_set_list h xs) = set xs"
  by (simp add: py_set_list_def)

lemma distinct_py_set_list [simp]: "distinct (py_set_list h xs)"
  by (simp add: py_set_list_def)

text \<open>
  A missing argument (\<open>None\<close>) is handled by the code like the empty string: \<open>is_empty\<close>
  rejects both. Arguments of methods are strings, with \<open>None\<close> passed as the empty one.
\<close>

definition str_or_empty :: "string option \<Rightarrow> string" where
  "str_or_empty s = (case s of None \<Rightarrow> [] | Some t \<Rightarrow> t)"

definition blank :: "string \<Rightarrow> bool" where
  "blank s \<longleftrightarrow> py_strip s = []"

lemma str_or_empty_simps [simp]: "str_or_empty None = []" "str_or_empty (Some t) = t"
  by (simp_all add: str_or_empty_def)

lemma blank_Nil [simp]: "blank []"
  by (simp add: blank_def py_strip_def)

text \<open>\<open>xs.remove(x)\<close> of a list that holds \<open>x\<close> drops its first occurrence: \<open>remove1\<close>.\<close>

lemma map_of_map_Pair: "map_of (map (\<lambda>k. (k, f k)) ks) k = (if k \<in> set ks then Some (f k) else None)"
  by (induction ks) auto

end
