(* ===== verification/Py_Values.thy ===== *)
theory Py_Values
  imports RES_Prelude
begin

text \<open>
  The dynamically typed values the services pass around (the attributes of DynamoDB
  items, the fields of payloads) and the conversions of
  \<^verbatim>\<open>containres/ideadatamodel/model_utils.py\<close> that read them. \<^verbatim>\<open>ideasdk/utils/utils.py\<close>
  forwards each of them unchanged under the same name, so \<open>Utils.is_empty\<close> in a service
  is \<open>is_empty\<close> here. Numbers are integers: the tables hold no fractions, and the
  Decimal boto3 returns for an integral number is the integer.
\<close>

datatype val =
    VNone
  | VStr string
  | VInt int
  | VBool bool
  | VList "val list"
  | VDict "(string \<times> val) list"

type_synonym item = "string \<Rightarrow> val option"

section \<open>Python's own conversions\<close>

definition digit_of :: "char \<Rightarrow> nat option" where
  "digit_of c = (let n = of_char c in if 48 \<le> n \<and> n \<le> 57 then Some (n - 48) else None)"

text \<open>The digits of \<open>int(s)\<close>: single underscores may stand between two digits.\<close>

fun parse_digits :: "nat \<Rightarrow> bool \<Rightarrow> string \<Rightarrow> nat option" where
  "parse_digits acc after_digit [] = (if after_digit then Some acc else None)"
| "parse_digits acc after_digit (c # cs) =
     (case digit_of c of
        Some d \<Rightarrow> parse_digits (10 * acc + d) True cs
      | None \<Rightarrow> if c = CHR ''_'' \<and> after_digit then parse_digits acc False cs else None)"

definition split_sign :: "string \<Rightarrow> int \<times> string" where
  "split_sign s = (case s of
      [] \<Rightarrow> (1, [])
    | c # cs \<Rightarrow> if c = CHR ''-'' then (-1, cs) else if c = CHR ''+'' then (1, cs) else (1, s))"

definition py_int :: "string \<Rightarrow> int option" where
  "py_int s = (case split_sign (py_strip s) of (sg, ds) \<Rightarrow>
     map_option (\<lambda>n. sg * int n) (parse_digits 0 False ds))"

text \<open>
  \<open>int(float(s))\<close> for a decimal literal: the part before the point. Exponents, \<open>inf\<close>,
  \<open>nan\<close> and literals beyond the precision of a double are outside the model.
\<close>

definition py_float_trunc :: "string \<Rightarrow> int option" where
  "py_float_trunc s = (case split_sign (py_strip s) of (sg, ds) \<Rightarrow>
     (let w = takeWhile (\<lambda>c. c \<noteq> CHR ''.'') ds;
          f = drop 1 (dropWhile (\<lambda>c. c \<noteq> CHR ''.'') ds)
      in if w = [] \<and> f = [] then None
         else case (if w = [] then Some 0 else parse_digits 0 False w,
                    if f = [] then Some 0 else parse_digits 0 False f) of
           (Some n, Some _) \<Rightarrow> Some (sg * int n)
         | _ \<Rightarrow> None))"

fun nat_digits :: "nat \<Rightarrow> string" where
  "nat_digits n = (if n < 10 then [char_of (48 + n)]
                   else nat_digits (n div 10) @ [char_of (48 + n mod 10)])"

declare nat_digits.simps [simp del]

definition int_str :: "int \<Rightarrow> string" where
  "int_str i = (if i < 0 then CHR ''-'' # nat_digits (nat (- i)) else nat_digits (nat i))"

fun join :: "string \<Rightarrow> string list \<Rightarrow> string" where
  "join sep [] = []"
| "join sep [s] = s"
| "join sep (s # t # ts) = s @ sep @ join sep (t # ts)"

text \<open>\<open>repr\<close> of a value; strings inside it hold no quotes or escapes.\<close>

fun py_repr :: "val \<Rightarrow> string" where
  "py_repr VNone = ''None''"
| "py_repr (VStr s) = [CHR 0x27] @ s @ [CHR 0x27]"
| "py_repr (VInt i) = int_str i"
| "py_repr (VBool b) = (if b then ''True'' else ''False'')"
| "py_repr (VList vs) = ''['' @ join '', '' (map py_repr vs) @ '']''"
| "py_repr (VDict kvs) =
     ''{'' @ join '', '' (map (\<lambda>kv. [CHR 0x27] @ fst kv @ [CHR 0x27] @ '': '' @ py_repr (snd kv)) kvs)
     @ ''}''"

fun py_str :: "val \<Rightarrow> string" where
  "py_str (VStr s) = s"
| "py_str v = py_repr v"

fun py_truthy :: "val \<Rightarrow> bool" where
  "py_truthy VNone = False"
| "py_truthy (VStr s) = (s \<noteq> [])"
| "py_truthy (VInt i) = (i \<noteq> 0)"
| "py_truthy (VBool b) = b"
| "py_truthy (VList vs) = (vs \<noteq> [])"
| "py_truthy (VDict d) = (d \<noteq> [])"

section \<open>ModelUtils\<close>

fun is_empty :: "val \<Rightarrow> bool" where
  "is_empty VNone = True"
| "is_empty (VStr s) = (length (py_strip s) = 0)"
| "is_empty (VList vs) = (length vs = 0)"
| "is_empty (VDict d) = (length d = 0)"
| "is_empty _ = False"

definition TRUE_VALUES :: "string list" where
  "TRUE_VALUES = [''true'', ''yes'', ''y'', ''1'']"

definition FALSE_VALUES :: "string list" where
  "FALSE_VALUES = [''false'', ''no'', ''n'', ''0'']"

text \<open>A value that is neither empty, a truth value, a number nor a string has no \<open>strip\<close>.\<close>

fun is_true :: "val \<Rightarrow> bool \<Rightarrow> exn + bool" where
  "is_true VNone dflt = Inr dflt"
| "is_true (VBool b) dflt = Inr b"
| "is_true (VInt i) dflt = Inr (i \<noteq> 0)"
| "is_true (VStr s) dflt =
     (if is_empty (VStr s) then Inr dflt
      else Inr (py_lower (py_strip s) \<in> set TRUE_VALUES))"
| "is_true v dflt = (if is_empty v then Inr dflt else Inl AttributeError)"

fun is_false :: "val \<Rightarrow> bool \<Rightarrow> exn + bool" where
  "is_false VNone dflt = Inr dflt"
| "is_false (VBool b) dflt = Inr (\<not> b)"
| "is_false (VInt i) dflt = Inr (i = 0)"
| "is_false (VStr s) dflt =
     (if is_empty (VStr s) then Inr dflt
      else Inr (py_lower (py_strip s) \<in> set FALSE_VALUES))"
| "is_false v dflt = (if is_empty v then Inr dflt else Inl AttributeError)"

fun get_as_string :: "val \<Rightarrow> string option \<Rightarrow> string option" where
  "get_as_string VNone dflt = dflt"
| "get_as_string (VStr s) dflt =
     (let stripped = py_strip s in if length stripped = 0 then dflt else Some stripped)"
| "get_as_string v dflt = Some (py_str v)"

fun get_as_int :: "val \<Rightarrow> int option \<Rightarrow> int option" where
  "get_as_int VNone dflt = dflt"
| "get_as_int (VInt i) dflt = Some i"
| "get_as_int (VBool b) dflt = Some (if b then 1 else 0)"
| "get_as_int (VStr s) dflt =
     (case py_int s of
        Some i \<Rightarrow> Some i
      | None \<Rightarrow> (case py_float_trunc s of Some i \<Rightarrow> Some i | None \<Rightarrow> dflt))"
| "get_as_int _ dflt = dflt"

fun get_as_bool :: "val \<Rightarrow> bool option \<Rightarrow> bool option" where
  "get_as_bool (VBool b) dflt = Some b"
| "get_as_bool (VInt i) dflt = Some (i \<noteq> 0)"
| "get_as_bool (VStr s) dflt =
     (if is_true (VStr s) False = Inr True then Some True
      else if is_false (VStr s) False = Inr True then Some False
      else dflt)"
| "get_as_bool _ dflt = dflt"

fun get_as_dict ::
  "val \<Rightarrow> (string \<times> val) list option \<Rightarrow> (string \<times> val) list option" where
  "get_as_dict (VDict d) dflt = (if length d = 0 then dflt else Some d)"
| "get_as_dict _ dflt = dflt"

fun get_as_list :: "val \<Rightarrow> val list option \<Rightarrow> val list option" where
  "get_as_list (VList vs) dflt = (if length vs = 0 then dflt else Some vs)"
| "get_as_list _ dflt = dflt"

definition get_as_string_list :: "val \<Rightarrow> string list option \<Rightarrow> string list option" where
  "get_as_string_list v dflt =
     (case get_as_list v (map_option (map VStr) dflt) of
        None \<Rightarrow> dflt
      | Some entries \<Rightarrow> Some (List.map_filter (\<lambda>e. get_as_string e None) entries))"

definition value_exists :: "string \<Rightarrow> item option \<Rightarrow> bool" where
  "value_exists key obj = (case obj of
      None \<Rightarrow> False
    | Some d \<Rightarrow> (case d key of
        None \<Rightarrow> False
      | Some VNone \<Rightarrow> False
      | Some (VList vs) \<Rightarrow> \<not> is_empty (VList vs)
      | Some (VDict kvs) \<Rightarrow> \<not> is_empty (VDict kvs)
      | Some (VStr s) \<Rightarrow> \<not> is_empty (VStr s)
      | Some v \<Rightarrow> True))"

definition get_any_value :: "string \<Rightarrow> item option \<Rightarrow> val option \<Rightarrow> val option" where
  "get_any_value key obj dflt =
     (if \<not> value_exists key obj then dflt else (the obj) key)"

definition get_value_as_int :: "string \<Rightarrow> item \<Rightarrow> int option \<Rightarrow> int option" where
  "get_value_as_int key obj dflt =
     (if \<not> value_exists key (Some obj) then dflt else get_as_int (the (obj key)) dflt)"

definition get_value_as_bool :: "string \<Rightarrow> item \<Rightarrow> bool option \<Rightarrow> bool option" where
  "get_value_as_bool key obj dflt =
     (if \<not> value_exists key (Some obj) then dflt else get_as_bool (the (obj key)) dflt)"

definition get_value_as_string :: "string \<Rightarrow> item \<Rightarrow> string option \<Rightarrow> string option" where
  "get_value_as_string key obj dflt =
     (if \<not> value_exists key (Some obj) then dflt else get_as_string (the (obj key)) dflt)"

definition get_value_as_dict ::
  "string \<Rightarrow> item \<Rightarrow> (string \<times> val) list option \<Rightarrow> (string \<times> val) list option" where
  "get_value_as_dict key obj dflt =
     (if \<not> value_exists key (Some obj) then dflt else get_as_dict (the (obj key)) dflt)"

definition get_value_as_list :: "string \<Rightarrow> item \<Rightarrow> val list option \<Rightarrow> val list option" where
  "get_value_as_list key obj dflt =
     (if \<not> value_exists key (Some obj) then dflt else get_as_list (the (obj key)) dflt)"

definition are_equal :: "string option \<Rightarrow> string option \<Rightarrow> bool" where
  "are_equal str1 str2 =
     (if str1 = None \<and> str2 = None then True
      else if str1 = None then False
      else if str2 = None then False
      else the str1 = the str2)"

fun are_empty :: "val list \<Rightarrow> bool" where
  "are_empty [] = True"
| "are_empty (v # vs) = (if \<not> is_empty v then False else are_empty vs)"

fun is_any_empty_from :: "val list \<Rightarrow> bool" where
  "is_any_empty_from [] = False"
| "is_any_empty_from (v # vs) = (if is_empty v then True else is_any_empty_from vs)"

definition is_any_empty :: "val list \<Rightarrow> bool" where
  "is_any_empty args = (if is_empty (VList args) then True else is_any_empty_from args)"

definition check_required :: "val \<Rightarrow> ('s, unit) act" where
  "check_required v = raise_if (is_empty v) invalid_params (return ())"

section \<open>Reading attributes\<close>

text \<open>\<open>d[key]\<close> raises when the key is missing; \<open>d.get(key, dflt)\<close> does not.\<close>

definition attr :: "item \<Rightarrow> string \<Rightarrow> ('s, val) act" where
  "attr d key = liftA (case d key of None \<Rightarrow> Inl (KeyError key) | Some v \<Rightarrow> Inr v)"

definition attr_or :: "item \<Rightarrow> string \<Rightarrow> val \<Rightarrow> val" where
  "attr_or d key dflt = (case d key of None \<Rightarrow> dflt | Some v \<Rightarrow> v)"

text \<open>
  An operand that must be a list (\<open>x in l\<close>, \<open>l + [x]\<close>, \<open>for x in l\<close>, \<open>set(l)\<close>) and a
  list of strings, as a \<open>List[str]\<close> field of a data class accepts it: numbers and truth
  values are turned into strings, anything else fails validation.
\<close>

definition as_list :: "val \<Rightarrow> ('s, val list) act" where
  "as_list v = (case v of VList vs \<Rightarrow> return vs | _ \<Rightarrow> raise TypeError)"

fun str_field :: "val \<Rightarrow> string option" where
  "str_field (VStr s) = Some s"
| "str_field (VInt i) = Some (py_str (VInt i))"
| "str_field (VBool b) = Some (py_str (VBool b))"
| "str_field _ = None"

fun str_list_field :: "val list \<Rightarrow> string list option" where
  "str_list_field [] = Some []"
| "str_list_field (v # vs) =
     (case (str_field v, str_list_field vs) of
        (Some s, Some ss) \<Rightarrow> Some (s # ss) | _ \<Rightarrow> None)"

fun opt_str :: "string option \<Rightarrow> val" where
  "opt_str None = VNone"
| "opt_str (Some s) = VStr s"

abbreviation strs :: "string list \<Rightarrow> val" where
  "strs ss \<equiv> VList (map VStr ss)"

lemma str_list_field_strs [simp]: "str_list_field (map VStr ss) = Some ss"
  by (induction ss) simp_all

lemma attr_Some [simp]: "d k = Some v \<Longrightarrow> attr d k s = (Inr v, s)"
  by (simp add: attr_def)

lemma attr_None [simp]: "d k = None \<Longrightarrow> attr d k s = (Inl (KeyError k), s)"
  by (simp add: attr_def)

lemma as_list_VList [simp]: "as_list (VList vs) s = (Inr vs, s)"
  by (simp add: as_list_def)

lemma attr_eq_Inr: "attr d k s = (Inr v, t) \<longleftrightarrow> d k = Some v \<and> t = s"
  by (auto simp: attr_def split: option.splits)

lemma as_list_eq_Inr: "as_list v s = (Inr vs, t) \<longleftrightarrow> v = VList vs \<and> t = s"
  by (cases v) (auto simp: as_list_def)

lemma keeps_attr [keeps_rules]: "keeps I (attr d k)"
  by (simp add: attr_def keeps_liftA)

lemma keeps_as_list [keeps_rules]: "keeps I (as_list v)"
  by (cases v) (simp_all add: as_list_def keeps_return keeps_raise)

lemma is_empty_VStr: "is_empty (VStr s) \<longleftrightarrow> py_strip s = []"
  by simp

section \<open>Facts about the conversions\<close>

text \<open>
  What a conversion returns is a fixed point of it: values that were written from a
  converted record are read back unchanged.
\<close>

lemma get_as_string_idem:
  "get_as_string v d = Some s \<Longrightarrow> v = VStr t \<Longrightarrow> d = None \<Longrightarrow> get_as_string (VStr s) e = Some s"
  by (auto simp: Let_def split: if_splits)

lemma get_value_as_string_VStr:
  "obj k = Some (VStr s) \<Longrightarrow> py_strip s = s \<Longrightarrow> s \<noteq> [] \<Longrightarrow> get_value_as_string k obj d = Some s"
  by (simp add: get_value_as_string_def value_exists_def)

lemma get_value_as_string_None [simp]:
  "obj k = None \<Longrightarrow> get_value_as_string k obj d = d"
  by (simp add: get_value_as_string_def value_exists_def)

lemma get_value_as_int_VInt [simp]:
  "obj k = Some (VInt i) \<Longrightarrow> get_value_as_int k obj d = Some i"
  by (simp add: get_value_as_int_def value_exists_def)

lemma get_value_as_int_None [simp]: "obj k = None \<Longrightarrow> get_value_as_int k obj d = d"
  by (simp add: get_value_as_int_def value_exists_def)

lemma get_value_as_bool_VBool [simp]:
  "obj k = Some (VBool b) \<Longrightarrow> get_value_as_bool k obj d = Some b"
  by (simp add: get_value_as_bool_def value_exists_def)

lemma get_value_as_bool_None [simp]: "obj k = None \<Longrightarrow> get_value_as_bool k obj d = d"
  by (simp add: get_value_as_bool_def value_exists_def)

lemma get_value_as_list_VList [simp]:
  "obj k = Some (VList vs) \<Longrightarrow>
     get_value_as_list k obj d = (if vs = [] then d else Some vs)"
  by (simp add: get_value_as_list_def value_exists_def)

lemma get_value_as_list_None [simp]: "obj k = None \<Longrightarrow> get_value_as_list k obj d = d"
  by (simp add: get_value_as_list_def value_exists_def)

lemma get_value_as_dict_None [simp]: "obj k = None \<Longrightarrow> get_value_as_dict k obj d = d"
  by (simp add: get_value_as_dict_def value_exists_def)

lemma are_empty_iff: "are_empty vs \<longleftrightarrow> (\<forall>v \<in> set vs. is_empty v)"
  by (induction vs) auto

text \<open>
  \<^verbatim>\<open>str\<close> and \<^verbatim>\<open>int\<close> are inverse on integers, so a number that passed through a string
  attribute is read back.
\<close>

lemma digit_of_char: "n < 10 \<Longrightarrow> digit_of (char_of (48 + n)) = Some n"
  by (simp add: digit_of_def Let_def of_char_of)

lemma parse_digits_append:
  assumes "parse_digits acc b xs = Some n" and "\<forall>c \<in> set xs. digit_of c \<noteq> None" and "xs \<noteq> []"
  shows "parse_digits acc b (xs @ ys) = parse_digits n True ys"
  using assms
proof (induction xs arbitrary: acc b)
  case (Cons c cs)
  then obtain d where d: "digit_of c = Some d" by auto
  show ?case
  proof (cases "cs = []")
    case True
    then show ?thesis using Cons.prems d by simp
  next
    case False
    then show ?thesis using Cons d by simp
  qed
qed simp

lemma nat_digits_digits: "\<forall>c \<in> set (nat_digits n). digit_of c \<noteq> None"
proof (induction n rule: nat_digits.induct)
  case (1 n)
  show ?case
  proof (cases "n < 10")
    case True
    then show ?thesis by (simp add: nat_digits.simps [of n] digit_of_char)
  next
    case False
    moreover have "digit_of (char_of (48 + n mod 10)) \<noteq> None"
      using digit_of_char [of "n mod 10"] by simp
    ultimately show ?thesis using 1 by (simp add: nat_digits.simps [of n])
  qed
qed

lemma nat_digits_ne: "nat_digits n \<noteq> []"
  by (subst nat_digits.simps) simp

lemma parse_nat_digits: "parse_digits 0 False (nat_digits n) = Some n"
proof (induction n rule: nat_digits.induct)
  case (1 n)
  show ?case
  proof (cases "n < 10")
    case True
    then show ?thesis by (simp add: nat_digits.simps [of n] digit_of_char)
  next
    case False
    then have "parse_digits 0 False (nat_digits (n div 10) @ [char_of (48 + n mod 10)])
        = parse_digits (n div 10) True [char_of (48 + n mod 10)]"
      using 1 by (intro parse_digits_append nat_digits_digits nat_digits_ne) simp
    also have "\<dots> = Some n"
      using digit_of_char [of "n mod 10"] by simp
    finally show ?thesis using False by (simp add: nat_digits.simps [of n])
  qed
qed

end
