(* ===== verification/Dynamo_Tables.thy ===== *)
theory Dynamo_Tables
  imports Py_Values "HOL-Library.AList"
begin

text \<open>
  The outside of the cluster manager and of the virtual desktop controller. Their tables
  live in DynamoDB, and they call Cognito, IAM, SQS, LDAP, EC2, the DCV broker, SSM and each
  other: none of that is code of this repository, so the operations of DynamoDB and the
  answers of the other services are parameters, the fields of the record \<open>env\<close> every
  modelled method takes. What the code relies on in DynamoDB is stated by the locale
  \<open>dynamodb\<close> at the end of the theory: reads observe writes, a conditional write fails
  exactly when its condition does, a query returns the rows of one partition in the order
  of the sort key, page by page.
\<close>

section \<open>Key schemas\<close>

datatype table =
    Users | Groups | GroupMembers | Projects | UserProjects | ProjectGroups | SsoState
  | Schedules | Servers | Sessions | SessionCounters | SessionPermissions | SsmCommands
  | SoftwareStacks | PermissionProfiles
  | ClusterSettings | SnapshotRecords | ApplySnapshots

datatype index = RoleIndex | EmailIndex | ProjectNameIndex

text \<open>A projection \<open>None\<close> keeps every attribute (\<open>ProjectionType ALL\<close>).\<close>

record index_schema =
  index_id :: index
  index_key :: string
  index_projection :: "string list option"

record table_schema =
  hash_key :: string
  range_key :: "string option"
  indexes :: "index_schema list"

definition users_schema :: table_schema where
  "users_schema =
     \<lparr>hash_key = ''username'', range_key = None,
      indexes =
        [\<lparr>index_id = RoleIndex, index_key = ''role'',
          index_projection = Some [''additional_groups'', ''username'']\<rparr>,
         \<lparr>index_id = EmailIndex, index_key = ''email'',
          index_projection = Some [''role'', ''username'', ''is_active'', ''enabled'']\<rparr>]\<rparr>"

definition groups_schema :: table_schema where
  "groups_schema = \<lparr>hash_key = ''group_name'', range_key = None, indexes = []\<rparr>"

definition group_members_schema :: table_schema where
  "group_members_schema =
     \<lparr>hash_key = ''group_name'', range_key = Some ''username'', indexes = []\<rparr>"

definition projects_schema :: table_schema where
  "projects_schema =
     \<lparr>hash_key = ''project_id'', range_key = None,
      indexes = [\<lparr>index_id = ProjectNameIndex, index_key = ''name'', index_projection = None\<rparr>]\<rparr>"

definition user_projects_schema :: table_schema where
  "user_projects_schema =
     \<lparr>hash_key = ''username'', range_key = Some ''project_id'', indexes = []\<rparr>"

definition project_groups_schema :: table_schema where
  "project_groups_schema =
     \<lparr>hash_key = ''group_name'', range_key = Some ''project_id'', indexes = []\<rparr>"

definition sso_state_schema :: table_schema where
  "sso_state_schema = \<lparr>hash_key = ''state'', range_key = None, indexes = []\<rparr>"

text \<open>The tables of the virtual desktop controller.\<close>

definition schedules_schema :: table_schema where
  "schedules_schema = \<lparr>hash_key = ''day_of_week'', range_key = Some ''schedule_id'', indexes = []\<rparr>"

definition servers_schema :: table_schema where
  "servers_schema = \<lparr>hash_key = ''instance_id'', range_key = None, indexes = []\<rparr>"

definition sessions_schema :: table_schema where
  "sessions_schema = \<lparr>hash_key = ''owner'', range_key = Some ''idea_session_id'', indexes = []\<rparr>"

definition session_counters_schema :: table_schema where
  "session_counters_schema =
     \<lparr>hash_key = ''idea_session_id'', range_key = Some ''counter_type'', indexes = []\<rparr>"

definition session_permissions_schema :: table_schema where
  "session_permissions_schema =
     \<lparr>hash_key = ''idea_session_id'', range_key = Some ''actor_name'', indexes = []\<rparr>"

definition ssm_commands_schema :: table_schema where
  "ssm_commands_schema = \<lparr>hash_key = ''command_id'', range_key = None, indexes = []\<rparr>"

definition software_stacks_schema :: table_schema where
  "software_stacks_schema = \<lparr>hash_key = ''base_os'', range_key = Some ''stack_id'', indexes = []\<rparr>"

definition permission_profiles_schema :: table_schema where
  "permission_profiles_schema = \<lparr>hash_key = ''profile_id'', range_key = None, indexes = []\<rparr>"

text \<open>The settings of the cluster and the records of snapshots.\<close>

definition cluster_settings_schema :: table_schema where
  "cluster_settings_schema = \<lparr>hash_key = ''key'', range_key = None, indexes = []\<rparr>"

definition snapshots_schema :: table_schema where
  "snapshots_schema =
     \<lparr>hash_key = ''s3_bucket_name'', range_key = Some ''snapshot_path'', indexes = []\<rparr>"

definition apply_snapshots_schema :: table_schema where
  "apply_snapshots_schema =
     \<lparr>hash_key = ''apply_snapshot_identifier'', range_key = None, indexes = []\<rparr>"

fun schema :: "table \<Rightarrow> table_schema" where
  "schema Users = users_schema"
| "schema Groups = groups_schema"
| "schema GroupMembers = group_members_schema"
| "schema Projects = projects_schema"
| "schema UserProjects = user_projects_schema"
| "schema ProjectGroups = project_groups_schema"
| "schema SsoState = sso_state_schema"
| "schema Schedules = schedules_schema"
| "schema Servers = servers_schema"
| "schema Sessions = sessions_schema"
| "schema SessionCounters = session_counters_schema"
| "schema SessionPermissions = session_permissions_schema"
| "schema SsmCommands = ssm_commands_schema"
| "schema SoftwareStacks = software_stacks_schema"
| "schema PermissionProfiles = permission_profiles_schema"
| "schema ClusterSettings = cluster_settings_schema"
| "schema SnapshotRecords = snapshots_schema"
| "schema ApplySnapshots = apply_snapshots_schema"

text \<open>
  A primary key: the value of the hash attribute and of the range attribute (the empty
  string for a table without one), both strings in every table of the program.
\<close>

type_synonym key = "string \<times> string"

definition key_of :: "table \<Rightarrow> item \<Rightarrow> key option" where
  "key_of t i = (case i (hash_key (schema t)) of
      Some (VStr h) \<Rightarrow>
        (case range_key (schema t) of
           None \<Rightarrow> Some (h, [])
         | Some r \<Rightarrow> (case i r of Some (VStr x) \<Rightarrow> Some (h, x) | _ \<Rightarrow> None))
    | _ \<Rightarrow> None)"

definition key_item :: "table \<Rightarrow> key \<Rightarrow> item" where
  "key_item t k = (case range_key (schema t) of
      None \<Rightarrow> [hash_key (schema t) \<mapsto> VStr (fst k)]
    | Some r \<Rightarrow> [hash_key (schema t) \<mapsto> VStr (fst k), r \<mapsto> VStr (snd k)])"

definition is_key :: "table \<Rightarrow> key \<Rightarrow> bool" where
  "is_key t k \<longleftrightarrow> (range_key (schema t) = None \<longrightarrow> snd k = [])"

lemmas schema_defs =
  users_schema_def groups_schema_def group_members_schema_def projects_schema_def
  user_projects_schema_def project_groups_schema_def sso_state_schema_def
  schedules_schema_def servers_schema_def sessions_schema_def session_counters_schema_def
  session_permissions_schema_def ssm_commands_schema_def software_stacks_schema_def
  permission_profiles_schema_def cluster_settings_schema_def snapshots_schema_def
  apply_snapshots_schema_def

lemma key_of_overlay: "is_key t k \<Longrightarrow> key_of t (i ++ key_item t k) = Some k"
  by (cases t; cases k)
     (auto simp: key_of_def key_item_def is_key_def schema_defs map_add_def)

lemma overlay_own_key: "key_of t i = Some k \<Longrightarrow> i ++ key_item t k = i"
  by (cases t; cases k)
     (auto simp: key_of_def key_item_def schema_defs map_add_def fun_eq_iff
           split: option.splits val.splits)

lemma key_of_is_key: "key_of t i = Some k \<Longrightarrow> is_key t k"
  by (cases t; cases k)
     (auto simp: key_of_def is_key_def schema_defs split: option.splits val.splits)

section \<open>Configuration trees\<close>

text \<open>
  The nested dictionaries a configuration tree is, addressed by a path: the names of a key
  between its dots. \<^verbatim>\<open>pyhocon\<close>, the library that keeps them, is a parameter; on plain keys it
  behaves like these functions (locale \<open>hocon\<close> of the theory \<open>Cluster_Config\<close>).
\<close>

fun dot_parts :: "string \<Rightarrow> string list" where
  "dot_parts [] = [[]]"
| "dot_parts (c # cs) =
     (if c = CHR ''.'' then [] # dot_parts cs
      else case dot_parts cs of [] \<Rightarrow> [[c]] | p # ps \<Rightarrow> (c # p) # ps)"

definition key_path :: "string \<Rightarrow> string list" where
  "key_path k = filter (\<lambda>p. p \<noteq> []) (dot_parts k)"

fun tree_get :: "string list \<Rightarrow> val \<Rightarrow> val option" where
  "tree_get [] v = Some v"
| "tree_get (p # ps) (VDict d) = (case map_of d p of None \<Rightarrow> None | Some v \<Rightarrow> tree_get ps v)"
| "tree_get (p # ps) v = None"

definition subtree :: "(string \<times> val) list \<Rightarrow> string \<Rightarrow> (string \<times> val) list" where
  "subtree d p = (case map_of d p of Some (VDict x) \<Rightarrow> x | _ \<Rightarrow> [])"

fun tree_put :: "string list \<Rightarrow> val \<Rightarrow> (string \<times> val) list \<Rightarrow> (string \<times> val) list" where
  "tree_put [] v d = d"
| "tree_put [p] v d = AList.update p v d"
| "tree_put (p # q # ps) v d = AList.update p (VDict (tree_put (q # ps) v (subtree d p))) d"

fun tree_pop :: "string list \<Rightarrow> (string \<times> val) list \<Rightarrow> (string \<times> val) list" where
  "tree_pop [] d = d"
| "tree_pop [p] d = AList.delete p d"
| "tree_pop (p # q # ps) d = (case map_of d p of
     Some (VDict x) \<Rightarrow> AList.update p (VDict (tree_pop (q # ps) x)) d | _ \<Rightarrow> d)"

section \<open>Calls to the outside\<close>

text \<open>The calls that change something outside, in the order the code makes them.\<close>

datatype ext_call =
    SendTask string "(string \<times> val) list" string
  | PublishUserDisabled string
  | Cognito string "(string \<times> val) list"
  | CacheDelete string
  | HttpPost string string "(string \<times> val) list"
  | UpdateFilesystemMapping string string
  | ConfigureSso
  | Sleep int
  | Iam string "(string \<times> val) list"
  | LdapSyncGroup string "(string \<times> val) list"
  | LdapDeleteGroup string
  | LdapAddUserToGroup "string list" string
  | LdapRemoveUserFromGroup "string list" string
  | LdapSyncUser "(string \<times> val) list"
  | LdapDeleteUser string
  | LdapAddSudoUser string
  | LdapRemoveSudoUser string
  | CreateHomeDirectory string
  | DeleteMessage string
  | PublishEvent string string "(string \<times> val) list"
  | Ec2 string "(string \<times> val) list"
  | DcvBroker string "(string \<times> val) list"
  | Ssm string "(string \<times> val) list"
  | SendNotification string string
  | DeleteMessageBatch "string list"
  | ProjectsClient string "(string \<times> val) list"
  | VdcClient string
  | S3 string "(string \<times> val) list"
  | DynamoDb string "(string \<times> val) list"
  | Efs string "(string \<times> val) list"
  | Fsx string "(string \<times> val) list"

text \<open>
  What the JWT library makes of a token: the claims of a valid one, the two errors the code
  distinguishes, or another error (of fetching the signing key).
\<close>

datatype jwt_result = JwtOk item | JwtExpired | JwtInvalid | JwtError exn

text \<open>
  \<open>ext_result\<close> is what a call returns or raises, given the calls made before it. The
  other fields are read-only answers: configuration values, directory and AWS lookups,
  and library functions (\<open>validators.email\<close>, the uuid and
  password generators, the JSON and base64 coding of a paging cursor, the decoding of a token,
  the check sum of a message,
  a random order, the actual spend and the limit of a budget as decimal texts, what EC2 tells of the instance types, a time stamp as seconds since the epoch and the offset of the cluster's time zone,
  the trees of the HOCON library, and how many of the waiting changes of the settings table its
  stream delivers while the code sleeps).
\<close>

record world =
  ext_result :: "ext_call list \<Rightarrow> ext_call \<Rightarrow> exn + val"
  time_at :: "nat \<Rightarrow> int"
  uuid_at :: "nat \<Rightarrow> string"
  str_hash :: "string \<Rightarrow> nat"
  cluster_name :: string
  cluster_administrator :: string
  cluster_administrator_email :: string
  ds_provider :: string
  sso_enabled :: bool
  test_mode :: bool
  valid_email :: "string \<Rightarrow> bool"
  decode_cursor :: "string \<Rightarrow> exn + val"
  encode_cursor :: "val \<Rightarrow> string"
  generated_password :: string
  user_pool_id :: string
  client_id :: string
  client_secret :: string
  sso_client_id :: string
  sso_client_secret :: string
  hmac_sha256_base64 :: "string \<Rightarrow> string \<Rightarrow> string"
  aws_region :: string
  password_max_age :: int
  ldap_readonly :: bool
  ldap_get_group :: "string \<Rightarrow> exn + item option"
  ldap_get_user :: "string \<Rightarrow> exn + item option"
  ldap_is_existing_user :: "string \<Rightarrow> bool"
  ldap_is_existing_group :: "string \<Rightarrow> bool"
  ldap_is_sudo_user :: "string \<Rightarrow> bool"
  ldap_sudoers_group_name :: string
  ldap_search_groups :: "item list"
  ldap_search_users :: "string option \<Rightarrow> item list"
  sssd_uid_gid :: "string \<Rightarrow> (int \<times> int) option"
  sssd_gid :: "string \<Rightarrow> int option"
  budgets_get_budget :: "string \<Rightarrow> exn + (string \<times> string) option"
  is_security_group_available :: "string \<Rightarrow> bool"
  dcv_host_required_policy_arns :: "string list"
  list_sessions_by_project_id :: "string \<Rightarrow> string list"
  list_software_stacks_by_project_id :: "string \<Rightarrow> string list"
  jwt_decode :: "string \<Rightarrow> jwt_result"
  sso_idp_provider_name :: string
  token_domain_url :: string
  token_scopes :: "string list"
  base64_encode :: "string \<Rightarrow> string"
  module_id :: string
  server_is_running :: bool
  api_lookup :: "string \<Rightarrow> string \<Rightarrow> exn + val"
  config_string :: "string \<Rightarrow> string option"
  permission_types :: "string list"
  from_json :: "string \<Rightarrow> exn + val"
  md5 :: "string \<Rightarrow> string"
  config_list :: "string \<Rightarrow> string list"
  config_bool :: "string \<Rightarrow> bool option"
  shuffle :: "string list \<Rightarrow> string list"
  local_time :: "string \<Rightarrow> exn + int \<times> int"
  config_int :: "string \<Rightarrow> int option"
  instance_types :: "(string \<times> val) list"
  aws_partition :: string
  aws_account_id :: string
  message_of :: "exn \<Rightarrow> string"
  module_version :: string
  own_module_name :: string
  module_set :: string
  hocon_get :: "(string \<times> val) list \<Rightarrow> string \<Rightarrow> val option"
  hocon_put :: "(string \<times> val) list \<Rightarrow> string \<Rightarrow> val \<Rightarrow> (string \<times> val) list"
  hocon_pop :: "(string \<times> val) list \<Rightarrow> string \<Rightarrow> (string \<times> val) list"
  stream_progress :: "ext_call list \<Rightarrow> nat"

datatype scan_op = EQ | CONTAINS

type_synonym scan_filter = "(string \<times> scan_op \<times> val) list"

text \<open>
  \<open>ddb_query db t h limit start\<close>: one page of the rows of table \<open>t\<close> whose hash key is \<open>h\<close>,
  after the sort key \<open>start\<close>, with the \<open>LastEvaluatedKey\<close> when there is more.
\<close>

record 'db env =
  ddb_get :: "'db \<Rightarrow> table \<Rightarrow> key \<Rightarrow> item option"
  ddb_put :: "'db \<Rightarrow> table \<Rightarrow> item \<Rightarrow> 'db"
  ddb_delete :: "'db \<Rightarrow> table \<Rightarrow> key \<Rightarrow> 'db"
  ddb_query :: "'db \<Rightarrow> table \<Rightarrow> string \<Rightarrow> nat option \<Rightarrow> string option \<Rightarrow> item list \<times> string option"
  ddb_index :: "'db \<Rightarrow> index \<Rightarrow> string \<Rightarrow> item list"
  ddb_scan :: "'db \<Rightarrow> table \<Rightarrow> scan_filter \<Rightarrow> item list \<times> key option"
  ddb_scan_from :: "'db \<Rightarrow> table \<Rightarrow> key \<Rightarrow> item list \<times> key option"
  cfg :: world

text \<open>What the stream of the settings table carries: the rows before and after a write.\<close>

datatype stream_event = On_Create item | On_Update item item | On_Delete item

text \<open>
  \<open>st_config\<close> is the configuration tree the process keeps in memory, \<open>st_stream\<close> the changes of
  the settings table it has not heard of yet.
\<close>

record 'db st =
  st_db :: 'db
  st_ticks :: nat
  st_uuids :: nat
  st_trace :: "ext_call list"
  st_config :: "(string \<times> val) list"
  st_stream :: "stream_event list"

abbreviation row :: "'db env \<Rightarrow> 'db st \<Rightarrow> table \<Rightarrow> key \<Rightarrow> item option" where
  "row E s t k \<equiv> ddb_get E (st_db s) t k"

section \<open>The operations as actions\<close>

text \<open>
  A write is refused by the service when the item has no proper key. \<open>update\<close> is
  \<open>UpdateExpression SET\<close>: the named attributes replace the stored ones, the key stays.
\<close>

definition db_get :: "'db env \<Rightarrow> table \<Rightarrow> key \<Rightarrow> ('db st, item option) act" where
  "db_get E t k = getA (\<lambda>s. row E s t k)"

definition db_put :: "'db env \<Rightarrow> table \<Rightarrow> item \<Rightarrow> ('db st, unit) act" where
  "db_put E t i =
     (if key_of t i = None then raise (ServiceError ''ValidationException'')
      else modifyA (\<lambda>s. s\<lparr>st_db := ddb_put E (st_db s) t i\<rparr>))"

definition db_put_new :: "'db env \<Rightarrow> table \<Rightarrow> item \<Rightarrow> ('db st, unit) act" where
  "db_put_new E t i =
     (case key_of t i of
        None \<Rightarrow> raise (ServiceError ''ValidationException'')
      | Some k \<Rightarrow> bindA (db_get E t k) (\<lambda>old.
          if old = None then db_put E t i else raise ConditionalCheckFailed))"

definition db_delete :: "'db env \<Rightarrow> table \<Rightarrow> key \<Rightarrow> ('db st, unit) act" where
  "db_delete E t k = modifyA (\<lambda>s. s\<lparr>st_db := ddb_delete E (st_db s) t k\<rparr>)"

definition set_attributes :: "table \<Rightarrow> key \<Rightarrow> item option \<Rightarrow> item \<Rightarrow> item" where
  "set_attributes t k old upd =
     (case old of None \<Rightarrow> Map.empty | Some i \<Rightarrow> i) ++ upd ++ key_item t k"

definition db_update :: "'db env \<Rightarrow> table \<Rightarrow> key \<Rightarrow> item \<Rightarrow> ('db st, item) act" where
  "db_update E t k upd =
     bindA (db_get E t k) (\<lambda>old.
       let new = set_attributes t k old upd in
       seqA (db_put E t new) (return new))"

definition db_update_existing :: "'db env \<Rightarrow> table \<Rightarrow> key \<Rightarrow> item \<Rightarrow> ('db st, item) act" where
  "db_update_existing E t k upd =
     bindA (db_get E t k) (\<lambda>old.
       if old = None then raise ConditionalCheckFailed else db_update E t k upd)"

definition db_query ::
  "'db env \<Rightarrow> table \<Rightarrow> string \<Rightarrow> nat option \<Rightarrow> string option \<Rightarrow> ('db st, item list \<times> string option) act"
where
  "db_query E t h limit start = getA (\<lambda>s. ddb_query E (st_db s) t h limit start)"

definition db_index :: "'db env \<Rightarrow> index \<Rightarrow> string \<Rightarrow> ('db st, item list) act" where
  "db_index E x v = getA (\<lambda>s. ddb_index E (st_db s) x v)"

definition db_scan :: "'db env \<Rightarrow> table \<Rightarrow> scan_filter \<Rightarrow> ('db st, item list \<times> key option) act" where
  "db_scan E t flt = getA (\<lambda>s. ddb_scan E (st_db s) t flt)"

text \<open>The page of a scan that starts behind a key, when there is one.\<close>

definition db_scan_from :: "'db env \<Rightarrow> table \<Rightarrow> key option \<Rightarrow> ('db st, item list \<times> key option) act" where
  "db_scan_from E t start =
     getA (\<lambda>s. case start of None \<Rightarrow> ddb_scan E (st_db s) t [] | Some k \<Rightarrow> ddb_scan_from E (st_db s) t k)"

text \<open>\<open>Utils.current_time_ms()\<close> and \<open>Utils.uuid()\<close>: every call draws the next value.\<close>

definition current_time_ms :: "'db env \<Rightarrow> ('db st, int) act" where
  "current_time_ms E = (\<lambda>s. (Inr (time_at (cfg E) (st_ticks s)), s\<lparr>st_ticks := Suc (st_ticks s)\<rparr>))"

definition new_uuid :: "'db env \<Rightarrow> ('db st, string) act" where
  "new_uuid E = (\<lambda>s. (Inr (uuid_at (cfg E) (st_uuids s)), s\<lparr>st_uuids := Suc (st_uuids s)\<rparr>))"

definition call :: "'db env \<Rightarrow> ext_call \<Rightarrow> ('db st, val) act" where
  "call E c = (\<lambda>s. (ext_result (cfg E) (st_trace s) c, s\<lparr>st_trace := st_trace s @ [c]\<rparr>))"

definition do_call :: "'db env \<Rightarrow> ext_call \<Rightarrow> ('db st, unit) act" where
  "do_call E c = seqA (call E c) (return ())"

text \<open>Does an item satisfy a scan filter?\<close>

fun val_contains :: "val \<Rightarrow> val \<Rightarrow> bool" where
  "val_contains (VStr s) (VStr p) = (\<exists>n \<in> set [0..<Suc (length s)]. starts_with (drop n s) p)"
| "val_contains (VList vs) v = (v \<in> set vs)"
| "val_contains _ _ = False"

definition scan_matches :: "scan_filter \<Rightarrow> item \<Rightarrow> bool" where
  "scan_matches flt i = list_all (\<lambda>(a, x). case i a of
      None \<Rightarrow> False
    | Some v \<Rightarrow> (case x of (EQ, w) \<Rightarrow> v = w | (CONTAINS, w) \<Rightarrow> val_contains v w)) flt"

fun index_table :: "index \<Rightarrow> table" where
  "index_table RoleIndex = Users"
| "index_table EmailIndex = Users"
| "index_table ProjectNameIndex = Projects"

definition index_schema_of :: "index \<Rightarrow> index_schema" where
  "index_schema_of x =
     hd (filter (\<lambda>sch. index_id sch = x) (indexes (schema (index_table x))))"

text \<open>An index holds the projected attributes, the index key and the table's key.\<close>

definition project_item :: "index \<Rightarrow> item \<Rightarrow> item" where
  "project_item x i =
     (case index_projection (index_schema_of x) of
        None \<Rightarrow> i
      | Some as \<Rightarrow> i |` (set as \<union> {index_key (index_schema_of x),
                                      hash_key (schema (index_table x))}))"

subsection \<open>Runs of the operations\<close>

lemma db_get_run [simp]: "db_get E t k s = (Inr (row E s t k), s)"
  by (simp add: db_get_def)

lemma db_put_run [simp]:
  "key_of t i = Some k \<Longrightarrow> db_put E t i s = (Inr (), s\<lparr>st_db := ddb_put E (st_db s) t i\<rparr>)"
  by (simp add: db_put_def)

lemma db_delete_run [simp]:
  "db_delete E t k s = (Inr (), s\<lparr>st_db := ddb_delete E (st_db s) t k\<rparr>)"
  by (simp add: db_delete_def)

lemma key_of_set_attributes: "is_key t k \<Longrightarrow> key_of t (set_attributes t k old upd) = Some k"
  by (simp add: set_attributes_def key_of_overlay)

lemma db_update_run [simp]:
  "is_key t k \<Longrightarrow> db_update E t k upd s =
     (Inr (set_attributes t k (row E s t k) upd),
      s\<lparr>st_db := ddb_put E (st_db s) t (set_attributes t k (row E s t k) upd)\<rparr>)"
  by (simp add: db_update_def Let_def key_of_set_attributes)

lemma db_update_existing_run [simp]:
  "is_key t k \<Longrightarrow> db_update_existing E t k upd s =
     (if row E s t k = None then (Inl ConditionalCheckFailed, s)
      else (Inr (set_attributes t k (row E s t k) upd),
            s\<lparr>st_db := ddb_put E (st_db s) t (set_attributes t k (row E s t k) upd)\<rparr>))"
  by (simp add: db_update_existing_def)

lemma db_put_new_run [simp]:
  "key_of t i = Some k \<Longrightarrow> db_put_new E t i s =
     (if row E s t k = None then (Inr (), s\<lparr>st_db := ddb_put E (st_db s) t i\<rparr>)
      else (Inl ConditionalCheckFailed, s))"
  by (simp add: db_put_new_def)

lemma db_query_run [simp]:
  "db_query E t h limit start s = (Inr (ddb_query E (st_db s) t h limit start), s)"
  by (simp add: db_query_def)

lemma db_index_run [simp]: "db_index E x v s = (Inr (ddb_index E (st_db s) x v), s)"
  by (simp add: db_index_def)

lemma db_scan_run [simp]: "db_scan E t flt s = (Inr (ddb_scan E (st_db s) t flt), s)"
  by (simp add: db_scan_def)

lemma current_time_ms_run [simp]:
  "current_time_ms E s = (Inr (time_at (cfg E) (st_ticks s)), s\<lparr>st_ticks := Suc (st_ticks s)\<rparr>)"
  by (simp add: current_time_ms_def)

lemma new_uuid_run [simp]:
  "new_uuid E s = (Inr (uuid_at (cfg E) (st_uuids s)), s\<lparr>st_uuids := Suc (st_uuids s)\<rparr>)"
  by (simp add: new_uuid_def)

lemma call_run [simp]:
  "call E c s = (ext_result (cfg E) (st_trace s) c, s\<lparr>st_trace := st_trace s @ [c]\<rparr>)"
  by (simp add: call_def)

lemma do_call_run [simp]:
  "do_call E c s = (case ext_result (cfg E) (st_trace s) c of Inl e \<Rightarrow> Inl e | Inr v \<Rightarrow> Inr (),
                  s\<lparr>st_trace := st_trace s @ [c]\<rparr>)"
  by (simp add: do_call_def seqA_def bindA_def split: sum.splits)

subsection \<open>Sets of strings\<close>

text \<open>\<open>set(xs)\<close> and \<open>set(xs) - set(ys)\<close> as the code iterates them.\<close>

definition name_set :: "'db env \<Rightarrow> string list \<Rightarrow> string list" where
  "name_set E xs = py_set_list (str_hash (cfg E)) xs"

definition set_minus :: "'db env \<Rightarrow> string list \<Rightarrow> string list \<Rightarrow> string list" where
  "set_minus E xs ys = name_set E (filter (\<lambda>x. x \<notin> set ys) xs)"

lemma set_name_set [simp]: "set (name_set E xs) = set xs"
  by (simp add: name_set_def)

lemma set_set_minus [simp]: "set (set_minus E xs ys) = set xs - set ys"
  by (auto simp: set_minus_def)

section \<open>What the code relies on\<close>

text \<open>
  The documented behaviour of the service, over the rows a state answers \<open>ddb_get\<close> with.
  A row carries its own key. A page of a query lists, in the order of the sort key and
  without repetition, the rows after the start key and up to the key it returns as the
  last one evaluated; without a last key there is nothing behind the page. An index
  lists each matching row once.
\<close>

locale dynamodb =
  fixes E :: "'db env"
  assumes get_put: "key_of t i = Some k \<Longrightarrow>
      ddb_get E (ddb_put E d t i) t' k' = (if t' = t \<and> k' = k then Some i else ddb_get E d t' k')"
    and get_delete: "ddb_get E (ddb_delete E d t k) t' k' =
      (if t' = t \<and> k' = k then None else ddb_get E d t' k')"
    and row_key: "ddb_get E d t k = Some i \<Longrightarrow> key_of t i = Some k"
    and finite_rows: "finite {k. ddb_get E d t k \<noteq> None}"
    and query_page: "range_key (schema t) \<noteq> None \<Longrightarrow>
      ddb_query E d t h limit start = (rows, lek) \<Longrightarrow>
      \<exists>ks. rows = map (\<lambda>r. the (ddb_get E d t (h, r))) ks \<and> sorted ks \<and> distinct ks \<and>
        set ks = {r. ddb_get E d t (h, r) \<noteq> None \<and> (\<forall>x. start = Some x \<longrightarrow> x < r) \<and>
                     (\<forall>x. lek = Some x \<longrightarrow> r \<le> x)} \<and>
        (\<forall>x. lek = Some x \<longrightarrow> x \<in> set ks)"
    and index_rows: "\<exists>ks. ddb_index E d x v =
        map (\<lambda>k. project_item x (the (ddb_get E d (index_table x) k))) ks \<and> distinct ks \<and>
        set ks = {k. \<exists>i. ddb_get E d (index_table x) k = Some i \<and>
                         i (index_key (index_schema_of x)) = Some (VStr v)}"
    and scan_page: "ddb_scan E d t flt = (rows, nxt) \<Longrightarrow>
      \<exists>ks. rows = map (\<lambda>k. the (ddb_get E d t k)) ks \<and> distinct ks \<and>
        set ks \<subseteq> {k. \<exists>i. ddb_get E d t k = Some i \<and> scan_matches flt i} \<and>
        (nxt = None \<longrightarrow> {k. \<exists>i. ddb_get E d t k = Some i \<and> scan_matches flt i} \<subseteq> set ks)"
begin

lemma row_put [simp]:
  "key_of t i = Some k \<Longrightarrow>
     ddb_get E (ddb_put E d t i) t' k' = (if t' = t \<and> k' = k then Some i else ddb_get E d t' k')"
  by (rule get_put)

lemma row_delete [simp]:
  "ddb_get E (ddb_delete E d t k) t' k' = (if t' = t \<and> k' = k then None else ddb_get E d t' k')"
  by (rule get_delete)

lemma row_update [simp]:
  "is_key t k \<Longrightarrow>
     ddb_get E (ddb_put E d t (set_attributes t k old upd)) t' k' =
       (if t' = t \<and> k' = k then Some (set_attributes t k old upd) else ddb_get E d t' k')"
  by (rule get_put) (rule key_of_set_attributes)

lemma row_is_key: "ddb_get E d t k \<noteq> None \<Longrightarrow> is_key t k"
  using row_key key_of_is_key by blast

text \<open>A first page is empty only when the partition is.\<close>

lemma query_empty_iff:
  assumes "range_key (schema t) \<noteq> None"
  shows "fst (ddb_query E d t h limit None) = [] \<longleftrightarrow> (\<forall>r. ddb_get E d t (h, r) = None)"
proof -
  obtain rows lek where q: "ddb_query E d t h limit None = (rows, lek)" by force
  obtain ks where "rows = map (\<lambda>r. the (ddb_get E d t (h, r))) ks"
    and "set ks = {r. ddb_get E d t (h, r) \<noteq> None \<and> (\<forall>x. lek = Some x \<longrightarrow> r \<le> x)}"
    and "\<forall>x. lek = Some x \<longrightarrow> x \<in> set ks"
    using query_page [OF assms q] by auto
  then show ?thesis using q by (cases lek) auto
qed

end

text \<open>
  Most methods read the first page of a query or a scan only. They see all rows when
  a result fits into a page, which holds up to 1 MB of items.
\<close>

locale dynamodb_one_page = dynamodb +
  assumes query_one_page: "snd (ddb_query E d t h None None) = None"
    and scan_one_page: "snd (ddb_scan E d t flt) = None"
begin

lemma query_all:
  assumes "range_key (schema t) \<noteq> None"
  obtains ks where "fst (ddb_query E d t h None None) = map (\<lambda>r. the (ddb_get E d t (h, r))) ks"
    and "distinct ks" and "sorted ks" and "set ks = {r. ddb_get E d t (h, r) \<noteq> None}"
proof -
  obtain rows lek where q: "ddb_query E d t h None None = (rows, lek)" by force
  moreover have "lek = None" using query_one_page [of d t h] q by simp
  ultimately show thesis using query_page [OF assms q] that by auto
qed

lemma scan_all:
  obtains ks where "fst (ddb_scan E d t flt) = map (\<lambda>k. the (ddb_get E d t k)) ks"
    and "distinct ks"
    and "set ks = {k. \<exists>i. ddb_get E d t k = Some i \<and> scan_matches flt i}"
proof -
  obtain rows nxt where q: "ddb_scan E d t flt = (rows, nxt)" by force
  moreover have "nxt = None" using scan_one_page [of d t flt] q by simp
  ultimately show thesis using scan_page [OF q] that by auto
qed

end

subsection \<open>Invariants of the rows\<close>

text \<open>
  Reads and the bookkeeping of clocks and calls never change a table, so an invariant
  over the tables is a matter of the writes.
\<close>

definition table_inv :: "('db \<Rightarrow> bool) \<Rightarrow> 'db st \<Rightarrow> bool" where
  "table_inv P s \<longleftrightarrow> P (st_db s)"

lemma keeps_table_reads [keeps_rules]:
  "keeps (table_inv P) (db_get E t k)"
  "keeps (table_inv P) (db_query E t h l x)"
  "keeps (table_inv P) (db_index E ix v)"
  "keeps (table_inv P) (db_scan E t flt)"
  "keeps (table_inv P) (db_scan_from E t start)"
  "keeps (table_inv P) (current_time_ms E)"
  "keeps (table_inv P) (new_uuid E)"
  "keeps (table_inv P) (call E c)"
  "keeps (table_inv P) (do_call E c)"
  by (simp_all add: keeps_def table_inv_def db_scan_from_def)

text \<open>
  An invariant that no write to a table can break. An operation keeps such an invariant when
  the invariant tolerates the writes to the tables the operation writes.
\<close>

definition tolerates :: "'db env \<Rightarrow> ('db \<Rightarrow> bool) \<Rightarrow> table \<Rightarrow> bool" where
  "tolerates E P t \<longleftrightarrow>
     (\<forall>d i. key_of t i \<noteq> None \<longrightarrow> P d \<longrightarrow> P (ddb_put E d t i)) \<and>
     (\<forall>d k. P d \<longrightarrow> P (ddb_delete E d t k))"

lemma keeps_table_writes [keeps_rules]:
  "tolerates E P t \<Longrightarrow> keeps (table_inv P) (db_put E t i)"
  "tolerates E P t \<Longrightarrow> keeps (table_inv P) (db_put_new E t i)"
  "tolerates E P t \<Longrightarrow> keeps (table_inv P) (db_delete E t k)"
  "tolerates E P t \<Longrightarrow> keeps (table_inv P) (db_update E t k u)"
  "tolerates E P t \<Longrightarrow> keeps (table_inv P) (db_update_existing E t k u)"
proof -
  assume a: "tolerates E P t"
  show p: "keeps (table_inv P) (db_put E t i)" for i
    using a by (auto simp: tolerates_def db_put_def keeps_def table_inv_def)
  show "keeps (table_inv P) (db_put_new E t i)"
    unfolding db_put_new_def by (intro keeps_rules p)
  show "keeps (table_inv P) (db_delete E t k)"
    using a by (cases k) (simp add: tolerates_def db_delete_def keeps_def table_inv_def)
  show u: "keeps (table_inv P) (db_update E t k u)"
    unfolding db_update_def Let_def by (intro keeps_rules p)
  show "keeps (table_inv P) (db_update_existing E t k u)"
    unfolding db_update_existing_def by (intro keeps_rules u)
qed

section \<open>A local table store\<close>

text \<open>
  The instance the examples run on, as the unit tests run on a local DynamoDB: the rows
  in the order they were written, a page limit that may be absent.
\<close>

type_synonym mem_db = "((table \<times> key) \<times> item) list"

definition mem_get :: "mem_db \<Rightarrow> table \<Rightarrow> key \<Rightarrow> item option" where
  "mem_get d t k =
     (if is_key t k then map_option (\<lambda>i. i ++ key_item t k) (map_of d (t, k)) else None)"

definition mem_put :: "mem_db \<Rightarrow> table \<Rightarrow> item \<Rightarrow> mem_db" where
  "mem_put d t i = (case key_of t i of None \<Rightarrow> d
     | Some k \<Rightarrow> filter (\<lambda>e. fst e \<noteq> (t, k)) d @ [((t, k), i)])"

definition mem_delete :: "mem_db \<Rightarrow> table \<Rightarrow> key \<Rightarrow> mem_db" where
  "mem_delete d t k = filter (\<lambda>e. fst e \<noteq> (t, k)) d"

definition mem_keys :: "mem_db \<Rightarrow> table \<Rightarrow> key list" where
  "mem_keys d t = remdups (map (snd \<circ> fst) (filter (\<lambda>e. fst (fst e) = t \<and> is_key t (snd (fst e))) d))"

definition mem_partition :: "mem_db \<Rightarrow> table \<Rightarrow> string \<Rightarrow> string option \<Rightarrow> string list" where
  "mem_partition d t h start =
     (let ks = sort (map snd (filter (\<lambda>k. fst k = h) (mem_keys d t)))
      in case start of None \<Rightarrow> ks | Some x \<Rightarrow> filter (\<lambda>r. x < r) ks)"

definition page_count :: "nat option \<Rightarrow> nat option \<Rightarrow> nat \<Rightarrow> nat" where
  "page_count limit cap len =
     (case limit of Some l \<Rightarrow> max 1 l
      | None \<Rightarrow> (case cap of Some c \<Rightarrow> max 1 c | None \<Rightarrow> len))"

definition mem_query ::
  "nat option \<Rightarrow> mem_db \<Rightarrow> table \<Rightarrow> string \<Rightarrow> nat option \<Rightarrow> string option \<Rightarrow> item list \<times> string option"
where
  "mem_query cap d t h limit start =
     (let rest = mem_partition d t h start; n = page_count limit cap (length rest); page = take n rest
      in (map (\<lambda>r. the (mem_get d t (h, r))) page,
          if n < length rest then Some (last page) else None))"

definition mem_index :: "mem_db \<Rightarrow> index \<Rightarrow> string \<Rightarrow> item list" where
  "mem_index d x v =
     map (\<lambda>k. project_item x (the (mem_get d (index_table x) k)))
       (filter (\<lambda>k. case mem_get d (index_table x) k of None \<Rightarrow> False
                    | Some i \<Rightarrow> i (index_key (index_schema_of x)) = Some (VStr v))
          (mem_keys d (index_table x)))"

definition mem_scan ::
  "nat option \<Rightarrow> mem_db \<Rightarrow> table \<Rightarrow> scan_filter \<Rightarrow> item list \<times> key option" where
  "mem_scan cap d t flt =
     (let ks = mem_keys d t;
          page = (case cap of None \<Rightarrow> ks | Some c \<Rightarrow> take (max 1 c) ks);
          hits = filter (\<lambda>k. case mem_get d t k of None \<Rightarrow> False | Some i \<Rightarrow> scan_matches flt i) page
      in (map (\<lambda>k. the (mem_get d t k)) hits,
          if length page < length ks then Some (last page) else None))"

definition mem_scan_from :: "nat option \<Rightarrow> mem_db \<Rightarrow> table \<Rightarrow> key \<Rightarrow> item list \<times> key option" where
  "mem_scan_from cap d t start =
     (let ks = drop 1 (dropWhile (\<lambda>k. k \<noteq> start) (mem_keys d t));
          page = (case cap of None \<Rightarrow> ks | Some c \<Rightarrow> take (max 1 c) ks)
      in (map (\<lambda>k. the (mem_get d t k)) page,
          if length page < length ks then Some (last page) else None))"

definition mem_env :: "nat option \<Rightarrow> world \<Rightarrow> mem_db env" where
  "mem_env cap w =
     \<lparr>ddb_get = mem_get, ddb_put = mem_put, ddb_delete = mem_delete,
      ddb_query = mem_query cap, ddb_index = mem_index, ddb_scan = mem_scan cap,
      ddb_scan_from = mem_scan_from cap, cfg = w\<rparr>"

lemma mem_env_simps [simp]:
  "ddb_get (mem_env c w) = mem_get" "ddb_put (mem_env c w) = mem_put"
  "ddb_delete (mem_env c w) = mem_delete" "ddb_query (mem_env c w) = mem_query c"
  "ddb_index (mem_env c w) = mem_index" "ddb_scan (mem_env c w) = mem_scan c"
  "cfg (mem_env c w) = w"
  by (simp_all add: mem_env_def)

lemma map_of_filter_key:
  "map_of (filter (\<lambda>e. fst e \<noteq> x) d) y = (if y = x then None else map_of d y)"
  by (induction d) auto

lemma set_mem_keys: "set (mem_keys d t) = {k. mem_get d t k \<noteq> None}"
proof -
  have "k \<in> set (mem_keys d t) \<longleftrightarrow> is_key t k \<and> (t, k) \<in> fst ` set d" for k
    by (force simp: mem_keys_def)
  moreover have "mem_get d t k \<noteq> None \<longleftrightarrow> is_key t k \<and> (t, k) \<in> fst ` set d" for k
    by (auto simp: mem_get_def dom_map_of_conv_image_fst [symmetric] dom_def)
  ultimately show ?thesis by blast
qed

lemma distinct_mem_keys [simp]: "distinct (mem_keys d t)"
  by (simp add: mem_keys_def)

lemma set_mem_ranges:
  "set (map snd (filter (\<lambda>k. fst k = h) (mem_keys d t))) = {r. mem_get d t (h, r) \<noteq> None}"
  by (force simp: set_mem_keys)

lemma distinct_mem_ranges: "distinct (map snd (filter (\<lambda>k. fst k = h) (mem_keys d t)))"
  by (auto simp: distinct_map inj_on_def intro: distinct_filter)

text \<open>A prefix of a sorted list is what lies below its last element.\<close>

lemma take_sorted_distinct:
  assumes "sorted xs" and "distinct xs" and "0 < n" and "n < length xs"
  shows "set (take n xs) = {x \<in> set xs. x \<le> last (take n xs)}"
    and "last (take n xs) \<in> set (take n xs)"
proof -
  let ?p = "take n xs" and ?q = "drop n xs"
  have ne: "?p \<noteq> []" using assms by auto
  then obtain ys y where p: "?p = ys @ [y]" by (metis rev_exhaust)
  have xs: "xs = (ys @ [y]) @ ?q" using p by (metis append_take_drop_id)
  then have "sorted ((ys @ [y]) @ ?q)" and "distinct ((ys @ [y]) @ ?q)"
    using assms(1,2) by simp_all
  then have "\<forall>x \<in> set ys. x \<le> y" and "\<forall>z \<in> set ?q. y < z"
    by (auto simp: sorted_append simp del: append_assoc) (metis order_le_less)
  moreover have "set xs = set ys \<union> {y} \<union> set ?q"
    by (subst xs) auto
  ultimately show "set ?p = {x \<in> set xs. x \<le> last ?p}"
    using p by auto
  show "last ?p \<in> set ?p" using ne by simp
qed

lemma mem_partition_facts:
  "sorted (mem_partition d t h start)" "distinct (mem_partition d t h start)"
  "set (mem_partition d t h start) =
     {r. mem_get d t (h, r) \<noteq> None \<and> (\<forall>x. start = Some x \<longrightarrow> x < r)}"
proof -
  have "sorted (filter P (sort xs))" for P and xs :: "string list"
    by (metis list.map_ident sorted_filter sorted_sort)
  then show "sorted (mem_partition d t h start)"
    by (simp add: mem_partition_def Let_def split: option.splits)
  show "distinct (mem_partition d t h start)"
    using distinct_mem_ranges [of h d t]
    by (simp add: mem_partition_def Let_def split: option.splits)
  show "set (mem_partition d t h start) =
     {r. mem_get d t (h, r) \<noteq> None \<and> (\<forall>x. start = Some x \<longrightarrow> x < r)}"
    using set_mem_ranges [of h d t]
    by (auto simp: mem_partition_def Let_def split: option.splits)
qed

lemma mem_query_page:
  assumes "mem_query cap d t h limit start = (rows, l)"
  shows "\<exists>ks. rows = map (\<lambda>r. the (mem_get d t (h, r))) ks \<and> sorted ks \<and> distinct ks \<and>
        set ks = {r. mem_get d t (h, r) \<noteq> None \<and> (\<forall>x. start = Some x \<longrightarrow> x < r) \<and>
                     (\<forall>x. l = Some x \<longrightarrow> r \<le> x)} \<and>
        (\<forall>x. l = Some x \<longrightarrow> x \<in> set ks)"
proof -
  define rest where "rest = mem_partition d t h start"
  define n where "n = page_count limit cap (length rest)"
  have rows: "rows = map (\<lambda>r. the (mem_get d t (h, r))) (take n rest)"
    and l: "l = (if n < length rest then Some (last (take n rest)) else None)"
    using assms unfolding mem_query_def Let_def rest_def n_def by blast+
  have n0: "0 < n" if "n < length rest"
    using that by (auto simp: n_def page_count_def split: option.splits)
  have srt: "sorted rest" and dis: "distinct rest"
    and srest: "set rest = {r. mem_get d t (h, r) \<noteq> None \<and> (\<forall>x. start = Some x \<longrightarrow> x < r)}"
    using mem_partition_facts unfolding rest_def by blast+
  have "set (take n rest) = {r \<in> set rest. \<forall>x. l = Some x \<longrightarrow> r \<le> x} \<and>
        (\<forall>x. l = Some x \<longrightarrow> x \<in> set (take n rest))"
    using take_sorted_distinct [OF srt dis n0] by (auto simp: l)
  then show ?thesis
    using rows srt dis srest by (intro exI [of _ "take n rest"]) auto
qed

lemma mem_dynamodb: "dynamodb (mem_env cap w)"
proof
  fix t i k d t' k'
  assume k: "key_of t i = Some k"
  then show "ddb_get (mem_env cap w) (ddb_put (mem_env cap w) d t i) t' k' =
      (if t' = t \<and> k' = k then Some i else ddb_get (mem_env cap w) d t' k')"
    using key_of_is_key [OF k] overlay_own_key [OF k]
    by (auto simp: mem_get_def mem_put_def map_add_def map_of_filter_key
        split: option.splits)
next
  fix d t k t' k'
  show "ddb_get (mem_env cap w) (ddb_delete (mem_env cap w) d t k) t' k' =
      (if t' = t \<and> k' = k then None else ddb_get (mem_env cap w) d t' k')"
    by (auto simp: mem_get_def mem_delete_def map_of_filter_key)
next
  fix d t k i
  assume "ddb_get (mem_env cap w) d t k = Some i"
  then show "key_of t i = Some k"
    by (auto simp: mem_get_def key_of_overlay split: if_splits)
next
  fix d t
  show "finite {k. ddb_get (mem_env cap w) d t k \<noteq> None}"
    by (metis List.finite_set mem_env_simps(1) set_mem_keys)
next
  fix t d h limit start rows l
  assume "ddb_query (mem_env cap w) d t h limit start = (rows, l)"
  then show "\<exists>ks. rows = map (\<lambda>r. the (ddb_get (mem_env cap w) d t (h, r))) ks \<and> sorted ks \<and>
      distinct ks \<and>
      set ks = {r. ddb_get (mem_env cap w) d t (h, r) \<noteq> None \<and> (\<forall>x. start = Some x \<longrightarrow> x < r) \<and>
                   (\<forall>x. l = Some x \<longrightarrow> r \<le> x)} \<and>
      (\<forall>x. l = Some x \<longrightarrow> x \<in> set ks)"
    using mem_query_page by simp
next
  fix d x v
  show "\<exists>ks. ddb_index (mem_env cap w) d x v =
      map (\<lambda>k. project_item x (the (ddb_get (mem_env cap w) d (index_table x) k))) ks \<and>
      distinct ks \<and>
      set ks = {k. \<exists>i. ddb_get (mem_env cap w) d (index_table x) k = Some i \<and>
                       i (index_key (index_schema_of x)) = Some (VStr v)}"
    by (intro exI [of _ "filter (\<lambda>k. case mem_get d (index_table x) k of None \<Rightarrow> False
            | Some i \<Rightarrow> i (index_key (index_schema_of x)) = Some (VStr v))
          (mem_keys d (index_table x))"])
       (auto simp: mem_index_def set_mem_keys split: option.splits)
next
  fix d t flt rows nxt
  assume q: "ddb_scan (mem_env cap w) d t flt = (rows, nxt)"
  define page where "page = (case cap of None \<Rightarrow> mem_keys d t | Some c \<Rightarrow> take (max 1 c) (mem_keys d t))"
  have "distinct page" and sub: "set page \<subseteq> set (mem_keys d t)"
    by (auto simp: page_def split: option.splits dest: in_set_takeD)
  moreover have "nxt = None \<Longrightarrow> set page = set (mem_keys d t)"
    using q by (auto simp: mem_scan_def Let_def page_def split: option.splits if_splits)
  ultimately show "\<exists>ks. rows = map (\<lambda>k. the (ddb_get (mem_env cap w) d t k)) ks \<and> distinct ks \<and>
      set ks \<subseteq> {k. \<exists>i. ddb_get (mem_env cap w) d t k = Some i \<and> scan_matches flt i} \<and>
      (nxt = None \<longrightarrow>
         {k. \<exists>i. ddb_get (mem_env cap w) d t k = Some i \<and> scan_matches flt i} \<subseteq> set ks)"
    using q set_mem_keys [of d t]
    by (intro exI [of _ "filter (\<lambda>k. case mem_get d t k of None \<Rightarrow> False
          | Some i \<Rightarrow> scan_matches flt i) page"])
       (auto simp: mem_scan_def Let_def page_def split: option.splits)
qed

interpretation local_store: dynamodb "mem_env cap w" for cap w
  by (rule mem_dynamodb)

lemma mem_dynamodb_one_page: "dynamodb_one_page (mem_env None w)"
proof (intro dynamodb_one_page.intro dynamodb_one_page_axioms.intro)
  show "dynamodb (mem_env None w)" by (rule mem_dynamodb)
  fix d t h
  show "snd (ddb_query (mem_env None w) d t h None None) = None"
    by (simp add: mem_query_def Let_def page_count_def)
  fix flt
  show "snd (ddb_scan (mem_env None w) d t flt) = None"
    by (simp add: mem_scan_def Let_def)
qed

interpretation local_store_page: dynamodb_one_page "mem_env None w" for w
  by (rule mem_dynamodb_one_page)

text \<open>The configuration the examples run with: every call succeeds and returns nothing.\<close>

definition local_world :: world where
  "local_world = \<lparr>
     ext_result = (\<lambda>_ _. Inr VNone), time_at = (\<lambda>n. int n), uuid_at = (\<lambda>n. nat_digits n),
     str_hash = length, cluster_name = ''res'', cluster_administrator = ''clusteradmin'',
     cluster_administrator_email = ''admin@example.org'', ds_provider = ''activedirectory'',
     sso_enabled = True, test_mode = True, valid_email = (\<lambda>e. CHR ''@'' \<in> set e),
     decode_cursor = (\<lambda>_. Inr VNone), encode_cursor = (\<lambda>_. ''more''),
     generated_password = ''Passw0rd!'',
     user_pool_id = ''pool'', client_id = ''client'', client_secret = ''secret'',
     sso_client_id = ''sso-client'', sso_client_secret = ''sso-secret'',
     hmac_sha256_base64 = (\<lambda>key msg. key @ msg), aws_region = ''eu-west-1'', password_max_age = 42,
     ldap_readonly = True, ldap_get_group = (\<lambda>_. Inr None), ldap_get_user = (\<lambda>_. Inr None),
     ldap_is_existing_user = (\<lambda>_. False), ldap_is_existing_group = (\<lambda>_. False),
     ldap_is_sudo_user = (\<lambda>_. False), ldap_sudoers_group_name = ''sudoers'',
     ldap_search_groups = [], ldap_search_users = (\<lambda>_. []),
     sssd_uid_gid = (\<lambda>_. Some (1001, 1001)), sssd_gid = (\<lambda>_. Some 1001),
     budgets_get_budget = (\<lambda>_. Inr None), is_security_group_available = (\<lambda>_. True),
     dcv_host_required_policy_arns = [''arn:required''],
     list_sessions_by_project_id = (\<lambda>_. []), list_software_stacks_by_project_id = (\<lambda>_. []),
     jwt_decode = (\<lambda>_. JwtOk [''username'' \<mapsto> VStr ''idp_u1@example.org'']),
     sso_idp_provider_name = ''IDP'', token_domain_url = ''https://auth'', token_scopes = [''vdc/read'', ''vdc/write''],
     base64_encode = id, module_id = ''cluster-manager'', server_is_running = True,
     api_lookup = (\<lambda>_ _. Inr VNone), config_string = (\<lambda>k. Some k),
     permission_types = [''builtin'', ''display''], from_json = (\<lambda>_. Inr VNone), md5 = id,
     config_list = (\<lambda>_. [''subnet-1'']), config_bool = (\<lambda>_. Some False), shuffle = id,
     local_time = (\<lambda>_. Inr (0, 0)), config_int = (\<lambda>_. Some 10),
     instance_types = [(''t3.large'', VDict [(''InstanceType'', VStr ''t3.large'')])],
     aws_partition = ''aws'', aws_account_id = ''123456789012'', message_of = (\<lambda>_. ''failed''),
     module_version = ''2024.04.02'', own_module_name = ''cluster-manager'', module_set = ''default'',
     hocon_get = (\<lambda>t k. tree_get (key_path k) (VDict t)), hocon_put = (\<lambda>t k v. tree_put (key_path k) v t),
     hocon_pop = (\<lambda>t k. tree_pop (key_path k) t), stream_progress = (\<lambda>_. 0)\<rparr>"

abbreviation local_env :: "mem_db env" where
  "local_env \<equiv> mem_env None local_world"

definition local_state :: "mem_db \<Rightarrow> mem_db st" where
  "local_state d = \<lparr>st_db = d, st_ticks = 0, st_uuids = 0, st_trace = [], st_config = [], st_stream = []\<rparr>"

lemma local_state_simps [simp]:
  "st_db (local_state d) = d" "st_ticks (local_state d) = 0"
  "st_uuids (local_state d) = 0" "st_trace (local_state d) = []"
  "st_config (local_state d) = []" "st_stream (local_state d) = []"
  by (simp_all add: local_state_def)

end
