(* ===== verification/Accounts_DAO.thy ===== *)
theory Accounts_DAO
  imports Dynamo_Tables "HOL-Library.AList"
begin

text \<open>
  The account tables: \<^verbatim>\<open>accounts/auth_utils.py\<close> and the data access objects of
  \<^verbatim>\<open>accounts/db\<close> (users, groups, group members, single sign-on states), with the data
  classes \<open>User\<close> and \<open>Group\<close> of \<^verbatim>\<open>ideadatamodel/auth/auth_model.py\<close> they convert rows from
  and to. Time stamps are kept in milliseconds.
\<close>

section \<open>AuthUtils\<close>

definition sanitize_username :: "string \<Rightarrow> exn + string" where
  "sanitize_username username =
     (if blank username then Inl invalid_params else Inr (py_lower (py_strip username)))"

definition sanitize_email :: "world \<Rightarrow> string \<Rightarrow> exn + string" where
  "sanitize_email w email =
     (if blank email then Inl invalid_params
      else let e = py_lower (py_strip email) in
        if \<not> valid_email w e then Inl invalid_params else Inr e)"

definition invalid_operation :: exn where
  "invalid_operation = SocaException AUTH_INVALID_OPERATION"

definition check_allowed_username :: "string \<Rightarrow> exn + unit" where
  "check_allowed_username username =
     (if py_lower (py_strip username) \<in>
         {''root'', ''admin'', ''administrator'', ''ideaserviceaccount'', ''ec2-user'',
          ''centos'', ''ssm-user''}
      then Inl invalid_params else Inr ())"

section \<open>Data classes\<close>

record user =
  u_username :: "string option"
  u_password :: "string option"
  u_email :: "string option"
  u_uid :: "int option"
  u_gid :: "int option"
  u_group_name :: "string option"
  u_ds_group_name :: "string option"
  u_additional_groups :: "string list option"
  u_login_shell :: "string option"
  u_home_dir :: "string option"
  u_sudo :: "bool option"
  u_status :: "string option"
  u_enabled :: "bool option"
  u_password_last_set :: "int option"
  u_password_max_age :: "int option"
  u_created_on :: "int option"
  u_updated_on :: "int option"
  u_synced_on :: "int option"
  u_role :: "string option"
  u_is_active :: "bool option"

record group =
  g_title :: "string option"
  g_description :: "string option"
  g_name :: "string option"
  g_ds_name :: "string option"
  g_gid :: "int option"
  g_group_type :: "string option"
  g_ref :: "string option"
  g_enabled :: "bool option"
  g_created_on :: "int option"
  g_updated_on :: "int option"
  g_synced_on :: "int option"
  g_type :: "string option"
  g_role :: "string option"

text \<open>How an optional field of a data class accepts an attribute.\<close>

definition opt_str_field :: "val option \<Rightarrow> exn + string option" where
  "opt_str_field v = (case v of
      None \<Rightarrow> Inr None
    | Some VNone \<Rightarrow> Inr None
    | Some w \<Rightarrow> (case str_field w of None \<Rightarrow> Inl ValidationError | Some s \<Rightarrow> Inr (Some s)))"

definition opt_bool_field :: "val option \<Rightarrow> exn + bool option" where
  "opt_bool_field v = (case v of
      None \<Rightarrow> Inr None
    | Some VNone \<Rightarrow> Inr None
    | Some (VBool b) \<Rightarrow> Inr (Some b)
    | Some (VInt i) \<Rightarrow> (if i = 0 then Inr (Some False) else if i = 1 then Inr (Some True)
                       else Inl ValidationError)
    | Some (VStr s) \<Rightarrow>
        (if py_lower s \<in> {''0'', ''off'', ''f'', ''false'', ''n'', ''no''} then Inr (Some False)
         else if py_lower s \<in> {''1'', ''on'', ''t'', ''true'', ''y'', ''yes''} then Inr (Some True)
         else Inl ValidationError)
    | Some _ \<Rightarrow> Inl ValidationError)"

definition opt_list_field :: "val list option \<Rightarrow> exn + string list option" where
  "opt_list_field v = (case v of
      None \<Rightarrow> Inr None
    | Some vs \<Rightarrow> (case str_list_field vs of None \<Rightarrow> Inl ValidationError | Some ss \<Rightarrow> Inr (Some ss)))"

definition int_of_attr :: "val option \<Rightarrow> exn + int option" where
  "int_of_attr v = (case v of
      None \<Rightarrow> Inr None
    | Some (VInt i) \<Rightarrow> Inr (Some i)
    | Some (VBool b) \<Rightarrow> Inr (Some (if b then 1 else 0))
    | Some (VStr s) \<Rightarrow> (case py_int s of None \<Rightarrow> Inl ValueError | Some i \<Rightarrow> Inr (Some i))
    | Some _ \<Rightarrow> Inl TypeError)"

definition put_opt :: "string \<Rightarrow> ('a \<Rightarrow> val) \<Rightarrow> 'a option \<Rightarrow> item \<Rightarrow> item" where
  "put_opt k f v d = (case v of None \<Rightarrow> d | Some x \<Rightarrow> d(k \<mapsto> f x))"

section \<open>Users\<close>

definition user_from_db :: "item \<Rightarrow> exn + user" where
  "user_from_db d =
     bindE (opt_list_field (get_value_as_list ''additional_groups'' d None)) (\<lambda>additional_groups.
     bindE (opt_str_field (d ''role'')) (\<lambda>role.
     bindE (int_of_attr (d ''synced_on'')) (\<lambda>synced_on.
     bindE (opt_bool_field (d ''is_active'')) (\<lambda>is_active.
     Inr \<lparr>u_username = get_value_as_string ''username'' d None,
          u_password = None,
          u_email = get_value_as_string ''email'' d None,
          u_uid = get_value_as_int ''uid'' d None,
          u_gid = get_value_as_int ''gid'' d None,
          u_group_name = get_value_as_string ''group_name'' d None,
          u_ds_group_name = None,
          u_additional_groups = additional_groups,
          u_login_shell = get_value_as_string ''login_shell'' d None,
          u_home_dir = get_value_as_string ''home_dir'' d None,
          u_sudo = get_value_as_bool ''sudo'' d None,
          u_status = None,
          u_enabled = get_value_as_bool ''enabled'' d None,
          u_password_last_set = get_value_as_int ''password_last_set'' d None,
          u_password_max_age = get_value_as_int ''password_max_age'' d None,
          u_created_on = get_value_as_int ''created_on'' d None,
          u_updated_on = get_value_as_int ''updated_on'' d None,
          u_synced_on = synced_on,
          u_role = role,
          u_is_active = is_active\<rparr>))))"

definition user_to_db :: "user \<Rightarrow> item" where
  "user_to_db u =
     put_opt ''additional_groups'' strs (u_additional_groups u)
    (put_opt ''password_max_age'' VInt (u_password_max_age u)
    (put_opt ''password_last_set'' VInt (u_password_last_set u)
    (put_opt ''enabled'' VBool (u_enabled u)
    (put_opt ''is_active'' VBool (u_is_active u)
    (put_opt ''role'' VStr (u_role u)
    (put_opt ''sudo'' VBool (u_sudo u)
    (put_opt ''home_dir'' VStr (u_home_dir u)
    (put_opt ''login_shell'' VStr (u_login_shell u)
    (put_opt ''group_name'' VStr (u_group_name u)
    (put_opt ''gid'' VInt (u_gid u)
    (put_opt ''uid'' VInt (u_uid u)
    (put_opt ''email'' VStr (u_email u)
       [''username'' \<mapsto> opt_str (u_username u)]))))))))))))"

definition user_dao_create_user :: "'db env \<Rightarrow> item \<Rightarrow> ('db st, item) act" where
  "user_dao_create_user E user =
     bindA (liftA (sanitize_username (str_or_empty (get_value_as_string ''username'' user None)))) (\<lambda>username.
     bindA (current_time_ms E) (\<lambda>created_on.
     bindA (current_time_ms E) (\<lambda>updated_on.
     bindA (current_time_ms E) (\<lambda>synced_on.
       let created_user = user(''username'' \<mapsto> VStr username, ''created_on'' \<mapsto> VInt created_on,
                               ''updated_on'' \<mapsto> VInt updated_on, ''synced_on'' \<mapsto> VInt synced_on)
       in seqA (db_put_new E Users created_user) (return created_user)))))"

definition user_dao_get_user :: "'db env \<Rightarrow> string \<Rightarrow> ('db st, item option) act" where
  "user_dao_get_user E username =
     bindA (liftA (sanitize_username username)) (\<lambda>username.
     seqA (current_time_ms E)
    (bindA (db_get E Users (username, [])) (\<lambda>result.
     seqA (current_time_ms E)
     (return result))))"

definition user_dao_get_user_by_email :: "'db env \<Rightarrow> string \<Rightarrow> ('db st, item list) act" where
  "user_dao_get_user_by_email E email =
     bindA (liftA (sanitize_email (cfg E) email)) (\<lambda>email. db_index E EmailIndex email)"

definition without_keys :: "string list \<Rightarrow> item \<Rightarrow> item" where
  "without_keys ks d = d |` (- set ks)"

definition user_dao_update_user :: "'db env \<Rightarrow> item \<Rightarrow> ('db st, item) act" where
  "user_dao_update_user E user =
     bindA (liftA (sanitize_username (str_or_empty (get_value_as_string ''username'' user None)))) (\<lambda>username.
     bindA (current_time_ms E) (\<lambda>now.
     bindA (db_update_existing E Users (username, [])
              (without_keys [''username'', ''created_on''] (user(''updated_on'' \<mapsto> VInt now)))) (\<lambda>updated_user.
     return (updated_user(''username'' \<mapsto> VStr username)))))"

definition user_dao_delete_user :: "'db env \<Rightarrow> string \<Rightarrow> ('db st, unit) act" where
  "user_dao_delete_user E username =
     bindA (liftA (sanitize_username username)) (\<lambda>username. db_delete E Users (username, []))"

text \<open>
  Listing requests. A cursor is decoded and handed to \<open>Table.scan\<close> as \<open>LastEvaluatedKey\<close>,
  which is no parameter of that call: boto3 rejects the request.
\<close>

record list_filter =
  f_key :: string
  f_eq :: "val option"
  f_like :: "string option"

record list_request =
  r_cursor :: "string option"
  r_filters :: "list_filter list"

text \<open>The dictionary of conditions by attribute: a later one replaces an earlier one.\<close>

fun scan_filter_of :: "list_filter list \<Rightarrow> scan_filter \<Rightarrow> scan_filter" where
  "scan_filter_of [] m = m"
| "scan_filter_of (f # fs) m =
     (let m1 = (case f_eq f of None \<Rightarrow> m | Some v \<Rightarrow> AList.update (f_key f) (EQ, v) m)
      in scan_filter_of fs (case f_like f of
           None \<Rightarrow> m1 | Some p \<Rightarrow> AList.update (f_key f) (CONTAINS, VStr p) m1))"

definition key_val :: "table \<Rightarrow> key \<Rightarrow> val" where
  "key_val t k = VDict ((hash_key (schema t), VStr (fst k)) #
     (case range_key (schema t) of None \<Rightarrow> [] | Some r \<Rightarrow> [(r, VStr (snd k))]))"

definition list_rows ::
  "'db env \<Rightarrow> table \<Rightarrow> list_request \<Rightarrow> ('db st, item list \<times> string option) act" where
  "list_rows E t req =
     bindA (if blank (str_or_empty (r_cursor req)) then return VNone
            else liftA (decode_cursor (cfg E) (str_or_empty (r_cursor req)))) (\<lambda>last_evaluated_key.
     raise_if (last_evaluated_key \<noteq> VNone) (ServiceError ''ParamValidationError'')
    (bindA (db_scan E t (scan_filter_of (r_filters req) [])) (\<lambda>scan_result.
     return (fst scan_result,
             map_option (\<lambda>k. encode_cursor (cfg E) (key_val t k)) (snd scan_result)))))"

definition user_dao_list_users ::
  "'db env \<Rightarrow> list_request \<Rightarrow> ('db st, user list \<times> string option) act" where
  "user_dao_list_users E req =
     seqA (current_time_ms E)
    (bindA (list_rows E Users req) (\<lambda>(db_users, cursor).
     seqA (current_time_ms E)
    (seqA (current_time_ms E)
    (bindA (liftA (map_sum_list user_from_db db_users)) (\<lambda>users.
     seqA (current_time_ms E)
     (return (users, cursor)))))))"

section \<open>Groups\<close>

definition group_from_db :: "item \<Rightarrow> group" where
  "group_from_db d =
     \<lparr>g_title = get_value_as_string ''title'' d None,
      g_description = get_value_as_string ''description'' d None,
      g_name = get_value_as_string ''group_name'' d None,
      g_ds_name = get_value_as_string ''ds_name'' d None,
      g_gid = get_value_as_int ''gid'' d None,
      g_group_type = get_value_as_string ''group_type'' d None,
      g_ref = None,
      g_enabled = get_value_as_bool ''enabled'' d None,
      g_created_on = get_value_as_int ''created_on'' d None,
      g_updated_on = get_value_as_int ''updated_on'' d None,
      g_synced_on = get_value_as_int ''synced_on'' d None,
      g_type = get_value_as_string ''type'' d None,
      g_role = get_value_as_string ''role'' d None\<rparr>"

definition group_to_db :: "group \<Rightarrow> item" where
  "group_to_db g =
     put_opt ''ds_name'' VStr (g_ds_name g)
    (put_opt ''ref'' VStr (g_ref g)
    (put_opt ''role'' VStr (g_role g)
    (put_opt ''type'' VStr (g_type g)
    (put_opt ''group_type'' VStr (g_group_type g)
    (put_opt ''enabled'' VBool (g_enabled g)
    (put_opt ''description'' VStr (g_description g)
    (put_opt ''title'' VStr (g_title g)
    (put_opt ''gid'' VInt (g_gid g)
    (put_opt ''group_name'' VStr (g_name g)
       [''group_name'' \<mapsto> opt_str (g_name g)])))))))))"

definition group_dao_create_group :: "'db env \<Rightarrow> item \<Rightarrow> ('db st, item) act" where
  "group_dao_create_group E grp =
     raise_if (blank (str_or_empty (get_value_as_string ''group_name'' grp None))) invalid_params
    (bindA (current_time_ms E) (\<lambda>created_on.
     bindA (current_time_ms E) (\<lambda>updated_on.
       let created_group = grp(''created_on'' \<mapsto> VInt created_on, ''updated_on'' \<mapsto> VInt updated_on)
       in seqA (db_put_new E Groups created_group) (return created_group))))"

definition group_dao_get_group :: "'db env \<Rightarrow> string \<Rightarrow> ('db st, item option) act" where
  "group_dao_get_group E group_name =
     raise_if (blank group_name) invalid_params (db_get E Groups (group_name, []))"

definition group_dao_update_group :: "'db env \<Rightarrow> item \<Rightarrow> ('db st, item) act" where
  "group_dao_update_group E grp =
     (let group_name = str_or_empty (get_value_as_string ''group_name'' grp None) in
     raise_if (blank group_name) invalid_params
    (bindA (current_time_ms E) (\<lambda>now.
     db_update_existing E Groups (group_name, [])
       (without_keys [''group_name'', ''created_on''] (grp(''updated_on'' \<mapsto> VInt now))))))"

definition group_dao_delete_group :: "'db env \<Rightarrow> string \<Rightarrow> ('db st, unit) act" where
  "group_dao_delete_group E group_name =
     raise_if (blank group_name) invalid_params (db_delete E Groups (group_name, []))"

definition group_dao_list_groups ::
  "'db env \<Rightarrow> list_request \<Rightarrow> ('db st, group list \<times> string option) act" where
  "group_dao_list_groups E req =
     bindA (list_rows E Groups req) (\<lambda>(db_groups, cursor).
     return (map group_from_db db_groups, cursor))"

section \<open>Group members\<close>

text \<open>A key attribute read from a row: the tables declare them of type string.\<close>

definition str_attr :: "string \<Rightarrow> item \<Rightarrow> exn + string" where
  "str_attr k d = (case d k of None \<Rightarrow> Inl (KeyError k) | Some (VStr s) \<Rightarrow> Inr s | Some _ \<Rightarrow> Inl TypeError)"

definition create_membership :: "'db env \<Rightarrow> string \<Rightarrow> string \<Rightarrow> ('db st, unit) act" where
  "create_membership E group_name username =
     bindA (liftA (sanitize_username username)) (\<lambda>username.
     raise_if (blank group_name) invalid_params
     (db_put E GroupMembers [''group_name'' \<mapsto> VStr group_name, ''username'' \<mapsto> VStr username]))"

definition delete_membership :: "'db env \<Rightarrow> string \<Rightarrow> string \<Rightarrow> ('db st, unit) act" where
  "delete_membership E group_name username =
     bindA (liftA (sanitize_username username)) (\<lambda>username.
     raise_if (blank group_name) invalid_params
     (db_delete E GroupMembers (group_name, username)))"

definition has_users_in_group :: "'db env \<Rightarrow> string \<Rightarrow> ('db st, bool) act" where
  "has_users_in_group E group_name =
     bindA (db_query E GroupMembers group_name (Some 1) None) (\<lambda>query_result.
     return (length (fst query_result) > 0))"

text \<open>The loop \<open>while True\<close> over the pages of a group; \<open>None\<close> is a loop that never ends.\<close>

partial_function (option) usernames_loop ::
  "'db env \<Rightarrow> 'db \<Rightarrow> string \<Rightarrow> string option \<Rightarrow> string list \<Rightarrow> (exn + string list) option" where
  "usernames_loop E d group_name exclusive_start_key usernames =
     (case ddb_query E d GroupMembers group_name None exclusive_start_key of (rows, last_key) \<Rightarrow>
      (case map_sum_list (str_attr ''username'') rows of
         Inl e \<Rightarrow> Some (Inl e)
       | Inr us \<Rightarrow>
           (case last_key of
              None \<Rightarrow> Some (Inr (usernames @ us))
            | Some k \<Rightarrow> usernames_loop E d group_name (Some k) (usernames @ us))))"

definition get_usernames_in_group :: "'db env \<Rightarrow> string \<Rightarrow> ('db st, string list) act" where
  "get_usernames_in_group E group_name =
     raise_if (blank group_name) invalid_params
    (bindA (getA (\<lambda>s. usernames_loop E (st_db s) group_name None [])) (\<lambda>r.
     case r of None \<Rightarrow> raise DoesNotReturn | Some x \<Rightarrow> liftA x))"

text \<open>One group of \<open>list_users_in_group\<close>: the users of a page that were not listed before.\<close>

fun collect_users ::
  "'db env \<Rightarrow> string list \<Rightarrow> string list \<Rightarrow> user list \<Rightarrow> ('db st, string list \<times> user list) act" where
  "collect_users E [] seen users = return (seen, users)"
| "collect_users E (n # ns) seen users =
     (if n \<in> set seen then collect_users E ns seen users
      else bindA (user_dao_get_user E n) (\<lambda>db_user.
        case db_user of
          None \<Rightarrow> collect_users E ns (n # seen) users
        | Some d \<Rightarrow> bindA (liftA (user_from_db d)) (\<lambda>user.
            collect_users E ns (n # seen) (users @ [user]))))"

definition start_key_of :: "val \<Rightarrow> string \<Rightarrow> exn + string option" where
  "start_key_of keys group_name =
     (case keys of
        VDict m \<Rightarrow> (case get_value_as_dict group_name (map_of m) None of
            None \<Rightarrow> Inr None
          | Some k \<Rightarrow> (case map_of k ''username'' of
              Some (VStr s) \<Rightarrow> Inr (Some s) | _ \<Rightarrow> Inl (ServiceError ''ValidationException'')))
      | _ \<Rightarrow> Inr None)"

fun list_groups_pages ::
  "'db env \<Rightarrow> nat option \<Rightarrow> val \<Rightarrow> string list \<Rightarrow> string list \<Rightarrow> user list \<Rightarrow> (string \<times> val) list \<Rightarrow>
     ('db st, user list \<times> (string \<times> val) list) act" where
  "list_groups_pages E page_size start_keys [] seen users last_keys = return (users, last_keys)"
| "list_groups_pages E page_size start_keys (g # gs) seen users last_keys =
     bindA (liftA (start_key_of start_keys g)) (\<lambda>start.
     bindA (db_query E GroupMembers g page_size start) (\<lambda>(rows, last_key).
     bindA (liftA (map_sum_list (str_attr ''username'') rows)) (\<lambda>names.
     bindA (collect_users E names seen users) (\<lambda>(seen', users').
     list_groups_pages E page_size start_keys gs seen' users'
       (case last_key of None \<Rightarrow> last_keys
        | Some k \<Rightarrow> last_keys @ [(g, key_val GroupMembers (g, k))])))))"

definition dao_list_users_in_group ::
  "'db env \<Rightarrow> string list \<Rightarrow> nat option \<Rightarrow> string option \<Rightarrow> ('db st, user list \<times> string option) act"
where
  "dao_list_users_in_group E group_names page_size cursor =
     raise_if (group_names = []) invalid_params
    (bindA (if blank (str_or_empty cursor) then return VNone
            else liftA (decode_cursor (cfg E) (str_or_empty cursor))) (\<lambda>start_keys.
     bindA (list_groups_pages E page_size start_keys group_names [] [] []) (\<lambda>(users, last_keys).
     return (users, if last_keys = [] then None else Some (encode_cursor (cfg E) (VDict last_keys))))))"

section \<open>Single sign-on states\<close>

definition create_sso_state :: "'db env \<Rightarrow> item \<Rightarrow> ('db st, item) act" where
  "create_sso_state E sso_state =
     raise_if (blank (str_or_empty (get_value_as_string ''state'' sso_state None))) invalid_params
    (bindA (current_time_ms E) (\<lambda>t1.
     bindA (current_time_ms E) (\<lambda>t2.
     bindA (current_time_ms E) (\<lambda>t3.
       let created_state = sso_state(''ttl'' \<mapsto> VInt (t1 + 10 * 60 * 1000),
                                     ''created_on'' \<mapsto> VInt t2, ''updated_on'' \<mapsto> VInt t3)
       in seqA (db_put_new E SsoState created_state) (return created_state)))))"

definition update_sso_state :: "'db env \<Rightarrow> item \<Rightarrow> ('db st, item) act" where
  "update_sso_state E sso_state =
     (let state = str_or_empty (get_value_as_string ''state'' sso_state None) in
     raise_if (blank state) invalid_params
    (bindA (current_time_ms E) (\<lambda>now.
     bindA (db_update_existing E SsoState (state, [])
              (without_keys [''state'', ''created_on''] (sso_state(''updated_on'' \<mapsto> VInt now)))) (\<lambda>updated.
     return (updated(''state'' \<mapsto> VStr state))))))"

definition get_sso_state :: "'db env \<Rightarrow> string \<Rightarrow> ('db st, item option) act" where
  "get_sso_state E state = raise_if (blank state) invalid_params (db_get E SsoState (state, []))"

definition delete_sso_state :: "'db env \<Rightarrow> string \<Rightarrow> ('db st, unit) act" where
  "delete_sso_state E state = raise_if (blank state) invalid_params (db_delete E SsoState (state, []))"

section \<open>Facts\<close>

subsection \<open>Normalised user names\<close>

definition norm_name :: "string \<Rightarrow> bool" where
  "norm_name u \<longleftrightarrow> u \<noteq> [] \<and> py_strip u = u \<and> py_lower u = u"

lemma norm_name_sanitize [simp]: "norm_name u \<Longrightarrow> sanitize_username u = Inr u"
  by (simp add: norm_name_def sanitize_username_def blank_def)

lemma sanitize_norm: "sanitize_username u = Inr n \<Longrightarrow> norm_name n"
proof -
  assume "sanitize_username u = Inr n"
  then have "py_strip u \<noteq> []" and "n = py_lower (py_strip u)"
    by (auto simp: sanitize_username_def blank_def split: if_splits)
  then show ?thesis
    by (simp add: norm_name_def py_strip_lower) (simp add: py_lower_def)
qed

lemma sanitize_idem: "sanitize_username u = Inr n \<Longrightarrow> sanitize_username n = Inr n"
  by (simp add: sanitize_norm)

lemma norm_name_not_blank: "norm_name u \<Longrightarrow> \<not> blank u"
  by (simp add: norm_name_def blank_def)

subsection \<open>Runs\<close>

lemma is_key_single [simp]:
  "is_key Users (k, [])" "is_key Groups (k, [])" "is_key Projects (k, [])" "is_key SsoState (k, [])"
  "is_key GroupMembers p" "is_key UserProjects p" "is_key ProjectGroups p"
  by (simp_all add: is_key_def schema_defs)

lemma user_dao_get_user_run:
  "sanitize_username u = Inr n \<Longrightarrow>
     user_dao_get_user E u s = (Inr (row E s Users (n, [])), s\<lparr>st_ticks := st_ticks s + 2\<rparr>)"
  by (simp add: user_dao_get_user_def)

lemma user_dao_get_user_blank:
  "blank u \<Longrightarrow> user_dao_get_user E u s = (Inl invalid_params, s)"
  by (simp add: user_dao_get_user_def sanitize_username_def)

lemma group_dao_get_group_run [simp]:
  "\<not> blank g \<Longrightarrow> group_dao_get_group E g s = (Inr (row E s Groups (g, [])), s)"
  by (simp add: group_dao_get_group_def)

lemma key_of_membership [simp]:
  "key_of GroupMembers [''group_name'' \<mapsto> VStr g, ''username'' \<mapsto> VStr u] = Some (g, u)"
  by (simp add: key_of_def schema_defs)

lemma create_membership_run:
  "sanitize_username u = Inr n \<Longrightarrow> \<not> blank g \<Longrightarrow>
     create_membership E g u s =
       (Inr (), s\<lparr>st_db := ddb_put E (st_db s) GroupMembers
                    [''group_name'' \<mapsto> VStr g, ''username'' \<mapsto> VStr n]\<rparr>)"
  by (simp add: create_membership_def)

lemma delete_membership_run:
  "sanitize_username u = Inr n \<Longrightarrow> \<not> blank g \<Longrightarrow>
     delete_membership E g u s = (Inr (), s\<lparr>st_db := ddb_delete E (st_db s) GroupMembers (g, n)\<rparr>)"
  by (simp add: delete_membership_def)

text \<open>The attributes an update of a user writes; the time stamp is always among them.\<close>

definition user_update_of :: "'db env \<Rightarrow> 'db st \<Rightarrow> string \<Rightarrow> item \<Rightarrow> item \<Rightarrow> item" where
  "user_update_of E s n old upd =
     set_attributes Users (n, []) (Some old)
       (without_keys [''username'', ''created_on'']
          (upd(''updated_on'' \<mapsto> VInt (time_at (cfg E) (st_ticks s)))))"

lemma user_dao_update_user_run:
  assumes "upd ''username'' = Some (VStr u)" and "norm_name u"
  shows "user_dao_update_user E upd s =
     (case row E s Users (u, []) of
        None \<Rightarrow> (Inl ConditionalCheckFailed, s\<lparr>st_ticks := Suc (st_ticks s)\<rparr>)
      | Some old \<Rightarrow>
          (Inr (user_update_of E s u old upd),
           s\<lparr>st_ticks := Suc (st_ticks s),
             st_db := ddb_put E (st_db s) Users (user_update_of E s u old upd)\<rparr>))"
proof -
  have [simp]: "str_or_empty (get_value_as_string ''username'' upd None) = u"
    using assms by (simp add: get_value_as_string_VStr norm_name_def)
  have [simp]: "(set_attributes Users (u, []) (Some old) x)(''username'' \<mapsto> VStr u) =
      set_attributes Users (u, []) (Some old) x" for old x
    by (simp add: set_attributes_def key_item_def schema_defs)
  show ?thesis
    using assms by (simp add: user_dao_update_user_def user_update_of_def split: option.split)
qed

lemma user_update_of_lookup:
  "user_update_of E s n old upd k =
     (if k = ''username'' then Some (VStr n)
      else if k = ''updated_on'' then Some (VInt (time_at (cfg E) (st_ticks s)))
      else if k = ''created_on'' then old ''created_on''
      else (case upd k of None \<Rightarrow> old k | Some v \<Rightarrow> Some v))"
  by (simp add: user_update_of_def set_attributes_def key_item_def schema_defs without_keys_def
      map_add_def restrict_map_def split: option.split)

lemma key_of_user_update [simp]: "key_of Users (user_update_of E s n old upd) = Some (n, [])"
  by (simp add: user_update_of_def key_of_set_attributes)

subsection \<open>Round trips\<close>

text \<open>
  A string survives a round trip when the conversions leave it alone: it is not blank
  and has no white space at its ends.
\<close>

definition clean :: "string option \<Rightarrow> bool" where
  "clean x \<longleftrightarrow> (\<forall>s. x = Some s \<longrightarrow> s \<noteq> [] \<and> py_strip s = s)"

fun or_else :: "'a option \<Rightarrow> 'a option \<Rightarrow> 'a option" where
  "or_else (Some x) y = Some x"
| "or_else None y = y"

lemma or_else_None [simp]: "or_else x None = x"
  by (cases x) simp_all

lemma put_opt_same [simp]: "put_opt k f v d k = or_else (map_option f v) (d k)"
  by (simp add: put_opt_def split: option.split)

lemma put_opt_other [simp]: "k \<noteq> j \<Longrightarrow> put_opt k f v d j = d j"
  by (simp add: put_opt_def split: option.split)

lemma read_string:
  "d k = map_option VStr x \<Longrightarrow> clean x \<Longrightarrow> get_value_as_string k d None = x"
  by (cases x) (simp_all add: get_value_as_string_VStr clean_def)

lemma read_int: "d k = map_option VInt x \<Longrightarrow> get_value_as_int k d None = x"
  by (cases x) simp_all

lemma read_bool: "d k = map_option VBool x \<Longrightarrow> get_value_as_bool k d None = x"
  by (cases x) simp_all

lemma opt_str_field_map [simp]: "opt_str_field (map_option VStr x) = Inr x"
  by (cases x) (simp_all add: opt_str_field_def)

lemma opt_bool_field_map [simp]: "opt_bool_field (map_option VBool x) = Inr x"
  by (cases x) (simp_all add: opt_bool_field_def)

text \<open>An empty list is read back as no list.\<close>

definition listed :: "string list option \<Rightarrow> string list option" where
  "listed x = (case x of Some [] \<Rightarrow> None | _ \<Rightarrow> x)"

lemma read_list:
  "d k = map_option strs x \<Longrightarrow> opt_list_field (get_value_as_list k d None) = Inr (listed x)"
  by (cases x) (auto simp: opt_list_field_def listed_def split: list.split)

lemma group_round_trip:
  assumes "clean (g_name g)" "g_name g \<noteq> None" "clean (g_ds_name g)" "clean (g_title g)"
    "clean (g_description g)" "clean (g_group_type g)" "clean (g_type g)" "clean (g_role g)"
  shows "group_from_db (group_to_db g) =
     g\<lparr>g_ref := None, g_created_on := None, g_updated_on := None, g_synced_on := None\<rparr>"
  using assms
  by (auto simp: group_from_db_def group_to_db_def
      intro!: group.equality read_string read_int read_bool)

lemma user_round_trip:
  assumes "clean (u_username u)" "u_username u \<noteq> None" "clean (u_email u)"
    "clean (u_group_name u)" "clean (u_login_shell u)" "clean (u_home_dir u)"
  shows "user_from_db (user_to_db u) =
     Inr (u\<lparr>u_password := None, u_ds_group_name := None, u_status := None,
            u_additional_groups := listed (u_additional_groups u),
            u_created_on := None, u_updated_on := None, u_synced_on := None\<rparr>)"
proof -
  let ?d = "user_to_db u"
  have "?d ''additional_groups'' = map_option strs (u_additional_groups u)"
    and "?d ''role'' = map_option VStr (u_role u)" and "?d ''synced_on'' = None"
    and "?d ''is_active'' = map_option VBool (u_is_active u)"
    by (simp_all add: user_to_db_def)
  then show ?thesis
    using assms
    by (auto simp: user_from_db_def read_list int_of_attr_def
        intro!: user.equality read_string read_int read_bool)
       (auto simp: user_to_db_def)
qed

subsection \<open>The members of a group\<close>

definition members :: "'db env \<Rightarrow> 'db \<Rightarrow> string \<Rightarrow> string set" where
  "members E d g = {u. ddb_get E d GroupMembers (g, u) \<noteq> None}"

context dynamodb
begin

lemma member_row: "ddb_get E d GroupMembers (g, u) = Some i \<Longrightarrow> str_attr ''username'' i = Inr u"
  using row_key [of d GroupMembers "(g, u)" i]
  by (auto simp: key_of_def schema_defs str_attr_def split: option.splits val.splits)

lemma members_put [simp]:
  "members E (ddb_put E d GroupMembers [''group_name'' \<mapsto> VStr g, ''username'' \<mapsto> VStr u]) h =
     (if h = g then insert u (members E d h) else members E d h)"
  by (auto simp: members_def)

lemma members_delete [simp]:
  "members E (ddb_delete E d GroupMembers (g, u)) h =
     (if h = g then members E d h - {u} else members E d h)"
  by (auto simp: members_def)

lemma member_rows:
  assumes "set ks \<subseteq> members E d g"
  shows "map_sum_list (str_attr ''username'') (map (\<lambda>r. the (ddb_get E d GroupMembers (g, r))) ks) = Inr ks"
  using assms by (induction ks) (auto simp: members_def member_row)

lemma finite_members: "finite (members E d g)"
proof -
  have "members E d g \<subseteq> snd ` {k. ddb_get E d GroupMembers k \<noteq> None}"
    by (force simp: members_def)
  then show ?thesis using finite_rows finite_surj by blast
qed

text \<open>
  The loop ends: every page it goes on from lists at least the row of its last key, so
  fewer rows remain behind the start key.
\<close>

lemma usernames_loop_returns:
  "\<exists>ks. usernames_loop E d g start acc = Some (Inr (acc @ ks)) \<and> sorted ks \<and> distinct ks \<and>
     set ks = {u \<in> members E d g. \<forall>x. start = Some x \<longrightarrow> x < u}"
proof (induction "card {u \<in> members E d g. \<forall>x. start = Some x \<longrightarrow> x < u}"
       arbitrary: start acc rule: less_induct)
  case less
  let ?A = "\<lambda>st. {u \<in> members E d g. \<forall>x. st = Some x \<longrightarrow> x < u}"
  obtain rows l where q: "ddb_query E d GroupMembers g None start = (rows, l)" by force
  then obtain ks where rows: "rows = map (\<lambda>r. the (ddb_get E d GroupMembers (g, r))) ks"
    and ks: "sorted ks" "distinct ks"
    and sks: "set ks = {u \<in> ?A start. \<forall>x. l = Some x \<longrightarrow> u \<le> x}"
    and l: "\<forall>x. l = Some x \<longrightarrow> x \<in> set ks"
    using query_page [OF _ q] by (auto simp: schema_defs members_def)
  have names: "map_sum_list (str_attr ''username'') rows = Inr ks"
  proof -
    have "set ks \<subseteq> members E d g" using sks by blast
    then show ?thesis unfolding rows by (rule member_rows)
  qed
  show ?case
  proof (cases l)
    case None
    then have "usernames_loop E d g start acc = Some (Inr (acc @ ks))"
      by (simp add: usernames_loop.simps [of E d g start acc] q names)
    moreover have "set ks = ?A start" using sks None by simp
    ultimately show ?thesis by (intro exI [of _ ks] conjI ks)
  next
    case (Some x)
    then have "x \<in> set ks" using l by simp
    then have x: "x \<in> ?A start" unfolding sks by simp
    have behind: "y < u" if "start = Some y" and "x < u" for y u
      using x that less_trans [of y x u] by simp
    then have sub: "?A l \<subseteq> ?A start - {x}" using Some by auto
    have "finite (?A start)" using finite_members [of d g] by simp
    moreover have "?A l \<subset> ?A start" using sub x by blast
    ultimately have "card (?A l) < card (?A start)" by (rule psubset_card_mono)
    then obtain ks' where rec: "usernames_loop E d g l (acc @ ks) = Some (Inr ((acc @ ks) @ ks'))"
      and ks': "sorted ks'" "distinct ks'" "set ks' = ?A l"
      using less [of l "acc @ ks"] by blast
    have lo: "u \<le> x" if "u \<in> set ks" for u using that sks Some by simp
    have hi: "x < u" if "u \<in> set ks'" for u using that ks' Some by simp
    have lt: "u < v" if "u \<in> set ks" "v \<in> set ks'" for u v
      using lo [OF that(1)] hi [OF that(2)] by (rule le_less_trans)
    have "sorted (ks @ ks')"
      using ks(1) ks'(1) less_imp_le [OF lt] by (simp add: sorted_append)
    moreover have "u \<notin> set ks'" if "u \<in> set ks" for u using lt [OF that, of u] by auto
    then have "distinct (ks @ ks')" using ks(2) ks'(2) by (auto simp: disjoint_iff)
    moreover have "set (ks @ ks') = ?A start"
    proof -
      have "v \<in> set ks \<union> set ks' \<longleftrightarrow> v \<in> ?A start" for v
        using behind [of _ v] by (cases "v \<le> x") (auto simp: sks ks'(3) Some not_le)
      then show ?thesis by (simp add: set_eq_iff)
    qed
    moreover have "usernames_loop E d g start acc = Some (Inr (acc @ (ks @ ks')))"
      using rec Some by (simp add: usernames_loop.simps [of E d g start acc] q names)
    ultimately show ?thesis by (intro exI [of _ "ks @ ks'"] conjI)
  qed
qed

lemma get_usernames_in_group_run:
  assumes "\<not> blank g"
  obtains ks where "get_usernames_in_group E g s = (Inr ks, s)" and "sorted ks" and "distinct ks"
    and "set ks = members E (st_db s) g"
proof -
  obtain ks where "usernames_loop E (st_db s) g None [] = Some (Inr ks)" "sorted ks" "distinct ks"
    and "set ks = members E (st_db s) g"
    using usernames_loop_returns [of "st_db s" g None "[]"] by auto
  then show thesis using assms that by (simp add: get_usernames_in_group_def)
qed

lemma has_users_in_group_run:
  "has_users_in_group E g s = (Inr (members E (st_db s) g \<noteq> {}), s)"
  using query_empty_iff [of GroupMembers "st_db s" g "Some 1"]
  by (auto simp: has_users_in_group_def members_def schema_defs)

end

section \<open>Properties\<close>

text \<open>
  C36. Listing a group returns, however its members are spread over pages: the loop ends, and
  the names it collects are exactly the members, each once and in order.
\<close>

theorem usernames_in_group_complete:
  assumes "dynamodb E" and "\<not> blank g"
  shows "\<exists>us. get_usernames_in_group E g s = (Inr us, s) \<and> sorted us \<and> distinct us \<and>
     set us = members E (st_db s) g"
  using dynamodb.get_usernames_in_group_run [OF assms] by metis

text \<open>Three members on pages of one row each.\<close>

definition paged_db :: mem_db where
  "paged_db = [((GroupMembers, (''g'', ''b'')), Map.empty), ((GroupMembers, (''g'', ''a'')), Map.empty),
               ((GroupMembers, (''g'', ''c'')), Map.empty), ((GroupMembers, (''h'', ''d'')), Map.empty)]"

theorem usernames_in_group_complete_witness:
  "\<exists>us. get_usernames_in_group (mem_env (Some 1) local_world) ''g'' (local_state paged_db) =
       (Inr us, local_state paged_db) \<and> set us = {''a'', ''b'', ''c''}"
proof -
  have "\<not> blank ''g''" by code_simp
  moreover have "members (mem_env (Some 1) local_world) paged_db ''g'' = {''a'', ''b'', ''c''}"
    by (auto simp: members_def mem_get_def paged_db_def split: if_splits)
  ultimately show ?thesis
    using usernames_in_group_complete [OF mem_dynamodb, of "''g''" "Some 1" local_world "local_state paged_db"]
    by auto
qed

text \<open>
  A group written to its table and read back is the group, except for the reference and
  the time stamps, which the conversion to a row does not write.
\<close>

theorem group_survives_the_table:
  assumes "clean (g_name g)" "g_name g \<noteq> None" "clean (g_ds_name g)" "clean (g_title g)"
    "clean (g_description g)" "clean (g_group_type g)" "clean (g_type g)" "clean (g_role g)"
  shows "group_from_db (group_to_db g) =
     g\<lparr>g_ref := None, g_created_on := None, g_updated_on := None, g_synced_on := None\<rparr>"
  using assms by (rule group_round_trip)

definition sample_group :: group where
  "sample_group = \<lparr>g_title = Some ''Team'', g_description = None, g_name = Some ''team'',
     g_ds_name = Some ''team'', g_gid = Some 5, g_group_type = Some ''project'', g_ref = None,
     g_enabled = Some True, g_created_on = None, g_updated_on = None, g_synced_on = None,
     g_type = Some ''external'', g_role = Some ''user''\<rparr>"

theorem group_survives_the_table_witness:
  "group_from_db (group_to_db sample_group) = sample_group"
proof -
  have "py_strip ''Team'' = ''Team''" "py_strip ''team'' = ''team''" "py_strip ''project'' = ''project''"
      "py_strip ''external'' = ''external''" "py_strip ''user'' = ''user''"
    by code_simp+
  then show ?thesis
    using group_survives_the_table [of sample_group] by (simp add: sample_group_def clean_def)
qed

text \<open>
  A user written to its table and read back is the user: the password and the two
  directory fields are never stored, an empty list of groups comes back as no list, and the
  time stamps are set by the write itself.
\<close>

theorem user_survives_the_table:
  assumes "clean (u_username u)" "u_username u \<noteq> None" "clean (u_email u)"
    "clean (u_group_name u)" "clean (u_login_shell u)" "clean (u_home_dir u)"
  shows "user_from_db (user_to_db u) =
     Inr (u\<lparr>u_password := None, u_ds_group_name := None, u_status := None,
            u_additional_groups := listed (u_additional_groups u),
            u_created_on := None, u_updated_on := None, u_synced_on := None\<rparr>)"
  using assms by (rule user_round_trip)

definition sample_user :: user where
  "sample_user = \<lparr>u_username = Some ''bob'', u_password = Some ''secret'', u_email = None, u_uid = Some 7,
     u_gid = Some 7, u_group_name = None, u_ds_group_name = None, u_additional_groups = Some [''team''],
     u_login_shell = None, u_home_dir = None, u_sudo = Some False, u_status = None, u_enabled = Some True,
     u_password_last_set = None, u_password_max_age = None, u_created_on = None, u_updated_on = None,
     u_synced_on = None, u_role = Some ''user'', u_is_active = Some True\<rparr>"

theorem user_survives_the_table_witness:
  "user_from_db (user_to_db sample_user) = Inr (sample_user\<lparr>u_password := None\<rparr>)"
proof -
  have "py_strip ''bob'' = ''bob''" by code_simp
  then show ?thesis
    using user_survives_the_table [of sample_user] by (simp add: sample_user_def clean_def listed_def)
qed

end
