(* ===== verification/Projects_DAO.thy ===== *)
theory Projects_DAO
  imports Accounts_DAO
begin

text \<open>
  Projects as the tables hold them: the data classes of
  \<^verbatim>\<open>ideadatamodel/projects/projects_model.py\<close>, the launch scripts of
  \<^verbatim>\<open>ideasdk/launch_configurations/launch_scripts_helper.py\<close> and the data access object
  \<^verbatim>\<open>projects/db/projects_dao.py\<close>.
\<close>

section \<open>Launch scripts\<close>

record script =
  script_location :: string
  arguments :: "string list option"

record script_events =
  on_vdi_start :: "script list option"
  on_vdi_configured :: "script list option"

record scripts =
  windows :: "script_events option"
  linux :: "script_events option"

text \<open>
  \<open>urllib.parse.urlparse(url).scheme\<close>: leading control characters and blanks go, so do
  tabs and line ends anywhere; what stands before the first colon is the scheme when it
  starts with a letter and holds scheme characters only. (A malformed bracketed host
  makes the library raise; such locations are outside the model.)
\<close>

definition is_letter :: "char \<Rightarrow> bool" where
  "is_letter c = (let n = of_char c :: nat in 65 \<le> n \<and> n \<le> 90 \<or> 97 \<le> n \<and> n \<le> 122)"

definition is_scheme_char :: "char \<Rightarrow> bool" where
  "is_scheme_char c = (is_letter c \<or> digit_of c \<noteq> None \<or> c \<in> {CHR ''+'', CHR ''-'', CHR ''.''})"

definition url_scheme :: "string \<Rightarrow> string" where
  "url_scheme url =
     (let u = filter (\<lambda>c. (of_char c :: nat) \<notin> {9, 10, 13})
                (dropWhile (\<lambda>c. (of_char c :: nat) \<le> 32) url);
          p = takeWhile (\<lambda>c. c \<noteq> CHR '':'') u
      in if CHR '':'' \<in> set u \<and> p \<noteq> [] \<and> is_letter (hd p) \<and> list_all is_scheme_char p
         then py_lower p else [])"

definition is_https_url :: "string \<Rightarrow> bool" where
  "is_https_url url = (url_scheme url = ''https'')"

definition is_s3_url :: "string \<Rightarrow> bool" where
  "is_s3_url url = (url_scheme url = ''s3'')"

definition is_local_path :: "string \<Rightarrow> bool" where
  "is_local_path path = starts_with path ''file://''"

definition is_valid_script_location :: "string \<Rightarrow> bool" where
  "is_valid_script_location loc = (is_s3_url loc \<or> is_local_path loc \<or> is_https_url loc)"

definition list_or_nil :: "'a list option \<Rightarrow> 'a list" where
  "list_or_nil x = (case x of None \<Rightarrow> [] | Some xs \<Rightarrow> xs)"

definition event_scripts :: "script_events option \<Rightarrow> script list" where
  "event_scripts x = (case x of None \<Rightarrow> []
     | Some ev \<Rightarrow> list_or_nil (on_vdi_start ev) @ list_or_nil (on_vdi_configured ev))"

definition validate_scripts :: "scripts \<Rightarrow> bool" where
  "validate_scripts sc =
     list_all (\<lambda>x. is_valid_script_location (script_location x))
       (event_scripts (linux sc) @ event_scripts (windows sc))"

definition convert_scripts_to_list :: "script list \<Rightarrow> val" where
  "convert_scripts_to_list xs = VList (map (\<lambda>x.
     VDict [(''script_location'', VStr (script_location x)),
            (''arguments'', case arguments x of None \<Rightarrow> VNone | Some as \<Rightarrow> strs as)]) xs)"

definition convert_script_events_to_dict :: "script_events \<Rightarrow> val" where
  "convert_script_events_to_dict ev = VDict
     ((if list_or_nil (on_vdi_start ev) = [] then []
       else [(''on_vdi_start'', convert_scripts_to_list (list_or_nil (on_vdi_start ev)))]) @
      (if list_or_nil (on_vdi_configured ev) = [] then []
       else [(''on_vdi_configured'', convert_scripts_to_list (list_or_nil (on_vdi_configured ev)))]))"

definition convert_scripts_to_dict :: "scripts \<Rightarrow> val" where
  "convert_scripts_to_dict sc = VDict
     ((case linux sc of None \<Rightarrow> [] | Some ev \<Rightarrow> [(''linux'', convert_script_events_to_dict ev)]) @
      (case windows sc of None \<Rightarrow> [] | Some ev \<Rightarrow> [(''windows'', convert_script_events_to_dict ev)]))"

section \<open>Projects\<close>

text \<open>A budget is known by its name; a tag is a key and a value.\<close>

record project =
  p_project_id :: "string option"
  p_name :: "string option"
  p_title :: "string option"
  p_description :: "string option"
  p_enabled :: "bool option"
  p_ldap_groups :: "string list option"
  p_users :: "string list option"
  p_enable_budgets :: "bool option"
  p_budget :: "string option option"
  p_tags :: "(string \<times> string option) list option"
  p_created_on :: "int option"
  p_updated_on :: "int option"
  p_security_groups :: "string list option"
  p_policy_arns :: "string list option"
  p_scripts :: "scripts option"

definition is_budgets_enabled :: "project \<Rightarrow> bool" where
  "is_budgets_enabled p =
     (if p_enable_budgets p = Some True then
        (case p_budget p of None \<Rightarrow> False | Some b \<Rightarrow> \<not> blank (str_or_empty b))
      else False)"

text \<open>\<open>d.get(key, dflt)\<close> of a value that should be a dictionary.\<close>

definition dict_get :: "val \<Rightarrow> string \<Rightarrow> val \<Rightarrow> exn + val" where
  "dict_get v k dflt = (case v of
      VDict d \<Rightarrow> Inr (case map_of d k of None \<Rightarrow> dflt | Some x \<Rightarrow> x)
    | _ \<Rightarrow> Inl AttributeError)"

definition iterate :: "val \<Rightarrow> exn + val list" where
  "iterate v = (case v of VList vs \<Rightarrow> Inr vs | _ \<Rightarrow> Inl TypeError)"

definition opt_strs :: "val \<Rightarrow> exn + string list option" where
  "opt_strs v = (case v of
      VNone \<Rightarrow> Inr None
    | VList vs \<Rightarrow> (case str_list_field vs of None \<Rightarrow> Inl ValidationError | Some ss \<Rightarrow> Inr (Some ss))
    | _ \<Rightarrow> Inl ValidationError)"

definition script_from_db :: "val \<Rightarrow> exn + script" where
  "script_from_db v =
     bindE (dict_get v ''script_location'' VNone) (\<lambda>loc.
     bindE (dict_get v ''arguments'' (VList [])) (\<lambda>args.
     bindE (case str_field loc of None \<Rightarrow> Inl ValidationError | Some s \<Rightarrow> Inr s) (\<lambda>loc.
     bindE (opt_strs args) (\<lambda>args.
     Inr \<lparr>script_location = loc, arguments = args\<rparr>))))"

definition script_events_from_db :: "val \<Rightarrow> exn + script_events" where
  "script_events_from_db os_scripts =
     bindE (bindE (dict_get os_scripts ''on_vdi_start'' (VList [])) iterate) (\<lambda>starts.
     bindE (map_sum_list script_from_db starts) (\<lambda>starts.
     bindE (bindE (dict_get os_scripts ''on_vdi_configured'' (VList [])) iterate) (\<lambda>confs.
     bindE (map_sum_list script_from_db confs) (\<lambda>confs.
     Inr \<lparr>on_vdi_start = Some starts, on_vdi_configured = Some confs\<rparr>))))"

definition scripts_from_db :: "(string \<times> val) list option \<Rightarrow> exn + scripts" where
  "scripts_from_db db_scripts = (case db_scripts of
      None \<Rightarrow> Inr \<lparr>windows = None, linux = None\<rparr>
    | Some d \<Rightarrow>
        bindE (bindE (dict_get (VDict d) ''windows'' (VDict [])) script_events_from_db) (\<lambda>w.
        bindE (bindE (dict_get (VDict d) ''linux'' (VDict [])) script_events_from_db) (\<lambda>l.
        Inr \<lparr>windows = Some w, linux = Some l\<rparr>)))"

definition tag_from_db :: "string \<times> val \<Rightarrow> exn + (string \<times> string option)" where
  "tag_from_db kv = bindE (opt_str_field (Some (snd kv))) (\<lambda>v. Inr (fst kv, v))"

definition project_from_db :: "item \<Rightarrow> exn + project" where
  "project_from_db d =
     bindE (opt_list_field (get_value_as_list ''ldap_groups'' d (Some []))) (\<lambda>ldap_groups.
     bindE (opt_strs (attr_or d ''users'' (VList []))) (\<lambda>users.
     bindE (opt_list_field (get_value_as_list ''security_groups'' d (Some []))) (\<lambda>security_groups.
     bindE (opt_list_field (get_value_as_list ''policy_arns'' d (Some []))) (\<lambda>policy_arns.
     bindE (case get_value_as_dict ''tags'' d None of
              None \<Rightarrow> Inr None
            | Some kvs \<Rightarrow> bindE (map_sum_list tag_from_db kvs) (\<lambda>ts. Inr (Some ts))) (\<lambda>tags.
     bindE (scripts_from_db (get_value_as_dict ''scripts'' d None)) (\<lambda>scr.
     Inr \<lparr>p_project_id = get_value_as_string ''project_id'' d None,
          p_name = get_value_as_string ''name'' d None,
          p_title = get_value_as_string ''title'' d None,
          p_description = get_value_as_string ''description'' d None,
          p_enabled = get_value_as_bool ''enabled'' d (Some False),
          p_ldap_groups = ldap_groups,
          p_users = users,
          p_enable_budgets = get_value_as_bool ''enable_budgets'' d (Some False),
          p_budget = (case get_value_as_string ''budget_name'' d None of
                        None \<Rightarrow> None | Some b \<Rightarrow> Some (Some b)),
          p_tags = tags,
          p_created_on = get_value_as_int ''created_on'' d (Some 0),
          p_updated_on = get_value_as_int ''updated_on'' d (Some 0),
          p_security_groups = security_groups,
          p_policy_arns = policy_arns,
          p_scripts = Some scr\<rparr>))))))"

text \<open>\<open>tags[tag.key] = tag.value\<close> for each tag, in a dictionary that keeps insertion order.\<close>

fun tags_to_dict :: "(string \<times> string option) list \<Rightarrow> (string \<times> val) list \<Rightarrow> (string \<times> val) list" where
  "tags_to_dict [] d = d"
| "tags_to_dict (t # ts) d = tags_to_dict ts (AList.update (fst t) (opt_str (snd t)) d)"

definition project_to_db :: "project \<Rightarrow> item" where
  "project_to_db p =
     put_opt ''scripts'' convert_scripts_to_dict (p_scripts p)
    (put_opt ''security_groups'' strs (p_security_groups p)
    (put_opt ''policy_arns'' strs (p_policy_arns p)
    (put_opt ''budget_name'' VStr (case p_budget p of None \<Rightarrow> None | Some b \<Rightarrow> b)
    (put_opt ''enable_budgets'' VBool (p_enable_budgets p)
    (put_opt ''tags'' (\<lambda>ts. VDict (tags_to_dict ts [])) (p_tags p)
    (put_opt ''users'' strs (p_users p)
    (put_opt ''ldap_groups'' strs (p_ldap_groups p)
    (put_opt ''description'' VStr (p_description p)
    (put_opt ''title'' VStr (p_title p)
    (put_opt ''name'' VStr (p_name p)
       [''project_id'' \<mapsto> opt_str (p_project_id p)]))))))))))"

definition projects_dao_create_project :: "'db env \<Rightarrow> item \<Rightarrow> ('db st, item) act" where
  "projects_dao_create_project E project =
     bindA (new_uuid E) (\<lambda>project_id.
     bindA (current_time_ms E) (\<lambda>created_on.
     bindA (current_time_ms E) (\<lambda>updated_on.
       let created_project = project(''project_id'' \<mapsto> VStr project_id,
              ''created_on'' \<mapsto> VInt created_on, ''updated_on'' \<mapsto> VInt updated_on)
       in seqA (db_put E Projects created_project) (return created_project))))"

definition get_project_by_id :: "'db env \<Rightarrow> string \<Rightarrow> ('db st, item option) act" where
  "get_project_by_id E project_id =
     raise_if (blank project_id) invalid_params (db_get E Projects (project_id, []))"

definition get_project_by_name :: "'db env \<Rightarrow> string \<Rightarrow> ('db st, item option) act" where
  "get_project_by_name E name =
     raise_if (blank name) invalid_params
    (bindA (db_index E ProjectNameIndex name) (\<lambda>items.
     return (case items of [] \<Rightarrow> None | i # _ \<Rightarrow> Some i)))"

definition projects_dao_update_project :: "'db env \<Rightarrow> item \<Rightarrow> ('db st, item) act" where
  "projects_dao_update_project E project =
     (let project_id = str_or_empty (get_value_as_string ''project_id'' project None) in
     raise_if (blank project_id) invalid_params
    (bindA (current_time_ms E) (\<lambda>now.
     bindA (db_update_existing E Projects (project_id, [])
              (without_keys [''project_id'', ''created_on''] (project(''updated_on'' \<mapsto> VInt now)))) (\<lambda>updated.
     return (updated(''project_id'' \<mapsto> VStr project_id))))))"

definition projects_dao_delete_project :: "'db env \<Rightarrow> string \<Rightarrow> ('db st, unit) act" where
  "projects_dao_delete_project E project_id =
     raise_if (blank project_id) invalid_params (db_delete E Projects (project_id, []))"

definition projects_dao_list_projects ::
  "'db env \<Rightarrow> list_request \<Rightarrow> ('db st, project list \<times> string option) act" where
  "projects_dao_list_projects E req =
     bindA (list_rows E Projects req) (\<lambda>(db_projects, cursor).
     bindA (liftA (map_sum_list project_from_db db_projects)) (\<lambda>projects.
     return (projects, cursor)))"

section \<open>Facts\<close>

lemma get_project_by_id_run [simp]:
  "\<not> blank p \<Longrightarrow> get_project_by_id E p s = (Inr (row E s Projects (p, [])), s)"
  by (simp add: get_project_by_id_def)

text \<open>A clean identifier is what the conversions leave alone.\<close>

definition clean_id :: "string \<Rightarrow> bool" where
  "clean_id p \<longleftrightarrow> p \<noteq> [] \<and> py_strip p = p"

lemma clean_id_not_blank: "clean_id p \<Longrightarrow> \<not> blank p"
  by (simp add: clean_id_def blank_def)

definition project_update_of :: "'db env \<Rightarrow> 'db st \<Rightarrow> string \<Rightarrow> item \<Rightarrow> item \<Rightarrow> item" where
  "project_update_of E s p old upd =
     set_attributes Projects (p, []) (Some old)
       (without_keys [''project_id'', ''created_on'']
          (upd(''updated_on'' \<mapsto> VInt (time_at (cfg E) (st_ticks s)))))"

lemma project_update_of_lookup:
  "project_update_of E s p old upd k =
     (if k = ''project_id'' then Some (VStr p)
      else if k = ''updated_on'' then Some (VInt (time_at (cfg E) (st_ticks s)))
      else if k = ''created_on'' then old ''created_on''
      else (case upd k of None \<Rightarrow> old k | Some v \<Rightarrow> Some v))"
  by (simp add: project_update_of_def set_attributes_def key_item_def schema_defs without_keys_def
      map_add_def restrict_map_def split: option.split)

lemma key_of_project_update [simp]: "key_of Projects (project_update_of E s p old upd) = Some (p, [])"
  by (simp add: project_update_of_def key_of_set_attributes)

lemma projects_dao_update_project_run:
  assumes "upd ''project_id'' = Some (VStr p)" and "clean_id p"
  shows "projects_dao_update_project E upd s =
     (case row E s Projects (p, []) of
        None \<Rightarrow> (Inl ConditionalCheckFailed, s\<lparr>st_ticks := Suc (st_ticks s)\<rparr>)
      | Some old \<Rightarrow>
          (Inr (project_update_of E s p old upd),
           s\<lparr>st_ticks := Suc (st_ticks s),
             st_db := ddb_put E (st_db s) Projects (project_update_of E s p old upd)\<rparr>))"
proof -
  have [simp]: "str_or_empty (get_value_as_string ''project_id'' upd None) = p"
    using assms by (simp add: get_value_as_string_VStr clean_id_def)
  have [simp]: "(set_attributes Projects (p, []) (Some old) x)(''project_id'' \<mapsto> VStr p) =
      set_attributes Projects (p, []) (Some old) x" for old x
    by (simp add: set_attributes_def key_item_def schema_defs)
  show ?thesis
    using assms clean_id_not_blank
    by (simp add: projects_dao_update_project_def project_update_of_def Let_def split: option.split)
qed

text \<open>
  What a project looks like after a round trip through the table: the lists that were
  left out come back empty, a list of scripts that was left out too.
\<close>

definition filled_events :: "script_events \<Rightarrow> script_events" where
  "filled_events ev = \<lparr>on_vdi_start = Some (list_or_nil (on_vdi_start ev)),
                       on_vdi_configured = Some (list_or_nil (on_vdi_configured ev))\<rparr>"

definition filled_scripts :: "scripts \<Rightarrow> scripts" where
  "filled_scripts sc =
     (if windows sc = None \<and> linux sc = None then sc
      else let f = (\<lambda>e. case e of None \<Rightarrow> Some \<lparr>on_vdi_start = Some [], on_vdi_configured = Some []\<rparr>
                      | Some ev \<Rightarrow> Some (filled_events ev))
           in \<lparr>windows = f (windows sc), linux = f (linux sc)\<rparr>)"

lemma script_round_trip: "script_from_db (VDict [(''script_location'', VStr (script_location x)),
    (''arguments'', case arguments x of None \<Rightarrow> VNone | Some as \<Rightarrow> strs as)]) = Inr x"
  by (cases x) (auto simp: script_from_db_def dict_get_def opt_strs_def split: option.split)

lemma scripts_list_round_trip:
  "bindE (iterate (convert_scripts_to_list xs)) (map_sum_list script_from_db) = Inr xs"
proof -
  have "map_sum_list script_from_db (map (\<lambda>x. VDict [(''script_location'', VStr (script_location x)),
      (''arguments'', case arguments x of None \<Rightarrow> VNone | Some as \<Rightarrow> strs as)]) xs) = Inr xs"
    by (induction xs) (simp_all add: script_round_trip)
  then show ?thesis by (simp add: convert_scripts_to_list_def iterate_def)
qed

lemma iterate_scripts [simp]:
  "\<exists>vs. iterate (convert_scripts_to_list xs) = Inr vs \<and> map_sum_list script_from_db vs = Inr xs"
  using scripts_list_round_trip [of xs] by (auto simp: convert_scripts_to_list_def iterate_def)

lemma script_events_round_trip:
  "script_events_from_db (convert_script_events_to_dict ev) = Inr (filled_events ev)"
proof -
  obtain us vs where "iterate (convert_scripts_to_list (list_or_nil (on_vdi_start ev))) = Inr us"
      "map_sum_list script_from_db us = Inr (list_or_nil (on_vdi_start ev))"
    and "iterate (convert_scripts_to_list (list_or_nil (on_vdi_configured ev))) = Inr vs"
      "map_sum_list script_from_db vs = Inr (list_or_nil (on_vdi_configured ev))"
    using iterate_scripts by blast
  then show ?thesis
    by (auto simp: script_events_from_db_def convert_script_events_to_dict_def dict_get_def
        filled_events_def iterate_def)
qed

lemma scripts_round_trip:
  "scripts_from_db (get_as_dict (convert_scripts_to_dict sc) None) = Inr (filled_scripts sc)"
proof -
  have "script_events_from_db (VDict []) = Inr \<lparr>on_vdi_start = Some [], on_vdi_configured = Some []\<rparr>"
    by (simp add: script_events_from_db_def dict_get_def iterate_def)
  then show ?thesis
    by (cases sc)
       (auto simp: scripts_from_db_def convert_scripts_to_dict_def filled_scripts_def dict_get_def
          script_events_round_trip split: option.split)
qed

lemma tags_to_dict_distinct:
  "distinct (map fst ts) \<Longrightarrow> fst ` set ts \<inter> fst ` set d = {} \<Longrightarrow>
     tags_to_dict ts d = d @ map (\<lambda>t. (fst t, opt_str (snd t))) ts"
proof (induction ts arbitrary: d)
  case (Cons t ts)
  have "AList.update k v d = d @ [(k, v)]" if "k \<notin> fst ` set d" for k v and d :: "(string \<times> val) list"
    using that by (induction d) auto
  then have "AList.update (fst t) (opt_str (snd t)) d = d @ [(fst t, opt_str (snd t))]"
    using Cons.prems by auto
  then show ?case using Cons by auto
qed simp

lemma tags_read_back: "map_sum_list tag_from_db (map (\<lambda>t. (fst t, opt_str (snd t))) ts) = Inr ts"
proof (induction ts)
  case (Cons t ts)
  then show ?case
    by (cases t; cases "snd t") (auto simp: tag_from_db_def opt_str_field_def)
qed simp

lemma opt_strs_or_nil: "opt_strs (case map_option strs x of None \<Rightarrow> VList [] | Some v \<Rightarrow> v) = Inr (Some (list_or_nil x))"
  by (cases x) (simp_all add: opt_strs_def list_or_nil_def)

lemma read_list_or_nil:
  "d k = map_option strs x \<Longrightarrow>
     opt_list_field (get_value_as_list k d (Some [])) = Inr (Some (list_or_nil x))"
  by (cases x) (auto simp: opt_list_field_def list_or_nil_def)

definition clean_project :: "project \<Rightarrow> bool" where
  "clean_project p \<longleftrightarrow> p_project_id p \<noteq> None \<and> clean (p_project_id p) \<and> clean (p_name p) \<and>
     clean (p_title p) \<and> clean (p_description p) \<and>
     (\<forall>b. p_budget p = Some b \<longrightarrow> b \<noteq> None \<and> clean b) \<and>
     (\<forall>ts. p_tags p = Some ts \<longrightarrow> ts \<noteq> [] \<and> distinct (map fst ts))"

definition stored_project :: "project \<Rightarrow> project" where
  "stored_project p = p
     \<lparr>p_enabled := Some False,
      p_ldap_groups := Some (list_or_nil (p_ldap_groups p)), p_users := Some (list_or_nil (p_users p)),
      p_enable_budgets := Some (p_enable_budgets p = Some True),
      p_created_on := Some 0, p_updated_on := Some 0,
      p_security_groups := Some (list_or_nil (p_security_groups p)),
      p_policy_arns := Some (list_or_nil (p_policy_arns p)),
      p_scripts := Some (case p_scripts p of None \<Rightarrow> \<lparr>windows = None, linux = None\<rparr>
                         | Some sc \<Rightarrow> filled_scripts sc)\<rparr>"

lemma project_round_trip:
  assumes "clean_project p"
  shows "project_from_db (project_to_db p) = Inr (stored_project p)"
proof -
  let ?d = "project_to_db p"
  have lists: "?d ''ldap_groups'' = map_option strs (p_ldap_groups p)"
    "?d ''security_groups'' = map_option strs (p_security_groups p)"
    "?d ''policy_arns'' = map_option strs (p_policy_arns p)"
    "?d ''users'' = map_option strs (p_users p)"
    by (simp_all add: project_to_db_def)
  have tags: "(case get_value_as_dict ''tags'' ?d None of None \<Rightarrow> Inr None
      | Some kvs \<Rightarrow> bindE (map_sum_list tag_from_db kvs) (\<lambda>ts. Inr (Some ts))) = Inr (p_tags p)"
    using assms
    by (cases "p_tags p")
       (auto simp: project_to_db_def clean_project_def get_value_as_dict_def value_exists_def
          tags_to_dict_distinct tags_read_back)
  have scr: "scripts_from_db (get_value_as_dict ''scripts'' ?d None) =
      Inr (case p_scripts p of None \<Rightarrow> \<lparr>windows = None, linux = None\<rparr> | Some sc \<Rightarrow> filled_scripts sc)"
  proof (cases "p_scripts p")
    case None
    then show ?thesis by (simp add: project_to_db_def scripts_from_db_def)
  next
    case (Some sc)
    obtain d where d: "convert_scripts_to_dict sc = VDict d" by (simp add: convert_scripts_to_dict_def)
    then have "get_value_as_dict ''scripts'' ?d None = get_as_dict (convert_scripts_to_dict sc) None"
      using Some by (simp add: project_to_db_def get_value_as_dict_def value_exists_def)
    then show ?thesis using scripts_round_trip [of sc] Some by simp
  qed
  have bools: "get_value_as_bool ''enabled'' ?d (Some False) = Some False"
    "get_value_as_bool ''enable_budgets'' ?d (Some False) = Some (p_enable_budgets p = Some True)"
    by (cases "p_enable_budgets p"; simp add: project_to_db_def)+
  have strings: "get_value_as_string ''project_id'' ?d None = p_project_id p"
    "get_value_as_string ''name'' ?d None = p_name p"
    "get_value_as_string ''title'' ?d None = p_title p"
    "get_value_as_string ''description'' ?d None = p_description p"
    "(case get_value_as_string ''budget_name'' ?d None of None \<Rightarrow> None | Some b \<Rightarrow> Some (Some b)) = p_budget p"
    using assms
    by (auto simp: project_to_db_def clean_project_def read_string split: option.split)
  have times: "get_value_as_int ''created_on'' ?d (Some 0) = Some 0"
    "get_value_as_int ''updated_on'' ?d (Some 0) = Some 0"
    by (simp_all add: project_to_db_def)
  have users: "opt_strs (attr_or ?d ''users'' (VList [])) = Inr (Some (list_or_nil (p_users p)))"
    by (cases "p_users p") (simp_all add: lists attr_or_def opt_strs_def list_or_nil_def)
  show ?thesis
    by (simp add: project_from_db_def read_list_or_nil lists users tags scr
        bools strings times stored_project_def)
qed

text \<open>
  A project written to its table and read back keeps its name, texts, lists, tags, budget
  and launch scripts; it comes back disabled, because the conversion to a row never writes
  the state, and lists that were missing come back empty.
\<close>

theorem project_survives_the_table:
  assumes "clean_project p"
  shows "project_from_db (project_to_db p) = Inr (stored_project p)"
  using assms by (rule project_round_trip)

definition sample_project :: project where
  "sample_project = \<lparr>p_project_id = Some ''p'', p_name = Some ''proj'', p_title = None, p_description = None,
     p_enabled = Some True, p_ldap_groups = Some [''g''], p_users = None, p_enable_budgets = None,
     p_budget = Some (Some ''b''), p_tags = Some [(''k'', Some ''v'')], p_created_on = None,
     p_updated_on = None, p_security_groups = None, p_policy_arns = Some [''arn''],
     p_scripts = Some \<lparr>windows = None, linux = Some \<lparr>on_vdi_start =
        Some [\<lparr>script_location = ''s3://b/x.sh'', arguments = Some [''1'']\<rparr>], on_vdi_configured = None\<rparr>\<rparr>\<rparr>"

theorem project_survives_the_table_witness:
  "\<exists>q. project_from_db (project_to_db sample_project) = Inr q \<and>
     p_scripts q = Some \<lparr>
       windows = Some \<lparr>on_vdi_start = Some [], on_vdi_configured = Some []\<rparr>,
       linux = Some \<lparr>on_vdi_start = Some [\<lparr>script_location = ''s3://b/x.sh'', arguments = Some [''1'']\<rparr>],
                     on_vdi_configured = Some []\<rparr>\<rparr>"
proof -
  have "py_strip ''p'' = ''p''" "py_strip ''proj'' = ''proj''" "py_strip ''b'' = ''b''" by code_simp+
  then have "clean_project sample_project"
    by (simp add: clean_project_def clean_def sample_project_def)
  then show ?thesis
    using project_survives_the_table [of sample_project]
    by (simp add: stored_project_def sample_project_def filled_scripts_def filled_events_def list_or_nil_def)
qed

end
