(* ===== verification/User_Projects.thy ===== *)
theory User_Projects
  imports Projects_DAO
begin

text \<open>
  Who may use which project: \<^verbatim>\<open>projects/db/user_projects_dao.py\<close>. The table of user
  projects holds, for a user and a project, the list \<open>by_ldaps\<close> of what the access comes
  from: the names of groups, and \<open>SELF\<close> for a user the project names itself. The table of
  project groups holds which groups a project was opened to. The abstract view is the
  set of sources of each pair (\<open>access\<close>); granting is insertion, revoking is removal,
  and the whole-group operations are the corresponding loops, proved once for the
  interface \<open>access_table\<close>.
\<close>

section \<open>UserProjectsDAO\<close>

text \<open>What \<open>set(v)\<close> iterates and the error it raises for unhashable elements.\<close>

definition iter_val :: "val \<Rightarrow> exn + val list" where
  "iter_val v = (case v of
      VList vs \<Rightarrow> Inr vs
    | VStr s \<Rightarrow> Inr (map (\<lambda>c. VStr [c]) s)
    | VDict d \<Rightarrow> Inr (map (\<lambda>kv. VStr (fst kv)) d)
    | _ \<Rightarrow> Inl TypeError)"

fun hashable :: "val \<Rightarrow> bool" where
  "hashable (VList vs) = False"
| "hashable (VDict d) = False"
| "hashable v = True"

definition set_of_val :: "val \<Rightarrow> exn + val list" where
  "set_of_val v = bindE (iter_val v) (\<lambda>vs. if list_all hashable vs then Inr vs else Inl TypeError)"

definition val_hash :: "'db env \<Rightarrow> val \<Rightarrow> nat" where
  "val_hash E v = str_hash (cfg E) (py_str v)"

text \<open>An element of a list of names, handed on as an argument.\<close>

definition name_arg :: "val \<Rightarrow> exn + string" where
  "name_arg v = (case v of
      VStr s \<Rightarrow> Inr s | VNone \<Rightarrow> Inr [] | _ \<Rightarrow> Inl (ServiceError ''ValidationException''))"

text \<open>The names in a list of a row, as the set the code builds of them.\<close>

definition names_of :: "val \<Rightarrow> exn + string list" where
  "names_of v = bindE (set_of_val v) (map_sum_list name_arg)"

text \<open>\<open>set(existing_user['by_ldaps'] if existing_user['by_ldaps'] else [])\<close>\<close>

definition existing_ldaps :: "item option \<Rightarrow> ('s, val list) act" where
  "existing_ldaps existing_user = (case existing_user of
      None \<Rightarrow> raise TypeError
    | Some d \<Rightarrow> bindA (attr d ''by_ldaps'') (\<lambda>v.
        if py_truthy v then liftA (set_of_val v) else return []))"

definition is_user_in_project :: "'db env \<Rightarrow> string \<Rightarrow> string \<Rightarrow> ('db st, bool) act" where
  "is_user_in_project E username project_id =
     raise_if (blank username) invalid_params
    (raise_if (blank project_id) invalid_params
    (bindA (db_get E UserProjects (username, project_id)) (\<lambda>result.
     return (result \<noteq> None))))"

definition create_user_project ::
  "'db env \<Rightarrow> string \<Rightarrow> string \<Rightarrow> string list \<Rightarrow> ('db st, unit) act" where
  "create_user_project E project_id username by_ldaps =
     raise_if (blank project_id) invalid_params
    (raise_if (blank username) invalid_params
    (bindA (is_user_in_project E username project_id) (\<lambda>present.
     if present then
       bindA (db_get E UserProjects (username, project_id)) (\<lambda>existing_user.
       bindA (existing_ldaps existing_user) (\<lambda>existing_user_ldaps.
       let by_ldaps = py_set_list (val_hash E) (existing_user_ldaps @ map VStr by_ldaps) in
       seqA (db_update E UserProjects (username, project_id) [''by_ldaps'' \<mapsto> VList by_ldaps])
         (return ())))
     else
       db_put E UserProjects [''project_id'' \<mapsto> VStr project_id, ''username'' \<mapsto> VStr username,
                              ''by_ldaps'' \<mapsto> strs by_ldaps])))"

definition project_not_found :: exn where
  "project_not_found = SocaException PROJECT_NOT_FOUND"

definition user_not_found :: exn where
  "user_not_found = SocaException AUTH_USER_NOT_FOUND"

definition delete_user_project ::
  "'db env \<Rightarrow> string \<Rightarrow> string \<Rightarrow> string list \<Rightarrow> bool \<Rightarrow> ('db st, unit) act" where
  "delete_user_project E project_id username by_ldaps force =
     raise_if (blank project_id) invalid_params
    (raise_if (blank username) invalid_params
    (bindA (get_project_by_id E project_id) (\<lambda>project.
     raise_if (project = None) project_not_found
    (bindA (user_dao_get_user E username) (\<lambda>user.
     raise_if (user = None) user_not_found
    (bindA (is_user_in_project E username project_id) (\<lambda>present.
     if present then
       bindA (db_get E UserProjects (username, project_id)) (\<lambda>existing_user.
       bindA (existing_ldaps existing_user) (\<lambda>existing_user_ldaps.
       let by_ldaps = py_set_list (val_hash E)
             (filter (\<lambda>v. v \<notin> set (map VStr by_ldaps)) existing_user_ldaps) in
       if by_ldaps \<noteq> [] then
         seqA (db_update E UserProjects (username, project_id) [''by_ldaps'' \<mapsto> VList by_ldaps])
           (return ())
       else db_delete E UserProjects (username, project_id)))
     else return ())))))))"

definition ldap_group_added :: "'db env \<Rightarrow> string \<Rightarrow> string \<Rightarrow> ('db st, unit) act" where
  "ldap_group_added E project_id group_name =
     raise_if (blank project_id) invalid_params
    (raise_if (blank group_name) invalid_params
    (seqA (db_put E ProjectGroups [''group_name'' \<mapsto> VStr group_name, ''project_id'' \<mapsto> VStr project_id])
    (bindA (get_usernames_in_group E group_name) (\<lambda>usernames.
     for_each usernames (\<lambda>username. create_user_project E project_id username [group_name])))))"

definition ldap_group_removed :: "'db env \<Rightarrow> string \<Rightarrow> string \<Rightarrow> bool \<Rightarrow> ('db st, unit) act" where
  "ldap_group_removed E project_id group_name force =
     raise_if (blank project_id) invalid_params
    (raise_if (blank group_name) invalid_params
    (seqA (db_delete E ProjectGroups (group_name, project_id))
    (bindA (get_usernames_in_group E group_name) (\<lambda>usernames.
     for_each usernames (\<lambda>username. delete_user_project E project_id username [group_name] force)))))"

definition user_projects_delete_project :: "'db env \<Rightarrow> string \<Rightarrow> ('db st, unit) act" where
  "user_projects_delete_project E project_id =
     raise_if (blank project_id) invalid_params
    (bindA (db_scan E ProjectGroups [(''project_id'', EQ, VStr project_id)]) (\<lambda>result.
     for_each (fst result) (\<lambda>i.
       bindA (liftA (str_attr ''group_name'' i)) (\<lambda>group_name.
       ldap_group_removed E project_id group_name True))))"

definition get_projects_by_username :: "'db env \<Rightarrow> string \<Rightarrow> ('db st, string list) act" where
  "get_projects_by_username E username =
     raise_if (blank username) invalid_params
    (bindA (db_query E UserProjects username None None) (\<lambda>result.
     liftA (map_sum_list (str_attr ''project_id'') (fst result))))"

definition get_projects_by_group_name :: "'db env \<Rightarrow> string \<Rightarrow> ('db st, string list) act" where
  "get_projects_by_group_name E group_name =
     raise_if (blank group_name) invalid_params
    (bindA (db_query E ProjectGroups group_name None None) (\<lambda>result.
     liftA (map_sum_list (str_attr ''project_id'') (fst result))))"

definition group_member_added :: "'db env \<Rightarrow> string \<Rightarrow> string \<Rightarrow> ('db st, unit) act" where
  "group_member_added E group_name username =
     raise_if (blank group_name) invalid_params
    (raise_if (blank username) invalid_params
    (bindA (get_projects_by_group_name E group_name) (\<lambda>project_ids.
     for_each project_ids (\<lambda>project_id. create_user_project E project_id username [group_name]))))"

definition group_member_removed :: "'db env \<Rightarrow> string \<Rightarrow> string \<Rightarrow> ('db st, unit) act" where
  "group_member_removed E group_name username =
     raise_if (blank group_name) invalid_params
    (raise_if (blank username) invalid_params
    (bindA (get_projects_by_group_name E group_name) (\<lambda>project_ids.
     for_each project_ids (\<lambda>project_id.
       delete_user_project E project_id username [group_name] False))))"

text \<open>\<open>project['ldap_groups']\<close> of a project that may be missing, iterated as names.\<close>

definition project_attr :: "item option \<Rightarrow> string \<Rightarrow> ('s, val) act" where
  "project_attr project key = (case project of None \<Rightarrow> raise TypeError | Some d \<Rightarrow> attr d key)"

definition for_each_name :: "val \<Rightarrow> (string \<Rightarrow> ('s, unit) act) \<Rightarrow> ('s, unit) act" where
  "for_each_name v f = bindA (liftA (iter_val v)) (\<lambda>vs.
     for_each vs (\<lambda>x. bindA (liftA (name_arg x)) f))"

definition project_disabled :: "'db env \<Rightarrow> string \<Rightarrow> ('db st, unit) act" where
  "project_disabled E project_id =
     raise_if (are_empty [VStr project_id]) invalid_params
    (bindA (get_project_by_id E project_id) (\<lambda>project.
     bindA (project_attr project ''ldap_groups'') (\<lambda>ldap_groups.
     bindA (project_attr project ''users'') (\<lambda>usernames.
     seqA (for_each_name ldap_groups (\<lambda>ldap_group. ldap_group_removed E project_id ldap_group False))
          (for_each_name usernames (\<lambda>username.
             delete_user_project E project_id username [''SELF''] False))))))"

definition project_enabled :: "'db env \<Rightarrow> string \<Rightarrow> ('db st, unit) act" where
  "project_enabled E project_id =
     raise_if (are_empty [VStr project_id]) invalid_params
    (bindA (get_project_by_id E project_id) (\<lambda>project.
     bindA (project_attr project ''ldap_groups'') (\<lambda>ldap_groups.
     bindA (case project of None \<Rightarrow> raise TypeError
            | Some d \<Rightarrow> return (attr_or d ''users'' (VList []))) (\<lambda>users.
     seqA (for_each_name ldap_groups (\<lambda>ldap_group. ldap_group_added E project_id ldap_group))
          (for_each_name users (\<lambda>user. create_user_project E project_id user [''SELF'']))))))"

definition has_projects_in_group :: "'db env \<Rightarrow> string \<Rightarrow> ('db st, bool) act" where
  "has_projects_in_group E group_name =
     bindA (db_query E ProjectGroups group_name (Some 1) None) (\<lambda>query_result.
     return (length (fst query_result) > 0))"

text \<open>
  The key of \<open>is_group_in_project\<close> names the attributes \<open>username\<close> and \<open>project_id\<close>; the
  table's key is \<open>group_name\<close> and \<open>project_id\<close>, and DynamoDB rejects a key that does not
  match the schema. No caller uses the method.
\<close>

definition get_item_by :: "'db env \<Rightarrow> table \<Rightarrow> item \<Rightarrow> ('db st, item option) act" where
  "get_item_by E t k = (case key_of t k of
      None \<Rightarrow> raise (ServiceError ''ValidationException'')
    | Some x \<Rightarrow> db_get E t x)"

definition is_group_in_project :: "'db env \<Rightarrow> string \<Rightarrow> string \<Rightarrow> ('db st, bool) act" where
  "is_group_in_project E group_name project_id =
     raise_if (blank group_name) invalid_params
    (raise_if (blank project_id) invalid_params
    (bindA (get_item_by E ProjectGroups [''username'' \<mapsto> VStr group_name, ''project_id'' \<mapsto> VStr project_id]) (\<lambda>result.
     return (result \<noteq> None))))"

section \<open>The access relation\<close>

text \<open>
  \<open>access E d (u, p)\<close> is the set of sources of the access of user \<open>u\<close> to project \<open>p\<close>. A table
  is well formed when each row has a non-empty list of names, which is what every write
  of the object leaves.
\<close>

definition access :: "'db env \<Rightarrow> 'db \<Rightarrow> string \<times> string \<Rightarrow> string set" where
  "access E d k = {x. \<exists>i vs. ddb_get E d UserProjects k = Some i \<and>
                            i ''by_ldaps'' = Some (VList vs) \<and> VStr x \<in> set vs}"

definition sources_ok :: "'db env \<Rightarrow> 'db \<Rightarrow> bool" where
  "sources_ok E d \<longleftrightarrow> (\<forall>k i. ddb_get E d UserProjects k = Some i \<longrightarrow>
     (\<exists>vs. i ''by_ldaps'' = Some (VList vs) \<and> vs \<noteq> [] \<and> set vs \<subseteq> range VStr))"

text \<open>Everything but the rows of the user projects and the clock.\<close>

definition elsewhere :: "'db env \<Rightarrow> 'db st \<Rightarrow> (table \<Rightarrow> key \<Rightarrow> item option) \<times> nat \<times> ext_call list" where
  "elsewhere E s = ((\<lambda>t k. if t = UserProjects then None else row E s t k), st_uuids s, st_trace s)"

definition user_exists :: "'db env \<Rightarrow> 'db \<Rightarrow> string \<Rightarrow> bool" where
  "user_exists E d u \<longleftrightarrow> (\<exists>n. sanitize_username u = Inr n \<and> ddb_get E d Users (n, []) \<noteq> None)"

definition revocable :: "'db env \<Rightarrow> 'db st \<Rightarrow> string \<Rightarrow> string \<Rightarrow> bool" where
  "revocable E s p u \<longleftrightarrow> row E s Projects (p, []) \<noteq> None \<and> user_exists E (st_db s) u"

lemma elsewhere_row:
  "elsewhere E s = elsewhere E t \<Longrightarrow> x \<noteq> UserProjects \<Longrightarrow> row E s x k = row E t x k"
proof -
  assume e: "elsewhere E s = elsewhere E t" and x: "x \<noteq> UserProjects"
  have "fst (elsewhere E s) x k = fst (elsewhere E t) x k" using e by simp
  then show ?thesis using x by (simp add: elsewhere_def)
qed

lemma elsewhere_revocable: "elsewhere E s = elsewhere E t \<Longrightarrow> revocable E s p u = revocable E t p u"
  by (simp add: revocable_def user_exists_def elsewhere_row [of E s t])

lemma elsewhere_members: "elsewhere E s = elsewhere E t \<Longrightarrow> members E (st_db s) = members E (st_db t)"
  by (simp add: members_def elsewhere_row [of E s t] fun_eq_iff)

lemma user_exists_not_blank: "user_exists E d u \<Longrightarrow> \<not> blank u"
  by (auto simp: user_exists_def sanitize_username_def split: if_splits)

lemma existing_ldaps_run:
  assumes "i ''by_ldaps'' = Some (VList vs)" and "set vs \<subseteq> range VStr"
  shows "existing_ldaps (Some i) s = (Inr vs, s)"
proof -
  have "list_all hashable vs" using assms(2) by (auto simp: list_all_iff)
  then show ?thesis
    using assms(1) by (auto simp: existing_ldaps_def set_of_val_def iter_val_def)
qed

lemma is_user_in_project_run [simp]:
  "\<not> blank u \<Longrightarrow> \<not> blank p \<Longrightarrow>
     is_user_in_project E u p s = (Inr (row E s UserProjects (u, p) \<noteq> None), s)"
  by (simp add: is_user_in_project_def)

lemma key_of_user_project [simp]:
  "key_of UserProjects [''project_id'' \<mapsto> VStr p, ''username'' \<mapsto> VStr u, ''by_ldaps'' \<mapsto> v] = Some (u, p)"
  "key_of ProjectGroups [''group_name'' \<mapsto> VStr g, ''project_id'' \<mapsto> VStr p] = Some (g, p)"
  by (simp_all add: key_of_def schema_defs)

lemma by_ldaps_update [simp]:
  "set_attributes UserProjects k old [''by_ldaps'' \<mapsto> v] ''by_ldaps'' = Some v"
  by (simp add: set_attributes_def key_item_def schema_defs map_add_def)

subsection \<open>Granting and revoking one source\<close>

text \<open>
  The interface of the loops: granting inserts a source, revoking removes one, and both
  leave alone what is kept elsewhere, on which it depends whether a grant can be revoked.
\<close>

locale access_table =
  fixes access_of :: "'s \<Rightarrow> string \<times> string \<Rightarrow> string set"
    and well_formed :: "'s \<Rightarrow> bool"
    and other :: "'s \<Rightarrow> 'r"
    and can_revoke :: "'s \<Rightarrow> string \<Rightarrow> string \<Rightarrow> bool"
    and grant :: "string \<Rightarrow> string \<Rightarrow> string \<Rightarrow> ('s, unit) act"
    and revoke :: "string \<Rightarrow> string \<Rightarrow> string \<Rightarrow> ('s, unit) act"
  assumes grant: "well_formed s \<Longrightarrow> \<not> blank p \<Longrightarrow> \<not> blank u \<Longrightarrow>
      \<exists>t. grant p u x s = (Inr (), t) \<and> well_formed t \<and> other t = other s \<and>
          access_of t = (access_of s)((u, p) := insert x (access_of s (u, p)))"
    and revoke: "well_formed s \<Longrightarrow> \<not> blank p \<Longrightarrow> can_revoke s p u \<Longrightarrow>
      \<exists>t. revoke p u x s = (Inr (), t) \<and> well_formed t \<and> other t = other s \<and>
          access_of t = (access_of s)((u, p) := access_of s (u, p) - {x})"
    and can_revoke_other: "other s = other t \<Longrightarrow> can_revoke s p u = can_revoke t p u"
begin

lemma grant_pairs:
  assumes "well_formed s" and "\<forall>(u, p) \<in> set ks. \<not> blank p \<and> \<not> blank u"
  shows "\<exists>t. for_each ks (\<lambda>(u, p). grant p u x) s = (Inr (), t) \<and> well_formed t \<and> other t = other s \<and>
     (\<forall>k. access_of t k = (if k \<in> set ks then insert x (access_of s k) else access_of s k))"
  using assms
proof (induction ks arbitrary: s)
  case (Cons k ks)
  obtain u p where k: "k = (u, p)" by force
  obtain t1 where t1: "grant p u x s = (Inr (), t1)" "well_formed t1" "other t1 = other s"
    "access_of t1 = (access_of s)((u, p) := insert x (access_of s (u, p)))"
    using grant [of s p u x] Cons.prems k by auto
  obtain t where "for_each ks (\<lambda>(u, p). grant p u x) t1 = (Inr (), t)" "well_formed t"
    "other t = other t1"
    "\<forall>k. access_of t k = (if k \<in> set ks then insert x (access_of t1 k) else access_of t1 k)"
    using Cons.IH [OF t1(2)] Cons.prems by auto
  then show ?case using t1 k by (intro exI [of _ t]) auto
qed simp

lemma revoke_pairs:
  assumes "well_formed s" and "\<forall>(u, p) \<in> set ks. \<not> blank p \<and> can_revoke s p u"
  shows "\<exists>t. for_each ks (\<lambda>(u, p). revoke p u x) s = (Inr (), t) \<and> well_formed t \<and> other t = other s \<and>
     (\<forall>k. access_of t k = (if k \<in> set ks then access_of s k - {x} else access_of s k))"
  using assms
proof (induction ks arbitrary: s)
  case (Cons k ks)
  obtain u p where k: "k = (u, p)" by force
  obtain t1 where t1: "revoke p u x s = (Inr (), t1)" "well_formed t1" "other t1 = other s"
    "access_of t1 = (access_of s)((u, p) := access_of s (u, p) - {x})"
    using revoke [of s p u x] Cons.prems k by auto
  have "\<forall>(u, p) \<in> set ks. \<not> blank p \<and> can_revoke t1 p u"
    using Cons.prems can_revoke_other [OF t1(3)] by auto
  then obtain t where "for_each ks (\<lambda>(u, p). revoke p u x) t1 = (Inr (), t)" "well_formed t"
    "other t = other t1"
    "\<forall>k. access_of t k = (if k \<in> set ks then access_of t1 k - {x} else access_of t1 k)"
    using Cons.IH [OF t1(2)] by auto
  then show ?case using t1 k by (intro exI [of _ t]) auto
qed simp

lemma grant_users:
  assumes "well_formed s" and "\<not> blank p" and "\<forall>u \<in> set us. \<not> blank u"
  shows "\<exists>t. for_each us (\<lambda>u. grant p u x) s = (Inr (), t) \<and> well_formed t \<and> other t = other s \<and>
     (\<forall>u q. access_of t (u, q) =
        (if u \<in> set us \<and> q = p then insert x (access_of s (u, q)) else access_of s (u, q)))"
  using grant_pairs [OF assms(1), of "map (\<lambda>u. (u, p)) us" x] assms(2,3)
  by (simp add: for_each_map image_iff)

lemma grant_projects:
  assumes "well_formed s" and "\<not> blank u" and "\<forall>p \<in> set ps. \<not> blank p"
  shows "\<exists>t. for_each ps (\<lambda>p. grant p u x) s = (Inr (), t) \<and> well_formed t \<and> other t = other s \<and>
     (\<forall>v q. access_of t (v, q) =
        (if v = u \<and> q \<in> set ps then insert x (access_of s (v, q)) else access_of s (v, q)))"
  using grant_pairs [OF assms(1), of "map (\<lambda>p. (u, p)) ps" x] assms(2,3)
  by (simp add: for_each_map image_iff)

lemma revoke_users:
  assumes "well_formed s" and "\<not> blank p" and "\<forall>u \<in> set us. can_revoke s p u"
  shows "\<exists>t. for_each us (\<lambda>u. revoke p u x) s = (Inr (), t) \<and> well_formed t \<and> other t = other s \<and>
     (\<forall>u q. access_of t (u, q) =
        (if u \<in> set us \<and> q = p then access_of s (u, q) - {x} else access_of s (u, q)))"
  using revoke_pairs [OF assms(1), of "map (\<lambda>u. (u, p)) us" x] assms(2,3)
  by (simp add: for_each_map image_iff)

lemma revoke_projects:
  assumes "well_formed s" and "\<forall>p \<in> set ps. \<not> blank p \<and> can_revoke s p u"
  shows "\<exists>t. for_each ps (\<lambda>p. revoke p u x) s = (Inr (), t) \<and> well_formed t \<and> other t = other s \<and>
     (\<forall>v q. access_of t (v, q) =
        (if v = u \<and> q \<in> set ps then access_of s (v, q) - {x} else access_of s (v, q)))"
  using revoke_pairs [OF assms(1), of "map (\<lambda>p. (u, p)) ps" x] assms(2)
  by (simp add: for_each_map image_iff)

end

context dynamodb
begin

lemma sources_put:
  assumes "key_of UserProjects i = Some k" and "i ''by_ldaps'' = Some (VList vs)"
  shows "access E (ddb_put E d UserProjects i) = (access E d)(k := {x. VStr x \<in> set vs})"
    and "sources_ok E d \<Longrightarrow> vs \<noteq> [] \<Longrightarrow> set vs \<subseteq> range VStr \<Longrightarrow>
      sources_ok E (ddb_put E d UserProjects i)"
proof -
  show "access E (ddb_put E d UserProjects i) = (access E d)(k := {x. VStr x \<in> set vs})"
    by (rule ext) (simp add: access_def assms row_put [OF assms(1)])
  show "sources_ok E (ddb_put E d UserProjects i)"
    if "sources_ok E d" and "vs \<noteq> []" and "set vs \<subseteq> range VStr"
    using that by (auto simp only: sources_ok_def row_put [OF assms(1)] assms split: if_splits)
qed

lemma sources_delete:
  shows "access E (ddb_delete E d UserProjects k) = (access E d)(k := {})"
    and "sources_ok E d \<Longrightarrow> sources_ok E (ddb_delete E d UserProjects k)"
  by (simp_all add: access_def sources_ok_def fun_eq_iff get_delete)

lemma elsewhere_write [simp]:
  "key_of UserProjects i = Some k \<Longrightarrow>
     elsewhere E (s\<lparr>st_db := ddb_put E (st_db s) UserProjects i\<rparr>) = elsewhere E s"
  "elsewhere E (s\<lparr>st_db := ddb_delete E (st_db s) UserProjects k\<rparr>) = elsewhere E s"
  "elsewhere E (s\<lparr>st_ticks := n\<rparr>) = elsewhere E s"
  by (auto simp: elsewhere_def fun_eq_iff get_put get_delete)

lemma sources_row:
  assumes "sources_ok E d" and "ddb_get E d UserProjects k = Some i"
  obtains vs where "i ''by_ldaps'' = Some (VList vs)" and "vs \<noteq> []" and "set vs \<subseteq> range VStr"
    and "access E d k = {x. VStr x \<in> set vs}"
proof -
  obtain vs where "i ''by_ldaps'' = Some (VList vs)" "vs \<noteq> []" "set vs \<subseteq> range VStr"
    using assms unfolding sources_ok_def by blast
  moreover from this have "access E d k = {x. VStr x \<in> set vs}"
    using assms(2) by (simp add: access_def)
  ultimately show thesis by (rule that)
qed

lemma create_user_project_grants:
  assumes "sources_ok E (st_db s)" and "\<not> blank p" and "\<not> blank u"
  shows "\<exists>t. create_user_project E p u [x] s = (Inr (), t) \<and> sources_ok E (st_db t) \<and>
     elsewhere E t = elsewhere E s \<and>
     access E (st_db t) = (access E (st_db s))((u, p) := insert x (access E (st_db s) (u, p)))"
proof (cases "row E s UserProjects (u, p)")
  case None
  then have "access E (st_db s) (u, p) = {}" by (simp add: access_def)
  then show ?thesis
    using assms None by (simp add: create_user_project_def sources_put)
next
  case (Some i)
  obtain vs where vs: "i ''by_ldaps'' = Some (VList vs)" "vs \<noteq> []" "set vs \<subseteq> range VStr"
    and acc: "access E (st_db s) (u, p) = {x. VStr x \<in> set vs}"
    using sources_row [OF assms(1) Some] by blast
  let ?new = "py_set_list (val_hash E) (vs @ [VStr x])"
  have new: "set ?new = insert (VStr x) (set vs)" by simp
  then have "?new \<noteq> []" by (metis empty_not_insert set_empty)
  moreover have "{y. VStr y \<in> set ?new} = insert x (access E (st_db s) (u, p))"
    unfolding new acc by auto
  moreover have "set ?new \<subseteq> range VStr" unfolding new using vs(3) by simp
  ultimately show ?thesis
    using assms Some vs(1,3)
    by (simp add: create_user_project_def existing_ldaps_run Let_def sources_put
        key_of_set_attributes del: set_py_set_list)
qed

lemma delete_user_project_revokes:
  assumes "sources_ok E (st_db s)" and "\<not> blank p" and "revocable E s p u"
  shows "\<exists>t. delete_user_project E p u [x] b s = (Inr (), t) \<and> sources_ok E (st_db t) \<and>
     elsewhere E t = elsewhere E s \<and>
     access E (st_db t) = (access E (st_db s))((u, p) := access E (st_db s) (u, p) - {x})"
proof -
  obtain n j k where n: "sanitize_username u = Inr n" "row E s Users (n, []) = Some j"
    and pr: "row E s Projects (p, []) = Some k" and u: "\<not> blank u"
    using assms(3) user_exists_not_blank [of E "st_db s" u]
    unfolding revocable_def user_exists_def by blast
  let ?s = "s\<lparr>st_ticks := st_ticks s + 2\<rparr>"
  show ?thesis
  proof (cases "row E s UserProjects (u, p)")
    case None
    then have "access E (st_db s) (u, p) = {}" by (simp add: access_def)
    then show ?thesis
      using assms(1,2) n pr u None
      by (simp add: delete_user_project_def user_dao_get_user_run fun_upd_idem)
  next
    case (Some i)
    obtain vs where vs: "i ''by_ldaps'' = Some (VList vs)" "vs \<noteq> []" "set vs \<subseteq> range VStr"
      and acc: "access E (st_db s) (u, p) = {x. VStr x \<in> set vs}"
      using sources_row [OF assms(1) Some] by blast
    let ?left = "py_set_list (val_hash E) (filter (\<lambda>v. v \<noteq> VStr x) vs)"
    have left: "set ?left = set vs - {VStr x}" by auto
    have gone: "{y. VStr y \<in> set ?left} = access E (st_db s) (u, p) - {x}"
      unfolding left acc by auto
    have strings: "set ?left \<subseteq> range VStr" unfolding left using vs(3) by blast
    have run: "delete_user_project E p u [x] b s =
        (if ?left \<noteq> [] then
           seqA (db_update E UserProjects (u, p) [''by_ldaps'' \<mapsto> VList ?left]) (return ())
         else db_delete E UserProjects (u, p)) ?s"
      using assms(2) n pr u Some vs(1,3)
      by (simp add: delete_user_project_def user_dao_get_user_run existing_ldaps_run Let_def)
    have frame: "elsewhere E (?s\<lparr>st_db := ddb_put E (st_db s) UserProjects y\<rparr>) = elsewhere E s"
      if "key_of UserProjects y = Some z" for y z
      using elsewhere_write(1) [OF that, of ?s] by simp
    have frame': "elsewhere E (?s\<lparr>st_db := ddb_delete E (st_db s) UserProjects z\<rparr>) = elsewhere E s"
      for z
      using elsewhere_write(2) [of ?s] by simp
    show ?thesis
    proof (cases "?left = []")
      case True
      have none: "access E (st_db s) (u, p) - {x} = {}"
        using gone unfolding True by simp
      show ?thesis
        unfolding none using assms(1) True frame' by (simp add: run sources_delete)
    next
      case False
      then show ?thesis
        using assms(1) gone strings frame Some
        by (simp add: run sources_put key_of_set_attributes del: set_py_set_list)
    qed
  qed
qed

lemma force_ignored: "delete_user_project E p u xs b = delete_user_project E p u xs False"
  by (simp add: delete_user_project_def)

lemma user_projects_access_table:
  "access_table (\<lambda>s. access E (st_db s)) (\<lambda>s. sources_ok E (st_db s)) (elsewhere E) (revocable E)
     (\<lambda>p u x. create_user_project E p u [x]) (\<lambda>p u x. delete_user_project E p u [x] False)"
  using create_user_project_grants delete_user_project_revokes elsewhere_revocable
  by unfold_locales blast+

end

sublocale dynamodb \<subseteq> grants: access_table "\<lambda>s. access E (st_db s)" "\<lambda>s. sources_ok E (st_db s)"
  "elsewhere E" "revocable E" "\<lambda>p u x. create_user_project E p u [x]"
  "\<lambda>p u x. delete_user_project E p u [x] False"
  by (rule user_projects_access_table)

interpretation local_access: access_table
  "\<lambda>s. access (mem_env cap w) (st_db s)" "\<lambda>s. sources_ok (mem_env cap w) (st_db s)"
  "elsewhere (mem_env cap w)" "revocable (mem_env cap w)"
  "\<lambda>p u x. create_user_project (mem_env cap w) p u [x]"
  "\<lambda>p u x. delete_user_project (mem_env cap w) p u [x] False" for cap w
  by (rule local_store.user_projects_access_table)

subsection \<open>Groups of users\<close>

text \<open>
  \<open>linked\<close> is the table of project groups. What neither table holds is \<open>unrelated\<close> to the
  operations below; membership and the existence of users and projects are part of it.
\<close>

definition linked :: "'db env \<Rightarrow> 'db \<Rightarrow> (string \<times> string) set" where
  "linked E d = {k. ddb_get E d ProjectGroups k \<noteq> None}"

definition unrelated :: "'db env \<Rightarrow> 'db st \<Rightarrow> (table \<Rightarrow> key \<Rightarrow> item option) \<times> nat \<times> ext_call list" where
  "unrelated E s =
     ((\<lambda>t k. if t \<in> {UserProjects, ProjectGroups} then None else row E s t k), st_uuids s, st_trace s)"

definition members_ok :: "'db env \<Rightarrow> 'db \<Rightarrow> bool" where
  "members_ok E d \<longleftrightarrow> (\<forall>g. \<forall>u \<in> members E d g. norm_name u)"

lemma unrelated_row:
  "unrelated E s = unrelated E t \<Longrightarrow> x \<notin> {UserProjects, ProjectGroups} \<Longrightarrow> row E s x k = row E t x k"
proof -
  assume e: "unrelated E s = unrelated E t" and x: "x \<notin> {UserProjects, ProjectGroups}"
  have "fst (unrelated E s) x k = fst (unrelated E t) x k" using e by simp
  then show ?thesis using x by (simp add: unrelated_def)
qed

lemma unrelated_facts:
  assumes "unrelated E s = unrelated E t"
  shows "members E (st_db s) = members E (st_db t)"
    and "members_ok E (st_db s) = members_ok E (st_db t)"
    and "revocable E s p u = revocable E t p u"
    and "row E s Projects k = row E t Projects k"
  using unrelated_row [OF assms]
  by (simp_all add: members_def members_ok_def revocable_def user_exists_def fun_eq_iff)

lemma elsewhere_unrelated:
  assumes "elsewhere E s = elsewhere E t"
  shows "unrelated E s = unrelated E t" and "linked E (st_db s) = linked E (st_db t)"
  using elsewhere_row [OF assms] assms
  by (simp_all add: unrelated_def linked_def fun_eq_iff elsewhere_def)

context dynamodb
begin

lemma linked_put [simp]:
  "linked E (ddb_put E d ProjectGroups [''group_name'' \<mapsto> VStr g, ''project_id'' \<mapsto> VStr p]) =
     insert (g, p) (linked E d)"
  by (auto simp: linked_def)

lemma linked_delete [simp]:
  "linked E (ddb_delete E d ProjectGroups k) = linked E d - {k}"
  by (auto simp: linked_def)

lemma unrelated_write [simp]:
  "unrelated E (s\<lparr>st_db := ddb_put E (st_db s) ProjectGroups [''group_name'' \<mapsto> VStr g, ''project_id'' \<mapsto> VStr p]\<rparr>)
     = unrelated E s"
  "unrelated E (s\<lparr>st_db := ddb_delete E (st_db s) ProjectGroups k\<rparr>) = unrelated E s"
  by (auto simp: unrelated_def fun_eq_iff)

lemma access_other_table [simp]:
  "key_of t i = Some k \<Longrightarrow> t \<noteq> UserProjects \<Longrightarrow> access E (ddb_put E d t i) = access E d"
  "t \<noteq> UserProjects \<Longrightarrow> access E (ddb_delete E d t k) = access E d"
  "key_of t i = Some k \<Longrightarrow> t \<noteq> UserProjects \<Longrightarrow> sources_ok E (ddb_put E d t i) = sources_ok E d"
  "t \<noteq> UserProjects \<Longrightarrow> sources_ok E (ddb_delete E d t k) = sources_ok E d"
  by (simp_all add: access_def sources_ok_def fun_eq_iff)

lemma ldap_group_added_run:
  assumes "sources_ok E (st_db s)" and "members_ok E (st_db s)" and "\<not> blank p" and "\<not> blank g"
  shows "\<exists>t. ldap_group_added E p g s = (Inr (), t) \<and> sources_ok E (st_db t) \<and>
     unrelated E t = unrelated E s \<and> linked E (st_db t) = insert (g, p) (linked E (st_db s)) \<and>
     (\<forall>u q. access E (st_db t) (u, q) =
        (if u \<in> members E (st_db s) g \<and> q = p then insert g (access E (st_db s) (u, q))
         else access E (st_db s) (u, q)))"
proof -
  let ?s = "s\<lparr>st_db := ddb_put E (st_db s) ProjectGroups [''group_name'' \<mapsto> VStr g, ''project_id'' \<mapsto> VStr p]\<rparr>"
  have mem: "members E (st_db ?s) = members E (st_db s)"
    by (rule unrelated_facts(1)) simp
  obtain us where us: "get_usernames_in_group E g ?s = (Inr us, ?s)" "set us = members E (st_db s) g"
    using get_usernames_in_group_run [OF assms(4), of ?s] mem by metis
  have ok: "sources_ok E (st_db ?s)" using assms(1) by simp
  have nb: "\<forall>u \<in> set us. \<not> blank u"
    using assms(2) us(2) norm_name_not_blank by (auto simp: members_ok_def)
  obtain t where t: "for_each us (\<lambda>u. create_user_project E p u [g]) ?s = (Inr (), t)"
      "sources_ok E (st_db t)" "elsewhere E t = elsewhere E ?s"
      "\<forall>u q. access E (st_db t) (u, q) =
        (if u \<in> set us \<and> q = p then insert g (access E (st_db ?s) (u, q)) else access E (st_db ?s) (u, q))"
    using grants.grant_users [OF ok assms(3) nb] by blast
  have "ldap_group_added E p g s = (Inr (), t)"
    using assms(3,4) us(1) t(1) by (simp add: ldap_group_added_def)
  then show ?thesis
    using t us(2) elsewhere_unrelated [OF t(3)] by simp
qed

lemma ldap_group_removed_run:
  assumes "sources_ok E (st_db s)" and "\<not> blank p" and "\<not> blank g"
    and "\<forall>u \<in> members E (st_db s) g. revocable E s p u"
  shows "\<exists>t. ldap_group_removed E p g b s = (Inr (), t) \<and> sources_ok E (st_db t) \<and>
     unrelated E t = unrelated E s \<and> linked E (st_db t) = linked E (st_db s) - {(g, p)} \<and>
     (\<forall>u q. access E (st_db t) (u, q) =
        (if u \<in> members E (st_db s) g \<and> q = p then access E (st_db s) (u, q) - {g}
         else access E (st_db s) (u, q)))"
proof -
  let ?s = "s\<lparr>st_db := ddb_delete E (st_db s) ProjectGroups (g, p)\<rparr>"
  have mem: "members E (st_db ?s) = members E (st_db s)"
    by (rule unrelated_facts(1)) simp
  obtain us where us: "get_usernames_in_group E g ?s = (Inr us, ?s)" "set us = members E (st_db s) g"
    using get_usernames_in_group_run [OF assms(3), of ?s] mem by metis
  have ok: "sources_ok E (st_db ?s)" using assms(1) by simp
  have "revocable E ?s p u = revocable E s p u" for u by (rule unrelated_facts(3)) simp
  then have nb: "\<forall>u \<in> set us. revocable E ?s p u" using assms(4) us(2) by simp
  obtain t where t: "for_each us (\<lambda>u. delete_user_project E p u [g] False) ?s = (Inr (), t)"
      "sources_ok E (st_db t)" "elsewhere E t = elsewhere E ?s"
      "\<forall>u q. access E (st_db t) (u, q) =
        (if u \<in> set us \<and> q = p then access E (st_db ?s) (u, q) - {g} else access E (st_db ?s) (u, q))"
    using grants.revoke_users [OF ok assms(2) nb] by blast
  have "ldap_group_removed E p g b s = (Inr (), t)"
    using assms(2,3) us(1) t(1) by (simp add: ldap_group_removed_def force_ignored [of p _ _ b])
  then show ?thesis
    using t us(2) elsewhere_unrelated [OF t(3)] by simp
qed

text \<open>All groups of a project, as enabling and disabling it go through them.\<close>

lemma ldap_groups_added_run:
  assumes "sources_ok E (st_db s)" and "members_ok E (st_db s)" and "\<not> blank p" and "\<forall>g \<in> set gs. \<not> blank g"
  shows "\<exists>t. for_each gs (\<lambda>g. ldap_group_added E p g) s = (Inr (), t) \<and> sources_ok E (st_db t) \<and>
     unrelated E t = unrelated E s \<and> linked E (st_db t) = linked E (st_db s) \<union> (\<lambda>g. (g, p)) ` set gs \<and>
     (\<forall>u q. access E (st_db t) (u, q) = access E (st_db s) (u, q) \<union>
        (if q = p then {g \<in> set gs. u \<in> members E (st_db s) g} else {}))"
  using assms
proof (induction gs arbitrary: s)
  case (Cons g gs)
  obtain s1 where s1: "ldap_group_added E p g s = (Inr (), s1)" "sources_ok E (st_db s1)"
      "unrelated E s1 = unrelated E s" "linked E (st_db s1) = insert (g, p) (linked E (st_db s))"
      "\<forall>u q. access E (st_db s1) (u, q) =
        (if u \<in> members E (st_db s) g \<and> q = p then insert g (access E (st_db s) (u, q))
         else access E (st_db s) (u, q))"
    using ldap_group_added_run [of s p g] Cons.prems by auto
  have mem: "members E (st_db s1) = members E (st_db s)" and "members_ok E (st_db s1)"
    using unrelated_facts(1,2) [OF s1(3)] Cons.prems(2) by simp_all
  then obtain t where t: "for_each gs (\<lambda>g. ldap_group_added E p g) s1 = (Inr (), t)" "sources_ok E (st_db t)"
      "unrelated E t = unrelated E s1" "linked E (st_db t) = linked E (st_db s1) \<union> (\<lambda>g. (g, p)) ` set gs"
      "\<forall>u q. access E (st_db t) (u, q) = access E (st_db s1) (u, q) \<union>
        (if q = p then {g \<in> set gs. u \<in> members E (st_db s) g} else {})"
    using Cons.IH [OF s1(2)] Cons.prems by auto
  have "access E (st_db t) (u, q) = access E (st_db s) (u, q) \<union>
        (if q = p then {h \<in> set (g # gs). u \<in> members E (st_db s) h} else {})" for u q
    using t(5) s1(5) by auto
  then show ?case using t s1 by (intro exI [of _ t]) auto
qed simp

lemma ldap_groups_removed_run:
  assumes "sources_ok E (st_db s)" and "\<not> blank p"
    and "\<forall>g \<in> set gs. \<not> blank g \<and> (\<forall>u \<in> members E (st_db s) g. revocable E s p u)"
  shows "\<exists>t. for_each gs (\<lambda>g. ldap_group_removed E p g b) s = (Inr (), t) \<and> sources_ok E (st_db t) \<and>
     unrelated E t = unrelated E s \<and> linked E (st_db t) = linked E (st_db s) - (\<lambda>g. (g, p)) ` set gs \<and>
     (\<forall>u q. access E (st_db t) (u, q) = access E (st_db s) (u, q) -
        (if q = p then {g \<in> set gs. u \<in> members E (st_db s) g} else {}))"
  using assms
proof (induction gs arbitrary: s)
  case (Cons g gs)
  obtain s1 where s1: "ldap_group_removed E p g b s = (Inr (), s1)" "sources_ok E (st_db s1)"
      "unrelated E s1 = unrelated E s" "linked E (st_db s1) = linked E (st_db s) - {(g, p)}"
      "\<forall>u q. access E (st_db s1) (u, q) =
        (if u \<in> members E (st_db s) g \<and> q = p then access E (st_db s) (u, q) - {g}
         else access E (st_db s) (u, q))"
    using ldap_group_removed_run [of s p g b] Cons.prems by auto
  have mem: "members E (st_db s1) = members E (st_db s)"
    and rev: "revocable E s1 p u = revocable E s p u" for u
    using unrelated_facts(1,3) [OF s1(3)] by simp_all
  then obtain t where t: "for_each gs (\<lambda>g. ldap_group_removed E p g b) s1 = (Inr (), t)" "sources_ok E (st_db t)"
      "unrelated E t = unrelated E s1" "linked E (st_db t) = linked E (st_db s1) - (\<lambda>g. (g, p)) ` set gs"
      "\<forall>u q. access E (st_db t) (u, q) = access E (st_db s1) (u, q) -
        (if q = p then {g \<in> set gs. u \<in> members E (st_db s) g} else {})"
    using Cons.IH [OF s1(2)] Cons.prems by auto
  have "access E (st_db t) (u, q) = access E (st_db s) (u, q) -
        (if q = p then {h \<in> set (g # gs). u \<in> members E (st_db s) h} else {})" for u q
    using t(5) s1(5) by auto
  then show ?case using t s1 by (intro exI [of _ t]) auto
qed simp

end

end
