(* ===== verification/Project_Access.thy ===== *)
theory Project_Access
  imports User_Projects
begin

text \<open>
  What the object of user projects guarantees: the operations of a group and of a
  project are the set operations of the access relation, the relation stays in step with
  the memberships, and disabling a project takes every access away.
\<close>

section \<open>Consistency\<close>

text \<open>
  The access that comes from a group is exactly the access of its members to the projects
  the group is linked to. \<open>SELF\<close> is the source of the access a project gives a user by name.
\<close>

definition consistent :: "'db env \<Rightarrow> 'db \<Rightarrow> bool" where
  "consistent E d \<longleftrightarrow> (\<forall>u p g. g \<noteq> ''SELF'' \<longrightarrow>
     (g \<in> access E d (u, p) \<longleftrightarrow> u \<in> members E d g \<and> (g, p) \<in> linked E d))"

text \<open>Tables that the operations wrote: well-formed sources, normalised members, named links.\<close>

definition tables_ok :: "'db env \<Rightarrow> 'db \<Rightarrow> bool" where
  "tables_ok E d \<longleftrightarrow> sources_ok E d \<and> members_ok E d \<and>
     (\<forall>(g, p) \<in> linked E d. \<not> blank g \<and> \<not> blank p)"

lemma tables_okD:
  assumes "tables_ok E d"
  shows "sources_ok E d" and "members_ok E d" and "(g, p) \<in> linked E d \<Longrightarrow> \<not> blank g"
    and "(g, p) \<in> linked E d \<Longrightarrow> \<not> blank p"
  using assms by (auto simp: tables_ok_def)

context dynamodb
begin

lemma link_row: "ddb_get E d ProjectGroups (g, p) = Some i \<Longrightarrow>
    str_attr ''project_id'' i = Inr p \<and> str_attr ''group_name'' i = Inr g"
  using row_key [of d ProjectGroups "(g, p)" i]
  by (auto simp: key_of_def schema_defs str_attr_def split: option.splits val.splits)

lemma link_rows:
  assumes "\<forall>p \<in> set ps. (g, p) \<in> linked E d"
  shows "map_sum_list (str_attr ''project_id'') (map (\<lambda>p. the (ddb_get E d ProjectGroups (g, p))) ps) = Inr ps"
  using assms by (induction ps) (auto simp: linked_def link_row)

lemma unrelated_tables_ok:
  assumes "unrelated E t = unrelated E s" and "tables_ok E (st_db s)" and "sources_ok E (st_db t)"
    and "linked E (st_db t) \<subseteq> linked E (st_db s)"
  shows "tables_ok E (st_db t)"
  using assms unrelated_facts(2) [OF assms(1)] by (auto simp: tables_ok_def)

lemma members_writes:
  assumes "\<not> blank g" and "sanitize_username u = Inr n"
  shows "\<exists>t. create_membership E g u s = (Inr (), t) \<and>
      members E (st_db t) = (members E (st_db s))(g := insert n (members E (st_db s) g)) \<and>
      access E (st_db t) = access E (st_db s) \<and> linked E (st_db t) = linked E (st_db s) \<and>
      (tables_ok E (st_db s) \<longrightarrow> tables_ok E (st_db t)) \<and>
      (\<forall>p v. revocable E t p v = revocable E s p v) \<and>
      (\<forall>x k. x \<noteq> GroupMembers \<longrightarrow> row E t x k = row E s x k)"
    and "\<exists>t. delete_membership E g u s = (Inr (), t) \<and>
      members E (st_db t) = (members E (st_db s))(g := members E (st_db s) g - {n}) \<and>
      access E (st_db t) = access E (st_db s) \<and> linked E (st_db t) = linked E (st_db s) \<and>
      (tables_ok E (st_db s) \<longrightarrow> tables_ok E (st_db t)) \<and>
      (\<forall>p v. revocable E t p v = revocable E s p v) \<and>
      (\<forall>x k. x \<noteq> GroupMembers \<longrightarrow> row E t x k = row E s x k)"
proof -
  let ?i = "[''group_name'' \<mapsto> VStr g, ''username'' \<mapsto> VStr n]"
  let ?d = "st_db s"
  have lnk: "linked E (ddb_put E ?d GroupMembers ?i) = linked E ?d"
      "linked E (ddb_delete E ?d GroupMembers k) = linked E ?d" for k
    by (simp_all add: linked_def)
  have acc: "access E (ddb_put E ?d GroupMembers ?i) = access E ?d"
      "access E (ddb_delete E ?d GroupMembers k) = access E ?d"
      "sources_ok E (ddb_put E ?d GroupMembers ?i) = sources_ok E ?d"
      "sources_ok E (ddb_delete E ?d GroupMembers k) = sources_ok E ?d" for k
    using key_of_membership by simp_all
  have mem: "members E (ddb_put E ?d GroupMembers ?i) = (members E ?d)(g := insert n (members E ?d g))"
      "members E (ddb_delete E ?d GroupMembers (g, n)) = (members E ?d)(g := members E ?d g - {n})"
    by (simp_all add: fun_eq_iff)
  have ok: "members_ok E ?d \<Longrightarrow> members_ok E (ddb_put E ?d GroupMembers ?i)"
      "members_ok E ?d \<Longrightarrow> members_ok E (ddb_delete E ?d GroupMembers (g, n))"
    using sanitize_norm [OF assms(2)] by (auto simp: members_ok_def mem)
  have rev: "revocable E (s\<lparr>st_db := ddb_put E ?d GroupMembers ?i\<rparr>) p v = revocable E s p v"
      "revocable E (s\<lparr>st_db := ddb_delete E ?d GroupMembers (g, n)\<rparr>) p v = revocable E s p v" for p v
    by (simp_all add: revocable_def user_exists_def)
  show "\<exists>t. create_membership E g u s = (Inr (), t) \<and>
      members E (st_db t) = (members E (st_db s))(g := insert n (members E (st_db s) g)) \<and>
      access E (st_db t) = access E (st_db s) \<and> linked E (st_db t) = linked E (st_db s) \<and>
      (tables_ok E (st_db s) \<longrightarrow> tables_ok E (st_db t)) \<and>
      (\<forall>p v. revocable E t p v = revocable E s p v) \<and>
      (\<forall>x k. x \<noteq> GroupMembers \<longrightarrow> row E t x k = row E s x k)"
    using assms ok(1) by (simp add: create_membership_run lnk acc mem rev tables_ok_def)
  show "\<exists>t. delete_membership E g u s = (Inr (), t) \<and>
      members E (st_db t) = (members E (st_db s))(g := members E (st_db s) g - {n}) \<and>
      access E (st_db t) = access E (st_db s) \<and> linked E (st_db t) = linked E (st_db s) \<and>
      (tables_ok E (st_db s) \<longrightarrow> tables_ok E (st_db t)) \<and>
      (\<forall>p v. revocable E t p v = revocable E s p v) \<and>
      (\<forall>x k. x \<noteq> GroupMembers \<longrightarrow> row E t x k = row E s x k)"
    using assms ok(2) by (simp add: delete_membership_run lnk acc mem rev tables_ok_def)
qed

text \<open>Linking and unlinking a group keep the tables in step.\<close>

lemma ldap_group_added_consistent:
  assumes "consistent E (st_db s)" and "tables_ok E (st_db s)" and "\<not> blank p" and "\<not> blank g"
  shows "\<exists>t. ldap_group_added E p g s = (Inr (), t) \<and> consistent E (st_db t) \<and> tables_ok E (st_db t) \<and>
     linked E (st_db t) = insert (g, p) (linked E (st_db s))"
proof -
  obtain t where t: "ldap_group_added E p g s = (Inr (), t)" "sources_ok E (st_db t)"
      "unrelated E t = unrelated E s" "linked E (st_db t) = insert (g, p) (linked E (st_db s))"
      "\<forall>u q. access E (st_db t) (u, q) =
        (if u \<in> members E (st_db s) g \<and> q = p then insert g (access E (st_db s) (u, q))
         else access E (st_db s) (u, q))"
    using ldap_group_added_run [OF tables_okD(1,2) [OF assms(2)] assms(3,4)] by blast
  have mem: "members E (st_db t) = members E (st_db s)" by (rule unrelated_facts(1) [OF t(3)])
  have "tables_ok E (st_db t)"
    using t(2,4) assms(2-4) unrelated_facts(2) [OF t(3)] by (auto simp: tables_ok_def)
  moreover have "consistent E (st_db t)"
    using assms(1) by (auto simp: consistent_def t(4,5) mem)
  ultimately show ?thesis using t(1,4) by blast
qed

lemma ldap_group_removed_consistent:
  assumes "consistent E (st_db s)" and "tables_ok E (st_db s)" and "\<not> blank p" and "\<not> blank g"
    and "\<forall>u \<in> members E (st_db s) g. revocable E s p u" and "g \<noteq> ''SELF''"
  shows "\<exists>t. ldap_group_removed E p g b s = (Inr (), t) \<and> consistent E (st_db t) \<and> tables_ok E (st_db t) \<and>
     (\<forall>u. g \<notin> access E (st_db t) (u, p))"
proof -
  obtain t where t: "ldap_group_removed E p g b s = (Inr (), t)" "sources_ok E (st_db t)"
      "unrelated E t = unrelated E s" "linked E (st_db t) = linked E (st_db s) - {(g, p)}"
      "\<forall>u q. access E (st_db t) (u, q) =
        (if u \<in> members E (st_db s) g \<and> q = p then access E (st_db s) (u, q) - {g}
         else access E (st_db s) (u, q))"
    using ldap_group_removed_run [OF tables_okD(1) [OF assms(2)] assms(3-5), of b] by blast
  have mem: "members E (st_db t) = members E (st_db s)" by (rule unrelated_facts(1) [OF t(3)])
  have "tables_ok E (st_db t)"
    using t(4) by (intro unrelated_tables_ok [OF t(3) assms(2) t(2)]) auto
  moreover have c: "consistent E (st_db t)"
    using assms(1) by (auto simp: consistent_def t(4,5) mem)
  moreover have "g \<notin> access E (st_db t) (u, p)" for u
    using c assms(6) by (auto simp: consistent_def t(4))
  ultimately show ?thesis using t(1) by blast
qed

end

context dynamodb_one_page
begin

lemma get_projects_by_group_name_run:
  assumes "\<not> blank g"
  obtains ps where "get_projects_by_group_name E g s = (Inr ps, s)" and "distinct ps"
    and "sorted ps" and "set ps = {p. (g, p) \<in> linked E (st_db s)}"
proof -
  obtain ps where ps: "fst (ddb_query E (st_db s) ProjectGroups g None None) =
        map (\<lambda>p. the (ddb_get E (st_db s) ProjectGroups (g, p))) ps"
      "distinct ps" "sorted ps" "set ps = {p. ddb_get E (st_db s) ProjectGroups (g, p) \<noteq> None}"
    using query_all [of ProjectGroups "st_db s" g] by (auto simp: schema_defs)
  have "map_sum_list (str_attr ''project_id'')
      (map (\<lambda>p. the (ddb_get E (st_db s) ProjectGroups (g, p))) ps) = Inr ps"
    by (rule link_rows) (simp add: ps(4) linked_def)
  then have "get_projects_by_group_name E g s = (Inr ps, s)"
    using assms ps(1) by (simp add: get_projects_by_group_name_def)
  then show thesis using ps that by (simp add: linked_def)
qed

lemma member_added_consistent:
  assumes "consistent E (st_db s)" and "tables_ok E (st_db s)" and "\<not> blank g"
    and "sanitize_username u = Inr n"
  shows "\<exists>t. seqA (create_membership E g u) (group_member_added E g n) s = (Inr (), t) \<and>
     consistent E (st_db t) \<and> tables_ok E (st_db t) \<and>
     members E (st_db t) = (members E (st_db s))(g := insert n (members E (st_db s) g)) \<and>
     linked E (st_db t) = linked E (st_db s) \<and>
     (\<forall>x k. x \<notin> {GroupMembers, UserProjects} \<longrightarrow> row E t x k = row E s x k)"
proof -
  obtain s1 where s1: "create_membership E g u s = (Inr (), s1)"
      "members E (st_db s1) = (members E (st_db s))(g := insert n (members E (st_db s) g))"
      "access E (st_db s1) = access E (st_db s)" "linked E (st_db s1) = linked E (st_db s)"
      "tables_ok E (st_db s1)" "\<forall>x k. x \<noteq> GroupMembers \<longrightarrow> row E s1 x k = row E s x k"
    using members_writes(1) [OF assms(3,4), of s] assms(2) by auto
  obtain ps where ps: "get_projects_by_group_name E g s1 = (Inr ps, s1)"
      "set ps = {p. (g, p) \<in> linked E (st_db s1)}"
    using get_projects_by_group_name_run [OF assms(3)] by metis
  have n: "\<not> blank n" by (rule norm_name_not_blank [OF sanitize_norm [OF assms(4)]])
  have nb: "\<forall>p \<in> set ps. \<not> blank p" using ps(2) tables_okD(4) [OF s1(5)] by auto
  obtain t where t: "for_each ps (\<lambda>p. create_user_project E p n [g]) s1 = (Inr (), t)"
      "sources_ok E (st_db t)" "elsewhere E t = elsewhere E s1"
      "\<forall>v q. access E (st_db t) (v, q) =
        (if v = n \<and> q \<in> set ps then insert g (access E (st_db s1) (v, q)) else access E (st_db s1) (v, q))"
    using grants.grant_projects [OF tables_okD(1) [OF s1(5)] n nb] by blast
  note same = elsewhere_unrelated [OF t(3)] elsewhere_members [OF t(3)]
  have rows: "row E t x k = row E s x k" if "x \<notin> {GroupMembers, UserProjects}" for x k
    using that s1 elsewhere_row [OF t(3)] by (cases k) simp
  have "seqA (create_membership E g u) (group_member_added E g n) s = (Inr (), t)"
    using s1(1) ps(1) t(1) n assms(3) by (simp add: group_member_added_def)
  moreover have "consistent E (st_db t)"
    using assms(1) by (auto simp: consistent_def t(4) same ps(2) s1)
  moreover have "tables_ok E (st_db t)"
    using same by (intro unrelated_tables_ok [OF same(1) s1(5) t(2)]) simp
  ultimately show ?thesis using same s1 rows by auto
qed

lemma member_removed_consistent:
  assumes "consistent E (st_db s)" and "tables_ok E (st_db s)" and "\<not> blank g"
    and "sanitize_username u = Inr n" and "\<forall>p. (g, p) \<in> linked E (st_db s) \<longrightarrow> revocable E s p n"
  shows "\<exists>t. seqA (delete_membership E g u) (group_member_removed E g n) s = (Inr (), t) \<and>
     consistent E (st_db t) \<and> tables_ok E (st_db t) \<and>
     members E (st_db t) = (members E (st_db s))(g := members E (st_db s) g - {n}) \<and>
     linked E (st_db t) = linked E (st_db s) \<and>
     (\<forall>x k. x \<notin> {GroupMembers, UserProjects} \<longrightarrow> row E t x k = row E s x k) \<and>
     (\<forall>p. access E (st_db t) (n, p) = access E (st_db s) (n, p) - (if (g, p) \<in> linked E (st_db s) then {g} else {}))"
proof -
  obtain s1 where s1: "delete_membership E g u s = (Inr (), s1)"
      "members E (st_db s1) = (members E (st_db s))(g := members E (st_db s) g - {n})"
      "access E (st_db s1) = access E (st_db s)" "linked E (st_db s1) = linked E (st_db s)"
      "tables_ok E (st_db s1)" "\<forall>p v. revocable E s1 p v = revocable E s p v"
      "\<forall>x k. x \<noteq> GroupMembers \<longrightarrow> row E s1 x k = row E s x k"
    using members_writes(2) [OF assms(3,4), of s] assms(2) by auto
  obtain ps where ps: "get_projects_by_group_name E g s1 = (Inr ps, s1)"
      "set ps = {p. (g, p) \<in> linked E (st_db s1)}"
    using get_projects_by_group_name_run [OF assms(3)] by metis
  have n: "\<not> blank n" by (rule norm_name_not_blank [OF sanitize_norm [OF assms(4)]])
  have nb: "\<forall>p \<in> set ps. \<not> blank p \<and> revocable E s1 p n"
    using ps(2) tables_okD(4) [OF s1(5)] s1(4,6) assms(5) by auto
  obtain t where t: "for_each ps (\<lambda>p. delete_user_project E p n [g] False) s1 = (Inr (), t)"
      "sources_ok E (st_db t)" "elsewhere E t = elsewhere E s1"
      "\<forall>v q. access E (st_db t) (v, q) =
        (if v = n \<and> q \<in> set ps then access E (st_db s1) (v, q) - {g} else access E (st_db s1) (v, q))"
    using grants.revoke_projects [OF tables_okD(1) [OF s1(5)] nb] by blast
  note same = elsewhere_unrelated [OF t(3)] elsewhere_members [OF t(3)]
  have rows: "row E t x k = row E s x k" if "x \<notin> {GroupMembers, UserProjects}" for x k
    using that s1 elsewhere_row [OF t(3)] by (cases k) simp
  have "seqA (delete_membership E g u) (group_member_removed E g n) s = (Inr (), t)"
    using s1(1) ps(1) t(1) n assms(3) by (simp add: group_member_removed_def)
  moreover have "consistent E (st_db t)"
    using assms(1) by (auto simp: consistent_def t(4) same ps(2) s1)
  moreover have "tables_ok E (st_db t)"
    using same by (intro unrelated_tables_ok [OF same(1) s1(5) t(2)]) simp
  moreover have "access E (st_db t) (n, p) =
      access E (st_db s) (n, p) - (if (g, p) \<in> linked E (st_db s) then {g} else {})" for p
    using t(4) ps(2) s1(3,4) by simp
  ultimately show ?thesis using same s1 rows by auto
qed

end

section \<open>Enabling and disabling a project\<close>

lemma for_each_name_strs [simp]:
  "for_each_name (strs xs) f = for_each xs f"
proof -
  have "for_each (map VStr xs) (\<lambda>x. bindA (liftA (name_arg x)) f) = for_each xs f"
    by (induction xs) (simp_all add: name_arg_def bindA_def)
  then show ?thesis by (simp add: for_each_name_def iter_val_def bindA_def)
qed

text \<open>A row of a project with a list of groups and a list of users.\<close>

definition opened_for :: "item \<Rightarrow> string list \<Rightarrow> string list \<Rightarrow> bool" where
  "opened_for i gs us \<longleftrightarrow> i ''ldap_groups'' = Some (strs gs) \<and> i ''users'' = Some (strs us)"

context dynamodb
begin

lemma project_enabled_run:
  assumes "tables_ok E (st_db s)" and "\<not> blank p" and "row E s Projects (p, []) = Some i"
    and "opened_for i gs us" and "\<forall>g \<in> set gs. \<not> blank g" and "\<forall>u \<in> set us. \<not> blank u"
  shows "\<exists>t. project_enabled E p s = (Inr (), t) \<and> tables_ok E (st_db t) \<and>
     unrelated E t = unrelated E s \<and>
     linked E (st_db t) = linked E (st_db s) \<union> (\<lambda>g. (g, p)) ` set gs \<and>
     (\<forall>u q. access E (st_db t) (u, q) = access E (st_db s) (u, q) \<union>
        (if q = p then {g \<in> set gs. u \<in> members E (st_db s) g} \<union>
                       (if u \<in> set us then {''SELF''} else {}) else {}))"
proof -
  obtain s1 where s1: "for_each gs (\<lambda>g. ldap_group_added E p g) s = (Inr (), s1)" "sources_ok E (st_db s1)"
      "unrelated E s1 = unrelated E s" "linked E (st_db s1) = linked E (st_db s) \<union> (\<lambda>g. (g, p)) ` set gs"
      "\<forall>u q. access E (st_db s1) (u, q) = access E (st_db s) (u, q) \<union>
        (if q = p then {g \<in> set gs. u \<in> members E (st_db s) g} else {})"
    using ldap_groups_added_run [OF tables_okD(1,2) [OF assms(1)] assms(2,5)] by blast
  obtain t where t: "for_each us (\<lambda>u. create_user_project E p u [''SELF'']) s1 = (Inr (), t)"
      "sources_ok E (st_db t)" "elsewhere E t = elsewhere E s1"
      "\<forall>u q. access E (st_db t) (u, q) =
        (if u \<in> set us \<and> q = p then insert ''SELF'' (access E (st_db s1) (u, q))
         else access E (st_db s1) (u, q))"
    using grants.grant_users [OF s1(2) assms(2,6), of "''SELF''"] by blast
  note same = elsewhere_unrelated [OF t(3)]
  have "project_enabled E p s = (Inr (), t)"
    using assms(2-4) s1(1) t(1)
    by (simp add: project_enabled_def project_attr_def opened_for_def attr_or_def blank_def)
  moreover have u: "unrelated E t = unrelated E s" using same(1) s1(3) by simp
  moreover have "tables_ok E (st_db t)"
    using t(2) same(2) s1(4) assms(1,2,5) unrelated_facts(2) [OF u] by (auto simp: tables_ok_def)
  moreover have "access E (st_db t) (u, q) = access E (st_db s) (u, q) \<union>
        (if q = p then {g \<in> set gs. u \<in> members E (st_db s) g} \<union>
                       (if u \<in> set us then {''SELF''} else {}) else {})" for u q
    using t(4) s1(5) by auto
  ultimately show ?thesis using same(2) s1(4) by simp
qed

lemma project_disabled_run:
  assumes "tables_ok E (st_db s)" and "\<not> blank p" and "row E s Projects (p, []) = Some i"
    and "opened_for i gs us"
    and "\<forall>g \<in> set gs. \<not> blank g \<and> (\<forall>u \<in> members E (st_db s) g. user_exists E (st_db s) u)"
    and "\<forall>u \<in> set us. user_exists E (st_db s) u"
  shows "\<exists>t. project_disabled E p s = (Inr (), t) \<and> tables_ok E (st_db t) \<and>
     unrelated E t = unrelated E s \<and>
     linked E (st_db t) = linked E (st_db s) - (\<lambda>g. (g, p)) ` set gs \<and>
     (\<forall>u q. access E (st_db t) (u, q) = access E (st_db s) (u, q) -
        (if q = p then {g \<in> set gs. u \<in> members E (st_db s) g} \<union>
                       (if u \<in> set us then {''SELF''} else {}) else {}))"
proof -
  have rev: "\<forall>g \<in> set gs. \<not> blank g \<and> (\<forall>u \<in> members E (st_db s) g. revocable E s p u)"
    using assms(3,5) by (simp add: revocable_def)
  obtain s1 where s1: "for_each gs (\<lambda>g. ldap_group_removed E p g False) s = (Inr (), s1)"
      "sources_ok E (st_db s1)"
      "unrelated E s1 = unrelated E s" "linked E (st_db s1) = linked E (st_db s) - (\<lambda>g. (g, p)) ` set gs"
      "\<forall>u q. access E (st_db s1) (u, q) = access E (st_db s) (u, q) -
        (if q = p then {g \<in> set gs. u \<in> members E (st_db s) g} else {})"
    using ldap_groups_removed_run [OF tables_okD(1) [OF assms(1)] assms(2) rev] by blast
  have rev1: "\<forall>u \<in> set us. revocable E s1 p u"
    using assms(3,6) unrelated_facts(3) [OF s1(3)] by (simp add: revocable_def)
  obtain t where t: "for_each us (\<lambda>u. delete_user_project E p u [''SELF''] False) s1 = (Inr (), t)"
      "sources_ok E (st_db t)" "elsewhere E t = elsewhere E s1"
      "\<forall>u q. access E (st_db t) (u, q) =
        (if u \<in> set us \<and> q = p then access E (st_db s1) (u, q) - {''SELF''}
         else access E (st_db s1) (u, q))"
    using grants.revoke_users [OF s1(2) assms(2) rev1, of "''SELF''"] by blast
  note same = elsewhere_unrelated [OF t(3)]
  have "project_disabled E p s = (Inr (), t)"
    using assms(2-4) s1(1) t(1)
    by (simp add: project_disabled_def project_attr_def opened_for_def blank_def)
  moreover have u: "unrelated E t = unrelated E s" using same(1) s1(3) by simp
  moreover have "tables_ok E (st_db t)"
    using same(2) s1(4) by (intro unrelated_tables_ok [OF u assms(1) t(2)]) auto
  moreover have "access E (st_db t) (u, q) = access E (st_db s) (u, q) -
        (if q = p then {g \<in> set gs. u \<in> members E (st_db s) g} \<union>
                       (if u \<in> set us then {''SELF''} else {}) else {})" for u q
    using t(4) s1(5) by auto
  ultimately show ?thesis using same(2) s1(4) by simp
qed

end

text \<open>
  Disabling removes the row of every user: the sources of a row are groups linked to the
  project, whose members lose it, or the users the project names.
\<close>

lemma project_disabled_locks_out:
  assumes "dynamodb E" and "consistent E (st_db s)" and "tables_ok E (st_db s)" and "\<not> blank p"
    and "row E s Projects (p, []) = Some i" and "opened_for i gs us"
    and "\<forall>g \<in> set gs. \<not> blank g \<and> (\<forall>u \<in> members E (st_db s) g. user_exists E (st_db s) u)"
    and "\<forall>u \<in> set us. user_exists E (st_db s) u"
    and "\<forall>g. (g, p) \<in> linked E (st_db s) \<longrightarrow> g \<in> set gs"
    and "\<forall>u. ''SELF'' \<in> access E (st_db s) (u, p) \<longrightarrow> u \<in> set us"
  shows "\<exists>t. project_disabled E p s = (Inr (), t) \<and>
     (\<forall>u. row E t UserProjects (u, p) = None) \<and>
     (\<forall>u q. q \<noteq> p \<longrightarrow> access E (st_db t) (u, q) = access E (st_db s) (u, q))"
proof -
  obtain t where t: "project_disabled E p s = (Inr (), t)" "tables_ok E (st_db t)"
      "\<forall>u q. access E (st_db t) (u, q) = access E (st_db s) (u, q) -
        (if q = p then {g \<in> set gs. u \<in> members E (st_db s) g} \<union>
                       (if u \<in> set us then {''SELF''} else {}) else {})"
    using dynamodb.project_disabled_run [OF assms(1,3-8)] by blast
  have source: "g = ''SELF'' \<and> u \<in> set us \<or> g \<in> set gs \<and> u \<in> members E (st_db s) g"
    if "g \<in> access E (st_db s) (u, p)" for u g
    using that assms(2,9,10) unfolding consistent_def by (cases "g = ''SELF''") blast+
  have none: "access E (st_db t) (u, p) = {}" for u
    using source by (auto simp: t(3))
  have "row E t UserProjects (u, p) = None" for u
  proof (rule ccontr)
    assume "row E t UserProjects (u, p) \<noteq> None"
    then obtain j where "row E t UserProjects (u, p) = Some j" by blast
    then obtain vs where "vs \<noteq> []" "set vs \<subseteq> range VStr" "access E (st_db t) (u, p) = {x. VStr x \<in> set vs}"
      using dynamodb.sources_row [OF assms(1) tables_okD(1) [OF t(2)]] by metis
    then show False using none by (cases vs) auto
  qed
  then show ?thesis using t by (intro exI [of _ t]) simp
qed

section \<open>An example store\<close>

text \<open>
  One project \<open>p\<close> opened to the group \<open>g\<close> and to the user \<open>v\<close>; \<open>u\<close> is a member of \<open>g\<close>.
\<close>

definition sample_db :: mem_db where
  "sample_db =
     [((Projects, (''p'', [])), [''name'' \<mapsto> VStr ''proj'', ''enabled'' \<mapsto> VBool True,
          ''ldap_groups'' \<mapsto> strs [''g''], ''users'' \<mapsto> strs [''v'']]),
      ((Users, (''u'', [])), [''enabled'' \<mapsto> VBool True]),
      ((Users, (''v'', [])), [''enabled'' \<mapsto> VBool True]),
      ((GroupMembers, (''g'', ''u'')), Map.empty),
      ((ProjectGroups, (''g'', ''p'')), Map.empty),
      ((UserProjects, (''u'', ''p'')), [''by_ldaps'' \<mapsto> strs [''g'']]),
      ((UserProjects, (''v'', ''p'')), [''by_ldaps'' \<mapsto> strs [''SELF'']])]"

lemma names_sane [simp]:
  "sanitize_username ''u'' = Inr ''u''" "sanitize_username ''v'' = Inr ''v''"
  "norm_name ''u''" "norm_name ''v''" "\<not> blank ''p''" "\<not> blank ''g''" "\<not> blank ''u''" "\<not> blank ''v''"
  by code_simp+

lemma sample_members: "members local_env sample_db g = (if g = ''g'' then {''u''} else {})"
  by (auto simp: members_def mem_get_def sample_db_def split: if_splits)

lemma sample_linked: "linked local_env sample_db = {(''g'', ''p'')}"
  by (auto simp: linked_def mem_get_def sample_db_def split: if_splits)

lemma sample_user_projects:
  "mem_get sample_db UserProjects k =
     (if k = (''u'', ''p'') then Some ([''by_ldaps'' \<mapsto> strs [''g'']] ++ key_item UserProjects k)
      else if k = (''v'', ''p'') then Some ([''by_ldaps'' \<mapsto> strs [''SELF'']] ++ key_item UserProjects k)
      else None)"
  by (auto simp: mem_get_def sample_db_def)

lemma sample_access:
  "access local_env sample_db k =
     (if k = (''u'', ''p'') then {''g''} else if k = (''v'', ''p'') then {''SELF''} else {})"
  by (auto simp: access_def sample_user_projects key_item_def schema_defs map_add_def)

lemma sample_ok: "tables_ok local_env sample_db" "consistent local_env sample_db"
proof -
  have "sources_ok local_env sample_db"
    by (auto simp: sources_ok_def sample_user_projects key_item_def schema_defs map_add_def)
  moreover have "members_ok local_env sample_db" by (simp add: members_ok_def sample_members)
  ultimately show "tables_ok local_env sample_db" by (simp add: tables_ok_def sample_linked)
  show "consistent local_env sample_db"
    by (simp add: consistent_def sample_members sample_linked sample_access)
qed

lemma sample_rows:
  "mem_get sample_db Users (''u'', []) \<noteq> None" "mem_get sample_db Users (''v'', []) \<noteq> None"
  "\<exists>i. mem_get sample_db Projects (''p'', []) = Some i \<and> opened_for i [''g''] [''v'']"
  by (simp_all add: mem_get_def sample_db_def opened_for_def key_item_def schema_defs)

lemma sample_users: "user_exists local_env sample_db ''u''" "user_exists local_env sample_db ''v''"
  using sample_rows(1,2) by (simp_all add: user_exists_def)

lemma sample_revocable:
  "revocable local_env (local_state sample_db) ''p'' ''u''"
  "revocable local_env (local_state sample_db) ''p'' ''v''"
  using sample_rows sample_users by (auto simp: revocable_def)

section \<open>Properties\<close>





text \<open>
  C28. Linking a group to a project gives its current members, and nobody else, access with
  that group as the source, on however many pages the members are listed; unlinking takes
  exactly that away. Both keep the tables in step.
\<close>

theorem linking_and_unlinking_a_group:
  assumes "dynamodb E" and "consistent E (st_db s)" and "tables_ok E (st_db s)"
    and "\<not> blank p" and "\<not> blank g" and "g \<noteq> ''SELF''"
    and "\<forall>u \<in> members E (st_db s) g. revocable E s p u"
  shows "(\<exists>t. ldap_group_added E p g s = (Inr (), t) \<and> consistent E (st_db t) \<and>
            {u. g \<in> access E (st_db t) (u, p)} = members E (st_db s) g) \<and>
         (\<exists>t. ldap_group_removed E p g b s = (Inr (), t) \<and> consistent E (st_db t) \<and>
            {u. g \<in> access E (st_db t) (u, p)} = {})"
proof (intro conjI)
  obtain t where t: "ldap_group_added E p g s = (Inr (), t)" "consistent E (st_db t)"
      "linked E (st_db t) = insert (g, p) (linked E (st_db s))" "unrelated E t = unrelated E s"
    using dynamodb.ldap_group_added_consistent [OF assms(1-5)]
      dynamodb.ldap_group_added_run [OF assms(1) tables_okD(1,2) [OF assms(3)] assms(4,5)] by auto
  moreover have "members E (st_db t) = members E (st_db s)" by (rule unrelated_facts(1) [OF t(4)])
  ultimately show "\<exists>t. ldap_group_added E p g s = (Inr (), t) \<and> consistent E (st_db t) \<and>
      {u. g \<in> access E (st_db t) (u, p)} = members E (st_db s) g"
    using assms(6) by (intro exI [of _ t]) (auto simp: consistent_def)
  show "\<exists>t. ldap_group_removed E p g b s = (Inr (), t) \<and> consistent E (st_db t) \<and>
      {u. g \<in> access E (st_db t) (u, p)} = {}"
    using dynamodb.ldap_group_removed_consistent [OF assms(1-5,7,6), of b] by auto
qed

theorem linking_and_unlinking_a_group_witness:
  "\<exists>t. ldap_group_removed local_env ''p'' ''g'' False (local_state sample_db) = (Inr (), t) \<and>
     {u. ''g'' \<in> access local_env (st_db t) (u, ''p'')} = {}"
  using linking_and_unlinking_a_group
      [OF mem_dynamodb, of None local_world "local_state sample_db" "''p''" "''g''" False]
    sample_ok sample_revocable by (auto simp: sample_members)

text \<open>
  C27. Enabling a project gives access to the members of its groups and to its users, adds
  nothing else, and is idempotent: enabling it again succeeds and changes no access.
\<close>

theorem enabling_a_project:
  assumes "dynamodb E" and "tables_ok E (st_db s)" and "\<not> blank p"
    and "row E s Projects (p, []) = Some i" and "opened_for i gs us"
    and "\<forall>g \<in> set gs. \<not> blank g" and "\<forall>u \<in> set us. \<not> blank u"
  shows "\<exists>t. project_enabled E p s = (Inr (), t) \<and>
     (\<forall>u. access E (st_db t) (u, p) = access E (st_db s) (u, p) \<union>
        {g \<in> set gs. u \<in> members E (st_db s) g} \<union> (if u \<in> set us then {''SELF''} else {})) \<and>
     (\<forall>u q. q \<noteq> p \<longrightarrow> access E (st_db t) (u, q) = access E (st_db s) (u, q)) \<and>
     (\<exists>t'. project_enabled E p t = (Inr (), t') \<and> access E (st_db t') = access E (st_db t))"
proof -
  note run = dynamodb.project_enabled_run [OF assms(1) _ assms(3) _ assms(5-7)]
  obtain t where t: "project_enabled E p s = (Inr (), t)" "tables_ok E (st_db t)" "unrelated E t = unrelated E s"
      "\<forall>u q. access E (st_db t) (u, q) = access E (st_db s) (u, q) \<union>
        (if q = p then {g \<in> set gs. u \<in> members E (st_db s) g} \<union>
                       (if u \<in> set us then {''SELF''} else {}) else {})"
    using run [OF assms(2,4)] by blast
  have mem: "members E (st_db t) = members E (st_db s)" and pr: "row E t Projects (p, []) = Some i"
    using unrelated_facts(1,4) [OF t(3)] assms(4) by simp_all
  obtain t' where t': "project_enabled E p t = (Inr (), t')"
      "\<forall>u q. access E (st_db t') (u, q) = access E (st_db t) (u, q) \<union>
        (if q = p then {g \<in> set gs. u \<in> members E (st_db s) g} \<union>
                       (if u \<in> set us then {''SELF''} else {}) else {})"
    using run [OF t(2) pr] unfolding mem by blast
  have "access E (st_db t') k = access E (st_db t) k" for k
    by (cases k) (auto simp: t'(2) t(4))
  then show ?thesis using t t'(1) by (intro exI [of _ t]) (auto simp: fun_eq_iff)
qed

theorem enabling_a_project_witness:
  "\<exists>t. project_enabled local_env ''p'' (local_state sample_db) = (Inr (), t) \<and>
     access local_env (st_db t) (''u'', ''p'') = {''g''}"
proof -
  obtain i where "mem_get sample_db Projects (''p'', []) = Some i" "opened_for i [''g''] [''v'']"
    using sample_rows(3) by blast
  then show ?thesis
    using enabling_a_project [OF mem_dynamodb, of None local_world "local_state sample_db" "''p''" i "[''g'']" "[''v'']"]
      sample_ok(1) by (auto simp: sample_access sample_members)
qed

text \<open>
  C3. Disabling a project locks everybody out: when the tables agree, every group linked to
  the project is one of its groups and every user with direct access is one of its users,
  no user has a row for the project afterwards. Access to other projects stays as it was.
\<close>

theorem disabling_a_project_locks_out:
  assumes "dynamodb E" and "consistent E (st_db s)" and "tables_ok E (st_db s)" and "\<not> blank p"
    and "row E s Projects (p, []) = Some i" and "opened_for i gs us"
    and "\<forall>g \<in> set gs. \<not> blank g \<and> (\<forall>u \<in> members E (st_db s) g. user_exists E (st_db s) u)"
    and "\<forall>u \<in> set us. user_exists E (st_db s) u"
    and "\<forall>g. (g, p) \<in> linked E (st_db s) \<longrightarrow> g \<in> set gs"
    and "\<forall>u. ''SELF'' \<in> access E (st_db s) (u, p) \<longrightarrow> u \<in> set us"
  shows "\<exists>t. project_disabled E p s = (Inr (), t) \<and>
     (\<forall>u. row E t UserProjects (u, p) = None) \<and>
     (\<forall>u q. q \<noteq> p \<longrightarrow> access E (st_db t) (u, q) = access E (st_db s) (u, q))"
  by (rule project_disabled_locks_out [OF assms])

theorem disabling_a_project_locks_out_witness:
  "\<exists>t. project_disabled local_env ''p'' (local_state sample_db) = (Inr (), t) \<and>
     row local_env t UserProjects (''u'', ''p'') = None"
proof -
  obtain i where i: "mem_get sample_db Projects (''p'', []) = Some i" "opened_for i [''g''] [''v'']"
    using sample_rows(3) by blast
  have "\<exists>t. project_disabled local_env ''p'' (local_state sample_db) = (Inr (), t) \<and>
     (\<forall>u. row local_env t UserProjects (u, ''p'') = None) \<and>
     (\<forall>u q. q \<noteq> ''p'' \<longrightarrow> access local_env (st_db t) (u, q) = access local_env sample_db (u, q))"
    by (rule disabling_a_project_locks_out
          [OF mem_dynamodb, of None local_world "local_state sample_db" "''p''" i "[''g'']" "[''v'']",
           unfolded local_state_simps])
       (use i sample_ok sample_users in \<open>simp_all add: sample_linked sample_access sample_members split: if_splits\<close>)
  then show ?thesis by blast
qed

end
