(* ===== verification/Accounts_Groups.thy ===== *)
theory Accounts_Groups
  imports Project_Access
begin

text \<open>
  The group part of \<^verbatim>\<open>accounts/accounts_service.py\<close>: groups and who belongs to them. A
  change of membership reaches three tables in turn, the groups a user lists
  (\<open>additional_groups\<close>), the group members and, through the object of user projects, the
  project access; deleting a group also takes it out of its projects
  (\<open>remove_projects_from_group\<close> of \<^verbatim>\<open>projects/projects_service.py\<close>).
\<close>

section \<open>AccountsService, groups\<close>

definition is_cluster_administrator :: "world \<Rightarrow> string \<Rightarrow> bool" where
  "is_cluster_administrator w username = (username = cluster_administrator w)"

definition is_sso_enabled :: "world \<Rightarrow> bool" where
  "is_sso_enabled w = sso_enabled w"

definition group_not_found :: exn where
  "group_not_found = SocaException AUTH_GROUP_NOT_FOUND"

definition group_is_disabled :: exn where
  "group_is_disabled = SocaException AUTH_GROUP_IS_DISABLED"

definition user_is_disabled :: exn where
  "user_is_disabled = SocaException AUTH_USER_IS_DISABLED"

definition get_group :: "'db env \<Rightarrow> string \<Rightarrow> ('db st, group) act" where
  "get_group E group_name =
     raise_if (blank group_name) invalid_params
    (bindA (group_dao_get_group E group_name) (\<lambda>db_group.
     case db_group of None \<Rightarrow> raise group_not_found | Some d \<Rightarrow> return (group_from_db d)))"

definition ALL_GROUP_TYPES :: "string list" where
  "ALL_GROUP_TYPES = [''user'', ''project'', ''module'', ''cluster'']"

text \<open>The look-up of an external group in a read-only directory; it yields the group's id.\<close>

definition gid_of_external_group :: "'db env \<Rightarrow> string option \<Rightarrow> ('db st, int option) act" where
  "gid_of_external_group E ds_name =
     raise_if (str_or_empty ds_name = []) invalid_params
    (bindA (liftA (ldap_get_group (cfg E) (str_or_empty ds_name))) (\<lambda>group_in_ad.
     case group_in_ad of
       None \<Rightarrow> raise invalid_params
     | Some d \<Rightarrow> bindA (attr d ''name'') (\<lambda>group_name_in_ad.
         raise_if (group_name_in_ad = VNone) invalid_params
        (raise_if (group_name_in_ad \<noteq> VStr (str_or_empty ds_name)) invalid_params
        (let gid = sssd_gid (cfg E) (str_or_empty ds_name) in
         raise_if (gid = None) (SocaException GID_NOT_FOUND) (return gid))))))"

definition create_group :: "'db env \<Rightarrow> group \<Rightarrow> ('db st, group) act" where
  "create_group E grp =
     (let ds_readonly = ldap_readonly (cfg E);
          group_name = str_or_empty (g_name grp) in
     raise_if (group_name = []) invalid_params
    (raise_if (str_or_empty (g_group_type grp) = []) invalid_params
    (raise_if (str_or_empty (g_group_type grp) \<notin> set ALL_GROUP_TYPES) invalid_params
    (let typ = (if str_or_empty (g_type grp) = [] then ''external'' else str_or_empty (g_type grp)) in
     raise_if (typ \<notin> {''external'', ''internal''}) invalid_params
    (bindA (group_dao_get_group E group_name) (\<lambda>db_existing_group.
     raise_if (db_existing_group \<noteq> None) invalid_params
    (bindA (if typ = ''external'' \<and> ds_readonly then gid_of_external_group E (g_ds_name grp)
            else return (g_gid grp)) (\<lambda>gid.
     let db_group = group_to_db (grp\<lparr>g_type := Some typ, g_gid := gid, g_enabled := Some True\<rparr>) in
     seqA (group_dao_create_group E db_group) (return (group_from_db db_group))))))))))"

definition modify_group :: "'db env \<Rightarrow> group \<Rightarrow> ('db st, group) act" where
  "modify_group E grp =
     (let group_name = str_or_empty (g_name grp) in
     raise_if (blank group_name) invalid_params
    (bindA (group_dao_get_group E group_name) (\<lambda>r. case r of
       None \<Rightarrow> raise group_not_found
     | Some db_group \<Rightarrow>
         bindA (attr db_group ''enabled'') (\<lambda>enabled.
         raise_if (\<not> py_truthy enabled) group_is_disabled
        (bindA (attr db_group ''group_name'') (\<lambda>name.
         bindA (attr db_group ''title'') (\<lambda>title.
         bindA (group_dao_update_group E [''group_name'' \<mapsto> name, ''title'' \<mapsto> title]) (\<lambda>updated_group.
         return (group_from_db updated_group)))))))))"

definition set_group_enabled :: "'db env \<Rightarrow> string \<Rightarrow> bool \<Rightarrow> ('db st, unit) act" where
  "set_group_enabled E group_name b =
     raise_if (blank group_name) invalid_params
    (bindA (group_dao_get_group E group_name) (\<lambda>grp.
     raise_if (grp = None) group_not_found
    (seqA (group_dao_update_group E [''group_name'' \<mapsto> VStr group_name, ''enabled'' \<mapsto> VBool b])
     (return ()))))"

definition enable_group :: "'db env \<Rightarrow> string \<Rightarrow> ('db st, unit) act" where
  "enable_group E group_name = set_group_enabled E group_name True"

definition disable_group :: "'db env \<Rightarrow> string \<Rightarrow> ('db st, unit) act" where
  "disable_group E group_name = set_group_enabled E group_name False"

definition list_groups ::
  "'db env \<Rightarrow> list_request \<Rightarrow> ('db st, group list \<times> string option) act" where
  "list_groups E request = group_dao_list_groups E request"

definition list_users_in_group ::
  "'db env \<Rightarrow> string list \<Rightarrow> nat option \<Rightarrow> string option \<Rightarrow> ('db st, user list \<times> string option) act"
where
  "list_users_in_group E group_names page_size cursor =
     dao_list_users_in_group E group_names page_size cursor"

section \<open>Membership\<close>

text \<open>
  The groups a user lists: a missing attribute is the empty list; the services store
  lists, and anything else cannot be extended or reduced.
\<close>

definition additional_groups_of :: "item \<Rightarrow> ('s, val list) act" where
  "additional_groups_of user = as_list (attr_or user ''additional_groups'' (VList []))"

definition store_additional_groups :: "'db env \<Rightarrow> string \<Rightarrow> val list \<Rightarrow> ('db st, unit) act" where
  "store_additional_groups E username groups =
     seqA (user_dao_update_user E
             [''username'' \<mapsto> VStr username, ''additional_groups'' \<mapsto> VList groups]) (return ())"

text \<open>One round of the loop of \<open>add_users_to_group\<close>.\<close>

definition add_user_to_group :: "'db env \<Rightarrow> string \<Rightarrow> bool \<Rightarrow> string \<Rightarrow> ('db st, unit) act" where
  "add_user_to_group E group_name bypass_active_user_check username =
     bindA (user_dao_get_user E username) (\<lambda>r. case r of
       None \<Rightarrow> raise user_not_found
     | Some user \<Rightarrow>
         bindA (attr user ''enabled'') (\<lambda>enabled.
         raise_if (\<not> py_truthy enabled) user_is_disabled
        (bindA (additional_groups_of user) (\<lambda>additional_groups.
         seqA (whenA (VStr group_name \<notin> set additional_groups)
                (bindA (liftA (set_of_val (VList (additional_groups @ [VStr group_name])))) (\<lambda>vs.
                 store_additional_groups E username (py_set_list (val_hash E) vs))))
        (bindA (if bypass_active_user_check then return True
                else bindA (attr user ''is_active'') (\<lambda>a. return (py_truthy a \<or> test_mode (cfg E)))) (\<lambda>active.
         whenA active
           (seqA (create_membership E group_name username)
                 (group_member_added E group_name username))))))))"

definition add_users_to_group :: "'db env \<Rightarrow> string list \<Rightarrow> string \<Rightarrow> bool \<Rightarrow> ('db st, unit) act" where
  "add_users_to_group E usernames group_name bypass_active_user_check =
     raise_if (usernames = []) invalid_params
    (raise_if (blank group_name) invalid_params
    (bindA (group_dao_get_group E group_name) (\<lambda>r. case r of
       None \<Rightarrow> raise group_not_found
     | Some grp \<Rightarrow>
         bindA (attr grp ''enabled'') (\<lambda>enabled.
         raise_if (\<not> py_truthy enabled) group_is_disabled
         (for_each usernames (add_user_to_group E group_name bypass_active_user_check))))))"

text \<open>The first occurrences, in order: \<open>if group_name in groups_to_remove: continue\<close>.\<close>

fun dedupe :: "string list \<Rightarrow> string list \<Rightarrow> string list" where
  "dedupe seen [] = seen"
| "dedupe seen (g # gs) = (if g \<in> set seen then dedupe seen gs else dedupe (seen @ [g]) gs)"

text \<open>The loop that drops the groups: \<open>additional_groups\<close> is the list it shortens.\<close>

fun drop_memberships ::
  "'db env \<Rightarrow> string \<Rightarrow> item \<Rightarrow> string list \<Rightarrow> val list \<Rightarrow> ('db st, val list) act" where
  "drop_memberships E username user [] additional_groups = return additional_groups"
| "drop_memberships E username user (g # gs) additional_groups =
     bindA (group_dao_get_group E g) (\<lambda>r. case r of
       None \<Rightarrow> bindA (attr user ''is_active'') (\<lambda>a.
         drop_memberships E username user gs
           (if \<not> py_truthy a then remove1 (VStr g) additional_groups else additional_groups))
     | Some grp \<Rightarrow> bindA (attr grp ''enabled'') (\<lambda>enabled.
         if \<not> py_truthy enabled then drop_memberships E username user gs additional_groups
         else seqA (delete_membership E g username)
               (drop_memberships E username user gs (remove1 (VStr g) additional_groups))))"

definition remove_user_from_groups :: "'db env \<Rightarrow> string \<Rightarrow> string list \<Rightarrow> ('db st, unit) act" where
  "remove_user_from_groups E username group_names =
     raise_if (blank username) invalid_params
    (raise_if (group_names = []) invalid_params
    (let groups_to_remove = dedupe [] group_names in
     bindA (user_dao_get_user E username) (\<lambda>r. case r of
       None \<Rightarrow> raise user_not_found
     | Some user \<Rightarrow>
         bindA (attr user ''enabled'') (\<lambda>enabled.
         raise_if (\<not> py_truthy enabled) user_is_disabled
        (bindA (additional_groups_of user) (\<lambda>additional_groups.
         bindA (drop_memberships E username user groups_to_remove additional_groups) (\<lambda>left.
         seqA (store_additional_groups E username left)
              (for_each groups_to_remove (\<lambda>g. group_member_removed E g username)))))))))"

text \<open>One round of the loop of \<open>remove_users_from_group\<close>.\<close>

definition remove_user_from_group :: "'db env \<Rightarrow> string \<Rightarrow> bool \<Rightarrow> string \<Rightarrow> ('db st, unit) act" where
  "remove_user_from_group E group_name force username =
     bindA (user_dao_get_user E username) (\<lambda>r. case r of
       None \<Rightarrow> if force then return () else raise user_not_found
     | Some user \<Rightarrow>
         bindA (attr user ''enabled'') (\<lambda>enabled.
         raise_if (\<not> py_truthy enabled \<and> \<not> force) user_is_disabled
        (bindA (additional_groups_of user) (\<lambda>additional_groups.
         seqA (whenA (VStr group_name \<in> set additional_groups)
                (bindA (liftA (set_of_val (VList additional_groups))) (\<lambda>vs.
                 store_additional_groups E username
                   (filter (\<lambda>v. v \<noteq> VStr group_name) (py_set_list (val_hash E) vs)))))
        (seqA (delete_membership E group_name username)
              (group_member_removed E group_name username))))))"

text \<open>
  The handler of a deleted group: for an inactive user it evaluates \<open>list - set\<close>, which
  Python rejects, and a user that is missing has no attributes.
\<close>

definition leave_deleted_group :: "'db env \<Rightarrow> string \<Rightarrow> ('db st, unit) act" where
  "leave_deleted_group E username =
     bindA (user_dao_get_user E username) (\<lambda>user.
     bindA (project_attr user ''is_active'') (\<lambda>a.
     if \<not> py_truthy a then raise TypeError else return ()))"

definition remove_users_from_group :: "'db env \<Rightarrow> string list \<Rightarrow> string \<Rightarrow> bool \<Rightarrow> ('db st, unit) act" where
  "remove_users_from_group E usernames group_name force =
     raise_if (usernames = []) invalid_params
    (raise_if (blank group_name) invalid_params
    (catch_soca
       (bindA (group_dao_get_group E group_name) (\<lambda>r. case r of
          None \<Rightarrow> raise group_not_found
        | Some grp \<Rightarrow>
            bindA (attr grp ''enabled'') (\<lambda>enabled.
            raise_if (\<not> py_truthy enabled \<and> \<not> force) group_is_disabled
            (for_each usernames (remove_user_from_group E group_name force)))))
       (\<lambda>c. if c = AUTH_GROUP_NOT_FOUND then for_each usernames (leave_deleted_group E)
            else raise (SocaException c))))"

section \<open>Groups of projects\<close>

definition project_of_group :: "'db env \<Rightarrow> bool \<Rightarrow> string \<Rightarrow> ('db st, item) act" where
  "project_of_group E force project_id =
     bindA (get_project_by_id E project_id) (\<lambda>project.
     raise_if (project = None \<and> \<not> force) project_not_found
    (bindA (project_attr project ''enabled'') (\<lambda>enabled.
     raise_if (\<not> py_truthy enabled \<and> \<not> force) project_not_found
     (return (the project)))))"

definition drop_group_of_project :: "'db env \<Rightarrow> string \<Rightarrow> item \<Rightarrow> ('db st, unit) act" where
  "drop_group_of_project E group_name project =
     bindA (as_list (attr_or project ''ldap_groups'' (VList []))) (\<lambda>gs.
     whenA (VStr group_name \<in> set gs)
       (bindA (liftA (str_attr ''project_id'' project)) (\<lambda>project_id.
        seqA (projects_dao_update_project E
                [''project_id'' \<mapsto> VStr project_id,
                 ''ldap_groups'' \<mapsto> VList (filter (\<lambda>v. v \<noteq> VStr group_name) gs)])
             (ldap_group_removed E project_id group_name False))))"

definition remove_projects_from_group :: "'db env \<Rightarrow> string list \<Rightarrow> string \<Rightarrow> bool \<Rightarrow> ('db st, unit) act" where
  "remove_projects_from_group E project_ids group_name force =
     raise_if (project_ids = []) invalid_params
    (raise_if (blank group_name) invalid_params
    (bindA (group_dao_get_group E group_name) (\<lambda>r. case r of
       None \<Rightarrow> raise group_not_found
     | Some grp \<Rightarrow>
         bindA (attr grp ''enabled'') (\<lambda>enabled.
         raise_if (\<not> py_truthy enabled \<and> \<not> force) group_is_disabled
        (bindA (map_each project_ids (project_of_group E force)) (\<lambda>projects.
         for_each projects (drop_group_of_project E group_name)))))))"

definition log_soca :: "('s, unit) act \<Rightarrow> ('s, unit) act" where
  "log_soca m = catch_soca m (\<lambda>c. return ())"

definition delete_group :: "'db env \<Rightarrow> string \<Rightarrow> bool \<Rightarrow> ('db st, unit) act" where
  "delete_group E group_name force =
     raise_if (blank group_name) invalid_params
    (bindA (group_dao_get_group E group_name) (\<lambda>grp.
     raise_if (grp = None) group_not_found
    (bindA (has_users_in_group E group_name) (\<lambda>has_users.
     raise_if (has_users \<and> \<not> force) invalid_operation
    (seqA (whenA has_users
             (bindA (get_usernames_in_group E group_name) (\<lambda>usernames.
              log_soca (remove_users_from_group E usernames group_name force))))
    (bindA (has_projects_in_group E group_name) (\<lambda>has_projects.
     raise_if (has_projects \<and> \<not> force) invalid_operation
    (seqA (whenA has_projects
             (bindA (get_projects_by_group_name E group_name) (\<lambda>project_ids.
              log_soca (remove_projects_from_group E project_ids group_name force))))
     (group_dao_delete_group E group_name)))))))))"

section \<open>Facts\<close>

subsection \<open>Writing the groups of a user\<close>

definition user_lists :: "'db env \<Rightarrow> 'db \<Rightarrow> string \<Rightarrow> string \<Rightarrow> bool" where
  "user_lists E d u g \<longleftrightarrow> (\<exists>i vs. ddb_get E d Users (u, []) = Some i \<and>
     i ''additional_groups'' = Some (VList vs) \<and> VStr g \<in> set vs)"

text \<open>A user \<open>add_users_to_group\<close> accepts and makes a member.\<close>

definition addable :: "bool \<Rightarrow> item \<Rightarrow> bool" where
  "addable bypass i \<longleftrightarrow> (\<exists>b. i ''enabled'' = Some b \<and> py_truthy b) \<and>
     (\<exists>vs. attr_or i ''additional_groups'' (VList []) = VList vs \<and> list_all hashable vs) \<and>
     (bypass \<or> (\<exists>a. i ''is_active'' = Some a \<and> py_truthy a))"

lemma set_of_val_VList [simp]: "list_all hashable vs \<Longrightarrow> set_of_val (VList vs) = Inr vs"
  by (simp add: set_of_val_def iter_val_def)

lemma additional_groups_of_run [simp]:
  "attr_or i ''additional_groups'' (VList []) = VList vs \<Longrightarrow> additional_groups_of i s = (Inr vs, s)"
  by (simp add: additional_groups_of_def)

lemma store_additional_groups_run:
  assumes "norm_name u" and "row E s Users (u, []) = Some i"
  shows "store_additional_groups E u gs s =
     (Inr (), s\<lparr>st_ticks := Suc (st_ticks s),
        st_db := ddb_put E (st_db s) Users
          (user_update_of E s u i [''username'' \<mapsto> VStr u, ''additional_groups'' \<mapsto> VList gs])\<rparr>)"
  using assms by (simp add: store_additional_groups_def user_dao_update_user_run)

lemma groups_update:
  "user_update_of E s u i [''username'' \<mapsto> VStr u, ''additional_groups'' \<mapsto> VList vs]
     ''additional_groups'' = Some (VList vs)"
  "list_all hashable vs \<Longrightarrow> addable bypass i \<Longrightarrow>
     addable bypass (user_update_of E s u i [''username'' \<mapsto> VStr u, ''additional_groups'' \<mapsto> VList vs])"
  by (simp_all add: addable_def attr_or_def user_update_of_lookup)

context dynamodb
begin

lemma users_put_frame:
  assumes "key_of Users i = Some k"
  shows "members E (ddb_put E d Users i) = members E d" and "linked E (ddb_put E d Users i) = linked E d"
    and "access E (ddb_put E d Users i) = access E d"
    and "tables_ok E (ddb_put E d Users i) = tables_ok E d"
    and "consistent E (ddb_put E d Users i) = consistent E d"
proof -
  show m: "members E (ddb_put E d Users i) = members E d" and l: "linked E (ddb_put E d Users i) = linked E d"
    and a: "access E (ddb_put E d Users i) = access E d"
    using assms by (simp_all add: members_def linked_def fun_eq_iff)
  have "sources_ok E (ddb_put E d Users i) = sources_ok E d" using assms by simp
  then show "tables_ok E (ddb_put E d Users i) = tables_ok E d"
    by (simp add: tables_ok_def members_ok_def m l)
  show "consistent E (ddb_put E d Users i) = consistent E d"
    by (simp add: consistent_def m l a)
qed

end

context dynamodb_one_page
begin

text \<open>Adding one user: rows of groups and projects stay, every user stays addable.\<close>

lemma add_user_to_group_run:
  assumes "consistent E (st_db s)" and "tables_ok E (st_db s)" and "\<not> blank g"
    and "norm_name u" and "row E s Users (u, []) = Some i" and "addable bypass i"
  shows "\<exists>t. add_user_to_group E g bypass u s = (Inr (), t) \<and>
     consistent E (st_db t) \<and> tables_ok E (st_db t) \<and>
     members E (st_db t) = (members E (st_db s))(g := insert u (members E (st_db s) g)) \<and>
     user_lists E (st_db t) u g \<and>
     (\<forall>v j. row E s Users (v, []) = Some j \<longrightarrow> (\<exists>j'. row E t Users (v, []) = Some j' \<and>
        (addable bypass j \<longrightarrow> addable bypass j') \<and>
        (\<forall>h. user_lists E (st_db s) v h \<longrightarrow> user_lists E (st_db t) v h)))"
proof -
  obtain b where b: "i ''enabled'' = Some b" "py_truthy b" using assms(6) by (auto simp: addable_def)
  obtain vs where vs: "attr_or i ''additional_groups'' (VList []) = VList vs" "list_all hashable vs"
    using assms(6) by (auto simp: addable_def)
  have act: "(if bypass then return True
       else bindA (attr i ''is_active'') (\<lambda>a. return (py_truthy a \<or> test_mode (cfg E)))) r = (Inr True, r)" for r
    using assms(6) by (auto simp: addable_def)
  let ?s = "s\<lparr>st_ticks := st_ticks s + 2\<rparr>"
  let ?new = "py_set_list (val_hash E) (vs @ [VStr g])"
  let ?i = "user_update_of E ?s u i [''username'' \<mapsto> VStr u, ''additional_groups'' \<mapsto> VList ?new]"
  define s1 where "s1 = (if VStr g \<in> set vs then ?s
      else ?s\<lparr>st_ticks := Suc (st_ticks ?s), st_db := ddb_put E (st_db s) Users ?i\<rparr>)"
  have store: "whenA (VStr g \<notin> set vs) (bindA (liftA (set_of_val (VList (vs @ [VStr g]))))
      (\<lambda>vs. store_additional_groups E u (py_set_list (val_hash E) vs))) ?s = (Inr (), s1)"
    using assms(4,5) vs(2)
    by (simp add: s1_def store_additional_groups_run del: set_py_set_list)
  have rows: "row E s1 Users (v, []) = (if VStr g \<notin> set vs \<and> v = u then Some ?i else row E s Users (v, []))" for v
    by (simp add: s1_def)
  have frame: "consistent E (st_db s1)" "tables_ok E (st_db s1)" "members E (st_db s1) = members E (st_db s)"
    using assms(1,2) by (simp_all add: s1_def users_put_frame)
  obtain t where t: "seqA (create_membership E g u) (group_member_added E g u) s1 = (Inr (), t)"
      "consistent E (st_db t)" "tables_ok E (st_db t)"
      "members E (st_db t) = (members E (st_db s1))(g := insert u (members E (st_db s1) g))"
      "\<forall>x k. x \<notin> {GroupMembers, UserProjects} \<longrightarrow> row E t x k = row E s1 x k"
    using member_added_consistent [OF frame(1,2) assms(3) norm_name_sanitize [OF assms(4)]] by blast
  have run: "add_user_to_group E g bypass u s = (Inr (), t)"
  proof -
    have "row E s Users (u, []) = Some i" by (rule assms(5))
    then show ?thesis
      using assms(4) b vs(1) store act [of s1] t(1)
      by (simp add: add_user_to_group_def user_dao_get_user_run)
  qed
  note new = groups_update(1) [of E ?s u i ?new]
  have addable': "addable bypass ?i"
    using vs(2) by (intro groups_update(2) assms(6)) (auto simp: list_all_iff)
  have lists_u: "user_lists E (st_db t) u g"
  proof (cases "VStr g \<in> set vs")
    case True
    then have "row E t Users (u, []) = Some i" using t(5) rows [of u] assms(5) by simp
    then show ?thesis
      using vs(1) True by (auto simp: user_lists_def attr_or_def split: option.splits)
  next
    case False
    then have "row E t Users (u, []) = Some ?i" using t(5) rows [of u] by simp
    moreover have "VStr g \<in> set ?new" by simp
    ultimately show ?thesis using new unfolding user_lists_def by blast
  qed
  have keep: "\<exists>j'. row E t Users (v, []) = Some j' \<and> (addable bypass j \<longrightarrow> addable bypass j') \<and>
        (\<forall>h. user_lists E (st_db s) v h \<longrightarrow> user_lists E (st_db t) v h)"
    if j: "row E s Users (v, []) = Some j" for v j
  proof (cases "VStr g \<notin> set vs \<and> v = u")
    case True
    then have "row E t Users (v, []) = Some ?i" using t(5) rows [of v] by simp
    moreover have "user_lists E (st_db t) v h" if "user_lists E (st_db s) v h" for h
    proof -
      have "VStr h \<in> set vs"
        using that True assms(5) vs(1) by (auto simp: user_lists_def attr_or_def)
      then have "VStr h \<in> set ?new" by simp
      then show ?thesis
        using new \<open>row E t Users (v, []) = Some ?i\<close> unfolding user_lists_def by blast
    qed
    ultimately show ?thesis using addable' by blast
  next
    case False
    then have "row E t Users (v, []) = row E s Users (v, [])" using t(5) rows [of v] by auto
    then show ?thesis using j by (simp add: user_lists_def)
  qed
  show ?thesis
    using run t(2-4) frame(3) lists_u keep by (intro exI [of _ t]) simp
qed

lemma add_users_run:
  assumes "consistent E (st_db s)" and "tables_ok E (st_db s)" and "\<not> blank g"
    and "\<forall>u \<in> set us. norm_name u \<and> (\<exists>i. row E s Users (u, []) = Some i \<and> addable bypass i)"
  shows "\<exists>t. for_each us (add_user_to_group E g bypass) s = (Inr (), t) \<and>
     consistent E (st_db t) \<and> tables_ok E (st_db t) \<and>
     members E (st_db t) = (members E (st_db s))(g := set us \<union> members E (st_db s) g) \<and>
     (\<forall>u h. row E s Users (u, []) \<noteq> None \<longrightarrow>
        (user_lists E (st_db s) u h \<or> u \<in> set us \<and> h = g \<longrightarrow> user_lists E (st_db t) u h))"
  using assms
proof (induction us arbitrary: s)
  case Nil
  then show ?case by (intro exI [of _ s]) auto
next
  case (Cons u us)
  obtain i where i: "row E s Users (u, []) = Some i" "addable bypass i" using Cons.prems(4) by auto
  have u: "norm_name u" using Cons.prems(4) by simp
  obtain s1 where s1: "add_user_to_group E g bypass u s = (Inr (), s1)"
      "consistent E (st_db s1)" "tables_ok E (st_db s1)"
      "members E (st_db s1) = (members E (st_db s))(g := insert u (members E (st_db s) g))"
      "user_lists E (st_db s1) u g"
      "\<forall>v j. row E s Users (v, []) = Some j \<longrightarrow> (\<exists>j'. row E s1 Users (v, []) = Some j' \<and>
        (addable bypass j \<longrightarrow> addable bypass j') \<and>
        (\<forall>h. user_lists E (st_db s) v h \<longrightarrow> user_lists E (st_db s1) v h))"
    using add_user_to_group_run [OF Cons.prems(1-3) u i] by blast
  have "\<forall>v \<in> set us. norm_name v \<and> (\<exists>i. row E s1 Users (v, []) = Some i \<and> addable bypass i)"
    using Cons.prems(4) s1(6) by (metis list.set_intros(2))
  then obtain t where t: "for_each us (add_user_to_group E g bypass) s1 = (Inr (), t)"
      "consistent E (st_db t)" "tables_ok E (st_db t)"
      "members E (st_db t) = (members E (st_db s1))(g := set us \<union> members E (st_db s1) g)"
      "\<forall>u h. row E s1 Users (u, []) \<noteq> None \<longrightarrow>
        (user_lists E (st_db s1) u h \<or> u \<in> set us \<and> h = g \<longrightarrow> user_lists E (st_db t) u h)"
    using Cons.IH [OF s1(2,3) Cons.prems(3)] by blast
  have "user_lists E (st_db t) v h"
    if ex: "row E s Users (v, []) \<noteq> None"
      and old: "user_lists E (st_db s) v h \<or> v \<in> set (u # us) \<and> h = g" for v h
  proof -
    obtain j where "row E s Users (v, []) = Some j" using ex by blast
    then obtain j' where j': "row E s1 Users (v, []) = Some j'"
        "user_lists E (st_db s) v h \<longrightarrow> user_lists E (st_db s1) v h"
      using s1(6) by blast
    then have "user_lists E (st_db s1) v h \<or> v \<in> set us \<and> h = g" using old s1(5) by auto
    then show ?thesis using t(5) j'(1) by auto
  qed
  then show ?case using s1(1,4) t by (intro exI [of _ t]) auto
qed

end

subsection \<open>Deleting a group\<close>

context dynamodb
begin

lemma has_projects_in_group_run:
  "has_projects_in_group E g s = (Inr (\<exists>p. (g, p) \<in> linked E (st_db s)), s)"
  using query_empty_iff [of ProjectGroups "st_db s" g "Some 1"]
  by (auto simp: has_projects_in_group_def linked_def schema_defs)

lemma delete_group_unforced:
  assumes "\<not> blank g" and "row E s Groups (g, []) \<noteq> None"
  shows "delete_group E g False s =
     (if members E (st_db s) g \<noteq> {} \<or> (\<exists>p. (g, p) \<in> linked E (st_db s)) then (Inl invalid_operation, s)
      else (Inr (), s\<lparr>st_db := ddb_delete E (st_db s) Groups (g, [])\<rparr>))"
proof -
  have "has_users_in_group E g s = (Inr (members E (st_db s) g \<noteq> {}), s)"
    by (rule has_users_in_group_run)
  moreover have "has_projects_in_group E g s = (Inr (\<exists>p. (g, p) \<in> linked E (st_db s)), s)"
    by (rule has_projects_in_group_run)
  ultimately show ?thesis
    using assms
    by (cases "members E (st_db s) g \<noteq> {}"; cases "\<exists>p. (g, p) \<in> linked E (st_db s)")
       (auto simp: delete_group_def group_dao_delete_group_def)
qed

end

section \<open>Properties\<close>


definition group_row :: "(table \<times> key) \<times> item" where
  "group_row = ((Groups, (''g'', [])), [''enabled'' \<mapsto> VBool True, ''title'' \<mapsto> VStr ''G''])"

lemma group_row_frame:
  "t \<noteq> Groups \<Longrightarrow> mem_get (group_row # d) t k = mem_get d t k"
  "mem_get (group_row # d) Groups (''g'', []) =
     Some [''enabled'' \<mapsto> VBool True, ''title'' \<mapsto> VStr ''G'', ''group_name'' \<mapsto> VStr ''g'']"
  by (auto simp: mem_get_def group_row_def key_item_def schema_defs)

lemma group_row_ok:
  "members local_env (group_row # d) = members local_env d"
  "linked local_env (group_row # d) = linked local_env d"
  "access local_env (group_row # d) = access local_env d"
  "tables_ok local_env (group_row # d) = tables_ok local_env d"
  "consistent local_env (group_row # d) = consistent local_env d"
proof -
  show m: "members local_env (group_row # d) = members local_env d"
    and l: "linked local_env (group_row # d) = linked local_env d"
    and a: "access local_env (group_row # d) = access local_env d"
    by (simp_all add: members_def linked_def access_def group_row_frame fun_eq_iff)
  show "tables_ok local_env (group_row # d) = tables_ok local_env d"
    by (simp add: tables_ok_def sources_ok_def members_ok_def group_row_frame m l)
  show "consistent local_env (group_row # d) = consistent local_env d"
    by (simp add: consistent_def m l a)
qed


text \<open>
  The loop over the users stops at the first one that cannot be added: the users before
  it are added, the ones behind it are not looked at, and the caller gets the error.
\<close>

theorem adding_stops_at_a_missing_user:
  assumes "\<not> blank g" and "row E s Groups (g, []) = Some grp" and "grp ''enabled'' = Some (VBool True)"
    and "for_each us (add_user_to_group E g bypass) s = (Inr (), t)"
    and "sanitize_username u = Inr n" and "row E t Users (n, []) = None"
  shows "add_users_to_group E (us @ u # vs) g bypass s = (Inl user_not_found, t\<lparr>st_ticks := st_ticks t + 2\<rparr>)"
proof -
  have "add_user_to_group E g bypass u t = (Inl user_not_found, t\<lparr>st_ticks := st_ticks t + 2\<rparr>)"
    using assms(5,6) by (simp add: add_user_to_group_def user_dao_get_user_run)
  then show ?thesis
    using assms(1-4) by (simp add: add_users_to_group_def for_each_append)
qed

theorem adding_stops_at_a_missing_user_witness:
  "fst (add_users_to_group local_env [''v''] ''g'' True (local_state [group_row])) = Inl user_not_found"
  using adding_stops_at_a_missing_user
      [of "''g''" local_env "local_state [group_row]" _ "[]" True "local_state [group_row]" "''v''" "''v''" "[]"]
  by (simp add: group_row_frame) (simp add: mem_get_def group_row_def)

text \<open>
  Deleting a group without force: a group with a member on any page, or linked to any
  project, is left alone with an error and nothing is written; otherwise exactly its row goes.
\<close>

theorem delete_group_refuses_used_groups:
  assumes "dynamodb E" and "\<not> blank g" and "row E s Groups (g, []) \<noteq> None"
  shows "delete_group E g False s =
     (if members E (st_db s) g \<noteq> {} \<or> (\<exists>p. (g, p) \<in> linked E (st_db s)) then (Inl invalid_operation, s)
      else (Inr (), s\<lparr>st_db := ddb_delete E (st_db s) Groups (g, [])\<rparr>))"
  by (rule dynamodb.delete_group_unforced [OF assms])

theorem delete_group_refuses_used_groups_witness:
  "delete_group local_env ''g'' False (local_state (group_row # sample_db)) =
     (Inl invalid_operation, local_state (group_row # sample_db))"
  using delete_group_refuses_used_groups [OF mem_dynamodb, of "''g''" None local_world "local_state (group_row # sample_db)"]
  by (simp add: group_row_frame group_row_ok sample_members)

text \<open>
  The handler of \<open>remove_users_from_group\<close> for inactive users of a deleted group does not
  take them out: it evaluates the difference of a list and a set, so that a call that starts
  with an inactive user raises a \<open>TypeError\<close>.
\<close>

theorem leaving_a_deleted_group_raises:
  assumes "\<not> blank g" and "row E s Groups (g, []) = None" and "sanitize_username u = Inr n"
    and "row E s Users (n, []) = Some i" and "i ''is_active'' = Some (VBool False)"
  shows "fst (remove_users_from_group E (u # us) g force s) = Inl TypeError"
  using assms
  by (simp add: remove_users_from_group_def group_not_found_def leave_deleted_group_def
      user_dao_get_user_run project_attr_def)

theorem leaving_a_deleted_group_raises_witness:
  "fst (remove_users_from_group local_env [''u''] ''g'' True
     (local_state [((Users, (''u'', [])), [''is_active'' \<mapsto> VBool False])])) = Inl TypeError"
  by (rule leaving_a_deleted_group_raises [where n = "''u''" and
        i = "[''is_active'' \<mapsto> VBool False, ''username'' \<mapsto> VStr ''u'']"])
     (simp_all add: mem_get_def key_item_def schema_defs)

end
