(* ===== verification/Cognito_User_Pool.thy ===== *)
theory Cognito_User_Pool
  imports Dynamo_Tables
begin

text \<open>
  \<^verbatim>\<open>accounts/cognito_user_pool.py\<close>: the calls to the Cognito user pool. A call names the
  operation of the service and the parameters that distinguish it; its answer is a
  dictionary or the error the service reports, \<open>ServiceError\<close> with the error code.
\<close>

definition cognito :: "'db env \<Rightarrow> string \<Rightarrow> (string \<times> val) list \<Rightarrow> ('db st, item) act" where
  "cognito E operation params =
     bindA (call E (Cognito operation params)) (\<lambda>v.
     return (case v of VDict d \<Rightarrow> map_of d | _ \<Rightarrow> Map.empty))"

definition cognito_pool :: "'db env \<Rightarrow> string \<Rightarrow> (string \<times> val) list \<Rightarrow> ('db st, item) act" where
  "cognito_pool E operation params =
     cognito E operation ((''UserPoolId'', VStr (user_pool_id (cfg E))) # params)"

text \<open>\<open>except botocore.exceptions.ClientError\<close>, by its error code.\<close>

definition on_client_error :: "('s, 'a) act \<Rightarrow> (string \<Rightarrow> ('s, 'a) act) \<Rightarrow> ('s, 'a) act" where
  "on_client_error m h = catchA m (\<lambda>e. case e of ServiceError c \<Rightarrow> h c | _ \<Rightarrow> raise e)"

definition get_client_id :: "world \<Rightarrow> bool \<Rightarrow> string" where
  "get_client_id w sso = (if sso then sso_client_id w else client_id w)"

definition get_client_secret :: "world \<Rightarrow> bool \<Rightarrow> string" where
  "get_client_secret w sso = (if sso then sso_client_secret w else client_secret w)"

definition is_activedirectory :: "world \<Rightarrow> bool" where
  "is_activedirectory w = (ds_provider w \<in> {''activedirectory'', ''aws_managed_activedirectory''})"

definition get_secret_hash :: "world \<Rightarrow> string \<Rightarrow> bool \<Rightarrow> string" where
  "get_secret_hash w username sso =
     hmac_sha256_base64 w (get_client_secret w sso) (username @ get_client_id w sso)"

definition build_user_cache_key :: "string \<Rightarrow> string" where
  "build_user_cache_key username = ''cognito.user-pool.user.'' @ username"

definition forget_user :: "'db env \<Rightarrow> string \<Rightarrow> ('db st, unit) act" where
  "forget_user E username = do_call E (CacheDelete (build_user_cache_key username))"

record auth_tokens =
  access_token :: "string option"
  id_token :: "string option"
  refresh_token :: "string option"
  expires_in :: "int option"
  token_type :: "string option"

text \<open>The answer to a login: tokens, or a challenge to be responded to.\<close>

record auth_result =
  auth :: "auth_tokens option"
  challenge_name :: "string option"
  challenge_params :: "(string \<times> val) list option"
  session :: "string option"
  auth_role :: "string option"
  db_username :: "string option"

definition build_auth_result :: "item \<Rightarrow> auth_tokens" where
  "build_auth_result r =
     \<lparr>access_token = get_value_as_string ''AccessToken'' r None,
      id_token = get_value_as_string ''IdToken'' r None,
      refresh_token = get_value_as_string ''RefreshToken'' r None,
      expires_in = get_value_as_int ''ExpiresIn'' r None,
      token_type = get_value_as_string ''TokenType'' r None\<rparr>"

definition tokens_only :: "auth_tokens \<Rightarrow> auth_result" where
  "tokens_only a = \<lparr>auth = Some a, challenge_name = None, challenge_params = None, session = None,
                    auth_role = None, db_username = None\<rparr>"

definition challenge_of :: "item \<Rightarrow> auth_result" where
  "challenge_of r =
     \<lparr>auth = None, challenge_name = get_value_as_string ''ChallengeName'' r None,
      challenge_params = get_value_as_dict ''ChallengeParameters'' r None,
      session = get_value_as_string ''Session'' r None, auth_role = None, db_username = None\<rparr>"

section \<open>Users of the pool\<close>

definition admin_delete_user :: "'db env \<Rightarrow> string \<Rightarrow> ('db st, unit) act" where
  "admin_delete_user E username =
     raise_if (blank username) invalid_params
    (seqA (on_client_error
             (seqA (cognito_pool E ''admin_delete_user'' [(''Username'', VStr username)]) (return ()))
             (\<lambda>c. if c = ''UserNotFoundException'' then return () else raise (ServiceError c)))
     (forget_user E username))"

definition admin_enable_user :: "'db env \<Rightarrow> string \<Rightarrow> ('db st, unit) act" where
  "admin_enable_user E username =
     raise_if (blank username) invalid_params
    (seqA (cognito_pool E ''admin_enable_user'' [(''Username'', VStr username)]) (forget_user E username))"

definition admin_disable_user :: "'db env \<Rightarrow> string \<Rightarrow> ('db st, unit) act" where
  "admin_disable_user E username =
     raise_if (blank username) invalid_params
    (seqA (cognito_pool E ''admin_disable_user'' [(''Username'', VStr username)]) (forget_user E username))"

definition attribute :: "string \<Rightarrow> string \<Rightarrow> val" where
  "attribute name v = VDict [(''Name'', VStr name), (''Value'', VStr v)]"

definition password_updated :: "'db env \<Rightarrow> string \<Rightarrow> ('db st, unit) act" where
  "password_updated E username =
     (if \<not> is_activedirectory (cfg E) then return ()
      else bindA (current_time_ms E) (\<lambda>now.
        seqA (cognito_pool E ''admin_update_user_attributes''
               [(''Username'', VStr username),
                (''UserAttributes'', VList [attribute ''custom:password_last_set'' (int_str now),
                   attribute ''custom:password_max_age'' (int_str (password_max_age (cfg E)))])])
             (return ())))"

definition admin_set_password :: "'db env \<Rightarrow> string \<Rightarrow> string \<Rightarrow> bool \<Rightarrow> ('db st, unit) act" where
  "admin_set_password E username password permanent =
     seqA (on_client_error
             (seqA (cognito_pool E ''admin_set_user_password''
                      [(''Username'', VStr username), (''Password'', VStr password),
                       (''Permanent'', VBool permanent)]) (return ()))
             (\<lambda>c. if c = ''InvalidPasswordException''
                  then seqA (admin_delete_user E username) (raise invalid_params)
                  else raise (ServiceError c)))
    (seqA (password_updated E username)
     (forget_user E username))"

definition admin_create_user ::
  "'db env \<Rightarrow> string \<Rightarrow> string \<Rightarrow> string option \<Rightarrow> bool \<Rightarrow> ('db st, unit) act" where
  "admin_create_user E username email password email_verified =
     raise_if (email_verified \<and> blank (str_or_empty password)) invalid_params
    (seqA (cognito_pool E ''admin_create_user''
       ([(''Username'', VStr username),
         (''UserAttributes'', VList [attribute ''email'' email,
            attribute ''email_verified'' (py_str (VBool email_verified)),
            attribute ''custom:cluster_name'' (cluster_name (cfg E)),
            attribute ''custom:aws_region'' (aws_region (cfg E))]),
         (''DesiredDeliveryMediums'', VList [VStr ''EMAIL''])] @
        (if email_verified then [(''MessageAction'', VStr ''SUPPRESS'')]
         else if blank (str_or_empty password) then []
         else [(''TemporaryPassword'', VStr (str_or_empty password))])))
     (whenA email_verified (admin_set_password E username (str_or_empty password) True)))"

definition admin_reset_password :: "'db env \<Rightarrow> string \<Rightarrow> ('db st, unit) act" where
  "admin_reset_password E username =
     seqA (cognito_pool E ''admin_reset_user_password'' [(''Username'', VStr username)])
          (forget_user E username)"

definition admin_update_email :: "'db env \<Rightarrow> string \<Rightarrow> string \<Rightarrow> bool \<Rightarrow> ('db st, unit) act" where
  "admin_update_email E username email email_verified =
     seqA (cognito_pool E ''admin_update_user_attributes''
             [(''Username'', VStr username),
              (''UserAttributes'', VList [attribute ''email'' email,
                 attribute ''email_verified'' (py_str (VBool email_verified))])])
          (forget_user E username)"

definition admin_set_email_verified :: "'db env \<Rightarrow> string \<Rightarrow> ('db st, unit) act" where
  "admin_set_email_verified E username =
     seqA (cognito_pool E ''admin_update_user_attributes''
             [(''Username'', VStr username),
              (''UserAttributes'', VList [attribute ''email_verified'' ''true''])])
          (forget_user E username)"

definition admin_global_sign_out :: "'db env \<Rightarrow> string \<Rightarrow> ('db st, unit) act" where
  "admin_global_sign_out E username =
     seqA (cognito_pool E ''admin_user_global_sign_out'' [(''Username'', VStr username)]) (return ())"

section \<open>Logging in\<close>

definition initiate_username_password_auth ::
  "'db env \<Rightarrow> string \<Rightarrow> string \<Rightarrow> ('db st, auth_result) act" where
  "initiate_username_password_auth E cognito_username password =
     raise_if (cognito_username = []) invalid_params
    (raise_if (password = []) invalid_params
    (raise_if (sso_enabled (cfg E) \<and> cognito_username \<noteq> cluster_administrator (cfg E)) unauthorized_access
    (bindA (on_client_error
       (cognito_pool E ''admin_initiate_auth''
          [(''AuthFlow'', VStr ''ADMIN_USER_PASSWORD_AUTH''), (''USERNAME'', VStr cognito_username),
           (''PASSWORD'', VStr password),
           (''SECRET_HASH'', VStr (get_secret_hash (cfg E) cognito_username False)),
           (''ClientId'', VStr (get_client_id (cfg E) False))])
       (\<lambda>c. if c \<in> {''NotAuthorizedException'', ''UserNotFoundException''} then raise unauthorized_access
            else if c = ''PasswordResetRequiredException''
            then raise (SocaException AUTH_PASSWORD_RESET_REQUIRED)
            else raise (ServiceError c))) (\<lambda>cognito_result.
     return (case get_value_as_dict ''AuthenticationResult'' cognito_result None of
        None \<Rightarrow> challenge_of cognito_result
      | Some d \<Rightarrow> tokens_only (build_auth_result (map_of d)))))))"

definition pool_respond_to_auth_challenge ::
  "'db env \<Rightarrow> string \<Rightarrow> string \<Rightarrow> string \<Rightarrow> string \<Rightarrow> ('db st, auth_result) act" where
  "pool_respond_to_auth_challenge E username challenge sess new_password =
     bindA (cognito_pool E ''admin_respond_to_auth_challenge''
        [(''ClientId'', VStr (client_id (cfg E))), (''ChallengeName'', VStr challenge),
         (''Session'', VStr sess), (''USERNAME'', VStr username), (''NEW_PASSWORD'', VStr new_password),
         (''SECRET_HASH'', VStr (get_secret_hash (cfg E) username False))]) (\<lambda>cognito_result.
     case get_value_as_dict ''AuthenticationResult'' cognito_result None of
       None \<Rightarrow> return (challenge_of cognito_result)
     | Some d \<Rightarrow>
         seqA (admin_set_email_verified E username)
        (seqA (password_updated E username)
        (seqA (forget_user E username)
         (return (tokens_only (build_auth_result (map_of d)))))))"

text \<open>
  The answer to a refresh without \<open>AuthenticationResult\<close>: the tokens are read from \<open>None\<close>,
  and all of them are missing.
\<close>

definition initiate_refresh_token_auth ::
  "'db env \<Rightarrow> string \<Rightarrow> string \<Rightarrow> bool \<Rightarrow> ('db st, auth_result) act" where
  "initiate_refresh_token_auth E username token sso =
     raise_if (blank username) invalid_params
    (raise_if (blank token) invalid_params
    (bindA (on_client_error
       (cognito_pool E ''admin_initiate_auth''
          [(''AuthFlow'', VStr ''REFRESH_TOKEN_AUTH''), (''REFRESH_TOKEN'', VStr token),
           (''SECRET_HASH'', VStr (get_secret_hash (cfg E) username sso)),
           (''ClientId'', VStr (get_client_id (cfg E) sso))])
       (\<lambda>c. if c = ''NotAuthorizedException'' then raise unauthorized_access else raise (ServiceError c)))
     (\<lambda>cognito_result.
     return (tokens_only (build_auth_result
       (case get_value_as_dict ''AuthenticationResult'' cognito_result None of
          None \<Rightarrow> Map.empty | Some d \<Rightarrow> map_of d))))))"

section \<open>Passwords\<close>

definition pool_forgot_password :: "'db env \<Rightarrow> string \<Rightarrow> ('db st, unit) act" where
  "pool_forgot_password E username =
     on_client_error
       (seqA (cognito E ''forgot_password''
          [(''ClientId'', VStr (client_id (cfg E))),
           (''SecretHash'', VStr (get_secret_hash (cfg E) username False)), (''Username'', VStr username)])
        (return ()))
       (\<lambda>c. if c = ''UserNotFoundException'' then return () else raise (ServiceError c))"

definition pool_confirm_forgot_password ::
  "'db env \<Rightarrow> string \<Rightarrow> string \<Rightarrow> string \<Rightarrow> ('db st, unit) act" where
  "pool_confirm_forgot_password E username password confirmation_code =
     seqA (cognito E ''confirm_forgot_password''
        [(''ClientId'', VStr (client_id (cfg E))),
         (''SecretHash'', VStr (get_secret_hash (cfg E) username False)), (''Username'', VStr username),
         (''Password'', VStr password), (''ConfirmationCode'', VStr confirmation_code)])
    (seqA (password_updated E username)
     (forget_user E username))"

definition pool_change_password ::
  "'db env \<Rightarrow> string \<Rightarrow> string \<Rightarrow> string \<Rightarrow> string \<Rightarrow> ('db st, unit) act" where
  "pool_change_password E username token old_password new_password =
     seqA (cognito E ''change_password''
        [(''AccessToken'', VStr token), (''PreviousPassword'', VStr old_password),
         (''ProposedPassword'', VStr new_password)])
     (password_updated E username)"

record password_policy =
  minimum_length :: int
  require_uppercase :: bool
  require_lowercase :: bool
  require_numbers :: bool
  require_symbols :: bool
  temporary_password_validity_days :: int

text \<open>\<open>Utils.get_value_as_dict\<close> of a dictionary that may itself be missing.\<close>

definition sub_dict :: "string \<Rightarrow> item \<Rightarrow> item" where
  "sub_dict key d = (case get_value_as_dict key d None of None \<Rightarrow> Map.empty | Some kvs \<Rightarrow> map_of kvs)"

definition describe_password_policy :: "'db env \<Rightarrow> ('db st, password_policy) act" where
  "describe_password_policy E =
     bindA (cognito_pool E ''describe_user_pool'' []) (\<lambda>describe_result.
     let d = sub_dict ''PasswordPolicy'' (sub_dict ''Policies'' (sub_dict ''UserPool'' describe_result)) in
     return \<lparr>minimum_length = the (get_value_as_int ''MinimumLength'' d (Some 8)),
             require_uppercase = the (get_value_as_bool ''RequireUppercase'' d (Some True)),
             require_lowercase = the (get_value_as_bool ''RequireLowercase'' d (Some True)),
             require_numbers = the (get_value_as_bool ''RequireNumbers'' d (Some True)),
             require_symbols = the (get_value_as_bool ''RequireSymbols'' d (Some True)),
             temporary_password_validity_days =
               the (get_value_as_int ''TemporaryPasswordValidityDays'' d (Some 7))\<rparr>)"

section \<open>Facts\<close>

text \<open>With a default, a conversion always yields a value.\<close>

lemma conversions_with_default:
  "get_value_as_int k d (Some i) \<noteq> None" "get_value_as_bool k d (Some b) \<noteq> None"
proof -
  have "get_as_int v (Some i) \<noteq> None" for v by (cases v) (auto split: option.split)
  then show "get_value_as_int k d (Some i) \<noteq> None" by (simp add: get_value_as_int_def)
  have "get_as_bool v (Some b) \<noteq> None" for v by (cases v) auto
  then show "get_value_as_bool k d (Some b) \<noteq> None" by (simp add: get_value_as_bool_def)
qed

text \<open>The calls leave the tables alone, whatever Cognito answers.\<close>

lemma keeps_on_client_error [keeps_rules]:
  "keeps I m \<Longrightarrow> (\<And>c. keeps I (h c)) \<Longrightarrow> keeps I (on_client_error m h)"
  unfolding on_client_error_def
  by (rule keeps_catchA) (auto split: exn.splits intro: keeps_raise)

lemma keeps_cognito [keeps_rules]:
  "keeps (table_inv P) (cognito E op ps)" "keeps (table_inv P) (cognito_pool E op ps)"
  unfolding cognito_pool_def cognito_def by (intro keeps_rules)+

lemma keeps_forget_user [keeps_rules]: "keeps (table_inv P) (forget_user E u)"
  unfolding forget_user_def by (intro keeps_rules)

lemma keeps_password_updated [keeps_rules]: "keeps (table_inv P) (password_updated E u)"
  unfolding password_updated_def by (intro keeps_rules)

lemma keeps_admin_delete_user [keeps_rules]: "keeps (table_inv P) (admin_delete_user E u)"
  unfolding admin_delete_user_def by (intro keeps_rules)

lemma keeps_admin_set_password [keeps_rules]: "keeps (table_inv P) (admin_set_password E u p b)"
  unfolding admin_set_password_def by (intro keeps_rules)

lemma keeps_admin_create_user [keeps_rules]: "keeps (table_inv P) (admin_create_user E u e p b)"
  unfolding admin_create_user_def by (intro keeps_rules)

lemma keeps_pool_calls [keeps_rules]:
  "keeps (table_inv P) (admin_reset_password E u)"
  "keeps (table_inv P) (admin_global_sign_out E u)"
  "keeps (table_inv P) (admin_set_email_verified E u)"
  "keeps (table_inv P) (initiate_username_password_auth E u p)"
  "keeps (table_inv P) (initiate_refresh_token_auth E u t b)"
  "keeps (table_inv P) (pool_forgot_password E u)"
  "keeps (table_inv P) (pool_confirm_forgot_password E u p c)"
  "keeps (table_inv P) (pool_change_password E u t p q)"
  "keeps (table_inv P) (describe_password_policy E)"
  unfolding admin_reset_password_def admin_global_sign_out_def admin_set_email_verified_def
    initiate_username_password_auth_def initiate_refresh_token_auth_def pool_forgot_password_def
    pool_confirm_forgot_password_def pool_change_password_def describe_password_policy_def
  by (intro keeps_rules)+

lemma keeps_pool_challenge [keeps_rules]:
  "keeps (table_inv P) (pool_respond_to_auth_challenge E u c s p)"
  unfolding pool_respond_to_auth_challenge_def by (intro keeps_rules)

end
