(* ===== verification/Accounts_Users.thy ===== *)
theory Accounts_Users
  imports Accounts_Groups Cognito_User_Pool
begin

text \<open>
  The user part of \<^verbatim>\<open>accounts/accounts_service.py\<close>: administrators, the life of a user from
  its creation by the directory synchronisation over its activation at the first login to
  its deletion, and \<open>TaskManager.send\<close>, through which a new user gets a home directory.
\<close>

section \<open>Tasks\<close>

text \<open>
  The message queue groups messages by an identifier, the task's name when none is given;
  the identifier that removes duplicates is a hash of the message and not modelled.
\<close>

definition send_task :: "'db env \<Rightarrow> string \<Rightarrow> (string \<times> val) list \<Rightarrow> string \<Rightarrow> ('db st, unit) act" where
  "send_task E task_name payload message_group_id =
     do_call E (SendTask task_name payload (if blank message_group_id then task_name else message_group_id))"

section \<open>Administrators\<close>

definition add_admin_user :: "'db env \<Rightarrow> string \<Rightarrow> ('db st, unit) act" where
  "add_admin_user E username =
     raise_if (blank username) invalid_params
    (bindA (user_dao_get_user E username) (\<lambda>r. case r of
       None \<Rightarrow> raise user_not_found
     | Some user \<Rightarrow>
         if user ''role'' = Some (VStr ''admin'') then return ()
         else seqA (user_dao_update_user E [''username'' \<mapsto> VStr username, ''role'' \<mapsto> VStr ''admin'',
                                           ''sudo'' \<mapsto> VBool True]) (return ())))"

definition remove_admin_user :: "'db env \<Rightarrow> string \<Rightarrow> ('db st, unit) act" where
  "remove_admin_user E username =
     raise_if (blank username) invalid_params
    (raise_if (is_cluster_administrator (cfg E) username) invalid_operation
    (bindA (user_dao_get_user E username) (\<lambda>r. case r of
       None \<Rightarrow> raise user_not_found
     | Some user \<Rightarrow>
         if user ''role'' = Some (VStr ''user'') then return ()
         else seqA (user_dao_update_user E [''username'' \<mapsto> VStr username, ''role'' \<mapsto> VStr ''user'',
                                           ''sudo'' \<mapsto> VBool False]) (return ()))))"

section \<open>Look-up\<close>

definition get_user :: "'db env \<Rightarrow> string \<Rightarrow> ('db st, user) act" where
  "get_user E username =
     bindA (liftA (sanitize_username username)) (\<lambda>username.
     raise_if (blank username) invalid_params
    (bindA (user_dao_get_user E username) (\<lambda>r. case r of
       None \<Rightarrow> raise user_not_found
     | Some user \<Rightarrow> liftA (user_from_db user))))"

definition get_user_by_email :: "'db env \<Rightarrow> string \<Rightarrow> ('db st, user) act" where
  "get_user_by_email E email =
     bindA (liftA (sanitize_email (cfg E) email)) (\<lambda>email.
     raise_if (email = []) invalid_params
    (bindA (user_dao_get_user_by_email E email) (\<lambda>users.
     raise_if (length users > 1) (SocaException AUTH_MULTIPLE_USERS_FOUND)
     (case users of [] \<Rightarrow> raise user_not_found | user # _ \<Rightarrow> liftA (user_from_db user)))))"

definition list_users :: "'db env \<Rightarrow> list_request \<Rightarrow> ('db st, user list \<times> string option) act" where
  "list_users E request = user_dao_list_users E request"

section \<open>Creation\<close>

text \<open>
  \<open>USERNAME_REGEX\<close>: 3 to 20 characters of \<open>a-z\<close>, \<open>0-9\<close>, dot and underscore, with no dot or
  underscore at an end or next to another one.
\<close>

definition is_sep :: "char \<Rightarrow> bool" where
  "is_sep c = (c \<in> {CHR ''_'', CHR ''.''})"

fun adjacent_seps :: "string \<Rightarrow> bool" where
  "adjacent_seps (c # d # cs) = (is_sep c \<and> is_sep d \<or> adjacent_seps (d # cs))"
| "adjacent_seps _ = False"

definition is_username_char :: "char \<Rightarrow> bool" where
  "is_username_char c =
     (let n = of_char c :: nat in 97 \<le> n \<and> n \<le> 122 \<or> 48 \<le> n \<and> n \<le> 57 \<or> is_sep c)"

definition matches_username_regex :: "string \<Rightarrow> bool" where
  "matches_username_regex s =
     (3 \<le> length s \<and> length s \<le> 20 \<and> \<not> is_sep (hd s) \<and> \<not> adjacent_seps s \<and>
      list_all is_username_char s \<and> \<not> is_sep (last s))"

definition DEFAULT_LOGIN_SHELL :: string where
  "DEFAULT_LOGIN_SHELL = ''/bin/bash''"

definition USER_HOME_DIR_BASE :: string where
  "USER_HOME_DIR_BASE = ''/home''"

text \<open>The rules of the user pool for the password of the bootstrap user.\<close>

definition between :: "nat \<Rightarrow> nat \<Rightarrow> char \<Rightarrow> bool" where
  "between a b c = (a \<le> of_char c \<and> of_char c \<le> b)"

definition SPECIAL_CHARACTERS :: string where
  "SPECIAL_CHARACTERS = ''^$*.[]{}()?!@#%&/'' @ [CHR 0x5C, CHR 0x22, CHR 0x27] @ '',><:;|_~`=+-''"

definition check_password :: "password_policy \<Rightarrow> string \<Rightarrow> exn + unit" where
  "check_password policy password =
     (if int (length password) < minimum_length policy then Inl invalid_params
      else if length password > 256 then Inl invalid_params
      else if require_numbers policy \<and> list_all (\<lambda>c. \<not> between 48 57 c) password then Inl invalid_params
      else if require_uppercase policy \<and> list_all (\<lambda>c. \<not> between 65 90 c) password then Inl invalid_params
      else if require_lowercase policy \<and> list_all (\<lambda>c. \<not> between 97 122 c) password then Inl invalid_params
      else if require_symbols policy \<and> list_all (\<lambda>c. c \<notin> set SPECIAL_CHARACTERS) password
        then Inl invalid_params
      else Inr ())"

definition bootstrap_password :: "'db env \<Rightarrow> user \<Rightarrow> bool \<Rightarrow> ('db st, string option) act" where
  "bootstrap_password E user email_verified =
     (if email_verified then
        raise_if (blank (str_or_empty (u_password user))) invalid_params
       (bindA (describe_password_policy E) (\<lambda>policy.
        seqA (liftA (check_password policy (str_or_empty (u_password user))))
          (return (u_password user))))
      else return (Some (generated_password (cfg E))))"

definition or_default :: "string option \<Rightarrow> string \<Rightarrow> string" where
  "or_default v dflt = (if blank (str_or_empty v) then dflt else str_or_empty v)"

text \<open>The row of a new user, from the values the method computed.\<close>

definition new_user_row ::
  "user \<Rightarrow> string \<Rightarrow> string \<Rightarrow> (int \<times> int) option \<Rightarrow> string list \<Rightarrow> item" where
  "new_user_row user username email ids additional_groups =
     [''username'' \<mapsto> VStr username,
      ''email'' \<mapsto> VStr email,
      ''uid'' \<mapsto> (case ids of None \<Rightarrow> VNone | Some (uid, gid) \<Rightarrow> VInt uid),
      ''gid'' \<mapsto> (case ids of None \<Rightarrow> VNone | Some (uid, gid) \<Rightarrow> VInt gid),
      ''additional_groups'' \<mapsto> strs additional_groups,
      ''login_shell'' \<mapsto> VStr (or_default (u_login_shell user) DEFAULT_LOGIN_SHELL),
      ''home_dir'' \<mapsto> VStr (or_default (u_home_dir user) (USER_HOME_DIR_BASE @ ''/'' @ username)),
      ''sudo'' \<mapsto> VBool (u_sudo user = Some True),
      ''enabled'' \<mapsto> VBool True,
      ''role'' \<mapsto> VStr (if u_role user = Some ''admin'' then ''admin'' else ''user''),
      ''is_active'' \<mapsto> VBool (u_is_active user = Some True)]"

definition create_user :: "'db env \<Rightarrow> user \<Rightarrow> bool \<Rightarrow> ('db st, user) act" where
  "create_user E user email_verified =
     bindA (liftA (sanitize_username (str_or_empty (u_username user)))) (\<lambda>username.
     raise_if (blank username) invalid_params
    (raise_if (\<not> matches_username_regex username) invalid_params
    (seqA (liftA (check_allowed_username username))
    (let bootstrap_user = is_cluster_administrator (cfg E) (str_or_empty (u_username user)) in
     raise_if (\<not> bootstrap_user \<and> \<not> ldap_is_existing_user (cfg E) username) invalid_params
    (bindA (user_dao_get_user E username) (\<lambda>existing_user.
     raise_if (existing_user \<noteq> None) (SocaException AUTH_USER_ALREADY_EXISTS)
    (bindA (liftA (sanitize_email (cfg E) (str_or_empty (u_email user)))) (\<lambda>email.
     let ids = sssd_uid_gid (cfg E) username in
     raise_if (ids = None \<and> \<not> bootstrap_user) (SocaException UID_AND_GID_NOT_FOUND)
    (seqA (whenA bootstrap_user
             (bindA (bootstrap_password E user email_verified) (\<lambda>password.
              admin_create_user E username email password email_verified)))
    (let additional_groups =
           (case u_additional_groups user of None \<Rightarrow> [] | Some gs \<Rightarrow> gs) in
     bindA (user_dao_create_user E (new_user_row user username email ids additional_groups)) (\<lambda>created_user.
     seqA (for_each additional_groups (\<lambda>g. add_users_to_group E [username] g False))
    (seqA (whenA (\<not> bootstrap_user)
             (send_task E ''accounts.create-home-directory'' [(''username'', VStr username)] username))
     (liftA (user_from_db created_user))))))))))))))"

section \<open>Changes\<close>

definition activate_user :: "'db env \<Rightarrow> user \<Rightarrow> ('db st, unit) act" where
  "activate_user E existing_user =
     whenA (u_is_active existing_user \<noteq> Some True)
       (let username = str_or_empty (u_username existing_user) in
        seqA (for_each (list_or_nil (u_additional_groups existing_user)) (\<lambda>g.
                catchA (add_users_to_group E [username] g True) (\<lambda>e. return ())))
       (seqA (user_dao_update_user E [''username'' \<mapsto> VStr username, ''is_active'' \<mapsto> VBool True])
        (return ())))"

text \<open>The updates of \<open>modify_user\<close>; only the fields that were given are among them.\<close>

definition user_updates_of ::
  "user \<Rightarrow> string \<Rightarrow> string option \<Rightarrow> item" where
  "user_updates_of user username new_email =
     put_opt ''gid'' VInt (u_gid user)
    (put_opt ''uid'' VInt (u_uid user)
    (put_opt ''sudo'' VBool (u_sudo user)
    (put_opt ''login_shell'' VStr (if blank (str_or_empty (u_login_shell user)) then None else u_login_shell user)
    (put_opt ''email'' VStr new_email
       [''username'' \<mapsto> VStr username]))))"

definition modify_user :: "'db env \<Rightarrow> user \<Rightarrow> bool \<Rightarrow> ('db st, user) act" where
  "modify_user E user email_verified =
     bindA (liftA (sanitize_username (str_or_empty (u_username user)))) (\<lambda>username.
     bindA (user_dao_get_user E username) (\<lambda>r. case r of
       None \<Rightarrow> raise user_not_found
     | Some existing_user \<Rightarrow>
         bindA (attr existing_user ''enabled'') (\<lambda>enabled.
         raise_if (\<not> py_truthy enabled) user_is_disabled
        (bindA (if blank (str_or_empty (u_email user)) then return None
                else bindA (liftA (sanitize_email (cfg E) (str_or_empty (u_email user)))) (\<lambda>new_email.
                  return (if get_value_as_string ''email'' existing_user None \<noteq> Some new_email
                          then Some new_email else None))) (\<lambda>new_email.
         bindA (user_dao_update_user E (user_updates_of user username new_email)) (\<lambda>updated.
         bindA (liftA (user_from_db updated)) (\<lambda>updated_user.
         if u_is_active user = Some True
         then seqA (activate_user E updated_user) (return (updated_user\<lparr>u_is_active := Some True\<rparr>))
         else return updated_user)))))))"

definition enable_user :: "'db env \<Rightarrow> string \<Rightarrow> ('db st, unit) act" where
  "enable_user E username =
     raise_if (blank username) invalid_params
    (bindA (user_dao_get_user E username) (\<lambda>r. case r of
       None \<Rightarrow> raise user_not_found
     | Some existing_user \<Rightarrow>
         if get_value_as_bool ''enabled'' existing_user (Some False) = Some True then return ()
         else seqA (user_dao_update_user E [''username'' \<mapsto> VStr username, ''enabled'' \<mapsto> VBool True])
                (return ())))"

definition disable_user :: "'db env \<Rightarrow> string \<Rightarrow> ('db st, unit) act" where
  "disable_user E username =
     raise_if (blank username) invalid_params
    (raise_if (is_cluster_administrator (cfg E) username) invalid_operation
    (bindA (user_dao_get_user E username) (\<lambda>r. case r of
       None \<Rightarrow> raise user_not_found
     | Some existing_user \<Rightarrow>
         if get_value_as_bool ''enabled'' existing_user (Some False) \<noteq> Some True then return ()
         else seqA (user_dao_update_user E [''username'' \<mapsto> VStr username, ''enabled'' \<mapsto> VBool False])
                (do_call E (PublishUserDisabled username)))))"

definition delete_user :: "'db env \<Rightarrow> string \<Rightarrow> ('db st, unit) act" where
  "delete_user E username =
     raise_if (is_cluster_administrator (cfg E) username) invalid_operation
    (bindA (user_dao_get_user E username) (\<lambda>r. case r of
       None \<Rightarrow> return ()
     | Some user \<Rightarrow>
         (case get_value_as_list ''additional_groups'' user (Some []) of
            None \<Rightarrow> user_dao_delete_user E username
          | Some groups \<Rightarrow>
              seqA (whenA (groups \<noteq> [])
                 (catch_soca
                    (bindA (liftA (map_sum_list name_arg groups)) (\<lambda>names.
                     remove_user_from_groups E username names))
                    (\<lambda>c. if c = AUTH_USER_IS_DISABLED then return () else raise (SocaException c))))
                 (user_dao_delete_user E username))))"

section \<open>Look-ups change no table\<close>

lemma keeps_lookups [keeps_rules]:
  "keeps (table_inv P) (user_dao_get_user E u)"
  "keeps (table_inv P) (user_dao_get_user_by_email E e)"
  unfolding user_dao_get_user_def user_dao_get_user_by_email_def by (intro keeps_rules)+

lemma keeps_get_user [keeps_rules]:
  "keeps (table_inv P) (get_user E u)" "keeps (table_inv P) (get_user_by_email E e)"
  unfolding get_user_def get_user_by_email_def
  by (intro keeps_rules) (auto intro!: keeps_rules split: list.split)

end
