(* ===== verification/Token_Service.thy ===== *)
theory Token_Service
  imports Cognito_User_Pool
begin

text \<open>
  \<^verbatim>\<open>ideasdk/auth/token_service.py\<close>: decoding of access tokens, the tokens an application
  gets for itself and keeps until they expire, and the revocation of tokens.
\<close>

section \<open>Decoding\<close>

definition token_expired :: exn where
  "token_expired = SocaException AUTH_TOKEN_EXPIRED"

definition decode_token :: "world \<Rightarrow> string \<Rightarrow> exn + item" where
  "decode_token w token =
     (if blank token then Inl unauthorized_access
      else case jwt_decode w token of
          JwtOk claims \<Rightarrow> Inr claims
        | JwtExpired \<Rightarrow> Inl token_expired
        | JwtInvalid \<Rightarrow> Inl unauthorized_access
        | JwtError e \<Rightarrow> Inl e)"

text \<open>
  The handler waits for the error of the JWT library, which \<open>decode_token\<close> has already turned into
  a \<open>SocaException\<close>: no exception that arrives here is caught.
\<close>

definition is_token_expired :: "world \<Rightarrow> string \<Rightarrow> exn + bool" where
  "is_token_expired w token = bindE (decode_token w token) (\<lambda>_. Inr False)"

text \<open>The user name in a token of single sign-on is the name of the provider and the e-mail.\<close>

definition get_email_from_token_username :: "world \<Rightarrow> string \<Rightarrow> string option" where
  "get_email_from_token_username w token_username =
     (if sso_enabled w
      then let prefix = py_lower (sso_idp_provider_name w @ ''_'') in
           if starts_with token_username prefix then Some (drop (length prefix) token_username) else None
      else None)"

section \<open>Requests to the OAuth2 server\<close>

definition oauth2_access_token_url :: "world \<Rightarrow> string" where
  "oauth2_access_token_url w = token_domain_url w @ ''/oauth2/token''"

definition oauth2_revoke_url :: "world \<Rightarrow> string" where
  "oauth2_revoke_url w = token_domain_url w @ ''/oauth2/revoke''"

definition basic_auth :: "world \<Rightarrow> string \<Rightarrow> string \<Rightarrow> string" where
  "basic_auth w user password = ''Basic '' @ base64_encode w (user @ '':'' @ password)"

text \<open>An answer carries a status and, as JSON, a dictionary.\<close>

definition http_status :: "val \<Rightarrow> int" where
  "http_status resp = (case resp of
      VDict d \<Rightarrow> (case map_of d ''status_code'' of Some (VInt n) \<Rightarrow> n | _ \<Rightarrow> 0) | _ \<Rightarrow> 0)"

definition http_json :: "val \<Rightarrow> item" where
  "http_json resp = (case resp of
      VDict d \<Rightarrow> (case map_of d ''json'' of Some (VDict j) \<Rightarrow> map_of j | _ \<Rightarrow> Map.empty) | _ \<Rightarrow> Map.empty)"

text \<open>A grant: the fields of the answer that are kept.\<close>

definition grant_of :: "bool \<Rightarrow> item \<Rightarrow> auth_tokens" where
  "grant_of sso result =
     \<lparr>access_token = get_value_as_string ''access_token'' result None,
      id_token = (if sso then get_value_as_string ''id_token'' result None else None),
      refresh_token = (if sso then get_value_as_string ''refresh_token'' result None else None),
      expires_in = get_value_as_int ''expires_in'' result None,
      token_type = get_value_as_string ''token_type'' result None\<rparr>"

text \<open>
  The grant that was kept from an earlier call, unless the caller wants a new one or its
  token has expired. The lock around the second look does not matter to one thread.
\<close>

definition get_cached_grant :: "world \<Rightarrow> bool \<Rightarrow> auth_tokens option \<Rightarrow> exn + auth_tokens option" where
  "get_cached_grant w force_renewal cached =
     (if force_renewal then Inr None
      else case cached of
          None \<Rightarrow> Inr None
        | Some grant \<Rightarrow> bindE (is_token_expired w (str_or_empty (access_token grant)))
            (\<lambda>expired. Inr (if expired then None else Some grant)))"

definition get_access_token_using_client_credentials ::
  "'db env \<Rightarrow> bool \<Rightarrow> auth_tokens option \<Rightarrow> ('db st, auth_tokens \<times> auth_tokens option) act" where
  "get_access_token_using_client_credentials E force_renewal cached =
     raise_if (blank (client_id (cfg E)) \<or> blank (client_secret (cfg E))) general_exception
    (raise_if (token_scopes (cfg E) = []) general_exception
    (bindA (liftA (get_cached_grant (cfg E) force_renewal cached)) (\<lambda>kept. case kept of
       Some grant \<Rightarrow> return (grant, cached)
     | None \<Rightarrow>
         bindA (call E (HttpPost (oauth2_access_token_url (cfg E))
             (basic_auth (cfg E) (client_id (cfg E)) (client_secret (cfg E)))
             [(''grant_type'', VStr ''client_credentials''),
              (''scope'', VStr (join '' '' (token_scopes (cfg E))))])) (\<lambda>response.
         let grant = grant_of False (http_json response) in
         return (grant, Some grant)))))"

definition get_access_token_using_refresh_token ::
  "'db env \<Rightarrow> string \<Rightarrow> bool \<Rightarrow> auth_tokens option \<Rightarrow> ('db st, auth_tokens \<times> auth_tokens option) act" where
  "get_access_token_using_refresh_token E token force_renewal cached =
     raise_if (blank token) general_exception
    (bindA (liftA (get_cached_grant (cfg E) force_renewal cached)) (\<lambda>kept. case kept of
       Some grant \<Rightarrow> return (grant, cached)
     | None \<Rightarrow>
         bindA (call E (HttpPost (oauth2_access_token_url (cfg E)) []
             [(''grant_type'', VStr ''refresh_token''), (''refresh_token'', VStr token)])) (\<lambda>response.
         let grant = grant_of False (http_json response) in
         return (grant, Some grant))))"

definition get_access_token_using_sso_auth_code ::
  "'db env \<Rightarrow> string \<Rightarrow> string \<Rightarrow> ('db st, auth_tokens) act" where
  "get_access_token_using_sso_auth_code E authorization_code redirect_uri =
     raise_if (blank authorization_code) invalid_params
    (raise_if (blank redirect_uri) invalid_params
    (bindA (call E (HttpPost (oauth2_access_token_url (cfg E))
         (basic_auth (cfg E) (sso_client_id (cfg E)) (sso_client_secret (cfg E)))
         [(''grant_type'', VStr ''authorization_code''), (''code'', VStr authorization_code),
          (''client_id'', VStr (sso_client_id (cfg E))), (''redirect_uri'', VStr redirect_uri)])) (\<lambda>response.
     let result = http_json response in
     raise_if (\<not> blank (str_or_empty (get_value_as_string ''error'' result None))) unauthorized_access
     (return (grant_of True result)))))"

definition revoke_authorization :: "'db env \<Rightarrow> string \<Rightarrow> bool \<Rightarrow> ('db st, unit) act" where
  "revoke_authorization E token sso_auth =
     raise_if (blank token) invalid_params
    (let client = get_client_id (cfg E) sso_auth; secret = get_client_secret (cfg E) sso_auth in
     raise_if (blank client \<or> blank secret) general_exception
    (bindA (call E (HttpPost (oauth2_revoke_url (cfg E)) (basic_auth (cfg E) client secret)
         [(''token'', VStr token), (''client_id'', VStr client)])) (\<lambda>result.
     raise_if (http_status result \<noteq> 200) (SocaException AUTH_TOKEN_REVOCATION_FAILED) (return ()))))"

section \<open>Facts\<close>

lemma keeps_revoke [keeps_rules]: "keeps (table_inv P) (revoke_authorization E t b)"
  unfolding revoke_authorization_def by (intro keeps_rules)

text \<open>The answer \<open>True\<close> never comes: an expired token is an exception.\<close>

lemma is_token_expired_cases:
  "is_token_expired w token \<noteq> Inr True"
  "jwt_decode w token = JwtExpired \<Longrightarrow> \<not> blank token \<Longrightarrow> is_token_expired w token = Inl token_expired"
  by (auto simp: is_token_expired_def bindE_def decode_token_def split: sum.split jwt_result.split)

section \<open>Property\<close>

text \<open>
  A grant that was kept is not renewed once its token has expired: asking for the access
  token without forcing a renewal raises instead, and goes on raising, as no request is sent
  and the expired grant stays. Before that the kept grant is used without any request.
\<close>

theorem expired_grant_is_not_renewed:
  assumes "\<not> blank (client_id (cfg E))" and "\<not> blank (client_secret (cfg E))" and "token_scopes (cfg E) \<noteq> []"
    and "\<not> blank (str_or_empty (access_token grant))"
  shows "(jwt_decode (cfg E) (str_or_empty (access_token grant)) = JwtExpired \<longrightarrow>
       get_access_token_using_client_credentials E False (Some grant) s = (Inl token_expired, s)) \<and>
     (\<forall>claims. jwt_decode (cfg E) (str_or_empty (access_token grant)) = JwtOk claims \<longrightarrow>
       get_access_token_using_client_credentials E False (Some grant) s = (Inr (grant, Some grant), s))"
  using assms
  by (auto simp: get_access_token_using_client_credentials_def get_cached_grant_def is_token_expired_def
      decode_token_def)

definition expired_world :: world where
  "expired_world = local_world\<lparr>jwt_decode := (\<lambda>_. JwtExpired)\<rparr>"

definition sample_grant :: auth_tokens where
  "sample_grant = \<lparr>access_token = Some ''token'', id_token = None, refresh_token = None,
                   expires_in = Some 3600, token_type = Some ''Bearer''\<rparr>"

theorem expired_grant_is_not_renewed_witness:
  "get_access_token_using_client_credentials (mem_env None expired_world) False (Some sample_grant) (local_state []) =
     (Inl token_expired, local_state [])"
proof -
  have "\<not> blank ''client''" "\<not> blank ''secret''" "\<not> blank ''token''" by code_simp+
  then show ?thesis
    using expired_grant_is_not_renewed [of "mem_env None expired_world" sample_grant "local_state []"]
    by (simp add: expired_world_def local_world_def sample_grant_def)
qed

end
