(* ===== verification/Accounts_Auth.thy ===== *)
theory Accounts_Auth
  imports Accounts_Users Token_Service
begin

text \<open>
  The login part of \<^verbatim>\<open>accounts/accounts_service.py\<close>: the four authentication flows, the
  single use of the codes single sign-on hands out, the password operations that only the
  cluster administrator has, and the creation of that administrator at start-up.
\<close>

section \<open>Passwords\<close>

definition reset_password :: "'db env \<Rightarrow> string \<Rightarrow> ('db st, unit) act" where
  "reset_password E username =
     bindA (liftA (sanitize_username username)) (\<lambda>username.
     raise_if (blank username) invalid_params
    (raise_if (\<not> is_cluster_administrator (cfg E) username) invalid_operation
     (admin_reset_password E username)))"

definition change_password ::
  "'db env \<Rightarrow> string \<Rightarrow> string \<Rightarrow> string \<Rightarrow> string \<Rightarrow> ('db st, unit) act" where
  "change_password E token username old_password new_password =
     raise_if (\<not> is_cluster_administrator (cfg E) username) invalid_operation
     (pool_change_password E username token old_password new_password)"

text \<open>
  The answer takes at least five seconds either way; the arithmetic is in milliseconds
  here and in fractions of a second in the source.
\<close>

definition forgot_password :: "'db env \<Rightarrow> string \<Rightarrow> ('db st, unit) act" where
  "forgot_password E username =
     raise_if (blank username) invalid_params
    (let wait_time = 5000 in
     bindA (current_time_ms E) (\<lambda>start.
     seqA (pool_forgot_password E username)
    (bindA (current_time_ms E) (\<lambda>end_time.
     let total = end_time - start in
     whenA (total \<le> wait_time) (do_call E (Sleep (wait_time - total)))))))"

definition confirm_forgot_password ::
  "'db env \<Rightarrow> string \<Rightarrow> string \<Rightarrow> string \<Rightarrow> ('db st, unit) act" where
  "confirm_forgot_password E username password confirmation_code =
     raise_if (blank username) invalid_params
    (raise_if (blank password) invalid_params
    (raise_if (blank confirmation_code) invalid_params
     (pool_confirm_forgot_password E username password confirmation_code)))"

section \<open>Sessions\<close>

definition sign_out :: "'db env \<Rightarrow> string \<Rightarrow> bool \<Rightarrow> ('db st, unit) act" where
  "sign_out E token sso_auth = revoke_authorization E token sso_auth"

definition global_sign_out :: "'db env \<Rightarrow> string \<Rightarrow> ('db st, unit) act" where
  "global_sign_out E username =
     raise_if (blank username) invalid_params (admin_global_sign_out E username)"

definition get_user_from_token_username :: "'db env \<Rightarrow> val option \<Rightarrow> ('db st, user) act" where
  "get_user_from_token_username E token_username =
     (case token_username of
        Some (VStr name) \<Rightarrow>
          raise_if (name = []) unauthorized_access
          (case get_email_from_token_username (cfg E) name of
             Some email \<Rightarrow> if email \<noteq> [] then get_user_by_email E email else get_user E name
           | None \<Rightarrow> get_user E name)
      | Some v \<Rightarrow> if py_truthy v then raise TypeError else raise unauthorized_access
      | None \<Rightarrow> raise unauthorized_access)"

definition get_user_from_access_token :: "'db env \<Rightarrow> string \<Rightarrow> ('db st, user) act" where
  "get_user_from_access_token E token =
     bindA (liftA (decode_token (cfg E) token)) (\<lambda>decoded_token.
     get_user_from_token_username E (decoded_token ''username''))"

text \<open>A login without tokens has no \<open>auth.access_token\<close> to read.\<close>

definition add_role_dbusername_to_auth_result ::
  "'db env \<Rightarrow> auth_result \<Rightarrow> bool \<Rightarrow> ('db st, auth_result) act" where
  "add_role_dbusername_to_auth_result E authresult sso_auth =
     (case auth authresult of
        None \<Rightarrow> raise AttributeError
      | Some tokens \<Rightarrow>
          bindA (get_user_from_access_token E (str_or_empty (access_token tokens))) (\<lambda>user.
          if u_enabled user = Some True
          then return (authresult\<lparr>auth_role := u_role user, db_username := u_username user\<rparr>)
          else seqA (sign_out E (str_or_empty (refresh_token tokens)) sso_auth) (raise unauthorized_access)))"

section \<open>Authentication flows\<close>

record auth_request =
  auth_flow :: string
  cognito_username :: string
  req_password :: string
  req_refresh_token :: string
  authorization_code :: string

definition tokens_of_state :: "item \<Rightarrow> exn + auth_tokens" where
  "tokens_of_state d =
     bindE (opt_str_field (d ''access_token'')) (\<lambda>a.
     bindE (opt_str_field (d ''refresh_token'')) (\<lambda>r.
     bindE (opt_str_field (d ''id_token'')) (\<lambda>i.
     bindE (case d ''expires_in'' of Some VNone \<Rightarrow> Inr None | x \<Rightarrow> int_of_attr x) (\<lambda>e.
     bindE (opt_str_field (d ''token_type'')) (\<lambda>t.
     Inr \<lparr>access_token = a, id_token = i, refresh_token = r, expires_in = e, token_type = t\<rparr>)))))"

text \<open>An unknown flow falls through all branches and answers \<open>None\<close>.\<close>

definition initiate_auth :: "'db env \<Rightarrow> auth_request \<Rightarrow> ('db st, auth_result option) act" where
  "initiate_auth E req =
     raise_if (blank (auth_flow req)) invalid_params
    (if auth_flow req = ''USER_PASSWORD_AUTH'' then
       raise_if (\<not> is_cluster_administrator (cfg E) (cognito_username req)) unauthorized_access
      (bindA (initiate_username_password_auth E (cognito_username req) (req_password req)) (\<lambda>authresult.
       if str_or_empty (challenge_name authresult) = []
       then bindA (add_role_dbusername_to_auth_result E authresult False) (\<lambda>r. return (Some r))
       else return (Some authresult)))
     else if auth_flow req = ''REFRESH_TOKEN_AUTH'' then
       raise_if (\<not> is_cluster_administrator (cfg E) (cognito_username req)) unauthorized_access
      (bindA (initiate_refresh_token_auth E (cognito_username req) (req_refresh_token req) False) (\<lambda>authresult.
       bindA (add_role_dbusername_to_auth_result E authresult False) (\<lambda>r. return (Some r))))
     else if auth_flow req = ''SSO_AUTH'' then
       raise_if (\<not> is_sso_enabled (cfg E)) unauthorized_access
      (raise_if (blank (authorization_code req)) invalid_params
      (bindA (get_sso_state E (authorization_code req)) (\<lambda>r. case r of
         None \<Rightarrow> raise unauthorized_access
       | Some db_sso_state \<Rightarrow>
           seqA (delete_sso_state E (authorization_code req))
          (bindA (liftA (tokens_of_state db_sso_state)) (\<lambda>tokens.
           bindA (add_role_dbusername_to_auth_result E (tokens_only tokens) True) (\<lambda>r. return (Some r)))))))
     else if auth_flow req = ''SSO_REFRESH_TOKEN_AUTH'' then
       raise_if (\<not> is_sso_enabled (cfg E)) unauthorized_access
      (bindA (initiate_refresh_token_auth E (cognito_username req) (req_refresh_token req) True) (\<lambda>authresult.
       bindA (add_role_dbusername_to_auth_result E authresult True) (\<lambda>r. return (Some r))))
     else return None)"

definition respond_to_auth_challenge ::
  "'db env \<Rightarrow> string \<Rightarrow> string \<Rightarrow> string \<Rightarrow> string \<Rightarrow> ('db st, auth_result) act" where
  "respond_to_auth_challenge E username challenge sess new_password =
     raise_if (blank username) invalid_params
    (raise_if (blank challenge) invalid_params
    (raise_if (challenge \<noteq> ''NEW_PASSWORD_REQUIRED'') invalid_params
    (raise_if (blank sess) invalid_params
    (raise_if (blank new_password) invalid_params
     (pool_respond_to_auth_challenge E username challenge sess new_password)))))"

section \<open>Start-up\<close>

definition get_gid_from_existing_ldap_group :: "'db env \<Rightarrow> string \<Rightarrow> ('db st, int) act" where
  "get_gid_from_existing_ldap_group E groupname =
     bindA (liftA (ldap_get_group (cfg E) groupname)) (\<lambda>r. case r of
       None \<Rightarrow> raise general_exception
     | Some existing_group_from_ds \<Rightarrow>
         (case get_value_as_int ''gid'' existing_group_from_ds None of
            None \<Rightarrow> raise general_exception
          | Some gid \<Rightarrow> return gid))"

definition default_admin :: "world \<Rightarrow> user" where
  "default_admin w =
     \<lparr>u_username = Some (cluster_administrator w), u_password = None,
      u_email = Some (cluster_administrator_email w), u_uid = None, u_gid = None,
      u_group_name = None, u_ds_group_name = None, u_additional_groups = None, u_login_shell = None, u_home_dir = None,
      u_sudo = Some False, u_status = None, u_enabled = None, u_password_last_set = None, u_password_max_age = None,
      u_created_on = None, u_updated_on = None, u_synced_on = None,
      u_role = Some ''admin'', u_is_active = Some True\<rparr>"

definition create_defaults :: "'db env \<Rightarrow> ('db st, unit) act" where
  "create_defaults E =
     catchA
       (bindA (user_dao_get_user E (cluster_administrator (cfg E))) (\<lambda>admin_user.
        whenA (admin_user = None)
          (seqA (create_user E (default_admin (cfg E)) False) (return ()))))
       (\<lambda>e. return ())"

section \<open>Facts\<close>

lemma flows_not_blank [simp]:
  "\<not> blank ''USER_PASSWORD_AUTH''" "\<not> blank ''REFRESH_TOKEN_AUTH''" "\<not> blank ''SSO_AUTH''"
  "\<not> blank ''SSO_REFRESH_TOKEN_AUTH''"
  by code_simp+

text \<open>A login of a user whose row says it is not enabled ends with an error.\<close>

lemma add_role_only_enabled:
  assumes "add_role_dbusername_to_auth_result E a b s = (Inr r, t)"
  shows "\<exists>tokens user. auth a = Some tokens \<and> u_enabled user = Some True \<and>
     get_user_from_access_token E (str_or_empty (access_token tokens)) s = (Inr user, t) \<and>
     r = a\<lparr>auth_role := u_role user, db_username := u_username user\<rparr>"
proof -
  obtain tokens where tok: "auth a = Some tokens"
    using assms by (cases "auth a") (simp_all add: add_role_dbusername_to_auth_result_def)
  then obtain user u where "get_user_from_access_token E (str_or_empty (access_token tokens)) s = (Inr user, u)"
      "(if u_enabled user = Some True
          then return (a\<lparr>auth_role := u_role user, db_username := u_username user\<rparr>)
          else seqA (sign_out E (str_or_empty (refresh_token tokens)) b) (raise unauthorized_access)) u = (Inr r, t)"
    using assms by (auto simp: add_role_dbusername_to_auth_result_def bindA_eq_Inr)
  then show ?thesis
    using tok by (cases "u_enabled user = Some True") (auto simp: seqA_eq_Inr)
qed

lemma keeps_get_user_from_token [keeps_rules]:
  "keeps (table_inv P) (get_user_from_access_token E tok)"
proof -
  have "keeps (table_inv P) (get_user_from_token_username E x)" for x
    unfolding get_user_from_token_username_def
    by (auto intro!: keeps_rules split: option.split val.split)
  then show ?thesis unfolding get_user_from_access_token_def by (intro keeps_rules)
qed

lemma keeps_add_role [keeps_rules]:
  "keeps (table_inv P) (add_role_dbusername_to_auth_result E a b)"
  unfolding add_role_dbusername_to_auth_result_def sign_out_def
  by (intro keeps_rules)

section \<open>Properties\<close>

text \<open>
  C37. A login that succeeds is one of an enabled user, in every flow, unless Cognito answered
  with a challenge: the role and the name in the answer are those of a user whose row in the
  table, found through the token, is enabled. The password flows answer the cluster
  administrator only, the single sign-on flows only when single sign-on is switched on.
\<close>

theorem logins_are_of_enabled_users:
  assumes "initiate_auth E req s = (Inr (Some r), t)"
  shows "(str_or_empty (challenge_name r) \<noteq> [] \<and> auth_flow req = ''USER_PASSWORD_AUTH'' \<or>
          (\<exists>tokens user u. auth r = Some tokens \<and> u_enabled user = Some True \<and>
             get_user_from_access_token E (str_or_empty (access_token tokens)) u = (Inr user, t) \<and>
             auth_role r = u_role user \<and> db_username r = u_username user)) \<and>
         (auth_flow req \<in> {''USER_PASSWORD_AUTH'', ''REFRESH_TOKEN_AUTH''} \<and>
            cognito_username req = cluster_administrator (cfg E) \<or>
          auth_flow req \<in> {''SSO_AUTH'', ''SSO_REFRESH_TOKEN_AUTH''} \<and> sso_enabled (cfg E))"
proof -
  have role: "\<exists>tokens user u. auth r = Some tokens \<and> u_enabled user = Some True \<and>
      get_user_from_access_token E (str_or_empty (access_token tokens)) u = (Inr user, t) \<and>
      auth_role r = u_role user \<and> db_username r = u_username user"
    if run: "add_role_dbusername_to_auth_result E a b u = (Inr r, t)" for a b u
  proof -
    obtain tokens user where "auth a = Some tokens" "u_enabled user = Some True"
        "get_user_from_access_token E (str_or_empty (access_token tokens)) u = (Inr user, t)"
        "r = a\<lparr>auth_role := u_role user, db_username := u_username user\<rparr>"
      using add_role_only_enabled [OF run] by blast
    then show ?thesis by (intro exI [of _ tokens] exI [of _ user] exI [of _ u]) simp
  qed
  consider "auth_flow req = ''USER_PASSWORD_AUTH''" | "auth_flow req = ''REFRESH_TOKEN_AUTH''"
    | "auth_flow req = ''SSO_AUTH''" | "auth_flow req = ''SSO_REFRESH_TOKEN_AUTH''"
    using assms by (auto simp: initiate_auth_def act_inversions split: if_splits)
  then show ?thesis
  proof cases
    case 1
    then show ?thesis
      using assms role
      by (auto simp: initiate_auth_def act_inversions is_cluster_administrator_def split: if_splits)
  next
    case 2
    then show ?thesis
      using assms role
      by (auto simp: initiate_auth_def act_inversions is_cluster_administrator_def)
  next
    case 3
    then show ?thesis
      using assms role
      by (auto simp: initiate_auth_def act_inversions is_sso_enabled_def split: option.splits)
  next
    case 4
    then show ?thesis
      using assms role
      by (auto simp: initiate_auth_def act_inversions is_sso_enabled_def)
  qed
qed

definition sso_request :: "string \<Rightarrow> auth_request" where
  "sso_request code = \<lparr>auth_flow = ''SSO_AUTH'', cognito_username = [], req_password = [],
                       req_refresh_token = [], authorization_code = code\<rparr>"

definition sso_db :: mem_db where
  "sso_db =
     [((SsoState, (''code'', [])), [''access_token'' \<mapsto> VStr ''token'']),
      ((Users, (''u1'', [])), [''email'' \<mapsto> VStr ''u1@example.org'', ''enabled'' \<mapsto> VBool True,
                              ''role'' \<mapsto> VStr ''user''])]"

definition logged_in :: "(exn + auth_result option) \<Rightarrow> string option" where
  "logged_in res = (case res of Inr (Some r) \<Rightarrow> db_username r | _ \<Rightarrow> None)"

lemma sso_login_runs:
  "logged_in (fst (initiate_auth local_env (sso_request ''code'') (local_state sso_db))) = Some ''u1''"
  by code_simp

theorem logins_are_of_enabled_users_witness:
  "\<exists>r t. initiate_auth local_env (sso_request ''code'') (local_state sso_db) = (Inr (Some r), t) \<and>
     (\<exists>user :: user. u_enabled user = Some True \<and> db_username r = u_username user)"
proof -
  obtain r t where run: "initiate_auth local_env (sso_request ''code'') (local_state sso_db) = (Inr (Some r), t)"
    using sso_login_runs
    by (cases "initiate_auth local_env (sso_request ''code'') (local_state sso_db)")
       (auto simp: logged_in_def split: sum.splits option.splits)
  have "auth_flow (sso_request ''code'') \<noteq> ''USER_PASSWORD_AUTH''" by (simp add: sso_request_def)
  then obtain user :: user where "u_enabled user = Some True" "db_username r = u_username user"
    using logins_are_of_enabled_users [OF run] by blast
  then show ?thesis using run by blast
qed

text \<open>
  C38. The code of single sign-on is good for one login: whatever comes out of a login with it,
  a second attempt with the same code is refused.
\<close>

theorem sso_code_is_single_use:
  assumes "dynamodb E" and "auth_flow req = ''SSO_AUTH''" and "initiate_auth E req s = (res, t)"
    and "sso_enabled (cfg E)" and "\<not> blank (authorization_code req)"
  shows "initiate_auth E req t = (Inl unauthorized_access, t)"
proof -
  let ?code = "authorization_code req"
  let ?gone = "table_inv (\<lambda>d. ddb_get E d SsoState (?code, []) = None)"
  have again: "initiate_auth E req u = (Inl unauthorized_access, u)" if "row E u SsoState (?code, []) = None" for u
    using assms(2,4,5) that by (simp add: initiate_auth_def is_sso_enabled_def get_sso_state_def)
  show ?thesis
  proof (cases "row E s SsoState (?code, [])")
    case None
    then show ?thesis using again [OF None] assms(3) by simp
  next
    case (Some d)
    let ?s = "s\<lparr>st_db := ddb_delete E (st_db s) SsoState (?code, [])\<rparr>"
    let ?rest = "bindA (liftA (tokens_of_state d)) (\<lambda>tokens.
        bindA (add_role_dbusername_to_auth_result E (tokens_only tokens) True) (\<lambda>r. return (Some r)))"
    have run: "initiate_auth E req s = ?rest ?s"
      using assms(2,4,5) Some
      by (simp add: initiate_auth_def is_sso_enabled_def get_sso_state_def delete_sso_state_def)
    have kept: "keeps ?gone ?rest" by (intro keeps_rules)
    have start: "?gone ?s" using dynamodb.row_delete [OF assms(1)] by (simp add: table_inv_def)
    have "?rest ?s = (res, t)" using run assms(3) by simp
    then have "?gone t" by (rule keepsD [OF kept start])
    then show ?thesis using again by (simp add: table_inv_def)
  qed
qed

theorem sso_code_is_single_use_witness:
  "\<exists>t. initiate_auth local_env (sso_request ''code'') t = (Inl unauthorized_access, t)"
proof -
  obtain res t where run: "initiate_auth local_env (sso_request ''code'') (local_state sso_db) = (res, t)"
    by force
  have "\<not> blank ''code''" by code_simp
  then have "initiate_auth local_env (sso_request ''code'') t = (Inl unauthorized_access, t)"
    by (intro sso_code_is_single_use [OF mem_dynamodb _ run]) (simp_all add: sso_request_def local_world_def)
  then show ?thesis by (rule exI)
qed

text \<open>
  Asking for a new password takes at least five seconds, for known and unknown users
  alike: when the call returns, the time it took and the pause it made add up to that.
\<close>

theorem forgot_password_takes_five_seconds:
  assumes "forgot_password E username s = (Inr (), t)"
    and "elapsed = time_at (cfg E) (Suc (st_ticks s)) - time_at (cfg E) (st_ticks s)"
  shows "elapsed > 5000 \<or> last (st_trace t) = Sleep (5000 - elapsed)"
proof -
  have ticks: "keeps (\<lambda>u. st_ticks u = Suc (st_ticks s)) (pool_forgot_password E username)"
    unfolding pool_forgot_password_def cognito_def
    by (intro keeps_rules) (auto simp: keeps_def)
  obtain u where u: "pool_forgot_password E username (s\<lparr>st_ticks := Suc (st_ticks s)\<rparr>) = (Inr (), u)"
      and rest: "(let total = time_at (cfg E) (st_ticks u) - time_at (cfg E) (st_ticks s) in
         whenA (total \<le> 5000) (do_call E (Sleep (5000 - total)))) (u\<lparr>st_ticks := Suc (st_ticks u)\<rparr>) = (Inr (), t)"
    using assms(1) by (auto simp: forgot_password_def act_inversions Let_def)
  have n: "st_ticks u = Suc (st_ticks s)" using keepsD [OF ticks _ u] by simp
  show ?thesis
  proof (cases "elapsed \<le> 5000")
    case True
    then have "last (st_trace t) = Sleep (5000 - elapsed)"
      using rest n assms(2) by (auto simp: Let_def split: sum.splits)
    then show ?thesis ..
  qed simp
qed

theorem forgot_password_takes_five_seconds_witness:
  "\<exists>t. forgot_password local_env ''u1'' (local_state []) = (Inr (), t) \<and> last (st_trace t) = Sleep 4999"
proof -
  obtain t where t: "forgot_password local_env ''u1'' (local_state []) = (Inr (), t)"
    by (simp add: forgot_password_def pool_forgot_password_def cognito_def local_world_def on_client_error_def
        blank_def py_strip_def py_space_def act_simps)
  then show ?thesis
    using forgot_password_takes_five_seconds [OF t refl] by (auto simp: local_world_def)
qed

end
