(* ===== verification/Vdi_Role.thy ===== *)
theory Vdi_Role
  imports Cognito_User_Pool
begin

text \<open>
  The IAM role of the virtual desktops of a project: the calls of
  \<^verbatim>\<open>ideasdk/aws/aws_util.py\<close>, the names of \<^verbatim>\<open>launch_role_helper.py\<close> and the two methods of
  \<^verbatim>\<open>projects/projects_service.py\<close> that create and change the role, with their roll-back. The
  state of the role is read off the calls made so far and their answers.
\<close>

section \<open>LaunchRoleHelper\<close>

definition get_vdi_role_path :: "string \<Rightarrow> string \<Rightarrow> string" where
  "get_vdi_role_path cluster region = cluster @ ''-'' @ region @ ''/vdi''"

definition get_vdi_instance_profile_path :: "string \<Rightarrow> string \<Rightarrow> string" where
  "get_vdi_instance_profile_path cluster region = get_vdi_role_path cluster region"

definition get_vdi_role_name :: "string \<Rightarrow> string \<Rightarrow> string" where
  "get_vdi_role_name cluster project_name = cluster @ ''-vdi-'' @ project_name"

definition get_vdi_instance_profile_name :: "string \<Rightarrow> string \<Rightarrow> string" where
  "get_vdi_instance_profile_name cluster project_name = get_vdi_role_name cluster project_name"

section \<open>IAM calls\<close>

definition iam :: "'db env \<Rightarrow> string \<Rightarrow> (string \<times> val) list \<Rightarrow> ('db st, val) act" where
  "iam E operation params = call E (Iam operation params)"

definition role_path :: "world \<Rightarrow> string" where
  "role_path w = ''/'' @ get_vdi_role_path (cluster_name w) (aws_region w) @ ''/''"

definition trust :: "string \<Rightarrow> val" where
  "trust service = VDict [(''Effect'', VStr ''Allow''), (''Principal'', VDict [(''Service'', VStr service)]),
                          (''Action'', VStr ''sts:AssumeRole'')]"

definition create_vdi_host_role :: "'db env \<Rightarrow> string \<Rightarrow> ('db st, bool) act" where
  "create_vdi_host_role E role_name =
     seqA (iam E ''create_role''
       [(''RoleName'', VStr role_name), (''Path'', VStr (role_path (cfg E))),
        (''Description'', VStr (role_name @ '' used for VDI instance'')),
        (''AssumeRolePolicyDocument'', VDict [(''Version'', VStr ''2012-10-17''),
           (''Statement'', VList [trust ''ssm.amazonaws.com'', trust ''ec2.amazonaws.com''])])])
     (return True)"

text \<open>Deleting and detaching what is not there counts as done.\<close>

definition unless_missing :: "('s, val) act \<Rightarrow> ('s, bool) act" where
  "unless_missing m = on_client_error (seqA m (return True))
     (\<lambda>c. if c = ''NoSuchEntityException'' then return True else raise (ServiceError c))"

definition delete_vdi_host_role :: "'db env \<Rightarrow> string \<Rightarrow> ('db st, bool) act" where
  "delete_vdi_host_role E role_name = unless_missing (iam E ''delete_role'' [(''RoleName'', VStr role_name)])"

definition attach_role_policy :: "'db env \<Rightarrow> string \<Rightarrow> string \<Rightarrow> ('db st, bool) act" where
  "attach_role_policy E role_name policy_arn =
     on_client_error
       (seqA (iam E ''attach_role_policy'' [(''RoleName'', VStr role_name), (''PolicyArn'', VStr policy_arn)])
         (return True))
       (\<lambda>c. if c = ''NoSuchEntityException'' then raise invalid_params else raise (ServiceError c))"

definition detach_role_policy :: "'db env \<Rightarrow> string \<Rightarrow> string \<Rightarrow> ('db st, bool) act" where
  "detach_role_policy E role_name policy_arn =
     unless_missing
       (iam E ''detach_role_policy'' [(''RoleName'', VStr role_name), (''PolicyArn'', VStr policy_arn)])"

definition create_vdi_instance_profile :: "'db env \<Rightarrow> string \<Rightarrow> ('db st, bool) act" where
  "create_vdi_instance_profile E instance_profile_name =
     seqA (iam E ''create_instance_profile''
       [(''InstanceProfileName'', VStr instance_profile_name), (''Path'', VStr (role_path (cfg E)))])
     (return True)"

definition delete_vdi_instance_profile :: "'db env \<Rightarrow> string \<Rightarrow> ('db st, bool) act" where
  "delete_vdi_instance_profile E instance_profile_name =
     unless_missing
       (iam E ''delete_instance_profile'' [(''InstanceProfileName'', VStr instance_profile_name)])"

definition add_role_to_instance_profile :: "'db env \<Rightarrow> string \<Rightarrow> string \<Rightarrow> ('db st, bool) act" where
  "add_role_to_instance_profile E role_name instance_profile_name =
     on_client_error
       (seqA (iam E ''add_role_to_instance_profile''
                [(''InstanceProfileName'', VStr instance_profile_name), (''RoleName'', VStr role_name)])
         (return True))
       (\<lambda>c. return False)"

definition is_policy_valid :: "'db env \<Rightarrow> string \<Rightarrow> ('db st, bool) act" where
  "is_policy_valid E policy_arn =
     on_client_error
       (seqA (iam E ''get_policy'' [(''PolicyArn'', VStr policy_arn)]) (return True))
       (\<lambda>c. return False)"

definition dict_item :: "val \<Rightarrow> string \<Rightarrow> exn + val" where
  "dict_item v k = (case v of
      VDict d \<Rightarrow> (case map_of d k of None \<Rightarrow> Inl (KeyError k) | Some x \<Rightarrow> Inr x)
    | _ \<Rightarrow> Inl TypeError)"

definition does_vdi_role_exist :: "'db env \<Rightarrow> string \<Rightarrow> ('db st, bool) act" where
  "does_vdi_role_exist E role_name =
     on_client_error
       (bindA (iam E ''get_role'' [(''RoleName'', VStr role_name)]) (\<lambda>response.
        bindA (liftA (dict_item response ''Role'')) (\<lambda>role.
        bindA (liftA (dict_item role ''Path'')) (\<lambda>path.
        return (path = VStr (role_path (cfg E)))))))
       (\<lambda>c. if c \<in> {''NoSuchEntityException'', ''AccessDenied''} then return False else raise (ServiceError c))"

section \<open>Creating and changing the role\<close>

text \<open>
  \<open>try_step m h k\<close>: a statement of a \<open>try\<close> block, the handler with the local variables it
  sees at that point, and the rest of the block.
\<close>

definition try_step :: "('s, 'a) act \<Rightarrow> ('s, 'b) act \<Rightarrow> ('a \<Rightarrow> ('s, 'b) act) \<Rightarrow> ('s, 'b) act" where
  "try_step m h k = (\<lambda>s. case m s of (Inl e, t) \<Rightarrow> h t | (Inr x, t) \<Rightarrow> k x t)"

text \<open>A loop that collects what it has done, for the handler.\<close>

fun try_each ::
  "(string \<Rightarrow> ('s, bool) act) \<Rightarrow> string list \<Rightarrow> string list \<Rightarrow>
   (string list \<Rightarrow> ('s, 'b) act) \<Rightarrow> (string list \<Rightarrow> ('s, 'b) act) \<Rightarrow> ('s, 'b) act" where
  "try_each f [] past h k = k past"
| "try_each f (p # ps) past h k = try_step (f p) (h past) (\<lambda>_. try_each f ps (past @ [p]) h k)"

definition ignore :: "('s, bool) act \<Rightarrow> ('s, unit) act" where
  "ignore m = seqA m (return ())"

definition undo_create :: "'db env \<Rightarrow> string \<Rightarrow> bool \<Rightarrow> bool \<Rightarrow> string list \<Rightarrow> ('db st, bool) act" where
  "undo_create E vdi_role_name is_vdi_role_created is_vdi_instance_profile_created policies_added =
     seqA (for_each policies_added (\<lambda>p. ignore (detach_role_policy E vdi_role_name p)))
    (seqA (whenA is_vdi_role_created (ignore (delete_vdi_host_role E vdi_role_name)))
    (seqA (whenA is_vdi_instance_profile_created (ignore (delete_vdi_instance_profile E vdi_role_name)))
     (raise general_exception)))"

definition create_vdi_role_and_instance_profile ::
  "'db env \<Rightarrow> string \<Rightarrow> string list \<Rightarrow> ('db st, bool) act" where
  "create_vdi_role_and_instance_profile E project_name policy_arns =
     (let vdi_role_name = get_vdi_role_name (cluster_name (cfg E)) project_name;
          instance_profile_name = vdi_role_name;
          undo = undo_create E vdi_role_name in
      try_step (create_vdi_host_role E vdi_role_name) (undo False False []) (\<lambda>role_created.
      try_step (create_vdi_instance_profile E instance_profile_name) (undo role_created False []) (\<lambda>profile_created.
      try_each (attach_role_policy E vdi_role_name) policy_arns [] (undo role_created profile_created) (\<lambda>added.
      try_each (attach_role_policy E vdi_role_name) (dcv_host_required_policy_arns (cfg E)) added
        (undo role_created profile_created) (\<lambda>added.
      try_step (add_role_to_instance_profile E vdi_role_name instance_profile_name)
        (undo role_created profile_created added) (\<lambda>_. return True))))))"

definition undo_update :: "'db env \<Rightarrow> string \<Rightarrow> string list \<Rightarrow> string list \<Rightarrow> ('db st, bool) act" where
  "undo_update E vdi_role_name policies_removed policies_added =
     seqA (for_each policies_added (\<lambda>p. ignore (detach_role_policy E vdi_role_name p)))
    (seqA (for_each policies_removed (\<lambda>p. ignore (attach_role_policy E vdi_role_name p)))
     (raise general_exception))"

definition update_vdi_role ::
  "'db env \<Rightarrow> string \<Rightarrow> string list \<Rightarrow> string list \<Rightarrow> ('db st, bool) act" where
  "update_vdi_role E project_name policies_to_detach policies_to_attach =
     (let vdi_role_name = get_vdi_role_name (cluster_name (cfg E)) project_name in
      bindA (does_vdi_role_exist E vdi_role_name) (\<lambda>exists.
      if \<not> exists then create_vdi_role_and_instance_profile E project_name policies_to_attach
      else
        try_each (detach_role_policy E vdi_role_name) policies_to_detach []
          (\<lambda>removed. undo_update E vdi_role_name removed []) (\<lambda>removed.
        try_each (attach_role_policy E vdi_role_name) policies_to_attach []
          (undo_update E vdi_role_name removed) (\<lambda>added. return True))))"

section \<open>What IAM holds\<close>

text \<open>
  The state the calls leave: a call that was answered has its documented effect, one that
  failed has none, and the answer that something does not exist says so.
\<close>

definition answered :: "exn + val \<Rightarrow> bool" where
  "answered r = (case r of Inr v \<Rightarrow> True | Inl e \<Rightarrow> False)"

definition gone :: "exn + val \<Rightarrow> bool" where
  "gone r = (answered r \<or> r = Inl (ServiceError ''NoSuchEntityException''))"

definition role_attach :: "string \<Rightarrow> string \<Rightarrow> ext_call" where
  "role_attach r p = Iam ''attach_role_policy'' [(''RoleName'', VStr r), (''PolicyArn'', VStr p)]"

definition role_detach :: "string \<Rightarrow> string \<Rightarrow> ext_call" where
  "role_detach r p = Iam ''detach_role_policy'' [(''RoleName'', VStr r), (''PolicyArn'', VStr p)]"

text \<open>The policies attached to role \<open>r\<close> after the calls of a trace (latest call first).\<close>

fun attached_rev :: "world \<Rightarrow> string \<Rightarrow> ext_call list \<Rightarrow> string set" where
  "attached_rev w r [] = {}"
| "attached_rev w r (c # cs) =
     (let before = attached_rev w r cs; res = ext_result w (rev cs) c in
      if answered res then before \<union> {p. c = role_attach r p} - {p. c = role_detach r p}
      else if gone res then before - {p. c = role_detach r p}
      else before)"

definition attached :: "world \<Rightarrow> string \<Rightarrow> ext_call list \<Rightarrow> string set" where
  "attached w r tr = attached_rev w r (rev tr)"

lemma attached_snoc:
  "attached w r (tr @ [c]) =
     (let res = ext_result w tr c in
      if answered res then attached w r tr \<union> {p. c = role_attach r p} - {p. c = role_detach r p}
      else if gone res then attached w r tr - {p. c = role_detach r p}
      else attached w r tr)"
  by (simp add: attached_def Let_def)

lemma role_calls [simp]:
  "role_attach r p = role_attach r q \<longleftrightarrow> p = q" "role_detach r p = role_detach r q \<longleftrightarrow> p = q"
  "role_attach r p \<noteq> role_detach r q" "role_detach r p \<noteq> role_attach r q"
  by (auto simp: role_attach_def role_detach_def)

text \<open>The attached policies of a state, and what the two operations do to them.\<close>

abbreviation policies :: "'db env \<Rightarrow> string \<Rightarrow> 'db st \<Rightarrow> string set" where
  "policies E r s \<equiv> attached (cfg E) r (st_trace s)"

lemma attach_role_policy_effect:
  assumes "attach_role_policy E r p s = (res, t)"
  shows "policies E r t = (if res = Inr True then insert p (policies E r s) else policies E r s)"
    and "res = Inr True \<or> (\<exists>e. res = Inl e)"
proof -
  have c: "Iam ''attach_role_policy'' [(''RoleName'', VStr r), (''PolicyArn'', VStr p)] = role_attach r p"
    by (simp add: role_attach_def)
  consider (ok) v where "ext_result (cfg E) (st_trace s) (role_attach r p) = Inr v"
    | (bad) e where "ext_result (cfg E) (st_trace s) (role_attach r p) = Inl e"
    by (cases "ext_result (cfg E) (st_trace s) (role_attach r p)") auto
  then have "policies E r t = (if res = Inr True then insert p (policies E r s) else policies E r s) \<and>
      (res = Inr True \<or> (\<exists>e. res = Inl e))"
  proof cases
    case ok
    then show ?thesis
      using assms
      by (auto simp: attach_role_policy_def on_client_error_def iam_def c attached_snoc answered_def)
  next
    case bad
    then show ?thesis
      using assms
      by (cases e)
         (auto simp: attach_role_policy_def on_client_error_def iam_def c attached_snoc answered_def
            split: if_splits)
  qed
  then show "policies E r t = (if res = Inr True then insert p (policies E r s) else policies E r s)"
    and "res = Inr True \<or> (\<exists>e. res = Inl e)" by blast+
qed

lemma detach_role_policy_effect:
  assumes "detach_role_policy E r p s = (res, t)"
  shows "policies E r t = (if res = Inr True then policies E r s - {p} else policies E r s)"
    and "res = Inr True \<or> (\<exists>e. res = Inl e)"
proof -
  have c: "Iam ''detach_role_policy'' [(''RoleName'', VStr r), (''PolicyArn'', VStr p)] = role_detach r p"
    by (simp add: role_detach_def)
  consider (ok) v where "ext_result (cfg E) (st_trace s) (role_detach r p) = Inr v"
    | (bad) e where "ext_result (cfg E) (st_trace s) (role_detach r p) = Inl e"
    by (cases "ext_result (cfg E) (st_trace s) (role_detach r p)") auto
  then have "policies E r t = (if res = Inr True then policies E r s - {p} else policies E r s) \<and>
      (res = Inr True \<or> (\<exists>e. res = Inl e))"
  proof cases
    case ok
    then show ?thesis
      using assms
      by (auto simp: detach_role_policy_def unless_missing_def on_client_error_def iam_def c attached_snoc
          answered_def)
  next
    case bad
    then show ?thesis
      using assms
      by (cases e)
         (auto simp: detach_role_policy_def unless_missing_def on_client_error_def iam_def c attached_snoc
            answered_def gone_def split: if_splits)
  qed
  then show "policies E r t = (if res = Inr True then policies E r s - {p} else policies E r s)"
    and "res = Inr True \<or> (\<exists>e. res = Inl e)" by blast+
qed

text \<open>A loop does all its steps, or stops at one that failed with those before it done.\<close>

lemma try_each_attach:
  "(\<exists>t. try_each (attach_role_policy E r) ps past h k s = k (past @ ps) t \<and>
        policies E r t = policies E r s \<union> set ps) \<or>
   (\<exists>t qs. set qs \<subseteq> set ps \<and> try_each (attach_role_policy E r) ps past h k s = h (past @ qs) t \<and>
        policies E r t = policies E r s \<union> set qs)"
proof (induction ps arbitrary: past s)
  case (Cons p ps)
  obtain res t where run: "attach_role_policy E r p s = (res, t)" by force
  note eff = attach_role_policy_effect [OF run]
  show ?case
  proof (cases "res = Inr True")
    case True
    have step: "try_each (attach_role_policy E r) (p # ps) past h k s =
        try_each (attach_role_policy E r) ps (past @ [p]) h k t"
      using run True by (simp add: try_step_def)
    from Cons.IH [of "past @ [p]" t] show ?thesis
    proof (elim disjE exE conjE)
      fix u
      assume "try_each (attach_role_policy E r) ps (past @ [p]) h k t = k ((past @ [p]) @ ps) u"
        and "policies E r u = policies E r t \<union> set ps"
      then show ?thesis using step eff(1) True by (intro disjI1 exI [of _ u]) auto
    next
      fix u qs
      assume "set qs \<subseteq> set ps"
        and "try_each (attach_role_policy E r) ps (past @ [p]) h k t = h ((past @ [p]) @ qs) u"
        and "policies E r u = policies E r t \<union> set qs"
      then show ?thesis using step eff(1) True by (intro disjI2 exI [of _ u] exI [of _ "p # qs"]) auto
    qed
  next
    case False
    then obtain e where "res = Inl e" using eff(2) by blast
    then show ?thesis
      using run eff(1) by (intro disjI2 exI [of _ t] exI [of _ "[]"]) (simp add: try_step_def)
  qed
qed auto

lemma try_each_detach:
  "(\<exists>t. try_each (detach_role_policy E r) ps past h k s = k (past @ ps) t \<and>
        policies E r t = policies E r s - set ps) \<or>
   (\<exists>t qs. set qs \<subseteq> set ps \<and> try_each (detach_role_policy E r) ps past h k s = h (past @ qs) t \<and>
        policies E r t = policies E r s - set qs)"
proof (induction ps arbitrary: past s)
  case (Cons p ps)
  obtain res t where run: "detach_role_policy E r p s = (res, t)" by force
  note eff = detach_role_policy_effect [OF run]
  show ?case
  proof (cases "res = Inr True")
    case True
    have step: "try_each (detach_role_policy E r) (p # ps) past h k s =
        try_each (detach_role_policy E r) ps (past @ [p]) h k t"
      using run True by (simp add: try_step_def)
    from Cons.IH [of "past @ [p]" t] show ?thesis
    proof (elim disjE exE conjE)
      fix u
      assume "try_each (detach_role_policy E r) ps (past @ [p]) h k t = k ((past @ [p]) @ ps) u"
        and "policies E r u = policies E r t - set ps"
      then show ?thesis using step eff(1) True by (intro disjI1 exI [of _ u]) auto
    next
      fix u qs
      assume "set qs \<subseteq> set ps"
        and "try_each (detach_role_policy E r) ps (past @ [p]) h k t = h ((past @ [p]) @ qs) u"
        and "policies E r u = policies E r t - set qs"
      then show ?thesis using step eff(1) True by (intro disjI2 exI [of _ u] exI [of _ "p # qs"]) auto
    qed
  next
    case False
    then obtain e where "res = Inl e" using eff(2) by blast
    then show ?thesis
      using run eff(1) by (intro disjI2 exI [of _ t] exI [of _ "[]"]) (simp add: try_step_def)
  qed
qed auto

lemma detach_all_effect:
  "for_each ps (\<lambda>p. ignore (detach_role_policy E r p)) s = (Inr (), t) \<Longrightarrow>
     policies E r t = policies E r s - set ps"
proof (induction ps arbitrary: s)
  case (Cons p ps)
  obtain u b where u: "detach_role_policy E r p s = (Inr b, u)"
      "for_each ps (\<lambda>p. ignore (detach_role_policy E r p)) u = (Inr (), t)"
    using Cons.prems by (auto simp: ignore_def seqA_eq_Inr)
  have "b = True" using detach_role_policy_effect(2) [OF u(1)] by simp
  then show ?case using Cons.IH [OF u(2)] detach_role_policy_effect(1) [OF u(1)] by auto
qed simp

lemma attach_all_effect:
  "for_each ps (\<lambda>p. ignore (attach_role_policy E r p)) s = (Inr (), t) \<Longrightarrow>
     policies E r t = policies E r s \<union> set ps"
proof (induction ps arbitrary: s)
  case (Cons p ps)
  obtain u b where u: "attach_role_policy E r p s = (Inr b, u)"
      "for_each ps (\<lambda>p. ignore (attach_role_policy E r p)) u = (Inr (), t)"
    using Cons.prems by (auto simp: ignore_def seqA_eq_Inr)
  have "b = True" using attach_role_policy_effect(2) [OF u(1)] by simp
  then show ?case using Cons.IH [OF u(2)] attach_role_policy_effect(1) [OF u(1)] by auto
qed simp

text \<open>The errors of the service are client errors, so the error of the roll-back is its own.\<close>

definition client_errors :: "world \<Rightarrow> bool" where
  "client_errors w \<longleftrightarrow> (\<forall>tr c e. ext_result w tr c = Inl e \<longrightarrow> (\<exists>code. e = ServiceError code))"

lemma policy_call_errors:
  assumes "client_errors (cfg E)"
  shows "fst (attach_role_policy E r p s) \<noteq> Inl general_exception"
    and "fst (detach_role_policy E r p s) \<noteq> Inl general_exception"
proof -
  have "ext_result (cfg E) tr c = Inl e \<Longrightarrow> \<exists>code. e = ServiceError code" for tr c e
    using assms by (simp add: client_errors_def)
  note err = this
  show "fst (attach_role_policy E r p s) \<noteq> Inl general_exception"
    by (auto simp: attach_role_policy_def on_client_error_def iam_def act_simps general_exception_def
        invalid_params_def split: sum.splits exn.splits dest!: err)
  show "fst (detach_role_policy E r p s) \<noteq> Inl general_exception"
    by (auto simp: detach_role_policy_def unless_missing_def on_client_error_def iam_def act_simps
        general_exception_def split: sum.splits exn.splits dest!: err)
qed

lemma for_each_ignore_error:
  assumes "\<And>p s. fst (f p s) \<noteq> Inl e"
  shows "fst (for_each ps (\<lambda>p. ignore (f p)) s) \<noteq> Inl e"
proof (induction ps arbitrary: s)
  case (Cons p ps)
  obtain r t where "f p s = (r, t)" by force
  then show ?case using assms [of p s] Cons by (cases r) (simp_all add: ignore_def)
qed simp

lemma undo_update_effect:
  assumes "client_errors (cfg E)" and "undo_update E r removed added s = (res, t)"
  shows "res \<noteq> Inr b"
    and "res = Inl general_exception \<Longrightarrow> policies E r t = policies E r s - set added \<union> set removed"
proof -
  let ?detach = "for_each added (\<lambda>p. ignore (detach_role_policy E r p))"
  let ?attach = "for_each removed (\<lambda>p. ignore (attach_role_policy E r p))"
  obtain r1 s1 where 1: "?detach s = (r1, s1)" by force
  obtain r2 s2 where 2: "?attach s1 = (r2, s2)" by force
  show "res \<noteq> Inr b" using assms(2) by (auto simp: undo_update_def seqA_eq_Inr)
  have e1: "r1 \<noteq> Inl general_exception"
    using for_each_ignore_error [of "detach_role_policy E r" general_exception added s]
      policy_call_errors(2) [OF assms(1)] 1 by simp
  have e2: "r2 \<noteq> Inl general_exception"
    using for_each_ignore_error [of "attach_role_policy E r" general_exception removed s1]
      policy_call_errors(1) [OF assms(1)] 2 by simp
  assume gen: "res = Inl general_exception"
  then have "r1 = Inr ()" using assms(2) 1 e1 by (cases r1) (auto simp: undo_update_def)
  moreover from this have "r2 = Inr ()" using assms(2) gen 1 2 e2 by (cases r2) (auto simp: undo_update_def)
  ultimately show "policies E r t = policies E r s - set added \<union> set removed"
    using assms(2) 1 2 detach_all_effect [of added E r s s1] attach_all_effect [of removed E r s1 s2]
    by (simp add: undo_update_def)
qed

lemma does_vdi_role_exist_policies:
  assumes "does_vdi_role_exist E r s = (res, t)"
  shows "policies E r t = policies E r s"
proof -
  have "st_trace t = st_trace s @ [Iam ''get_role'' [(''RoleName'', VStr r)]]"
    using assms
    by (auto simp: does_vdi_role_exist_def on_client_error_def iam_def act_simps
        split: sum.splits exn.splits if_splits)
  then show ?thesis by (auto simp: attached_snoc role_attach_def role_detach_def Let_def)
qed

subsection \<open>Existence\<close>

definition iam_call :: "string \<Rightarrow> string \<Rightarrow> string \<Rightarrow> ext_call \<Rightarrow> bool" where
  "iam_call operation key name c = (case c of
      Iam o' ps \<Rightarrow> o' = operation \<and> map_of ps key = Some (VStr name) | _ \<Rightarrow> False)"

fun present_rev :: "world \<Rightarrow> (ext_call \<Rightarrow> bool) \<Rightarrow> (ext_call \<Rightarrow> bool) \<Rightarrow> ext_call list \<Rightarrow> bool" where
  "present_rev w made deleted [] = False"
| "present_rev w made deleted (c # cs) =
     (let res = ext_result w (rev cs) c in
      if answered res \<and> made c then True
      else if gone res \<and> deleted c then False
      else present_rev w made deleted cs)"

definition present :: "world \<Rightarrow> (ext_call \<Rightarrow> bool) \<Rightarrow> (ext_call \<Rightarrow> bool) \<Rightarrow> ext_call list \<Rightarrow> bool" where
  "present w made deleted tr = present_rev w made deleted (rev tr)"

lemma present_snoc:
  "present w made deleted (tr @ [c]) =
     (if answered (ext_result w tr c) \<and> made c then True
      else if gone (ext_result w tr c) \<and> deleted c then False else present w made deleted tr)"
  by (simp add: present_def Let_def)

definition role_exists :: "'db env \<Rightarrow> string \<Rightarrow> 'db st \<Rightarrow> bool" where
  "role_exists E r s = present (cfg E) (iam_call ''create_role'' ''RoleName'' r)
     (iam_call ''delete_role'' ''RoleName'' r) (st_trace s)"

definition profile_exists :: "'db env \<Rightarrow> string \<Rightarrow> 'db st \<Rightarrow> bool" where
  "profile_exists E r s = present (cfg E) (iam_call ''create_instance_profile'' ''InstanceProfileName'' r)
     (iam_call ''delete_instance_profile'' ''InstanceProfileName'' r) (st_trace s)"

text \<open>What both depend on, for the calls that do not touch them.\<close>

definition both_exist :: "'db env \<Rightarrow> string \<Rightarrow> 'db st \<Rightarrow> bool \<times> bool" where
  "both_exist E r s = (role_exists E r s, profile_exists E r s)"

lemmas existence_defs = both_exist_def role_exists_def profile_exists_def present_snoc iam_call_def
  answered_def gone_def

lemma other_call_keeps_existence:
  "\<forall>k x. \<not> iam_call ''create_role'' k x c \<and> \<not> iam_call ''delete_role'' k x c \<and>
     \<not> iam_call ''create_instance_profile'' k x c \<and> \<not> iam_call ''delete_instance_profile'' k x c \<Longrightarrow>
   both_exist E r (s\<lparr>st_trace := st_trace s @ [c]\<rparr>) = both_exist E r s"
  by (simp add: both_exist_def role_exists_def profile_exists_def present_snoc)

lemma policy_calls_keep_existence:
  "attach_role_policy E r p s = (res, t) \<Longrightarrow> both_exist E r t = both_exist E r s"
  "detach_role_policy E r p s = (res, t) \<Longrightarrow> both_exist E r t = both_exist E r s"
  "add_role_to_instance_profile E r n s = (res, t) \<Longrightarrow> both_exist E r t = both_exist E r s"
  by (auto simp: attach_role_policy_def detach_role_policy_def add_role_to_instance_profile_def
      unless_missing_def on_client_error_def iam_def act_simps other_call_keeps_existence iam_call_def
      split: sum.splits exn.splits if_splits)

lemma creation_effect:
  "create_vdi_host_role E r s = (Inr b, t) \<Longrightarrow> b \<and> both_exist E r t = (True, profile_exists E r s)"
  "create_vdi_host_role E r s = (Inl e, t) \<Longrightarrow> both_exist E r t = both_exist E r s"
  "create_vdi_instance_profile E r s = (Inr b, t) \<Longrightarrow> b \<and> both_exist E r t = (role_exists E r s, True)"
  "create_vdi_instance_profile E r s = (Inl e, t) \<Longrightarrow> both_exist E r t = both_exist E r s"
  by (auto simp: create_vdi_host_role_def create_vdi_instance_profile_def iam_def act_simps existence_defs
      split: sum.splits)

lemma deletion_effect:
  "delete_vdi_host_role E r s = (Inr b, t) \<Longrightarrow> both_exist E r t = (False, profile_exists E r s)"
  "delete_vdi_instance_profile E r s = (Inr b, t) \<Longrightarrow> both_exist E r t = (role_exists E r s, False)"
  by (auto simp: delete_vdi_host_role_def delete_vdi_instance_profile_def unless_missing_def
      on_client_error_def iam_def act_simps existence_defs split: sum.splits exn.splits if_splits)

lemma try_each_attach_existence:
  "\<exists>t past'. try_each (attach_role_policy E r) ps past h k s \<in> {h past' t, k past' t} \<and>
     both_exist E r t = both_exist E r s"
proof (induction ps arbitrary: past s)
  case Nil
  show ?case by (intro exI [of _ s] exI [of _ past]) simp
next
  case (Cons p ps)
  obtain res t where run: "attach_role_policy E r p s = (res, t)" by force
  note same = policy_calls_keep_existence(1) [OF run]
  show ?case
  proof (cases res)
    case (Inl e)
    then show ?thesis using run same by (intro exI [of _ t] exI [of _ past]) (simp add: try_step_def)
  next
    case (Inr b)
    then show ?thesis
      using run same Cons.IH [of "past @ [p]" t] by (simp add: try_step_def)
  qed
qed

lemma detach_all_existence:
  "for_each ps (\<lambda>p. ignore (detach_role_policy E r p)) s = (Inr (), t) \<Longrightarrow> both_exist E r t = both_exist E r s"
proof (induction ps arbitrary: s)
  case (Cons p ps)
  obtain u b where u: "detach_role_policy E r p s = (Inr b, u)"
      "for_each ps (\<lambda>p. ignore (detach_role_policy E r p)) u = (Inr (), t)"
    using Cons.prems by (auto simp: ignore_def seqA_eq_Inr)
  show ?case using Cons.IH [OF u(2)] policy_calls_keep_existence(2) [OF u(1)] by simp
qed simp

lemma deletion_error:
  assumes "client_errors (cfg E)"
  shows "fst (delete_vdi_host_role E r s) \<noteq> Inl general_exception"
    and "fst (delete_vdi_instance_profile E r s) \<noteq> Inl general_exception"
proof -
  have err: "ext_result (cfg E) tr c = Inl e \<Longrightarrow> \<exists>code. e = ServiceError code" for tr c e
    using assms by (simp add: client_errors_def)
  show "fst (delete_vdi_host_role E r s) \<noteq> Inl general_exception"
    and "fst (delete_vdi_instance_profile E r s) \<noteq> Inl general_exception"
    by (auto simp: delete_vdi_host_role_def delete_vdi_instance_profile_def unless_missing_def
        on_client_error_def iam_def act_simps general_exception_def
        split: sum.splits exn.splits dest!: err)
qed

text \<open>An undo that reports the failure has deleted what was created.\<close>

lemma undo_create_effect:
  assumes "client_errors (cfg E)" and "undo_create E r role prof added s = (Inl general_exception, t)"
  shows "both_exist E r t = ((if role then False else role_exists E r s),
                             (if prof then False else profile_exists E r s))"
proof -
  let ?detach = "for_each added (\<lambda>p. ignore (detach_role_policy E r p))"
  let ?role = "whenA role (ignore (delete_vdi_host_role E r))"
  let ?prof = "whenA prof (ignore (delete_vdi_instance_profile E r))"
  obtain r1 s1 where 1: "?detach s = (r1, s1)" by force
  obtain r2 s2 where 2: "?role s1 = (r2, s2)" by force
  obtain r3 s3 where 3: "?prof s2 = (r3, s3)" by force
  have "r1 \<noteq> Inl general_exception"
    using for_each_ignore_error [of "detach_role_policy E r" general_exception added s]
      policy_call_errors(2) [OF assms(1)] 1 by simp
  then have r1: "r1 = Inr ()" using assms(2) 1 by (cases r1) (auto simp: undo_create_def)
  have "r2 \<noteq> Inl general_exception"
    using deletion_error(1) [OF assms(1), of r s1] 2
    by (cases "delete_vdi_host_role E r s1"; cases role; cases "fst (delete_vdi_host_role E r s1)")
       (auto simp: ignore_def)
  then have r2: "r2 = Inr ()" using assms(2) 1 2 r1 by (cases r2) (auto simp: undo_create_def)
  have "r3 \<noteq> Inl general_exception"
    using deletion_error(2) [OF assms(1), of r s2] 3
    by (cases "delete_vdi_instance_profile E r s2"; cases prof; cases "fst (delete_vdi_instance_profile E r s2)")
       (auto simp: ignore_def)
  then have r3: "r3 = Inr ()" using assms(2) 1 2 3 r1 r2 by (cases r3) (auto simp: undo_create_def)
  have t: "t = s3" using assms(2) 1 2 3 r1 r2 r3 by (simp add: undo_create_def)
  have e1: "both_exist E r s1 = both_exist E r s" using detach_all_existence 1 r1 by blast
  have e2: "both_exist E r s2 = ((if role then False else role_exists E r s1), profile_exists E r s1)"
    using 2 r2 deletion_effect(1) [of E r s1]
    by (cases role) (auto simp: ignore_def seqA_eq_Inr both_exist_def)
  have e3: "both_exist E r s3 = (role_exists E r s2, (if prof then False else profile_exists E r s2))"
    using 3 r3 deletion_effect(2) [of E r s2]
    by (cases prof) (auto simp: ignore_def seqA_eq_Inr both_exist_def)
  show ?thesis using e1 e2 e3 t by (simp add: both_exist_def)
qed

section \<open>Properties\<close>

lemma role_update_effect:
  assumes "client_errors (cfg E)" and "r = get_vdi_role_name (cluster_name (cfg E)) name"
    and "does_vdi_role_exist E r s = (Inr True, s1)"
    and "set to_detach \<subseteq> policies E r s" and "set to_attach \<inter> policies E r s = {}"
    and "update_vdi_role E name to_detach to_attach s = (res, t)"
  shows "(\<forall>b. res = Inr b \<longrightarrow> policies E r t = policies E r s - set to_detach \<union> set to_attach) \<and>
         (res = Inl general_exception \<longrightarrow> policies E r t = policies E r s)"
proof -
  note same = does_vdi_role_exist_policies [OF assms(3)]
  let ?attach = "\<lambda>removed. try_each (attach_role_policy E r) to_attach [] (undo_update E r removed) (\<lambda>added. return True)"
  let ?detach = "try_each (detach_role_policy E r) to_detach [] (\<lambda>removed. undo_update E r removed []) ?attach"
  have run: "?detach s1 = (res, t)"
    using assms(2,3,6) by (simp add: update_vdi_role_def Let_def)
  consider (detached) u where "?detach s1 = ?attach to_detach u" "policies E r u = policies E r s - set to_detach"
    | (failed) u qs where "set qs \<subseteq> set to_detach" "?detach s1 = undo_update E r qs [] u"
        "policies E r u = policies E r s - set qs"
    using try_each_detach [of E r to_detach "[]" "\<lambda>removed. undo_update E r removed []" ?attach s1]
    unfolding same by auto
  then show ?thesis
  proof cases
    case failed
    then show ?thesis
      using undo_update_effect [OF assms(1), of r qs "[]" u res t] run assms(4) by auto
  next
    case (detached u)
    consider (attached_all) v where "?attach to_detach u = (Inr True, v)" "policies E r v = policies E r u \<union> set to_attach"
      | (failed) v qs where "set qs \<subseteq> set to_attach" "?attach to_detach u = undo_update E r to_detach qs v"
          "policies E r v = policies E r u \<union> set qs"
      using try_each_attach [of E r to_attach "[]" "undo_update E r to_detach" "\<lambda>added. return True" u] by auto
    then show ?thesis
    proof cases
      case attached_all
      then show ?thesis using run detached by auto
    next
      case failed
      then have "res = Inl general_exception \<Longrightarrow>
          policies E r t = policies E r v - set qs \<union> set to_detach" and "\<And>b. res \<noteq> Inr b"
        using undo_update_effect [OF assms(1), of r to_detach qs v res t] run detached by simp_all
      moreover have "policies E r v - set qs \<union> set to_detach = policies E r s"
        using failed detached(2) assms(4,5) by auto
      ultimately show ?thesis by simp
    qed
  qed
qed


text \<open>An account whose role already has a policy, where attaching the policy \<open>bad\<close> fails.\<close>

definition iam_world :: world where
  "iam_world = local_world\<lparr>ext_result := (\<lambda>tr c.
     if c = role_attach ''res-vdi-p'' ''bad'' then Inl (ServiceError ''LimitExceeded'')
     else case c of
       Iam o' ps \<Rightarrow> if o' = ''get_role''
         then Inr (VDict [(''Role'', VDict [(''Path'', VStr ''/res-eu-west-1/vdi/'')])]) else Inr VNone
     | _ \<Rightarrow> Inr VNone)\<rparr>"

definition iam_state :: "mem_db st" where
  "iam_state = (local_state [])\<lparr>st_trace := [role_attach ''res-vdi-p'' ''old'']\<rparr>"

lemma iam_world_errors: "client_errors iam_world"
  by (auto simp: client_errors_def iam_world_def split: ext_call.splits if_splits)

lemma iam_update_fails:
  "fst (update_vdi_role (mem_env None iam_world) ''p'' [''old''] [''bad''] iam_state) = Inl general_exception"
  "fst (does_vdi_role_exist (mem_env None iam_world) ''res-vdi-p'' iam_state) = Inr True"
  by code_simp+


lemma attach_loop:
  assumes "try_each (attach_role_policy E r) ps past h k s = (res, t)" and "both_exist E r s = b"
  obtains u past' where "both_exist E r u = b" and "h past' u = (res, t) \<or> k past' u = (res, t)"
  using try_each_attach_existence [of E r ps past h k s] assms by (metis insertE singletonD)

text \<open>
  Creating the role of a project leaves nothing behind when it fails: after the error the
  role and the instance profile exist exactly when they did before the call, whichever of the
  calls failed; after a success both exist.
\<close>

theorem failed_role_creation_leaves_nothing:
  assumes "client_errors (cfg E)" and "r = get_vdi_role_name (cluster_name (cfg E)) name"
    and "create_vdi_role_and_instance_profile E name arns s = (res, t)"
  shows "(\<forall>b. res = Inr b \<longrightarrow> role_exists E r t \<and> profile_exists E r t) \<and>
         (res = Inl general_exception \<longrightarrow>
            (role_exists E r t \<longrightarrow> role_exists E r s) \<and> (profile_exists E r t \<longrightarrow> profile_exists E r s))"
proof -
  have undone: "(\<forall>b. res \<noteq> Inr b) \<and> (res = Inl general_exception \<longrightarrow>
      both_exist E r t = ((if a then False else role_exists E r u), (if b then False else profile_exists E r u)))"
    if run: "undo_create E r a b added u = (res, t)" for a b added u
  proof (intro conjI allI impI)
    show "res \<noteq> Inr x" for x using run by (auto simp: undo_create_def seqA_eq_Inr)
    assume "res = Inl general_exception"
    then show "both_exist E r t = ((if a then False else role_exists E r u), (if b then False else profile_exists E r u))"
      using undo_create_effect [OF assms(1)] run by blast
  qed
  obtain res1 s1 where 1: "create_vdi_host_role E r s = (res1, s1)" by force
  show ?thesis
  proof (cases res1)
    case (Inl e)
    then have undo: "undo_create E r False False [] s1 = (res, t)"
      using assms(2,3) 1 by (simp add: create_vdi_role_and_instance_profile_def Let_def try_step_def)
    show ?thesis
      using undone [OF undo] creation_effect(2) [of E r s e s1] 1 Inl by (auto simp: both_exist_def)
  next
    case (Inr b1)
    then have b1: "b1" and e1: "both_exist E r s1 = (True, profile_exists E r s)"
      using creation_effect(1) 1 by blast+
    obtain res2 s2 where 2: "create_vdi_instance_profile E r s1 = (res2, s2)" by force
    show ?thesis
    proof (cases res2)
      case (Inl e)
      then have undo: "undo_create E r True False [] s2 = (res, t)"
        using assms(2,3) 1 2 Inr b1
        by (simp add: create_vdi_role_and_instance_profile_def Let_def try_step_def)
      show ?thesis
        using undone [OF undo] creation_effect(4) [of E r s1 e s2] 2 Inl e1 by (auto simp: both_exist_def)
    next
      case (Inr b2)
      then have b2: "b2" and e2: "both_exist E r s2 = (True, True)"
        using creation_effect(3) [of E r s1 b2 s2] 2 Inr e1 by (auto simp: both_exist_def)
      let ?last = "\<lambda>added. try_step (add_role_to_instance_profile E r r) (undo_create E r True True added)
          (\<lambda>_. return True)"
      let ?required = "\<lambda>added. try_each (attach_role_policy E r) (dcv_host_required_policy_arns (cfg E)) added
          (undo_create E r True True) ?last"
      have run: "try_each (attach_role_policy E r) arns [] (undo_create E r True True) ?required s2 = (res, t)"
        using assms(2,3) 1 2 \<open>res1 = Inr b1\<close> Inr b1 b2
        by (simp add: create_vdi_role_and_instance_profile_def Let_def try_step_def)
      have undone': ?thesis if "undo_create E r True True added u = (res, t)" for added u
        using undone [OF that] by (auto simp: both_exist_def)
      have ended: ?thesis if u: "?last added u = (res, t)" "both_exist E r u = (True, True)" for added u
      proof (cases "add_role_to_instance_profile E r r u")
        case (Pair res3 v)
        then show ?thesis
          using u undone' policy_calls_keep_existence(3) [OF Pair]
          by (cases res3) (auto simp: try_step_def both_exist_def)
      qed
      obtain u past where u: "both_exist E r u = (True, True)"
          "undo_create E r True True past u = (res, t) \<or> ?required past u = (res, t)"
        using attach_loop [OF run e2] .
      obtain v past' where v: "both_exist E r v = (True, True)"
          "?required past u = (res, t) \<Longrightarrow>
             undo_create E r True True past' v = (res, t) \<or> ?last past' v = (res, t)"
      proof (cases "?required past u = (res, t)")
        case True
        then show thesis using attach_loop [OF True u(1)] that by blast
      next
        case False
        then show thesis using that [OF u(1)] by blast
      qed
      show ?thesis using u(2) v undone' ended by blast
    qed
  qed
qed

theorem failed_role_creation_leaves_nothing_witness:
  "\<exists>t. create_vdi_role_and_instance_profile (mem_env None iam_world) ''p'' [''bad''] (local_state []) =
       (Inl general_exception, t) \<and> \<not> role_exists (mem_env None iam_world) ''res-vdi-p'' t"
proof -
  let ?E = "mem_env None iam_world"
  have "fst (create_vdi_role_and_instance_profile ?E ''p'' [''bad''] (local_state [])) = Inl general_exception"
    by code_simp
  then obtain t where t: "create_vdi_role_and_instance_profile ?E ''p'' [''bad''] (local_state []) =
      (Inl general_exception, t)"
    by (metis prod.collapse)
  have r: "''res-vdi-p'' = get_vdi_role_name (cluster_name (cfg ?E)) ''p''"
    by (simp add: get_vdi_role_name_def iam_world_def local_world_def)
  have "\<not> role_exists ?E ''res-vdi-p'' (local_state [])" by (simp add: role_exists_def present_def)
  then show ?thesis
    using failed_role_creation_leaves_nothing [OF _ r t] t iam_world_errors by auto
qed

end
