(* ===== verification/Projects_Service.thy ===== *)
theory Projects_Service
  imports Accounts_Users Vdi_Role
begin

text \<open>
  \<^verbatim>\<open>projects/projects_service.py\<close>: the life of a project from its creation to its deletion.
  A request is the arguments it carries, a missing one being \<open>None\<close> or the empty string.
  What the service changes in the tables happens at once; the access of users follows when
  the task it sends has run (theory \<open>Tasks\<close>).
\<close>

section \<open>Checks shared by creation and update\<close>

definition is_active_directory :: "world \<Rightarrow> bool" where
  "is_active_directory w = (ds_provider w \<in> {''activedirectory''})"

definition opt_bool :: "bool option \<Rightarrow> val" where
  "opt_bool b = (case b of None \<Rightarrow> VNone | Some x \<Rightarrow> VBool x)"

definition check_budget :: "'db env \<Rightarrow> project \<Rightarrow> ('db st, unit) act" where
  "check_budget E project =
     whenA (get_as_bool (opt_bool (p_enable_budgets project)) (Some False) = Some True)
       (raise_if (case p_budget project of None \<Rightarrow> True | Some b \<Rightarrow> blank (str_or_empty b)) invalid_params
         (case p_budget project of
            Some (Some budget_name) \<Rightarrow> seqA (liftA (budgets_get_budget (cfg E) budget_name)) (return ())
          | _ \<Rightarrow> return ()))"

definition check_scripts :: "project \<Rightarrow> ('s, unit) act" where
  "check_scripts project = (case p_scripts project of
      None \<Rightarrow> return ()
    | Some sc \<Rightarrow> raise_if (\<not> validate_scripts sc) invalid_params (return ()))"

definition check_security_groups :: "'db env \<Rightarrow> project \<Rightarrow> ('s, unit) act" where
  "check_security_groups E project =
     for_each (list_or_nil (p_security_groups project)) (\<lambda>security_group_id.
       raise_if (\<not> is_security_group_available (cfg E) security_group_id) invalid_params (return ()))"

definition policy_arns_of :: "project \<Rightarrow> string list" where
  "policy_arns_of project =
     list_or_nil (get_as_string_list
       (case p_policy_arns project of None \<Rightarrow> VNone | Some ps \<Rightarrow> strs ps) (Some []))"

definition check_policies :: "'db env \<Rightarrow> string list \<Rightarrow> ('db st, unit) act" where
  "check_policies E policy_arns =
     for_each policy_arns (\<lambda>policy_arn.
       bindA (is_policy_valid E policy_arn) (\<lambda>valid. raise_if (\<not> valid) invalid_params (return ())))"

section \<open>ProjectsService\<close>

text \<open>The look-up by the identifier or, without one, by the name.\<close>

definition find_project :: "'db env \<Rightarrow> string \<Rightarrow> string \<Rightarrow> ('db st, item option) act" where
  "find_project E project_id project_name =
     raise_if (are_empty [VStr project_id, VStr project_name]) invalid_params
     (if \<not> blank project_id then get_project_by_id E project_id
      else get_project_by_name E project_name)"

definition get_project :: "'db env \<Rightarrow> string \<Rightarrow> string \<Rightarrow> ('db st, project) act" where
  "get_project E project_id project_name =
     bindA (find_project E project_id project_name) (\<lambda>project.
     case project of None \<Rightarrow> raise project_not_found | Some d \<Rightarrow> liftA (project_from_db d))"

definition set_project_enabled ::
  "'db env \<Rightarrow> bool \<Rightarrow> string \<Rightarrow> string \<Rightarrow> string \<Rightarrow> ('db st, unit) act" where
  "set_project_enabled E b task_name project_id project_name =
     bindA (find_project E project_id project_name) (\<lambda>project. case project of
       None \<Rightarrow> raise project_not_found
     | Some d \<Rightarrow>
         bindA (attr d ''project_id'') (\<lambda>pid.
         seqA (projects_dao_update_project E [''project_id'' \<mapsto> pid, ''enabled'' \<mapsto> VBool b])
              (send_task E task_name [(''project_id'', pid)] (py_str pid))))"

definition enable_project :: "'db env \<Rightarrow> string \<Rightarrow> string \<Rightarrow> ('db st, unit) act" where
  "enable_project E project_id project_name =
     set_project_enabled E True ''projects.project-enabled'' project_id project_name"

definition disable_project :: "'db env \<Rightarrow> string \<Rightarrow> string \<Rightarrow> ('db st, unit) act" where
  "disable_project E project_id project_name =
     set_project_enabled E False ''projects.project-disabled'' project_id project_name"

text \<open>
  The groups of a new project: with Active Directory the directory is asked, and what it
  answers is not looked at, so only a failing look-up stops the creation.
\<close>

definition check_ldap_groups :: "'db env \<Rightarrow> string list \<Rightarrow> ('db st, unit) act" where
  "check_ldap_groups E names =
     for_each names (\<lambda>ldap_group_name.
       if is_active_directory (cfg E)
       then seqA (liftA (ldap_get_group (cfg E) ldap_group_name)) (return ())
       else seqA (get_group E ldap_group_name) (return ()))"

text \<open>What \<open>create_project\<close> checks and prepares before it stores the project.\<close>

definition create_checks :: "'db env \<Rightarrow> project \<Rightarrow> ('db st, unit) act" where
  "create_checks E project =
     seqA (case p_ldap_groups project of None \<Rightarrow> raise TypeError | Some gs \<Rightarrow> check_ldap_groups E gs)
    (seqA (check_budget E project)
    (seqA (check_scripts project)
    (seqA (check_security_groups E project)
    (let policy_arns = policy_arns_of project in
     whenA (policy_arns \<noteq> [])
       (seqA (check_policies E policy_arns)
       (seqA (create_vdi_role_and_instance_profile E (str_or_empty (p_name project)) (name_set E policy_arns))
         (return ())))))))"

definition store_new_project :: "'db env \<Rightarrow> project \<Rightarrow> ('db st, project) act" where
  "store_new_project E project =
     bindA (projects_dao_create_project E (project_to_db project)) (\<lambda>db_created_project.
     bindA (liftA (project_from_db db_created_project)) (\<lambda>created_project.
     let project_id = str_or_empty (p_project_id created_project) in
     seqA (enable_project E project_id [])
          (get_project E project_id [])))"

definition create_project :: "'db env \<Rightarrow> project option \<Rightarrow> ('db st, project) act" where
  "create_project E request = (case request of
      None \<Rightarrow> raise invalid_params
    | Some project \<Rightarrow>
        let name = str_or_empty (p_name project) in
        raise_if (blank name) invalid_params
       (bindA (get_project_by_name E name) (\<lambda>existing.
        raise_if (existing \<noteq> None) invalid_params
       (seqA (create_checks E project)
             (store_new_project E (project\<lparr>p_enabled := Some False\<rparr>))))))"

definition delete_project :: "'db env \<Rightarrow> string \<Rightarrow> string \<Rightarrow> ('db st, unit) act" where
  "delete_project E project_id project_name =
     raise_if (blank project_id \<and> blank project_name) invalid_params
    (bindA (if project_id \<noteq> [] then get_project_by_id E project_id
            else get_project_by_name E project_name) (\<lambda>project. case project of
       None \<Rightarrow> return ()
     | Some d \<Rightarrow>
         bindA (liftA (project_from_db d)) (\<lambda>p.
         let project_id = str_or_empty (p_project_id p) in
         raise_if (list_sessions_by_project_id (cfg E) project_id \<noteq> []) general_exception
        (raise_if (list_software_stacks_by_project_id (cfg E) project_id \<noteq> []) general_exception
        (seqA (user_projects_delete_project E project_id)
              (projects_dao_delete_project E project_id))))))"

text \<open>
  \<open>(added, removed)\<close> against the stored list, nothing for a request without a list, and the
  check of the names that are new.
\<close>

definition list_changes ::
  "'db env \<Rightarrow> string list option \<Rightarrow> val \<Rightarrow> (string \<Rightarrow> ('db st, unit) act) \<Rightarrow>
     ('db st, string list \<times> string list) act" where
  "list_changes E wanted stored check = (case list_or_nil wanted of
      [] \<Rightarrow> return ([], [])
    | updated \<Rightarrow>
        bindA (liftA (names_of stored)) (\<lambda>existing.
        let added = set_minus E updated existing; removed = set_minus E existing updated in
        seqA (for_each added check) (return (added, removed))))"

definition check_new_name :: "'db env \<Rightarrow> project \<Rightarrow> item \<Rightarrow> ('db st, unit) act" where
  "check_new_name E project existing = (case p_name project of
      None \<Rightarrow> return ()
    | Some name \<Rightarrow> whenA (\<not> blank name)
        (bindA (attr existing ''name'') (\<lambda>old_name.
         whenA (old_name \<noteq> VStr name)
           (bindA (get_project_by_name E name) (\<lambda>same_name_project. case same_name_project of
              None \<Rightarrow> return ()
            | Some d \<Rightarrow> bindA (attr d ''project_id'') (\<lambda>other.
                raise_if (other \<noteq> VStr (str_or_empty (p_project_id project))) invalid_params (return ())))))))"

definition stored_list :: "item \<Rightarrow> string \<Rightarrow> val" where
  "stored_list d k = VList (case get_value_as_list k d (Some []) of None \<Rightarrow> [] | Some vs \<Rightarrow> vs)"

text \<open>The policies to detach and to attach, and the change of the role when there are any.\<close>

definition update_policies :: "'db env \<Rightarrow> project \<Rightarrow> item \<Rightarrow> ('db st, unit) act" where
  "update_policies E project existing =
     (let policy_arns = policy_arns_of project in
      bindA (liftA (names_of (stored_list existing ''policy_arns''))) (\<lambda>existing_policies.
      let policies_to_detach = set_minus E existing_policies policy_arns;
          policies_to_attach = set_minus E policy_arns existing_policies in
      whenA (policies_to_detach \<noteq> [] \<or> policies_to_attach \<noteq> [])
        (seqA (check_policies E policy_arns)
        (seqA (update_vdi_role E (py_str (opt_str (p_name project))) policies_to_detach policies_to_attach)
          (return ())))))"

definition store_project_update ::
  "'db env \<Rightarrow> project \<Rightarrow> string list \<times> string list \<Rightarrow> string list \<times> string list \<Rightarrow> ('db st, project) act"
where
  "store_project_update E project groups users =
     bindA (projects_dao_update_project E (project_to_db project)) (\<lambda>db_updated.
     bindA (liftA (project_from_db db_updated)) (\<lambda>updated_project.
     seqA (whenA (p_enabled updated_project = Some True \<and> (groups \<noteq> ([], []) \<or> users \<noteq> ([], [])))
             (send_task E ''projects.project-groups-updated''
                [(''project_id'', opt_str (p_project_id updated_project)),
                 (''groups_added'', strs (fst groups)), (''groups_removed'', strs (snd groups)),
                 (''users_added'', strs (fst users)), (''users_removed'', strs (snd users))]
                (str_or_empty (p_project_id updated_project))))
          (return updated_project)))"

text \<open>What an update checks and changes outside before it writes; it yields the changes of the lists.\<close>

definition update_checks ::
  "'db env \<Rightarrow> project \<Rightarrow> item \<Rightarrow>
     ('db st, (string list \<times> string list) \<times> (string list \<times> string list)) act" where
  "update_checks E project existing =
     seqA (check_new_name E project existing)
    (seqA (check_budget E project)
    (bindA (list_changes E (p_ldap_groups project) (stored_list existing ''ldap_groups'')
              (\<lambda>g. seqA (get_group E g) (return ()))) (\<lambda>groups.
     bindA (list_changes E (p_users project) (attr_or existing ''users'' (VList []))
              (\<lambda>u. seqA (get_user E u) (return ()))) (\<lambda>users.
     seqA (check_scripts project)
    (seqA (check_security_groups E project)
    (seqA (update_policies E project existing)
     (return (groups, users))))))))"

definition update_project :: "'db env \<Rightarrow> project option \<Rightarrow> ('db st, project) act" where
  "update_project E request = (case request of
      None \<Rightarrow> raise invalid_params
    | Some project \<Rightarrow>
        let project_id = str_or_empty (p_project_id project) in
        raise_if (blank project_id) invalid_params
       (bindA (get_project_by_id E project_id) (\<lambda>r. case r of
          None \<Rightarrow> raise project_not_found
        | Some existing \<Rightarrow>
            bindA (update_checks E project existing) (\<lambda>(groups, users).
            store_project_update E (project\<lparr>p_enabled := None\<rparr>) groups users))))"

definition list_projects ::
  "'db env \<Rightarrow> list_request \<Rightarrow> ('db st, project list \<times> string option) act" where
  "list_projects E request = projects_dao_list_projects E request"

text \<open>The projects of a user that exist and are enabled, in the order of their rows.\<close>

fun enabled_projects :: "'db env \<Rightarrow> string list \<Rightarrow> ('db st, project list) act" where
  "enabled_projects E [] = return []"
| "enabled_projects E (project_id # ids) =
     bindA (get_project_by_id E project_id) (\<lambda>db_project. case db_project of
       None \<Rightarrow> enabled_projects E ids
     | Some d \<Rightarrow>
         bindA (attr d ''enabled'') (\<lambda>enabled.
         if \<not> py_truthy enabled then enabled_projects E ids
         else bindA (liftA (project_from_db d)) (\<lambda>p.
              bindA (enabled_projects E ids) (\<lambda>ps. return (p # ps)))))"

text \<open>\<open>list.sort\<close> by name is stable; it fails when it has to compare a missing name.\<close>

definition sort_projects :: "project list \<Rightarrow> exn + project list" where
  "sort_projects ps =
     (if length ps > 1 \<and> (\<exists>p \<in> set ps. p_name p = None) then Inl TypeError
      else Inr (sort_key (\<lambda>p. str_or_empty (p_name p)) ps))"

definition get_user_projects :: "'db env \<Rightarrow> string \<Rightarrow> ('db st, project list) act" where
  "get_user_projects E username =
     raise_if (blank username) invalid_params
    (seqA (whenA (is_active_directory (cfg E))
             (seqA (liftA (ldap_get_user (cfg E) username)) (return ())))
    (bindA (get_projects_by_username E username) (\<lambda>user_projects.
     bindA (get_user E username) (\<lambda>user.
     if is_true (opt_bool (u_enabled user)) False = Inr True
     then bindA (enabled_projects E user_projects) (\<lambda>result. liftA (sort_projects result))
     else return []))))"

end
