(* ===== verification/Api_Context.thy ===== *)
theory Api_Context
  imports Accounts_Auth Projects_Service
begin

text \<open>
  The entrance of the cluster manager: \<^verbatim>\<open>ideasdk/api/api_invocation_context.py\<close>,
  \<^verbatim>\<open>ideasdk/auth/api_authorization_service_base.py\<close> and the handler of
  \<^verbatim>\<open>ideasdk/server/soca_server.py\<close>. A request runs over the state of the services together
  with its own context, which keeps the decoded token and the authorization once they are known.
\<close>

section \<open>The context of a request\<close>

datatype authorization_type = ADMINISTRATOR | USER | APP

record authorization =
  auth_type :: authorization_type
  auth_username :: "string option"
  auth_client_id :: "string option"
  auth_scopes :: "string list option"

datatype api_result =
    NoPayload
  | UserPayload user
  | UsersPayload "user list" "string option"
  | GroupPayload group
  | GroupsPayload "group list" "string option"
  | ProjectPayload project
  | ProjectsPayload "project list" "string option"
  | AuthPayload "auth_result option"
  | LookupPayload val

record api_response =
  resp_success :: bool
  resp_error :: "error_code option"
  resp_payload :: "api_result option"

text \<open>The fields of the request classes; \<open>get_request_payload_as\<close> reads those of one class.\<close>

record api_payload =
  rq_username :: string
  rq_email :: string
  rq_email_verified :: "bool option"
  rq_user :: "user option"
  rq_group :: "group option"
  rq_group_name :: string
  rq_group_names :: "string list"
  rq_page_size :: "nat option"
  rq_list :: list_request
  rq_project :: "project option"
  rq_project_id :: string
  rq_project_name :: string
  rq_filesystem_names :: "string list"
  rq_auth :: auth_request
  rq_challenge_name :: string
  rq_session :: string
  rq_password :: string
  rq_old_password :: string
  rq_new_password :: string
  rq_confirmation_code :: string
  rq_refresh_token :: string
  rq_sso_auth :: "bool option"

text \<open>
  \<open>ctx_payload\<close> is what the data classes (pydantic) make of the payload: its fields or an
  error. The last three fields are what the code keeps in the object while the request runs.
\<close>

record api_ctx =
  ctx_request :: item
  ctx_source :: string
  ctx_token :: "item option"
  ctx_test_username :: "string option"
  ctx_payload :: "exn + api_payload"
  ctx_decoded :: "item option"
  ctx_authorization :: "authorization option"
  ctx_response :: "api_response option"

type_synonym 'db api = "'db st \<times> api_ctx"

text \<open>An operation of a service, and the fields of the context.\<close>

definition on_db :: "('db st, 'a) act \<Rightarrow> ('db api, 'a) act" where
  "on_db m = (\<lambda>(s, c). case m s of (r, t) \<Rightarrow> (r, (t, c)))"

definition ctxA :: "(api_ctx \<Rightarrow> 'a) \<Rightarrow> ('db api, 'a) act" where
  "ctxA f = getA (\<lambda>(s, c). f c)"

definition set_ctx :: "(api_ctx \<Rightarrow> api_ctx) \<Rightarrow> ('db api, unit) act" where
  "set_ctx f = modifyA (\<lambda>(s, c). (s, f c))"

definition request_payload :: "('db api, api_payload) act" where
  "request_payload = bindA (ctxA ctx_payload) liftA"

subsection \<open>Header\<close>

definition ctx_header :: "api_ctx \<Rightarrow> item option" where
  "ctx_header c = map_option map_of (get_value_as_dict ''header'' (ctx_request c) None)"

definition header_string :: "string \<Rightarrow> api_ctx \<Rightarrow> string" where
  "header_string k c = (case ctx_header c of None \<Rightarrow> [] | Some h \<Rightarrow> str_or_empty (get_value_as_string k h None))"

definition ctx_namespace :: "api_ctx \<Rightarrow> string" where
  "ctx_namespace c = header_string ''namespace'' c"

definition ctx_request_id :: "api_ctx \<Rightarrow> string" where
  "ctx_request_id c = header_string ''request_id'' c"

definition is_alnum :: "char \<Rightarrow> bool" where
  "is_alnum c \<longleftrightarrow> between 48 57 c \<or> between 65 90 c \<or> between 97 122 c"

text \<open>
  \<open>^[A-Za-z0-9]+.{1}[A-Za-z0-9]+$\<close>: the dot stands for any character but a newline, and
  \<open>$\<close> also matches before a newline at the end.
\<close>

definition drop_newline :: "string \<Rightarrow> string" where
  "drop_newline s = (if s \<noteq> [] \<and> last s = CHR 0x0A then butlast s else s)"

definition matches_namespace :: "string \<Rightarrow> bool" where
  "matches_namespace s = list_ex (\<lambda>t.
     list_ex (\<lambda>n. take n t \<noteq> [] \<and> list_all is_alnum (take n t) \<and> t ! n \<noteq> CHR 0x0A \<and>
        drop (Suc n) t \<noteq> [] \<and> list_all is_alnum (drop (Suc n) t)) [1..<length t])
     [s, drop_newline s]"

text \<open>\<open>^[0-9a-zA-Z-_]+$\<close>\<close>

definition matches_request_id :: "string \<Rightarrow> bool" where
  "matches_request_id s = list_ex (\<lambda>t. t \<noteq> [] \<and> list_all (\<lambda>c. is_alnum c \<or> c \<in> set ''-_'') t) [s, drop_newline s]"

definition validate_request :: "('db api, unit) act" where
  "validate_request = bindA (ctxA id) (\<lambda>c.
     raise_if (ctx_header c = None) invalid_params
    (raise_if (blank (ctx_namespace c)) invalid_params
    (raise_if (\<not> matches_namespace (ctx_namespace c)) invalid_params
     (whenA (\<not> blank (ctx_request_id c))
        (raise_if (\<not> matches_request_id (ctx_request_id c)) invalid_params (return ()))))))"

section \<open>ApiAuthorizationServiceBase\<close>

definition get_authorization_type :: "string option \<Rightarrow> authorization_type" where
  "get_authorization_type role = (if role = Some ''admin'' then ADMINISTRATOR else USER)"

fun split_on :: "char \<Rightarrow> string \<Rightarrow> string list" where
  "split_on x [] = [[]]"
| "split_on x (c # cs) =
     (if c = x then [] # split_on x cs
      else case split_on x cs of [] \<Rightarrow> [[c]] | p # ps \<Rightarrow> (c # p) # ps)"

definition token_scopes_of :: "item \<Rightarrow> exn + string list option" where
  "token_scopes_of decoded_token = (case decoded_token ''scope'' of
      Some (VStr s) \<Rightarrow> Inr (if s = [] then None else Some (split_on (CHR '' '') s))
    | Some v \<Rightarrow> if py_truthy v then Inl AttributeError else Inr None
    | None \<Rightarrow> Inr None)"

definition token_authorization :: "'db env \<Rightarrow> item \<Rightarrow> ('db st, authorization) act" where
  "token_authorization E decoded_token =
     (if \<not> py_truthy (attr_or decoded_token ''username'' VNone) then
        bindA (liftA (token_scopes_of decoded_token)) (\<lambda>scopes.
        bindA (liftA (opt_str_field (decoded_token ''client_id''))) (\<lambda>client.
        return \<lparr>auth_type = APP, auth_username = None, auth_client_id = client, auth_scopes = scopes\<rparr>))
      else
        bindA (get_user_from_token_username E (decoded_token ''username'')) (\<lambda>user.
        raise_if (u_enabled user \<noteq> Some True) unauthorized_access
       (bindA (liftA (opt_str_field (decoded_token ''client_id''))) (\<lambda>client.
        return \<lparr>auth_type = get_authorization_type (u_role user), auth_username = u_username user,
                auth_client_id = client, auth_scopes = None\<rparr>))))"

definition token_scope_authorized :: "'db env \<Rightarrow> item \<Rightarrow> string \<Rightarrow> ('db st, bool) act" where
  "token_scope_authorized E decoded_token scope =
     (if decoded_token = Map.empty \<or> scope = [] then return False
      else bindA (token_authorization E decoded_token) (\<lambda>a.
           return (auth_type a = APP \<and> scope \<in> set (list_or_nil (auth_scopes a)))))"

definition token_username :: "'db env \<Rightarrow> item \<Rightarrow> ('db st, string option) act" where
  "token_username E decoded_token =
     (if decoded_token = Map.empty then return None
      else bindA (get_user_from_token_username E (decoded_token ''username'')) (\<lambda>user. return (u_username user)))"

section \<open>ApiInvocationContext\<close>

definition bearer_token :: "api_ctx \<Rightarrow> string" where
  "bearer_token c = (case ctx_token c of None \<Rightarrow> []
     | Some t \<Rightarrow> if get_value_as_string ''token_type'' t None \<noteq> Some ''Bearer'' then []
                 else str_or_empty (get_value_as_string ''token'' t None))"

definition is_access_token_expired :: "'db env \<Rightarrow> ('db api, bool) act" where
  "is_access_token_expired E = bindA (ctxA bearer_token) (\<lambda>token.
     if blank token then return True else liftA (is_token_expired (cfg E) token))"

definition get_decoded_token :: "'db env \<Rightarrow> ('db api, item) act" where
  "get_decoded_token E = bindA (ctxA id) (\<lambda>c. case ctx_decoded c of
      Some d \<Rightarrow> return d
    | None \<Rightarrow>
        bindA (liftA (decode_token (cfg E) (bearer_token c))) (\<lambda>d.
        seqA (set_ctx (\<lambda>c. c\<lparr>ctx_decoded := Some d\<rparr>)) (return d)))"

text \<open>The three ways to be somebody: the unix socket, an access token, or a header in test mode.\<close>

definition new_authorization :: "'db env \<Rightarrow> api_ctx \<Rightarrow> ('db api, authorization) act" where
  "new_authorization E c =
     (if ctx_source c = ''unix-socket'' then
        return \<lparr>auth_type = ADMINISTRATOR, auth_username = Some (cluster_administrator (cfg E)),
                auth_client_id = None, auth_scopes = None\<rparr>
      else if \<not> blank (bearer_token c) then
        bindA (get_decoded_token E) (\<lambda>d. on_db (token_authorization E d))
      else if test_mode (cfg E) then
        (case ctx_test_username c of
           None \<Rightarrow> raise unauthorized_access
         | Some username \<Rightarrow>
             raise_if (username = []) unauthorized_access
            (bindA (on_db (get_user_from_token_username E (Some (VStr username)))) (\<lambda>user.
             return \<lparr>auth_type = get_authorization_type (u_role user), auth_username = Some username,
                     auth_client_id = None, auth_scopes = None\<rparr>)))
      else raise unauthorized_access)"

definition get_authorization :: "'db env \<Rightarrow> ('db api, authorization) act" where
  "get_authorization E = bindA (ctxA id) (\<lambda>c. case ctx_authorization c of
      Some a \<Rightarrow> return a
    | None \<Rightarrow>
        bindA (new_authorization E c) (\<lambda>a.
        seqA (set_ctx (\<lambda>c. c\<lparr>ctx_authorization := Some a\<rparr>)) (return a)))"

definition is_administrator :: "authorization \<Rightarrow> bool" where
  "is_administrator a \<longleftrightarrow> auth_type a = ADMINISTRATOR"

definition is_authenticated_user :: "authorization \<Rightarrow> bool" where
  "is_authenticated_user a \<longleftrightarrow> auth_type a \<in> {USER, ADMINISTRATOR}"

definition is_authenticated_app :: "authorization \<Rightarrow> bool" where
  "is_authenticated_app a \<longleftrightarrow> auth_type a = APP"

definition is_authenticated :: "'db env \<Rightarrow> ('db api, bool) act" where
  "is_authenticated E = seqA (get_authorization E) (return True)"

definition is_authorized_user :: "authorization \<Rightarrow> bool" where
  "is_authorized_user a \<longleftrightarrow> is_administrator a \<or> auth_type a = USER"

definition module_scope :: "world \<Rightarrow> string \<Rightarrow> string" where
  "module_scope w right = module_id w @ ''/'' @ right"

definition is_authorized_app :: "world \<Rightarrow> authorization \<Rightarrow> bool" where
  "is_authorized_app w a \<longleftrightarrow> auth_type a = APP \<and>
     list_ex (\<lambda>scope. scope \<in> {module_scope w ''read'', module_scope w ''write''}) (list_or_nil (auth_scopes a))"

definition is_scope_authorized :: "'db env \<Rightarrow> string \<Rightarrow> ('db api, bool) act" where
  "is_scope_authorized E scope = bindA (ctxA bearer_token) (\<lambda>token.
     if blank token then return False
     else bindA (liftA (decode_token (cfg E) token)) (\<lambda>d. on_db (token_scope_authorized E d scope)))"

fun all_scopes_authorized :: "'db env \<Rightarrow> string list \<Rightarrow> ('db api, bool) act" where
  "all_scopes_authorized E [] = return True"
| "all_scopes_authorized E (scope # scopes) =
     bindA (is_scope_authorized E scope) (\<lambda>ok. if ok then all_scopes_authorized E scopes else return False)"

definition is_authorized :: "'db env \<Rightarrow> bool \<Rightarrow> string list \<Rightarrow> ('db api, bool) act" where
  "is_authorized E elevated_access scopes =
     bindA (get_authorization E) (\<lambda>a.
     let authorized_user = (if elevated_access then is_administrator a else is_authorized_user a) in
     bindA (if scopes \<noteq> [] \<and> is_authorized_app (cfg E) a then all_scopes_authorized E scopes else return False)
       (\<lambda>authorized_scopes. return (authorized_user \<or> authorized_scopes)))"

definition get_username :: "'db env \<Rightarrow> ('db api, string option) act" where
  "get_username E = bindA (get_authorization E) (\<lambda>a. return (auth_username a))"

subsection \<open>The response\<close>

definition success :: "api_result \<Rightarrow> ('db api, unit) act" where
  "success r = set_ctx (\<lambda>c. c\<lparr>ctx_response := Some (case ctx_response c of
      None \<Rightarrow> \<lparr>resp_success = True, resp_error = None, resp_payload = Some r\<rparr>
    | Some old \<Rightarrow> old\<lparr>resp_success := True, resp_payload := Some r\<rparr>)\<rparr>)"

definition fail :: "error_code \<Rightarrow> ('db api, unit) act" where
  "fail e = set_ctx (\<lambda>c. c\<lparr>ctx_response :=
     Some \<lparr>resp_success = False, resp_error = Some e, resp_payload = None\<rparr>\<rparr>)"

definition error_code_of :: "exn \<Rightarrow> error_code" where
  "error_code_of e = (case e of SocaException c \<Rightarrow> c | _ \<Rightarrow> GENERAL_ERROR)"

subsection \<open>The audit log\<close>

text \<open>
  Writing a line to the log finds out who the caller is; only \<open>UNAUTHORIZED_ACCESS\<close> stands for
  an unknown caller, every other exception comes out.
\<close>

definition get_log_tag :: "'db env \<Rightarrow> ('db api, unit) act" where
  "get_log_tag E =
     catch_soca
       (bindA (get_authorization E) (\<lambda>a.
        if auth_type a = APP then return () else seqA (get_username E) (return ())))
       (\<lambda>c. if c = UNAUTHORIZED_ACCESS then return () else raise (SocaException c))"

definition log_request :: "'db env \<Rightarrow> ('db api, unit) act" where
  "log_request E = get_log_tag E"

definition log_response :: "'db env \<Rightarrow> ('db api, unit) act" where
  "log_response E = get_log_tag E"

section \<open>ApiInvocationHandler\<close>

text \<open>The requests whose payload is read again to hide the passwords in the log.\<close>

definition get_request_logging_payload :: "('db api, unit) act" where
  "get_request_logging_payload = bindA (ctxA ctx_namespace) (\<lambda>namespace.
     whenA (namespace \<in> {''Auth.InitiateAuth'', ''Auth.SignOut'', ''Auth.RespondToAuthChallenge'',
              ''Auth.ConfirmForgotPassword'', ''Auth.ChangePassword'', ''Accounts.CreateUser''})
       (seqA request_payload (return ())))"

definition set_request_id :: "string \<Rightarrow> api_ctx \<Rightarrow> api_ctx" where
  "set_request_id i c = c\<lparr>ctx_request := (case get_value_as_dict ''header'' (ctx_request c) None of
      None \<Rightarrow> ctx_request c
    | Some h \<Rightarrow> (ctx_request c)(''header'' \<mapsto> VDict (AList.update ''request_id'' (VStr i) h)))\<rparr>"

definition validate_and_preprocess_request :: "'db env \<Rightarrow> ('db api, unit) act" where
  "validate_and_preprocess_request E = bindA (ctxA id) (\<lambda>c.
     raise_if (ctx_header c = None) invalid_params
    (raise_if (blank (ctx_namespace c)) invalid_params
     (whenA (blank (ctx_request_id c))
        (bindA (on_db (new_uuid E)) (\<lambda>i. set_ctx (set_request_id i))))))"

definition check_is_running :: "'db env \<Rightarrow> ('db api, unit) act" where
  "check_is_running E =
     raise_if (\<not> server_is_running (cfg E)) (SocaException SERVER_IS_SHUTTING_DOWN) (return ())"

text \<open>
  The try block in its two parts: an exception before the request is logged makes the
  \<open>finally\<close> block log it again, and what that raises leaves the method.
\<close>

definition invoke_logged :: "'db env \<Rightarrow> ('db api, unit) act \<Rightarrow> ('db api, unit) act" where
  "invoke_logged E api_invoker =
     seqA (validate_and_preprocess_request E)
    (seqA (check_is_running E)
    (seqA api_invoker
    (bindA (ctxA ctx_response) (\<lambda>response.
     raise_if (response = None) (SocaException NOT_SUPPORTED) (return ())))))"

definition before_logging :: "'db env \<Rightarrow> ('db api, unit) act" where
  "before_logging E = seqA validate_request (seqA get_request_logging_payload (log_request E))"

definition handler_invoke :: "'db env \<Rightarrow> ('db api, unit) act \<Rightarrow> ('db api, unit) act" where
  "handler_invoke E api_invoker =
     bindA (catchA (seqA (before_logging E) (return True))
              (\<lambda>e. seqA (fail (error_code_of e)) (return False))) (\<lambda>request_logged.
     seqA (whenA request_logged (catchA (invoke_logged E api_invoker) (\<lambda>e. fail (error_code_of e))))
    (seqA (whenA (\<not> request_logged) (log_request E))
          (log_response E)))"

text \<open>The answer of the server: what \<open>_invoke\<close> left, or an answer without an error code.\<close>

definition error_response :: api_response where
  "error_response = \<lparr>resp_success = False, resp_error = None, resp_payload = None\<rparr>"

definition serve :: "'db env \<Rightarrow> ('db api, unit) act \<Rightarrow> ('db api, api_response option) act" where
  "serve E api_invoker =
     catchA (seqA (handler_invoke E api_invoker) (ctxA ctx_response)) (\<lambda>e. return (Some error_response))"

section \<open>Facts\<close>

lemma on_db_run [simp]: "on_db m (s, c) = (case m s of (r, t) \<Rightarrow> (r, (t, c)))"
  by (simp add: on_db_def)

lemma ctxA_run [simp]: "ctxA f (s, c) = (Inr (f c), (s, c))"
  by (simp add: ctxA_def)

lemma set_ctx_run [simp]: "set_ctx f (s, c) = (Inr (), (s, f c))"
  by (simp add: set_ctx_def)

lemma fail_run [simp]: "fail e (s, c) =
    (Inr (), (s, c\<lparr>ctx_response := Some \<lparr>resp_success = False, resp_error = Some e, resp_payload = None\<rparr>\<rparr>))"
  by (simp add: fail_def)

text \<open>A request with an expired token, before anything was found out about the caller.\<close>

definition expired_request :: "'db env \<Rightarrow> api_ctx \<Rightarrow> bool" where
  "expired_request E c \<longleftrightarrow> ctx_source c \<noteq> ''unix-socket'' \<and> \<not> blank (bearer_token c) \<and>
     jwt_decode (cfg E) (bearer_token c) = JwtExpired \<and> ctx_decoded c = None \<and> ctx_authorization c = None"

lemma expired_authorization:
  assumes "expired_request E c"
  shows "get_authorization E (s, c) = (Inl token_expired, (s, c))"
  using assms by (simp add: expired_request_def get_authorization_def new_authorization_def get_decoded_token_def
      decode_token_def)

lemma expired_log: "expired_request E c \<Longrightarrow> log_request E (s, c) = (Inl token_expired, (s, c))"
  by (simp add: log_request_def get_log_tag_def expired_authorization token_expired_def)

lemma expired_response: "expired_request E (c\<lparr>ctx_response := r\<rparr>) = expired_request E c"
  by (simp add: expired_request_def bearer_token_def)

lemma expired_before_logging:
  assumes "expired_request E c"
  obtains e where "before_logging E (s, c) = (Inl e, (s, c))"
proof -
  have valid: "snd (validate_request (s, c)) = (s, c)"
    by (simp add: validate_request_def raise_if_def whenA_def)
  have payload: "snd (get_request_logging_payload (s, c)) = (s, c)"
    by (cases "ctx_payload c") (simp_all add: get_request_logging_payload_def request_payload_def whenA_def)
  show thesis
  proof (cases "fst (validate_request (s, c))")
    case (Inl e)
    then have "validate_request (s, c) = (Inl e, (s, c))" using valid by (metis prod.collapse)
    then show thesis using that by (simp add: before_logging_def)
  next
    case (Inr x)
    then have v: "validate_request (s, c) = (Inr x, (s, c))" using valid by (metis prod.collapse)
    show thesis
    proof (cases "fst (get_request_logging_payload (s, c))")
      case (Inl e)
      then have "get_request_logging_payload (s, c) = (Inl e, (s, c))" using payload by (metis prod.collapse)
      then show thesis using that v by (simp add: before_logging_def)
    next
      case (Inr y)
      then have "get_request_logging_payload (s, c) = (Inr y, (s, c))" using payload by (metis prod.collapse)
      then show thesis using that v expired_log [OF assms] by (simp add: before_logging_def)
    qed
  qed
qed

lemma expired_serve:
  assumes "expired_request E c"
  shows "\<exists>c'. serve E api_invoker (s, c) = (Inr (Some error_response), (s, c'))"
proof -
  obtain e where e: "before_logging E (s, c) = (Inl e, (s, c))"
    using expired_before_logging [OF assms] by blast
  let ?c = "c\<lparr>ctx_response := Some \<lparr>resp_success = False, resp_error = Some (error_code_of e), resp_payload = None\<rparr>\<rparr>"
  have "log_request E (s, ?c) = (Inl token_expired, (s, ?c))"
    by (rule expired_log) (simp add: expired_response assms)
  then have "handler_invoke E api_invoker (s, c) = (Inl token_expired, (s, ?c))"
    using e by (simp add: handler_invoke_def act_simps)
  then show ?thesis by (simp add: serve_def)
qed

end
