(* ===== verification/Projects_Life.thy ===== *)
theory Projects_Life
  imports Projects_Service
begin

text \<open>
  What the projects service guarantees: the checks of a request change no table, a created
  project ends enabled, names stay unique, an update never switches a project on or off, and
  a user sees exactly the enabled projects the user table of projects names.
\<close>

section \<open>Checks change no table\<close>

lemma keeps_iam [keeps_rules]: "keeps (table_inv P) (iam E op ps)"
  unfolding iam_def by (intro keeps_rules)

lemma keeps_unless_missing [keeps_rules]: "keeps I m \<Longrightarrow> keeps I (unless_missing m)"
  unfolding unless_missing_def by (intro keeps_rules)

lemma keeps_try_step [keeps_rules]:
  "keeps I m \<Longrightarrow> keeps I h \<Longrightarrow> (\<And>x. keeps I (k x)) \<Longrightarrow> keeps I (try_step m h k)"
  by (fastforce simp: keeps_def try_step_def split: prod.splits sum.splits)

lemma keeps_try_each:
  "(\<And>p. keeps I (f p)) \<Longrightarrow> (\<And>ps. keeps I (h ps)) \<Longrightarrow> (\<And>ps. keeps I (k ps)) \<Longrightarrow>
     keeps I (try_each f ps past h k)"
  by (induction ps arbitrary: past) (auto intro!: keeps_rules)

lemma keeps_role_calls [keeps_rules]:
  "keeps (table_inv P) (create_vdi_host_role E r)"
  "keeps (table_inv P) (delete_vdi_host_role E r)"
  "keeps (table_inv P) (attach_role_policy E r p)"
  "keeps (table_inv P) (detach_role_policy E r p)"
  "keeps (table_inv P) (create_vdi_instance_profile E r)"
  "keeps (table_inv P) (delete_vdi_instance_profile E r)"
  "keeps (table_inv P) (add_role_to_instance_profile E r r')"
  "keeps (table_inv P) (is_policy_valid E p)"
  "keeps (table_inv P) (does_vdi_role_exist E r)"
  unfolding create_vdi_host_role_def delete_vdi_host_role_def attach_role_policy_def
    detach_role_policy_def create_vdi_instance_profile_def delete_vdi_instance_profile_def
    add_role_to_instance_profile_def is_policy_valid_def does_vdi_role_exist_def
  by (intro keeps_rules)+

lemma keeps_ignore [keeps_rules]: "keeps I m \<Longrightarrow> keeps I (ignore m)"
  unfolding ignore_def by (intro keeps_rules)

lemma keeps_role_methods [keeps_rules]:
  "keeps (table_inv P) (create_vdi_role_and_instance_profile E n ps)"
  "keeps (table_inv P) (update_vdi_role E n ps qs)"
proof -
  show c: "keeps (table_inv P) (create_vdi_role_and_instance_profile E n ps)" for n ps
    unfolding create_vdi_role_and_instance_profile_def undo_create_def Let_def
    by (intro keeps_rules keeps_try_each)
  show "keeps (table_inv P) (update_vdi_role E n ps qs)"
    unfolding update_vdi_role_def undo_update_def Let_def
    by (intro keeps_rules keeps_try_each c)
qed

lemma keeps_project_lookups [keeps_rules]:
  "keeps (table_inv P) (get_project_by_id E p)"
  "keeps (table_inv P) (get_project_by_name E n)"
  "keeps (table_inv P) (find_project E p n)"
  "keeps (table_inv P) (get_project E p n)"
  unfolding get_project_def find_project_def get_project_by_id_def get_project_by_name_def
  by (intro keeps_rules)+

lemma keeps_get_group [keeps_rules]: "keeps (table_inv P) (get_group E g)"
  unfolding get_group_def group_dao_get_group_def by (intro keeps_rules)

lemma keeps_checks [keeps_rules]:
  "keeps (table_inv P) (check_budget E x)"
  "keeps (table_inv P) (check_scripts x)"
  "keeps (table_inv P) (check_security_groups E x)"
  "keeps (table_inv P) (check_policies E ps)"
  "keeps (table_inv P) (check_ldap_groups E gs)"
  "keeps (table_inv P) (check_new_name E x d)"
  "keeps (table_inv P) (update_policies E x d)"
  unfolding check_budget_def check_scripts_def check_security_groups_def check_policies_def
    check_ldap_groups_def check_new_name_def update_policies_def Let_def
  by (intro keeps_rules; auto intro!: keeps_rules split: option.split)+

lemma keeps_list_changes [keeps_rules]:
  "(\<And>n. keeps (table_inv P) (check n)) \<Longrightarrow> keeps (table_inv P) (list_changes E xs v check)"
  unfolding list_changes_def Let_def by (auto intro!: keeps_rules split: list.split)

lemma keeps_create_checks [keeps_rules]: "keeps (table_inv P) (create_checks E x)"
  unfolding create_checks_def Let_def by (intro keeps_rules)

lemma keeps_update_checks [keeps_rules]: "keeps (table_inv P) (update_checks E x d)"
  unfolding update_checks_def by (intro keeps_rules)

lemma keeps_send_task [keeps_rules]: "keeps (table_inv P) (send_task E n ps g)"
  unfolding send_task_def by (intro keeps_rules)

lemma reads_keep_db:
  assumes "\<And>P. keeps (table_inv P) m" and "m s = (r, t)"
  shows "st_db t = st_db s"
  using keepsD [OF assms(1) [of "\<lambda>d. d = st_db s"] _ assms(2)] by (simp add: table_inv_def)

section \<open>Rows of projects\<close>

lemma value_of_other_key [simp]:
  "k \<noteq> j \<Longrightarrow> get_value_as_string k (d(j := v)) x = get_value_as_string k d x"
  "k \<noteq> j \<Longrightarrow> get_value_as_bool k (d(j := v)) b = get_value_as_bool k d b"
  "k \<noteq> j \<Longrightarrow> get_value_as_int k (d(j := v)) n = get_value_as_int k d n"
  "k \<noteq> j \<Longrightarrow> get_value_as_list k (d(j := v)) l = get_value_as_list k d l"
  "k \<noteq> j \<Longrightarrow> get_value_as_dict k (d(j := v)) m = get_value_as_dict k d m"
  "k \<noteq> j \<Longrightarrow> attr_or (d(j := v)) k a = attr_or d k a"
  by (simp_all add: get_value_as_string_def get_value_as_bool_def get_value_as_int_def
      get_value_as_list_def get_value_as_dict_def value_exists_def attr_or_def)

text \<open>Time stamps and the state are fields of their own: writing them changes nothing else.\<close>

lemma project_from_db_stamps:
  "project_from_db (d(''created_on'' \<mapsto> VInt a, ''updated_on'' \<mapsto> VInt b)) =
     map_sum id (\<lambda>p. p\<lparr>p_created_on := Some a, p_updated_on := Some b\<rparr>) (project_from_db d)"
  "project_from_db (d(''enabled'' \<mapsto> VBool e)) =
     map_sum id (\<lambda>p. p\<lparr>p_enabled := Some e\<rparr>) (project_from_db d)"
  by (simp_all add: project_from_db_def bindE_def split: sum.splits)

lemma row_read_back:
  assumes "project_from_db d = Inr p"
  shows "p_project_id p = get_value_as_string ''project_id'' d None"
    and "p_name p = get_value_as_string ''name'' d None"
    and "p_enabled p = get_value_as_bool ''enabled'' d (Some False)"
  using assms by (auto simp: project_from_db_def bindE_eq_Inr)

lemma find_project_run [simp]: "\<not> blank p \<Longrightarrow> find_project E p n s = (Inr (row E s Projects (p, [])), s)"
  by (simp add: find_project_def blank_def)

lemma put_opt_twist: "k \<noteq> j \<Longrightarrow> (put_opt k f v d)(j \<mapsto> w) = put_opt k f v (d(j \<mapsto> w))"
  by (cases v) (simp_all add: put_opt_def fun_upd_twist)

lemma project_to_db_id:
  "(project_to_db p)(''project_id'' \<mapsto> VStr pid) = project_to_db (p\<lparr>p_project_id := Some pid, p_enabled := b\<rparr>)"
  by (simp add: project_to_db_def put_opt_twist)

text \<open>A request whose texts are clean, whatever identifier it is given.\<close>

definition clean_request :: "project \<Rightarrow> bool" where
  "clean_request p \<longleftrightarrow> (\<forall>pid. clean_id pid \<longrightarrow> clean_project (p\<lparr>p_project_id := Some pid\<rparr>))"

text \<open>The call that announces a change of state.\<close>

definition project_task :: "string \<Rightarrow> string \<Rightarrow> ext_call" where
  "project_task task_name pid = SendTask task_name [(''project_id'', VStr pid)] pid"

lemma send_project_task [simp]:
  "\<not> blank pid \<Longrightarrow> send_task E n [(''project_id'', VStr pid)] pid = do_call E (project_task n pid)"
  by (simp add: send_task_def project_task_def)

context dynamodb
begin

lemma project_row_id: "row E s Projects (pid, []) = Some i \<Longrightarrow> i ''project_id'' = Some (VStr pid)"
  using row_key [of "st_db s" Projects "(pid, [])" i]
  by (auto simp: key_of_def schema_defs split: option.splits val.splits)

lemma set_project_enabled_run:
  assumes "clean_id pid" and "row E s Projects (pid, []) = Some i"
  shows "set_project_enabled E b task pid n s =
    (map_sum id (\<lambda>_. ()) (ext_result (cfg E) (st_trace s) (project_task task pid)),
     s\<lparr>st_ticks := Suc (st_ticks s), st_trace := st_trace s @ [project_task task pid],
       st_db := ddb_put E (st_db s) Projects
         (project_update_of E s pid i [''project_id'' \<mapsto> VStr pid, ''enabled'' \<mapsto> VBool b])\<rparr>)"
  using clean_id_not_blank [OF assms(1)] assms project_row_id [OF assms(2)]
  by (simp add: set_project_enabled_def projects_dao_update_project_run
      split: sum.split)

text \<open>Storing a new project, down to the row it leaves.\<close>

lemma store_new_project_run:
  assumes "\<forall>n. clean_id (uuid_at (cfg E) n)" and "clean_request p"
    and "store_new_project E (p\<lparr>p_enabled := b\<rparr>) s = (res, t)"
  shows "\<exists>pid i q. pid = uuid_at (cfg E) (st_uuids s) \<and> row E t Projects (pid, []) = Some i \<and>
     project_from_db i = Inr q \<and> p_project_id q = Some pid \<and> p_name q = p_name p \<and>
     p_enabled q = Some True \<and> i ''name'' = map_option VStr (p_name p) \<and>
     (\<forall>x k. (x, k) \<noteq> (Projects, (pid, [])) \<longrightarrow> row E t x k = row E s x k) \<and>
     st_trace t = st_trace s @ [project_task ''projects.project-enabled'' pid] \<and>
     res = map_sum id (\<lambda>_. q) (ext_result (cfg E) (st_trace s) (project_task ''projects.project-enabled'' pid))"
proof -
  define pid where "pid = uuid_at (cfg E) (st_uuids s)"
  define a c where "a = time_at (cfg E) (st_ticks s)" and "c = time_at (cfg E) (Suc (st_ticks s))"
  define base where "base = project_to_db (p\<lparr>p_project_id := Some pid, p_enabled := None\<rparr>)"
  define i0 where "i0 = base(''created_on'' \<mapsto> VInt a, ''updated_on'' \<mapsto> VInt c)"
  define s1 where "s1 = s\<lparr>st_uuids := Suc (st_uuids s), st_ticks := Suc (Suc (st_ticks s)),
      st_db := ddb_put E (st_db s) Projects i0\<rparr>"
  let ?p = "p\<lparr>p_project_id := Some pid\<rparr>"
  have id: "clean_id pid" using assms(1) by (simp add: pid_def)
  have nb: "\<not> blank pid" by (rule clean_id_not_blank [OF id])
  have base: "base ''project_id'' = Some (VStr pid)" "base ''name'' = map_option VStr (p_name p)"
    by (simp_all add: base_def project_to_db_def)
  have k0: "key_of Projects i0 = Some (pid, [])"
    by (simp add: i0_def key_of_def schema_defs base)
  have i0: "(project_to_db (p\<lparr>p_enabled := b\<rparr>))(''project_id'' \<mapsto> VStr pid, ''created_on'' \<mapsto> VInt a,
      ''updated_on'' \<mapsto> VInt c) = i0"
    by (simp add: i0_def base_def project_to_db_id [of _ _ None])
  have clean: "clean_project ?p" using assms(2) id by (simp add: clean_request_def)
  have base_db: "project_from_db base = Inr (stored_project ?p)"
  proof -
    have "base = project_to_db ?p" by (simp add: base_def project_to_db_def)
    then show ?thesis using project_round_trip [OF clean] by simp
  qed
  have q0: "project_from_db i0 = Inr ((stored_project ?p)\<lparr>p_created_on := Some a, p_updated_on := Some c\<rparr>)"
    using base_db by (simp add: i0_def project_from_db_stamps(1))
  have row0: "row E s1 Projects (pid, []) = Some i0" using k0 by (simp add: s1_def)
  define i1 where "i1 = project_update_of E s1 pid i0 [''project_id'' \<mapsto> VStr pid, ''enabled'' \<mapsto> VBool True]"
  define e where "e = time_at (cfg E) (st_ticks s1)"
  define q where "q = (stored_project ?p)\<lparr>p_created_on := Some a, p_updated_on := Some e, p_enabled := Some True\<rparr>"
  have i1: "i1 = base(''created_on'' \<mapsto> VInt a, ''updated_on'' \<mapsto> VInt e, ''enabled'' \<mapsto> VBool True)"
    by (rule ext) (simp add: i1_def project_update_of_lookup i0_def e_def base)
  have q1: "project_from_db i1 = Inr q"
    using base_db by (simp add: i1 project_from_db_stamps q_def)
  have k1: "key_of Projects i1 = Some (pid, [])" by (simp add: i1_def)
  have created: "projects_dao_create_project E (project_to_db (p\<lparr>p_enabled := b\<rparr>)) s = (Inr i0, s1)"
    using i0 k0 by (simp add: projects_dao_create_project_def Let_def pid_def a_def c_def s1_def)
  define s2 where "s2 = s1\<lparr>st_ticks := Suc (st_ticks s1),
      st_trace := st_trace s @ [project_task ''projects.project-enabled'' pid], st_db := ddb_put E (st_db s1) Projects i1\<rparr>"
  let ?r = "ext_result (cfg E) (st_trace s) (project_task ''projects.project-enabled'' pid)"
  have trace: "st_trace s1 = st_trace s" by (simp add: s1_def)
  have enabled: "enable_project E pid [] s1 = (map_sum id (\<lambda>_. ()) ?r, s2)"
    using set_project_enabled_run [OF id row0, of True "''projects.project-enabled''" "[]"]
    by (simp add: enable_project_def s2_def i1_def trace)
  have row1: "row E s2 Projects (pid, []) = Some i1" using k1 by (simp add: s2_def)
  have got: "get_project E pid [] s2 = (Inr q, s2)"
    using nb row1 q1 by (simp add: get_project_def)
  have "(res, t) = (map_sum id (\<lambda>_. q) ?r, s2)"
    using assms(3) created q0 enabled got
    by (cases ?r) (simp_all add: store_new_project_def stored_project_def)
  moreover have "row E s2 x k = row E s x k" if "(x, k) \<noteq> (Projects, (pid, []))" for x k
    using that k0 k1 by (auto simp: s2_def s1_def)
  moreover have "st_trace s2 = st_trace s @ [project_task ''projects.project-enabled'' pid]" by (simp add: s2_def)
  ultimately show ?thesis
    using row1 q1 by (intro exI [of _ pid] exI [of _ i1] exI [of _ q])
      (simp add: pid_def q_def i1 base stored_project_def)
qed

end
section \<open>Unique names\<close>

definition names_unique :: "'db env \<Rightarrow> 'db \<Rightarrow> bool" where
  "names_unique E d \<longleftrightarrow> (\<forall>k k' i i' n. ddb_get E d Projects k = Some i \<and> ddb_get E d Projects k' = Some i' \<and>
     i ''name'' = Some (VStr n) \<and> i' ''name'' = Some (VStr n) \<and> \<not> blank n \<longrightarrow> k = k')"

text \<open>What follows the write of an update.\<close>

definition store_rest ::
  "'db env \<Rightarrow> string list \<times> string list \<Rightarrow> string list \<times> string list \<Rightarrow> item \<Rightarrow> ('db st, project) act" where
  "store_rest E groups users db_updated =
     bindA (liftA (project_from_db db_updated)) (\<lambda>updated_project.
     seqA (whenA (p_enabled updated_project = Some True \<and> (groups \<noteq> ([], []) \<or> users \<noteq> ([], [])))
             (send_task E ''projects.project-groups-updated''
                [(''project_id'', opt_str (p_project_id updated_project)),
                 (''groups_added'', strs (fst groups)), (''groups_removed'', strs (snd groups)),
                 (''users_added'', strs (fst users)), (''users_removed'', strs (snd users))]
                (str_or_empty (p_project_id updated_project))))
          (return updated_project))"

lemma names_uniqueD:
  "names_unique E d \<Longrightarrow> ddb_get E d Projects k = Some i \<Longrightarrow> ddb_get E d Projects k' = Some i' \<Longrightarrow>
     i ''name'' = Some (VStr n) \<Longrightarrow> i' ''name'' = Some (VStr n) \<Longrightarrow> \<not> blank n \<Longrightarrow> k = k'"
  unfolding names_unique_def by blast

context dynamodb
begin

lemma name_lookup:
  assumes "\<not> blank n"
  obtains "get_project_by_name E n s = (Inr None, s)"
      and "\<forall>k i. row E s Projects k = Some i \<longrightarrow> i ''name'' \<noteq> Some (VStr n)"
    | k i where "get_project_by_name E n s = (Inr (Some i), s)" and "row E s Projects k = Some i"
      and "i ''name'' = Some (VStr n)"
proof -
  obtain ks where ks: "ddb_index E (st_db s) ProjectNameIndex n =
        map (\<lambda>k. project_item ProjectNameIndex (the (row E s Projects k))) ks"
      "set ks = {k. \<exists>i. row E s Projects k = Some i \<and> i ''name'' = Some (VStr n)}"
    using index_rows [of "st_db s" ProjectNameIndex n]
    by (auto simp: index_schema_of_def schema_defs)
  have all: "project_item ProjectNameIndex i = i" for i
    by (simp add: project_item_def index_schema_of_def schema_defs)
  show thesis
  proof (cases ks)
    case Nil
    then show thesis using that(1) assms ks by (simp add: get_project_by_name_def)
  next
    case (Cons k ks')
    then obtain i where "row E s Projects k = Some i" "i ''name'' = Some (VStr n)" using ks(2) by auto
    then show thesis using that(2) [of i k] assms ks(1) Cons by (simp add: get_project_by_name_def all)
  qed
qed

lemma create_project_cases:
  assumes "create_project E (Some p) s = (res, t)"
  shows "(st_db t = st_db s \<and> (\<exists>e. res = Inl e)) \<or>
     (\<exists>s1. \<not> blank (str_or_empty (p_name p)) \<and> st_db s1 = st_db s \<and>
        (\<forall>k i. row E s Projects k = Some i \<longrightarrow> i ''name'' \<noteq> Some (VStr (str_or_empty (p_name p)))) \<and>
        store_new_project E (p\<lparr>p_enabled := Some False\<rparr>) s1 = (res, t))"
proof (cases "blank (str_or_empty (p_name p))")
  case True
  then show ?thesis using assms by (auto simp: create_project_def)
next
  case False
  let ?n = "str_or_empty (p_name p)"
  show ?thesis
  proof (rule name_lookup [OF False, of s])
    fix k i
    assume "get_project_by_name E ?n s = (Inr (Some i), s)"
    then show ?thesis using assms False by (auto simp: create_project_def Let_def)
  next
    assume none: "get_project_by_name E ?n s = (Inr None, s)"
      and free: "\<forall>k i. row E s Projects k = Some i \<longrightarrow> i ''name'' \<noteq> Some (VStr ?n)"
    obtain r s1 where checks: "create_checks E p s = (r, s1)" by force
    have db: "st_db s1 = st_db s" by (rule reads_keep_db [OF keeps_create_checks checks])
    show ?thesis
    proof (cases r)
      case (Inl e)
      then show ?thesis using assms none checks False db by (auto simp: create_project_def Let_def)
    next
      case (Inr u)
      then have "store_new_project E (p\<lparr>p_enabled := Some False\<rparr>) s1 = (res, t)"
        using assms none checks False by (simp add: create_project_def Let_def)
      then show ?thesis using db free False by blast
    qed
  qed
qed

lemma project_update_rows:
  "ddb_get E (ddb_put E d Projects (project_update_of E s pid old upd)) x k =
     (if x = Projects \<and> k = (pid, []) then Some (project_update_of E s pid old upd) else ddb_get E d x k)"
  by (rule get_put) simp

lemma names_unique_after:
  assumes "names_unique E (st_db s)" and "row E t Projects (pid, []) = Some x"
    and "\<And>k. k \<noteq> (pid, []) \<Longrightarrow> row E t Projects k = row E s Projects k"
    and "\<And>n k j. x ''name'' = Some (VStr n) \<Longrightarrow> \<not> blank n \<Longrightarrow> row E s Projects k = Some j \<Longrightarrow>
           j ''name'' = Some (VStr n) \<Longrightarrow> k = (pid, [])"
  shows "names_unique E (st_db t)"
  unfolding names_unique_def
proof (intro allI impI)
  fix k k' i i' n
  assume rows: "row E t Projects k = Some i \<and> row E t Projects k' = Some i' \<and>
      i ''name'' = Some (VStr n) \<and> i' ''name'' = Some (VStr n) \<and> \<not> blank n"
  have other: "j = (pid, [])"
    if "x ''name'' = Some (VStr n)" "row E t Projects j = Some y" "y ''name'' = Some (VStr n)" for j y
    using assms(3,4) that rows by (cases "j = (pid, [])") auto
  show "k = k'"
  proof (cases "k = (pid, []) \<or> k' = (pid, [])")
    case True
    then have "x ''name'' = Some (VStr n)" using assms(2) rows by (elim disjE) simp_all
    then have "k = (pid, [])" "k' = (pid, [])" using other rows by blast+
    then show ?thesis by simp
  next
    case False
    then have "row E s Projects k = Some i" "row E s Projects k' = Some i'" using assms(3) rows by simp_all
    then show ?thesis using names_uniqueD [OF assms(1)] rows by simp
  qed
qed

lemma check_new_name_ok:
  assumes "names_unique E (st_db s)" and "check_new_name E p i s = (Inr (), t)"
    and "row E s Projects (pid, []) = Some i" and "p_project_id p = Some pid"
    and "p_name p = Some n" and "\<not> blank n"
    and "row E s Projects k = Some j" and "j ''name'' = Some (VStr n)"
  shows "k = (pid, [])"
proof (cases "i ''name'' = Some (VStr n)")
  case True
  then show ?thesis using assms unfolding names_unique_def by blast
next
  case False
  show ?thesis
  proof (rule name_lookup [OF assms(6), of s])
    assume "\<forall>k i. row E s Projects k = Some i \<longrightarrow> i ''name'' \<noteq> Some (VStr n)"
    then show ?thesis using assms(7,8) by blast
  next
    fix k' d
    assume d: "get_project_by_name E n s = (Inr (Some d), s)" "row E s Projects k' = Some d"
      "d ''name'' = Some (VStr n)"
    then have "k = k'" using assms(1,6-8) unfolding names_unique_def by blast
    obtain q where k': "k' = (q, [])"
      using row_is_key [of "st_db s" Projects k'] d(2) by (cases k') (auto simp: is_key_def schema_defs)
    have "d ''project_id'' = Some (VStr q)" using project_row_id [of s q] d(2) k' by simp
    then have "VStr q = VStr pid"
      using assms(2,4-6) False d(1)
      by (auto simp: check_new_name_def act_inversions attr_eq_Inr whenA_def split: if_splits)
    then show ?thesis using \<open>k = k'\<close> k' by simp
  qed
qed

lemma update_project_cases:
  assumes "update_project E (Some p) s = (res, t)" and "p_project_id p = Some pid" and "clean_id pid"
  shows "(st_db t = st_db s \<and> (\<exists>e. res = Inl e)) \<or>
     (\<exists>s1 i u. st_db s1 = st_db s \<and> row E s Projects (pid, []) = Some i \<and>
        check_new_name E p i s = (Inr (), u) \<and>
        st_db t = ddb_put E (st_db s) Projects
          (project_update_of E s1 pid i (project_to_db (p\<lparr>p_enabled := None\<rparr>))))"
proof (cases "row E s Projects (pid, [])")
  case None
  then show ?thesis
    using assms clean_id_not_blank [OF assms(3)] by (auto simp: update_project_def Let_def)
next
  case (Some i)
  let ?p = "p\<lparr>p_enabled := None\<rparr>"
  obtain r s1 where checks: "update_checks E p i s = (r, s1)" by force
  have db: "st_db s1 = st_db s" by (rule reads_keep_db [OF keeps_update_checks checks])
  show ?thesis
  proof (cases r)
    case (Inl e)
    then show ?thesis using assms Some checks db clean_id_not_blank [OF assms(3)]
      by (auto simp: update_project_def Let_def)
  next
    case (Inr c)
    obtain g u where c: "c = (g, u)" by (cases c)
    have run: "store_project_update E ?p g u s1 = (res, t)"
      using assms Some checks Inr c clean_id_not_blank [OF assms(3)]
      by (simp add: update_project_def Let_def)
    obtain v where v: "check_new_name E p i s = (Inr (), v)"
      using checks Inr by (auto simp: update_checks_def seqA_eq_Inr)
    have pid: "project_to_db ?p ''project_id'' = Some (VStr pid)"
      using assms(2) by (simp add: project_to_db_def)
    let ?i = "project_update_of E s1 pid i (project_to_db ?p)"
    let ?s2 = "s1\<lparr>st_ticks := Suc (st_ticks s1), st_db := ddb_put E (st_db s1) Projects ?i\<rparr>"
    have dao: "projects_dao_update_project E (project_to_db ?p) s1 = (Inr ?i, ?s2)"
      using projects_dao_update_project_run [of "project_to_db ?p" pid E s1, OF pid assms(3)] Some db by simp
    have "keeps (table_inv P) (store_rest E g u ?i)" for P
      unfolding store_rest_def by (intro keeps_rules)
    moreover have "store_rest E g u ?i ?s2 = (res, t)"
      using run dao by (simp add: store_project_update_def store_rest_def)
    ultimately have "st_db t = st_db ?s2" by (rule reads_keep_db)
    then show ?thesis using db Some v by (intro disjI2 exI [of _ s1] exI [of _ i] exI [of _ v]) simp
  qed
qed

end

section \<open>The projects of a user\<close>

definition user_is_enabled :: "'db env \<Rightarrow> 'db \<Rightarrow> string \<Rightarrow> bool" where
  "user_is_enabled E d u \<longleftrightarrow> (\<exists>n i. sanitize_username u = Inr n \<and> ddb_get E d Users (n, []) = Some i \<and>
     get_value_as_bool ''enabled'' i None = Some True)"

text \<open>The enabled projects among the identifiers, as the conversions read them.\<close>

definition open_projects :: "'db env \<Rightarrow> 'db \<Rightarrow> string set \<Rightarrow> project set" where
  "open_projects E d ids = {p. \<exists>q \<in> ids. \<exists>i b. ddb_get E d Projects (q, []) = Some i \<and>
     i ''enabled'' = Some b \<and> py_truthy b \<and> project_from_db i = Inr p}"

lemma open_projects_insert:
  "open_projects E d (insert q ids) =
     (case ddb_get E d Projects (q, []) of
        None \<Rightarrow> {}
      | Some i \<Rightarrow> {p. project_from_db i = Inr p \<and> (\<exists>b. i ''enabled'' = Some b \<and> py_truthy b)}) \<union>
     open_projects E d ids"
  by (auto simp: open_projects_def split: option.splits)

lemma enabled_projects_result:
  "enabled_projects E ids s = (Inr ps, t) \<Longrightarrow>
     st_db t = st_db s \<and> set ps = open_projects E (st_db s) (set ids)"
proof (induction ids arbitrary: s ps)
  case Nil
  then show ?case by (simp add: open_projects_def)
next
  case (Cons q ids)
  have q: "\<not> blank q"
    using Cons.prems by (auto simp: get_project_by_id_def bindA_eq_Inr raise_if_eq_Inr)
  show ?case
  proof (cases "row E s Projects (q, [])")
    case None
    then show ?thesis using Cons q by (simp add: open_projects_insert)
  next
    case (Some i)
    then obtain b where b: "i ''enabled'' = Some b"
      using Cons.prems q by (auto simp: bindA_eq_Inr attr_eq_Inr)
    show ?thesis
    proof (cases "py_truthy b")
      case False
      then show ?thesis using Cons q Some b by (simp add: open_projects_insert)
    next
      case True
      then obtain p ps' where "project_from_db i = Inr p" "enabled_projects E ids s = (Inr ps', t)" "ps = p # ps'"
        using Cons.prems q Some b by (auto simp: bindA_eq_Inr)
      then show ?thesis using Cons.IH [of s ps'] Some b True by (simp add: open_projects_insert)
    qed
  qed
qed

lemma get_user_result:
  assumes "get_user E u s = (Inr x, t)"
  obtains n i where "sanitize_username u = Inr n" and "row E s Users (n, []) = Some i"
    and "user_from_db i = Inr x" and "st_db t = st_db s"
proof -
  obtain n where n: "sanitize_username u = Inr n" "\<not> blank n"
    using assms by (auto simp: get_user_def bindA_eq_Inr raise_if_eq_Inr)
  have "sanitize_username n = Inr n" by (rule norm_name_sanitize [OF sanitize_norm [OF n(1)]])
  then obtain i where i: "row E s Users (n, []) = Some i" "user_from_db i = Inr x"
    using assms n by (auto simp: get_user_def bindA_eq_Inr user_dao_get_user_def seqA_eq_Inr split: option.splits)
  have "st_db t = st_db s" by (rule reads_keep_db [OF keeps_get_user(1) assms])
  then show thesis using n i that by blast
qed

lemma user_is_enabled_iff:
  assumes "sanitize_username u = Inr n" and "ddb_get E d Users (n, []) = Some i" and "user_from_db i = Inr x"
  shows "user_is_enabled E d u \<longleftrightarrow> u_enabled x = Some True"
  using assms by (auto simp: user_is_enabled_def user_from_db_def bindE_eq_Inr)

context dynamodb_one_page
begin

lemma get_projects_by_username_run:
  assumes "\<not> blank u"
  obtains ps where "get_projects_by_username E u s = (Inr ps, s)"
    and "set ps = {p. row E s UserProjects (u, p) \<noteq> None}"
proof -
  have "range_key (schema UserProjects) \<noteq> None" by (simp add: schema_defs)
  then obtain ps where ps: "fst (ddb_query E (st_db s) UserProjects u None None) =
        map (\<lambda>p. the (row E s UserProjects (u, p))) ps"
      "set ps = {p. row E s UserProjects (u, p) \<noteq> None}"
    by (rule query_all [of UserProjects "st_db s" u])
  have "str_attr ''project_id'' (the (row E s UserProjects (u, p))) = Inr p" if p: "p \<in> set ps" for p
  proof -
    obtain i where "row E s UserProjects (u, p) = Some i" using p ps(2) by auto
    then show ?thesis using row_key [of "st_db s" UserProjects "(u, p)" i]
      by (auto simp: key_of_def schema_defs str_attr_def split: option.splits val.splits)
  qed
  then have "map_sum_list (str_attr ''project_id'') (map (\<lambda>p. the (row E s UserProjects (u, p))) ps) = Inr ps"
    by (induction ps) auto
  then show thesis using assms ps that by (simp add: get_projects_by_username_def)
qed

end

section \<open>Deleting a project\<close>

lemma for_each_cong: "(\<And>x. x \<in> set xs \<Longrightarrow> f x = g x) \<Longrightarrow> for_each xs f = for_each xs g"
  by (induction xs) auto

lemma bindA_known: "bindA (liftA (Inr x)) f = f x"
  by (simp add: fun_eq_iff)

context dynamodb_one_page
begin

lemma user_projects_delete_run:
  assumes "tables_ok E (st_db s)" and "\<not> blank p"
    and "\<forall>g u. (g, p) \<in> linked E (st_db s) \<and> u \<in> members E (st_db s) g \<longrightarrow> revocable E s p u"
  shows "\<exists>t. user_projects_delete_project E p s = (Inr (), t) \<and> unrelated E t = unrelated E s \<and>
     linked E (st_db t) = linked E (st_db s) - {(g, q). q = p} \<and>
     (\<forall>u q. access E (st_db t) (u, q) = access E (st_db s) (u, q) -
        (if q = p then {g. (g, p) \<in> linked E (st_db s) \<and> u \<in> members E (st_db s) g} else {}))"
proof -
  let ?flt = "[(''project_id'', EQ, VStr p)]"
  obtain ks where ks: "fst (ddb_scan E (st_db s) ProjectGroups ?flt) = map (\<lambda>k. the (row E s ProjectGroups k)) ks"
      "distinct ks" "set ks = {k. \<exists>i. row E s ProjectGroups k = Some i \<and> scan_matches ?flt i}"
    by (rule scan_all [of "st_db s" ProjectGroups ?flt])
  have attrs: "i ''group_name'' = Some (VStr (fst k)) \<and> i ''project_id'' = Some (VStr (snd k))"
    if k: "row E s ProjectGroups k = Some i" for k i
  proof -
    obtain g q where "k = (g, q)" by (cases k)
    then show ?thesis
      using row_key [OF k] by (auto simp: key_of_def schema_defs split: option.splits val.splits)
  qed
  have ks_eq: "k \<in> set ks \<longleftrightarrow> k \<in> linked E (st_db s) \<and> snd k = p" for k
  proof -
    have "scan_matches ?flt i \<longleftrightarrow> snd k = p" if "row E s ProjectGroups k = Some i" for i
      using attrs [OF that] by (simp add: scan_matches_def)
    then show ?thesis using ks(3) by (auto simp: linked_def)
  qed
  let ?gs = "map fst ks"
  have gs: "set ?gs = {g. (g, p) \<in> linked E (st_db s)}"
  proof -
    have "set ks = (\<lambda>g. (g, p)) ` {g. (g, p) \<in> linked E (st_db s)}"
    proof (rule set_eqI)
      fix k :: key
      show "k \<in> set ks \<longleftrightarrow> k \<in> (\<lambda>g. (g, p)) ` {g. (g, p) \<in> linked E (st_db s)}"
        unfolding ks_eq [of k] by (cases k) auto
    qed
    then have "set ?gs = fst ` ((\<lambda>g. (g, p)) ` {g. (g, p) \<in> linked E (st_db s)})" by simp
    then show ?thesis unfolding image_image by simp
  qed
  have group: "str_attr ''group_name'' (the (row E s ProjectGroups k)) = Inr (fst k)" if "k \<in> set ks" for k
    using that ks(3) attrs [of k] by (auto simp: str_attr_def)
  have loop: "for_each (fst (ddb_scan E (st_db s) ProjectGroups ?flt))
        (\<lambda>i. bindA (liftA (str_attr ''group_name'' i)) (\<lambda>g. ldap_group_removed E p g True)) =
      for_each ?gs (\<lambda>g. ldap_group_removed E p g True)"
    unfolding ks(1) for_each_map by (rule for_each_cong) (simp add: group bindA_known)
  have "\<forall>g \<in> set ?gs. \<not> blank g \<and> (\<forall>u \<in> members E (st_db s) g. revocable E s p u)"
    using gs tables_okD(3) [OF assms(1)] assms(3) by blast
  then obtain t where t: "for_each ?gs (\<lambda>g. ldap_group_removed E p g True) s = (Inr (), t)"
      "unrelated E t = unrelated E s" "linked E (st_db t) = linked E (st_db s) - (\<lambda>g. (g, p)) ` set ?gs"
      "\<forall>u q. access E (st_db t) (u, q) = access E (st_db s) (u, q) -
        (if q = p then {g \<in> set ?gs. u \<in> members E (st_db s) g} else {})"
    using ldap_groups_removed_run [OF tables_okD(1) [OF assms(1)] assms(2), of ?gs True] by blast
  have "user_projects_delete_project E p s = (Inr (), t)"
    using assms(2) t(1) by (simp add: user_projects_delete_project_def loop)
  moreover have "linked E (st_db t) = linked E (st_db s) - {(g, q). q = p}"
    using t(3) gs by auto
  ultimately show ?thesis using t(2,4) gs by (intro exI [of _ t]) simp
qed

end

section \<open>Concrete requests\<close>

lemma py_strip_no_space: "\<forall>c \<in> set s. \<not> py_space c \<Longrightarrow> py_strip s = s"
proof -
  assume a: "\<forall>c \<in> set s. \<not> py_space c"
  have "dropWhile py_space xs = xs" if "\<forall>c \<in> set xs. \<not> py_space c" for xs
    using that by (cases xs) simp_all
  from this [of s] this [of "rev s"] show ?thesis using a by (simp add: py_strip_def)
qed

lemma clean_id_digits: "clean_id (nat_digits n)"
proof -
  have "\<not> py_space c" if "digit_of c \<noteq> None" for c
    using that by (auto simp: digit_of_def py_space_def Let_def split: if_splits)
  then have "\<forall>c \<in> set (nat_digits n). \<not> py_space c" using nat_digits_digits by blast
  then show ?thesis by (simp add: clean_id_def py_strip_no_space nat_digits_ne)
qed

lemma local_uuids: "\<forall>n. clean_id (uuid_at (cfg local_env) n)"
  by (simp add: local_world_def clean_id_digits)

lemma sample_clean: "py_strip ''p'' = ''p''"
  by code_simp

lemma local_unused:
  "list_sessions_by_project_id local_world p = []" "list_software_stacks_by_project_id local_world p = []"
  by (simp_all add: local_world_def)

definition plain_project :: project where
  "plain_project = sample_project\<lparr>p_policy_arns := None, p_scripts := None\<rparr>"

lemma sample_request: "clean_request plain_project"
proof -
  have "py_strip ''proj'' = ''proj''" "py_strip ''b'' = ''b''" by code_simp+
  then show ?thesis by (simp add: clean_request_def clean_project_def clean_def plain_project_def sample_project_def clean_id_def)
qed

section \<open>Properties\<close>



text \<open>
  A project that could not be created is not stored: when creation fails the tables are what
  they were, unless the project was stored and enabled and only the announcing task could not
  be sent.
\<close>

theorem failed_creation_stores_nothing:
  assumes "dynamodb E" and "\<forall>n. clean_id (uuid_at (cfg E) n)" and "clean_request p"
    and "create_project E (Some p) s = (Inl e, t)"
  shows "st_db t = st_db s \<or>
     (\<exists>pid tr. st_trace t = tr @ [project_task ''projects.project-enabled'' pid] \<and>
        ext_result (cfg E) tr (project_task ''projects.project-enabled'' pid) = Inl e)"
proof -
  consider "st_db t = st_db s"
    | s1 where "store_new_project E (p\<lparr>p_enabled := Some False\<rparr>) s1 = (Inl e, t)"
    using dynamodb.create_project_cases [OF assms(1,4)] by blast
  then show ?thesis
  proof cases
    case 2
    obtain pid q where st: "st_trace t = st_trace s1 @ [project_task ''projects.project-enabled'' pid]"
        "(Inl e :: exn + project) = map_sum id (\<lambda>_. q) (ext_result (cfg E) (st_trace s1) (project_task ''projects.project-enabled'' pid))"
      using dynamodb.store_new_project_run [OF assms(1-3) 2] by blast
    have "ext_result (cfg E) (st_trace s1) (project_task ''projects.project-enabled'' pid) = Inl e"
      using st(2)
      by (cases "ext_result (cfg E) (st_trace s1) (project_task ''projects.project-enabled'' pid)") simp_all
    then show ?thesis using st(1) by blast
  qed simp
qed

theorem failed_creation_stores_nothing_witness:
  "\<exists>t. create_project local_env (Some (plain_project\<lparr>p_ldap_groups := None\<rparr>)) (local_state []) = (Inl TypeError, t) \<and>
     st_trace t = [] \<and> st_db t = []"
proof -
  let ?p = "plain_project\<lparr>p_ldap_groups := None\<rparr>"
  have "fst (create_project local_env (Some ?p) (local_state [])) = Inl TypeError"
    and tr: "st_trace (snd (create_project local_env (Some ?p) (local_state []))) = []" by code_simp+
  then obtain t where t: "create_project local_env (Some ?p) (local_state []) = (Inl TypeError, t)"
    by (metis prod.collapse)
  have "clean_request ?p"
    using sample_request by (simp add: clean_request_def clean_project_def plain_project_def sample_project_def)
  then show ?thesis
    using failed_creation_stores_nothing [OF mem_dynamodb local_uuids _ t] t tr by simp
qed

lemma names_unique_create:
  assumes "dynamodb E" and "\<forall>n. clean_id (uuid_at (cfg E) n)" and "clean_request p"
    and "names_unique E (st_db s)" and run: "create_project E (Some p) s = (res, t)"
  shows "names_unique E (st_db t)"
proof -
  consider "st_db t = st_db s"
    | s1 where "st_db s1 = st_db s"
      "\<forall>k i. row E s Projects k = Some i \<longrightarrow> i ''name'' \<noteq> Some (VStr (str_or_empty (p_name p)))"
      "store_new_project E (p\<lparr>p_enabled := Some False\<rparr>) s1 = (res, t)"
    using dynamodb.create_project_cases [OF assms(1) run] by blast
  then show ?thesis
  proof cases
    case 2
    obtain pid i where st: "row E t Projects (pid, []) = Some i" "i ''name'' = map_option VStr (p_name p)"
        "\<forall>x k. (x, k) \<noteq> (Projects, (pid, [])) \<longrightarrow> row E t x k = row E s1 x k"
      using dynamodb.store_new_project_run [OF assms(1-3) 2(3)] by blast
    have "j ''name'' \<noteq> i ''name''" if "row E s Projects k = Some j" "i ''name'' = Some (VStr m)" for k j m
      using that(1) that(2) [unfolded st(2)] st(2) 2(2) by (cases "p_name p") fastforce+
    moreover have "row E t Projects k = row E s Projects k" if "k \<noteq> (pid, [])" for k
      using st(3) 2(1) that by (metis prod.inject)
    ultimately show ?thesis
      by (intro dynamodb.names_unique_after [OF assms(1,4) st(1)]) metis+
  qed (use assms(4) in simp)
qed

lemma names_unique_update:
  assumes "dynamodb E" and "p_project_id p = Some pid" and "clean_id pid"
    and "names_unique E (st_db s)" and run: "update_project E (Some p) s = (res, t)"
  shows "names_unique E (st_db t)"
proof -
  let ?x = "\<lambda>s1 i. project_update_of E s1 pid i (project_to_db (p\<lparr>p_enabled := None\<rparr>))"
  consider "st_db t = st_db s"
    | s1 i u where "row E s Projects (pid, []) = Some i" "check_new_name E p i s = (Inr (), u)"
      "st_db t = ddb_put E (st_db s) Projects (?x s1 i)"
    using dynamodb.update_project_cases [OF assms(1) run assms(2,3)] by blast
  then show ?thesis
  proof cases
    case 2
    have name: "?x s1 i ''name'' = (case p_name p of None \<Rightarrow> i ''name'' | Some n \<Rightarrow> Some (VStr n))"
      by (simp add: project_update_of_lookup project_to_db_def split: option.split)
    have put: "row E t Projects (pid, []) = Some (?x s1 i)"
        "k \<noteq> (pid, []) \<Longrightarrow> row E t Projects k = row E s Projects k" for k
      using 2(3) by (simp_all add: dynamodb.project_update_rows [OF assms(1)])
    show ?thesis
    proof (rule dynamodb.names_unique_after [OF assms(1,4) put])
      fix n k j
      assume n: "?x s1 i ''name'' = Some (VStr n)" "\<not> blank n" and j: "row E s Projects k = Some j" "j ''name'' = Some (VStr n)"
      show "k = (pid, [])"
      proof (cases "p_name p")
        case None
        then have "i ''name'' = Some (VStr n)" using n(1) name by simp
        then show ?thesis using names_uniqueD [OF assms(4) j(1) 2(1) j(2)] n(2) by simp
      next
        case (Some m)
        then have "m = n" using n name by simp
        then show ?thesis
          using dynamodb.check_new_name_ok [OF assms(1,4) 2(2,1) assms(2) _ n(2) j] Some by simp
      qed
    qed
  qed (use assms(4) in simp)
qed

lemma names_unique_enable:
  assumes "dynamodb E" and "clean_id pid" and "names_unique E (st_db s)"
  shows "names_unique E (st_db (snd (set_project_enabled E b task pid n s)))"
proof (cases "row E s Projects (pid, [])")
  case None
  then show ?thesis using assms clean_id_not_blank [OF assms(2)] by (simp add: set_project_enabled_def)
next
  case (Some i)
  let ?x = "project_update_of E s pid i [''project_id'' \<mapsto> VStr pid, ''enabled'' \<mapsto> VBool b]"
  let ?t = "snd (set_project_enabled E b task pid n s)"
  have t: "st_db ?t = ddb_put E (st_db s) Projects ?x"
    using dynamodb.set_project_enabled_run [OF assms(1,2) Some] by simp
  have put: "row E ?t Projects (pid, []) = Some ?x"
      "k \<noteq> (pid, []) \<Longrightarrow> row E ?t Projects k = row E s Projects k" for k
    using t by (simp_all add: dynamodb.project_update_rows [OF assms(1)])
  have "?x ''name'' = i ''name''" by (simp add: project_update_of_lookup)
  then show ?thesis
    using Some assms(3)
    by (intro dynamodb.names_unique_after [OF assms(1,3) put]) (simp_all, metis names_uniqueD)
qed



text \<open>
  An update never switches a project on or off, whatever the request says, and never moves
  it to another identifier: the state and the creation time stay what they were.
\<close>

theorem update_keeps_the_state:
  assumes "dynamodb E" and "p_project_id p = Some pid" and "clean_id pid"
    and "row E s Projects (pid, []) = Some i"
  shows "\<exists>j. row E (snd (update_project E (Some p) s)) Projects (pid, []) = Some j \<and>
     j ''enabled'' = i ''enabled'' \<and> j ''created_on'' = i ''created_on'' \<and>
     (\<forall>x k. (x, k) \<noteq> (Projects, (pid, [])) \<longrightarrow>
        row E (snd (update_project E (Some p) s)) x k = row E s x k)"
proof -
  obtain res t where run: "update_project E (Some p) s = (res, t)" by force
  let ?x = "\<lambda>s1 i. project_update_of E s1 pid i (project_to_db (p\<lparr>p_enabled := None\<rparr>))"
  consider "st_db t = st_db s"
    | s1 where "st_db t = ddb_put E (st_db s) Projects (?x s1 i)"
    using dynamodb.update_project_cases [OF assms(1) run assms(2,3)] assms(4) by auto
  then show ?thesis
  proof cases
    case 2
    have "?x s1 i ''enabled'' = i ''enabled''" "?x s1 i ''created_on'' = i ''created_on''"
      by (simp_all add: project_update_of_lookup project_to_db_def)
    then show ?thesis
      using 2 by (simp add: run dynamodb.project_update_rows [OF assms(1)])
  qed (use assms(4) in \<open>simp add: run\<close>)
qed

theorem update_keeps_the_state_witness:
  "\<exists>j. row local_env (snd (update_project local_env
       (Some (plain_project\<lparr>p_enabled := Some False\<rparr>)) (local_state sample_db))) Projects (''p'', []) = Some j \<and>
     j ''enabled'' = Some (VBool True)"
proof -
  obtain i where i: "mem_get sample_db Projects (''p'', []) = Some i" "i ''enabled'' = Some (VBool True)"
    by (simp add: mem_get_def sample_db_def key_item_def schema_defs)
  then show ?thesis
    using update_keeps_the_state [OF mem_dynamodb, of "plain_project\<lparr>p_enabled := Some False\<rparr>" "''p''"
        None local_world "local_state sample_db" i]
    by (auto simp: plain_project_def sample_project_def clean_id_def sample_clean)
qed



text \<open>
  Deleting an unused project removes its row and every link to a group, and with them all
  access that came from groups; access to other projects stays. What a project gave a user
  by name (\<open>SELF\<close>) is not taken away: the row of that user outlives the project.
\<close>

theorem deleting_a_project:
  assumes "dynamodb_one_page E" and "consistent E (st_db s)" and "tables_ok E (st_db s)"
    and "clean_id pid" and "row E s Projects (pid, []) = Some i" and "project_from_db i = Inr p"
    and "list_sessions_by_project_id (cfg E) pid = []" and "list_software_stacks_by_project_id (cfg E) pid = []"
    and "(''SELF'', pid) \<notin> linked E (st_db s)"
    and "\<forall>g u. (g, pid) \<in> linked E (st_db s) \<and> u \<in> members E (st_db s) g \<longrightarrow> user_exists E (st_db s) u"
  shows "\<exists>t. delete_project E pid [] s = (Inr (), t) \<and> row E t Projects (pid, []) = None \<and>
     (\<forall>g. (g, pid) \<notin> linked E (st_db t)) \<and>
     (\<forall>u. access E (st_db t) (u, pid) = access E (st_db s) (u, pid) \<inter> {''SELF''}) \<and>
     (\<forall>u q. q \<noteq> pid \<longrightarrow> access E (st_db t) (u, q) = access E (st_db s) (u, q))"
proof -
  note dyn = dynamodb_one_page.axioms(1) [OF assms(1)]
  have nb: "\<not> blank pid" by (rule clean_id_not_blank [OF assms(4)])
  have "\<forall>g u. (g, pid) \<in> linked E (st_db s) \<and> u \<in> members E (st_db s) g \<longrightarrow> revocable E s pid u"
    using assms(5,10) by (simp add: revocable_def)
  then obtain t where t: "user_projects_delete_project E pid s = (Inr (), t)"
      "linked E (st_db t) = linked E (st_db s) - {(g, q). q = pid}"
      "\<forall>u q. access E (st_db t) (u, q) = access E (st_db s) (u, q) -
        (if q = pid then {g. (g, pid) \<in> linked E (st_db s) \<and> u \<in> members E (st_db s) g} else {})"
    using dynamodb_one_page.user_projects_delete_run [OF assms(1,3) nb] by blast
  define d where "d = ddb_delete E (st_db t) Projects (pid, [])"
  have "i ''project_id'' = Some (VStr pid)" by (rule dynamodb.project_row_id [OF dyn assms(5)])
  then have "p_project_id p = Some pid"
    using row_read_back(1) [OF assms(6)] assms(4) by (simp add: get_value_as_string_VStr clean_id_def)
  then have run: "delete_project E pid [] s = (Inr (), t\<lparr>st_db := d\<rparr>)"
    using assms(4-8) nb t(1)
    by (simp add: delete_project_def projects_dao_delete_project_def d_def clean_id_def)
  have "access E d = access E (st_db t)" "linked E d = linked E (st_db t)"
    by (simp_all add: d_def dynamodb.access_other_table [OF dyn] linked_def dynamodb.get_delete [OF dyn])
  moreover have "row E (t\<lparr>st_db := d\<rparr>) Projects (pid, []) = None"
    by (simp add: d_def dynamodb.get_delete [OF dyn])
  moreover have "access E (st_db t) (u, pid) = access E (st_db s) (u, pid) \<inter> {''SELF''}" for u
    using t(3) assms(2,9) by (auto simp: consistent_def)
  ultimately show ?thesis using run t(2,3) by (intro exI [of _ "t\<lparr>st_db := d\<rparr>"]) simp
qed

theorem deleting_a_project_witness:
  "\<exists>t. delete_project local_env ''p'' [] (local_state sample_db) = (Inr (), t) \<and>
     row local_env t Projects (''p'', []) = None \<and> access local_env (st_db t) (''v'', ''p'') = {''SELF''}"
proof -
  obtain i where i: "mem_get sample_db Projects (''p'', []) = Some i" using sample_rows(3) by blast
  have "\<not> isl (project_from_db (the (mem_get sample_db Projects (''p'', []))))" by code_simp
  then obtain p where p: "project_from_db i = Inr p" using i by (cases "project_from_db i") auto
  have "\<exists>t. delete_project local_env ''p'' [] (local_state sample_db) = (Inr (), t) \<and>
     row local_env t Projects (''p'', []) = None \<and> (\<forall>g. (g, ''p'') \<notin> linked local_env (st_db t)) \<and>
     (\<forall>u. access local_env (st_db t) (u, ''p'') = access local_env sample_db (u, ''p'') \<inter> {''SELF''}) \<and>
     (\<forall>u q. q \<noteq> ''p'' \<longrightarrow> access local_env (st_db t) (u, q) = access local_env sample_db (u, q))"
    by (rule deleting_a_project [OF mem_dynamodb_one_page, of local_world "local_state sample_db" "''p''" i p,
          unfolded local_state_simps])
       (use i p sample_ok sample_users in \<open>simp_all add: sample_linked sample_members clean_id_def sample_clean local_unused split: if_splits\<close>)
  then show ?thesis by (auto simp: sample_access)
qed

text \<open>
  A project that virtual desktop sessions or software stacks still use is not deleted: the
  method raises and nothing at all changes.
\<close>

theorem used_projects_are_not_deleted:
  assumes "dynamodb E" and "clean_id pid" and "row E s Projects (pid, []) = Some i"
    and "project_from_db i = Inr p"
    and "list_sessions_by_project_id (cfg E) pid \<noteq> [] \<or> list_software_stacks_by_project_id (cfg E) pid \<noteq> []"
  shows "delete_project E pid [] s = (Inl general_exception, s)"
proof -
  have "i ''project_id'' = Some (VStr pid)" by (rule dynamodb.project_row_id [OF assms(1,3)])
  then have "p_project_id p = Some pid"
    using row_read_back(1) [OF assms(4)] assms(2) by (simp add: get_value_as_string_VStr clean_id_def)
  then show ?thesis
    using assms(2-5) clean_id_not_blank [OF assms(2)] by (auto simp: delete_project_def clean_id_def raise_if_def)
qed

theorem used_projects_are_not_deleted_witness:
  "delete_project (mem_env None (local_world\<lparr>list_sessions_by_project_id := \<lambda>_. [''session'']\<rparr>)) ''p'' []
     (local_state sample_db) = (Inl general_exception, local_state sample_db)"
proof -
  obtain i where i: "mem_get sample_db Projects (''p'', []) = Some i" using sample_rows(3) by blast
  have "\<not> isl (project_from_db (the (mem_get sample_db Projects (''p'', []))))" by code_simp
  then obtain p where p: "project_from_db i = Inr p" using i by (cases "project_from_db i") auto
  show ?thesis
    by (rule used_projects_are_not_deleted [OF mem_dynamodb, where i = i and p = p])
       (use i p in \<open>simp_all add: clean_id_def sample_clean\<close>)
qed

text \<open>A request that carries the identifier and the name of a project only.\<close>

definition bare_request :: "string \<Rightarrow> string \<Rightarrow> project" where
  "bare_request pid n = \<lparr>p_project_id = Some pid, p_name = Some n, p_title = None, p_description = None,
     p_enabled = None, p_ldap_groups = None, p_users = None, p_enable_budgets = None, p_budget = None,
     p_tags = None, p_created_on = None, p_updated_on = None, p_security_groups = None,
     p_policy_arns = None, p_scripts = None\<rparr>"

lemma bare_request_simps [simp]:
  "p_project_id (bare_request pid n) = Some pid" "p_name (bare_request pid n) = Some n"
  "p_enabled (bare_request pid n) = None" "p_ldap_groups (bare_request pid n) = None"
  "p_users (bare_request pid n) = None" "p_enable_budgets (bare_request pid n) = None"
  "p_security_groups (bare_request pid n) = None" "p_policy_arns (bare_request pid n) = None"
  "p_scripts (bare_request pid n) = None" "(bare_request pid n)\<lparr>p_enabled := None\<rparr> = bare_request pid n"
  by (simp_all add: bare_request_def)

lemma list_changes_none [simp]: "list_changes E None v f = return ([], [])"
  by (simp add: list_changes_def list_or_nil_def)

text \<open>Nothing but the policies is left to check of such a request.\<close>

lemma bare_update_run:
  assumes "clean_id pid" and "row E s Projects (pid, []) = Some i" and "i ''name'' = Some (VStr n)"
  shows "update_project E (Some (bare_request pid n)) s =
     seqA (update_policies E (bare_request pid n) i)
       (store_project_update E (bare_request pid n) ([], []) ([], [])) s"
proof -
  let ?p = "bare_request pid n"
  have "check_new_name E ?p i s = (Inr (), s)"
    using assms(3) by (simp add: check_new_name_def whenA_def)
  moreover have "check_budget E ?p s = (Inr (), s)" "check_scripts ?p s = (Inr (), s)"
    "check_security_groups E ?p s = (Inr (), s)"
    by (simp_all add: check_budget_def opt_bool_def check_scripts_def check_security_groups_def list_or_nil_def)
  moreover obtain r t where "update_policies E ?p i s = (r, t)" by force
  ultimately show ?thesis
    using assms(1,2) clean_id_not_blank [OF assms(1)]
    by (cases r) (simp_all add: update_project_def update_checks_def Let_def)
qed

text \<open>
  A flaw: an update that says nothing about policies detaches every policy of the project's
  role, while the row keeps naming them. The request carries the identifier and
  the unchanged name only.
\<close>

theorem bare_update_strips_the_role:
  assumes "dynamodb E" and "client_errors (cfg E)" and "clean_id pid" and "row E s Projects (pid, []) = Some i"
    and "i ''name'' = Some (VStr n)" and "i ''policy_arns'' = Some (strs ps)" and "ps \<noteq> []"
    and "r = get_vdi_role_name (cluster_name (cfg E)) n" and "set ps \<subseteq> policies E r s"
    and "does_vdi_role_exist E r s = (Inr True, s1)"
    and "update_project E (Some (bare_request pid n)) s = (Inr q, t)"
  shows "policies E r t = policies E r s - set ps \<and>
     (\<exists>j. row E t Projects (pid, []) = Some j \<and> j ''policy_arns'' = Some (strs ps))"
proof -
  let ?p = "bare_request pid n"
  have names: "names_of (stored_list i ''policy_arns'') = Inr ps"
  proof -
    have "map_sum_list name_arg (map VStr ps) = Inr ps" by (induction ps) (simp_all add: name_arg_def)
    moreover have "stored_list i ''policy_arns'' = strs ps" using assms(6,7) by (simp add: stored_list_def)
    ultimately show ?thesis by (simp add: names_of_def list_all_iff)
  qed
  have arns: "policy_arns_of ?p = []"
    by (simp add: policy_arns_of_def bare_request_def get_as_string_list_def list_or_nil_def map_filter_def)
  have set: "set (name_set E ps) = set ps" by (simp add: name_set_def)
  have minus: "set_minus E ps [] = name_set E ps" "set_minus E [] ps = []"
    by (simp_all add: set_minus_def name_set_def py_set_list_def)
  have ne: "name_set E ps \<noteq> []" using set assms(7) by (metis set_empty)
  obtain b s2 where role: "update_vdi_role E n (name_set E ps) [] s = (Inr b, s2)"
      and t: "store_project_update E ?p ([], []) ([], []) s2 = (Inr q, t)"
    using assms(11) bare_update_run [OF assms(3-5)] names arns minus ne
    by (auto simp: update_policies_def Let_def seqA_eq_Inr check_policies_def)
  have "policies E r s2 = policies E r s - set ps"
    using role_update_effect [OF assms(2,8,10) _ _ role] assms(9) set by simp
  have db: "st_db s2 = st_db s"
    by (rule reads_keep_db [OF keeps_role_methods(2) role])
  let ?u = "project_to_db ?p"
  have u: "?u ''project_id'' = Some (VStr pid)" "?u ''policy_arns'' = None"
    by (simp_all add: project_to_db_def bare_request_def)
  let ?j = "project_update_of E s2 pid i ?u"
  have "t = s2\<lparr>st_ticks := Suc (st_ticks s2), st_db := ddb_put E (st_db s) Projects ?j\<rparr>"
    using t projects_dao_update_project_run [of ?u pid E s2, OF u(1) assms(3)] assms(4) db
    by (auto simp: store_project_update_def bindA_eq_Inr seqA_eq_Inr whenA_def)
  moreover have "?j ''policy_arns'' = Some (strs ps)"
    using assms(6) u(2) by (simp add: project_update_of_lookup)
  ultimately show ?thesis
    using \<open>policies E r s2 = policies E r s - set ps\<close> dynamodb.project_update_rows [OF assms(1)] by simp
qed

text \<open>A stored project \<open>p\<close> with the policy \<open>old\<close> attached to its role.\<close>

definition role_state :: "mem_db st" where
  "role_state = iam_state\<lparr>st_db := [((Projects, (''p'', [])),
     [''name'' \<mapsto> VStr ''p'', ''policy_arns'' \<mapsto> strs [''old'']])]\<rparr>"

theorem bare_update_strips_the_role_witness:
  "\<exists>q t. update_project (mem_env None iam_world) (Some (bare_request ''p'' ''p'')) role_state = (Inr q, t) \<and>
     policies (mem_env None iam_world) ''res-vdi-p'' t = {}"
proof -
  let ?E = "mem_env None iam_world"
  have "\<not> isl (fst (update_project ?E (Some (bare_request ''p'' ''p'')) role_state))" by code_simp
  then obtain q t where t: "update_project ?E (Some (bare_request ''p'' ''p'')) role_state = (Inr q, t)"
    by (cases "update_project ?E (Some (bare_request ''p'' ''p'')) role_state";
        cases "fst (update_project ?E (Some (bare_request ''p'' ''p'')) role_state)") auto
  have "fst (does_vdi_role_exist ?E ''res-vdi-p'' role_state) = Inr True" by code_simp
  then obtain s1 where s1: "does_vdi_role_exist ?E ''res-vdi-p'' role_state = (Inr True, s1)"
    by (metis prod.collapse)
  have "ext_result iam_world [] (role_attach ''res-vdi-p'' ''old'') = Inr VNone"
    by (simp add: iam_world_def) (simp add: role_attach_def)
  then have pol: "policies ?E ''res-vdi-p'' role_state = {''old''}"
    by (simp add: role_state_def iam_state_def attached_def answered_def)
  obtain i where i: "mem_get (st_db role_state) Projects (''p'', []) = Some i"
      "i ''name'' = Some (VStr ''p'')" "i ''policy_arns'' = Some (strs [''old''])"
    by (simp add: role_state_def mem_get_def is_key_def key_item_def schema_defs)
  have r: "''res-vdi-p'' = get_vdi_role_name (cluster_name (cfg ?E)) ''p''"
    by (simp add: get_vdi_role_name_def iam_world_def local_world_def)
  have "clean_id ''p''" by (simp add: clean_id_def sample_clean)
  then have "policies ?E ''res-vdi-p'' t = policies ?E ''res-vdi-p'' role_state - set [''old'']"
    using bare_update_strips_the_role [OF mem_dynamodb _ _ _ i(2,3) _ r _ s1 t] i(1) pol iam_world_errors
    by simp
  then show ?thesis using t pol by simp
qed

end
