(* ===== verification/Frames.thy ===== *)
theory Frames
  imports Projects_Life
begin

text \<open>
  Which tables an operation writes. Each lemma says of an operation that it keeps every
  invariant that tolerates the writes to its tables, whatever the outcome; the
  directory synchronisation, the tasks and the protection of the administrator rest on them.
\<close>

section \<open>Data access objects\<close>

text \<open>
  An update of a user that neither disables the user nor takes the administrator role away;
  \<open>bears\<close> is an invariant such updates keep.
\<close>

definition harmless :: "item \<Rightarrow> bool" where
  "harmless d \<longleftrightarrow> (\<forall>v. d ''enabled'' = Some v \<longrightarrow> v = VBool True) \<and>
     (\<forall>v. d ''role'' = Some v \<longrightarrow> v = VStr ''admin'')"

definition bears :: "'db env \<Rightarrow> ('db \<Rightarrow> bool) \<Rightarrow> bool" where
  "bears E P \<longleftrightarrow> (\<forall>d. harmless d \<longrightarrow> keeps (table_inv P) (user_dao_update_user E d))"

lemma keeps_user_dao:
  "tolerates E P Users \<Longrightarrow> keeps (table_inv P) (user_dao_create_user E u)"
  "tolerates E P Users \<Longrightarrow> keeps (table_inv P) (user_dao_update_user E u)"
  "tolerates E P Users \<Longrightarrow> keeps (table_inv P) (user_dao_delete_user E n)"
  unfolding user_dao_create_user_def user_dao_update_user_def user_dao_delete_user_def Let_def
  by (intro keeps_rules; assumption)+

lemma keeps_harmless_update [keeps_rules]:
  "bears E P \<Longrightarrow> harmless d \<Longrightarrow> keeps (table_inv P) (user_dao_update_user E d)"
  by (simp add: bears_def)

lemma tolerates_bears: "tolerates E P Users \<Longrightarrow> bears E P"
  by (simp add: bears_def keeps_user_dao)

lemma keeps_group_dao_get [keeps_rules]: "keeps (table_inv P) (group_dao_get_group E g)"
  unfolding group_dao_get_group_def by (intro keeps_rules)

lemma keeps_members_dao [keeps_rules]:
  "tolerates E P GroupMembers \<Longrightarrow> keeps (table_inv P) (create_membership E g u)"
  "tolerates E P GroupMembers \<Longrightarrow> keeps (table_inv P) (delete_membership E g u)"
  "keeps (table_inv P) (has_users_in_group E g)"
  "keeps (table_inv P) (get_usernames_in_group E g)"
  unfolding create_membership_def delete_membership_def has_users_in_group_def get_usernames_in_group_def
  by (intro keeps_rules; assumption?)+

lemma keeps_projects_dao [keeps_rules]:
  "tolerates E P Projects \<Longrightarrow> keeps (table_inv P) (projects_dao_create_project E d)"
  "tolerates E P Projects \<Longrightarrow> keeps (table_inv P) (projects_dao_update_project E d)"
  "tolerates E P Projects \<Longrightarrow> keeps (table_inv P) (projects_dao_delete_project E p)"
  unfolding projects_dao_create_project_def projects_dao_update_project_def
    projects_dao_delete_project_def Let_def
  by (intro keeps_rules; assumption)+

section \<open>User projects\<close>

lemma keeps_existing_ldaps [keeps_rules]: "keeps I (existing_ldaps x)"
  unfolding existing_ldaps_def by (intro keeps_rules)

lemma keeps_project_attr [keeps_rules]: "keeps I (project_attr p k)"
  unfolding project_attr_def by (intro keeps_rules)

lemma keeps_for_each_name [keeps_rules]:
  "(\<And>x. keeps I (f x)) \<Longrightarrow> keeps I (for_each_name v f)"
  unfolding for_each_name_def by (intro keeps_rules)

lemma keeps_user_projects_reads [keeps_rules]:
  "keeps (table_inv P) (is_user_in_project E u p)"
  "keeps (table_inv P) (get_projects_by_username E u)"
  "keeps (table_inv P) (get_projects_by_group_name E g)"
  "keeps (table_inv P) (has_projects_in_group E g)"
  unfolding is_user_in_project_def get_projects_by_username_def get_projects_by_group_name_def
    has_projects_in_group_def
  by (intro keeps_rules)+

lemma keeps_user_projects [keeps_rules]:
  "tolerates E P UserProjects \<Longrightarrow> keeps (table_inv P) (create_user_project E p u xs)"
  "tolerates E P UserProjects \<Longrightarrow> keeps (table_inv P) (delete_user_project E p u xs b)"
  unfolding create_user_project_def delete_user_project_def Let_def
  by (intro keeps_rules; assumption)+

lemma keeps_user_projects_of_group [keeps_rules]:
  "tolerates E P UserProjects \<Longrightarrow> keeps (table_inv P) (group_member_added E g u)"
  "tolerates E P UserProjects \<Longrightarrow> keeps (table_inv P) (group_member_removed E g u)"
  "tolerates E P ProjectGroups \<Longrightarrow> tolerates E P UserProjects \<Longrightarrow>
     keeps (table_inv P) (ldap_group_added E p g)"
  "tolerates E P ProjectGroups \<Longrightarrow> tolerates E P UserProjects \<Longrightarrow>
     keeps (table_inv P) (ldap_group_removed E p g b)"
  unfolding group_member_added_def group_member_removed_def ldap_group_added_def ldap_group_removed_def
  by (intro keeps_rules; assumption)+

lemma keeps_user_projects_of_project [keeps_rules]:
  "tolerates E P ProjectGroups \<Longrightarrow> tolerates E P UserProjects \<Longrightarrow>
     keeps (table_inv P) (project_enabled E p)"
  "tolerates E P ProjectGroups \<Longrightarrow> tolerates E P UserProjects \<Longrightarrow>
     keeps (table_inv P) (project_disabled E p)"
  "tolerates E P ProjectGroups \<Longrightarrow> tolerates E P UserProjects \<Longrightarrow>
     keeps (table_inv P) (user_projects_delete_project E p)"
  unfolding project_enabled_def project_disabled_def user_projects_delete_project_def
  by (intro keeps_rules; assumption)+

section \<open>Groups and their members\<close>

lemma keeps_additional_groups [keeps_rules]: "keeps I (additional_groups_of d)"
  unfolding additional_groups_of_def by (intro keeps_rules)

lemma keeps_store_additional_groups [keeps_rules]:
  "bears E P \<Longrightarrow> keeps (table_inv P) (store_additional_groups E u gs)"
  unfolding store_additional_groups_def by (intro keeps_rules) (simp_all add: harmless_def)

lemma keeps_drop_memberships [keeps_rules]:
  "tolerates E P GroupMembers \<Longrightarrow> keeps (table_inv P) (drop_memberships E u d gs vs)"
  by (induction gs arbitrary: vs) (auto intro!: keeps_rules)

lemma keeps_memberships [keeps_rules]:
  assumes "bears E P" and "tolerates E P GroupMembers" and "tolerates E P UserProjects"
  shows "keeps (table_inv P) (add_user_to_group E g b u)"
    and "keeps (table_inv P) (add_users_to_group E us g b)"
    and "keeps (table_inv P) (remove_user_from_groups E u gs)"
    and "keeps (table_inv P) (remove_user_from_group E g b u)"
    and "keeps (table_inv P) (remove_users_from_group E us g b)"
proof -
  show add: "keeps (table_inv P) (add_user_to_group E g b u)" for g b u
    unfolding add_user_to_group_def by (intro keeps_rules assms)
  show "keeps (table_inv P) (add_users_to_group E us g b)"
    unfolding add_users_to_group_def by (intro keeps_rules add)
  show "keeps (table_inv P) (remove_user_from_groups E u gs)"
    unfolding remove_user_from_groups_def Let_def by (intro keeps_rules assms)
  show rem: "keeps (table_inv P) (remove_user_from_group E g b u)" for g b u
    unfolding remove_user_from_group_def by (intro keeps_rules assms)
  have leave: "keeps (table_inv P) (leave_deleted_group E u)" for u
    unfolding leave_deleted_group_def by (intro keeps_rules)
  show "keeps (table_inv P) (remove_users_from_group E us g b)"
    unfolding remove_users_from_group_def by (intro keeps_rules rem leave)
qed

lemma keeps_remove_projects [keeps_rules]:
  assumes "tolerates E P Projects" and "tolerates E P ProjectGroups" and "tolerates E P UserProjects"
  shows "keeps (table_inv P) (remove_projects_from_group E ps g b)"
proof -
  have find: "keeps (table_inv P) (project_of_group E b p)" for b p
    unfolding project_of_group_def by (intro keeps_rules)
  have drop: "keeps (table_inv P) (drop_group_of_project E g p)" for g p
    unfolding drop_group_of_project_def by (intro keeps_rules assms)
  show ?thesis unfolding remove_projects_from_group_def by (intro keeps_rules find drop)
qed

lemma keeps_log_soca [keeps_rules]: "keeps I m \<Longrightarrow> keeps I (log_soca m)"
  unfolding log_soca_def by (intro keeps_rules)

lemma keeps_gid_of_external_group [keeps_rules]: "keeps I (gid_of_external_group E n)"
  unfolding gid_of_external_group_def Let_def by (intro keeps_rules)

text \<open>A single row that may be written: its group is created, changed or deleted.\<close>

definition tolerates_row :: "'db env \<Rightarrow> ('db \<Rightarrow> bool) \<Rightarrow> table \<Rightarrow> key \<Rightarrow> bool" where
  "tolerates_row E P t k \<longleftrightarrow>
     (\<forall>d i. key_of t i = Some k \<longrightarrow> P d \<longrightarrow> P (ddb_put E d t i)) \<and> (\<forall>d. P d \<longrightarrow> P (ddb_delete E d t k))"

lemma keeps_row_writes:
  "tolerates_row E P t k \<Longrightarrow> key_of t i = Some k \<Longrightarrow> keeps (table_inv P) (db_put_new E t i)"
  "tolerates_row E P t k \<Longrightarrow> keeps (table_inv P) (db_delete E t k)"
  "tolerates_row E P t k \<Longrightarrow> is_key t k \<Longrightarrow> keeps (table_inv P) (db_update_existing E t k u)"
  by (auto simp: tolerates_row_def keeps_def table_inv_def key_of_set_attributes)

lemma group_to_db_key: "g_name g = Some n \<Longrightarrow> group_to_db g ''group_name'' = Some (VStr n)"
  by (simp add: group_to_db_def put_opt_def split: option.split)

lemma keeps_create_group:
  assumes "tolerates_row E P Groups (str_or_empty (g_name g), [])"
  shows "keeps (table_inv P) (create_group E g)"
proof (cases "g_name g")
  case None
  then show ?thesis by (simp add: create_group_def raise_if_def keeps_raise)
next
  case (Some n)
  have new: "keeps (table_inv P) (group_dao_create_group E (group_to_db (g\<lparr>g_type := x, g_gid := y, g_enabled := z\<rparr>)))"
    for x y z
    unfolding group_dao_create_group_def Let_def using assms Some
    by (intro keeps_rules keeps_row_writes(1)) (simp_all add: key_of_def schema_defs group_to_db_key)
  then show ?thesis unfolding create_group_def Let_def by (intro keeps_rules new)
qed

lemma keeps_delete_group:
  assumes "bears E P" and "tolerates E P GroupMembers" and "tolerates E P UserProjects"
    and "tolerates E P Projects" and "tolerates E P ProjectGroups" and "tolerates_row E P Groups (g, [])"
  shows "keeps (table_inv P) (delete_group E g b)"
proof -
  have del: "keeps (table_inv P) (group_dao_delete_group E g)"
    unfolding group_dao_delete_group_def by (intro keeps_rules keeps_row_writes(2) assms)
  then show ?thesis unfolding delete_group_def by (intro keeps_rules assms del)
qed

section \<open>Users\<close>

lemma keeps_admins [keeps_rules]:
  assumes "bears E P"
  shows "keeps (table_inv P) (add_admin_user E u)" and "keeps (table_inv P) (enable_user E u)"
  unfolding add_admin_user_def enable_user_def
  by (intro keeps_rules assms; simp add: harmless_def)+

lemma keeps_bootstrap_password [keeps_rules]: "keeps (table_inv P) (bootstrap_password E u b)"
  unfolding bootstrap_password_def describe_password_policy_def by (intro keeps_rules)

lemma harmless_user_updates: "harmless (user_updates_of u n e)"
  by (simp add: harmless_def user_updates_of_def put_opt_def split: option.split)

lemma keeps_user_changes [keeps_rules]:
  assumes "bears E P" and "tolerates E P GroupMembers" and "tolerates E P UserProjects"
  shows "keeps (table_inv P) (activate_user E u)" and "keeps (table_inv P) (modify_user E u b)"
proof -
  show act: "keeps (table_inv P) (activate_user E u)" for u
    unfolding activate_user_def Let_def by (intro keeps_rules assms) (simp add: harmless_def)
  show "keeps (table_inv P) (modify_user E u b)"
    unfolding modify_user_def by (intro keeps_rules assms act harmless_user_updates)
qed

lemma keeps_create_user:
  assumes "bears E P" and "tolerates E P GroupMembers" and "tolerates E P UserProjects"
    and "\<And>d. keeps (table_inv P) (user_dao_create_user E d)"
  shows "keeps (table_inv P) (create_user E u b)"
  unfolding create_user_def Let_def by (intro keeps_rules assms)

lemma keeps_delete_user:
  assumes "bears E P" and "tolerates E P GroupMembers" and "tolerates E P UserProjects"
    and "n \<noteq> cluster_administrator (cfg E) \<Longrightarrow> keeps (table_inv P) (user_dao_delete_user E n)"
  shows "keeps (table_inv P) (delete_user E n)"
proof (cases "n = cluster_administrator (cfg E)")
  case True
  then show ?thesis by (simp add: delete_user_def is_cluster_administrator_def keeps_raise)
next
  case False
  then show ?thesis unfolding delete_user_def by (intro keeps_rules assms)
qed

end
