(* ===== verification/AD_Sync.thy ===== *)
theory AD_Sync
  imports Frames
begin

text \<open>
  \<^verbatim>\<open>adsync/adsync_service.py\<close>: the synchronisation with Active Directory. The groups and
  users of the directory (what the LDAP searches answer is a parameter) are compared with
  the tables, and the differences are carried out through the accounts service, each in a
  handler that logs its failure.
\<close>

section \<open>ADSyncService\<close>

definition sync_from_ad :: "'db env \<Rightarrow> ('db st, unit) act" where
  "sync_from_ad E = send_task E ''adsync.sync-from-ad'' [] []"

definition fetch_all_ldap_groups :: "'db env \<Rightarrow> item list" where
  "fetch_all_ldap_groups E = ldap_search_groups (cfg E)"

text \<open>
  The pages of a listing: the cursor of a page is handed on as \<open>start\<close>, a field of type
  integer, so a cursor that is no number fails validation. With a number the request would
  carry no cursor and the first page would come again, for ever.
\<close>

definition next_pages :: "string option \<Rightarrow> ('s, 'a) act \<Rightarrow> ('s, 'a) act" where
  "next_pages cursor k =
     (if str_or_empty cursor = [] then k
      else if py_int (str_or_empty cursor) = None then raise ValidationError
      else raise DoesNotReturn)"

definition first_page :: list_request where
  "first_page = \<lparr>r_cursor = None, r_filters = []\<rparr>"

definition fetch_all_res_identified_groups :: "'db env \<Rightarrow> ('db st, group list) act" where
  "fetch_all_res_identified_groups E =
     bindA (group_dao_list_groups E first_page) (\<lambda>(listing, cursor). next_pages cursor (return listing))"

definition fetch_all_res_identified_users :: "'db env \<Rightarrow> ('db st, user list) act" where
  "fetch_all_res_identified_users E =
     bindA (user_dao_list_users E first_page) (\<lambda>(listing, cursor). next_pages cursor (return listing))"

text \<open>An optional integer field of a data class.\<close>

definition opt_int_field :: "val \<Rightarrow> exn + int option" where
  "opt_int_field v = (case v of
      VNone \<Rightarrow> Inr None
    | VInt i \<Rightarrow> Inr (Some i)
    | VBool b \<Rightarrow> Inr (Some (if b then 1 else 0))
    | VStr s \<Rightarrow> (case py_int s of None \<Rightarrow> Inl ValidationError | Some i \<Rightarrow> Inr (Some i))
    | _ \<Rightarrow> Inl ValidationError)"

definition int_item :: "item \<Rightarrow> string \<Rightarrow> ('s, int option) act" where
  "int_item d k = bindA (attr d k) (\<lambda>v. liftA (opt_int_field v))"

definition str_item :: "item \<Rightarrow> string \<Rightarrow> ('s, string option) act" where
  "str_item d k = bindA (attr d k) (\<lambda>v. liftA (opt_str_field (Some v)))"

subsection \<open>Groups\<close>

text \<open>The group that is created; \<open>True\<close> is returned when the name goes to the failures.\<close>

definition handle_group_addition :: "'db env \<Rightarrow> item \<Rightarrow> ('db st, bool) act" where
  "handle_group_addition E grp =
     bindA (liftA (str_attr ''name'' grp)) (\<lambda>name.
     let is_admin = (ldap_sudoers_group_name (cfg E) = name) in
     catchA
       (bindA (int_item grp ''gid'') (\<lambda>gid.
        seqA (create_group E
          \<lparr>g_title = Some name, g_description = None, g_name = Some name, g_ds_name = Some name,
           g_gid = gid, g_group_type = Some ''project'', g_ref = None, g_enabled = None,
           g_created_on = None, g_updated_on = None, g_synced_on = None, g_type = Some ''external'',
           g_role = Some (if is_admin then ''admin'' else ''user'')\<rparr>)
        (return False)))
       (\<lambda>e. return True))"

definition handle_group_deletion :: "'db env \<Rightarrow> group \<Rightarrow> ('db st, unit) act" where
  "handle_group_deletion E grp =
     catchA (delete_group E (str_or_empty (g_name grp)) True) (\<lambda>e. return ())"

fun add_groups ::
  "'db env \<Rightarrow> (string \<Rightarrow> item) \<Rightarrow> string list \<Rightarrow> string list \<Rightarrow> ('db st, string list) act" where
  "add_groups E by_name [] failures = return failures"
| "add_groups E by_name (n # ns) failures =
     bindA (handle_group_addition E (by_name n)) (\<lambda>failed.
     add_groups E by_name ns (if failed then n # failures else failures))"

text \<open>\<open>{key(x): x for x in xs}\<close>: a later element replaces an earlier one.\<close>

definition by_key :: "string list \<Rightarrow> 'a list \<Rightarrow> string \<Rightarrow> 'a" where
  "by_key ks xs k = the (map_of (rev (zip ks xs)) k)"

definition group_key :: "group \<Rightarrow> string" where
  "group_key g = str_or_empty (g_name g)"

definition sync_all_groups :: "'db env \<Rightarrow> item list \<Rightarrow> ('db st, string list) act" where
  "sync_all_groups E ldap_groups =
     bindA (liftA (map_sum_list (str_attr ''name'') ldap_groups)) (\<lambda>names.
     bindA (fetch_all_res_identified_groups E) (\<lambda>res_groups.
     let res_names = map group_key res_groups in
     bindA (add_groups E (by_key names ldap_groups) (set_minus E names res_names) []) (\<lambda>failures.
     seqA (for_each (set_minus E res_names names) (\<lambda>n.
             whenA (g_type (by_key res_names res_groups n) \<noteq> Some ''internal'')
               (handle_group_deletion E (by_key res_names res_groups n))))
          (return failures))))"

subsection \<open>The users of the directory\<close>

type_synonym ldap_users = "(string \<times> item) list"

definition sam_account_key :: "item \<Rightarrow> string" where
  "sam_account_key u = py_lower (py_str (attr_or u ''sam_account_name'' VNone))"

definition consolidate_ldap_user :: "'db env \<Rightarrow> string \<Rightarrow> item \<Rightarrow> ldap_users \<Rightarrow> exn + ldap_users" where
  "consolidate_ldap_user E ldap_group_name ldap_user users =
     (let k = sam_account_key ldap_user;
          user = (case map_of users k of None \<Rightarrow> ldap_user | Some u \<Rightarrow> u) in
      if ldap_group_name = [] then Inr (AList.update k user users)
      else case attr_or user ''additional_groups'' (VList []) of
          VList gs \<Rightarrow> bindE (set_of_val (VList (gs @ [VStr ldap_group_name]))) (\<lambda>vs.
            Inr (AList.update k (user(''additional_groups'' \<mapsto> VList (py_set_list (val_hash E) vs))) users))
        | _ \<Rightarrow> Inl TypeError)"

fun consolidate_ldap_users :: "'db env \<Rightarrow> string \<Rightarrow> item list \<Rightarrow> ldap_users \<Rightarrow> exn + ldap_users" where
  "consolidate_ldap_users E ldap_group_name [] users = Inr users"
| "consolidate_ldap_users E ldap_group_name (u # us) users =
     (if u ''sam_account_name'' = None then consolidate_ldap_users E ldap_group_name us users
      else bindE (consolidate_ldap_user E ldap_group_name u users)
             (consolidate_ldap_users E ldap_group_name us))"

fun users_of_ldap_groups :: "'db env \<Rightarrow> string list \<Rightarrow> ldap_users \<Rightarrow> exn + ldap_users" where
  "users_of_ldap_groups E [] users = Inr users"
| "users_of_ldap_groups E (g # gs) users =
     bindE (consolidate_ldap_users E g (ldap_search_users (cfg E) (Some g)) users) (users_of_ldap_groups E gs)"

definition get_ldap_users_by_unique_identifier :: "'db env \<Rightarrow> item list \<Rightarrow> exn + ldap_users" where
  "get_ldap_users_by_unique_identifier E ldap_groups =
     bindE (consolidate_ldap_users E [] (ldap_search_users (cfg E) None) []) (\<lambda>users.
     bindE (map_sum_list (str_attr ''name'') ldap_groups) (\<lambda>names.
     users_of_ldap_groups E names users))"

subsection \<open>Users\<close>

definition handle_user_addition :: "'db env \<Rightarrow> item \<Rightarrow> string \<Rightarrow> ('db st, unit) act" where
  "handle_user_addition E user admin_group =
     bindA (liftA (names_of (attr_or user ''additional_groups'' (VList [])))) (\<lambda>additional_groups.
     let is_admin = (admin_group \<in> set additional_groups) in
     catchA
       (bindA (str_item user ''sam_account_name'') (\<lambda>username.
        bindA (str_item user ''email'') (\<lambda>email.
        bindA (int_item user ''uid'') (\<lambda>uid.
        bindA (int_item user ''gid'') (\<lambda>gid.
        bindA (str_item user ''login_shell'') (\<lambda>login_shell.
        bindA (str_item user ''home_dir'') (\<lambda>home_dir.
        seqA (create_user E
          \<lparr>u_username = username, u_password = Some (generated_password (cfg E)), u_email = email,
           u_uid = uid, u_gid = gid, u_group_name = None, u_ds_group_name = None,
           u_additional_groups = Some (name_set E additional_groups),
           u_login_shell = login_shell, u_home_dir = home_dir, u_sudo = Some is_admin, u_status = None,
           u_enabled = None, u_password_last_set = None, u_password_max_age = None, u_created_on = None,
           u_updated_on = None, u_synced_on = None, u_role = Some (if is_admin then ''admin'' else ''user''),
           u_is_active = Some False\<rparr> True)
        (return ()))))))))
       (\<lambda>e. return ()))"

definition handle_user_deletion :: "'db env \<Rightarrow> user \<Rightarrow> ('db st, unit) act" where
  "handle_user_deletion E user =
     catchA (delete_user E (str_or_empty (u_username user))) (\<lambda>e. return ())"

definition mark_synced :: "'db env \<Rightarrow> string \<Rightarrow> ('db st, unit) act" where
  "mark_synced E username =
     bindA (current_time_ms E) (\<lambda>now.
     seqA (user_dao_update_user E [''username'' \<mapsto> VStr username, ''synced_on'' \<mapsto> VInt now]) (return ()))"

definition handle_user_addition_to_group :: "'db env \<Rightarrow> string \<Rightarrow> string \<Rightarrow> ('db st, unit) act" where
  "handle_user_addition_to_group E username group_name =
     catchA
       (seqA (add_users_to_group E [username] group_name False)
       (seqA (whenA (group_name = ldap_sudoers_group_name (cfg E)) (add_admin_user E username))
        (mark_synced E username)))
       (\<lambda>e. return ())"

text \<open>\<open>set(user.additional_groups)\<close> of a user without a list is an error.\<close>

definition leave_missing_group :: "'db env \<Rightarrow> string \<Rightarrow> string \<Rightarrow> error_code \<Rightarrow> ('db st, unit) act" where
  "leave_missing_group E username group_name c =
     bindA (get_user E username) (\<lambda>user.
     whenA (c = AUTH_GROUP_NOT_FOUND \<and> u_is_active user \<noteq> Some True)
       (case u_additional_groups user of
          None \<Rightarrow> raise TypeError
        | Some gs \<Rightarrow>
            seqA (user_dao_update_user E [''username'' \<mapsto> VStr username,
                    ''additional_groups'' \<mapsto> strs (set_minus E gs [group_name])]) (return ())))"

definition handle_user_removal_from_group :: "'db env \<Rightarrow> string \<Rightarrow> string \<Rightarrow> ('db st, unit) act" where
  "handle_user_removal_from_group E username group_name =
     catchA
       (bindA (get_group E group_name) (\<lambda>grp.
        whenA (g_type grp \<noteq> Some ''internal'')
          (seqA (remove_users_from_group E [username] group_name False)
          (seqA (whenA (group_name = ldap_sudoers_group_name (cfg E)) (remove_admin_user E username))
           (mark_synced E username)))))
       (\<lambda>e. case e of SocaException c \<Rightarrow> leave_missing_group E username group_name c | _ \<Rightarrow> return ())"

text \<open>The groups of one user that both sides know; its name is the \<open>cn\<close> of the directory.\<close>

definition sync_user_groups :: "'db env \<Rightarrow> string list \<Rightarrow> item \<Rightarrow> user \<Rightarrow> ('db st, unit) act" where
  "sync_user_groups E group_addition_failures ldap_user res_user =
     bindA (liftA (names_of (attr_or ldap_user ''additional_groups'' (VList [])))) (\<lambda>names.
     let ldap_groups = set_minus E names group_addition_failures;
         res_groups = list_or_nil (u_additional_groups res_user) in
     bindA (attr ldap_user ''cn'') (\<lambda>cn.
     bindA (liftA (name_arg cn)) (\<lambda>username.
     seqA (for_each (set_minus E ldap_groups res_groups) (handle_user_addition_to_group E username))
          (for_each (set_minus E res_groups ldap_groups) (handle_user_removal_from_group E username)))))"

definition user_key :: "user \<Rightarrow> string" where
  "user_key u = str_or_empty (u_username u)"

definition sync_all_users :: "'db env \<Rightarrow> item list \<Rightarrow> string list \<Rightarrow> ('db st, unit) act" where
  "sync_all_users E ldap_groups group_addition_failures =
     bindA (liftA (get_ldap_users_by_unique_identifier E ldap_groups)) (\<lambda>ldap_users.
     bindA (fetch_all_res_identified_users E) (\<lambda>res_users.
     let ldap_names = map fst ldap_users;
         res_names = map user_key res_users;
         ldap_user = (\<lambda>n. the (map_of ldap_users n)) in
     seqA (for_each (set_minus E ldap_names res_names) (\<lambda>n.
             handle_user_addition E (ldap_user n) (ldap_sudoers_group_name (cfg E))))
    (seqA (for_each (set_minus E res_names ldap_names) (\<lambda>n.
             handle_user_deletion E (by_key res_names res_users n)))
          (for_each (filter (\<lambda>n. \<not> is_cluster_administrator (cfg E) n)
                       (name_set E (filter (\<lambda>n. n \<in> set res_names) ldap_names))) (\<lambda>n.
             sync_user_groups E group_addition_failures (ldap_user n) (by_key res_names res_users n))))))"

text \<open>\<open>SyncFromAD.invoke\<close> of \<^verbatim>\<open>adsync/adsync_tasks.py\<close>; the other two tasks only write a log line.\<close>

definition sync_from_ad_task :: "'db env \<Rightarrow> ('db st, unit) act" where
  "sync_from_ad_task E =
     (let ldap_groups = fetch_all_ldap_groups E in
      bindA (sync_all_groups E ldap_groups) (\<lambda>group_addition_failures.
      sync_all_users E ldap_groups group_addition_failures))"

section \<open>What a synchronisation writes\<close>

lemma keeps_next_pages [keeps_rules]: "keeps I m \<Longrightarrow> keeps I (next_pages c m)"
  unfolding next_pages_def by (intro keeps_rules)

lemma keeps_list_rows [keeps_rules]: "keeps (table_inv P) (list_rows E t r)"
  unfolding list_rows_def by (intro keeps_rules)

lemma keeps_fetch [keeps_rules]:
  "keeps (table_inv P) (fetch_all_res_identified_groups E)"
  "keeps (table_inv P) (fetch_all_res_identified_users E)"
  unfolding fetch_all_res_identified_groups_def fetch_all_res_identified_users_def
    group_dao_list_groups_def user_dao_list_users_def
  by (intro keeps_rules)+

lemma keeps_fields [keeps_rules]: "keeps I (int_item d k)" "keeps I (str_item d k)"
  unfolding int_item_def str_item_def by (intro keeps_rules)+

lemma keeps_group_addition:
  assumes "\<And>n. str_attr ''name'' d = Inr n \<Longrightarrow> tolerates_row E P Groups (n, [])"
  shows "keeps (table_inv P) (handle_group_addition E d)"
proof (cases "str_attr ''name'' d")
  case (Inl e)
  then show ?thesis
    by (auto simp: handle_group_addition_def keeps_def)
next
  case (Inr n)
  have "keeps (table_inv P) (create_group E g)" if "g_name g = Some n" for g
    using that assms [OF Inr] by (intro keeps_create_group) simp
  then have "keeps (table_inv P) (catchA
       (bindA (int_item d ''gid'') (\<lambda>gid. seqA (create_group E
          \<lparr>g_title = Some n, g_description = None, g_name = Some n, g_ds_name = Some n,
           g_gid = gid, g_group_type = Some ''project'', g_ref = None, g_enabled = None,
           g_created_on = None, g_updated_on = None, g_synced_on = None, g_type = Some ''external'',
           g_role = Some (if ldap_sudoers_group_name (cfg E) = n then ''admin'' else ''user'')\<rparr>) (return False)))
       (\<lambda>e. return True))"
    by (intro keeps_rules) simp
  then show ?thesis
    by (simp add: handle_group_addition_def Inr keeps_def Let_def)
qed

lemma keeps_group_deletion:
  assumes "bears E P" and "tolerates E P GroupMembers" and "tolerates E P UserProjects"
    and "tolerates E P Projects" and "tolerates E P ProjectGroups"
    and "tolerates_row E P Groups (group_key g, [])"
  shows "keeps (table_inv P) (handle_group_deletion E g)"
  unfolding handle_group_deletion_def using assms(6)
  by (intro keeps_rules keeps_delete_group assms) (simp add: group_key_def)

lemma keeps_add_groups:
  assumes "\<And>n m. n \<in> set ns \<Longrightarrow> str_attr ''name'' (by_name n) = Inr m \<Longrightarrow> tolerates_row E P Groups (m, [])"
  shows "keeps (table_inv P) (add_groups E by_name ns failures)"
  using assms
proof (induction ns arbitrary: failures)
  case (Cons n ns)
  then show ?case by (auto intro!: keeps_rules keeps_group_addition)
qed (simp add: keeps_return)

section \<open>Groups after a synchronisation\<close>

text \<open>A row that may only be touched at other keys, and whole tables that do not matter.\<close>

definition group_row_is :: "'db env \<Rightarrow> string \<Rightarrow> item option \<Rightarrow> 'db \<Rightarrow> bool" where
  "group_row_is E n x d \<longleftrightarrow> ddb_get E d Groups (n, []) = x"

context dynamodb
begin

lemma group_row_tolerates:
  "t \<noteq> Groups \<Longrightarrow> tolerates E (group_row_is E n x) t"
  "m \<noteq> n \<Longrightarrow> tolerates_row E (group_row_is E n x) Groups (m, [])"
  by (auto simp: tolerates_def tolerates_row_def group_row_is_def)

end

lemma by_key_holds:
  assumes "length ks = length xs" and "k \<in> set ks" and "\<And>j x. (j, x) \<in> set (zip ks xs) \<Longrightarrow> Q j x"
  shows "Q k (by_key ks xs k)"
proof -
  have "k \<in> fst ` set (zip ks xs)" using assms(1,2) by (metis in_set_impl_in_set_zip1 image_eqI fst_conv)
  then obtain x where x: "map_of (rev (zip ks xs)) k = Some x"
    by (metis map_of_eq_None_iff not_None_eq set_rev)
  then have "(k, x) \<in> set (zip ks xs)" using map_of_SomeD by fastforce
  then show ?thesis using assms(3) x by (simp add: by_key_def)
qed

lemma names_zip:
  "map_sum_list f xs = Inr ks \<Longrightarrow> length ks = length xs \<and> (\<forall>(k, x) \<in> set (zip ks xs). f x = Inr k)"
  by (induction xs arbitrary: ks) (auto simp: bindE_eq_Inr)

lemma create_group_stores:
  assumes "create_group E g s = (Inr r, t)" and "dynamodb E"
  shows "row E t Groups (str_or_empty (g_name g), []) \<noteq> None"
proof -
  obtain n where n: "g_name g = Some n"
    using assms(1) by (cases "g_name g") (auto simp: create_group_def raise_if_eq_Inr)
  obtain x y u r' where "group_dao_create_group E (group_to_db (g\<lparr>g_type := x, g_gid := y, g_enabled := Some True\<rparr>)) u = (Inr r', t)"
    using assms(1) by (auto simp: create_group_def Let_def act_inversions)
  moreover have "key_of Groups ((group_to_db (g\<lparr>g_type := x, g_gid := y, g_enabled := Some True\<rparr>))
      (''created_on'' \<mapsto> a, ''updated_on'' \<mapsto> b)) = Some (n, [])" for a b
    using n by (simp add: key_of_def schema_defs group_to_db_key)
  ultimately obtain i d where i: "key_of Groups i = Some (n, [])" and "st_db t = ddb_put E d Groups i"
    by (auto simp: group_dao_create_group_def Let_def act_inversions split: if_splits) blast
  then show ?thesis using dynamodb.get_put [OF assms(2) i] n by simp
qed

text \<open>The listing: a result of \<open>fetch_all_res_identified_groups\<close> is complete.\<close>

definition lists_groups :: "'db env \<Rightarrow> 'db st \<Rightarrow> group list \<Rightarrow> bool" where
  "lists_groups E s gs \<longleftrightarrow>
     (\<forall>g \<in> set gs. \<exists>n i. row E s Groups (n, []) = Some i \<and> g = group_from_db i \<and> group_key g = n) \<and>
     (\<forall>n. row E s Groups (n, []) \<noteq> None \<longrightarrow> n \<in> group_key ` set gs)"

definition clean_groups :: "'db env \<Rightarrow> 'db \<Rightarrow> bool" where
  "clean_groups E d \<longleftrightarrow> (\<forall>n. ddb_get E d Groups (n, []) \<noteq> None \<longrightarrow> clean_id n)"

context dynamodb
begin

lemma group_from_row:
  assumes "ddb_get E d Groups (n, x) = Some i" and "clean_groups E d"
  shows "group_key (group_from_db i) = n" and "x = []"
proof -
  show "x = []" using row_is_key [of d Groups "(n, x)"] assms(1) by (simp add: is_key_def schema_defs)
  then have "clean_id n" using assms by (auto simp: clean_groups_def)
  moreover have "i ''group_name'' = Some (VStr n)"
    using row_key [OF assms(1)] by (auto simp: key_of_def schema_defs split: option.splits val.splits)
  ultimately show "group_key (group_from_db i) = n"
    by (simp add: group_key_def group_from_db_def get_value_as_string_VStr clean_id_def)
qed

lemma fetch_groups:
  assumes "fetch_all_res_identified_groups E s = (Inr gs, t)" and "clean_groups E (st_db s)"
    and "\<forall>v. encode_cursor (cfg E) v \<noteq> []"
  shows "t = s" and "lists_groups E s gs"
proof -
  obtain rows nxt where q: "ddb_scan E (st_db s) Groups [] = (rows, nxt)" by force
  then have all: "nxt = None \<and> gs = map group_from_db rows \<and> t = s"
    using assms(1,3) by (cases nxt; auto simp: fetch_all_res_identified_groups_def first_page_def
      group_dao_list_groups_def list_rows_def next_pages_def act_inversions split: if_splits option.splits)
  then show "t = s" by simp
  from all have nxt: "nxt = None" and gs: "gs = map group_from_db rows" by simp_all
  obtain ks where ks: "rows = map (\<lambda>k. the (row E s Groups k)) ks"
      "set ks = {k. \<exists>i. row E s Groups k = Some i \<and> scan_matches [] i}"
    using scan_page [OF q] nxt by blast
  then have set_ks: "set ks = {k. row E s Groups k \<noteq> None}" by (auto simp: scan_matches_def)
  have row_of: "\<exists>i. row E s Groups (fst k, []) = Some i \<and> row E s Groups k = Some i \<and>
      group_key (group_from_db i) = fst k" if mem: "k \<in> set ks" for k
  proof -
    obtain i where i: "row E s Groups k = Some i" using mem set_ks by auto
    obtain n x where k: "k = (n, x)" by (cases k)
    with i have j: "row E s Groups (n, x) = Some i" by simp
    from group_from_row [OF j assms(2)] show ?thesis using j k by simp
  qed
  show "lists_groups E s gs" unfolding lists_groups_def
  proof (intro conjI allI impI ballI)
    fix g assume "g \<in> set gs"
    then obtain k where "k \<in> set ks" "g = group_from_db (the (row E s Groups k))"
      using gs ks(1) by auto
    then show "\<exists>n i. row E s Groups (n, []) = Some i \<and> g = group_from_db i \<and> group_key g = n"
      using row_of [of k] by auto
  next
    fix n assume n: "row E s Groups (n, []) \<noteq> None"
    then have k: "(n, []) \<in> set ks" using set_ks by blast
    then have "group_from_db (the (row E s Groups (n, []))) \<in> set gs" using gs ks(1) by simp
    moreover have "group_key (group_from_db (the (row E s Groups (n, [])))) = n"
      using row_of [OF k] by auto
    ultimately show "n \<in> group_key ` set gs" by (metis image_eqI)
  qed
qed

lemma group_addition_result:
  assumes "handle_group_addition E d s = (Inr failed, t)" and "str_attr ''name'' d = Inr n"
  shows "failed \<or> row E t Groups (n, []) \<noteq> None"
  using assms create_group_stores [OF _ dynamodb_axioms]
  by (fastforce simp: handle_group_addition_def catchA_def act_inversions split: prod.splits sum.splits)

lemma group_addition_frame:
  assumes "str_attr ''name'' d = Inr m" and "n \<noteq> m"
  shows "row E (snd (handle_group_addition E d s)) Groups (n, []) = row E s Groups (n, [])"
proof -
  have "keeps (table_inv (group_row_is E n (row E s Groups (n, [])))) (handle_group_addition E d)"
    using assms by (intro keeps_group_addition group_row_tolerates) auto
  then show ?thesis by (simp add: keeps_def table_inv_def group_row_is_def)
qed

lemma add_groups_frame:
  assumes "\<forall>m \<in> set ns. str_attr ''name'' (by_name m) = Inr m" and "n \<notin> set ns"
  shows "row E (snd (add_groups E by_name ns fs s)) Groups (n, []) = row E s Groups (n, [])"
proof -
  have "keeps (table_inv (group_row_is E n (row E s Groups (n, [])))) (add_groups E by_name ns fs)"
    using assms by (intro keeps_add_groups group_row_tolerates) auto
  then show ?thesis by (simp add: keeps_def table_inv_def group_row_is_def)
qed

lemma add_groups_result:
  assumes "add_groups E by_name ns fs s = (Inr gs, t)" and "distinct ns"
    and "\<forall>m \<in> set ns. str_attr ''name'' (by_name m) = Inr m"
  shows "set fs \<subseteq> set gs \<and> (\<forall>n \<in> set ns. n \<in> set gs \<or> row E t Groups (n, []) \<noteq> None)"
  using assms
proof (induction ns arbitrary: fs s)
  case Nil
  then show ?case by simp
next
  case (Cons m ns)
  obtain failed u where u: "handle_group_addition E (by_name m) s = (Inr failed, u)"
      "add_groups E by_name ns (if failed then m # fs else fs) u = (Inr gs, t)"
    using Cons.prems(1) by (auto simp: act_inversions)
  have "row E t Groups (m, []) = row E u Groups (m, [])"
    using add_groups_frame [of ns by_name m "if failed then m # fs else fs" u] u(2) Cons.prems(2,3) by simp
  moreover have "failed \<or> row E u Groups (m, []) \<noteq> None"
    using group_addition_result [OF u(1)] Cons.prems(3) by simp
  moreover have "set (if failed then m # fs else fs) \<subseteq> set gs \<and>
      (\<forall>n \<in> set ns. n \<in> set gs \<or> row E t Groups (n, []) \<noteq> None)"
    using Cons.IH [OF u(2)] Cons.prems by simp
  ultimately show ?case by (auto split: if_splits)
qed

lemma group_deletion_frame:
  assumes "n \<noteq> group_key g"
  shows "row E (snd (handle_group_deletion E g s)) Groups (n, []) = row E s Groups (n, [])"
proof -
  have "keeps (table_inv (group_row_is E n (row E s Groups (n, [])))) (handle_group_deletion E g)"
    using assms by (intro keeps_group_deletion tolerates_bears group_row_tolerates) auto
  then show ?thesis by (simp add: keeps_def table_inv_def group_row_is_def)
qed

lemma group_deletions_frame:
  assumes "\<forall>m \<in> set ms. b m \<longrightarrow> group_key (h m) \<noteq> n"
  shows "row E (snd (for_each ms (\<lambda>m. whenA (b m) (handle_group_deletion E (h m))) s)) Groups (n, [])
    = row E s Groups (n, [])"
proof -
  have "keeps (table_inv (group_row_is E n (row E s Groups (n, []))))
      (for_each ms (\<lambda>m. whenA (b m) (handle_group_deletion E (h m))))"
    using assms by (intro keeps_for_each keeps_whenA keeps_group_deletion tolerates_bears group_row_tolerates) auto
  then show ?thesis by (simp add: keeps_def table_inv_def group_row_is_def)
qed

text \<open>What the lookup by name finds in the listing: the group of the row with this name.\<close>

lemma listed_group:
  assumes "lists_groups E s gs" and "m \<in> group_key ` set gs"
  shows "group_key (by_key (map group_key gs) gs m) = m"
    and "\<exists>i. row E s Groups (m, []) = Some i \<and> by_key (map group_key gs) gs m = group_from_db i"
proof -
  define Q where "Q j x \<longleftrightarrow> group_key x = j \<and> (\<exists>i. row E s Groups (j, []) = Some i \<and> x = group_from_db i)" for j x
  have "Q m (by_key (map group_key gs) gs m)"
  proof (rule by_key_holds)
    fix j x assume "(j, x) \<in> set (zip (map group_key gs) gs)"
    then have "x \<in> set gs" "j = group_key x" by (auto simp: set_zip)
    then show "Q j x" using assms(1) unfolding lists_groups_def Q_def by blast
  qed (use assms(2) in simp_all)
  then show "group_key (by_key (map group_key gs) gs m) = m"
    and "\<exists>i. row E s Groups (m, []) = Some i \<and> by_key (map group_key gs) gs m = group_from_db i"
    by (simp_all add: Q_def)
qed

lemma internal_group:
  "i ''type'' = Some (VStr ''internal'') \<Longrightarrow> g_type (group_from_db i) = Some ''internal''"
proof -
  assume "i ''type'' = Some (VStr ''internal'')"
  moreover have "py_strip ''internal'' = ''internal''" by code_simp
  ultimately show ?thesis by (simp add: group_from_db_def get_value_as_string_VStr)
qed

lemma sync_all_groups_run:
  assumes "sync_all_groups E gs s = (Inr failures, t)" and "map_sum_list (str_attr ''name'') gs = Inr names"
    and "\<forall>v. encode_cursor (cfg E) v \<noteq> []" and "clean_groups E (st_db s)"
  shows "\<forall>n \<in> set names. n \<in> set failures \<or> row E t Groups (n, []) \<noteq> None"
    and "row E s Groups (n, []) = Some i \<Longrightarrow> n \<in> set names \<or> i ''type'' = Some (VStr ''internal'') \<Longrightarrow>
         row E t Groups (n, []) = Some i"
proof -
  obtain res s1 where f: "fetch_all_res_identified_groups E s = (Inr res, s1)"
    using assms(1,2) by (auto simp: sync_all_groups_def act_inversions)
  note listing = fetch_groups [OF f assms(4,3)]
  define new where "new = set_minus E names (map group_key res)"
  define gone where "gone = set_minus E (map group_key res) names"
  define old where "old = by_key (map group_key res) res"
  obtain u where a: "add_groups E (by_key names gs) new [] s = (Inr failures, u)"
    and d: "for_each gone (\<lambda>n. whenA (g_type (old n) \<noteq> Some ''internal'') (handle_group_deletion E (old n))) u
        = (Inr (), t)"
    using assms(1,2) f listing(1)
    by (auto simp: sync_all_groups_def act_inversions Let_def new_def gone_def old_def)
  have zip: "length names = length gs" "\<forall>(k, x) \<in> set (zip names gs). str_attr ''name'' x = Inr k"
    using names_zip [OF assms(2)] by auto
  have named: "str_attr ''name'' (by_key names gs m) = Inr m" if "m \<in> set names" for m
    using that zip by (intro by_key_holds [where Q = "\<lambda>j x. str_attr ''name'' x = Inr j"]) auto
  have sets: "set new = set names - group_key ` set res" "set gone = group_key ` set res - set names"
    "distinct new"
    by (auto simp: new_def gone_def set_minus_def name_set_def)
  have "\<forall>m \<in> set new. str_attr ''name'' (by_key names gs m) = Inr m" using named sets by simp
  note adds = add_groups_result [OF a sets(3) this] add_groups_frame [OF this]
  have dels: "row E t Groups (n, []) = row E u Groups (n, [])"
    if "\<forall>m \<in> set gone. g_type (old m) \<noteq> Some ''internal'' \<longrightarrow> group_key (old m) \<noteq> n" for n
    using group_deletions_frame [OF that, of u] d by simp
  have old_key: "group_key (old m) = m" if "m \<in> set gone" for m
    unfolding old_def using that sets by (intro listed_group(1) [OF listing(2)]) auto
  have kept: "row E t Groups (n, []) = Some i"
    if prems: "row E s Groups (n, []) = Some i" "n \<in> set names \<or> i ''type'' = Some (VStr ''internal'')" for n i
  proof -
    have n: "n \<in> group_key ` set res" using listing(2) prems(1) by (auto simp: lists_groups_def)
    have "row E u Groups (n, []) = Some i"
      using adds(2) [of n "[]" s] a prems(1) n sets by simp
    moreover have "g_type (old n) = Some ''internal''" if gone: "n \<in> set gone"
    proof -
      have "old n = group_from_db i"
        using listed_group(2) [OF listing(2) n] prems(1) by (simp add: old_def)
      then show ?thesis using gone prems(2) sets(2) by (auto intro: internal_group)
    qed
    ultimately show ?thesis using dels [of n] old_key by metis
  qed
  show "row E s Groups (n, []) = Some i \<Longrightarrow> n \<in> set names \<or> i ''type'' = Some (VStr ''internal'') \<Longrightarrow>
         row E t Groups (n, []) = Some i" by (rule kept)
  show "\<forall>n \<in> set names. n \<in> set failures \<or> row E t Groups (n, []) \<noteq> None"
  proof
    fix n assume n: "n \<in> set names"
    show "n \<in> set failures \<or> row E t Groups (n, []) \<noteq> None"
    proof (cases "n \<in> set new")
      case True
      have "row E t Groups (n, []) = row E u Groups (n, [])"
        using old_key sets(2) n by (intro dels) auto
      then show ?thesis using adds(1) True by simp
    next
      case False
      then have "n \<in> group_key ` set res" using n sets by simp
      then show ?thesis using listed_group(2) [OF listing(2)] kept n by blast
    qed
  qed
qed

end

section \<open>Property\<close>

text \<open>
  C39. After the groups were synchronised, every group of the directory has a row or is named
  among the failures, and no row of a group that the directory still has, nor of an internal
  group, was changed or deleted, however many of the single steps failed.
\<close>

theorem synchronised_groups:
  assumes "dynamodb E" and "clean_groups E (st_db s)" and "\<forall>v. encode_cursor (cfg E) v \<noteq> []"
    and "map_sum_list (str_attr ''name'') gs = Inr names"
    and "sync_all_groups E gs s = (Inr failures, t)"
  shows "(\<forall>n \<in> set names. n \<in> set failures \<or> row E t Groups (n, []) \<noteq> None) \<and>
     (\<forall>n i. row E s Groups (n, []) = Some i \<and> (n \<in> set names \<or> i ''type'' = Some (VStr ''internal'')) \<longrightarrow>
        row E t Groups (n, []) = Some i)"
  using dynamodb.sync_all_groups_run [OF assms(1,5,4,3,2)] by blast

definition directory_groups :: "item list" where
  "directory_groups = [[''name'' \<mapsto> VStr ''new'', ''gid'' \<mapsto> VInt 7], [''name'' \<mapsto> VStr ''g'', ''gid'' \<mapsto> VInt 8]]"

definition synced_db :: mem_db where
  "synced_db =
     [((Groups, (''g'', [])), [''group_name'' \<mapsto> VStr ''g'', ''type'' \<mapsto> VStr ''external'']),
      ((Groups, (''old'', [])), [''group_name'' \<mapsto> VStr ''old'', ''type'' \<mapsto> VStr ''external'']),
      ((Groups, (''mine'', [])), [''group_name'' \<mapsto> VStr ''mine'', ''type'' \<mapsto> VStr ''internal''])]"

definition directory_env :: "mem_db env" where
  "directory_env = mem_env None (local_world\<lparr>ldap_get_group := (\<lambda>n. Inr (Some [''name'' \<mapsto> VStr n]))\<rparr>)"

lemma synced_db_run:
  "(case sync_all_groups directory_env directory_groups (local_state synced_db) of
      (Inr f, t) \<Rightarrow> f = [] \<and> mem_get (st_db t) Groups (''old'', []) = None | _ \<Rightarrow> False)"
  by code_simp

lemma synced_db_clean: "clean_groups directory_env synced_db"
  by (auto simp: clean_groups_def directory_env_def mem_get_def synced_db_def clean_id_def split: if_splits; code_simp)

theorem synchronised_groups_witness:
  "\<exists>t. sync_all_groups directory_env directory_groups (local_state synced_db) = (Inr [], t) \<and>
     mem_get (st_db t) Groups (''new'', []) \<noteq> None \<and> mem_get (st_db t) Groups (''old'', []) = None \<and>
     mem_get (st_db t) Groups (''mine'', []) = mem_get synced_db Groups (''mine'', [])"
proof -
  obtain t where t: "sync_all_groups directory_env directory_groups (local_state synced_db) = (Inr [], t)"
      "mem_get (st_db t) Groups (''old'', []) = None"
    using synced_db_run by (auto split: prod.splits sum.splits)
  have names: "map_sum_list (str_attr ''name'') directory_groups = Inr [''new'', ''g'']" by code_simp
  have "dynamodb directory_env" by (simp add: directory_env_def mem_dynamodb)
  note synced = synchronised_groups [OF this _ _ names t(1)]
  have get: "ddb_get directory_env = mem_get" "\<forall>v. encode_cursor (cfg directory_env) v \<noteq> []"
    by (simp_all add: directory_env_def local_world_def)
  have mine: "mem_get synced_db Groups (''mine'', []) =
      Some ([''group_name'' \<mapsto> VStr ''mine'', ''type'' \<mapsto> VStr ''internal''] ++ key_item Groups (''mine'', []))"
    by (simp add: mem_get_def synced_db_def)
  show ?thesis using synced get synced_db_clean t mine by (auto simp: key_item_def schema_defs map_add_def)
qed

end
