(* ===== verification/Tasks.thy ===== *)
theory Tasks
  imports AD_Sync
begin

text \<open>
  The tasks that follow a change: \<^verbatim>\<open>projects/project_tasks.py\<close>, \<^verbatim>\<open>accounts/account_tasks.py\<close>
  and the dispatch of \<^verbatim>\<open>tasks/task_manager.py\<close>. The queue hands messages out one at a time
  (\<open>MAX_WORKERS = 1\<close>) and in order within a message group; a message whose task failed is not
  deleted and comes again, so what a task does has to stand repetition.
\<close>

section \<open>Payloads\<close>

type_synonym payload = "(string \<times> val) list"

definition payload_name :: "payload \<Rightarrow> string \<Rightarrow> ('s, string) act" where
  "payload_name payload k = bindA (attr (map_of payload) k) (\<lambda>v. liftA (name_arg v))"

text \<open>\<open>payload.get(key) or []\<close>\<close>

definition payload_list :: "payload \<Rightarrow> string \<Rightarrow> val" where
  "payload_list payload k =
     (case map_of payload k of None \<Rightarrow> VList [] | Some v \<Rightarrow> if py_truthy v then v else VList [])"

section \<open>Tasks of projects\<close>

definition project_enabled_task :: "'db env \<Rightarrow> payload \<Rightarrow> ('db st, unit) act" where
  "project_enabled_task E payload = bindA (payload_name payload ''project_id'') (project_enabled E)"

definition project_disabled_task :: "'db env \<Rightarrow> payload \<Rightarrow> ('db st, unit) act" where
  "project_disabled_task E payload = bindA (payload_name payload ''project_id'') (project_disabled E)"

text \<open>
  The refresh inside the loop over the groups that were removed: a user who keeps another
  group of the project gets the access back.
\<close>

definition project_groups_updated_task :: "'db env \<Rightarrow> payload \<Rightarrow> ('db st, unit) act" where
  "project_groups_updated_task E payload =
     bindA (payload_name payload ''project_id'') (\<lambda>project_id.
     bindA (get_project_by_id E project_id) (\<lambda>project.
     bindA (project_attr project ''enabled'') (\<lambda>enabled.
     whenA (py_truthy enabled)
       (seqA (for_each_name (payload_list payload ''users_removed'') (\<lambda>username.
                delete_user_project E project_id username [''SELF''] False))
       (seqA (for_each_name (payload_list payload ''groups_removed'') (\<lambda>ldap_group_name.
                seqA (ldap_group_removed E project_id ldap_group_name False)
                     (project_enabled E project_id)))
       (seqA (for_each_name (payload_list payload ''users_added'') (\<lambda>username.
                create_user_project E project_id username [''SELF'']))
             (for_each_name (payload_list payload ''groups_added'') (\<lambda>ldap_group_name.
                ldap_group_added E project_id ldap_group_name))))))))"

section \<open>Tasks of accounts\<close>

definition sync_group_task :: "'db env \<Rightarrow> payload \<Rightarrow> ('db st, unit) act" where
  "sync_group_task E payload =
     bindA (payload_name payload ''group_name'') (\<lambda>group_name.
     bindA (group_dao_get_group E group_name) (\<lambda>grp.
     if ldap_readonly (cfg E) then return ()
     else bindA (case grp of None \<Rightarrow> return False
                 | Some d \<Rightarrow> bindA (attr d ''enabled'') (\<lambda>v. return (py_truthy v))) (\<lambda>present.
       if present then
         bindA (project_attr grp ''group_name'') (\<lambda>name.
         bindA (project_attr grp ''gid'') (\<lambda>gid.
         do_call E (LdapSyncGroup (py_str name) [(''gid'', gid)])))
       else whenA (ldap_is_existing_group (cfg E) group_name) (do_call E (LdapDeleteGroup group_name)))))"

definition group_membership_updated_task :: "'db env \<Rightarrow> payload \<Rightarrow> ('db st, unit) act" where
  "group_membership_updated_task E payload =
     bindA (payload_name payload ''group_name'') (\<lambda>group_name.
     bindA (payload_name payload ''username'') (\<lambda>username.
     bindA (attr (map_of payload) ''operation'') (\<lambda>operation.
     bindA (group_dao_get_group E group_name) (\<lambda>r. case r of
       None \<Rightarrow> raise group_not_found
     | Some grp \<Rightarrow>
         bindA (attr grp ''enabled'') (\<lambda>enabled.
         whenA (py_truthy enabled)
           (if operation = VStr ''add'' then
              seqA (whenA (\<not> ldap_readonly (cfg E)) (do_call E (LdapAddUserToGroup [username] group_name)))
                   (group_member_added E group_name username)
            else
              seqA (whenA (\<not> ldap_readonly (cfg E)) (do_call E (LdapRemoveUserFromGroup [username] group_name)))
                   (group_member_removed E group_name username)))))))"

text \<open>
  With a directory that can be written, an enabled user makes the task call
  \<open>sync_group(gid=...)\<close>; the method also requires the name of the group, so Python raises
  before the user is synchronised.
\<close>

definition sync_user_task :: "'db env \<Rightarrow> payload \<Rightarrow> ('db st, unit) act" where
  "sync_user_task E payload =
     bindA (payload_name payload ''username'') (\<lambda>username.
     bindA (user_dao_get_user E username) (\<lambda>user.
     bindA (project_attr user ''enabled'') (\<lambda>enabled.
     if ldap_readonly (cfg E) then return ()
     else if py_truthy enabled then seqA (project_attr user ''gid'') (raise TypeError)
     else
       seqA (whenA (ldap_is_existing_user (cfg E) username) (do_call E (LdapDeleteUser username)))
            (whenA (ldap_is_sudo_user (cfg E) username) (do_call E (LdapRemoveSudoUser username))))))"

text \<open>The file operations of \<open>UserHomeDirectory\<close> are one call to the outside.\<close>

definition create_home_directory_task :: "'db env \<Rightarrow> payload \<Rightarrow> ('db st, unit) act" where
  "create_home_directory_task E payload =
     bindA (payload_name payload ''username'') (\<lambda>username.
     bindA (get_user E username) (\<lambda>user.
     do_call E (CreateHomeDirectory (str_or_empty (u_username user)))))"

section \<open>TaskManager\<close>

text \<open>The tasks the cluster manager registers, by name.\<close>

definition task_of :: "'db env \<Rightarrow> string \<Rightarrow> (payload \<Rightarrow> ('db st, unit) act) option" where
  "task_of E name = map_of
     [(''accounts.sync-user'', sync_user_task E),
      (''accounts.sync-group'', sync_group_task E),
      (''accounts.create-home-directory'', create_home_directory_task E),
      (''adsync.sync-all-groups'', \<lambda>payload. return ()),
      (''adsync.sync-all-users'', \<lambda>payload. return ()),
      (''adsync.sync-from-ad'', \<lambda>payload. sync_from_ad_task E),
      (''accounts.group-membership-updated'', group_membership_updated_task E),
      (''projects.project-enabled'', project_enabled_task E),
      (''projects.project-disabled'', project_disabled_task E),
      (''projects.project-groups-updated'', project_groups_updated_task E)] name"

text \<open>
  \<open>execute_task\<close> of a decoded message: every exception is logged and swallowed, and a message
  is deleted from the queue only after its task succeeded.
\<close>

definition execute_task :: "'db env \<Rightarrow> string \<Rightarrow> payload \<Rightarrow> string \<Rightarrow> ('db st, unit) act" where
  "execute_task E task_name payload receipt_handle =
     catchA
       (case task_of E task_name of
          None \<Rightarrow> return ()
        | Some invoke \<Rightarrow> seqA (invoke payload) (do_call E (DeleteMessage receipt_handle)))
       (\<lambda>e. return ())"

end
