(* ===== verification/Task_Effects.thy ===== *)
theory Task_Effects
  imports Tasks
begin

text \<open>
  What the tasks achieve, together with the requests that sent them: access follows the
  rows of the projects and the memberships, and a message that is delivered twice does no harm.
\<close>

section \<open>A change of the groups of a project\<close>

text \<open>The access the row of a project asks for.\<close>

definition granted :: "'db env \<Rightarrow> 'db \<Rightarrow> string list \<Rightarrow> string list \<Rightarrow> string \<Rightarrow> string set" where
  "granted E d gs us u = {g \<in> set gs. u \<in> members E d g} \<union> (if u \<in> set us then {''SELF''} else {})"

text \<open>The tables give exactly that access, and the groups are the ones linked to the project.\<close>

definition agrees :: "'db env \<Rightarrow> 'db \<Rightarrow> string \<Rightarrow> string list \<Rightarrow> string list \<Rightarrow> bool" where
  "agrees E d p gs us \<longleftrightarrow> {g. (g, p) \<in> linked E d} = set gs \<and> (\<forall>u. access E d (u, p) = granted E d gs us u)"

text \<open>What the rows of one project and the members of its groups have to satisfy.\<close>

definition open_project :: "'db env \<Rightarrow> 'db st \<Rightarrow> string \<Rightarrow> string list \<Rightarrow> string list \<Rightarrow> bool" where
  "open_project E s p gs us \<longleftrightarrow> clean_id p \<and> tables_ok E (st_db s) \<and>
     (\<exists>i. row E s Projects (p, []) = Some i \<and> opened_for i gs us \<and> i ''enabled'' = Some (VBool True)) \<and>
     (\<forall>g \<in> set gs. \<not> blank g \<and> g \<noteq> ''SELF'') \<and> (\<forall>u \<in> set us. \<not> blank u)"

lemma open_project_unrelated:
  assumes "open_project E s p gs us" and "unrelated E t = unrelated E s" and "tables_ok E (st_db t)"
  shows "open_project E t p gs us"
proof -
  have "row E t Projects (p, []) = row E s Projects (p, [])" by (rule unrelated_row [OF assms(2)]) simp
  then show ?thesis using assms(1,3) by (simp add: open_project_def)
qed

context dynamodb
begin

lemma refreshed_run:
  assumes "open_project E s p gs us" and "\<not> blank g" and "\<forall>u \<in> members E (st_db s) g. revocable E s p u"
    and "g \<notin> set gs" and "g \<noteq> ''SELF''"
  shows "\<exists>t. seqA (ldap_group_removed E p g False) (project_enabled E p) s = (Inr (), t) \<and>
     open_project E t p gs us \<and> unrelated E t = unrelated E s \<and>
     linked E (st_db t) = linked E (st_db s) - {(g, p)} \<union> (\<lambda>h. (h, p)) ` set gs \<and>
     (\<forall>u q. access E (st_db t) (u, q) = (if q = p
        then access E (st_db s) (u, p) - {h \<in> {g}. u \<in> members E (st_db s) h} \<union> granted E (st_db s) gs us u
        else access E (st_db s) (u, q)))"
proof -
  have nb: "\<not> blank p" and ok: "tables_ok E (st_db s)"
    using assms(1) clean_id_not_blank by (auto simp: open_project_def)
  obtain v where v: "ldap_group_removed E p g False s = (Inr (), v)" "sources_ok E (st_db v)"
      "unrelated E v = unrelated E s" "linked E (st_db v) = linked E (st_db s) - {(g, p)}"
      "\<forall>u q. access E (st_db v) (u, q) =
        (if u \<in> members E (st_db s) g \<and> q = p then access E (st_db s) (u, q) - {g} else access E (st_db s) (u, q))"
    using ldap_group_removed_run [OF tables_okD(1) [OF ok] nb assms(2,3), of False] by blast
  have mem: "members E (st_db v) = members E (st_db s)" by (rule unrelated_facts(1) [OF v(3)])
  have okv: "tables_ok E (st_db v)" using v(4) by (intro unrelated_tables_ok [OF v(3) ok v(2)]) auto
  then have "open_project E v p gs us" by (rule open_project_unrelated [OF assms(1) v(3)])
  then obtain i where i: "row E v Projects (p, []) = Some i" "opened_for i gs us"
      "\<forall>g \<in> set gs. \<not> blank g" "\<forall>u \<in> set us. \<not> blank u"
    by (auto simp: open_project_def)
  obtain t where t: "project_enabled E p v = (Inr (), t)" "tables_ok E (st_db t)" "unrelated E t = unrelated E v"
      "linked E (st_db t) = linked E (st_db v) \<union> (\<lambda>g. (g, p)) ` set gs"
      "\<forall>u q. access E (st_db t) (u, q) = access E (st_db v) (u, q) \<union>
        (if q = p then {g \<in> set gs. u \<in> members E (st_db v) g} \<union>
                       (if u \<in> set us then {''SELF''} else {}) else {})"
    using project_enabled_run [OF okv nb i] by blast
  have same: "unrelated E t = unrelated E s" using t(3) v(3) by simp
  show ?thesis
    using v(1,4) t(1,4) same open_project_unrelated [OF assms(1) same t(2)]
    by (intro exI [of _ t]) (auto simp: t(5) v(5) mem granted_def)
qed

lemma removed_groups_run:
  assumes "open_project E s p gs us"
    and "\<forall>g \<in> set gr. \<not> blank g \<and> g \<noteq> ''SELF'' \<and> g \<notin> set gs \<and> (\<forall>u \<in> members E (st_db s) g. revocable E s p u)"
  shows "\<exists>t. for_each gr (\<lambda>g. seqA (ldap_group_removed E p g False) (project_enabled E p)) s = (Inr (), t) \<and>
     open_project E t p gs us \<and> unrelated E t = unrelated E s \<and>
     linked E (st_db t) = linked E (st_db s) - (\<lambda>h. (h, p)) ` set gr \<union>
        (if gr = [] then {} else (\<lambda>h. (h, p)) ` set gs) \<and>
     (\<forall>u q. access E (st_db t) (u, q) = (if q = p
        then access E (st_db s) (u, p) - {h \<in> set gr. u \<in> members E (st_db s) h} \<union>
             (if gr = [] then {} else granted E (st_db s) gs us u)
        else access E (st_db s) (u, q)))"
  using assms
proof (induction gr arbitrary: s)
  case Nil
  then show ?case by simp
next
  case (Cons g gr)
  obtain v where v: "seqA (ldap_group_removed E p g False) (project_enabled E p) s = (Inr (), v)"
      "open_project E v p gs us" "unrelated E v = unrelated E s"
      "linked E (st_db v) = linked E (st_db s) - {(g, p)} \<union> (\<lambda>h. (h, p)) ` set gs"
      "\<forall>u q. access E (st_db v) (u, q) = (if q = p
        then access E (st_db s) (u, p) - {h \<in> {g}. u \<in> members E (st_db s) h} \<union> granted E (st_db s) gs us u
        else access E (st_db s) (u, q))"
    using refreshed_run [OF Cons.prems(1), of g] Cons.prems(2) by auto
  have mem: "members E (st_db v) = members E (st_db s)" by (rule unrelated_facts(1) [OF v(3)])
  have "\<forall>g \<in> set gr. \<not> blank g \<and> g \<noteq> ''SELF'' \<and> g \<notin> set gs \<and>
      (\<forall>u \<in> members E (st_db v) g. revocable E v p u)"
    using Cons.prems(2) unrelated_facts(1,3) [OF v(3)] by simp
  then obtain t where t: "for_each gr (\<lambda>g. seqA (ldap_group_removed E p g False) (project_enabled E p)) v = (Inr (), t)"
     "open_project E t p gs us" "unrelated E t = unrelated E v"
     "linked E (st_db t) = linked E (st_db v) - (\<lambda>h. (h, p)) ` set gr \<union>
        (if gr = [] then {} else (\<lambda>h. (h, p)) ` set gs)"
     "\<forall>u q. access E (st_db t) (u, q) = (if q = p
        then access E (st_db v) (u, p) - {h \<in> set gr. u \<in> members E (st_db v) h} \<union>
             (if gr = [] then {} else granted E (st_db v) gs us u)
        else access E (st_db v) (u, q))"
    using Cons.IH [OF v(2)] by blast
  have gr: "''SELF'' \<notin> set (g # gr)" "\<forall>h \<in> set gs. h \<notin> set (g # gr)" using Cons.prems(2) by auto
  have "granted E (st_db v) gs us = granted E (st_db s) gs us" by (simp add: granted_def fun_eq_iff mem)
  moreover have "granted E (st_db s) gs us u \<inter> set (g # gr) = {}" for u
    using gr by (auto simp: granted_def)
  ultimately have "access E (st_db t) (u, p) =
      access E (st_db s) (u, p) - {h \<in> set (g # gr). u \<in> members E (st_db s) h} \<union> granted E (st_db s) gs us u" for u
    using t(5) v(5) mem by auto
  then have "access E (st_db t) (u, q) = (if q = p
      then access E (st_db s) (u, p) - {h \<in> set (g # gr). u \<in> members E (st_db s) h} \<union> granted E (st_db s) gs us u
      else access E (st_db s) (u, q))" for u q
    using t(5) v(5) by simp
  moreover have "linked E (st_db t) = linked E (st_db s) - (\<lambda>h. (h, p)) ` set (g # gr) \<union> (\<lambda>h. (h, p)) ` set gs"
    using t(4) v(4) gr by auto
  ultimately show ?case using t(1-3) v(1,3) by (intro exI [of _ t]) simp
qed

text \<open>The task as the four loops it consists of.\<close>

lemma groups_updated_task_unfold:
  assumes "open_project E s p gs us"
  shows "project_groups_updated_task E [(''project_id'', VStr p), (''groups_added'', strs ga),
       (''groups_removed'', strs gr), (''users_added'', strs ua), (''users_removed'', strs ur)] s =
     seqA (for_each ur (\<lambda>u. delete_user_project E p u [''SELF''] False))
    (seqA (for_each gr (\<lambda>g. seqA (ldap_group_removed E p g False) (project_enabled E p)))
    (seqA (for_each ua (\<lambda>u. create_user_project E p u [''SELF'']))
          (for_each ga (\<lambda>g. ldap_group_added E p g)))) s"
proof -
  have list: "payload_list [(''project_id'', VStr p), (''groups_added'', strs ga), (''groups_removed'', strs gr),
      (''users_added'', strs ua), (''users_removed'', strs ur)] k = strs (the (map_of
      [(''groups_added'', ga), (''groups_removed'', gr), (''users_added'', ua), (''users_removed'', ur)] k))"
    if "k \<in> {''groups_added'', ''groups_removed'', ''users_added'', ''users_removed''}" for k
    using that by (auto simp: payload_list_def)
  have "\<not> blank p" using assms clean_id_not_blank by (simp add: open_project_def)
  then show ?thesis using assms
    by (auto simp: project_groups_updated_task_def payload_name_def attr_def name_arg_def list open_project_def
        project_attr_def)
qed

lemma groups_updated_run:
  assumes "open_project E s p gs us" and "agrees E (st_db s) p ogs ous"
    and "set ga = set gs - set ogs" and "set gr = set ogs - set gs"
    and "set ua = set us - set ous" and "set ur = set ous - set us"
    and "\<forall>g \<in> set gr. g \<noteq> ''SELF'' \<and> (\<forall>u \<in> members E (st_db s) g. user_exists E (st_db s) u)"
    and "\<forall>u \<in> set ur. user_exists E (st_db s) u"
  shows "\<exists>t. project_groups_updated_task E [(''project_id'', VStr p), (''groups_added'', strs ga),
       (''groups_removed'', strs gr), (''users_added'', strs ua), (''users_removed'', strs ur)] s = (Inr (), t) \<and>
     tables_ok E (st_db t) \<and> agrees E (st_db t) p gs us \<and> unrelated E t = unrelated E s \<and>
     (\<forall>u q. q \<noteq> p \<longrightarrow> access E (st_db t) (u, q) = access E (st_db s) (u, q))"
proof -
  have nb: "\<not> blank p" and ok: "tables_ok E (st_db s)" and pr: "row E s Projects (p, []) \<noteq> None"
    and gs: "\<forall>g \<in> set gs. \<not> blank g \<and> g \<noteq> ''SELF''" and us: "\<forall>u \<in> set us. \<not> blank u"
    using assms(1) clean_id_not_blank by (auto simp: open_project_def)
  have rev: "\<forall>u \<in> set ur. revocable E s p u" using assms(8) pr by (simp add: revocable_def)
  obtain s1 where s1: "for_each ur (\<lambda>u. delete_user_project E p u [''SELF''] False) s = (Inr (), s1)"
      "sources_ok E (st_db s1)" "elsewhere E s1 = elsewhere E s"
      "\<forall>u q. access E (st_db s1) (u, q) =
        (if u \<in> set ur \<and> q = p then access E (st_db s) (u, q) - {''SELF''} else access E (st_db s) (u, q))"
    using grants.revoke_users [OF tables_okD(1) [OF ok] nb rev, of "''SELF''"] by blast
  note same1 = elsewhere_unrelated [OF s1(3)]
  note facts1 = unrelated_facts [OF same1(1)]
  have ok1: "tables_ok E (st_db s1)" using same1(2) by (intro unrelated_tables_ok [OF same1(1) ok s1(2)]) simp
  have op1: "open_project E s1 p gs us" by (rule open_project_unrelated [OF assms(1) same1(1) ok1])
  have gr: "\<forall>g \<in> set gr. \<not> blank g \<and> g \<noteq> ''SELF'' \<and> g \<notin> set gs \<and> (\<forall>u \<in> members E (st_db s1) g. revocable E s1 p u)"
  proof
    fix g assume g: "g \<in> set gr"
    then have "(g, p) \<in> linked E (st_db s)" using assms(2,4) by (auto simp: agrees_def)
    then show "\<not> blank g \<and> g \<noteq> ''SELF'' \<and> g \<notin> set gs \<and> (\<forall>u \<in> members E (st_db s1) g. revocable E s1 p u)"
      using g assms(4,7) pr tables_okD(3) [OF ok] facts1(1,3) by (auto simp: revocable_def [of E s])
  qed
  obtain s2 where s2: "for_each gr (\<lambda>g. seqA (ldap_group_removed E p g False) (project_enabled E p)) s1 = (Inr (), s2)"
      "open_project E s2 p gs us" "unrelated E s2 = unrelated E s1"
      "linked E (st_db s2) = linked E (st_db s1) - (\<lambda>h. (h, p)) ` set gr \<union>
        (if gr = [] then {} else (\<lambda>h. (h, p)) ` set gs)"
      "\<forall>u q. access E (st_db s2) (u, q) = (if q = p
        then access E (st_db s1) (u, p) - {h \<in> set gr. u \<in> members E (st_db s1) h} \<union>
             (if gr = [] then {} else granted E (st_db s1) gs us u)
        else access E (st_db s1) (u, q))"
    using removed_groups_run [OF op1 gr] by blast
  have ok2: "tables_ok E (st_db s2)" using s2(2) by (simp add: open_project_def)
  have ua: "\<forall>u \<in> set ua. \<not> blank u" using us assms(5) by simp
  obtain s3 where s3: "for_each ua (\<lambda>u. create_user_project E p u [''SELF'']) s2 = (Inr (), s3)"
      "sources_ok E (st_db s3)" "elsewhere E s3 = elsewhere E s2"
      "\<forall>u q. access E (st_db s3) (u, q) =
        (if u \<in> set ua \<and> q = p then insert ''SELF'' (access E (st_db s2) (u, q)) else access E (st_db s2) (u, q))"
    using grants.grant_users [OF tables_okD(1) [OF ok2] nb ua, of "''SELF''"] by blast
  note same3 = elsewhere_unrelated [OF s3(3)]
  have "members_ok E (st_db s3)" using tables_okD(2) [OF ok2] unrelated_facts(2) [OF same3(1)] by simp
  moreover have "\<forall>g \<in> set ga. \<not> blank g" using gs assms(3) by simp
  ultimately obtain t where t: "for_each ga (\<lambda>g. ldap_group_added E p g) s3 = (Inr (), t)" "sources_ok E (st_db t)"
     "unrelated E t = unrelated E s3" "linked E (st_db t) = linked E (st_db s3) \<union> (\<lambda>g. (g, p)) ` set ga"
     "\<forall>u q. access E (st_db t) (u, q) = access E (st_db s3) (u, q) \<union>
        (if q = p then {g \<in> set ga. u \<in> members E (st_db s3) g} else {})"
    using ldap_groups_added_run [OF s3(2) _ nb] by blast
  have same: "unrelated E t = unrelated E s" using t(3) same3(1) s2(3) same1(1) by simp
  have mem: "members E (st_db s1) = members E (st_db s)" "members E (st_db s3) = members E (st_db s)"
      "members E (st_db t) = members E (st_db s)"
    using facts1(1) unrelated_facts(1) [OF same] unrelated_facts(1) [OF t(3)] by simp_all
  have grant: "granted E (st_db s1) = granted E (st_db s)" "granted E (st_db t) = granted E (st_db s)"
    by (simp_all add: granted_def fun_eq_iff mem)
  have link: "linked E (st_db t) = linked E (st_db s) - (\<lambda>h. (h, p)) ` set gr \<union>
      (if gr = [] then {} else (\<lambda>h. (h, p)) ` set gs) \<union> (\<lambda>h. (h, p)) ` set ga"
    using t(4) same3(2) s2(4) same1(2) by simp
  have old: "{g. (g, p) \<in> linked E (st_db s)} = set ogs" "access E (st_db s) (u, p) = granted E (st_db s) ogs ous u" for u
    using assms(2) by (simp_all add: agrees_def)
  have links: "{g. (g, p) \<in> linked E (st_db t)} = set gs"
    using old(1) assms(3,4) by (auto simp: link)
  have self: "''SELF'' \<notin> set ogs" "''SELF'' \<notin> set gs" using gs gr assms(4) by auto
  have "access E (st_db t) (u, p) = granted E (st_db s) gs us u" for u
  proof -
    have "access E (st_db t) (u, p) =
        (granted E (st_db s) ogs ous u - (if u \<in> set ur then {''SELF''} else {})
           - {h \<in> set gr. u \<in> members E (st_db s) h}) \<union>
        (if gr = [] then {} else granted E (st_db s) gs us u) \<union> (if u \<in> set ua then {''SELF''} else {}) \<union>
        {g \<in> set ga. u \<in> members E (st_db s) g}"
      by (simp add: t(5) s3(4) s2(5) s1(4) mem grant old(2))
    also have "\<dots> = granted E (st_db s) gs us u"
      using self assms(3-6) unfolding granted_def by (cases "u \<in> set us"; cases "u \<in> set ous") auto
    finally show ?thesis .
  qed
  then have "agrees E (st_db t) p gs us" using links by (simp add: agrees_def grant)
  moreover have "tables_ok E (st_db t)"
    using ok t(2) unrelated_facts(2) [OF same] nb gs assms(3) by (auto simp: tables_ok_def link split: if_splits)
  moreover have "access E (st_db t) (u, q) = access E (st_db s) (u, q)" if "q \<noteq> p" for u q
    using that by (simp add: t(5) s3(4) s2(5) s1(4))
  ultimately show ?thesis
    using groups_updated_task_unfold [OF assms(1)] s1(1) s2(1) s3(1) t(1) same by auto
qed

end

section \<open>Executing a message\<close>

lemma execute_task_run:
  assumes "task_of E name = Some f" and "f payload s = (r, t)"
  shows "execute_task E name payload rh s =
     (Inr (), if r = Inr () then t\<lparr>st_trace := st_trace t @ [DeleteMessage rh]\<rparr> else t)"
  using assms by (cases r) (auto simp: execute_task_def catchA_def seqA_def bindA_def split: sum.split)

lemma task_of_simps [simp]:
  "task_of E ''projects.project-enabled'' = Some (project_enabled_task E)"
  "task_of E ''projects.project-disabled'' = Some (project_disabled_task E)"
  "task_of E ''projects.project-groups-updated'' = Some (project_groups_updated_task E)"
  "task_of E ''accounts.group-membership-updated'' = Some (group_membership_updated_task E)"
  by (simp_all add: task_of_def)

lemma state_tasks_unfold [simp]:
  "project_enabled_task E [(''project_id'', VStr p)] = project_enabled E p"
  "project_disabled_task E [(''project_id'', VStr p)] = project_disabled E p"
  by (simp_all add: project_enabled_task_def project_disabled_task_def payload_name_def attr_def
      name_arg_def bindA_def fun_eq_iff)

section \<open>Disabling a project, from the request to the end of its task\<close>

context dynamodb
begin

text \<open>Writing the row of a project leaves memberships, links and access alone.\<close>

lemma project_write_frame:
  assumes "key_of Projects i = Some k"
  shows "members E (ddb_put E d Projects i) = members E d" and "linked E (ddb_put E d Projects i) = linked E d"
    and "access E (ddb_put E d Projects i) = access E d" and "consistent E (ddb_put E d Projects i) = consistent E d"
    and "tables_ok E (ddb_put E d Projects i) = tables_ok E d"
    and "user_exists E (ddb_put E d Projects i) u = user_exists E d u"
proof -
  show mem: "members E (ddb_put E d Projects i) = members E d" and lnk: "linked E (ddb_put E d Projects i) = linked E d"
    and acc: "access E (ddb_put E d Projects i) = access E d"
    using assms by (simp_all add: members_def linked_def access_def fun_eq_iff)
  show "consistent E (ddb_put E d Projects i) = consistent E d" by (simp add: consistent_def mem lnk acc)
  show "tables_ok E (ddb_put E d Projects i) = tables_ok E d"
    using assms by (simp add: tables_ok_def members_ok_def mem lnk)
  show "user_exists E (ddb_put E d Projects i) u = user_exists E d u"
    using assms by (simp add: user_exists_def)
qed

lemma disabled_project_is_closed_run:
  assumes "clean_id p" and "consistent E (st_db s)" and "tables_ok E (st_db s)"
    and "row E s Projects (p, []) = Some i" and "opened_for i gs us"
    and "\<forall>g \<in> set gs. \<not> blank g \<and> (\<forall>u \<in> members E (st_db s) g. user_exists E (st_db s) u)"
    and "\<forall>u \<in> set us. user_exists E (st_db s) u"
    and "\<forall>g. (g, p) \<in> linked E (st_db s) \<longrightarrow> g \<in> set gs"
    and "\<forall>u. ''SELF'' \<in> access E (st_db s) (u, p) \<longrightarrow> u \<in> set us"
    and "disable_project E p [] s = (Inr (), v)"
  shows "st_trace v = st_trace s @ [SendTask ''projects.project-disabled'' [(''project_id'', VStr p)] p] \<and>
     (\<exists>t. execute_task E ''projects.project-disabled'' [(''project_id'', VStr p)] rh v = (Inr (), t) \<and>
       (\<forall>u. row E t UserProjects (u, p) = None) \<and>
       (\<exists>j. row E t Projects (p, []) = Some j \<and> j ''enabled'' = Some (VBool False)) \<and>
       st_trace t = st_trace v @ [DeleteMessage rh])"
proof -
  let ?i = "project_update_of E s p i [''project_id'' \<mapsto> VStr p, ''enabled'' \<mapsto> VBool False]"
  have v: "st_db v = ddb_put E (st_db s) Projects ?i"
      "st_trace v = st_trace s @ [SendTask ''projects.project-disabled'' [(''project_id'', VStr p)] p]"
    using assms(10) set_project_enabled_run [OF assms(1,4), of False]
    by (auto simp: disable_project_def project_task_def)
  have k: "key_of Projects ?i = Some (p, [])" by simp
  note frame = project_write_frame [OF k, of "st_db s", folded v(1)]
  have i: "row E v Projects (p, []) = Some ?i" "opened_for ?i gs us" "?i ''enabled'' = Some (VBool False)"
    using assms(5) by (simp_all add: v(1) opened_for_def project_update_of_lookup)
  have nb: "\<not> blank p" by (rule clean_id_not_blank [OF assms(1)])
  have c: "consistent E (st_db v)" and ok: "tables_ok E (st_db v)" using assms(2,3) frame by simp_all
  have gs: "\<forall>g \<in> set gs. \<not> blank g \<and> (\<forall>u \<in> members E (st_db v) g. user_exists E (st_db v) u)"
    and us: "\<forall>u \<in> set us. user_exists E (st_db v) u"
    using assms(6,7) frame by simp_all
  obtain t where t: "project_disabled E p v = (Inr (), t)" "unrelated E t = unrelated E v"
    using project_disabled_run [OF ok nb i(1,2) gs us] by blast
  have "\<forall>u. row E t UserProjects (u, p) = None"
    using project_disabled_locks_out [OF dynamodb_axioms c ok nb i(1,2) gs us] assms(8,9) frame t(1) by auto
  moreover have "row E t Projects (p, []) = Some ?i" using unrelated_facts(4) [OF t(2)] i(1) by simp
  moreover have "st_trace t = st_trace v" using t(2) by (simp add: unrelated_def)
  moreover have "execute_task E ''projects.project-disabled'' [(''project_id'', VStr p)] rh v =
      (Inr (), t\<lparr>st_trace := st_trace t @ [DeleteMessage rh]\<rparr>)"
    using execute_task_run [of E "''projects.project-disabled''"] t(1) by simp
  ultimately show ?thesis using v(2) i(3) by simp
qed

end

section \<open>A change of a membership\<close>

definition membership_payload :: "string \<Rightarrow> string \<Rightarrow> string \<Rightarrow> payload" where
  "membership_payload g u op = [(''group_name'', VStr g), (''username'', VStr u), (''operation'', VStr op)]"

definition enabled_group :: "'db env \<Rightarrow> 'db st \<Rightarrow> string \<Rightarrow> bool" where
  "enabled_group E s g \<longleftrightarrow> \<not> blank g \<and> ldap_readonly (cfg E) \<and>
     (\<exists>i. row E s Groups (g, []) = Some i \<and> i ''enabled'' = Some (VBool True))"

definition member_change :: "string \<Rightarrow> string \<Rightarrow> string set \<Rightarrow> string set" where
  "member_change op g X = (if op = ''add'' then insert g X else X - {g})"

lemma member_change_simps [simp]:
  "member_change ''add'' g X = insert g X" "member_change ''remove'' g X = X - {g}"
  "member_change op g (member_change op g X) = member_change op g X"
  "g \<in> member_change op g X \<longleftrightarrow> op = ''add''"
  by (auto simp: member_change_def)

lemma membership_task_run:
  assumes "enabled_group E s g"
  shows "group_membership_updated_task E (membership_payload g u ''add'') s = group_member_added E g u s"
    and "group_membership_updated_task E (membership_payload g u ''remove'') s = group_member_removed E g u s"
  using assms
  by (auto simp: enabled_group_def group_membership_updated_task_def membership_payload_def payload_name_def
      attr_def name_arg_def)

lemma enabled_group_elsewhere: "enabled_group E s g \<Longrightarrow> elsewhere E t = elsewhere E s \<Longrightarrow> enabled_group E t g"
  by (auto simp: enabled_group_def elsewhere_row [of E t s])

context dynamodb_one_page
begin

lemma group_member_added_run:
  assumes "tables_ok E (st_db s)" and "\<not> blank g" and "\<not> blank u"
  shows "\<exists>t. group_member_added E g u s = (Inr (), t) \<and> tables_ok E (st_db t) \<and> elsewhere E t = elsewhere E s \<and>
     (\<forall>v q. access E (st_db t) (v, q) = (if v = u \<and> (g, q) \<in> linked E (st_db s)
        then insert g (access E (st_db s) (v, q)) else access E (st_db s) (v, q)))"
proof -
  obtain ps where ps: "get_projects_by_group_name E g s = (Inr ps, s)" "set ps = {p. (g, p) \<in> linked E (st_db s)}"
    using get_projects_by_group_name_run [OF assms(2)] by metis
  have nb: "\<forall>p \<in> set ps. \<not> blank p" using ps(2) tables_okD(4) [OF assms(1)] by auto
  obtain t where t: "for_each ps (\<lambda>p. create_user_project E p u [g]) s = (Inr (), t)"
      "sources_ok E (st_db t)" "elsewhere E t = elsewhere E s"
      "\<forall>v q. access E (st_db t) (v, q) =
        (if v = u \<and> q \<in> set ps then insert g (access E (st_db s) (v, q)) else access E (st_db s) (v, q))"
    using grants.grant_projects [OF tables_okD(1) [OF assms(1)] assms(3) nb] by blast
  note same = elsewhere_unrelated [OF t(3)]
  have "group_member_added E g u s = (Inr (), t)" using ps(1) t(1) assms by (simp add: group_member_added_def)
  moreover have "tables_ok E (st_db t)"
    using same by (intro unrelated_tables_ok [OF same(1) assms(1) t(2)]) simp
  ultimately show ?thesis using t(3,4) ps(2) by (intro exI [of _ t]) simp
qed

lemma group_member_removed_run:
  assumes "tables_ok E (st_db s)" and "\<not> blank g" and "\<not> blank u"
    and "\<forall>p. (g, p) \<in> linked E (st_db s) \<longrightarrow> revocable E s p u"
  shows "\<exists>t. group_member_removed E g u s = (Inr (), t) \<and> tables_ok E (st_db t) \<and> elsewhere E t = elsewhere E s \<and>
     (\<forall>v q. access E (st_db t) (v, q) = (if v = u \<and> (g, q) \<in> linked E (st_db s)
        then access E (st_db s) (v, q) - {g} else access E (st_db s) (v, q)))"
proof -
  obtain ps where ps: "get_projects_by_group_name E g s = (Inr ps, s)" "set ps = {p. (g, p) \<in> linked E (st_db s)}"
    using get_projects_by_group_name_run [OF assms(2)] by metis
  have nb: "\<forall>p \<in> set ps. \<not> blank p \<and> revocable E s p u"
    using ps(2) tables_okD(4) [OF assms(1)] assms(4) by auto
  obtain t where t: "for_each ps (\<lambda>p. delete_user_project E p u [g] False) s = (Inr (), t)"
      "sources_ok E (st_db t)" "elsewhere E t = elsewhere E s"
      "\<forall>v q. access E (st_db t) (v, q) =
        (if v = u \<and> q \<in> set ps then access E (st_db s) (v, q) - {g} else access E (st_db s) (v, q))"
    using grants.revoke_projects [OF tables_okD(1) [OF assms(1)] nb] by blast
  note same = elsewhere_unrelated [OF t(3)]
  have "group_member_removed E g u s = (Inr (), t)" using ps(1) t(1) assms by (simp add: group_member_removed_def)
  moreover have "tables_ok E (st_db t)"
    using same by (intro unrelated_tables_ok [OF same(1) assms(1) t(2)]) simp
  ultimately show ?thesis using t(3,4) ps(2) by (intro exI [of _ t]) simp
qed

text \<open>The same message once more: the tables are in the state it asks for.\<close>

lemma membership_task_twice:
  assumes "tables_ok E (st_db s)" and "enabled_group E s g" and "\<not> blank u" and "op \<in> {''add'', ''remove''}"
    and "\<forall>p. (g, p) \<in> linked E (st_db s) \<longrightarrow> revocable E s p u"
  shows "\<exists>t t'. group_membership_updated_task E (membership_payload g u op) s = (Inr (), t) \<and>
     group_membership_updated_task E (membership_payload g u op) t = (Inr (), t') \<and>
     elsewhere E t = elsewhere E s \<and> elsewhere E t' = elsewhere E s \<and>
     (\<forall>q. (g, q) \<in> linked E (st_db s) \<longrightarrow> (g \<in> access E (st_db t) (u, q) \<longleftrightarrow> op = ''add'')) \<and>
     access E (st_db t') = access E (st_db t)"
proof -
  have g: "\<not> blank g" using assms(2) by (simp add: enabled_group_def)
  have once: "\<exists>t. group_membership_updated_task E (membership_payload g u op) s = (Inr (), t) \<and>
      tables_ok E (st_db t) \<and> elsewhere E t = elsewhere E s \<and>
      (\<forall>v q. access E (st_db t) (v, q) = (if v = u \<and> (g, q) \<in> linked E (st_db s)
        then member_change op g (access E (st_db s) (v, q))
        else access E (st_db s) (v, q)))"
    if "tables_ok E (st_db s)" "enabled_group E s g" "\<forall>p. (g, p) \<in> linked E (st_db s) \<longrightarrow> revocable E s p u" for s
  proof -
    from assms(4) consider "op = ''add''" | "op = ''remove''" by blast
    then show ?thesis
    proof cases
      case 1
      show ?thesis unfolding 1 member_change_simps membership_task_run(1) [OF that(2)]
        by (rule group_member_added_run [OF that(1) g assms(3)])
    next
      case 2
      show ?thesis unfolding 2 member_change_simps membership_task_run(2) [OF that(2)]
        by (rule group_member_removed_run [OF that(1) g assms(3) that(3)])
    qed
  qed
  obtain t where t: "group_membership_updated_task E (membership_payload g u op) s = (Inr (), t)"
      "tables_ok E (st_db t)" "elsewhere E t = elsewhere E s"
      "\<forall>v q. access E (st_db t) (v, q) = (if v = u \<and> (g, q) \<in> linked E (st_db s)
        then member_change op g (access E (st_db s) (v, q))
        else access E (st_db s) (v, q))"
    using once [OF assms(1,2,5)] by blast
  have lnk: "linked E (st_db t) = linked E (st_db s)" by (rule elsewhere_unrelated(2) [OF t(3)])
  have "\<forall>p. (g, p) \<in> linked E (st_db t) \<longrightarrow> revocable E t p u"
    using assms(5) elsewhere_revocable [OF t(3)] lnk by simp
  then obtain t' where t': "group_membership_updated_task E (membership_payload g u op) t = (Inr (), t')"
      "elsewhere E t' = elsewhere E t"
      "\<forall>v q. access E (st_db t') (v, q) = (if v = u \<and> (g, q) \<in> linked E (st_db t)
        then member_change op g (access E (st_db t) (v, q))
        else access E (st_db t) (v, q))"
    using once [OF t(2) enabled_group_elsewhere [OF assms(2) t(3)]] by blast
  have "access E (st_db t') k = access E (st_db t) k" for k
    using t(4) t'(3) lnk by (cases k) auto
  then have "access E (st_db t') = access E (st_db t)" by (simp add: fun_eq_iff)
  moreover have "\<forall>q. (g, q) \<in> linked E (st_db s) \<longrightarrow> (g \<in> access E (st_db t) (u, q) \<longleftrightarrow> op = ''add'')"
    using t(4) by auto
  ultimately show ?thesis using t(1,3) t'(1,2) by auto
qed

end

section \<open>Properties\<close>

text \<open>
  C29. A project that was disabled is closed once the queue delivered the message: the request
  stores the state and sends exactly one message, executing that message takes the access of
  every user away and removes the message from the queue.
\<close>

theorem disabled_project_is_closed:
  assumes "dynamodb E" and "clean_id p" and "consistent E (st_db s)" and "tables_ok E (st_db s)"
    and "row E s Projects (p, []) = Some i" and "opened_for i gs us"
    and "\<forall>g \<in> set gs. \<not> blank g \<and> (\<forall>u \<in> members E (st_db s) g. user_exists E (st_db s) u)"
    and "\<forall>u \<in> set us. user_exists E (st_db s) u"
    and "\<forall>g. (g, p) \<in> linked E (st_db s) \<longrightarrow> g \<in> set gs"
    and "\<forall>u. ''SELF'' \<in> access E (st_db s) (u, p) \<longrightarrow> u \<in> set us"
    and "disable_project E p [] s = (Inr (), v)"
  shows "st_trace v = st_trace s @ [SendTask ''projects.project-disabled'' [(''project_id'', VStr p)] p] \<and>
     (\<exists>t. execute_task E ''projects.project-disabled'' [(''project_id'', VStr p)] rh v = (Inr (), t) \<and>
       (\<forall>u. row E t UserProjects (u, p) = None) \<and>
       (\<exists>j. row E t Projects (p, []) = Some j \<and> j ''enabled'' = Some (VBool False)) \<and>
       st_trace t = st_trace v @ [DeleteMessage rh])"
  by (rule dynamodb.disabled_project_is_closed_run [OF assms])

lemma clean_p: "clean_id ''p''"
  by code_simp

theorem disabled_project_is_closed_witness:
  "\<exists>v t. disable_project local_env ''p'' [] (local_state sample_db) = (Inr (), v) \<and>
     execute_task local_env ''projects.project-disabled'' [(''project_id'', VStr ''p'')] ''r1'' v = (Inr (), t) \<and>
     row local_env t UserProjects (''u'', ''p'') = None \<and> row local_env t UserProjects (''v'', ''p'') = None \<and>
     st_trace t = [SendTask ''projects.project-disabled'' [(''project_id'', VStr ''p'')] ''p'', DeleteMessage ''r1'']"
proof -
  obtain i where i: "mem_get sample_db Projects (''p'', []) = Some i" "opened_for i [''g''] [''v'']"
    using sample_rows(3) by blast
  then have row: "row local_env (local_state sample_db) Projects (''p'', []) = Some i" by simp
  obtain v where v: "disable_project local_env ''p'' [] (local_state sample_db) = (Inr (), v)"
    using dynamodb.set_project_enabled_run [OF mem_dynamodb clean_p row, of False]
    by (simp add: disable_project_def local_world_def)
  have "st_trace v = st_trace (local_state sample_db) @ [SendTask ''projects.project-disabled'' [(''project_id'', VStr ''p'')] ''p''] \<and>
     (\<exists>t. execute_task local_env ''projects.project-disabled'' [(''project_id'', VStr ''p'')] ''r1'' v = (Inr (), t) \<and>
       (\<forall>u. row local_env t UserProjects (u, ''p'') = None) \<and>
       (\<exists>j. row local_env t Projects (''p'', []) = Some j \<and> j ''enabled'' = Some (VBool False)) \<and>
       st_trace t = st_trace v @ [DeleteMessage ''r1''])"
    by (rule disabled_project_is_closed [OF mem_dynamodb clean_p _ _ row i(2) _ _ _ _ v])
       (use sample_ok sample_users in
         \<open>simp_all add: sample_linked sample_access sample_members split: if_splits\<close>)
  then show ?thesis using v by auto
qed

text \<open>
  C30. Changing the groups and users of an enabled project: whatever the old lists were, if the
  access agreed with them, executing the message that names the differences makes the access
  and the links agree with the new lists, and no access to another project changes.
\<close>

theorem changed_project_is_carried_out:
  assumes "dynamodb E" and "open_project E s p gs us" and "agrees E (st_db s) p ogs ous"
    and "set ga = set gs - set ogs" and "set gr = set ogs - set gs"
    and "set ua = set us - set ous" and "set ur = set ous - set us"
    and "\<forall>g \<in> set gr. g \<noteq> ''SELF'' \<and> (\<forall>u \<in> members E (st_db s) g. user_exists E (st_db s) u)"
    and "\<forall>u \<in> set ur. user_exists E (st_db s) u"
  shows "\<exists>t. project_groups_updated_task E [(''project_id'', VStr p), (''groups_added'', strs ga),
       (''groups_removed'', strs gr), (''users_added'', strs ua), (''users_removed'', strs ur)] s = (Inr (), t) \<and>
     agrees E (st_db t) p gs us \<and>
     (\<forall>u q. q \<noteq> p \<longrightarrow> access E (st_db t) (u, q) = access E (st_db s) (u, q))"
  using dynamodb.groups_updated_run [OF assms] by blast

text \<open>The project of the sample before its group \<open>h\<close> was dropped and its user \<open>v\<close> was added.\<close>

definition changed_db :: mem_db where
  "changed_db =
     [((Projects, (''p'', [])), [''name'' \<mapsto> VStr ''proj'', ''enabled'' \<mapsto> VBool True,
          ''ldap_groups'' \<mapsto> strs [''g''], ''users'' \<mapsto> strs [''v'']]),
      ((Users, (''u'', [])), [''enabled'' \<mapsto> VBool True]), ((Users, (''v'', [])), [''enabled'' \<mapsto> VBool True]),
      ((GroupMembers, (''g'', ''u'')), Map.empty), ((GroupMembers, (''h'', ''v'')), Map.empty),
      ((ProjectGroups, (''g'', ''p'')), Map.empty), ((ProjectGroups, (''h'', ''p'')), Map.empty),
      ((UserProjects, (''u'', ''p'')), [''by_ldaps'' \<mapsto> strs [''g'']]),
      ((UserProjects, (''v'', ''p'')), [''by_ldaps'' \<mapsto> strs [''h'']])]"

lemma changed_db_tables:
  "members local_env changed_db g = (if g = ''g'' then {''u''} else if g = ''h'' then {''v''} else {})"
  "linked local_env changed_db = {(''g'', ''p''), (''h'', ''p'')}"
  "access local_env changed_db k =
     (if k = (''u'', ''p'') then {''g''} else if k = (''v'', ''p'') then {''h''} else {})"
  by (auto simp: members_def linked_def access_def mem_get_def changed_db_def key_item_def schema_defs
      map_add_def split: if_splits)

lemma changed_db_ok:
  "open_project local_env (local_state changed_db) ''p'' [''g''] [''v'']"
  "agrees local_env changed_db ''p'' [''g'', ''h''] []" "user_exists local_env changed_db ''v''"
proof -
  have "sources_ok local_env changed_db"
    by (auto simp: sources_ok_def mem_get_def changed_db_def key_item_def schema_defs map_add_def split: if_splits)
  moreover have "members_ok local_env changed_db" by (simp add: members_ok_def changed_db_tables)
  moreover have "\<not> blank ''h''" by code_simp
  ultimately have "tables_ok local_env changed_db" by (simp add: tables_ok_def changed_db_tables)
  then show "open_project local_env (local_state changed_db) ''p'' [''g''] [''v'']"
    by (simp add: open_project_def clean_p opened_for_def mem_get_def changed_db_def key_item_def schema_defs)
  show "agrees local_env changed_db ''p'' [''g'', ''h''] []"
    by (auto simp: agrees_def granted_def changed_db_tables split: if_splits)
  show "user_exists local_env changed_db ''v''"
    by (simp add: user_exists_def mem_get_def changed_db_def)
qed

theorem changed_project_is_carried_out_witness:
  "\<exists>t. project_groups_updated_task local_env [(''project_id'', VStr ''p''), (''groups_added'', strs []),
       (''groups_removed'', strs [''h'']), (''users_added'', strs [''v'']), (''users_removed'', strs [])]
       (local_state changed_db) = (Inr (), t) \<and> agrees local_env (st_db t) ''p'' [''g''] [''v'']"
proof -
  have "\<forall>g \<in> set [''h'']. g \<noteq> ''SELF'' \<and> (\<forall>u \<in> members local_env changed_db g. user_exists local_env changed_db u)"
    using changed_db_ok(3) by (simp add: changed_db_tables)
  then show ?thesis
    using changed_project_is_carried_out [OF mem_dynamodb changed_db_ok(1), of "[''g'', ''h'']" "[]" "[]" "[''h'']" "[''v'']" "[]"]
      changed_db_ok(2) by auto
qed


definition grouped_db :: mem_db where
  "grouped_db = ((Groups, (''g'', [])), [''enabled'' \<mapsto> VBool True]) # sample_db"

lemma grouped_db_other: "t \<noteq> Groups \<Longrightarrow> mem_get grouped_db t k = mem_get sample_db t k"
  by (auto simp: mem_get_def grouped_db_def)


end
