(* ===== verification/Accounts_Admin.thy ===== *)
theory Accounts_Admin
  imports Task_Effects Accounts_Auth
begin

text \<open>
  The cluster administrator. The operations on accounts, the synchronisation with the
  directory and the tasks form a transition system; as long as they are called with normalised
  names, the row of the administrator stays there, enabled and with the administrator's role.
  With another spelling of the name the guards do not hold.
\<close>

section \<open>The invariant\<close>

definition admin_ok :: "'db env \<Rightarrow> 'db \<Rightarrow> bool" where
  "admin_ok E d \<longleftrightarrow>
     (\<exists>i. ddb_get E d Users (cluster_administrator (cfg E), []) = Some i \<and>
        i ''enabled'' = Some (VBool True) \<and> i ''role'' = Some (VStr ''admin'')) \<and>
     (\<forall>n. ddb_get E d Users (n, []) \<noteq> None \<longrightarrow> norm_name n)"

text \<open>An update that does not concern the administrator, or does it no harm.\<close>

definition spares :: "'db env \<Rightarrow> item \<Rightarrow> bool" where
  "spares E d \<longleftrightarrow> harmless d \<or>
     sanitize_username (str_or_empty (get_value_as_string ''username'' d None)) \<noteq> Inr (cluster_administrator (cfg E))"

lemma user_attribute:
  assumes "k \<notin> {''username'', ''created_on'', ''updated_on''}"
  shows "set_attributes Users (n, []) (Some old) (without_keys [''username'', ''created_on''] (d(''updated_on'' \<mapsto> v))) k
    = (case d k of None \<Rightarrow> old k | Some x \<Rightarrow> Some x)"
  using assms
  by (simp add: set_attributes_def key_item_def schema_defs without_keys_def map_add_def
      restrict_map_def split: option.split)

lemma harmless_attributes:
  assumes "harmless d"
  shows "x = Some (VBool True) \<Longrightarrow> (case d ''enabled'' of None \<Rightarrow> x | Some v \<Rightarrow> Some v) = Some (VBool True)"
    and "x = Some (VStr ''admin'') \<Longrightarrow> (case d ''role'' of None \<Rightarrow> x | Some v \<Rightarrow> Some v) = Some (VStr ''admin'')"
  using assms by (auto simp: harmless_def split: option.split)

lemma bindA_liftA_Inr [simp]: "bindA (liftA (Inr x)) f = f x"
  by (simp add: bindA_def fun_eq_iff)

context dynamodb
begin

lemma admin_tolerates [simp]: "t \<noteq> Users \<Longrightarrow> tolerates E (admin_ok E) t" "tolerates_row E (admin_ok E) Groups (g, [])"
  by (auto simp: tolerates_def tolerates_row_def admin_ok_def)

lemma admin_update:
  assumes "spares E d"
  shows "keeps (table_inv (admin_ok E)) (user_dao_update_user E d)"
proof (rule keepsI)
  fix s r t assume ok: "table_inv (admin_ok E) s" and run: "user_dao_update_user E d s = (r, t)"
  let ?san = "sanitize_username (str_or_empty (get_value_as_string ''username'' d None))"
  show "table_inv (admin_ok E) t"
  proof (cases "\<exists>n old. ?san = Inr n \<and> row E s Users (n, []) = Some old")
    case False
    then have "st_db t = st_db s"
      using run by (cases ?san) (auto simp: user_dao_update_user_def)
    then show ?thesis using ok by (simp add: table_inv_def)
  next
    case True
    then obtain n old where n: "?san = Inr n" "row E s Users (n, []) = Some old" by blast
    let ?new = "set_attributes Users (n, []) (Some old)
      (without_keys [''username'', ''created_on''] (d(''updated_on'' \<mapsto> VInt (time_at (cfg E) (st_ticks s)))))"
    have t: "st_db t = ddb_put E (st_db s) Users ?new"
      using run n by (auto simp: user_dao_update_user_def)
    obtain i where i: "row E s Users (cluster_administrator (cfg E), []) = Some i"
        "i ''enabled'' = Some (VBool True)" "i ''role'' = Some (VStr ''admin'')"
      and keys: "\<forall>n. row E s Users (n, []) \<noteq> None \<longrightarrow> norm_name n"
      using ok by (auto simp: table_inv_def admin_ok_def)
    have rows: "row E t Users (m, []) = (if m = n then Some ?new else row E s Users (m, []))" for m
      by (simp add: t)
    have "norm_name m" if m: "row E t Users (m, []) \<noteq> None" for m
      using m keys n(2) by (cases "m = n") (simp_all add: rows)
    moreover have "\<exists>j. row E t Users (cluster_administrator (cfg E), []) = Some j \<and>
        j ''enabled'' = Some (VBool True) \<and> j ''role'' = Some (VStr ''admin'')"
    proof (cases "n = cluster_administrator (cfg E)")
      case True
      then have h: "harmless d" using assms n(1) by (simp add: spares_def)
      have "old = i" using i(1) n(2) True by simp
      then have "?new ''enabled'' = Some (VBool True)" "?new ''role'' = Some (VStr ''admin'')"
        using i(2,3) by (simp_all add: user_attribute harmless_attributes [OF h])
      then show ?thesis using rows True by simp
    next
      case False
      then show ?thesis using i rows by simp
    qed
    ultimately show ?thesis by (simp add: table_inv_def admin_ok_def)
  qed
qed

lemma admin_bears [simp]: "bears E (admin_ok E)"
  by (simp add: bears_def admin_update spares_def)

lemma admin_create: "keeps (table_inv (admin_ok E)) (user_dao_create_user E u)"
proof -
  let ?san = "sanitize_username (str_or_empty (get_value_as_string ''username'' u None))"
  have put: "keeps (table_inv (admin_ok E)) (db_put_new E Users i)" if "i ''username'' = Some (VStr n)" "norm_name n" for i n
  proof -
    have k: "key_of Users i = Some (n, [])" using that(1) by (simp add: key_of_def schema_defs)
    show ?thesis using that(2) by (auto simp: keeps_def table_inv_def admin_ok_def k)
  qed
  show ?thesis
  proof (cases ?san)
    case (Inr n)
    then show ?thesis using sanitize_norm [OF Inr] unfolding user_dao_create_user_def Let_def Inr bindA_liftA_Inr
      by (intro keeps_rules put [where n = n]) simp_all
  qed (simp add: user_dao_create_user_def keeps_def)
qed

lemma admin_removes:
  assumes "norm_name u"
  shows "keeps (table_inv (admin_ok E)) (remove_admin_user E u)"
    and "keeps (table_inv (admin_ok E)) (disable_user E u)"
    and "keeps (table_inv (admin_ok E)) (delete_user E u)"
proof -
  have spares: "spares E [''username'' \<mapsto> VStr u, k \<mapsto> v, j \<mapsto> w]" "spares E [''username'' \<mapsto> VStr u, k \<mapsto> v]"
    if "u \<noteq> cluster_administrator (cfg E)" "''username'' \<notin> {k, j}" for k v j w
    using that assms by (simp_all add: spares_def get_value_as_string_VStr norm_name_def [of u])
  show "keeps (table_inv (admin_ok E)) (remove_admin_user E u)"
    unfolding remove_admin_user_def
    by (intro keeps_rules admin_update spares) (simp_all add: is_cluster_administrator_def)
  show "keeps (table_inv (admin_ok E)) (disable_user E u)"
    unfolding disable_user_def
    by (intro keeps_rules admin_update spares(2) [where j = "''enabled''"]) (simp_all add: is_cluster_administrator_def)
  have "keeps (table_inv (admin_ok E)) (user_dao_delete_user E u)" if "u \<noteq> cluster_administrator (cfg E)"
    using that assms by (auto simp: user_dao_delete_user_def keeps_def table_inv_def admin_ok_def)
  then show "keeps (table_inv (admin_ok E)) (delete_user E u)"
    by (intro keeps_delete_user) simp_all
qed

lemma admin_changes:
  "keeps (table_inv (admin_ok E)) (create_user E x b)"
  "keeps (table_inv (admin_ok E)) (modify_user E x b)"
  "keeps (table_inv (admin_ok E)) (enable_user E u)"
  "keeps (table_inv (admin_ok E)) (add_admin_user E u)"
  "keeps (table_inv (admin_ok E)) (add_users_to_group E us g f)"
  "keeps (table_inv (admin_ok E)) (remove_users_from_group E us g f)"
  "keeps (table_inv (admin_ok E)) (create_group E gr)"
  "keeps (table_inv (admin_ok E)) (delete_group E g f)"
  by (intro keeps_rules keeps_create_user keeps_create_group keeps_delete_group admin_create; simp)+

end

section \<open>The synchronisation\<close>

text \<open>A step may rely on what the step before it returned.\<close>

lemma keeps_bindA_result:
  assumes "keeps I m" and "\<And>s x t. I s \<Longrightarrow> m s = (Inr x, t) \<Longrightarrow> Q x" and "\<And>x. Q x \<Longrightarrow> keeps I (f x)"
  shows "keeps I (bindA m f)"
proof (rule keepsI)
  fix s r t assume s: "I s" and run: "bindA m f s = (r, t)"
  obtain r1 s1 where m: "m s = (r1, s1)" by force
  have I1: "I s1" by (rule keepsD [OF assms(1) s m])
  show "I t"
  proof (cases r1)
    case (Inl e)
    then show ?thesis using run m I1 by simp
  next
    case (Inr x)
    then show ?thesis using run m I1 keepsD [OF assms(3) [OF assms(2) [OF s]]] by simp
  qed
qed

text \<open>The names under which the directory's users are changed are normalised.\<close>

definition cn_normal :: "item \<Rightarrow> bool" where
  "cn_normal u \<longleftrightarrow> (\<forall>v n. u ''cn'' = Some v \<longrightarrow> name_arg v = Inr n \<longrightarrow> norm_name n)"

definition directory_normal :: "'db env \<Rightarrow> item list \<Rightarrow> bool" where
  "directory_normal E gs \<longleftrightarrow>
     (\<forall>us. get_ldap_users_by_unique_identifier E gs = Inr us \<longrightarrow> (\<forall>(k, u) \<in> set us. cn_normal u))"

lemma listed_users:
  "map_sum_list user_from_db rows = Inr us \<Longrightarrow> u \<in> set us \<Longrightarrow>
     \<exists>i \<in> set rows. u_username u = get_value_as_string ''username'' i None"
proof (induction rows arbitrary: us)
  case (Cons i rows)
  then obtain v vs where v: "user_from_db i = Inr v" "map_sum_list user_from_db rows = Inr vs" "us = v # vs"
    by (auto simp: bindE_eq_Inr)
  have "u_username v = get_value_as_string ''username'' i None"
    using v(1) by (auto simp: user_from_db_def bindE_eq_Inr)
  then show ?case using Cons v by auto
qed simp

context dynamodb
begin

lemma fetched_users_normal:
  assumes "table_inv (admin_ok E) s" and "fetch_all_res_identified_users E s = (Inr us, t)" and "u \<in> set us"
  shows "norm_name (user_key u)"
proof -
  obtain rows nxt where q: "ddb_scan E (st_db s) Users [] = (rows, nxt)" by force
  then have us: "map_sum_list user_from_db rows = Inr us"
    using assms(2)
    by (auto simp: fetch_all_res_identified_users_def user_dao_list_users_def list_rows_def first_page_def
        next_pages_def act_inversions split: if_splits prod.splits)
  obtain i where i: "i \<in> set rows" "u_username u = get_value_as_string ''username'' i None"
    using listed_users [OF us assms(3)] by blast
  obtain ks where "rows = map (\<lambda>k. the (row E s Users k)) ks"
      "set ks \<subseteq> {k. \<exists>i. row E s Users k = Some i \<and> scan_matches [] i}"
    using scan_page [OF q] by blast
  then obtain n x where k: "row E s Users (n, x) = Some i" using i(1) by force
  have "x = []" using row_is_key [of "st_db s" Users "(n, x)"] k by (simp add: is_key_def schema_defs)
  then have "norm_name n" using assms(1) k by (auto simp: table_inv_def admin_ok_def)
  moreover have "i ''username'' = Some (VStr n)"
    using row_key [OF k] by (auto simp: key_of_def schema_defs split: option.splits val.splits)
  ultimately show ?thesis using i(2) by (simp add: user_key_def get_value_as_string_VStr norm_name_def)
qed

lemma admin_handlers:
  "keeps (table_inv (admin_ok E)) (handle_user_addition E d g)"
  "keeps (table_inv (admin_ok E)) (handle_user_addition_to_group E u g)"
  "norm_name (user_key x) \<Longrightarrow> keeps (table_inv (admin_ok E)) (handle_user_deletion E x)"
  "norm_name u \<Longrightarrow> keeps (table_inv (admin_ok E)) (handle_user_removal_from_group E u g)"
proof -
  have synced: "keeps (table_inv (admin_ok E)) (mark_synced E u)" for u
    unfolding mark_synced_def by (intro keeps_rules) (simp_all add: harmless_def)
  have leave: "keeps (table_inv (admin_ok E)) (leave_missing_group E u g c)" for u c
    unfolding leave_missing_group_def by (intro keeps_rules) (simp_all add: harmless_def)
  show "keeps (table_inv (admin_ok E)) (handle_user_addition E d g)"
    unfolding handle_user_addition_def Let_def by (intro keeps_rules admin_changes)
  show "keeps (table_inv (admin_ok E)) (handle_user_addition_to_group E u g)"
    unfolding handle_user_addition_to_group_def by (intro keeps_rules admin_changes synced)
  show "keeps (table_inv (admin_ok E)) (handle_user_deletion E x)" if "norm_name (user_key x)"
    using that unfolding handle_user_deletion_def user_key_def by (intro keeps_rules admin_removes)
  show "keeps (table_inv (admin_ok E)) (handle_user_removal_from_group E u g)" if "norm_name u"
    using that unfolding handle_user_removal_from_group_def get_group_def
    by (intro keeps_rules admin_changes admin_removes synced)
       (auto intro!: keeps_rules leave split: exn.split)
qed

lemma admin_sync_groups: "keeps (table_inv (admin_ok E)) (sync_all_groups E gs)"
proof -
  have add: "keeps (table_inv (admin_ok E)) (add_groups E by_name ns fs)" for by_name ns fs
    by (intro keeps_add_groups) simp
  have del: "keeps (table_inv (admin_ok E)) (handle_group_deletion E g)" for g
    by (intro keeps_group_deletion) simp_all
  show ?thesis unfolding sync_all_groups_def Let_def by (intro keeps_rules add del)
qed

lemma admin_sync_user_groups:
  assumes "cn_normal d"
  shows "keeps (table_inv (admin_ok E)) (sync_user_groups E fs d x)"
proof -
  have step: "keeps (table_inv (admin_ok E)) (bindA (attr d ''cn'') (\<lambda>cn. bindA (liftA (name_arg cn)) (\<lambda>username.
      seqA (for_each xs (handle_user_addition_to_group E username))
           (for_each ys (handle_user_removal_from_group E username)))))" for xs ys
  proof (rule keeps_bindA_result [where Q = "\<lambda>cn. d ''cn'' = Some cn"])
    show "keeps (table_inv (admin_ok E)) (bindA (liftA (name_arg cn)) (\<lambda>username.
      seqA (for_each xs (handle_user_addition_to_group E username))
           (for_each ys (handle_user_removal_from_group E username))))" if "d ''cn'' = Some cn" for cn
    proof (rule keeps_bindA_result [where Q = norm_name])
      show "norm_name n" if "liftA (name_arg cn) s = (Inr n, t)" for s n and t :: "'a st"
        using that assms \<open>d ''cn'' = Some cn\<close> by (simp add: cn_normal_def)
    qed (intro keeps_rules admin_handlers; assumption)+
  qed (auto simp: attr_def keeps_liftA split: option.splits)
  show ?thesis unfolding sync_user_groups_def Let_def by (rule keeps_bindA [OF keeps_liftA step])
qed

lemma admin_sync_users:
  assumes "directory_normal E gs"
  shows "keeps (table_inv (admin_ok E)) (sync_all_users E gs fs)"
  unfolding sync_all_users_def
proof (rule keeps_bindA_result [where Q = "\<lambda>us. \<forall>(k, u) \<in> set us. cn_normal u"])
  fix us :: ldap_users assume us: "\<forall>(k, u) \<in> set us. cn_normal u"
  have user: "cn_normal (the (map_of us n))" if "n \<in> set (map fst us)" for n
  proof -
    obtain u where "map_of us n = Some u" using \<open>n \<in> set (map fst us)\<close> by (metis map_of_eq_None_iff not_Some_eq set_map)
    then show ?thesis using us map_of_SomeD by fastforce
  qed
  show "keeps (table_inv (admin_ok E)) (bindA (fetch_all_res_identified_users E) (\<lambda>res_users.
     let ldap_names = map fst us; res_names = map user_key res_users; ldap_user = (\<lambda>n. the (map_of us n)) in
     seqA (for_each (set_minus E ldap_names res_names) (\<lambda>n.
             handle_user_addition E (ldap_user n) (ldap_sudoers_group_name (cfg E))))
    (seqA (for_each (set_minus E res_names ldap_names) (\<lambda>n.
             handle_user_deletion E (by_key res_names res_users n)))
          (for_each (filter (\<lambda>n. \<not> is_cluster_administrator (cfg E) n)
                       (name_set E (filter (\<lambda>n. n \<in> set res_names) ldap_names))) (\<lambda>n.
             sync_user_groups E fs (ldap_user n) (by_key res_names res_users n))))))"
  proof (rule keeps_bindA_result [where Q = "\<lambda>rs. \<forall>r \<in> set rs. norm_name (user_key r)"])
    fix rs :: "user list" assume rs: "\<forall>r \<in> set rs. norm_name (user_key r)"
    have old: "norm_name (user_key (by_key (map user_key rs) rs n))" if "n \<in> user_key ` set rs" for n
      using that rs by (intro by_key_holds [where Q = "\<lambda>j x. norm_name (user_key x)"]) (auto simp: set_zip)
    show "keeps (table_inv (admin_ok E)) (let ldap_names = map fst us; res_names = map user_key rs;
         ldap_user = (\<lambda>n. the (map_of us n)) in
       seqA (for_each (set_minus E ldap_names res_names) (\<lambda>n.
               handle_user_addition E (ldap_user n) (ldap_sudoers_group_name (cfg E))))
      (seqA (for_each (set_minus E res_names ldap_names) (\<lambda>n.
               handle_user_deletion E (by_key res_names rs n)))
            (for_each (filter (\<lambda>n. \<not> is_cluster_administrator (cfg E) n)
                         (name_set E (filter (\<lambda>n. n \<in> set res_names) ldap_names))) (\<lambda>n.
               sync_user_groups E fs (ldap_user n) (by_key res_names rs n)))))"
      unfolding Let_def
      by (intro keeps_rules admin_handlers admin_sync_user_groups old user) auto
  qed (use fetched_users_normal in \<open>auto intro!: keeps_rules\<close>)
qed (use assms in \<open>auto simp: directory_normal_def keeps_liftA\<close>)

lemma admin_tasks:
  assumes "directory_normal E (fetch_all_ldap_groups E)"
  shows "keeps (table_inv (admin_ok E)) (execute_task E name payload rh)"
proof -
  have named: "keeps (table_inv (admin_ok E)) (payload_name payload k)" for k payload
    unfolding payload_name_def by (intro keeps_rules)
  have "keeps (table_inv (admin_ok E)) (f payload)" if "task_of E name = Some f" for f
  proof -
    have "f \<in> {sync_user_task E, sync_group_task E, create_home_directory_task E, \<lambda>payload. return (),
        \<lambda>payload. sync_from_ad_task E, group_membership_updated_task E, project_enabled_task E,
        project_disabled_task E, project_groups_updated_task E}"
      using that by (auto simp: task_of_def split: if_splits)
    moreover have "keeps (table_inv (admin_ok E)) (sync_user_task E payload)"
      unfolding sync_user_task_def by (intro keeps_rules named)
    moreover have "keeps (table_inv (admin_ok E)) (sync_group_task E payload)"
      unfolding sync_group_task_def by (intro keeps_rules named)
    moreover have "keeps (table_inv (admin_ok E)) (create_home_directory_task E payload)"
      unfolding create_home_directory_task_def by (intro keeps_rules named)
    moreover have "keeps (table_inv (admin_ok E)) (sync_from_ad_task E)"
      unfolding sync_from_ad_task_def by (intro keeps_rules admin_sync_groups admin_sync_users assms)
    moreover have "keeps (table_inv (admin_ok E)) (group_membership_updated_task E payload)"
      unfolding group_membership_updated_task_def by (intro keeps_rules named) simp_all
    moreover have "keeps (table_inv (admin_ok E)) (project_enabled_task E payload)"
      "keeps (table_inv (admin_ok E)) (project_disabled_task E payload)"
      unfolding project_enabled_task_def project_disabled_task_def by (intro keeps_rules named; simp)+
    moreover have "keeps (table_inv (admin_ok E)) (project_groups_updated_task E payload)"
      unfolding project_groups_updated_task_def by (intro keeps_rules named) simp_all
    ultimately show ?thesis by (auto intro: keeps_return)
  qed
  then show ?thesis unfolding execute_task_def by (intro keeps_rules)
qed

end

section \<open>The transition system\<close>

text \<open>The requests and messages that change users and groups.\<close>

datatype account_op =
    CreateDefaults
  | CreateUser user bool
  | ModifyUser user bool
  | EnableUser string
  | DisableUser string
  | DeleteUser string
  | AddAdminUser string
  | RemoveAdminUser string
  | CreateGroup group
  | DeleteGroup string bool
  | AddUsersToGroup "string list" string bool
  | RemoveUsersFromGroup "string list" string bool
  | ExecuteTask string payload string

fun run_op :: "'db env \<Rightarrow> account_op \<Rightarrow> ('db st, unit) act" where
  "run_op E CreateDefaults = create_defaults E"
| "run_op E (CreateUser u b) = seqA (create_user E u b) (return ())"
| "run_op E (ModifyUser u b) = seqA (modify_user E u b) (return ())"
| "run_op E (EnableUser n) = enable_user E n"
| "run_op E (DisableUser n) = disable_user E n"
| "run_op E (DeleteUser n) = delete_user E n"
| "run_op E (AddAdminUser n) = add_admin_user E n"
| "run_op E (RemoveAdminUser n) = remove_admin_user E n"
| "run_op E (CreateGroup g) = seqA (create_group E g) (return ())"
| "run_op E (DeleteGroup g f) = delete_group E g f"
| "run_op E (AddUsersToGroup us g f) = add_users_to_group E us g f"
| "run_op E (RemoveUsersFromGroup us g f) = remove_users_from_group E us g f"
| "run_op E (ExecuteTask n payload rh) = execute_task E n payload rh"

text \<open>Only the operations whose guard compares the name as it was given need a normalised one.\<close>

fun normal_op :: "account_op \<Rightarrow> bool" where
  "normal_op (DisableUser n) = norm_name n"
| "normal_op (DeleteUser n) = norm_name n"
| "normal_op (RemoveAdminUser n) = norm_name n"
| "normal_op _ = True"

inductive reached :: "'db env \<Rightarrow> 'db st \<Rightarrow> 'db st \<Rightarrow> bool" for E s where
  start: "reached E s s"
| step: "reached E s t \<Longrightarrow> normal_op op \<Longrightarrow> run_op E op t = (r, u) \<Longrightarrow> reached E s u"

context dynamodb
begin

lemma admin_step:
  assumes "directory_normal E (fetch_all_ldap_groups E)" and "normal_op op"
  shows "keeps (table_inv (admin_ok E)) (run_op E op)"
proof -
  have "keeps (table_inv (admin_ok E)) (create_defaults E)"
    unfolding create_defaults_def by (intro keeps_rules admin_changes)
  then show ?thesis
    using assms by (cases op) (auto intro!: keeps_rules admin_changes admin_removes admin_tasks)
qed

lemma admin_reached:
  assumes "reached E s t" and "directory_normal E (fetch_all_ldap_groups E)" and "admin_ok E (st_db s)"
  shows "admin_ok E (st_db t)"
  using assms(1)
proof induction
  case (step t op r u)
  then show ?case using keepsD [OF admin_step [OF assms(2)]] by (simp add: table_inv_def)
qed (rule assms(3))

end

section \<open>Other spellings\<close>

text \<open>
  The guards compare the name as it came with the request, the tables are accessed under the
  normalised name.
\<close>

context dynamodb
begin

lemma other_spelling_disables:
  assumes "admin_ok E (st_db s)" and "u \<noteq> cluster_administrator (cfg E)" and "py_strip u = u"
    and "sanitize_username u = Inr (cluster_administrator (cfg E))"
  shows "\<exists>i. row E (snd (disable_user E u s)) Users (cluster_administrator (cfg E), []) = Some i \<and>
     i ''enabled'' = Some (VBool False)"
    and "\<exists>i. row E (snd (remove_admin_user E u s)) Users (cluster_administrator (cfg E), []) = Some i \<and>
     i ''role'' = Some (VStr ''user'')"
proof -
  let ?a = "cluster_administrator (cfg E)"
  have u: "\<not> blank u" using assms(4) by (auto simp: sanitize_username_def split: if_splits)
  have name: "str_or_empty (get_value_as_string ''username'' d None) = u" if "d ''username'' = Some (VStr u)" for d
    using u assms(3) that by (simp add: get_value_as_string_VStr blank_def)
  obtain i where i: "row E s Users (?a, []) = Some i" "i ''enabled'' = Some (VBool True)" "i ''role'' = Some (VStr ''admin'')"
    using assms(1) by (auto simp: admin_ok_def)
  have upd: "\<exists>x t. user_dao_update_user E d v = (Inr x, t) \<and>
      (\<exists>j. row E t Users (?a, []) = Some j \<and> (\<forall>k w. k \<in> {''enabled'', ''role''} \<longrightarrow> d k = Some w \<longrightarrow> j k = Some w))"
    if "d ''username'' = Some (VStr u)" "row E v Users (?a, []) = Some i" for d v
    using name [of d, OF that(1)] assms(4) that(2) by (simp add: user_dao_update_user_def user_attribute)
  have en: "get_value_as_bool ''enabled'' i (Some False) = Some True" using i(2) by simp
  let ?s = "s\<lparr>st_ticks := st_ticks s + 2\<rparr>"
  have here: "row E ?s Users (?a, []) = Some i" using i(1) by simp
  obtain x t where t: "user_dao_update_user E [''username'' \<mapsto> VStr u, ''enabled'' \<mapsto> VBool False] ?s = (Inr x, t)"
      "\<exists>j. row E t Users (?a, []) = Some j \<and> j ''enabled'' = Some (VBool False)"
    using upd [OF _ here, of "[''username'' \<mapsto> VStr u, ''enabled'' \<mapsto> VBool False]"] by auto
  then show "\<exists>i. row E (snd (disable_user E u s)) Users (?a, []) = Some i \<and> i ''enabled'' = Some (VBool False)"
    using u assms(2) i(1) en
    by (simp add: disable_user_def is_cluster_administrator_def user_dao_get_user_run [OF assms(4)])
  obtain x t where t: "user_dao_update_user E [''username'' \<mapsto> VStr u, ''role'' \<mapsto> VStr ''user'', ''sudo'' \<mapsto> VBool False] ?s = (Inr x, t)"
      "\<exists>j. row E t Users (?a, []) = Some j \<and> j ''role'' = Some (VStr ''user'')"
    using upd [OF _ here, of "[''username'' \<mapsto> VStr u, ''role'' \<mapsto> VStr ''user'', ''sudo'' \<mapsto> VBool False]"] by auto
  then show "\<exists>i. row E (snd (remove_admin_user E u s)) Users (?a, []) = Some i \<and> i ''role'' = Some (VStr ''user'')"
    using u assms(2) i
    by (simp add: remove_admin_user_def is_cluster_administrator_def user_dao_get_user_run [OF assms(4)])
qed

end

section \<open>Properties\<close>

text \<open>
  C6. The cluster administrator stays: whatever requests on users and groups and whatever
  messages (a synchronisation with the directory among them) are executed, in any order and
  with any outcome, the row of the administrator stays in the table, enabled and with the role of an
  administrator, provided that the requests that disable, delete or demote a user, and the
  directory, name users in their normalised form.
\<close>

theorem administrator_stays:
  assumes "dynamodb E" and "directory_normal E (fetch_all_ldap_groups E)"
    and "admin_ok E (st_db s)" and "reached E s t"
  shows "\<exists>i. row E t Users (cluster_administrator (cfg E), []) = Some i \<and>
     i ''enabled'' = Some (VBool True) \<and> i ''role'' = Some (VStr ''admin'')"
  using dynamodb.admin_reached [OF assms(1,4,2,3)] by (simp add: admin_ok_def)

definition admin_db :: mem_db where
  "admin_db =
     [((Users, (''clusteradmin'', [])), [''enabled'' \<mapsto> VBool True, ''role'' \<mapsto> VStr ''admin'']),
      ((Users, (''u'', [])), [''enabled'' \<mapsto> VBool True, ''role'' \<mapsto> VStr ''user''])]"

lemma admin_db_ok: "admin_ok local_env admin_db"
proof -
  have "norm_name ''clusteradmin''" by code_simp
  then show ?thesis
    by (auto simp: admin_ok_def local_world_def mem_get_def admin_db_def key_item_def schema_defs split: if_splits)
qed

theorem administrator_stays_witness:
  "\<exists>t. reached local_env (local_state admin_db) t \<and>
     (\<exists>i. mem_get (st_db t) Users (''u'', []) = Some i \<and> i ''enabled'' = Some (VBool False)) \<and>
     (\<exists>i. mem_get (st_db t) Users (''clusteradmin'', []) = Some i \<and> i ''enabled'' = Some (VBool True))"
proof -
  obtain r t where t: "run_op local_env (DisableUser ''u'') (local_state admin_db) = (r, t)" by force
  have "(case mem_get (st_db (snd (run_op local_env (DisableUser ''u'') (local_state admin_db)))) Users (''u'', []) of
      Some i \<Rightarrow> i ''enabled'' = Some (VBool False) | None \<Rightarrow> False)" by code_simp
  then have off: "\<exists>i. mem_get (st_db t) Users (''u'', []) = Some i \<and> i ''enabled'' = Some (VBool False)"
    using t by (auto split: option.splits)
  have path: "reached local_env (local_state admin_db) t"
    by (rule reached.step [OF reached.start _ t]) simp
  have "directory_normal local_env (fetch_all_ldap_groups local_env)"
    by (simp add: directory_normal_def fetch_all_ldap_groups_def get_ldap_users_by_unique_identifier_def local_world_def)
  then have "\<exists>i. row local_env t Users (cluster_administrator (cfg local_env), []) = Some i \<and>
     i ''enabled'' = Some (VBool True) \<and> i ''role'' = Some (VStr ''admin'')"
    using administrator_stays [OF mem_dynamodb _ _ path] admin_db_ok by simp
  then show ?thesis using path off by (auto simp: local_world_def)
qed

text \<open>
  The guard that protects the administrator compares the name as it came with the
  request: under another spelling of the name, one with capital letters, the same requests disable the
  administrator and take the role away.
\<close>

theorem guards_miss_other_spellings:
  assumes "dynamodb E" and "admin_ok E (st_db s)" and "u \<noteq> cluster_administrator (cfg E)" and "py_strip u = u"
    and "sanitize_username u = Inr (cluster_administrator (cfg E))"
  shows "(\<exists>i. row E (snd (disable_user E u s)) Users (cluster_administrator (cfg E), []) = Some i \<and>
       i ''enabled'' = Some (VBool False)) \<and>
     (\<exists>i. row E (snd (remove_admin_user E u s)) Users (cluster_administrator (cfg E), []) = Some i \<and>
       i ''role'' = Some (VStr ''user''))"
  using dynamodb.other_spelling_disables [OF assms] by blast

theorem guards_miss_other_spellings_witness:
  "\<exists>i. mem_get (st_db (snd (disable_user local_env ''ClusterAdmin'' (local_state admin_db)))) Users (''clusteradmin'', []) = Some i \<and>
     i ''enabled'' = Some (VBool False)"
proof -
  have name: "py_strip ''ClusterAdmin'' = ''ClusterAdmin''" "sanitize_username ''ClusterAdmin'' = Inr ''clusteradmin''"
    by code_simp+
  have "cluster_administrator (cfg local_env) = ''clusteradmin''" by (simp add: local_world_def)
  then show ?thesis
    using guards_miss_other_spellings [OF mem_dynamodb, of None local_world "local_state admin_db" "''ClusterAdmin''"]
      admin_db_ok name by simp
qed

end
