(* ===== verification/Cluster_Api.thy ===== *)
theory Cluster_Api
  imports Api_Context Accounts_Admin
begin

text \<open>
  The APIs of the cluster manager (\<^verbatim>\<open>app/api/\<close>): which request is allowed to whom, and what
  it makes the services do. A method of an API is an action over the services and the context
  of the request; it ends with \<open>success\<close> or with an exception.
\<close>

section \<open>Access control lists\<close>

type_synonym 'db acl = "(string \<times> string \<times> ('db api, unit) act) list"

definition acl_entry :: "'db acl \<Rightarrow> string \<Rightarrow> (string \<times> ('db api, unit) act) option" where
  "acl_entry acl namespace = map_of acl namespace"

text \<open>\<open>is_authorized\<close> with elevated access: administrators, and applications with the scope.\<close>

definition scope_authorized :: "'db env \<Rightarrow> string \<Rightarrow> ('db api, bool) act" where
  "scope_authorized E scope = is_authorized E True [scope]"

definition invoke_acl :: "'db env \<Rightarrow> 'db acl \<Rightarrow> ('db api, unit) act" where
  "invoke_acl E acl = bindA (ctxA ctx_namespace) (\<lambda>namespace.
     case acl_entry acl namespace of
       None \<Rightarrow> raise unauthorized_access
     | Some (scope, meth) \<Rightarrow>
         bindA (scope_authorized E scope) (\<lambda>ok. if ok then meth else raise unauthorized_access))"

text \<open>The variant that opens some requests to every user.\<close>

definition invoke_acl_for_users :: "'db env \<Rightarrow> 'db acl \<Rightarrow> string list \<Rightarrow> ('db api, unit) act" where
  "invoke_acl_for_users E acl open_to_users = bindA (ctxA ctx_namespace) (\<lambda>namespace.
     case acl_entry acl namespace of
       None \<Rightarrow> raise unauthorized_access
     | Some (scope, meth) \<Rightarrow>
         bindA (scope_authorized E scope) (\<lambda>ok.
         bindA (get_authorization E) (\<lambda>a.
         if ok then meth
         else if is_authenticated_user a \<and> namespace \<in> set open_to_users then meth
         else raise unauthorized_access)))"

section \<open>AccountsAPI\<close>

text \<open>The method of a request: the payload, the call of the service, the answer.\<close>

definition with_payload :: "(api_payload \<Rightarrow> ('db st, 'a) act) \<Rightarrow> ('a \<Rightarrow> api_result) \<Rightarrow> ('db api, unit) act" where
  "with_payload f result = bindA request_payload (\<lambda>rq. bindA (on_db (f rq)) (\<lambda>r. success (result r)))"

definition api_modify_user :: "'db env \<Rightarrow> api_payload \<Rightarrow> ('db st, user) act" where
  "api_modify_user E rq = (case rq_user rq of
      None \<Rightarrow> raise AttributeError
    | Some u \<Rightarrow> modify_user E u (rq_email_verified rq = Some True))"

definition api_modify_group :: "'db env \<Rightarrow> api_payload \<Rightarrow> ('db st, group) act" where
  "api_modify_group E rq = (case rq_group rq of None \<Rightarrow> raise AttributeError | Some g \<Rightarrow> modify_group E g)"

definition api_add_admin_user :: "'db env \<Rightarrow> api_payload \<Rightarrow> ('db st, user) act" where
  "api_add_admin_user E rq = seqA (add_admin_user E (rq_username rq)) (get_user E (rq_username rq))"

definition api_remove_admin_user :: "'db env \<Rightarrow> api_payload \<Rightarrow> ('db st, user) act" where
  "api_remove_admin_user E rq = seqA (remove_admin_user E (rq_username rq)) (get_user E (rq_username rq))"

definition accounts_get_user :: "'db env \<Rightarrow> ('db api, unit) act" where
  "accounts_get_user E = with_payload (\<lambda>rq. get_user E (rq_username rq)) UserPayload"

definition accounts_get_user_by_email :: "'db env \<Rightarrow> ('db api, unit) act" where
  "accounts_get_user_by_email E = with_payload (\<lambda>rq. get_user_by_email E (rq_email rq)) UserPayload"

definition accounts_modify_user :: "'db env \<Rightarrow> ('db api, unit) act" where
  "accounts_modify_user E = with_payload (api_modify_user E) UserPayload"

definition accounts_list_users :: "'db env \<Rightarrow> ('db api, unit) act" where
  "accounts_list_users E = with_payload (\<lambda>rq. list_users E (rq_list rq)) (\<lambda>(us, c). UsersPayload us c)"

definition accounts_enable_user :: "'db env \<Rightarrow> ('db api, unit) act" where
  "accounts_enable_user E = with_payload (\<lambda>rq. enable_user E (rq_username rq)) (\<lambda>_. NoPayload)"

definition accounts_disable_user :: "'db env \<Rightarrow> ('db api, unit) act" where
  "accounts_disable_user E = with_payload (\<lambda>rq. disable_user E (rq_username rq)) (\<lambda>_. NoPayload)"

definition accounts_get_group :: "'db env \<Rightarrow> ('db api, unit) act" where
  "accounts_get_group E = with_payload (\<lambda>rq. get_group E (rq_group_name rq)) GroupPayload"

definition accounts_modify_group :: "'db env \<Rightarrow> ('db api, unit) act" where
  "accounts_modify_group E = with_payload (api_modify_group E) GroupPayload"

definition accounts_enable_group :: "'db env \<Rightarrow> ('db api, unit) act" where
  "accounts_enable_group E = with_payload (\<lambda>rq. enable_group E (rq_group_name rq)) (\<lambda>_. NoPayload)"

definition accounts_disable_group :: "'db env \<Rightarrow> ('db api, unit) act" where
  "accounts_disable_group E = with_payload (\<lambda>rq. disable_group E (rq_group_name rq)) (\<lambda>_. NoPayload)"

definition accounts_list_groups :: "'db env \<Rightarrow> ('db api, unit) act" where
  "accounts_list_groups E = with_payload (\<lambda>rq. list_groups E (rq_list rq)) (\<lambda>(gs, c). GroupsPayload gs c)"

definition accounts_list_users_in_group :: "'db env \<Rightarrow> ('db api, unit) act" where
  "accounts_list_users_in_group E = with_payload
     (\<lambda>rq. list_users_in_group E (rq_group_names rq) (rq_page_size rq) (r_cursor (rq_list rq)))
     (\<lambda>(us, c). UsersPayload us c)"

definition accounts_add_admin_user :: "'db env \<Rightarrow> ('db api, unit) act" where
  "accounts_add_admin_user E = with_payload (api_add_admin_user E) UserPayload"

definition accounts_remove_admin_user :: "'db env \<Rightarrow> ('db api, unit) act" where
  "accounts_remove_admin_user E = with_payload (api_remove_admin_user E) UserPayload"

definition accounts_global_sign_out :: "'db env \<Rightarrow> ('db api, unit) act" where
  "accounts_global_sign_out E = with_payload (\<lambda>rq. global_sign_out E (rq_username rq)) (\<lambda>_. NoPayload)"

definition accounts_reset_password :: "'db env \<Rightarrow> ('db api, unit) act" where
  "accounts_reset_password E = with_payload (\<lambda>rq. reset_password E (rq_username rq)) (\<lambda>_. NoPayload)"

definition accounts_acl :: "'db env \<Rightarrow> 'db acl" where
  "accounts_acl E =
    (let r = module_scope (cfg E) ''read''; w = module_scope (cfg E) ''write'' in
     [(''Accounts.GetUser'', r, accounts_get_user E),
      (''Accounts.GetUserByEmail'', r, accounts_get_user_by_email E),
      (''Accounts.ModifyUser'', w, accounts_modify_user E),
      (''Accounts.ListUsers'', r, accounts_list_users E),
      (''Accounts.EnableUser'', w, accounts_enable_user E),
      (''Accounts.DisableUser'', w, accounts_disable_user E),
      (''Accounts.GetGroup'', r, accounts_get_group E),
      (''Accounts.ModifyGroup'', w, accounts_modify_group E),
      (''Accounts.EnableGroup'', w, accounts_enable_group E),
      (''Accounts.DisableGroup'', w, accounts_disable_group E),
      (''Accounts.ListGroups'', r, accounts_list_groups E),
      (''Accounts.ListUsersInGroup'', r, accounts_list_users_in_group E),
      (''Accounts.AddAdminUser'', w, accounts_add_admin_user E),
      (''Accounts.RemoveAdminUser'', w, accounts_remove_admin_user E),
      (''Accounts.GlobalSignOut'', w, accounts_global_sign_out E),
      (''Accounts.ResetPassword'', w, accounts_reset_password E)])"

definition check_admin_authorization_services :: "'db env \<Rightarrow> ('db api, unit) act" where
  "check_admin_authorization_services E = bindA (ctxA ctx_namespace) (\<lambda>namespace.
     whenA (namespace \<in> {''Accounts.AddAdminUser'', ''Accounts.RemoveAdminUser'', ''Accounts.ModifyUser''})
       (bindA (get_authorization E) (\<lambda>a. raise_if (\<not> is_administrator a) unauthorized_access (return ()))))"

definition accounts_api_invoke :: "'db env \<Rightarrow> ('db api, unit) act" where
  "accounts_api_invoke E = bindA (ctxA ctx_namespace) (\<lambda>namespace.
     raise_if (acl_entry (accounts_acl E) namespace = None) unauthorized_access
    (seqA (check_admin_authorization_services E) (invoke_acl E (accounts_acl E))))"

section \<open>ProjectsAPI\<close>

text \<open>\<open>PROJECT_ID_REGEX\<close>: 3 to 18 of \<open>a-z\<close>, \<open>0-9\<close> and the hyphen.\<close>

definition matches_project_id_regex :: "string \<Rightarrow> bool" where
  "matches_project_id_regex s = list_ex (\<lambda>t. 3 \<le> length t \<and> length t \<le> 18 \<and>
     list_all (\<lambda>c. between 97 122 c \<or> between 48 57 c \<or> c = CHR ''-'') t) [s, drop_newline s]"

definition api_create_project :: "'db env \<Rightarrow> api_payload \<Rightarrow> ('db st, project) act" where
  "api_create_project E rq = (case rq_project rq of
      None \<Rightarrow> raise AttributeError
    | Some p \<Rightarrow> (case p_name p of
        None \<Rightarrow> raise TypeError
      | Some name \<Rightarrow>
          raise_if (\<not> matches_project_id_regex name) invalid_params
         (bindA (create_project E (Some p)) (\<lambda>result.
          seqA (for_each (rq_filesystem_names rq) (\<lambda>fs_name. do_call E (UpdateFilesystemMapping fs_name name)))
               (return result)))))"

text \<open>The budget of a project is looked up; AWS's answer takes the place of the stored one.\<close>

definition look_up_budget :: "'db env \<Rightarrow> project \<Rightarrow> ('db st, unit) act" where
  "look_up_budget E p =
     whenA (is_budgets_enabled p)
       (seqA (liftA (budgets_get_budget (cfg E) (case p_budget p of None \<Rightarrow> [] | Some b \<Rightarrow> str_or_empty b)))
          (return ()))"

definition api_get_project :: "'db env \<Rightarrow> api_payload \<Rightarrow> ('db st, project) act" where
  "api_get_project E rq =
     bindA (get_project E (rq_project_id rq) (rq_project_name rq)) (\<lambda>p. seqA (look_up_budget E p) (return p))"

definition api_list_projects :: "'db env \<Rightarrow> api_payload \<Rightarrow> ('db st, project list \<times> string option) act" where
  "api_list_projects E rq =
     bindA (list_projects E (rq_list rq)) (\<lambda>(ps, c). seqA (for_each ps (look_up_budget E)) (return (ps, c)))"

text \<open>The name in the request counts; the caller's own is taken only when there is none.\<close>

definition admin_get_user_projects :: "'db env \<Rightarrow> ('db api, unit) act" where
  "admin_get_user_projects E = bindA request_payload (\<lambda>rq.
     bindA (if blank (rq_username rq) then bindA (get_username E) (\<lambda>u. return (str_or_empty u))
            else return (rq_username rq)) (\<lambda>username.
     bindA (on_db (get_user_projects E username)) (\<lambda>ps. success (ProjectsPayload ps None))))"

definition own_user_projects :: "'db env \<Rightarrow> ('db api, unit) act" where
  "own_user_projects E = bindA request_payload (\<lambda>rq.
     bindA (get_username E) (\<lambda>username.
     bindA (on_db (get_user_projects E (str_or_empty username))) (\<lambda>ps. success (ProjectsPayload ps None))))"

definition lookup :: "'db env \<Rightarrow> string \<Rightarrow> string \<Rightarrow> ('db st, val) act" where
  "lookup E what arg = liftA (api_lookup (cfg E) what arg)"

definition api_list_filesystems :: "'db env \<Rightarrow> api_payload \<Rightarrow> ('db st, val) act" where
  "api_list_filesystems E rq =
     raise_if (blank (rq_project_name rq)) invalid_params (lookup E ''filesystems'' (rq_project_name rq))"

definition projects_create_project :: "'db env \<Rightarrow> ('db api, unit) act" where
  "projects_create_project E = with_payload (api_create_project E) ProjectPayload"

definition projects_delete_project :: "'db env \<Rightarrow> ('db api, unit) act" where
  "projects_delete_project E = with_payload (\<lambda>rq. delete_project E (rq_project_id rq) (rq_project_name rq)) (\<lambda>_. NoPayload)"

definition projects_get_project :: "'db env \<Rightarrow> ('db api, unit) act" where
  "projects_get_project E = with_payload (api_get_project E) ProjectPayload"

definition projects_update_project :: "'db env \<Rightarrow> ('db api, unit) act" where
  "projects_update_project E = with_payload (\<lambda>rq. update_project E (rq_project rq)) ProjectPayload"

definition projects_list_projects :: "'db env \<Rightarrow> ('db api, unit) act" where
  "projects_list_projects E = with_payload (api_list_projects E) (\<lambda>(ps, c). ProjectsPayload ps c)"

definition projects_enable_project :: "'db env \<Rightarrow> ('db api, unit) act" where
  "projects_enable_project E = with_payload (\<lambda>rq. enable_project E (rq_project_id rq) (rq_project_name rq)) (\<lambda>_. NoPayload)"

definition projects_disable_project :: "'db env \<Rightarrow> ('db api, unit) act" where
  "projects_disable_project E = with_payload (\<lambda>rq. disable_project E (rq_project_id rq) (rq_project_name rq)) (\<lambda>_. NoPayload)"

definition projects_list_filesystems_for_project :: "'db env \<Rightarrow> ('db api, unit) act" where
  "projects_list_filesystems_for_project E = with_payload (api_list_filesystems E) LookupPayload"

definition projects_list_security_groups :: "'db env \<Rightarrow> ('db api, unit) act" where
  "projects_list_security_groups E = with_payload (\<lambda>rq. lookup E ''security_groups'' []) LookupPayload"

definition projects_list_policies :: "'db env \<Rightarrow> ('db api, unit) act" where
  "projects_list_policies E = with_payload (\<lambda>rq. lookup E ''policies'' []) LookupPayload"

definition projects_acl :: "'db env \<Rightarrow> 'db acl" where
  "projects_acl E =
    (let r = module_scope (cfg E) ''read''; w = module_scope (cfg E) ''write'' in
     [(''Projects.CreateProject'', w, projects_create_project E),
      (''Projects.DeleteProject'', w, projects_delete_project E),
      (''Projects.GetProject'', r, projects_get_project E),
      (''Projects.UpdateProject'', w, projects_update_project E),
      (''Projects.ListProjects'', r, projects_list_projects E),
      (''Projects.GetUserProjects'', r, admin_get_user_projects E),
      (''Projects.EnableProject'', w, projects_enable_project E),
      (''Projects.DisableProject'', w, projects_disable_project E),
      (''Projects.ListFileSystemsForProject'', r, projects_list_filesystems_for_project E),
      (''Projects.ListSecurityGroups'', r, projects_list_security_groups E),
      (''Projects.ListPolicies'', r, projects_list_policies E)])"

definition projects_api_invoke :: "'db env \<Rightarrow> ('db api, unit) act" where
  "projects_api_invoke E =
     invoke_acl_for_users E (projects_acl E) [''Projects.GetUserProjects'', ''Projects.GetProject'']"

section \<open>AuthAPI\<close>

text \<open>The name of the caller, for requests about oneself.\<close>

definition caller :: "'db env \<Rightarrow> ('db api, string) act" where
  "caller E = bindA (get_username E) (\<lambda>u.
     raise_if (blank (str_or_empty u)) unauthorized_access (return (str_or_empty u)))"

definition auth_initiate_auth :: "'db env \<Rightarrow> ('db api, unit) act" where
  "auth_initiate_auth E = with_payload (\<lambda>rq. initiate_auth E (rq_auth rq)) AuthPayload"

definition auth_respond_to_auth_challenge :: "'db env \<Rightarrow> ('db api, unit) act" where
  "auth_respond_to_auth_challenge E = with_payload
     (\<lambda>rq. respond_to_auth_challenge E (rq_username rq) (rq_challenge_name rq) (rq_session rq) (rq_new_password rq))
     (\<lambda>r. AuthPayload (Some r))"

definition auth_forgot_password :: "'db env \<Rightarrow> ('db api, unit) act" where
  "auth_forgot_password E = with_payload (\<lambda>rq. forgot_password E (rq_username rq)) (\<lambda>_. NoPayload)"

definition auth_confirm_forgot_password :: "'db env \<Rightarrow> ('db api, unit) act" where
  "auth_confirm_forgot_password E = with_payload
     (\<lambda>rq. confirm_forgot_password E (rq_username rq) (rq_password rq) (rq_confirmation_code rq)) (\<lambda>_. NoPayload)"

definition auth_change_password :: "'db env \<Rightarrow> ('db api, unit) act" where
  "auth_change_password E = bindA (caller E) (\<lambda>username.
     bindA request_payload (\<lambda>rq.
     bindA (ctxA bearer_token) (\<lambda>token.
     seqA (on_db (change_password E token username (rq_old_password rq) (rq_new_password rq))) (success NoPayload))))"

definition auth_get_user :: "'db env \<Rightarrow> ('db api, unit) act" where
  "auth_get_user E = bindA (caller E) (\<lambda>username.
     bindA (on_db (get_user E username)) (\<lambda>u. success (UserPayload u)))"

text \<open>\<open>GroupNameHelper.get_user_group\<close>\<close>

definition build_group_name :: "string \<Rightarrow> string \<Rightarrow> string" where
  "build_group_name group_type name = name @ ''-'' @ group_type @ ''-group''"

definition get_user_group :: "string \<Rightarrow> string" where
  "get_user_group username = build_group_name ''user'' username"

definition auth_get_user_group :: "'db env \<Rightarrow> ('db api, unit) act" where
  "auth_get_user_group E = bindA (caller E) (\<lambda>username.
     bindA (on_db (get_group E (get_user_group username))) (\<lambda>g. success (GroupPayload g)))"

definition auth_sign_out :: "'db env \<Rightarrow> ('db api, unit) act" where
  "auth_sign_out E = seqA (is_authenticated E)
     (with_payload (\<lambda>rq. sign_out E (rq_refresh_token rq) (rq_sso_auth rq = Some True)) (\<lambda>_. NoPayload))"

definition auth_global_sign_out :: "'db env \<Rightarrow> ('db api, unit) act" where
  "auth_global_sign_out E = bindA (get_authorization E) (\<lambda>a.
     raise_if (\<not> is_authenticated_user a) unauthorized_access
    (bindA request_payload (\<lambda>rq.
     bindA (get_username E) (\<lambda>username.
     raise_if (\<not> blank (rq_username rq) \<and> Some (rq_username rq) \<noteq> username) unauthorized_access
     (seqA (on_db (global_sign_out E (str_or_empty username))) (success NoPayload))))))"

text \<open>The key files of the user are read from the file system.\<close>

definition auth_get_user_private_key :: "'db env \<Rightarrow> ('db api, unit) act" where
  "auth_get_user_private_key E = bindA (get_authorization E) (\<lambda>a.
     raise_if (\<not> is_authorized_user a) unauthorized_access
    (bindA request_payload (\<lambda>rq.
     bindA (get_username E) (\<lambda>username.
     bindA (on_db (get_user E (str_or_empty username))) (\<lambda>u.
     bindA (on_db (lookup E ''private_key'' (str_or_empty (u_username u)))) (\<lambda>v. success (LookupPayload v)))))))"

definition auth_list_users_in_group :: "'db env \<Rightarrow> ('db api, unit) act" where
  "auth_list_users_in_group E = seqA (is_authenticated E)
     (with_payload (\<lambda>rq. list_users_in_group E (rq_group_names rq) (rq_page_size rq) (r_cursor (rq_list rq)))
        (\<lambda>(us, c). UsersPayload us c))"

definition auth_configure_sso :: "'db env \<Rightarrow> ('db api, unit) act" where
  "auth_configure_sso E = bindA (get_authorization E) (\<lambda>a.
     raise_if (\<not> is_administrator a) unauthorized_access
     (with_payload (\<lambda>rq. do_call E ConfigureSso) (\<lambda>_. NoPayload)))"

text \<open>An unknown name does nothing; the handler reports it as not supported.\<close>

definition auth_api_invoke :: "'db env \<Rightarrow> ('db api, unit) act" where
  "auth_api_invoke E = bindA (ctxA ctx_namespace) (\<lambda>namespace.
     case map_of
       [(''Auth.GlobalSignOut'', auth_global_sign_out E), (''Auth.SignOut'', auth_sign_out E),
        (''Auth.InitiateAuth'', auth_initiate_auth E),
        (''Auth.RespondToAuthChallenge'', auth_respond_to_auth_challenge E),
        (''Auth.ForgotPassword'', auth_forgot_password E),
        (''Auth.ConfirmForgotPassword'', auth_confirm_forgot_password E),
        (''Auth.ChangePassword'', auth_change_password E), (''Auth.GetUser'', auth_get_user E),
        (''Auth.GetGroup'', auth_get_user_group E), (''Auth.GetUserPrivateKey'', auth_get_user_private_key E),
        (''Auth.ListUsersInGroup'', auth_list_users_in_group E), (''Auth.ConfigureSSO'', auth_configure_sso E)]
       namespace of None \<Rightarrow> return () | Some meth \<Rightarrow> meth)"

section \<open>The remaining APIs\<close>

text \<open>
  Who may send which request; what the methods do (files, cluster settings, file systems, snapshots,
  e-mail templates) is an argument \<open>M\<close>, a function of the name of the request.
\<close>

type_synonym 'db methods = "string \<Rightarrow> ('db api, unit) act"

definition acl_of :: "'db env \<Rightarrow> 'db methods \<Rightarrow> string list \<Rightarrow> string list \<Rightarrow> 'db acl" where
  "acl_of E M reads writes =
     map (\<lambda>n. (n, module_scope (cfg E) ''read'', M n)) reads @ map (\<lambda>n. (n, module_scope (cfg E) ''write'', M n)) writes"

definition cluster_settings_acl :: "'db env \<Rightarrow> 'db methods \<Rightarrow> 'db acl" where
  "cluster_settings_acl E M = acl_of E M
     [''ClusterSettings.ListClusterModules'', ''ClusterSettings.GetModuleSettings'',
      ''ClusterSettings.ListClusterHosts'', ''ClusterSettings.DescribeInstanceTypes'',
      ''ClusterSettings.GetAllowedSessionsPerUser'']
     [''ClusterSettings.UpdateModuleSettings'', ''ClusterSettings.UpdateQuicConfig'']"

definition cluster_settings_api_invoke :: "'db env \<Rightarrow> 'db methods \<Rightarrow> ('db api, unit) act" where
  "cluster_settings_api_invoke E M = invoke_acl_for_users E (cluster_settings_acl E M)
     [''ClusterSettings.ListClusterModules'', ''ClusterSettings.GetModuleSettings'',
      ''ClusterSettings.ListClusterHosts'', ''ClusterSettings.DescribeInstanceTypes'']"

definition filesystem_acl :: "'db env \<Rightarrow> 'db methods \<Rightarrow> 'db acl" where
  "filesystem_acl E M = acl_of E M [''FileSystem.ListFSinVPC'']
     [''FileSystem.AddFileSystemToProject'', ''FileSystem.RemoveFileSystemFromProject'', ''FileSystem.CreateEFS'',
      ''FileSystem.CreateONTAP'', ''FileSystem.OnboardEFSFileSystem'', ''FileSystem.OnboardONTAPFileSystem'',
      ''FileSystem.OnboardLUSTREFileSystem'']"

definition filesystem_api_invoke :: "'db env \<Rightarrow> 'db methods \<Rightarrow> ('db api, unit) act" where
  "filesystem_api_invoke E M = invoke_acl E (filesystem_acl E M)"

definition snapshots_acl :: "'db env \<Rightarrow> 'db methods \<Rightarrow> 'db acl" where
  "snapshots_acl E M = acl_of E M [''Snapshots.ListSnapshots'', ''Snapshots.ListAppliedSnapshots'']
     [''Snapshots.CreateSnapshot'', ''Snapshots.ApplySnapshot'']"

definition snapshots_api_invoke :: "'db env \<Rightarrow> 'db methods \<Rightarrow> ('db api, unit) act" where
  "snapshots_api_invoke E M = invoke_acl E (snapshots_acl E M)"

definition email_templates_acl :: "'db env \<Rightarrow> 'db methods \<Rightarrow> 'db acl" where
  "email_templates_acl E M = acl_of E M
     [''EmailTemplates.GetEmailTemplate'', ''EmailTemplates.ListEmailTemplates'']
     [''EmailTemplates.CreateEmailTemplate'', ''EmailTemplates.UpdateEmailTemplate'', ''EmailTemplates.DeleteEmailTemplate'']"

definition email_templates_api_invoke :: "'db env \<Rightarrow> 'db methods \<Rightarrow> ('db api, unit) act" where
  "email_templates_api_invoke E M = invoke_acl E (email_templates_acl E M)"

definition file_browser_api_invoke :: "'db env \<Rightarrow> 'db methods \<Rightarrow> ('db api, unit) act" where
  "file_browser_api_invoke E M = bindA (get_authorization E) (\<lambda>a.
     raise_if (\<not> is_authorized_user a) unauthorized_access
    (bindA (ctxA ctx_namespace) (\<lambda>namespace.
     if namespace \<in> {''FileBrowser.ListFiles'', ''FileBrowser.ReadFile'', ''FileBrowser.TailFile'',
          ''FileBrowser.SaveFile'', ''FileBrowser.DownloadFiles'', ''FileBrowser.CreateFile'', ''FileBrowser.DeleteFiles''}
     then M namespace else return ())))"

definition app_api_invoke :: "'db env \<Rightarrow> ('db api, unit) act" where
  "app_api_invoke E = bindA (ctxA ctx_namespace) (\<lambda>namespace.
     whenA (namespace = ''App.GetModuleInfo'') (success (LookupPayload (VStr (module_id (cfg E))))))"

section \<open>ClusterManagerApiInvoker\<close>

definition api_invoke :: "'db env \<Rightarrow> 'db methods \<Rightarrow> ('db api, unit) act" where
  "api_invoke E M = bindA (ctxA ctx_namespace) (\<lambda>namespace.
     if starts_with namespace ''Auth.'' then auth_api_invoke E
     else if starts_with namespace ''App.'' then app_api_invoke E
     else if starts_with namespace ''FileBrowser.'' then file_browser_api_invoke E M
     else if starts_with namespace ''ClusterSettings.'' then cluster_settings_api_invoke E M
     else if starts_with namespace ''Projects.'' then projects_api_invoke E
     else if starts_with namespace ''FileSystem.'' then filesystem_api_invoke E M
     else if starts_with namespace ''Accounts.'' then accounts_api_invoke E
     else if starts_with namespace ''EmailTemplates.'' then email_templates_api_invoke E M
     else if starts_with namespace ''Snapshots.'' then snapshots_api_invoke E M
     else return ())"

definition cluster_manager :: "'db env \<Rightarrow> 'db methods \<Rightarrow> ('db api, api_response option) act" where
  "cluster_manager E M = serve E (api_invoke E M)"

end
