(* ===== verification/Api_Access.thy ===== *)
theory Api_Access
  imports Cluster_Api
begin

text \<open>
  Who can do what through the APIs. Finding out who sends a request only reads tables
  (a \<open>reader\<close>), so the answer is the same at every point of the request; from this follow
  the refusals of the access control lists.
\<close>

section \<open>Operations that only read\<close>

text \<open>The result depends on the tables alone; only the clock goes on.\<close>

definition reader :: "('db st, 'a) act \<Rightarrow> bool" where
  "reader m \<longleftrightarrow> (\<exists>f. \<forall>s. \<exists>n. m s = (f (st_db s), s\<lparr>st_ticks := n\<rparr>))"

named_theorems reader_rules \<open>composition rules for readers\<close>

lemma readerI: "(\<And>s. \<exists>n. m s = (f (st_db s), s\<lparr>st_ticks := n\<rparr>)) \<Longrightarrow> reader m"
  by (auto simp: reader_def)

lemma same_ticks: "\<exists>n. s = s\<lparr>st_ticks := n\<rparr>"
  by (rule exI [of _ "st_ticks s"]) simp

lemma reader_pure [reader_rules]:
  "reader (return x)" "reader (raise e)" "reader (liftA r)" "reader (db_get E t k)" "reader (db_index E i v)"
  "reader (db_query E t h l y)"
proof -
  note self = same_ticks
  show "reader (return x)" by (rule readerI [of _ "\<lambda>_. Inr x"]) (simp add: self)
  show "reader (raise e)" by (rule readerI [of _ "\<lambda>_. Inl e"]) (simp add: self)
  show "reader (liftA r)" by (rule readerI [of _ "\<lambda>_. r"]) (simp add: self)
  show "reader (db_get E t k)" by (rule readerI [of _ "\<lambda>d. Inr (ddb_get E d t k)"]) (simp add: self)
  show "reader (db_query E t h l y)" by (rule readerI [of _ "\<lambda>d. Inr (ddb_query E d t h l y)"]) (simp add: self)
  show "reader (db_index E i v)" by (rule readerI [of _ "\<lambda>d. Inr (ddb_index E d i v)"]) (simp add: self)
qed

lemma reader_bindA [reader_rules]:
  assumes "reader m" and "\<And>x. reader (k x)"
  shows "reader (bindA m k)"
proof -
  obtain f where f: "\<And>s. \<exists>n. m s = (f (st_db s), s\<lparr>st_ticks := n\<rparr>)"
    using assms(1) by (auto simp: reader_def)
  have "\<exists>g. \<forall>x s. \<exists>n. k x s = (g x (st_db s), s\<lparr>st_ticks := n\<rparr>)"
    using assms(2) unfolding reader_def by (rule choice [OF allI])
  then obtain g where g: "\<And>x s. \<exists>n. k x s = (g x (st_db s), s\<lparr>st_ticks := n\<rparr>)" by blast
  show ?thesis
  proof (rule readerI [of _ "\<lambda>d. case f d of Inl e \<Rightarrow> Inl e | Inr x \<Rightarrow> g x d"])
    fix s
    obtain n where n: "m s = (f (st_db s), s\<lparr>st_ticks := n\<rparr>)" using f by blast
    show "\<exists>n. bindA m k s = (case f (st_db s) of Inl e \<Rightarrow> Inl e | Inr x \<Rightarrow> g x (st_db s), s\<lparr>st_ticks := n\<rparr>)"
    proof (cases "f (st_db s)")
      case (Inl e)
      then show ?thesis using n by (auto simp: bindA_def)
    next
      case (Inr x)
      obtain n' where "k x (s\<lparr>st_ticks := n\<rparr>) = (g x (st_db s), s\<lparr>st_ticks := n\<rparr>\<lparr>st_ticks := n'\<rparr>)"
        using g [of x "s\<lparr>st_ticks := n\<rparr>"] by auto
      then show ?thesis using n Inr by (auto simp: bindA_def)
    qed
  qed
qed

lemma reader_current_time [reader_rules]: 
  assumes "reader k"
  shows "reader (seqA (current_time_ms E) k)"
proof -
  obtain f where f: "\<And>s. \<exists>n. k s = (f (st_db s), s\<lparr>st_ticks := n\<rparr>)"
    using assms by (auto simp: reader_def)
  show ?thesis
  proof (rule readerI [of _ f])
    fix s
    show "\<exists>n. seqA (current_time_ms E) k s = (f (st_db s), s\<lparr>st_ticks := n\<rparr>)"
      using f [of "s\<lparr>st_ticks := Suc (st_ticks s)\<rparr>"] by (auto simp: seqA_def bindA_def)
  qed
qed

lemma reader_branches [reader_rules]:
  "(\<not> b \<Longrightarrow> reader m) \<Longrightarrow> reader (raise_if b e m)"
  "reader m \<Longrightarrow> reader n \<Longrightarrow> reader (if b then m else n)"
  "reader m \<Longrightarrow> (\<And>x. reader (k x)) \<Longrightarrow> reader (case z of None \<Rightarrow> m | Some x \<Rightarrow> k x)"
  by (auto simp: raise_if_def reader_pure split: option.split)

lemma reader_get_user [reader_rules]: "reader (get_user E u)" "reader (get_user_by_email E e)"
  unfolding get_user_def get_user_by_email_def user_dao_get_user_def user_dao_get_user_by_email_def
  by (intro reader_rules | simp add: reader_rules split: list.split)+

lemma reader_token_user [reader_rules]: "reader (get_user_from_token_username E x)"
  unfolding get_user_from_token_username_def
  by (auto intro!: reader_rules split: option.split val.split)

lemma reader_token_authorization [reader_rules]: "reader (token_authorization E d)"
  unfolding token_authorization_def by (intro reader_rules)

lemma reader_same:
  assumes "reader m" and "st_db s' = st_db s"
  shows "\<exists>n. m s' = (fst (m s), s'\<lparr>st_ticks := n\<rparr>)"
proof -
  obtain f where "\<And>s. \<exists>n. m s = (f (st_db s), s\<lparr>st_ticks := n\<rparr>)"
    using assms(1) by (auto simp: reader_def)
  then show ?thesis using assms(2) by (metis fst_conv)
qed

section \<open>The caller of a request\<close>

text \<open>
  A request as it comes in. While it runs, its context may come to know the decoded token and
  the authorization, and gets a response; \<open>during\<close> says that it is still the same request, and that nothing
  was written yet.
\<close>

definition fresh :: "api_ctx \<Rightarrow> bool" where
  "fresh c \<longleftrightarrow> ctx_decoded c = None \<and> ctx_authorization c = None \<and> ctx_response c = None"

definition caller_of :: "'db env \<Rightarrow> 'db st \<Rightarrow> api_ctx \<Rightarrow> exn + authorization" where
  "caller_of E s c = fst (get_authorization E (s, c))"

definition at_rest :: "'db st \<Rightarrow> 'db st \<Rightarrow> bool" where
  "at_rest s t \<longleftrightarrow> st_db t = st_db s \<and> st_trace t = st_trace s"

definition same_request :: "'db env \<Rightarrow> 'db st \<Rightarrow> api_ctx \<Rightarrow> api_ctx \<Rightarrow> bool" where
  "same_request E s c c' \<longleftrightarrow> ctx_source c' = ctx_source c \<and> ctx_token c' = ctx_token c \<and>
     ctx_test_username c' = ctx_test_username c \<and> ctx_payload c' = ctx_payload c \<and>
     ctx_namespace c' = ctx_namespace c \<and> (ctx_header c' = None \<longleftrightarrow> ctx_header c = None) \<and>
     (\<forall>d. ctx_decoded c' = Some d \<longrightarrow> decode_token (cfg E) (bearer_token c) = Inr d) \<and>
     (\<forall>a. ctx_authorization c' = Some a \<longrightarrow> caller_of E s c = Inr a)"

definition during :: "'db env \<Rightarrow> 'db st \<Rightarrow> api_ctx \<Rightarrow> 'db api \<Rightarrow> bool" where
  "during E s c = (\<lambda>(s', c'). at_rest s s' \<and> same_request E s c c')"

lemma during_start: "fresh c \<Longrightarrow> during E s c (s, c)"
  by (simp add: during_def at_rest_def same_request_def fresh_def)

lemma bearer_same: "same_request E s c c' \<Longrightarrow> bearer_token c' = bearer_token c"
  by (simp add: same_request_def bearer_token_def)

lemma get_decoded_token_during:
  assumes "during E s c (s', c')"
  shows "\<exists>c''. get_decoded_token E (s', c') = (decode_token (cfg E) (bearer_token c), (s', c'')) \<and> during E s c (s', c'') \<and>
     ctx_response c'' = ctx_response c'"
proof (cases "ctx_decoded c'")
  case None
  note same = bearer_same [of E s c c'] assms
  show ?thesis
  proof (cases "decode_token (cfg E) (bearer_token c)")
    case (Inl e)
    then show ?thesis using None same by (simp add: get_decoded_token_def during_def)
  next
    case (Inr d)
    then show ?thesis using None same
      by (simp add: get_decoded_token_def during_def same_request_def ctx_namespace_def header_string_def ctx_header_def)
  qed
next
  case (Some d)
  then show ?thesis using assms by (auto simp: get_decoded_token_def during_def same_request_def)
qed


text \<open>What \<open>new_authorization\<close> finds out.\<close>

definition authorization_value :: "'db env \<Rightarrow> 'db st \<Rightarrow> api_ctx \<Rightarrow> exn + authorization" where
  "authorization_value E s c =
     (if ctx_source c = ''unix-socket'' then
        Inr \<lparr>auth_type = ADMINISTRATOR, auth_username = Some (cluster_administrator (cfg E)),
             auth_client_id = None, auth_scopes = None\<rparr>
      else if \<not> blank (bearer_token c) then
        bindE (decode_token (cfg E) (bearer_token c)) (\<lambda>d. fst (token_authorization E d s))
      else if test_mode (cfg E) \<and> str_or_empty (ctx_test_username c) \<noteq> [] then
        bindE (fst (get_user_from_token_username E (Some (VStr (str_or_empty (ctx_test_username c)))) s)) (\<lambda>user.
          Inr \<lparr>auth_type = get_authorization_type (u_role user), auth_username = ctx_test_username c,
               auth_client_id = None, auth_scopes = None\<rparr>)
      else Inl unauthorized_access)"

lemma on_db_reader:
  assumes "reader m" and "during E s c (s', c')"
  shows "\<exists>t. on_db m (s', c') = (fst (m s), (t, c')) \<and> during E s c (t, c')"
proof -
  have "st_db s' = st_db s" using assms(2) by (simp add: during_def at_rest_def)
  then obtain n where "m s' = (fst (m s), s'\<lparr>st_ticks := n\<rparr>)" using reader_same [OF assms(1)] by blast
  then show ?thesis using assms(2) by (simp add: during_def at_rest_def)
qed

lemma new_authorization_during:
  assumes d: "during E s c (s', c')"
  shows "\<exists>t c''. new_authorization E c' (s', c') = (authorization_value E s c, (t, c'')) \<and>
     during E s c (t, c'') \<and> ctx_response c'' = ctx_response c'"
proof -
  have eq: "ctx_source c' = ctx_source c" "bearer_token c' = bearer_token c" "ctx_test_username c' = ctx_test_username c"
    using d bearer_same [of E s c c'] by (auto simp: during_def same_request_def)
  consider "ctx_source c = ''unix-socket''" | "ctx_source c \<noteq> ''unix-socket''" "\<not> blank (bearer_token c)"
    | "ctx_source c \<noteq> ''unix-socket''" "blank (bearer_token c)" by blast
  then show ?thesis
  proof cases
    case 1
    then show ?thesis using eq d by (simp add: new_authorization_def authorization_value_def)
  next
    case 2
    obtain c'' where c'': "get_decoded_token E (s', c') = (decode_token (cfg E) (bearer_token c), (s', c''))"
        "during E s c (s', c'')" "ctx_response c'' = ctx_response c'"
      using get_decoded_token_during [OF d] by blast
    show ?thesis
    proof (cases "decode_token (cfg E) (bearer_token c)")
      case (Inl e)
      then show ?thesis using 2 eq c'' by (simp add: new_authorization_def authorization_value_def)
    next
      case (Inr claims)
      obtain t where "on_db (token_authorization E claims) (s', c'') = (fst (token_authorization E claims s), (t, c''))"
          "during E s c (t, c'')"
        using on_db_reader [OF reader_token_authorization c''(2)] by blast
      then show ?thesis using 2 eq c'' Inr
        by (simp add: new_authorization_def authorization_value_def del: on_db_run)
    qed
  next
    case 3
    show ?thesis
    proof (cases "test_mode (cfg E) \<and> str_or_empty (ctx_test_username c) \<noteq> []")
      case False
      then show ?thesis using 3 eq d
        by (cases "ctx_test_username c") (auto simp: new_authorization_def authorization_value_def)
    next
      case True
      then obtain n where n: "ctx_test_username c = Some n" "n \<noteq> []" by (cases "ctx_test_username c") auto
      obtain t where t: "on_db (get_user_from_token_username E (Some (VStr n))) (s', c') =
          (fst (get_user_from_token_username E (Some (VStr n)) s), (t, c'))" "during E s c (t, c')"
        using on_db_reader [OF reader_token_user d] by blast
      show ?thesis using 3 eq d True n t
        by (cases "fst (get_user_from_token_username E (Some (VStr n)) s)")
           (simp_all add: new_authorization_def authorization_value_def del: on_db_run)
    qed
  qed
qed

lemma caller_of_value: "fresh c \<Longrightarrow> caller_of E s c = authorization_value E s c"
  using new_authorization_during [OF during_start, of c E s]
  by (cases "authorization_value E s c") (auto simp: caller_of_def get_authorization_def fresh_def)

lemma get_authorization_during:
  assumes "fresh c" and d: "during E s c (s', c')"
  shows "\<exists>t c''. get_authorization E (s', c') = (caller_of E s c, (t, c'')) \<and> during E s c (t, c'') \<and>
     ctx_response c'' = ctx_response c'"
proof (cases "ctx_authorization c'")
  case (Some a)
  then have "caller_of E s c = Inr a" using d by (auto simp: during_def same_request_def)
  then show ?thesis using Some d by (simp add: get_authorization_def)
next
  case None
  obtain t c'' where n: "new_authorization E c' (s', c') = (caller_of E s c, (t, c''))"
      "during E s c (t, c'')" "ctx_response c'' = ctx_response c'"
    using new_authorization_during [OF d] caller_of_value [OF assms(1)] by metis
  show ?thesis
  proof (cases "caller_of E s c")
    case (Inl e)
    then show ?thesis using n None by (simp add: get_authorization_def)
  next
    case (Inr a)
    then have "during E s c (t, c''\<lparr>ctx_authorization := Some a\<rparr>)"
      using n(2) by (simp add: during_def same_request_def ctx_namespace_def header_string_def ctx_header_def)
    then show ?thesis using n None Inr by (simp add: get_authorization_def)
  qed
qed


section \<open>The handler\<close>

lemma during_response [simp]: "during E s c (s', c'\<lparr>ctx_response := r\<rparr>) = during E s c (s', c')"
  by (simp add: during_def same_request_def ctx_namespace_def header_string_def ctx_header_def)

lemma namespace_set_request_id:
  "ctx_namespace (set_request_id i c) = ctx_namespace c \<and> (ctx_header (set_request_id i c) = None \<longleftrightarrow> ctx_header c = None)"
proof (cases "get_value_as_dict ''header'' (ctx_request c) None")
  case None
  then show ?thesis by (simp add: set_request_id_def)
next
  case (Some h)
  have dict: "get_value_as_dict ''header'' (m(''header'' \<mapsto> VDict (AList.update ''request_id'' (VStr i) h))) None =
      Some (AList.update ''request_id'' (VStr i) h)" for m :: item
    by (cases h) (simp_all add: get_value_as_dict_def value_exists_def split: if_splits)
  show ?thesis using Some
    by (simp add: set_request_id_def dict ctx_namespace_def header_string_def ctx_header_def update_conv'
        get_value_as_string_def value_exists_def)
qed

lemma keeps_request_parts [keeps_rules]: "keeps I (ctxA f)" "keeps I request_payload"
  unfolding ctxA_def request_payload_def by (intro keeps_rules)+

lemma keeps_during [keeps_rules]:
  "keeps (during E s c) (fail e)"
  "keeps (during E s c) (set_ctx (set_request_id i))"
  "keeps (during E s c) (on_db (new_uuid E))"
  "fresh c \<Longrightarrow> keeps (during E s c) (get_authorization E)"
proof -
  show "keeps (during E s c) (fail e)" by (rule keepsI) auto
  show "keeps (during E s c) (set_ctx (set_request_id i))"
  proof (rule keepsI)
    fix x r t assume "during E s c x" "set_ctx (set_request_id i) x = (r, t)"
    then show "during E s c t"
      by (cases x) (auto simp: during_def same_request_def namespace_set_request_id, auto simp: set_request_id_def)
  qed
  show "keeps (during E s c) (on_db (new_uuid E))" by (rule keepsI) (auto simp: during_def at_rest_def)
  assume "fresh c"
  show "keeps (during E s c) (get_authorization E)"
  proof (rule keepsI)
    fix x r t assume "during E s c x" "get_authorization E x = (r, t)"
    then show "during E s c t" using get_authorization_during [OF \<open>fresh c\<close>, of E s "fst x" "snd x"] by auto
  qed
qed

lemma keeps_handler_steps [keeps_rules]:
  assumes "fresh c"
  shows "keeps (during E s c) (get_log_tag E)" and "keeps (during E s c) (before_logging E)"
    and "keeps (during E s c) (validate_and_preprocess_request E)" and "keeps (during E s c) (check_is_running E)"
proof -
  show tag: "keeps (during E s c) (get_log_tag E)"
    unfolding get_log_tag_def get_username_def by (intro keeps_rules assms)
  then show "keeps (during E s c) (before_logging E)"
    unfolding before_logging_def log_request_def validate_request_def get_request_logging_payload_def
    by (intro keeps_rules)
  show "keeps (during E s c) (validate_and_preprocess_request E)"
    unfolding validate_and_preprocess_request_def by (intro keeps_rules)
  show "keeps (during E s c) (check_is_running E)"
    unfolding check_is_running_def by (intro keeps_rules)
qed

text \<open>The response of a request stays what it is while the log is written.\<close>

definition with_response :: "'db env \<Rightarrow> 'db st \<Rightarrow> api_ctx \<Rightarrow> api_response option \<Rightarrow> 'db api \<Rightarrow> bool" where
  "with_response E s c r x \<longleftrightarrow> during E s c x \<and> ctx_response (snd x) = r"

lemma keeps_with_response:
  assumes "fresh c"
  shows "keeps (with_response E s c r) (get_log_tag E)"
proof -
  have "keeps (with_response E s c r) (get_authorization E)"
  proof (rule keepsI)
    fix x q t assume "with_response E s c r x" "get_authorization E x = (q, t)"
    then show "with_response E s c r t"
      using get_authorization_during [OF assms, of E s "fst x" "snd x"] by (auto simp: with_response_def)
  qed
  then show ?thesis unfolding get_log_tag_def get_username_def by (intro keeps_rules)
qed

definition refusal :: "error_code \<Rightarrow> api_response" where
  "refusal e = \<lparr>resp_success = False, resp_error = Some e, resp_payload = None\<rparr>"

lemma finish_with_response:
  assumes "fresh c" and "with_response E s c r x"
  shows "\<exists>q t. (seqA (whenA b (log_request E)) (log_response E)) x = (q, t) \<and> with_response E s c r t"
proof -
  have k: "keeps (with_response E s c r) (seqA (whenA b (log_request E)) (log_response E))"
    unfolding log_request_def log_response_def by (intro keeps_rules keeps_with_response assms)
  obtain q t where r: "(seqA (whenA b (log_request E)) (log_response E)) x = (q, t)" by (meson surj_pair)
  show ?thesis using keepsD [OF k assms(2) r] r by (intro exI conjI)
qed

definition refuses :: "'db env \<Rightarrow> 'db st \<Rightarrow> api_ctx \<Rightarrow> exn set \<Rightarrow> ('db api, 'a) act \<Rightarrow> bool" where
  "refuses E s c X m \<longleftrightarrow> (\<forall>x. during E s c x \<longrightarrow> (\<exists>e t. e \<in> X \<and> m x = (Inl e, t) \<and> during E s c t))"

lemma invoke_logged_refused:
  assumes "fresh c" and "refuses E s c X m" and "during E s c x"
  shows "\<exists>e' t. invoke_logged E m x = (Inl e', t) \<and> during E s c t \<and> (server_is_running (cfg E) \<and> ctx_header c \<noteq> None \<and>
     \<not> blank (ctx_namespace c) \<longrightarrow> e' \<in> X)"
proof -
  obtain q y where q: "validate_and_preprocess_request E x = (q, y)" by (meson surj_pair)
  then have y: "during E s c y" using keepsD [OF keeps_handler_steps(3) [OF assms(1)] assms(3)] by blast
  have ns: "ctx_namespace (snd x) = ctx_namespace c" "ctx_header (snd x) = None \<longleftrightarrow> ctx_header c = None" using assms(3) by (auto simp: during_def same_request_def)
  show ?thesis
  proof (cases q)
    case (Inl e')
    then have "ctx_header c = None \<or> blank (ctx_namespace c)"
      using q ns by (cases x) (auto simp: validate_and_preprocess_request_def raise_if_def whenA_def split: if_splits)
    then show ?thesis using q Inl y by (auto simp: invoke_logged_def)
  next
    case (Inr u)
    show ?thesis
    proof (cases "server_is_running (cfg E)")
      case False
      then show ?thesis using q Inr y by (simp add: invoke_logged_def check_is_running_def)
    next
      case True
      obtain e t where "e \<in> X" "m y = (Inl e, t)" "during E s c t" using assms(2) y unfolding refuses_def by blast
      then show ?thesis using q Inr True by (simp add: invoke_logged_def check_is_running_def)
    qed
  qed
qed

lemma fail_during: "during E s c x \<Longrightarrow> \<exists>t. fail e x = (Inr (), t) \<and> with_response E s c (Some (refusal e)) t"
  by (cases x) (simp add: with_response_def refusal_def)

text \<open>
  A request whose method raises at every moment is with_response with a failure, and nothing was written. When
  the request is well formed, the exception of the method is what the answer says.
\<close>

definition well_formed :: "api_ctx \<Rightarrow> bool" where
  "well_formed c \<longleftrightarrow> ctx_header c \<noteq> None \<and> \<not> blank (ctx_namespace c) \<and> matches_namespace (ctx_namespace c) \<and>
     (blank (ctx_request_id c) \<or> matches_request_id (ctx_request_id c)) \<and> (\<exists>p. ctx_payload c = Inr p)"

lemma get_log_tag_run:
  assumes "fresh c" and "during E s c x" and "caller_of E s c \<in> {Inl unauthorized_access} \<union> range Inr"
  shows "\<exists>t. get_log_tag E x = (Inr (), t) \<and> during E s c t"
proof -
  obtain t1 c1 where g: "get_authorization E x = (caller_of E s c, (t1, c1))" "during E s c (t1, c1)"
    using get_authorization_during [OF assms(1), of E s "fst x" "snd x"] assms(2) by auto
  obtain t2 c2 where g2: "get_authorization E (t1, c1) = (caller_of E s c, (t2, c2))" "during E s c (t2, c2)"
    using get_authorization_during [OF assms(1) g(2)] by auto
  from assms(3) consider "caller_of E s c = Inl unauthorized_access" | a where "caller_of E s c = Inr a" by auto
  then show ?thesis
  proof cases
    case 1
    then show ?thesis using g by (simp add: get_log_tag_def unauthorized_access_def)
  next
    case 2
    then show ?thesis using g g2
      by (cases "auth_type a = APP") (simp_all add: get_log_tag_def get_username_def act_simps catch_soca_def)
  qed
qed

lemma before_logging_well_formed:
  assumes "fresh c" and "well_formed c" and "caller_of E s c \<in> {Inl unauthorized_access} \<union> range Inr"
  shows "\<exists>t. before_logging E (s, c) = (Inr (), t) \<and> during E s c t"
proof -
  have "validate_request (s, c) = (Inr (), (s, c))" "get_request_logging_payload (s, c) = (Inr (), (s, c))"
    using assms(2)
    by (auto simp: well_formed_def validate_request_def get_request_logging_payload_def request_payload_def whenA_def)
  then show ?thesis using get_log_tag_run [OF assms(1) during_start [OF assms(1)] assms(3)]
    by (simp add: before_logging_def log_request_def)
qed

lemma serve_refused:
  assumes c: "fresh c" and m: "refuses E s c X m"
  shows "\<exists>r t c'. serve E m (s, c) = (Inr (Some r), (t, c')) \<and> \<not> resp_success r \<and> resp_payload r = None \<and> at_rest s t \<and>
     (well_formed c \<and> server_is_running (cfg E) \<and> caller_of E s c \<in> {Inl unauthorized_access} \<union> range Inr \<longrightarrow>
        r \<in> refusal ` error_code_of ` X)"
proof -
  let ?rest = "\<lambda>b. seqA (whenA b (log_request E)) (log_response E)"
  let ?good = "well_formed c \<and> server_is_running (cfg E) \<and> caller_of E s c \<in> {Inl unauthorized_access} \<union> range Inr"
  obtain q x where q: "before_logging E (s, c) = (q, x)" by (meson surj_pair)
  then have x: "during E s c x" using keepsD [OF keeps_handler_steps(2) [OF c] during_start [OF c]] by blast
  have main: "\<exists>e' b y. handler_invoke E m (s, c) = ?rest b y \<and> with_response E s c (Some (refusal (error_code_of e'))) y \<and>
      (?good \<longrightarrow> e' \<in> X \<and> \<not> b)"
  proof (cases q)
    case (Inl e')
    have bad: "\<not> ?good" using before_logging_well_formed [OF c, of E s] q Inl by auto
    obtain y where "fail (error_code_of e') x = (Inr (), y)" "with_response E s c (Some (refusal (error_code_of e'))) y"
      using fail_during [OF x] by blast
    then have "handler_invoke E m (s, c) = ?rest True y" using q Inl by (simp add: handler_invoke_def act_simps)
    then show ?thesis using bad \<open>with_response E s c _ y\<close> by blast
  next
    case (Inr u)
    obtain e' z where z: "invoke_logged E m x = (Inl e', z)" "during E s c z"
        "server_is_running (cfg E) \<and> ctx_header c \<noteq> None \<and> \<not> blank (ctx_namespace c) \<longrightarrow> e' \<in> X"
      using invoke_logged_refused [OF c m x] by blast
    obtain y where y: "fail (error_code_of e') z = (Inr (), y)" "with_response E s c (Some (refusal (error_code_of e'))) y"
      using fail_during [OF z(2)] by blast
    then have "handler_invoke E m (s, c) = ?rest False y" using q Inr z(1) by (simp add: handler_invoke_def act_simps)
    moreover have "?good \<longrightarrow> e' \<in> X \<and> \<not> False" using z(3) by (simp add: well_formed_def)
    ultimately show ?thesis using y(2) by blast
  qed
  then obtain e' b y where y: "handler_invoke E m (s, c) = ?rest b y" "with_response E s c (Some (refusal (error_code_of e'))) y"
      "?good \<longrightarrow> e' \<in> X \<and> \<not> b" by blast
  obtain q2 t where t: "?rest b y = (q2, t)" "with_response E s c (Some (refusal (error_code_of e'))) t"
    using finish_with_response [OF c y(2)] by blast
  obtain t1 c1 where tt: "t = (t1, c1)" by (cases t)
  have rest: "at_rest s t1" and resp: "ctx_response c1 = Some (refusal (error_code_of e'))"
    using t(2) tt by (auto simp: with_response_def during_def)
  have ok: "\<exists>u. q2 = Inr u" if good: ?good
    using get_log_tag_run [OF c, of E s y] y(2,3) t(1) good by (auto simp: with_response_def log_response_def)
  show ?thesis
  proof (cases q2)
    case (Inl e2)
    then show ?thesis using y t tt rest ok by (auto simp: serve_def error_response_def)
  next
    case (Inr u)
    then show ?thesis using y t tt rest resp by (auto simp: serve_def refusal_def)
  qed
qed


section \<open>Requests that are refused\<close>

named_theorems refuses_rules \<open>composition rules for refusals\<close>

lemma refuses_raise [refuses_rules]: "e \<in> X \<Longrightarrow> refuses E s c X (raise e)"
  by (auto simp: refuses_def)

lemma refuses_raise_if [refuses_rules]: "e \<in> X \<Longrightarrow> refuses E s c X m \<Longrightarrow> refuses E s c X (raise_if b e m)"
  by (simp add: raise_if_def refuses_raise)

lemma refuses_namespace [refuses_rules]:
  "refuses E s c X (k (ctx_namespace c)) \<Longrightarrow> refuses E s c X (bindA (ctxA ctx_namespace) k)"
  by (auto simp: refuses_def during_def same_request_def)

text \<open>What \<open>m\<close> returns while the request runs.\<close>

definition yields :: "'db env \<Rightarrow> 'db st \<Rightarrow> api_ctx \<Rightarrow> exn + 'a \<Rightarrow> ('db api, 'a) act \<Rightarrow> bool" where
  "yields E s c r m \<longleftrightarrow> (\<forall>x. during E s c x \<longrightarrow> (\<exists>t. m x = (r, t) \<and> during E s c t))"

lemma yieldsD: "yields E s c r m \<Longrightarrow> during E s c x \<Longrightarrow> \<exists>t. m x = (r, t) \<and> during E s c t"
  by (simp only: yields_def)

lemma yields_authorization: "fresh c \<Longrightarrow> yields E s c (caller_of E s c) (get_authorization E)"
  unfolding yields_def
proof (intro allI impI)
  fix x assume "fresh c" "during E s c x"
  then show "\<exists>t. get_authorization E x = (caller_of E s c, t) \<and> during E s c t"
    using get_authorization_during [of c E s "fst x" "snd x"] by auto
qed

lemma yields_return: "yields E s c (Inr x) (return x)"
  by (simp add: yields_def)

lemma bindA_return [simp]: "bindA (return x) k = k x"
  by (rule ext) simp

lemma refuses_seqA:
  "refuses E s c X m \<Longrightarrow> refuses E s c X (seqA m k)"
  "yields E s c (Inr u) m \<Longrightarrow> refuses E s c X k \<Longrightarrow> refuses E s c X (seqA m k)"
  unfolding yields_def refuses_def using seqA_Inl seqA_Inr by metis+

lemma yields_bindA_Inl: "yields E s c (Inl e) m \<Longrightarrow> yields E s c (Inl e) (bindA m k)"
  unfolding yields_def using bindA_Inl by metis

lemma yields_bindA_Inr: "yields E s c (Inr a) m \<Longrightarrow> yields E s c r (k a) \<Longrightarrow> yields E s c r (bindA m k)"
  unfolding yields_def using bindA_Inr by metis

lemma refuses_bindA_Inl: "yields E s c (Inl e) m \<Longrightarrow> e \<in> X \<Longrightarrow> refuses E s c X (bindA m k)"
  unfolding yields_def refuses_def using bindA_Inl by metis

lemma refuses_bindA_Inr: "yields E s c (Inr a) m \<Longrightarrow> refuses E s c X (k a) \<Longrightarrow> refuses E s c X (bindA m k)"
  unfolding yields_def refuses_def using bindA_Inr by metis

lemma refuses_seqA_Inl: "yields E s c (Inl e) m \<Longrightarrow> e \<in> X \<Longrightarrow> refuses E s c X (seqA m k)"
  unfolding seqA_def by (rule refuses_bindA_Inl)

lemma yields_unauthenticated:
  assumes "fresh c" and "caller_of E s c = Inl e"
  shows "yields E s c (Inl e) (get_authorization E)" and "yields E s c (Inl e) (get_username E)"
    and "yields E s c (Inl e) (is_authenticated E)" and "yields E s c (Inl e) (caller E)"
    and "yields E s c (Inl e) (scope_authorized E scope)"
proof -
  show a: "yields E s c (Inl e) (get_authorization E)" using yields_authorization [OF assms(1), of E s] assms(2) by simp
  show u: "yields E s c (Inl e) (get_username E)" unfolding get_username_def by (rule yields_bindA_Inl [OF a])
  show "yields E s c (Inl e) (is_authenticated E)" unfolding is_authenticated_def seqA_def by (rule yields_bindA_Inl [OF a])
  show "yields E s c (Inl e) (caller E)" unfolding caller_def by (rule yields_bindA_Inl [OF u])
  show "yields E s c (Inl e) (scope_authorized E scope)"
    unfolding scope_authorized_def is_authorized_def by (rule yields_bindA_Inl [OF a])
qed

lemma yields_user:
  assumes "fresh c" and "caller_of E s c = Inr a" and "auth_type a = USER"
  shows "yields E s c (Inr a) (get_authorization E)" and "yields E s c (Inr False) (scope_authorized E scope)"
proof -
  show a: "yields E s c (Inr a) (get_authorization E)" using yields_authorization [OF assms(1), of E s] assms(2) by simp
  have "yields E s c (Inr False) (bindA (return False) (\<lambda>authorized_scopes. return (is_administrator a \<or> authorized_scopes)))"
    using assms(3) by (simp add: yields_def is_administrator_def)
  then show "yields E s c (Inr False) (scope_authorized E scope)"
    unfolding scope_authorized_def is_authorized_def
    by (intro yields_bindA_Inr [OF a]) (simp add: is_authorized_app_def assms(3))
qed

text \<open>The access control lists, for a user and for nobody.\<close>

lemma acl_refuses:
  assumes "fresh c" and "unauthorized_access \<in> X"
    and who: "(\<exists>e \<in> X. caller_of E s c = Inl e) \<or> (\<exists>a. caller_of E s c = Inr a \<and> auth_type a = USER)"
  shows "refuses E s c X (invoke_acl E acl)"
    and "(\<exists>e. caller_of E s c = Inl e) \<or> ctx_namespace c \<notin> set opn \<Longrightarrow> refuses E s c X (invoke_acl_for_users E acl opn)"
    and "refuses E s c X (accounts_api_invoke E)"
proof -
  have branch: "refuses E s c X (bindA (scope_authorized E scope) (\<lambda>ok. if ok then meth else raise unauthorized_access))"
    for scope meth
    using who
  proof (elim disjE bexE exE conjE)
    fix e assume "e \<in> X" "caller_of E s c = Inl e"
    then show ?thesis by (intro refuses_bindA_Inl yields_unauthenticated assms)
  next
    fix a assume "caller_of E s c = Inr a" "auth_type a = USER"
    then show ?thesis by (intro refuses_bindA_Inr [OF yields_user(2)] assms) (simp_all add: refuses_raise assms)
  qed
  show acl: "refuses E s c X (invoke_acl E acl)" for acl
    unfolding invoke_acl_def
    by (intro refuses_namespace) (auto simp: refuses_raise assms branch split: option.split)
  show "refuses E s c X (accounts_api_invoke E)"
    unfolding accounts_api_invoke_def
  proof (intro refuses_namespace refuses_raise_if assms(2))
    show "refuses E s c X (seqA (check_admin_authorization_services E) (invoke_acl E (accounts_acl E)))"
    proof (cases "ctx_namespace c \<in> {''Accounts.AddAdminUser'', ''Accounts.RemoveAdminUser'', ''Accounts.ModifyUser''}")
      case False
      then have "yields E s c (Inr ()) (check_admin_authorization_services E)"
        by (auto simp: yields_def check_admin_authorization_services_def during_def same_request_def)
      then show ?thesis by (rule refuses_seqA(2)) (rule acl)
    next
      case True
      have "refuses E s c X (bindA (get_authorization E) (\<lambda>a. raise_if (\<not> is_administrator a) unauthorized_access (return ())))"
        using who
      proof (elim disjE bexE exE conjE)
        fix e assume "e \<in> X" "caller_of E s c = Inl e"
        then show ?thesis by (intro refuses_bindA_Inl yields_unauthenticated assms)
      next
        fix a assume a: "caller_of E s c = Inr a" "auth_type a = USER"
        then have "\<not> is_administrator a" by (simp add: is_administrator_def)
        then show ?thesis
          by (intro refuses_bindA_Inr [OF yields_user(1) [OF assms(1) a]]) (simp add: refuses_raise assms)
      qed
      then have "refuses E s c X (check_admin_authorization_services E)"
        using True unfolding check_admin_authorization_services_def by (intro refuses_namespace) simp
      then show ?thesis by (rule refuses_seqA(1))
    qed
  qed
  assume closed: "(\<exists>e. caller_of E s c = Inl e) \<or> ctx_namespace c \<notin> set opn"
  have open_branch: "refuses E s c X (bindA (scope_authorized E scope) (\<lambda>ok. bindA (get_authorization E) (\<lambda>a.
         if ok then meth else if is_authenticated_user a \<and> ctx_namespace c \<in> set opn then meth
         else raise unauthorized_access)))" for scope and meth :: "('a api, unit) act"
    using who
  proof (elim disjE bexE exE conjE)
    fix e assume "e \<in> X" "caller_of E s c = Inl e"
    then show ?thesis by (intro refuses_bindA_Inl yields_unauthenticated assms)
  next
    fix a assume a: "caller_of E s c = Inr a" "auth_type a = USER"
    then have "ctx_namespace c \<notin> set opn" using closed by auto
    then show ?thesis using a
      by (intro refuses_bindA_Inr [OF yields_user(2)] refuses_bindA_Inr [OF yields_user(1)] assms)
         (simp_all add: refuses_raise assms)
  qed
  show "refuses E s c X (invoke_acl_for_users E acl opn)"
    unfolding invoke_acl_for_users_def
    by (intro refuses_namespace) (auto simp: refuses_raise assms open_branch split: option.split)
qed


text \<open>
  Requests for those who have proved who they are, and among them those that are not for
  every user. The names of the remaining requests are for everybody.
\<close>

definition under_acl :: "string \<Rightarrow> bool" where
  "under_acl n \<longleftrightarrow> starts_with n ''ClusterSettings.'' \<or> starts_with n ''Projects.'' \<or> starts_with n ''FileSystem.'' \<or>
     starts_with n ''Accounts.'' \<or> starts_with n ''EmailTemplates.'' \<or> starts_with n ''Snapshots.''"

definition protected :: "string \<Rightarrow> bool" where
  "protected n \<longleftrightarrow> under_acl n \<or> starts_with n ''FileBrowser.'' \<or>
     n \<in> {''Auth.GlobalSignOut'', ''Auth.SignOut'', ''Auth.ChangePassword'', ''Auth.GetUser'', ''Auth.GetGroup'',
        ''Auth.GetUserPrivateKey'', ''Auth.ListUsersInGroup'', ''Auth.ConfigureSSO''}"

definition for_managers :: "string \<Rightarrow> bool" where
  "for_managers n \<longleftrightarrow> under_acl n \<and>
     n \<notin> {''ClusterSettings.ListClusterModules'', ''ClusterSettings.GetModuleSettings'',
        ''ClusterSettings.ListClusterHosts'', ''ClusterSettings.DescribeInstanceTypes'',
        ''Projects.GetUserProjects'', ''Projects.GetProject''}"

lemma under_acl_cases:
  assumes "under_acl n"
  obtains (settings) r where "n = ''ClusterSettings.'' @ r" | (projects) r where "n = ''Projects.'' @ r"
  | (filesystem) r where "n = ''FileSystem.'' @ r" | (accounts) r where "n = ''Accounts.'' @ r"
  | (email) r where "n = ''EmailTemplates.'' @ r" | (snapshots) r where "n = ''Snapshots.'' @ r"
  using assms unfolding under_acl_def starts_with_iff by blast

lemma refuses_dispatch:
  "ctx_namespace c = ''ClusterSettings.'' @ r \<Longrightarrow> refuses E s c X (cluster_settings_api_invoke E M) \<Longrightarrow> refuses E s c X (api_invoke E M)"
  "ctx_namespace c = ''Projects.'' @ r \<Longrightarrow> refuses E s c X (projects_api_invoke E) \<Longrightarrow> refuses E s c X (api_invoke E M)"
  "ctx_namespace c = ''FileSystem.'' @ r \<Longrightarrow> refuses E s c X (filesystem_api_invoke E M) \<Longrightarrow> refuses E s c X (api_invoke E M)"
  "ctx_namespace c = ''Accounts.'' @ r \<Longrightarrow> refuses E s c X (accounts_api_invoke E) \<Longrightarrow> refuses E s c X (api_invoke E M)"
  "ctx_namespace c = ''EmailTemplates.'' @ r \<Longrightarrow> refuses E s c X (email_templates_api_invoke E M) \<Longrightarrow> refuses E s c X (api_invoke E M)"
  "ctx_namespace c = ''Snapshots.'' @ r \<Longrightarrow> refuses E s c X (snapshots_api_invoke E M) \<Longrightarrow> refuses E s c X (api_invoke E M)"
  "ctx_namespace c = ''FileBrowser.'' @ r \<Longrightarrow> refuses E s c X (file_browser_api_invoke E M) \<Longrightarrow> refuses E s c X (api_invoke E M)"
  "ctx_namespace c = ''Auth.'' @ r \<Longrightarrow> refuses E s c X (auth_api_invoke E) \<Longrightarrow> refuses E s c X (api_invoke E M)"
  unfolding api_invoke_def by (intro refuses_namespace; simp)+

text \<open>An access control list refuses whom it does not let in.\<close>

lemma under_acl_refused:
  assumes "under_acl (ctx_namespace c)" and "fresh c" and "unauthorized_access \<in> X"
    and who: "(\<exists>e \<in> X. caller_of E s c = Inl e) \<or>
      (\<exists>a. caller_of E s c = Inr a \<and> auth_type a = USER) \<and> for_managers (ctx_namespace c)"
  shows "refuses E s c X (api_invoke E M)"
proof -
  have who': "(\<exists>e \<in> X. caller_of E s c = Inl e) \<or> (\<exists>a. caller_of E s c = Inr a \<and> auth_type a = USER)"
    using who by blast
  have shut: "(\<exists>e. caller_of E s c = Inl e) \<or> ctx_namespace c \<notin> set ns"
    if "set ns \<subseteq> {''ClusterSettings.ListClusterModules'', ''ClusterSettings.GetModuleSettings'',
        ''ClusterSettings.ListClusterHosts'', ''ClusterSettings.DescribeInstanceTypes'',
        ''Projects.GetUserProjects'', ''Projects.GetProject''}" for ns
    using who that unfolding for_managers_def by blast
  note refused = acl_refuses(1,3) [OF assms(2,3) who'] acl_refuses(2) [OF assms(2,3) who' shut]
  from assms(1) show ?thesis
  proof (cases rule: under_acl_cases)
    case settings
    then show ?thesis by (rule refuses_dispatch) (unfold cluster_settings_api_invoke_def, rule refused, simp)
  next
    case projects
    then show ?thesis by (rule refuses_dispatch) (unfold projects_api_invoke_def, rule refused, simp)
  next
    case filesystem
    then show ?thesis by (rule refuses_dispatch) (unfold filesystem_api_invoke_def, rule refused)
  next
    case accounts
    then show ?thesis by (rule refuses_dispatch) (rule refused)
  next
    case email
    then show ?thesis by (rule refuses_dispatch) (unfold email_templates_api_invoke_def, rule refused)
  next
    case snapshots
    then show ?thesis by (rule refuses_dispatch) (unfold snapshots_api_invoke_def, rule refused)
  qed
qed

lemma protected_refused:
  assumes "protected (ctx_namespace c)" and "fresh c" and X: "unauthorized_access \<in> X" "e \<in> X" and e: "caller_of E s c = Inl e"
  shows "refuses E s c X (api_invoke E M)"
proof -
  let ?n = "ctx_namespace c"
  note nobody = yields_unauthenticated [OF assms(2) e] and stop = refuses_bindA_Inl [OF _ X(2)] refuses_seqA_Inl [OF _ X(2)]
  from assms(1) consider "under_acl ?n" | "starts_with ?n ''FileBrowser.''"
    | "?n \<in> {''Auth.GlobalSignOut'', ''Auth.SignOut'', ''Auth.ChangePassword'', ''Auth.GetUser'', ''Auth.GetGroup'',
        ''Auth.GetUserPrivateKey'', ''Auth.ListUsersInGroup'', ''Auth.ConfigureSSO''}"
    unfolding protected_def by blast
  then show ?thesis
  proof cases
    case 1
    then show ?thesis using under_acl_refused [OF _ assms(2) X(1)] X(2) e by blast
  next
    case 2
    then obtain r where "?n = ''FileBrowser.'' @ r" using starts_with_iff by blast
    then show ?thesis
      by (rule refuses_dispatch) (unfold file_browser_api_invoke_def, intro stop nobody)
  next
    case 3
    have stopped: "refuses E s c X (auth_global_sign_out E)" "refuses E s c X (auth_sign_out E)"
      "refuses E s c X (auth_change_password E)" "refuses E s c X (auth_get_user E)" "refuses E s c X (auth_get_user_group E)"
      "refuses E s c X (auth_get_user_private_key E)" "refuses E s c X (auth_list_users_in_group E)"
      "refuses E s c X (auth_configure_sso E)"
      unfolding auth_global_sign_out_def auth_sign_out_def auth_change_password_def auth_get_user_def
        auth_get_user_group_def auth_get_user_private_key_def auth_list_users_in_group_def auth_configure_sso_def
      by (intro stop nobody)+
    from 3 have "refuses E s c X (auth_api_invoke E)"
      unfolding auth_api_invoke_def by (intro refuses_namespace) (auto simp: stopped)
    moreover from 3 obtain r where "?n = ''Auth.'' @ r" by auto
    ultimately show ?thesis using refuses_dispatch(8) by blast
  qed
qed


section \<open>Tokens of a user\<close>

text \<open>
  The token of a request names the user: by the user name, or under single sign-on by the
  e-mail address, which is then looked up in the table.
\<close>

definition names_user :: "'db env \<Rightarrow> 'db st \<Rightarrow> string \<Rightarrow> string \<Rightarrow> bool" where
  "names_user E t name n \<longleftrightarrow> (case get_email_from_token_username (cfg E) name of
      None \<Rightarrow> sanitize_username name = Inr n
    | Some e \<Rightarrow> (if e = [] then sanitize_username name = Inr n
        else case row E t Users (n, []) of None \<Rightarrow> False
          | Some i \<Rightarrow> (case sanitize_email (cfg E) e of Inl _ \<Rightarrow> False | Inr e' \<Rightarrow> i ''email'' = Some (VStr e'))))"

definition token_of_user :: "'db env \<Rightarrow> 'db st \<Rightarrow> api_ctx \<Rightarrow> string \<Rightarrow> bool" where
  "token_of_user E t c n \<longleftrightarrow> ctx_source c \<noteq> ''unix-socket'' \<and> \<not> blank (bearer_token c) \<and>
     (case jwt_decode (cfg E) (bearer_token c) of
        JwtOk claims \<Rightarrow> (case claims ''username'' of
            Some (VStr name) \<Rightarrow> name \<noteq> [] \<and> names_user E t name n
          | _ \<Rightarrow> False)
      | _ \<Rightarrow> False)"

lemma user_from_db_fields:
  "user_from_db d = Inr u \<Longrightarrow> u_enabled u = get_value_as_bool ''enabled'' d None \<and> opt_str_field (d ''role'') = Inr (u_role u)"
  by (auto simp: user_from_db_def bindE_eq_Inr)

lemma email_index_item:
  "k \<in> {''role'', ''username'', ''is_active'', ''enabled'', ''email''} \<Longrightarrow> project_item EmailIndex i k = i k"
  by (auto simp: project_item_def index_schema_of_def schema_defs restrict_map_def)

lemma get_as_bool_default: "get_as_bool v None = Some True \<Longrightarrow> get_as_bool v d = Some True"
  by (cases v) (auto split: if_splits)

lemma get_value_as_bool_cong: "d k = d' k \<Longrightarrow> get_value_as_bool k d x = get_value_as_bool k d' x"
  by (simp add: get_value_as_bool_def value_exists_def)

lemma sanitize_email_idem: "sanitize_email w e = Inr e' \<Longrightarrow> sanitize_email w e' = Inr e'"
  by (auto simp: sanitize_email_def Let_def py_strip_lower blank_def split: if_splits) (simp add: py_lower_def)

context dynamodb
begin

lemma named_user_row:
  assumes i: "row E t Users (n, []) = Some i" and n: "names_user E t name n" "name \<noteq> []"
    and u: "get_user_from_token_username E (Some (VStr name)) t = (Inr usr, t')"
  shows "u_enabled usr = get_value_as_bool ''enabled'' i None \<and> opt_str_field (i ''role'') = Inr (u_role usr)"
proof (cases "get_email_from_token_username (cfg E) name \<in> {None, Some []}")
  case True
  then have s: "sanitize_username name = Inr n" using n by (auto simp: names_user_def)
  then have nb: "\<not> blank n" by (intro norm_name_not_blank sanitize_norm)
  then have "user_from_db i = Inr usr" using True u n i s
    by (auto simp: get_user_from_token_username_def get_user_def sanitize_idem user_dao_get_user_run bindA_eq_Inr split: if_splits)
  then show ?thesis by (rule user_from_db_fields)
next
  case False
  then obtain e e' where e: "get_email_from_token_username (cfg E) name = Some e" "e \<noteq> []" "sanitize_email (cfg E) e = Inr e'"
      "i ''email'' = Some (VStr e')"
    using n i by (auto simp: names_user_def split: option.splits if_splits sum.splits)
  obtain ks where ks: "ddb_index E (st_db t) EmailIndex e' = map (\<lambda>k. project_item EmailIndex (the (row E t Users k))) ks"
      "distinct ks" "set ks = {k. \<exists>i. row E t Users k = Some i \<and> i ''email'' = Some (VStr e')}"
    using index_rows [of "st_db t" EmailIndex e'] by (auto simp: index_schema_of_def schema_defs)
  have here: "(n, []) \<in> set ks" using ks(3) i e(4) by auto
  have found: "get_user_by_email E e t = (Inr usr, t')" using u e(1,2) n(2) by (simp add: get_user_from_token_username_def)
  have idem: "sanitize_email (cfg E) e' = Inr e'" by (rule sanitize_email_idem [OF e(3)])
  have "\<not> length ks > 1"
    using found e(3) ks(1) idem by (auto simp: get_user_by_email_def user_dao_get_user_by_email_def bindA_eq_Inr raise_if_def split: if_splits)
  then have "ks = [(n, [])]" using here by (cases ks) auto
  then have "user_from_db (project_item EmailIndex i) = Inr usr"
    using found e(3) ks(1) i idem
    by (auto simp: get_user_by_email_def user_dao_get_user_by_email_def act_simps split: if_splits)
  moreover have "project_item EmailIndex i ''enabled'' = i ''enabled''" "project_item EmailIndex i ''role'' = i ''role''"
    by (simp_all add: email_index_item)
  ultimately show ?thesis
    using user_from_db_fields [of "project_item EmailIndex i" usr]
      get_value_as_bool_cong [of "project_item EmailIndex i" "''enabled''" i None] by simp
qed

text \<open>The row a token leads to decides over the caller.\<close>

lemma token_caller:
  assumes "fresh c" and i: "row E t Users (n, []) = Some i" and tok: "token_of_user E t c n" and a: "caller_of E t c = Inr a"
  shows "get_value_as_bool ''enabled'' i None = Some True"
    and "i ''role'' = Some (VStr r) \<Longrightarrow> auth_type a = (if r = ''admin'' then ADMINISTRATOR else USER)"
proof -
  obtain claims name where claims: "jwt_decode (cfg E) (bearer_token c) = JwtOk claims" "claims ''username'' = Some (VStr name)"
      "name \<noteq> []" "names_user E t name n" and src: "ctx_source c \<noteq> ''unix-socket''" "\<not> blank (bearer_token c)"
    using tok by (auto simp: token_of_user_def split: jwt_result.splits option.splits val.splits)
  then have "fst (token_authorization E claims t) = Inr a"
    using a by (simp add: caller_of_value [OF assms(1)] authorization_value_def decode_token_def)
  then obtain usr t' where u: "get_user_from_token_username E (Some (VStr name)) t = (Inr usr, t')" "u_enabled usr = Some True"
      "auth_type a = get_authorization_type (u_role usr)"
    using claims
    by (cases "get_user_from_token_username E (Some (VStr name)) t"; cases "fst (get_user_from_token_username E (Some (VStr name)) t)")
       (auto simp: token_authorization_def attr_or_def raise_if_def bindA_def liftA_def split: if_splits sum.splits)
  then have "u_enabled usr = get_value_as_bool ''enabled'' i None \<and> opt_str_field (i ''role'') = Inr (u_role usr)"
    using named_user_row [OF i claims(4,3)] by blast
  then show "get_value_as_bool ''enabled'' i None = Some True"
    and "i ''role'' = Some (VStr r) \<Longrightarrow> auth_type a = (if r = ''admin'' then ADMINISTRATOR else USER)"
    using u(2,3) by (auto simp: get_authorization_type_def opt_str_field_def split: option.splits val.splits if_splits)
qed

text \<open>What the administrators' requests leave in the row.\<close>

lemma updated_row:
  assumes n: "sanitize_username u = Inr n" and d: "d ''username'' = Some (VStr u)" and r: "user_dao_update_user E d s = (Inr x, t)"
  shows "\<exists>i. row E t Users (n, []) = Some i \<and> (\<forall>k v. k \<notin> {''username'', ''created_on'', ''updated_on''} \<longrightarrow> d k = Some v \<longrightarrow> i k = Some v)"
proof -
  have u: "\<not> blank u" using n by (auto simp: sanitize_username_def split: if_splits)
  then have "str_or_empty (get_value_as_string ''username'' d None) = py_strip u"
    using d by (simp add: get_value_as_string_def value_exists_def is_empty_VStr blank_def Let_def)
  moreover have "sanitize_username (py_strip u) = Inr n" using n by (auto simp: sanitize_username_def blank_def split: if_splits)
  ultimately show ?thesis using r
    by (auto simp: user_dao_update_user_def user_attribute bindA_eq_Inr split: if_splits)
qed

lemma disable_user_row:
  assumes "disable_user E u s = (Inr (), t)" and "sanitize_username u = Inr n"
  obtains i where "row E t Users (n, []) = Some i" "get_value_as_bool ''enabled'' i None \<noteq> Some True"
proof -
  obtain i where i: "row E s Users (n, []) = Some i"
    using assms by (auto simp: disable_user_def user_dao_get_user_run act_simps split: if_splits option.splits)
  show thesis
  proof (cases "get_value_as_bool ''enabled'' i (Some False) = Some True")
    case False
    then have "t = s\<lparr>st_ticks := st_ticks s + 2\<rparr>"
      using assms i by (auto simp: disable_user_def user_dao_get_user_run act_simps split: if_splits)
    moreover have "get_value_as_bool ''enabled'' i None \<noteq> Some True"
      using False get_as_bool_default by (auto simp: get_value_as_bool_def split: if_splits)
    ultimately show thesis using that i by simp
  next
    case True
    then obtain x t1 where x: "user_dao_update_user E [''username'' \<mapsto> VStr u, ''enabled'' \<mapsto> VBool False] (s\<lparr>st_ticks := st_ticks s + 2\<rparr>) = (Inr x, t1)"
      and db: "st_db t = st_db t1"
      using assms i by (auto simp: disable_user_def user_dao_get_user_run bindA_eq_Inr seqA_eq_Inr raise_if_eq_Inr split: if_splits)
    obtain j where j: "row E t1 Users (n, []) = Some j" "\<forall>k v. k \<notin> {''username'', ''created_on'', ''updated_on''} \<longrightarrow>
        [''username'' \<mapsto> VStr u, ''enabled'' \<mapsto> VBool False] k = Some v \<longrightarrow> j k = Some v"
      using updated_row [OF assms(2) _ x] by auto
    have "j ''enabled'' = Some (VBool False)" by (rule j(2) [rule_format]) simp_all
    then have "get_value_as_bool ''enabled'' j None = Some False" by (rule get_value_as_bool_VBool)
    then show thesis using j(1) db by (intro that [of j]) simp_all
  qed
qed

lemma remove_admin_user_row:
  assumes "remove_admin_user E u s = (Inr (), t)" and "sanitize_username u = Inr n"
  obtains i where "row E t Users (n, []) = Some i" "i ''role'' = Some (VStr ''user'')"
proof -
  obtain i where i: "row E s Users (n, []) = Some i"
    using assms by (auto simp: remove_admin_user_def user_dao_get_user_run act_simps split: if_splits option.splits)
  show thesis
  proof (cases "i ''role'' = Some (VStr ''user'')")
    case True
    then have "t = s\<lparr>st_ticks := st_ticks s + 2\<rparr>"
      using assms i by (auto simp: remove_admin_user_def user_dao_get_user_run act_simps split: if_splits)
    then show thesis using that i True by simp
  next
    case False
    let ?d = "[''username'' \<mapsto> VStr u, ''role'' \<mapsto> VStr ''user'', ''sudo'' \<mapsto> VBool False]"
    obtain x where x: "user_dao_update_user E ?d (s\<lparr>st_ticks := st_ticks s + 2\<rparr>) = (Inr x, t)"
      using assms i False
      by (auto simp: remove_admin_user_def user_dao_get_user_run bindA_eq_Inr seqA_eq_Inr raise_if_eq_Inr split: if_splits)
    obtain j where j: "row E t Users (n, []) = Some j"
        "\<forall>k v. k \<notin> {''username'', ''created_on'', ''updated_on''} \<longrightarrow> ?d k = Some v \<longrightarrow> j k = Some v"
      using updated_row [OF assms(2) _ x] by auto
    have "j ''role'' = Some (VStr ''user'')" by (rule j(2) [rule_format]) simp_all
    then show thesis using that j(1) by simp
  qed
qed

end

section \<open>Requests every user may send\<close>

lemma reader_user_projects: "reader (get_user_projects E u)"
proof -
  have "reader (enabled_projects E ids)" for ids
  proof (induction ids)
    case Nil
    show ?case unfolding enabled_projects.simps by (rule reader_rules)
  next
    case (Cons q ids)
    show ?case unfolding enabled_projects.simps get_project_by_id_def attr_def
      by (intro reader_rules Cons)
  qed
  note projects = this
  show ?thesis
    unfolding get_user_projects_def get_projects_by_username_def seqA_def whenA_def
    by (intro reader_rules projects)
qed

subsection \<open>A request that succeeds\<close>

lemma reader_scope [reader_rules]: "reader (token_scope_authorized E d scope)"
  unfolding token_scope_authorized_def by (intro reader_rules)

lemma keeps_with_response_split:
  assumes k: "keeps (during E s c) m" and same: "\<And>x q t. m x = (q, t) \<Longrightarrow> ctx_response (snd t) = ctx_response (snd x)"
  shows "keeps (with_response E s c r) m"
proof (rule keepsI)
  fix x q t assume x: "with_response E s c r x" and m: "m x = (q, t)"
  have "during E s c x" using x by (simp add: with_response_def)
  then have "during E s c t" by (rule keepsD [OF k _ m])
  then show "with_response E s c r t" using x same [OF m] by (simp add: with_response_def)
qed

lemma keeps_with_response_parts [keeps_rules]:
  "keeps (with_response E s c r) (set_ctx (set_request_id i))"
  "keeps (with_response E s c r) (on_db (new_uuid E))"
  "reader m \<Longrightarrow> keeps (with_response E s c r) (on_db m)"
  "fresh c \<Longrightarrow> keeps (with_response E s c r) (get_authorization E)"
proof -
  show "keeps (with_response E s c r) (set_ctx (set_request_id i))"
    by (rule keeps_with_response_split) (auto intro: keeps_rules simp: set_request_id_def)
  show "keeps (with_response E s c r) (on_db (new_uuid E))"
    by (rule keeps_with_response_split) (auto intro: keeps_rules)
  show "keeps (with_response E s c r) (on_db m)" if m: "reader m"
  proof (rule keepsI)
    fix x q t assume "with_response E s c r x" "on_db m x = (q, t)"
    then show "with_response E s c r t"
      using on_db_reader [OF m, of E s c "fst x" "snd x"] by (auto simp: with_response_def)
  qed
  show "keeps (with_response E s c r) (get_authorization E)" if c: "fresh c"
  proof (rule keepsI)
    fix x q t assume "with_response E s c r x" "get_authorization E x = (q, t)"
    then show "with_response E s c r t"
      using get_authorization_during [OF c, of E s "fst x" "snd x"] by (auto simp: with_response_def)
  qed
qed

lemma keeps_with_response_steps:
  assumes "fresh c"
  shows "keeps (with_response E s c r) (before_logging E)" and "keeps (with_response E s c r) (validate_and_preprocess_request E)"
    and "keeps (with_response E s c r) (scope_authorized E scope)"
proof -
  show "keeps (with_response E s c r) (before_logging E)"
    unfolding before_logging_def log_request_def validate_request_def get_request_logging_payload_def
    by (intro keeps_rules keeps_with_response assms)
  show "keeps (with_response E s c r) (validate_and_preprocess_request E)"
    unfolding validate_and_preprocess_request_def by (intro keeps_rules)
  have one: "keeps (with_response E s c r) (is_scope_authorized E sc)" for sc
    unfolding is_scope_authorized_def by (intro keeps_rules reader_rules)
  have "keeps (with_response E s c r) (all_scopes_authorized E scs)" for scs
  proof (induction scs)
    case Nil
    show ?case unfolding all_scopes_authorized.simps by (rule keeps_rules)
  next
    case (Cons sc scs)
    show ?case unfolding all_scopes_authorized.simps by (intro keeps_rules one Cons)
  qed
  then show "keeps (with_response E s c r) (scope_authorized E scope)"
    unfolding scope_authorized_def is_authorized_def Let_def by (intro keeps_rules assms)
qed

lemma validate_and_preprocess_well_formed:
  assumes "well_formed c" and "during E s c x"
  shows "fst (validate_and_preprocess_request E x) = Inr ()"
  using assms by (cases x) (auto simp: validate_and_preprocess_request_def well_formed_def during_def same_request_def whenA_def)

text \<open>A well-formed request whose method answers is with_response by the server the same way.\<close>

lemma serve_success:
  assumes c: "fresh c" "well_formed c" and run: "server_is_running (cfg E)" and a: "caller_of E s c = Inr a"
    and m: "\<And>x. with_response E s c None x \<Longrightarrow> \<exists>t. m x = (Inr (), t) \<and> with_response E s c (Some r) t"
  shows "\<exists>t c'. serve E m (s, c) = (Inr (Some r), (t, c')) \<and> at_rest s t"
proof -
  have caller: "caller_of E s c \<in> {Inl unauthorized_access} \<union> range Inr" using a by simp
  have start: "with_response E s c None (s, c)" using c(1) by (simp add: with_response_def during_start) (simp add: fresh_def)
  obtain x where x: "before_logging E (s, c) = (Inr (), x)" using before_logging_well_formed [OF c caller] by blast
  have ax: "with_response E s c None x" by (rule keepsD [OF keeps_with_response_steps(1) [OF c(1)] start x])
  obtain y where y: "validate_and_preprocess_request E x = (Inr (), y)"
    using validate_and_preprocess_well_formed [OF c(2), of E s x] ax by (metis with_response_def prod.collapse)
  have ay: "with_response E s c None y" by (rule keepsD [OF keeps_with_response_steps(2) [OF c(1)] ax y])
  obtain z where z: "m y = (Inr (), z)" "with_response E s c (Some r) z" using m [OF ay] by blast
  have "invoke_logged E m x = (Inr (), z)"
    using y z run by (cases z) (simp add: invoke_logged_def check_is_running_def with_response_def)
  moreover obtain t where t: "log_response E z = (Inr (), t)"
    using get_log_tag_run [OF c(1) _ caller, of z] z(2) by (auto simp: log_response_def with_response_def)
  moreover have "with_response E s c (Some r) t"
    using keepsD [OF keeps_with_response [OF c(1)] z(2)] t by (simp add: log_response_def)
  ultimately have "handler_invoke E m (s, c) = (Inr (), t)" and "with_response E s c (Some r) t"
    using x by (simp_all add: handler_invoke_def act_simps)
  then show ?thesis by (cases t) (auto simp: serve_def with_response_def during_def)
qed

lemma user_projects_method:
  assumes "ctx_payload c = Inr rq" and "\<not> blank (rq_username rq)" and x: "with_response E s c None x"
    and ps: "fst (get_user_projects E (rq_username rq) s) = Inr ps"
  shows "\<exists>t. admin_get_user_projects E x = (Inr (), t) \<and>
     with_response E s c (Some \<lparr>resp_success = True, resp_error = None, resp_payload = Some (ProjectsPayload ps None)\<rparr>) t"
proof -
  obtain x1 x2 where xx: "x = (x1, x2)" by (cases x)
  have d: "during E s c (x1, x2)" and r: "ctx_response x2 = None" using x xx by (simp_all add: with_response_def)
  obtain t where t: "on_db (get_user_projects E (rq_username rq)) (x1, x2) = (Inr ps, (t, x2))" "during E s c (t, x2)"
    using on_db_reader [OF reader_user_projects d] ps by metis
  have "request_payload (x1, x2) = (Inr rq, (x1, x2))"
    using d assms(1) by (simp add: request_payload_def during_def same_request_def)
  then show ?thesis using t r assms(2) xx
    by (simp add: admin_get_user_projects_def success_def with_response_def del: on_db_run)
qed

lemma user_projects_request:
  assumes "fresh c" and "ctx_namespace c = ''Projects.GetUserProjects''" and a: "caller_of E s c = Inr a" "auth_type a = USER"
    and rq: "ctx_payload c = Inr rq" "\<not> blank (rq_username rq)" and x: "with_response E s c None x"
    and ps: "fst (get_user_projects E (rq_username rq) s) = Inr ps"
  shows "\<exists>t. api_invoke E M x = (Inr (), t) \<and>
     with_response E s c (Some \<lparr>resp_success = True, resp_error = None, resp_payload = Some (ProjectsPayload ps None)\<rparr>) t"
proof -
  let ?scope = "module_scope (cfg E) ''read''"
  obtain x1 x2 where xx: "x = (x1, x2)" by (cases x)
  have ns: "ctx_namespace x2 = ''Projects.GetUserProjects''"
    using x xx assms(2) by (simp add: with_response_def during_def same_request_def)
  obtain y where y: "scope_authorized E ?scope x = (Inr False, y)" "during E s c y"
    using yieldsD [OF yields_user(2) [OF assms(1) a]] x unfolding with_response_def by blast
  have ay: "with_response E s c None y" by (rule keepsD [OF keeps_with_response_steps(3) [OF assms(1)] x y(1)])
  obtain z where z: "get_authorization E y = (Inr a, z)"
    using yieldsD [OF yields_user(1) [OF assms(1) a] y(2)] by blast
  have az: "with_response E s c None z" by (rule keepsD [OF keeps_with_response_parts(4) [OF assms(1)] ay z])
  obtain t where t: "admin_get_user_projects E z = (Inr (), t)"
      "with_response E s c (Some \<lparr>resp_success = True, resp_error = None, resp_payload = Some (ProjectsPayload ps None)\<rparr>) t"
    using user_projects_method [OF rq az ps] by blast
  have "api_invoke E M x = admin_get_user_projects E z"
    using ns y(1) z xx a(2)
    by (simp add: api_invoke_def projects_api_invoke_def invoke_acl_for_users_def acl_entry_def projects_acl_def Let_def bindA_def
        is_authenticated_user_def)
  then show ?thesis using t by simp
qed

subsection \<open>A cluster with one user\<close>

definition token_env :: "jwt_result \<Rightarrow> mem_db env" where
  "token_env j = mem_env None (local_world\<lparr>jwt_decode := \<lambda>_. j\<rparr>)"

definition user_env :: "mem_db env" where
  "user_env = token_env (JwtOk [''username'' \<mapsto> VStr ''u''])"

definition request_about :: "string \<Rightarrow> api_payload" where
  "request_about u = \<lparr>rq_username = u, rq_email = [], rq_email_verified = None, rq_user = None, rq_group = None,
     rq_group_name = [], rq_group_names = [], rq_page_size = None,
     rq_list = \<lparr>r_cursor = None, r_filters = []\<rparr>, rq_project = None, rq_project_id = [], rq_project_name = [],
     rq_filesystem_names = [],
     rq_auth = \<lparr>auth_flow = [], cognito_username = [], req_password = [], req_refresh_token = [], authorization_code = []\<rparr>, rq_challenge_name = [], rq_session = [], rq_password = [], rq_old_password = [],
     rq_new_password = [], rq_confirmation_code = [], rq_refresh_token = [], rq_sso_auth = None\<rparr>"

definition request_of :: "string \<Rightarrow> api_ctx" where
  "request_of n = \<lparr>ctx_request = [''header'' \<mapsto> VDict [(''namespace'', VStr n), (''request_id'', VStr ''r-1'')]],
     ctx_source = ''http'', ctx_token = Some [''token_type'' \<mapsto> VStr ''Bearer'', ''token'' \<mapsto> VStr ''t''],
     ctx_test_username = None, ctx_payload = Inr (request_about ''clusteradmin''),
     ctx_decoded = None, ctx_authorization = None, ctx_response = None\<rparr>"

lemma request_of_ok:
  "well_formed (request_of ''Accounts.ListUsers'') \<and> server_is_running (cfg user_env)"
  "well_formed (request_of ''Projects.GetUserProjects'') \<and> server_is_running (cfg user_env)"
proof -
  have "\<exists>p. ctx_payload (request_of n) = Inr p" for n by (simp add: request_of_def)
  moreover have "ctx_header (request_of n) \<noteq> None" for n
    by (simp add: ctx_header_def request_of_def get_value_as_dict_def value_exists_def)
  moreover have "matches_namespace (ctx_namespace (request_of ''Accounts.ListUsers''))"
    "matches_namespace (ctx_namespace (request_of ''Projects.GetUserProjects''))"
    "\<not> blank (ctx_namespace (request_of ''Accounts.ListUsers''))"
    "\<not> blank (ctx_namespace (request_of ''Projects.GetUserProjects''))"
    "matches_request_id (ctx_request_id (request_of ''Accounts.ListUsers''))"
    "matches_request_id (ctx_request_id (request_of ''Projects.GetUserProjects''))" by code_simp+
  moreover have "server_is_running (cfg user_env)" by code_simp
  ultimately show "well_formed (request_of ''Accounts.ListUsers'') \<and> server_is_running (cfg user_env)"
    "well_formed (request_of ''Projects.GetUserProjects'') \<and> server_is_running (cfg user_env)"
    unfolding well_formed_def by blast+
qed

section \<open>Properties\<close>

text \<open>
  C5. A request with a token of a user who is no administrator reaches none of the methods the
  access control lists keep for administrators and applications, in any of the APIs: it is
  with_response with a failure that carries no data, no table changes and nothing is sent; a well-formed request is
  with_response with \<open>UNAUTHORIZED_ACCESS\<close>.
\<close>

theorem users_are_kept_out:
  assumes "fresh c" and "caller_of E s c = Inr a" and "auth_type a = USER" and "for_managers (ctx_namespace c)"
  shows "\<exists>r t c'. cluster_manager E M (s, c) = (Inr (Some r), (t, c')) \<and>
     \<not> resp_success r \<and> resp_payload r = None \<and> st_db t = st_db s \<and> st_trace t = st_trace s \<and>
     (well_formed c \<and> server_is_running (cfg E) \<longrightarrow> resp_error r = Some UNAUTHORIZED_ACCESS)"
proof -
  have "refuses E s c {unauthorized_access} (api_invoke E M)"
    using assms by (intro under_acl_refused) (auto simp: for_managers_def)
  from serve_refused [OF assms(1) this] show ?thesis
    unfolding cluster_manager_def at_rest_def
    using assms(2) by (fastforce simp: refusal_def error_code_of_def unauthorized_access_def)
qed

theorem users_are_kept_out_witness:
  "\<exists>r t c'. cluster_manager user_env (\<lambda>_. return ()) (local_state admin_db, request_of ''Accounts.ListUsers'') = (Inr (Some r), (t, c')) \<and>
     \<not> resp_success r \<and> resp_error r = Some UNAUTHORIZED_ACCESS"
proof -
  have "case caller_of user_env (local_state admin_db) (request_of ''Accounts.ListUsers'') of Inl _ \<Rightarrow> False | Inr a \<Rightarrow> auth_type a = USER"
    by code_simp
  then obtain a where "caller_of user_env (local_state admin_db) (request_of ''Accounts.ListUsers'') = Inr a" "auth_type a = USER"
    by (auto split: sum.splits)
  moreover have "fresh (request_of ''Accounts.ListUsers'')" by code_simp
  moreover have "for_managers (ctx_namespace (request_of ''Accounts.ListUsers''))" by code_simp
  moreover have "well_formed (request_of ''Accounts.ListUsers'') \<and> server_is_running (cfg user_env)" using request_of_ok by blast
  ultimately show ?thesis
    using users_are_kept_out [of "request_of ''Accounts.ListUsers''" user_env "local_state admin_db" a "\<lambda>_. return ()"] by blast
qed

text \<open>
  C4. Disabling a user takes effect at once: whatever unexpired token of the user a request
  brings, under the user name or the e-mail address, every request that needs a caller is
  with_response with a failure that carries no data, and nothing is written or sent.
\<close>

theorem disabled_user_is_locked_out:
  assumes "dynamodb E" and "disable_user E u s = (Inr (), t)" and "sanitize_username u = Inr n"
    and "fresh c" and "token_of_user E t c n" and "protected (ctx_namespace c)"
  shows "\<exists>r t' c'. cluster_manager E M (t, c) = (Inr (Some r), (t', c')) \<and>
     \<not> resp_success r \<and> resp_payload r = None \<and> st_db t' = st_db t \<and> st_trace t' = st_trace t"
proof -
  obtain i where i: "row E t Users (n, []) = Some i" "get_value_as_bool ''enabled'' i None \<noteq> Some True"
    using dynamodb.disable_user_row [OF assms(1-3)] by blast
  obtain e where e: "caller_of E t c = Inl e"
    using dynamodb.token_caller(1) [OF assms(1,4) i(1) assms(5)] i(2) by (cases "caller_of E t c") auto
  have "refuses E t c {unauthorized_access, e} (api_invoke E M)"
    by (rule protected_refused [OF assms(6,4) _ _ e]) simp_all
  from serve_refused [OF assms(4) this] show ?thesis
    unfolding cluster_manager_def at_rest_def by blast
qed

theorem disabled_user_is_locked_out_witness:
  "\<exists>t r t' c'. disable_user user_env ''u'' (local_state admin_db) = (Inr (), t) \<and>
     cluster_manager user_env (\<lambda>_. return ()) (t, request_of ''Auth.GetUser'') = (Inr (Some r), (t', c')) \<and> \<not> resp_success r"
proof -
  let ?t = "snd (disable_user user_env ''u'' (local_state admin_db))"
  have "fst (disable_user user_env ''u'' (local_state admin_db)) = Inr ()" by code_simp
  then have off: "disable_user user_env ''u'' (local_state admin_db) = (Inr (), ?t)" by (metis prod.collapse)
  moreover have "fresh (request_of ''Auth.GetUser'')" by code_simp
  moreover have "token_of_user user_env ?t (request_of ''Auth.GetUser'') ''u''" by code_simp
  moreover have "protected (ctx_namespace (request_of ''Auth.GetUser''))" by code_simp
  moreover have "sanitize_username ''u'' = Inr ''u''" by code_simp
  ultimately show ?thesis
    using disabled_user_is_locked_out [of user_env "''u''" "local_state admin_db" ?t "''u''" "request_of ''Auth.GetUser''" "\<lambda>_. return ()"]
      mem_dynamodb unfolding user_env_def token_env_def by blast
qed

text \<open>
  Taking the role of an administrator away takes effect at once: with any token of the
  user, the requests kept for administrators fail without an effect.
\<close>

theorem demoted_user_is_kept_out:
  assumes "dynamodb E" and "remove_admin_user E u s = (Inr (), t)" and "sanitize_username u = Inr n"
    and "fresh c" and "token_of_user E t c n" and "for_managers (ctx_namespace c)"
  shows "\<exists>r t' c'. cluster_manager E M (t, c) = (Inr (Some r), (t', c')) \<and>
     \<not> resp_success r \<and> resp_payload r = None \<and> st_db t' = st_db t \<and> st_trace t' = st_trace t"
proof -
  obtain i where i: "row E t Users (n, []) = Some i" "i ''role'' = Some (VStr ''user'')"
    using dynamodb.remove_admin_user_row [OF assms(1-3)] by blast
  have "\<exists>X. refuses E t c X (api_invoke E M)"
  proof (cases "caller_of E t c")
    case (Inl e)
    then show ?thesis using assms(6)
      by (intro exI [of _ "{unauthorized_access, e}"] under_acl_refused assms(4)) (auto simp: for_managers_def)
  next
    case (Inr a)
    then have "auth_type a = USER"
      using dynamodb.token_caller(2) [OF assms(1,4) i(1) assms(5) Inr i(2)] by simp
    then show ?thesis using assms(6) Inr
      by (intro exI [of _ "{unauthorized_access}"] under_acl_refused assms(4)) (auto simp: for_managers_def)
  qed
  then obtain X where "refuses E t c X (api_invoke E M)" by blast
  from serve_refused [OF assms(4) this] show ?thesis
    unfolding cluster_manager_def at_rest_def by blast
qed

theorem demoted_user_is_kept_out_witness:
  "\<exists>t r t' c'. remove_admin_user user_env ''u'' (local_state admin_db) = (Inr (), t) \<and>
     cluster_manager user_env (\<lambda>_. return ()) (t, request_of ''Snapshots.CreateSnapshot'') = (Inr (Some r), (t', c')) \<and>
     \<not> resp_success r"
proof -
  let ?t = "snd (remove_admin_user user_env ''u'' (local_state admin_db))"
  have "fst (remove_admin_user user_env ''u'' (local_state admin_db)) = Inr ()" by code_simp
  then have off: "remove_admin_user user_env ''u'' (local_state admin_db) = (Inr (), ?t)" by (metis prod.collapse)
  moreover have "fresh (request_of ''Snapshots.CreateSnapshot'')" by code_simp
  moreover have "token_of_user user_env ?t (request_of ''Snapshots.CreateSnapshot'') ''u''" by code_simp
  moreover have "for_managers (ctx_namespace (request_of ''Snapshots.CreateSnapshot''))" by code_simp
  moreover have "sanitize_username ''u'' = Inr ''u''" by code_simp
  ultimately show ?thesis
    using demoted_user_is_kept_out [of user_env "''u''" "local_state admin_db" ?t "''u''" "request_of ''Snapshots.CreateSnapshot''"
        "\<lambda>_. return ()"] mem_dynamodb unfolding user_env_def token_env_def by blast
qed

text \<open>
  A request with an expired token is with_response by the outermost handler, without an error
  code, whatever it asks for: writing the log line raises \<open>AUTH_TOKEN_EXPIRED\<close>
  again, so the code that tells a client to renew its token never arrives. Nothing is
  written.
\<close>

theorem expired_token_gets_no_code:
  assumes "ctx_source c \<noteq> ''unix-socket''" and "\<not> blank (bearer_token c)"
    and "jwt_decode (cfg E) (bearer_token c) = JwtExpired" and "fresh c"
  shows "\<exists>c'. cluster_manager E M (s, c) = (Inr (Some error_response), (s, c'))"
  unfolding cluster_manager_def
  by (rule expired_serve) (use assms in \<open>simp add: expired_request_def fresh_def\<close>)


theorem expired_token_gets_no_code_witness:
  "\<exists>c'. cluster_manager (token_env JwtExpired) (\<lambda>_. return ()) (local_state admin_db, request_of ''Auth.GetUser'') =
     (Inr (Some error_response), (local_state admin_db, c'))"
proof -
  have "ctx_source (request_of ''Auth.GetUser'') \<noteq> ''unix-socket''" by code_simp
  moreover have "\<not> blank (bearer_token (request_of ''Auth.GetUser''))" by code_simp
  moreover have "fresh (request_of ''Auth.GetUser'')" by code_simp
  ultimately show ?thesis
    using expired_token_gets_no_code [of "request_of ''Auth.GetUser''" "token_env JwtExpired" "\<lambda>_. return ()" "local_state admin_db"]
    by (simp add: token_env_def)
qed

text \<open>
  Every user can read the projects of every other user: the method behind
  \<open>Projects.GetUserProjects\<close> takes the name in the request, and the access control list opens it to all
  authenticated users; the answer is the one the other user would get.
\<close>

theorem user_reads_projects_of_others:
  assumes "fresh c" and "well_formed c" and "server_is_running (cfg E)"
    and "ctx_namespace c = ''Projects.GetUserProjects''" and "caller_of E s c = Inr a" and "auth_type a = USER"
    and "ctx_payload c = Inr rq" and "\<not> blank (rq_username rq)"
    and "fst (get_user_projects E (rq_username rq) s) = Inr ps"
  shows "\<exists>t c'. cluster_manager E M (s, c) = (Inr (Some \<lparr>resp_success = True, resp_error = None,
       resp_payload = Some (ProjectsPayload ps None)\<rparr>), (t, c'))"
proof -
  have "\<exists>t c'. serve E (api_invoke E M) (s, c) = (Inr (Some \<lparr>resp_success = True, resp_error = None,
       resp_payload = Some (ProjectsPayload ps None)\<rparr>), (t, c')) \<and> at_rest s t"
    by (rule serve_success [OF assms(1-3,5)]) (rule user_projects_request [OF assms(1,4-8) _ assms(9)])
  then show ?thesis unfolding cluster_manager_def by blast
qed


theorem user_reads_projects_of_others_witness:
  "\<exists>t c'. cluster_manager user_env (\<lambda>_. return ()) (local_state admin_db, request_of ''Projects.GetUserProjects'') =
     (Inr (Some \<lparr>resp_success = True, resp_error = None, resp_payload = Some (ProjectsPayload [] None)\<rparr>), (t, c'))"
proof -
  let ?c = "request_of ''Projects.GetUserProjects''"
  have "case caller_of user_env (local_state admin_db) ?c of Inl _ \<Rightarrow> False | Inr a \<Rightarrow> auth_type a = USER"
    by code_simp
  then obtain a where a: "caller_of user_env (local_state admin_db) ?c = Inr a" "auth_type a = USER"
    by (auto split: sum.splits)
  have fresh: "fresh ?c" by code_simp
  have n: "ctx_namespace ?c = ''Projects.GetUserProjects''" by code_simp
  have rq: "ctx_payload ?c = Inr (request_about ''clusteradmin'')" by (simp add: request_of_def)
  have other: "\<not> blank (rq_username (request_about ''clusteradmin''))" by code_simp
  have "case fst (get_user_projects user_env ''clusteradmin'' (local_state admin_db)) of Inl _ \<Rightarrow> False | Inr ps \<Rightarrow> ps = []"
    by code_simp
  then have ps: "fst (get_user_projects user_env (rq_username (request_about ''clusteradmin'')) (local_state admin_db)) = Inr []"
    by (auto simp: request_about_def split: sum.splits)
  show ?thesis
    using user_reads_projects_of_others [OF fresh _ _ n a rq other ps] request_of_ok by blast
qed

end
