(* ===== verification/Vdc_Data.thy ===== *)
theory Vdc_Data
  imports Accounts_DAO
begin

text \<open>
  The data of the virtual desktop controller: the classes of
  \<^verbatim>\<open>ideadatamodel/virtual_desktop/virtual_desktop_model.py\<close> and the conversions of its tables'
  data access objects between an object and a row. A row is a dictionary, kept as the list of its entries;
  a field of an object that may be \<open>None\<close> is an option. Points in time are whole seconds.
\<close>

section \<open>Enumerations\<close>

text \<open>
  A Python enumeration whose members are strings: \<open>E(v)\<close> finds the member with a value and raises
  \<open>ValueError\<close>, \<open>E[n]\<close> the one with a name and raises \<open>KeyError\<close>.
\<close>

datatype session_state =
    PROVISIONING | CREATING | INITIALIZING | READY | RESUMING | STOPPING | STOPPED | ERROR
  | DELETING | DELETED

fun state_value :: "session_state \<Rightarrow> string" where
  "state_value PROVISIONING = ''PROVISIONING''"
| "state_value CREATING = ''CREATING''"
| "state_value INITIALIZING = ''INITIALIZING''"
| "state_value READY = ''READY''"
| "state_value RESUMING = ''RESUMING''"
| "state_value STOPPING = ''STOPPING''"
| "state_value STOPPED = ''STOPPED''"
| "state_value ERROR = ''ERROR''"
| "state_value DELETING = ''DELETING''"
| "state_value DELETED = ''DELETED''"

definition session_states :: "session_state list" where
  "session_states = [PROVISIONING, CREATING, INITIALIZING, READY, RESUMING, STOPPING, STOPPED,
     ERROR, DELETING, DELETED]"

datatype session_type = CONSOLE | VIRTUAL

fun session_type_value :: "session_type \<Rightarrow> string" where
  "session_type_value CONSOLE = ''CONSOLE''"
| "session_type_value VIRTUAL = ''VIRTUAL''"

datatype gpu = NO_GPU | NVIDIA | AMD

fun gpu_value :: "gpu \<Rightarrow> string" where
  "gpu_value NO_GPU = ''NO_GPU''"
| "gpu_value NVIDIA = ''NVIDIA''"
| "gpu_value AMD = ''AMD''"

datatype architecture = X86_64 | ARM64

fun architecture_value :: "architecture \<Rightarrow> string" where
  "architecture_value X86_64 = ''x86_64''"
| "architecture_value ARM64 = ''arm64''"

datatype day_of_week = MONDAY | TUESDAY | WEDNESDAY | THURSDAY | FRIDAY | SATURDAY | SUNDAY

fun day_value :: "day_of_week \<Rightarrow> string" where
  "day_value MONDAY = ''monday''"
| "day_value TUESDAY = ''tuesday''"
| "day_value WEDNESDAY = ''wednesday''"
| "day_value THURSDAY = ''thursday''"
| "day_value FRIDAY = ''friday''"
| "day_value SATURDAY = ''saturday''"
| "day_value SUNDAY = ''sunday''"

definition days :: "day_of_week list" where
  "days = [MONDAY, TUESDAY, WEDNESDAY, THURSDAY, FRIDAY, SATURDAY, SUNDAY]"

datatype schedule_type = WORKING_HOURS | STOP_ALL_DAY | START_ALL_DAY | CUSTOM_SCHEDULE | NO_SCHEDULE

fun schedule_type_value :: "schedule_type \<Rightarrow> string" where
  "schedule_type_value WORKING_HOURS = ''WORKING_HOURS''"
| "schedule_type_value STOP_ALL_DAY = ''STOP_ALL_DAY''"
| "schedule_type_value START_ALL_DAY = ''START_ALL_DAY''"
| "schedule_type_value CUSTOM_SCHEDULE = ''CUSTOM_SCHEDULE''"
| "schedule_type_value NO_SCHEDULE = ''NO_SCHEDULE''"

datatype base_os = AMAZON_LINUX2 | CENTOS7 | RHEL7 | RHEL8 | RHEL9 | WINDOWS

fun base_os_value :: "base_os \<Rightarrow> string" where
  "base_os_value AMAZON_LINUX2 = ''amazonlinux2''"
| "base_os_value CENTOS7 = ''centos7''"
| "base_os_value RHEL7 = ''rhel7''"
| "base_os_value RHEL8 = ''rhel8''"
| "base_os_value RHEL9 = ''rhel9''"
| "base_os_value WINDOWS = ''windows''"

datatype actor_type = ActorUser | ActorGroup

fun actor_type_value :: "actor_type \<Rightarrow> string" where
  "actor_type_value ActorUser = ''USER''"
| "actor_type_value ActorGroup = ''GROUP''"

datatype memory_unit = BYTES | KiB | MiB | GiB | TiB | KB | MB | GB | TB

fun memory_unit_value :: "memory_unit \<Rightarrow> string" where
  "memory_unit_value BYTES = ''bytes''"
| "memory_unit_value KiB = ''kib''"
| "memory_unit_value MiB = ''mib''"
| "memory_unit_value GiB = ''gib''"
| "memory_unit_value TiB = ''tib''"
| "memory_unit_value KB = ''kb''"
| "memory_unit_value MB = ''mb''"
| "memory_unit_value GB = ''gb''"
| "memory_unit_value TB = ''tb''"

definition member_of :: "('a \<Rightarrow> string) \<Rightarrow> 'a list \<Rightarrow> string option \<Rightarrow> 'a option" where
  "member_of f ms v = (case v of None \<Rightarrow> None | Some s \<Rightarrow> find (\<lambda>m. f m = s) ms)"

definition by_value :: "('a \<Rightarrow> string) \<Rightarrow> 'a list \<Rightarrow> string option \<Rightarrow> exn + 'a" where
  "by_value f ms v = (case member_of f ms v of None \<Rightarrow> Inl ValueError | Some m \<Rightarrow> Inr m)"

text \<open>In the enumerations read by name, names and values agree.\<close>

definition by_name :: "('a \<Rightarrow> string) \<Rightarrow> 'a list \<Rightarrow> string option \<Rightarrow> exn + 'a" where
  "by_name f ms v = (case member_of f ms v of
      None \<Rightarrow> Inl (KeyError (case v of None \<Rightarrow> ''None'' | Some s \<Rightarrow> s)) | Some m \<Rightarrow> Inr m)"

definition session_state_by_name :: "string option \<Rightarrow> exn + session_state" where
  "session_state_by_name = by_name state_value session_states"

definition session_state_by_value :: "string option \<Rightarrow> exn + session_state" where
  "session_state_by_value = by_value state_value session_states"

definition session_type_by_name :: "string option \<Rightarrow> exn + session_type" where
  "session_type_by_name = by_name session_type_value [CONSOLE, VIRTUAL]"

definition gpu_by_value :: "string option \<Rightarrow> exn + gpu" where
  "gpu_by_value = by_value gpu_value [NO_GPU, NVIDIA, AMD]"

definition architecture_by_value :: "string option \<Rightarrow> exn + architecture" where
  "architecture_by_value = by_value architecture_value [X86_64, ARM64]"

definition day_by_value :: "string option \<Rightarrow> exn + day_of_week" where
  "day_by_value = by_value day_value days"

definition schedule_type_by_value :: "string option \<Rightarrow> exn + schedule_type" where
  "schedule_type_by_value = by_value schedule_type_value
     [WORKING_HOURS, STOP_ALL_DAY, START_ALL_DAY, CUSTOM_SCHEDULE, NO_SCHEDULE]"

definition base_os_by_value :: "string option \<Rightarrow> exn + base_os" where
  "base_os_by_value = by_value base_os_value [AMAZON_LINUX2, CENTOS7, RHEL7, RHEL8, RHEL9, WINDOWS]"

definition actor_type_by_value :: "string option \<Rightarrow> exn + actor_type" where
  "actor_type_by_value = by_value actor_type_value [ActorUser, ActorGroup]"

definition memory_unit_by_value :: "string option \<Rightarrow> exn + memory_unit" where
  "memory_unit_by_value = by_value memory_unit_value [BYTES, KiB, MiB, GiB, TiB, KB, MB, GB, TB]"

section \<open>Numbers and times\<close>

text \<open>
  A float is kept as the text \<open>repr\<close> gives it, for decimal literals without an exponent and
  within the precision of a double.
\<close>

definition float_repr :: "string \<Rightarrow> string option" where
  "float_repr s = (case split_sign (py_strip s) of (sg, ds) \<Rightarrow>
     (let w = takeWhile (\<lambda>c. c \<noteq> CHR ''.'') ds;
          f = drop 1 (dropWhile (\<lambda>c. c \<noteq> CHR ''.'') ds);
          g = rev (dropWhile (\<lambda>c. c = CHR ''0'') (rev f))
      in if w = [] \<and> f = [] then None
         else case (if w = [] then Some 0 else parse_digits 0 False w,
                    if f = [] then Some 0 else parse_digits 0 False f) of
           (Some n, Some _) \<Rightarrow>
             Some ((if sg < 0 then ''-'' else '''') @ nat_digits n @ ''.'' @ (if g = [] then ''0'' else g))
         | _ \<Rightarrow> None))"

fun get_as_float :: "val \<Rightarrow> string option" where
  "get_as_float (VInt i) = Some (int_str i @ ''.0'')"
| "get_as_float (VBool b) = Some (if b then ''1.0'' else ''0.0'')"
| "get_as_float (VStr s) = float_repr s"
| "get_as_float _ = None"

definition get_value_as_float :: "string \<Rightarrow> item \<Rightarrow> string option" where
  "get_value_as_float key obj =
     (if \<not> value_exists key (Some obj) then None else get_as_float (the (obj key)))"

definition to_datetime :: "int option \<Rightarrow> int option" where
  "to_datetime time_in_ms = map_option (\<lambda>ms. if 0 \<le> ms then ms div 1000 else - ((- ms) div 1000)) time_in_ms"

definition to_milliseconds :: "int option \<Rightarrow> int" where
  "to_milliseconds datetime_obj = (case datetime_obj of None \<Rightarrow> 0 | Some t \<Rightarrow> t * 1000)"

text \<open>\<open>f'{x}'\<close> of an optional string, and \<open>Utils.is_empty\<close> of one.\<close>

definition fmt :: "string option \<Rightarrow> string" where
  "fmt v = (case v of None \<Rightarrow> ''None'' | Some s \<Rightarrow> s)"

definition empty_str :: "string option \<Rightarrow> bool" where
  "empty_str v = is_empty (opt_str v)"

fun opt_val :: "('a \<Rightarrow> val) \<Rightarrow> 'a option \<Rightarrow> val" where
  "opt_val f None = VNone"
| "opt_val f (Some x) = f x"

section \<open>Data classes\<close>

record memory =
  m_value :: string
  m_unit :: memory_unit

record server =
  sv_server_id :: "string option"
  sv_instance_id :: "string option"
  sv_instance_type :: "string option"
  sv_session_id :: "string option"
  sv_session_owner :: "string option"
  sv_state :: "string option"
  sv_locked :: "bool option"
  sv_root_volume :: "memory option"
  sv_profile_arn :: "string option"
  sv_security_groups :: "string list option"
  sv_key_pair :: "string option"

definition no_server :: server where
  "no_server = \<lparr>sv_server_id = None, sv_instance_id = None, sv_instance_type = None, sv_session_id = None,
     sv_session_owner = None, sv_state = None, sv_locked = None, sv_root_volume = None,
     sv_profile_arn = None, sv_security_groups = None, sv_key_pair = None\<rparr>"

record stack =
  ss_base_os :: base_os
  ss_id :: "string option"
  ss_name :: "string option"
  ss_description :: "string option"
  ss_created_on :: "int option"
  ss_updated_on :: "int option"
  ss_ami_id :: "string option"
  ss_enabled :: "bool option"
  ss_min_storage :: memory
  ss_min_ram :: memory
  ss_architecture :: architecture
  ss_gpu :: gpu
  ss_projects :: "string option list"

record schedule =
  sc_id :: "string option"
  sc_session_id :: "string option"
  sc_session_owner :: "string option"
  sc_day :: "day_of_week option"
  sc_start_up :: "string option"
  sc_shut_down :: "string option"
  sc_type :: "schedule_type option"

text \<open>\<open>VirtualDesktopWeekSchedule\<close> has one field for each day.\<close>

type_synonym week_schedule = "day_of_week \<Rightarrow> schedule option"

text \<open>A project as far as sessions read it: \<open>get_user_projects\<close> fills in all of it, a row its name.\<close>

record session_project =
  pj_id :: "string option"
  pj_name :: "string option"
  pj_title :: "string option"
  pj_enable_budgets :: bool
  pj_budget_name :: "string option"
  pj_policy_arns :: "string list option"
  pj_security_groups :: "string list option"

definition no_project :: session_project where
  "no_project = \<lparr>pj_id = None, pj_name = None, pj_title = None, pj_enable_budgets = False,
     pj_budget_name = None, pj_policy_arns = None, pj_security_groups = None\<rparr>"

record session =
  vs_owner :: "string option"
  vs_id :: "string option"
  vs_base_os :: "base_os option"
  vs_created_on :: "int option"
  vs_updated_on :: "int option"
  vs_locked :: "bool option"
  vs_server :: "server option"
  vs_stack :: "stack option"
  vs_name :: "string option"
  vs_description :: "string option"
  vs_dcv_id :: "string option"
  vs_type :: "session_type option"
  vs_state :: "session_state option"
  vs_hibernation :: "bool option"
  vs_by_admin :: "bool option"
  vs_schedule :: "week_schedule option"
  vs_project :: "session_project option"
  vs_tags :: "val list option"
  vs_force :: "bool option"
  vs_connections :: "int option"
  vs_failure :: "string option"

definition no_session :: session where
  "no_session = \<lparr>vs_owner = None, vs_id = None, vs_base_os = None, vs_created_on = None,
     vs_updated_on = None, vs_locked = None, vs_server = None, vs_stack = None, vs_name = None,
     vs_description = None, vs_dcv_id = None, vs_type = None, vs_state = None,
     vs_hibernation = None, vs_by_admin = None, vs_schedule = None, vs_project = None,
     vs_tags = None, vs_force = None, vs_connections = None, vs_failure = None\<rparr>"

record permission =
  sp_session_id :: "string option"
  sp_session_owner :: "string option"
  sp_session_name :: "string option"
  sp_instance_type :: "string option"
  sp_session_state :: "session_state option"
  sp_base_os :: "base_os option"
  sp_session_created_on :: "int option"
  sp_hibernation :: "bool option"
  sp_session_type :: "session_type option"
  sp_profile_id :: "string option"
  sp_actor_type :: "actor_type option"
  sp_actor_name :: "string option"
  sp_created_on :: "int option"
  sp_updated_on :: "int option"
  sp_expiry_date :: "int option"

datatype counter_type =
    DCV_SESSION_CREATION_REQUEST_ACCPETED_COUNTER
  | DCV_SESSION_RESUMED_COUNTER
  | VALIDATE_DCV_SESSION_CREATED_COUNTER

fun counter_type_value :: "counter_type \<Rightarrow> string" where
  "counter_type_value DCV_SESSION_CREATION_REQUEST_ACCPETED_COUNTER =
     ''DCV_SESSION_CREATION_REQUEST_ACCPETED_COUNTER''"
| "counter_type_value DCV_SESSION_RESUMED_COUNTER = ''DCV_SESSION_RESUMED_COUNTER''"
| "counter_type_value VALIDATE_DCV_SESSION_CREATED_COUNTER = ''VALIDATE_DCV_SESSION_CREATED_COUNTER''"

definition counter_type_by_value :: "string option \<Rightarrow> exn + counter_type" where
  "counter_type_by_value = by_value counter_type_value
     [DCV_SESSION_CREATION_REQUEST_ACCPETED_COUNTER, DCV_SESSION_RESUMED_COUNTER,
      VALIDATE_DCV_SESSION_CREATED_COUNTER]"

record session_counter =
  ct_session_id :: "string option"
  ct_type :: counter_type
  ct_counter :: int

end
