(* ===== verification/Vdc_Rows.thy ===== *)
theory Vdc_Rows
  imports Vdc_Data
begin

text \<open>
  The conversions between the objects of the virtual desktop controller and the rows of its
  tables: servers, software stacks, schedules, sessions, permissions and counters. A session
  carries its server, stack, project and seven schedules as dictionaries inside its row.
\<close>

section \<open>Servers\<close>

definition server_to_db :: "server option \<Rightarrow> (string \<times> val) list" where
  "server_to_db v = (case v of None \<Rightarrow> [] | Some sv \<Rightarrow>
     [(''instance_id'', opt_str (sv_instance_id sv)),
      (''instance_type'', opt_str (sv_instance_type sv)),
      (''idea_session_id'', opt_str (sv_session_id sv)),
      (''idea_session_owner'', opt_str (sv_session_owner sv)),
      (''state'', opt_str (sv_state sv)),
      (''locked'', VBool (case sv_locked sv of None \<Rightarrow> False | Some b \<Rightarrow> b))])"

definition server_from_db :: "item option \<Rightarrow> server option" where
  "server_from_db db_entry = map_option (\<lambda>i. no_server
     \<lparr>sv_instance_id := get_value_as_string ''instance_id'' i None,
      sv_instance_type := get_value_as_string ''instance_type'' i None,
      sv_session_id := get_value_as_string ''idea_session_id'' i None,
      sv_session_owner := get_value_as_string ''idea_session_owner'' i None,
      sv_locked := get_value_as_bool ''locked'' i (Some False)\<rparr>) db_entry"

section \<open>Software stacks\<close>

definition memory_from_db :: "item \<Rightarrow> string \<Rightarrow> string \<Rightarrow> exn + memory" where
  "memory_from_db i value_key unit_key =
     bindE (memory_unit_by_value (get_value_as_string unit_key i None)) (\<lambda>u.
       case get_value_as_float value_key i of
         None \<Rightarrow> Inl ValidationError
       | Some v \<Rightarrow> Inr \<lparr>m_value = v, m_unit = u\<rparr>)"

definition stack_from_db :: "item option \<Rightarrow> exn + stack option" where
  "stack_from_db db_entry = (case db_entry of None \<Rightarrow> Inr None | Some i \<Rightarrow>
     bindE (base_os_by_value (get_value_as_string ''base_os'' i None)) (\<lambda>os.
     bindE (memory_from_db i ''min_storage_value'' ''min_storage_unit'') (\<lambda>storage.
     bindE (memory_from_db i ''min_ram_value'' ''min_ram_unit'') (\<lambda>ram.
     bindE (architecture_by_value (get_value_as_string ''architecture'' i None)) (\<lambda>arch.
     bindE (gpu_by_value (get_value_as_string ''gpu'' i None)) (\<lambda>gpu.
     bindE (map_sum_list (\<lambda>v. opt_str_field (Some v))
              (the (get_value_as_list ''projects'' i (Some [])))) (\<lambda>projects.
     Inr (Some
       \<lparr>ss_base_os = os, ss_id = get_value_as_string ''stack_id'' i None,
        ss_name = get_value_as_string ''name'' i None,
        ss_description = get_value_as_string ''description'' i None,
        ss_created_on = to_datetime (get_value_as_int ''created_on'' i None),
        ss_updated_on = to_datetime (get_value_as_int ''updated_on'' i None),
        ss_ami_id = get_value_as_string ''ami_id'' i None,
        ss_enabled = get_value_as_bool ''enabled'' i None,
        ss_min_storage = storage, ss_min_ram = ram, ss_architecture = arch, ss_gpu = gpu,
        ss_projects = projects\<rparr>))))))))"

definition stack_to_db :: "stack option \<Rightarrow> (string \<times> val) list" where
  "stack_to_db v = (case v of None \<Rightarrow> [] | Some ss \<Rightarrow>
     [(''base_os'', VStr (base_os_value (ss_base_os ss))),
      (''stack_id'', opt_str (ss_id ss)),
      (''name'', opt_str (ss_name ss)),
      (''description'', opt_str (ss_description ss)),
      (''created_on'', VInt (to_milliseconds (ss_created_on ss))),
      (''updated_on'', VInt (to_milliseconds (ss_updated_on ss))),
      (''ami_id'', opt_str (ss_ami_id ss)),
      (''enabled'', opt_val VBool (ss_enabled ss)),
      (''min_storage_value'', VStr (m_value (ss_min_storage ss))),
      (''min_storage_unit'', VStr (memory_unit_value (m_unit (ss_min_storage ss)))),
      (''min_ram_value'', VStr (m_value (ss_min_ram ss))),
      (''min_ram_unit'', VStr (memory_unit_value (m_unit (ss_min_ram ss)))),
      (''architecture'', VStr (architecture_value (ss_architecture ss))),
      (''gpu'', VStr (gpu_value (ss_gpu ss))),
      (''projects'', VList (map opt_str (ss_projects ss)))])"

section \<open>Schedules\<close>

definition required_string :: "world \<Rightarrow> string \<Rightarrow> exn + string" where
  "required_string w key = (case config_string w key of
      None \<Rightarrow> Inl (SocaException CONFIG_KEY_NOT_FOUND) | Some s \<Rightarrow> Inr s)"

definition working_hours_start :: "world \<Rightarrow> exn + string" where
  "working_hours_start w =
     required_string w ''virtual-desktop-controller.dcv_session.working_hours.start_up_time''"

definition working_hours_end :: "world \<Rightarrow> exn + string" where
  "working_hours_end w =
     required_string w ''virtual-desktop-controller.dcv_session.working_hours.shut_down_time''"

definition get_empty_schedule :: "day_of_week option \<Rightarrow> schedule" where
  "get_empty_schedule day =
     \<lparr>sc_id = Some [], sc_session_id = None, sc_session_owner = None, sc_day = day,
      sc_start_up = None, sc_shut_down = None, sc_type = Some NO_SCHEDULE\<rparr>"

text \<open>
  The constants for the two times are swapped: the attribute \<open>shut_down_time\<close> of a row holds
  the time a desktop starts. Reading and writing agree on it.
\<close>

definition schedule_to_db :: "schedule option \<Rightarrow> exn + (string \<times> val) list" where
  "schedule_to_db v = (case v of None \<Rightarrow> Inl AttributeError | Some sc \<Rightarrow> Inr (
     [(''day_of_week'', VStr (fmt (map_option day_value (sc_day sc)))),
      (''schedule_id'', opt_str (sc_id sc)),
      (''idea_session_id'', opt_str (sc_session_id sc)),
      (''idea_session_owner'', opt_str (sc_session_owner sc)),
      (''schedule_type'', opt_val (VStr \<circ> schedule_type_value) (sc_type sc))] @
     (if sc_type sc = Some CUSTOM_SCHEDULE
      then [(''shut_down_time'', opt_str (sc_start_up sc)), (''start_up_time'', opt_str (sc_shut_down sc))]
      else [])))"

definition schedule_times :: "world \<Rightarrow> schedule_type \<Rightarrow> item \<Rightarrow> exn + string option \<times> string option" where
  "schedule_times w ty i = (case ty of
      WORKING_HOURS \<Rightarrow>
        bindE (working_hours_start w) (\<lambda>a. bindE (working_hours_end w) (\<lambda>b. Inr (Some a, Some b)))
    | STOP_ALL_DAY \<Rightarrow> Inr (Some ''23:59'', Some ''00:00'')
    | START_ALL_DAY \<Rightarrow> Inr (Some ''00:00'', Some ''23:59'')
    | _ \<Rightarrow> Inr (get_value_as_string ''shut_down_time'' i None, get_value_as_string ''start_up_time'' i None))"

definition schedule_from_db :: "world \<Rightarrow> item option \<Rightarrow> exn + schedule" where
  "schedule_from_db w db_entry = (case db_entry of None \<Rightarrow> Inr (get_empty_schedule None) | Some i \<Rightarrow>
     (let schedule_id = get_value_as_string ''schedule_id'' i None
      in if empty_str schedule_id then Inr (get_empty_schedule None)
      else
        bindE (schedule_type_by_value (get_value_as_string ''schedule_type'' i None)) (\<lambda>ty.
        bindE (schedule_times w ty i) (\<lambda>(start_up_time, shut_down_time).
        bindE (case get_value_as_string ''day_of_week'' i None of
            None \<Rightarrow> Inr None
          | Some d \<Rightarrow> (case day_by_value (Some d) of Inl e \<Rightarrow> Inl ValidationError | Inr x \<Rightarrow> Inr (Some x)))
          (\<lambda>day.
        Inr \<lparr>sc_id = schedule_id, sc_session_id = get_value_as_string ''idea_session_id'' i None,
             sc_session_owner = get_value_as_string ''idea_session_owner'' i None, sc_day = day,
             sc_start_up = start_up_time, sc_shut_down = shut_down_time, sc_type = Some ty\<rparr>)))))"

section \<open>Sessions\<close>

definition nested :: "string \<Rightarrow> item \<Rightarrow> item option" where
  "nested key i = map_option map_of (get_value_as_dict key i None)"

fun schedule_key :: "day_of_week \<Rightarrow> string" where
  "schedule_key MONDAY = ''monday_schedule''"
| "schedule_key TUESDAY = ''tuesday_schedule''"
| "schedule_key WEDNESDAY = ''wednesday_schedule''"
| "schedule_key THURSDAY = ''thursday_schedule''"
| "schedule_key FRIDAY = ''friday_schedule''"
| "schedule_key SATURDAY = ''saturday_schedule''"
| "schedule_key SUNDAY = ''sunday_schedule''"

definition project_of_row :: "item \<Rightarrow> session_project" where
  "project_of_row i = (let p = map_of (the (get_value_as_dict ''project'' i (Some []))) in
     no_project\<lparr>pj_id := get_value_as_string ''project_id'' p None, pj_name := get_value_as_string ''name'' p None,
      pj_title := get_value_as_string ''title'' p None\<rparr>)"

definition session_from_db :: "world \<Rightarrow> item option \<Rightarrow> exn + session option" where
  "session_from_db w db_entry = (case db_entry of None \<Rightarrow> Inr None | Some i \<Rightarrow>
     bindE (base_os_by_value (get_value_as_string ''base_os'' i None)) (\<lambda>os.
     bindE (stack_from_db (nested ''software_stack'' i)) (\<lambda>stk.
     bindE (session_type_by_name (get_value_as_string ''session_type'' i None)) (\<lambda>ty.
     bindE (session_state_by_name (get_value_as_string ''state'' i None)) (\<lambda>state.
     bindE (map_sum_list (\<lambda>d. schedule_from_db w (nested (schedule_key d) i)) days) (\<lambda>week.
     Inr (Some (no_session
       \<lparr>vs_owner := get_value_as_string ''owner'' i None,
        vs_id := get_value_as_string ''idea_session_id'' i None,
        vs_base_os := Some os,
        vs_created_on := to_datetime (get_value_as_int ''created_on'' i None),
        vs_updated_on := to_datetime (get_value_as_int ''updated_on'' i None),
        vs_locked := get_value_as_bool ''locked'' i (Some False),
        vs_server := server_from_db (nested ''server'' i),
        vs_stack := stk,
        vs_name := get_value_as_string ''name'' i None,
        vs_description := get_value_as_string ''description'' i (Some []),
        vs_dcv_id := get_value_as_string ''dcv_session_id'' i (Some []),
        vs_type := Some ty,
        vs_state := Some state,
        vs_hibernation := get_value_as_bool ''hibernation_enabled'' i None,
        vs_by_admin := get_value_as_bool ''is_launched_by_admin'' i None,
        vs_schedule := Some (map_of (zip days week)),
        vs_project := Some (project_of_row i),
        vs_tags := get_value_as_list ''session_tags'' i None\<rparr>))))))))"

definition session_to_db :: "session \<Rightarrow> exn + (string \<times> val) list" where
  "session_to_db s =
     (case (vs_stack s, vs_project s) of
        (Some stk, Some p) \<Rightarrow>
          bindE (map_sum_list (\<lambda>d. schedule_to_db
                   (case vs_schedule s of None \<Rightarrow> None | Some week \<Rightarrow> week d)) days) (\<lambda>week.
          Inr ([(''owner'', opt_str (vs_owner s)),
                (''idea_session_id'', opt_str (vs_id s)),
                (''created_on'', VInt (to_milliseconds (vs_created_on s))),
                (''updated_on'', VInt (to_milliseconds (vs_updated_on s))),
                (''server'', VDict (server_to_db (vs_server s))),
                (''software_stack'', VDict (stack_to_db (Some stk))),
                (''base_os'', VStr (base_os_value (ss_base_os stk))),
                (''name'', opt_str (vs_name s)),
                (''description'', opt_str (vs_description s)),
                (''dcv_session_id'', opt_str (vs_dcv_id s)),
                (''session_type'', opt_val (VStr \<circ> session_type_value) (vs_type s)),
                (''state'', opt_val (VStr \<circ> state_value) (vs_state s)),
                (''locked'', VBool (case vs_locked s of None \<Rightarrow> False | Some b \<Rightarrow> b)),
                (''hibernation_enabled'', opt_val VBool (vs_hibernation s)),
                (''is_launched_by_admin'', opt_val VBool (vs_by_admin s)),
                (''project'', VDict [(''project_id'', opt_str (pj_id p)),
                   (''title'', opt_str (pj_title p)), (''name'', opt_str (pj_name p))])] @
               zip (map schedule_key days) (map VDict week) @
               [(''session_tags'', opt_val VList (vs_tags s))]))
      | _ \<Rightarrow> Inl AttributeError)"

section \<open>Permissions and counters\<close>

definition permission_from_db :: "item \<Rightarrow> exn + permission" where
  "permission_from_db i =
     bindE (base_os_by_value (get_value_as_string ''idea_session_base_os'' i (Some []))) (\<lambda>os.
     bindE (session_state_by_value (get_value_as_string ''idea_session_state'' i (Some []))) (\<lambda>state.
     bindE (session_type_by_name (get_value_as_string ''idea_session_type'' i None)) (\<lambda>ty.
     bindE (actor_type_by_value (get_value_as_string ''actor_type'' i (Some []))) (\<lambda>actor.
     Inr \<lparr>sp_session_id = get_value_as_string ''idea_session_id'' i (Some []),
          sp_session_owner = get_value_as_string ''idea_session_owner'' i (Some []),
          sp_session_name = get_value_as_string ''idea_session_name'' i (Some []),
          sp_instance_type = get_value_as_string ''idea_session_instance_type'' i (Some []),
          sp_session_state = Some state, sp_base_os = Some os,
          sp_session_created_on = to_datetime (get_value_as_int ''idea_session_created_on'' i None),
          sp_hibernation = get_value_as_bool ''idea_session_hibernation_enabled'' i (Some False),
          sp_session_type = Some ty,
          sp_profile_id = get_value_as_string ''permission_profile_id'' i (Some []),
          sp_actor_type = Some actor,
          sp_actor_name = get_value_as_string ''actor_name'' i (Some []),
          sp_created_on = to_datetime (get_value_as_int ''created_on'' i None),
          sp_updated_on = to_datetime (get_value_as_int ''updated_on'' i None),
          sp_expiry_date = to_datetime (get_value_as_int ''expiry_date'' i None)\<rparr>))))"

definition permission_to_db :: "permission \<Rightarrow> (string \<times> val) list" where
  "permission_to_db p =
     [(''idea_session_id'', opt_str (sp_session_id p)),
      (''actor_name'', opt_str (sp_actor_name p)),
      (''idea_session_owner'', opt_str (sp_session_owner p)),
      (''idea_session_base_os'', opt_val (VStr \<circ> base_os_value) (sp_base_os p)),
      (''idea_session_instance_type'', opt_str (sp_instance_type p)),
      (''idea_session_state'', opt_val (VStr \<circ> state_value) (sp_session_state p)),
      (''idea_session_name'', opt_str (sp_session_name p)),
      (''idea_session_created_on'', VInt (to_milliseconds (sp_session_created_on p))),
      (''idea_session_type'', opt_val (VStr \<circ> session_type_value) (sp_session_type p)),
      (''idea_session_hibernation_enabled'', VBool (case sp_hibernation p of None \<Rightarrow> False | Some b \<Rightarrow> b)),
      (''permission_profile_id'', opt_str (sp_profile_id p)),
      (''actor_type'', opt_val (VStr \<circ> actor_type_value) (sp_actor_type p)),
      (''expiry_date'', VInt (to_milliseconds (sp_expiry_date p))),
      (''created_on'', VInt (to_milliseconds (sp_created_on p))),
      (''updated_on'', VInt (to_milliseconds (sp_updated_on p)))]"

definition counter_to_db :: "session_counter \<Rightarrow> (string \<times> val) list" where
  "counter_to_db c =
     [(''idea_session_id'', opt_str (ct_session_id c)),
      (''counter_type'', VStr (counter_type_value (ct_type c))),
      (''counter'', VInt (ct_counter c))]"

definition counter_from_db :: "item \<Rightarrow> exn + session_counter" where
  "counter_from_db i =
     bindE (counter_type_by_value (get_value_as_string ''counter_type'' i (Some []))) (\<lambda>ty.
     Inr \<lparr>ct_session_id = get_value_as_string ''idea_session_id'' i (Some []), ct_type = ty,
          ct_counter = the (get_value_as_int ''counter'' i (Some 0))\<rparr>)"

end
