(* ===== verification/Vdc_Store.thy ===== *)
theory Vdc_Store
  imports Vdc_Rows
begin

text \<open>
  The events of the virtual desktop controller (\<^verbatim>\<open>events/events_utils.py\<close>,
  \<^verbatim>\<open>clients/events_client/events_client.py\<close>) and its data access objects. Every write to the
  tables of servers, sessions, schedules and permissions is announced by an event, so the
  handlers of other threads see it.
\<close>

section \<open>Events\<close>

definition publish_event ::
  "'db env \<Rightarrow> string option \<Rightarrow> string \<Rightarrow> (string \<times> val) list \<Rightarrow> ('db st, unit) act" where
  "publish_event E event_group_id event_type detail =
     (if empty_str (config_string (cfg E) ''virtual-desktop-controller.events_sqs_queue_url'') then return ()
      else case event_group_id of
        None \<Rightarrow> raise AttributeError
      | Some g \<Rightarrow> do_call E (PublishEvent (map (\<lambda>c. if c = CHR '' '' then CHR ''_'' else c) g)
                             event_type detail))"

definition session_detail :: "string option \<Rightarrow> string option \<Rightarrow> (string \<times> val) list" where
  "session_detail idea_session_id idea_session_owner =
     [(''idea_session_id'', opt_str idea_session_id), (''idea_session_owner'', opt_str idea_session_owner)]"

definition publish_session_event ::
  "'db env \<Rightarrow> string \<Rightarrow> string option \<Rightarrow> string option \<Rightarrow> ('db st, unit) act" where
  "publish_session_event E event_type idea_session_id idea_session_owner =
     publish_event E idea_session_id event_type (session_detail idea_session_id idea_session_owner)"

text \<open>The events that carry the time they were sent at.\<close>

definition publish_timed_event ::
  "'db env \<Rightarrow> string \<Rightarrow> string option \<Rightarrow> (string \<times> val) list \<Rightarrow> (string \<times> val) list \<Rightarrow> ('db st, unit) act"
where
  "publish_timed_event E event_type event_group_id before after =
     bindA (current_time_ms E) (\<lambda>now.
       publish_event E event_group_id event_type (before @ [(''timestamp'', VInt now)] @ after))"

definition publish_dcv_host_reboot_complete_event ::
  "'db env \<Rightarrow> string option \<Rightarrow> string option \<Rightarrow> string option \<Rightarrow> ('db st, unit) act" where
  "publish_dcv_host_reboot_complete_event E idea_session_id idea_session_owner instance_id =
     publish_event E idea_session_id ''DCV_HOST_REBOOT_COMPLETE_EVENT''
       (session_detail idea_session_id idea_session_owner @ [(''instance_id'', opt_str instance_id)])"

definition publish_idea_session_software_stack_updated_event ::
  "'db env \<Rightarrow> string option \<Rightarrow> string option \<Rightarrow> (string \<times> val) list \<Rightarrow> ('db st, unit) act" where
  "publish_idea_session_software_stack_updated_event E idea_session_id idea_session_owner new_software_stack =
     publish_event E idea_session_id ''IDEA_SESSION_SOFTWARE_STACK_UPDATED_EVENT''
       (session_detail idea_session_id idea_session_owner @ [(''new_software_stack'', VDict new_software_stack)])"

definition publish_update_session_permissions_event ::
  "'db env \<Rightarrow> string option \<Rightarrow> string option \<Rightarrow> string option \<Rightarrow> session_state option \<Rightarrow> ('db st, unit) act"
where
  "publish_update_session_permissions_event E idea_session_id new_name new_instance_type new_state =
     publish_timed_event E ''IDEA_SESSION_PERMISSIONS_UPDATE_EVENT'' idea_session_id
       [(''idea_session_id'', opt_str idea_session_id), (''new_name'', opt_str new_name),
        (''new_instance_type'', opt_str new_instance_type),
        (''new_state'', opt_val (VStr \<circ> state_value) new_state)] []"

definition publish_enforce_session_permissions_event ::
  "'db env \<Rightarrow> string option \<Rightarrow> string option \<Rightarrow> ('db st, unit) act" where
  "publish_enforce_session_permissions_event E idea_session_id idea_session_owner =
     publish_timed_event E ''IDEA_SESSION_PERMISSIONS_ENFORCE_EVENT'' idea_session_id
       (session_detail idea_session_id idea_session_owner) []"

definition publish_validate_dcv_session_creation_event ::
  "'db env \<Rightarrow> string option \<Rightarrow> string option \<Rightarrow> ('db st, unit) act" where
  "publish_validate_dcv_session_creation_event E idea_session_id idea_session_owner =
     publish_timed_event E ''VALIDATE_DCV_SESSION_CREATION_EVENT'' idea_session_id
       (session_detail idea_session_id idea_session_owner) []"

definition publish_validate_software_stack_creation_event ::
  "'db env \<Rightarrow> string option \<Rightarrow> base_os \<Rightarrow> string option \<Rightarrow> string option \<Rightarrow> string option \<Rightarrow> ('db st, unit) act"
where
  "publish_validate_software_stack_creation_event E software_stack_id os idea_session_id idea_session_owner
       instance_id =
     publish_timed_event E ''VALIDATE_SOFTWARE_STACK_CREATION_EVENT'' software_stack_id
       (session_detail idea_session_id idea_session_owner @
        [(''instance_id'', opt_str instance_id), (''software_stack_id'', opt_str software_stack_id),
         (''software_stack_base_os'', VStr (base_os_value os))]) []"

definition publish_validate_dcv_session_deletion_event ::
  "'db env \<Rightarrow> string option \<Rightarrow> string option \<Rightarrow> ('db st, unit) act" where
  "publish_validate_dcv_session_deletion_event E idea_session_id idea_session_owner =
     publish_session_event E ''VALIDATE_DCV_SESSION_DELETION_EVENT'' idea_session_id idea_session_owner"

definition publish_idea_session_scheduled_resume_event ::
  "'db env \<Rightarrow> string option \<Rightarrow> string option \<Rightarrow> ('db st, unit) act" where
  "publish_idea_session_scheduled_resume_event E idea_session_id idea_session_owner =
     publish_session_event E ''IDEA_SESSION_SCHEDULED_RESUME_EVENT'' idea_session_id idea_session_owner"

definition publish_idea_session_scheduled_stop_event ::
  "'db env \<Rightarrow> string option \<Rightarrow> string option \<Rightarrow> ('db st, unit) act" where
  "publish_idea_session_scheduled_stop_event E idea_session_id idea_session_owner =
     publish_session_event E ''IDEA_SESSION_SCHEDULED_STOP_EVENT'' idea_session_id idea_session_owner"

definition publish_idea_session_terminate_event ::
  "'db env \<Rightarrow> string option \<Rightarrow> string option \<Rightarrow> bool \<Rightarrow> ('db st, unit) act" where
  "publish_idea_session_terminate_event E idea_session_id idea_session_owner force =
     publish_timed_event E ''IDEA_SESSION_TERMINATE_EVENT'' idea_session_id
       (session_detail idea_session_id idea_session_owner) [(''force'', VBool force)]"

section \<open>Announcing writes\<close>

text \<open>
  A table's name is the last part of its name in the account. The row before an update is
  sent along with the attributes the code writes.
\<close>

fun table_name :: "table \<Rightarrow> string" where
  "table_name Schedules = ''schedules''"
| "table_name Servers = ''servers''"
| "table_name Sessions = ''user-sessions''"
| "table_name SessionCounters = ''user-sessions-counter''"
| "table_name SessionPermissions = ''session-permissions''"
| "table_name SsmCommands = ''ssm-commands''"
| "table_name SoftwareStacks = ''software-stacks''"
| "table_name PermissionProfiles = ''permission-profiles''"
| "table_name _ = []"

definition vdc_table_name :: "world \<Rightarrow> table \<Rightarrow> string" where
  "vdc_table_name w t = cluster_name w @ ''.'' @ module_id w @ ''.controller.'' @ table_name t"

definition row_dict :: "string list \<Rightarrow> item \<Rightarrow> (string \<times> val) list" where
  "row_dict columns i = List.map_filter (\<lambda>k. map_option (Pair k) (i k)) columns"

definition trigger_event ::
  "'db env \<Rightarrow> table \<Rightarrow> string \<Rightarrow> key \<Rightarrow> (string \<times> val) list \<Rightarrow> ('db st, unit) act" where
  "trigger_event E t event_type k vals =
     publish_event E (Some (fst k @ ''-'' @ snd k)) event_type
       ([(''hash_key'', VStr (fst k)), (''range_key'', VStr (snd k))] @ vals @
        [(''table_name'', VStr (vdc_table_name (cfg E) t))])"

definition trigger_create_event ::
  "'db env \<Rightarrow> table \<Rightarrow> key \<Rightarrow> (string \<times> val) list \<Rightarrow> ('db st, unit) act" where
  "trigger_create_event E t k new_entry =
     trigger_event E t ''DB_ENTRY_CREATED_EVENT'' k [(''new_value'', VDict new_entry)]"

definition trigger_update_event ::
  "'db env \<Rightarrow> table \<Rightarrow> key \<Rightarrow> (string \<times> val) list \<Rightarrow> (string \<times> val) list \<Rightarrow> ('db st, unit) act" where
  "trigger_update_event E t k old_entry new_entry =
     trigger_event E t ''DB_ENTRY_UPDATED_EVENT'' k
       [(''old_value'', VDict old_entry), (''new_value'', VDict new_entry)]"

definition trigger_delete_event ::
  "'db env \<Rightarrow> table \<Rightarrow> key \<Rightarrow> (string \<times> val) list \<Rightarrow> ('db st, unit) act" where
  "trigger_delete_event E t k deleted_entry =
     trigger_event E t ''DB_ENTRY_DELETED_EVENT'' k [(''deleted_value'', VDict deleted_entry)]"

text \<open>
  \<open>d[k] = v\<close> on a dictionary, and the writes the data access objects share: a put of a new
  entry, an update with every attribute of an entry but the keys (and the creation time), a
  deletion that returns the old row. A key of a row must be a string.
\<close>

definition dict_set :: "string \<Rightarrow> val \<Rightarrow> (string \<times> val) list \<Rightarrow> (string \<times> val) list" where
  "dict_set k v d = AList.update k v d"

definition dict_get :: "(string \<times> val) list \<Rightarrow> string \<Rightarrow> exn + val" where
  "dict_get d k = (case map_of d k of None \<Rightarrow> Inl (KeyError k) | Some v \<Rightarrow> Inr v)"

definition entry_key :: "table \<Rightarrow> (string \<times> val) list \<Rightarrow> exn + key" where
  "entry_key t d =
     bindE (dict_get d (hash_key (schema t))) (\<lambda>_.
     bindE (case range_key (schema t) of None \<Rightarrow> Inr VNone | Some r \<Rightarrow> dict_get d r) (\<lambda>_.
     case key_of t (map_of d) of
       None \<Rightarrow> Inl (ServiceError ''ValidationException'')
     | Some k \<Rightarrow> Inr k))"

definition put_entry :: "'db env \<Rightarrow> table \<Rightarrow> (string \<times> val) list \<Rightarrow> ('db st, unit) act" where
  "put_entry E t d =
     seqA (db_put E t (map_of d))
    (bindA (liftA (entry_key t d)) (\<lambda>k. trigger_create_event E t k d))"

definition update_entry ::
  "'db env \<Rightarrow> table \<Rightarrow> string list \<Rightarrow> (string \<times> val) list \<Rightarrow> ('db st, key \<times> item option) act" where
  "update_entry E t keep d =
     bindA (liftA (entry_key t d)) (\<lambda>k.
     bindA (db_get E t k) (\<lambda>old.
     seqA (db_update E t k (map_of (filter (\<lambda>kv. fst kv \<notin> set keep) d)))
          (return (k, old))))"

end
