(* ===== verification/Vdc_DAO.thy ===== *)
theory Vdc_DAO
  imports Vdc_Store
begin

text \<open>
  The data access objects of the virtual desktop controller: schedules, servers, sessions,
  permissions, counters and commands. An operation takes and returns objects; a session that
  is not there is \<open>None\<close>.
\<close>

section \<open>Schedules\<close>

definition schedule_columns :: "string list" where
  "schedule_columns = [''day_of_week'', ''schedule_id'', ''idea_session_id'', ''idea_session_owner'',
     ''schedule_type'', ''shut_down_time'', ''start_up_time'']"

definition schedule_db_create :: "'db env \<Rightarrow> schedule \<Rightarrow> ('db st, schedule) act" where
  "schedule_db_create E sc =
     bindA (liftA (schedule_to_db (Some sc))) (\<lambda>entry.
     bindA (new_uuid E) (\<lambda>uuid.
     let db_entry = dict_set ''schedule_id'' (VStr uuid) entry in
     seqA (put_entry E Schedules db_entry)
          (liftA (schedule_from_db (cfg E) (Some (map_of db_entry))))))"

definition schedule_db_get ::
  "'db env \<Rightarrow> day_of_week option \<Rightarrow> string option \<Rightarrow> ('db st, schedule) act" where
  "schedule_db_get E day schedule_id =
     (case (day, schedule_id) of
        (Some d, Some i) \<Rightarrow>
          if empty_str (Some i) then return (get_empty_schedule day)
          else bindA (db_get E Schedules (day_value d, i)) (\<lambda>db_entry.
            liftA (schedule_from_db (cfg E) db_entry))
      | _ \<Rightarrow> return (get_empty_schedule day))"

definition schedule_db_update :: "'db env \<Rightarrow> schedule \<Rightarrow> ('db st, schedule) act" where
  "schedule_db_update E sc =
     bindA (liftA (schedule_to_db (Some sc))) (\<lambda>db_entry.
     bindA (update_entry E Schedules [''day_of_week'', ''schedule_id''] db_entry) (\<lambda>(k, old).
     seqA (trigger_update_event E Schedules k
             (case old of None \<Rightarrow> [] | Some i \<Rightarrow> row_dict schedule_columns i) db_entry)
          (liftA (schedule_from_db (cfg E) (Some (map_of db_entry))))))"

text \<open>One page of the query; the code does not ask for the next.\<close>

definition get_schedules_for_day_of_week :: "'db env \<Rightarrow> day_of_week \<Rightarrow> ('db st, schedule list) act" where
  "get_schedules_for_day_of_week E day =
     bindA (db_query E Schedules (day_value day) None None) (\<lambda>(rows, _).
     map_each rows (\<lambda>r. liftA (schedule_from_db (cfg E) (Some r))))"

definition schedule_db_delete :: "'db env \<Rightarrow> schedule \<Rightarrow> ('db st, unit) act" where
  "schedule_db_delete E sc =
     (case sc_id sc of None \<Rightarrow> raise (ServiceError ''ValidationException'') | Some i \<Rightarrow>
     (let k = (fmt (map_option day_value (sc_day sc)), i) in
      bindA (db_get E Schedules k) (\<lambda>old.
      seqA (db_delete E Schedules k)
           (case old of None \<Rightarrow> raise (KeyError ''day_of_week'')
            | Some r \<Rightarrow> trigger_delete_event E Schedules k (row_dict schedule_columns r)))))"

section \<open>Servers\<close>

definition server_columns :: "string list" where
  "server_columns = [''instance_id'', ''instance_type'', ''idea_session_id'', ''idea_session_owner'',
     ''state'', ''locked'', ''created_on'', ''updated_on'']"

definition server_db_create ::
  "'db env \<Rightarrow> server option \<Rightarrow> string option \<Rightarrow> string option \<Rightarrow> ('db st, server option) act" where
  "server_db_create E sv idea_session_id idea_session_owner =
     bindA (current_time_ms E) (\<lambda>created.
     bindA (current_time_ms E) (\<lambda>updated.
     let db_entry = dict_set ''state'' (VStr ''CREATED'')
          (dict_set ''updated_on'' (VInt updated) (dict_set ''created_on'' (VInt created)
          (dict_set ''idea_session_owner'' (opt_str idea_session_owner)
          (dict_set ''idea_session_id'' (opt_str idea_session_id) (server_to_db sv))))) in
     seqA (put_entry E Servers db_entry) (return (server_from_db (Some (map_of db_entry))))))"

definition server_db_get :: "'db env \<Rightarrow> string option \<Rightarrow> ('db st, server option) act" where
  "server_db_get E instance_id =
     raise_if (empty_str instance_id) invalid_params
     (bindA (db_get E Servers (fmt instance_id, [])) (\<lambda>db_dict. return (server_from_db db_dict)))"

definition server_db_update :: "'db env \<Rightarrow> server option \<Rightarrow> ('db st, server option) act" where
  "server_db_update E sv =
     bindA (current_time_ms E) (\<lambda>now.
     let db_entry = dict_set ''updated_on'' (VInt now) (server_to_db sv) in
     bindA (update_entry E Servers [''instance_id'', ''created_on''] db_entry) (\<lambda>(k, old).
     seqA (trigger_update_event E Servers k
             (case old of None \<Rightarrow> [] | Some i \<Rightarrow> row_dict server_columns i) db_entry)
          (return (server_from_db (Some (map_of db_entry))))))"

definition server_db_delete :: "'db env \<Rightarrow> string option \<Rightarrow> ('db st, unit) act" where
  "server_db_delete E instance_id =
     raise_if (empty_str instance_id) invalid_params
     (let k = (fmt instance_id, []) in
      bindA (db_get E Servers k) (\<lambda>old.
      seqA (db_delete E Servers k)
           (case old of None \<Rightarrow> raise (KeyError ''instance_id'')
            | Some r \<Rightarrow> trigger_delete_event E Servers k (row_dict server_columns r))))"

section \<open>Sessions\<close>

definition session_columns :: "string list" where
  "session_columns = [''owner'', ''idea_session_id'', ''created_on'', ''updated_on'', ''server'',
     ''software_stack'', ''base_os'', ''name'', ''description'', ''dcv_session_id'', ''session_type'',
     ''state'', ''locked'', ''hibernation_enabled'', ''is_launched_by_admin'', ''project''] @
     map schedule_key days @ [''session_tags'']"

text \<open>A session that was written is converted back, so it is there.\<close>

definition read_back :: "'db env \<Rightarrow> (string \<times> val) list \<Rightarrow> ('db st, session) act" where
  "read_back E db_entry =
     bindA (liftA (session_from_db (cfg E) (Some (map_of db_entry)))) (\<lambda>s.
       case s of None \<Rightarrow> return no_session | Some x \<Rightarrow> return x)"

definition session_db_create :: "'db env \<Rightarrow> session \<Rightarrow> ('db st, session) act" where
  "session_db_create E s =
     bindA (liftA (session_to_db s)) (\<lambda>entry.
     bindA (current_time_ms E) (\<lambda>created.
     bindA (current_time_ms E) (\<lambda>updated.
     let db_entry = dict_set ''updated_on'' (VInt updated) (dict_set ''created_on'' (VInt created) entry) in
     seqA (put_entry E Sessions db_entry) (read_back E db_entry))))"

definition session_db_update :: "'db env \<Rightarrow> session \<Rightarrow> ('db st, session) act" where
  "session_db_update E s =
     bindA (liftA (session_to_db s)) (\<lambda>entry.
     bindA (current_time_ms E) (\<lambda>now.
     let db_entry = dict_set ''updated_on'' (VInt now) entry in
     bindA (update_entry E Sessions [''owner'', ''idea_session_id'', ''created_on''] db_entry) (\<lambda>(k, old).
     case old of
       None \<Rightarrow> raise (KeyError ''Attributes'')
     | Some i \<Rightarrow>
         seqA (trigger_update_event E Sessions k (row_dict session_columns i) db_entry)
              (read_back E db_entry))))"

definition session_db_delete :: "'db env \<Rightarrow> session \<Rightarrow> ('db st, unit) act" where
  "session_db_delete E s =
     raise_if (empty_str (vs_id s) \<or> empty_str (vs_owner s)) invalid_params
     (let k = (fmt (vs_owner s), fmt (vs_id s)) in
      bindA (db_get E Sessions k) (\<lambda>old.
      seqA (db_delete E Sessions k)
           (case old of None \<Rightarrow> raise (KeyError ''Attributes'')
            | Some r \<Rightarrow> trigger_delete_event E Sessions k (row_dict session_columns r))))"

definition get_from_db ::
  "'db env \<Rightarrow> string option \<Rightarrow> string option \<Rightarrow> ('db st, session option) act" where
  "get_from_db E idea_session_owner idea_session_id =
     (if empty_str idea_session_owner \<or> empty_str idea_session_id then return None
      else bindA (db_get E Sessions (fmt idea_session_owner, fmt idea_session_id)) (\<lambda>session_db_entry.
        liftA (session_from_db (cfg E) session_db_entry)))"

definition get_session_count_for_user :: "'db env \<Rightarrow> string \<Rightarrow> ('db st, int) act" where
  "get_session_count_for_user E username =
     bindA (db_query E Sessions username None None) (\<lambda>(rows, _). return (int (length rows)))"

text \<open>
  \<open>scan_db_records\<close> with the filters of a request and no cursor. A filter with a \<open>value\<close> is
  carried out as \<open>CONTAINS\<close>.
\<close>

definition list_sessions_with :: "'db env \<Rightarrow> scan_filter \<Rightarrow> ('db st, session list) act" where
  "list_sessions_with E scan_filter =
     bindA (db_scan E Sessions scan_filter) (\<lambda>(rows, _).
     bindA (map_each rows (\<lambda>r. liftA (session_from_db (cfg E) (Some r)))) (\<lambda>ss.
     return (List.map_filter id ss)))"

definition list_all_for_user :: "'db env \<Rightarrow> string \<Rightarrow> ('db st, session list) act" where
  "list_all_for_user E username =
     list_sessions_with E
       (if username = ''$all'' then [] else [(''owner'', CONTAINS, VStr username)])"

section \<open>Permissions\<close>

definition permission_columns :: "string list" where
  "permission_columns = [''idea_session_id'', ''actor_name'', ''idea_session_owner'',
     ''idea_session_base_os'', ''idea_session_instance_type'', ''idea_session_state'',
     ''idea_session_name'', ''idea_session_created_on'', ''idea_session_type'',
     ''idea_session_hibernation_enabled'', ''permission_profile_id'', ''actor_type'',
     ''expiry_date'', ''created_on'', ''updated_on'']"

definition permission_db_create :: "'db env \<Rightarrow> permission \<Rightarrow> ('db st, permission) act" where
  "permission_db_create E p =
     bindA (current_time_ms E) (\<lambda>created.
     bindA (current_time_ms E) (\<lambda>updated.
     let db_entry = dict_set ''updated_on'' (VInt updated)
                      (dict_set ''created_on'' (VInt created) (permission_to_db p)) in
     seqA (put_entry E SessionPermissions db_entry) (liftA (permission_from_db (map_of db_entry)))))"

definition permission_db_update :: "'db env \<Rightarrow> permission \<Rightarrow> ('db st, permission) act" where
  "permission_db_update E p =
     bindA (current_time_ms E) (\<lambda>now.
     let db_entry = dict_set ''updated_on'' (VInt now) (permission_to_db p) in
     bindA (update_entry E SessionPermissions [''idea_session_id'', ''actor_name'', ''created_on''] db_entry)
       (\<lambda>(k, old).
     seqA (trigger_update_event E SessionPermissions k
             (case old of None \<Rightarrow> [] | Some i \<Rightarrow> row_dict permission_columns i) db_entry)
          (liftA (permission_from_db (map_of db_entry)))))"

definition permission_db_delete :: "'db env \<Rightarrow> permission \<Rightarrow> ('db st, unit) act" where
  "permission_db_delete E p =
     raise_if (empty_str (sp_session_id p) \<or> empty_str (sp_actor_name p)) invalid_params
     (let k = (fmt (sp_session_id p), fmt (sp_actor_name p)) in
      bindA (db_get E SessionPermissions k) (\<lambda>old.
      seqA (db_delete E SessionPermissions k)
           (case old of None \<Rightarrow> raise (KeyError ''idea_session_id'')
            | Some r \<Rightarrow> trigger_delete_event E SessionPermissions k (row_dict permission_columns r))))"

text \<open>Any exception while reading is logged and answered with the empty list.\<close>

definition get_for_session :: "'db env \<Rightarrow> string option \<Rightarrow> ('db st, permission list) act" where
  "get_for_session E idea_session_id =
     (if empty_str idea_session_id then return []
      else catchA
        (bindA (db_query E SessionPermissions (fmt idea_session_id) None None) (\<lambda>(rows, _).
         map_each rows (\<lambda>r. liftA (permission_from_db r))))
        (\<lambda>_. return []))"

text \<open>One page of a scan, which a filter with a \<open>value\<close> makes a search for a part.\<close>

definition list_session_permissions :: "'db env \<Rightarrow> scan_filter \<Rightarrow> ('db st, permission list) act" where
  "list_session_permissions E scan_filter =
     bindA (db_scan E SessionPermissions scan_filter) (\<lambda>(rows, _).
     map_each rows (\<lambda>r. liftA (permission_from_db r)))"

text \<open>
  A page of all permissions, with the key to go on behind. An exception ends the list where it
  happens, and there is no next page then.
\<close>

fun readable_permissions :: "item list \<Rightarrow> permission list \<times> bool" where
  "readable_permissions [] = ([], True)"
| "readable_permissions (r # rs) = (case permission_from_db r of
      Inl _ \<Rightarrow> ([], False)
    | Inr p \<Rightarrow> (case readable_permissions rs of (ps, complete) \<Rightarrow> (p # ps, complete)))"

definition list_all_from_db :: "'db env \<Rightarrow> key option \<Rightarrow> ('db st, permission list \<times> key option) act" where
  "list_all_from_db E cursor =
     bindA (db_scan_from E SessionPermissions cursor) (\<lambda>(rows, last).
     case readable_permissions rows of (ps, complete) \<Rightarrow> return (ps, if complete then last else None))"

definition permission_db_get ::
  "'db env \<Rightarrow> string option \<Rightarrow> string option \<Rightarrow> ('db st, permission option) act" where
  "permission_db_get E idea_session_id actor =
     (if is_any_empty [opt_str actor, opt_str idea_session_id] then return None
      else bindA (db_get E SessionPermissions (fmt idea_session_id, fmt actor)) (\<lambda>db_entry.
        liftA (bindE (permission_from_db (case db_entry of None \<Rightarrow> Map.empty | Some i \<Rightarrow> i))
                 (\<lambda>p. Inr (Some p)))))"

section \<open>Software stacks\<close>

definition stack_columns :: "string list" where
  "stack_columns = [''base_os'', ''stack_id'', ''name'', ''description'', ''created_on'', ''updated_on'',
     ''ami_id'', ''enabled'', ''min_storage_value'', ''min_storage_unit'', ''min_ram_value'',
     ''min_ram_unit'', ''architecture'', ''gpu'', ''projects'']"

definition software_stack_db_create :: "'db env \<Rightarrow> stack \<Rightarrow> ('db st, stack option) act" where
  "software_stack_db_create E stk =
     bindA (current_time_ms E) (\<lambda>created.
     bindA (current_time_ms E) (\<lambda>updated.
     let db_entry = dict_set ''updated_on'' (VInt updated)
                      (dict_set ''created_on'' (VInt created) (stack_to_db (Some stk))) in
     seqA (put_entry E SoftwareStacks db_entry) (liftA (stack_from_db (Some (map_of db_entry))))))"

definition software_stack_db_get ::
  "'db env \<Rightarrow> string option \<Rightarrow> base_os option \<Rightarrow> ('db st, stack option) act" where
  "software_stack_db_get E stack_id os =
     (case os of
        None \<Rightarrow> return None
      | Some x \<Rightarrow> if empty_str stack_id then return None
          else bindA (db_get E SoftwareStacks (base_os_value x, fmt stack_id)) (\<lambda>db_entry.
            liftA (stack_from_db db_entry)))"

definition software_stack_db_update :: "'db env \<Rightarrow> stack \<Rightarrow> ('db st, stack option) act" where
  "software_stack_db_update E stk =
     bindA (current_time_ms E) (\<lambda>now.
     let db_entry = dict_set ''updated_on'' (VInt now) (stack_to_db (Some stk)) in
     bindA (update_entry E SoftwareStacks [''base_os'', ''stack_id'', ''created_on''] db_entry) (\<lambda>(k, old).
     case old of
       None \<Rightarrow> raise (KeyError ''Attributes'')
     | Some i \<Rightarrow>
         seqA (trigger_update_event E SoftwareStacks k (row_dict stack_columns i) db_entry)
              (liftA (stack_from_db (Some (map_of db_entry))))))"

definition software_stack_db_delete :: "'db env \<Rightarrow> stack \<Rightarrow> ('db st, unit) act" where
  "software_stack_db_delete E stk =
     raise_if (empty_str (ss_id stk)) invalid_params
     (let k = (base_os_value (ss_base_os stk), fmt (ss_id stk)) in
      bindA (db_get E SoftwareStacks k) (\<lambda>old.
      seqA (db_delete E SoftwareStacks k)
           (case old of None \<Rightarrow> raise (KeyError ''Attributes'')
            | Some r \<Rightarrow> trigger_delete_event E SoftwareStacks k (row_dict stack_columns r))))"

section \<open>Counters and commands\<close>

definition counter_db_get ::
  "'db env \<Rightarrow> string option \<Rightarrow> counter_type \<Rightarrow> ('db st, session_counter) act" where
  "counter_db_get E idea_session_id counter =
     raise_if (empty_str idea_session_id) invalid_params
     (bindA (db_get E SessionCounters (fmt idea_session_id, counter_type_value counter)) (\<lambda>db_entry.
      liftA (counter_from_db (case db_entry of
          None \<Rightarrow> [''idea_session_id'' \<mapsto> opt_str idea_session_id,
                   ''counter_type'' \<mapsto> VStr (counter_type_value counter)]
        | Some i \<Rightarrow> i))))"

definition counter_db_create_or_update ::
  "'db env \<Rightarrow> session_counter \<Rightarrow> ('db st, session_counter) act" where
  "counter_db_create_or_update E c =
     bindA (liftA (entry_key SessionCounters (counter_to_db c))) (\<lambda>k.
     bindA (db_update E SessionCounters k [''counter'' \<mapsto> VInt (ct_counter c)]) (\<lambda>new.
     liftA (counter_from_db new)))"

definition counter_db_delete :: "'db env \<Rightarrow> session_counter \<Rightarrow> ('db st, unit) act" where
  "counter_db_delete E c =
     bindA (liftA (entry_key SessionCounters (counter_to_db c))) (\<lambda>k. db_delete E SessionCounters k)"

definition ssm_commands_db_create ::
  "'db env \<Rightarrow> string \<Rightarrow> string \<Rightarrow> (string \<times> val) list \<Rightarrow> ('db st, unit) act" where
  "ssm_commands_db_create E command_id command_type additional_payload =
     db_put E SsmCommands [''command_id'' \<mapsto> VStr command_id, ''command_type'' \<mapsto> VStr command_type,
       ''additional_payload'' \<mapsto> VDict additional_payload]"

definition ssm_commands_db_delete :: "'db env \<Rightarrow> string option \<Rightarrow> ('db st, unit) act" where
  "ssm_commands_db_delete E command_id =
     (case command_id of None \<Rightarrow> raise (ServiceError ''ValidationException'')
      | Some c \<Rightarrow> db_delete E SsmCommands (c, []))"

end
