(* ===== verification/Vdc_Schedules.thy ===== *)
theory Vdc_Schedules
  imports Vdc_DAO
begin

text \<open>
  \<^verbatim>\<open>schedules/virtual_desktop_schedule_utils.py\<close>: the schedule of a session for each day of the
  week, and what the scheduled event makes of it.
\<close>

section \<open>Default schedules\<close>

definition day_setting :: "world \<Rightarrow> day_of_week \<Rightarrow> string \<Rightarrow> exn + string" where
  "day_setting w day setting =
     required_string w (''virtual-desktop-controller.dcv_session.schedule.'' @ day_value day @ ''.'' @ setting)"

definition default_times :: "world \<Rightarrow> day_of_week \<Rightarrow> schedule_type \<Rightarrow> exn + string \<times> string" where
  "default_times w day ty = (case ty of
      WORKING_HOURS \<Rightarrow>
        bindE (working_hours_start w) (\<lambda>a. bindE (working_hours_end w) (\<lambda>b. Inr (a, b)))
    | STOP_ALL_DAY \<Rightarrow> Inr (''23:59'', ''00:00'')
    | START_ALL_DAY \<Rightarrow> Inr (''00:00'', ''23:59'')
    | CUSTOM_SCHEDULE \<Rightarrow>
        bindE (day_setting w day ''start_up_time'') (\<lambda>a.
        bindE (day_setting w day ''shut_down_time'') (\<lambda>b. Inr (a, b)))
    | NO_SCHEDULE \<Rightarrow> Inr ([], []))"

definition get_default_schedule_for_day_of_week :: "world \<Rightarrow> day_of_week \<Rightarrow> exn + schedule" where
  "get_default_schedule_for_day_of_week w day =
     bindE (day_setting w day ''type'') (\<lambda>v.
     bindE (schedule_type_by_value (Some v)) (\<lambda>ty.
     bindE (default_times w day ty) (\<lambda>(start_up_time, shut_down_time).
     Inr \<lparr>sc_id = None, sc_session_id = None, sc_session_owner = None, sc_day = Some day,
          sc_start_up = Some start_up_time, sc_shut_down = Some shut_down_time, sc_type = Some ty\<rparr>)))"

definition get_default_schedules :: "world \<Rightarrow> exn + week_schedule" where
  "get_default_schedules w =
     bindE (map_sum_list (get_default_schedule_for_day_of_week w) days) (\<lambda>scs.
     Inr (map_of (zip days scs)))"

section \<open>Changing the schedule of a session\<close>

definition is_same_schedule :: "schedule option \<Rightarrow> schedule option \<Rightarrow> bool" where
  "is_same_schedule schedule_a schedule_b = (case (schedule_a, schedule_b) of
      (None, None) \<Rightarrow> True
    | (Some a, Some b) \<Rightarrow>
        sc_type a = sc_type b \<and>
        (sc_type a = Some STOP_ALL_DAY \<or> sc_type a = Some START_ALL_DAY \<or>
         sc_type a = Some NO_SCHEDULE \<or> sc_type a = Some WORKING_HOURS)
    | _ \<Rightarrow> False)"

definition delete_schedule :: "'db env \<Rightarrow> schedule option \<Rightarrow> ('db st, unit) act" where
  "delete_schedule E v = (case v of None \<Rightarrow> return () | Some sc \<Rightarrow>
     if sc_type sc = Some NO_SCHEDULE then return ()
     else if is_any_empty [opt_str (sc_id sc), opt_val (VStr \<circ> day_value) (sc_day sc)] then return ()
     else schedule_db_delete E sc)"

definition create_schedule_for_day_of_week ::
  "'db env \<Rightarrow> day_of_week \<Rightarrow> schedule \<Rightarrow> string option \<Rightarrow> string option \<Rightarrow> ('db st, schedule) act" where
  "create_schedule_for_day_of_week E day sc idea_session_id idea_session_owner =
     (if sc_type sc = Some NO_SCHEDULE then return (get_empty_schedule (Some day))
      else schedule_db_create E
        \<lparr>sc_id = None, sc_session_id = idea_session_id, sc_session_owner = idea_session_owner,
         sc_day = Some day, sc_start_up = sc_start_up sc, sc_shut_down = sc_shut_down sc,
         sc_type = sc_type sc\<rparr>)"

text \<open>
  The type of the new schedule decides: \<open>NO_SCHEDULE\<close> deletes, another type than the current
  one replaces it. A new custom schedule after a custom one only deletes: see the properties.
\<close>

definition create_or_update_schedule ::
  "'db env \<Rightarrow> day_of_week \<Rightarrow> schedule option \<Rightarrow> schedule option \<Rightarrow> string option \<Rightarrow> string option \<Rightarrow>
     ('db st, schedule) act" where
  "create_or_update_schedule E day current_schedule new_schedule idea_session_id idea_session_owner =
     (let current = (case current_schedule of None \<Rightarrow> get_empty_schedule (Some day) | Some c \<Rightarrow> c) in
      case new_schedule of
        None \<Rightarrow> return current
      | Some new \<Rightarrow>
          if is_same_schedule (Some new) (Some current) then return current
          else
            (let none = (sc_type new = Some NO_SCHEDULE);
                 create_new = (\<not> none \<and> sc_type current \<noteq> sc_type new);
                 new' = (if none then get_empty_schedule (Some day) else new)
             in seqA (whenA (sc_type current \<noteq> Some NO_SCHEDULE \<or> \<not> empty_str (sc_id current))
                            (delete_schedule E (Some current)))
                     (if create_new
                      then create_schedule_for_day_of_week E day new' idea_session_id idea_session_owner
                      else return new')))"

definition week_of :: "session \<Rightarrow> week_schedule" where
  "week_of s = (case vs_schedule s of None \<Rightarrow> (\<lambda>_. None) | Some week \<Rightarrow> week)"

fun update_schedule_days ::
  "'db env \<Rightarrow> day_of_week list \<Rightarrow> week_schedule \<Rightarrow> session \<Rightarrow> ('db st, session) act" where
  "update_schedule_days E [] new_schedules s = return s"
| "update_schedule_days E (d # ds) new_schedules s =
     bindA (create_or_update_schedule E d (week_of s d) (new_schedules d) (vs_id s) (vs_owner s)) (\<lambda>sc.
     update_schedule_days E ds new_schedules (s\<lparr>vs_schedule := Some ((week_of s)(d := Some sc))\<rparr>))"

definition update_schedule_for_session ::
  "'db env \<Rightarrow> week_schedule \<Rightarrow> session \<Rightarrow> ('db st, session) act" where
  "update_schedule_for_session E new_schedules s =
     update_schedule_days E days new_schedules (s\<lparr>vs_schedule := Some (week_of s)\<rparr>)"

definition delete_schedules_for_session :: "'db env \<Rightarrow> session \<Rightarrow> ('db st, unit) act" where
  "delete_schedules_for_session E s = (case vs_schedule s of
      None \<Rightarrow> return ()
    | Some week \<Rightarrow> for_each days (\<lambda>d. delete_schedule E (week d)))"

section \<open>Carrying out a schedule\<close>

text \<open>
  A time of day is its seconds since midnight. \<open>split_at\<close> is \<open>str.split\<close> with one separator;
  \<open>time_object\<close> is \<open>datetime.time(hour, minute)\<close>, which checks the ranges.
\<close>

fun split_at :: "char \<Rightarrow> string \<Rightarrow> string list" where
  "split_at c [] = [[]]"
| "split_at c (x # xs) =
     (if x = c then [] # split_at c xs
      else case split_at c xs of p # ps \<Rightarrow> (x # p) # ps | [] \<Rightarrow> [[x]])"

definition split_time :: "string option \<Rightarrow> exn + string list" where
  "split_time v = (case v of None \<Rightarrow> Inl AttributeError | Some s \<Rightarrow> Inr (split_at (CHR '':'') s))"

definition int_part :: "string list \<Rightarrow> nat \<Rightarrow> exn + int" where
  "int_part parts n =
     (if length parts \<le> n then Inl IndexError
      else case py_int (parts ! n) of None \<Rightarrow> Inl ValueError | Some i \<Rightarrow> Inr i)"

definition time_object :: "int \<Rightarrow> int \<Rightarrow> exn + int" where
  "time_object hours minutes =
     (if 0 \<le> hours \<and> hours \<le> 23 \<and> 0 \<le> minutes \<and> minutes \<le> 59 then Inr (hours * 3600 + minutes * 60)
      else Inl ValueError)"

text \<open>The minutes of both times come from the time of the shut-down.\<close>

definition schedule_window :: "string option \<Rightarrow> string option \<Rightarrow> exn + int \<times> int" where
  "schedule_window start_up_time shut_down_time =
     bindE (split_time start_up_time) (\<lambda>a.
     bindE (split_time shut_down_time) (\<lambda>b.
     bindE (int_part a 0) (\<lambda>h.
     bindE (int_part b 1) (\<lambda>m.
     bindE (time_object h m) (\<lambda>start.
     bindE (int_part b 0) (\<lambda>h'.
     bindE (int_part b 1) (\<lambda>m'.
     bindE (time_object h' m') (\<lambda>end. Inr (start, end)))))))))"

datatype schedule_action = Resume | Stop | Nothing

definition schedule_decision :: "world \<Rightarrow> int \<Rightarrow> schedule \<Rightarrow> exn + schedule_action" where
  "schedule_decision w event_time sc =
     bindE (working_hours_start w) (\<lambda>wa.
     bindE (working_hours_end w) (\<lambda>wb.
     case sc_type sc of
       None \<Rightarrow> Inl (KeyError ''None'')
     | Some STOP_ALL_DAY \<Rightarrow> Inr Stop
     | Some START_ALL_DAY \<Rightarrow> Inr Resume
     | Some ty \<Rightarrow>
         bindE (if ty = WORKING_HOURS then schedule_window (Some wa) (Some wb)
                else schedule_window (sc_start_up sc) (sc_shut_down sc)) (\<lambda>(start, end).
         Inr (if event_time < start then Nothing
              else if event_time < end then Resume
              else Stop))))"

definition trigger_schedule :: "'db env \<Rightarrow> int \<Rightarrow> schedule \<Rightarrow> ('db st, unit) act" where
  "trigger_schedule E event_time sc =
     bindA (liftA (schedule_decision (cfg E) event_time sc)) (\<lambda>a.
     case a of
       Nothing \<Rightarrow> return ()
     | Stop \<Rightarrow> publish_idea_session_scheduled_stop_event E (sc_session_id sc) (sc_session_owner sc)
     | Resume \<Rightarrow> publish_idea_session_scheduled_resume_event E (sc_session_id sc) (sc_session_owner sc))"

end
