(* ===== verification/Vdc_Broker.thy ===== *)
theory Vdc_Broker
  imports Vdc_DAO
begin

text \<open>
  The DCV broker as the controller uses it (\<^verbatim>\<open>clients/dcv_broker_client\<close>): the permissions
  file of a session (\<^verbatim>\<open>session_permissions/virtual_desktop_session_permission_utils.py\<close>), the
  commands sent to hosts (\<^verbatim>\<open>ssm_commands/virtual_desktop_ssm_commands_utils.py\<close>), and the calls that
  create, describe, resume and delete sessions. The answers of the broker are those of the world.
\<close>

section \<open>Answers of a service\<close>

definition dict_of :: "val \<Rightarrow> item" where
  "dict_of v = (case v of VDict d \<Rightarrow> map_of d | _ \<Rightarrow> Map.empty)"

definition string_of :: "string \<Rightarrow> val \<Rightarrow> string option" where
  "string_of key v = get_value_as_string key (dict_of v) None"

definition list_of :: "string \<Rightarrow> val \<Rightarrow> val list" where
  "list_of key v = (case get_value_as_list key (dict_of v) (Some []) of None \<Rightarrow> [] | Some vs \<Rightarrow> vs)"

definition subdict :: "string \<Rightarrow> val \<Rightarrow> val" where
  "subdict key v = VDict (the (get_value_as_dict key (dict_of v) (Some [])))"

section \<open>The permissions file\<close>

definition profile_permissions :: "world \<Rightarrow> item \<Rightarrow> (string \<times> bool) list" where
  "profile_permissions w db_dict =
     map (\<lambda>key. (key, get_value_as_bool key db_dict (Some False) = Some True)) (permission_types w)"

definition permission_profile_get ::
  "'db env \<Rightarrow> string option \<Rightarrow> ('db st, (string \<times> bool) list option) act" where
  "permission_profile_get E profile_id =
     (if empty_str profile_id then return None
      else bindA (db_get E PermissionProfiles (fmt profile_id, [])) (\<lambda>db_entry.
        return (map_option (profile_permissions (cfg E)) db_entry)))"

definition dashes :: "string \<Rightarrow> string" where
  "dashes key = map (\<lambda>c. if c = CHR ''_'' then CHR ''-'' else c) key"

definition retrieve_permission_profile_values ::
  "'db env \<Rightarrow> string option \<Rightarrow> ('db st, string list \<times> string list) act" where
  "retrieve_permission_profile_values E profile_id =
     bindA (permission_profile_get E profile_id) (\<lambda>profile.
     case profile of
       None \<Rightarrow> raise AttributeError
     | Some perms \<Rightarrow>
         if map_of perms ''builtin'' = Some True then return ([''builtin''], [])
         else return (map (dashes \<circ> fst) (filter snd perms), map (dashes \<circ> fst) (filter (\<lambda>p. \<not> snd p) perms)))"

definition newline :: "bool \<Rightarrow> base_os \<Rightarrow> string" where
  "newline for_broker os =
     (if for_broker \<or> os \<noteq> WINDOWS then [CHR 0x0A] else [CHR 0x60, CHR ''r'', CHR 0x60, CHR ''n''])"

text \<open>One line \<open>actor allow profile-allow\<close>, when there is something to allow or deny.\<close>

definition permission_line :: "string \<Rightarrow> string list \<Rightarrow> string \<Rightarrow> string \<Rightarrow> string \<Rightarrow> string" where
  "permission_line nl what actor kind profile =
     (if what = [] then []
      else actor @ '' '' @ kind @ '' '' @ profile @ ''-'' @ kind @ nl)"

definition alias_line :: "string \<Rightarrow> string list \<Rightarrow> string \<Rightarrow> string \<Rightarrow> string" where
  "alias_line nl what kind profile =
     (if what = [] then [] else profile @ ''-'' @ kind @ ''='' @ join '', '' what @ nl)"

text \<open>
  What a guest is denied depends on the list of the administrator's profile, not on the guest's:
  \<open>denied admin_profile\<close> is tested.
\<close>

definition permissions_text ::
  "string \<Rightarrow> string \<Rightarrow> string \<Rightarrow> (string \<times> string) list \<Rightarrow> (string \<times> string list \<times> string list) list \<Rightarrow> string"
where
  "permissions_text nl admin_username admin_profile guests profile_cache =
     (let allowed = (\<lambda>p. fst (the (map_of profile_cache p)));
          denied = (\<lambda>p. snd (the (map_of profile_cache p))) in
      ''[groups]'' @ nl @ ''group:ideaadmin=user:'' @ admin_username @ nl @ ''[aliases]'' @ nl @
      concat (map (\<lambda>(p, a, d). alias_line nl a ''allow'' p @ alias_line nl d ''deny'' p) profile_cache) @
      ''[permissions]'' @ nl @
      concat (map (\<lambda>(actor, p).
         permission_line nl (allowed p) actor ''allow'' p @
         permission_line nl (denied admin_profile) actor ''deny'' p) guests) @
      permission_line nl (allowed admin_profile) ''group:ideaadmin'' ''allow'' admin_profile @
      permission_line nl (denied admin_profile) ''group:ideaadmin'' ''deny'' admin_profile @
      permission_line nl (allowed admin_profile) ''%owner%'' ''allow'' admin_profile @
      permission_line nl (denied admin_profile) ''%owner%'' ''deny'' admin_profile)"

definition generate_permissions_for_session ::
  "'db env \<Rightarrow> session \<Rightarrow> bool \<Rightarrow> ('db st, string) act" where
  "generate_permissions_for_session E s for_broker =
     (case vs_stack s of None \<Rightarrow> raise AttributeError | Some stk \<Rightarrow>
     bindA (if ss_base_os stk \<noteq> WINDOWS
            then liftA (required_string (cfg E) ''cluster.administrator_username'')
            else return ''Administrator'') (\<lambda>admin_username.
     bindA (liftA (required_string (cfg E) ''virtual-desktop-controller.dcv_session.default_profiles.admin''))
       (\<lambda>admin_profile.
     bindA (get_for_session E (vs_id s)) (\<lambda>session_permissions.
     let guests = map (\<lambda>p. (fmt (sp_actor_name p), fmt (sp_profile_id p))) session_permissions in
     bindA (map_each (name_set E (admin_profile # map snd guests)) (\<lambda>profile.
              bindA (retrieve_permission_profile_values E (Some profile)) (\<lambda>(allow, deny).
              return (profile, allow, deny)))) (\<lambda>profile_cache.
     return (permissions_text (newline for_broker (ss_base_os stk)) admin_username admin_profile
               guests profile_cache))))))"

text \<open>The file is sent in base64, nothing when it is empty.\<close>

definition permissions_file :: "'db env \<Rightarrow> session \<Rightarrow> ('db st, val) act" where
  "permissions_file E s =
     bindA (generate_permissions_for_session E s True) (\<lambda>content.
     return (if is_empty (VStr content) then VNone else VStr (base64_encode (cfg E) content)))"

definition enforce_session_permissions :: "'db env \<Rightarrow> session \<Rightarrow> ('db st, unit) act" where
  "enforce_session_permissions E s =
     bindA (permissions_file E s) (\<lambda>file.
     do_call E (DcvBroker ''update_session_permissions''
       [(''session_id'', opt_str (vs_dcv_id s)), (''owner'', opt_str (vs_owner s)),
        (''permissions_file'', file)]))"

section \<open>Commands for the hosts\<close>

definition send_ssm_command ::
  "'db env \<Rightarrow> string option \<Rightarrow> string \<Rightarrow> string \<Rightarrow> string list \<Rightarrow> string \<Rightarrow> ('db st, val) act" where
  "send_ssm_command E instance_id document_name comment commands log_dir =
     bindA (liftA (required_string (cfg E) ''virtual-desktop-controller.ssm_commands_pass_role_arn'')) (\<lambda>role.
     bindA (liftA (required_string (cfg E) ''virtual-desktop-controller.ssm_commands_sns_topic_arn'')) (\<lambda>topic.
     bindA (liftA (required_string (cfg E) ''cluster.cluster_s3_bucket'')) (\<lambda>bucket.
     let dir = ''/'' @ cluster_name (cfg E) @ ''/'' @ module_id (cfg E) @ ''/dcv-session/'' @ log_dir in
     call E (Ssm ''send_command''
       [(''InstanceIds'', VList [opt_str instance_id]), (''DocumentName'', VStr document_name),
        (''Comment'', VStr comment), (''Parameters'', VDict [(''commands'', strs commands)]),
        (''ServiceRoleArn'', VStr role), (''NotificationArn'', VStr topic),
        (''CloudWatchLogGroupName'', VStr dir), (''OutputS3BucketName'', VStr bucket),
        (''OutputS3KeyPrefix'', VStr dir)]))))"

definition submit_ssm_command ::
  "'db env \<Rightarrow> string \<Rightarrow> string \<Rightarrow> string \<Rightarrow> string list \<Rightarrow> string \<Rightarrow>
     string option \<Rightarrow> string option \<Rightarrow> string option \<Rightarrow> ('db st, string) act" where
  "submit_ssm_command E command_type document_name comment commands subdir
       instance_id idea_session_id idea_session_owner =
     bindA (send_ssm_command E instance_id document_name comment commands
              (fmt idea_session_id @ ''/'' @ subdir)) (\<lambda>response.
     let command_id = the (get_value_as_string ''CommandId'' (dict_of (subdict ''Command'' response)) (Some [])) in
     seqA (ssm_commands_db_create E command_id command_type
             (session_detail idea_session_id idea_session_owner @ [(''instance_id'', opt_str instance_id)]))
          (return command_id))"

definition submit_ssm_command_to_resume_session ::
  "'db env \<Rightarrow> string option \<Rightarrow> string option \<Rightarrow> string option \<Rightarrow> string list \<Rightarrow> string \<Rightarrow> ('db st, string) act"
where
  "submit_ssm_command_to_resume_session E instance_id idea_session_id idea_session_owner commands document_name =
     submit_ssm_command E ''RESUME_SESSION'' document_name
       (''idea_session_id: '' @ fmt idea_session_id @ '', owner: '' @ fmt idea_session_owner)
       commands ''resume'' instance_id idea_session_id idea_session_owner"

definition submit_ssm_command_to_disable_userdata_execution_on_windows ::
  "'db env \<Rightarrow> string option \<Rightarrow> string option \<Rightarrow> string option \<Rightarrow> ('db st, string) act" where
  "submit_ssm_command_to_disable_userdata_execution_on_windows E instance_id idea_session_id idea_session_owner =
     submit_ssm_command E ''WINDOWS_DISABLE_USERDATA_EXECUTION'' ''AWS-RunPowerShellScript''
       ''Enabling userdata execution for Windows EC2 Instance''
       [''Unregister-ScheduledTask -TaskName '' @ [CHR 0x22] @
        ''Amazon Ec2 Launch - Instance Initialization'' @ [CHR 0x22] @ '' -Confirm$False'']
       ''disable-userdata'' instance_id idea_session_id idea_session_owner"

definition double_quoted :: "string \<Rightarrow> string" where
  "double_quoted s = [CHR 0x22] @ s @ [CHR 0x22]"

definition single_quoted :: "string \<Rightarrow> string" where
  "single_quoted s = [CHR 0x27] @ s @ [CHR 0x27]"

definition cpu_commands :: "bool \<Rightarrow> string list" where
  "cpu_commands windows =
     (if windows then
        [''$CPUAveragePerformanceLast10Secs = (GET-COUNTER -Counter '' @
           double_quoted ([CHR 0x5C] @ ''Processor(_Total)'' @ [CHR 0x5C] @ ''% Processor Time'') @
           '' -SampleInterval 2 -MaxSamples 5 |select -ExpandProperty countersamples | select '' @
           ''-ExpandProperty cookedvalue | Measure-Object -Average).average'',
         ''$output = '' @ [CHR 0x40] @ ''{}'',
         ''$output['' @ double_quoted ''CPUAveragePerformanceLast10Secs'' @ ''] = $CPUAveragePerformanceLast10Secs'',
         ''$output | ConvertTo-Json'']
      else
        [''CPUAveragePerformanceLast10Secs=$(top -d 5 -b -n2 | grep '' @ single_quoted ''Cpu(s)'' @
           '' |tail -n 1 | awk '' @ single_quoted ''{print $2 + $4}'' @ '')'',
         ''echo '' @ [CHR 0x27] @ ''{'' @ double_quoted ''CPUAveragePerformanceLast10Secs'' @ '': '' @ [CHR 0x27] @
           [CHR 0x22, CHR 0x27] @ ''$CPUAveragePerformanceLast10Secs'' @ [CHR 0x27, CHR 0x22] @
           [CHR 0x27] @ ''}'' @ [CHR 0x27]])"

definition submit_ssm_command_to_get_cpu_utilization ::
  "'db env \<Rightarrow> string option \<Rightarrow> string option \<Rightarrow> string option \<Rightarrow> base_os option \<Rightarrow> ('db st, string) act"
where
  "submit_ssm_command_to_get_cpu_utilization E instance_id idea_session_id idea_session_owner os =
     submit_ssm_command E ''CPU_UTILIZATION_CHECK_STOP_SCHEDULED_SESSION''
       (if os = Some WINDOWS then ''AWS-RunPowerShellScript'' else ''AWS-RunShellScript'')
       (''Checking CPU Utilization for '' @ fmt instance_id)
       (cpu_commands (os = Some WINDOWS)) ''cpu-utilization'' instance_id idea_session_id idea_session_owner"

section \<open>Sessions at the broker\<close>

definition describe_sessions_at_broker :: "'db env \<Rightarrow> string option list \<Rightarrow> ('db st, val) act" where
  "describe_sessions_at_broker E session_ids =
     call E (DcvBroker ''describe_sessions''
       [(''session_ids'', if session_ids = [] then VNone else VList (map opt_str session_ids)),
        (''filters'', VList [])])"

text \<open>The sessions the broker knows, by their identifier; a later entry replaces an earlier one.\<close>

definition session_entry :: "val \<Rightarrow> exn + string \<times> val" where
  "session_entry v = (case dict_of v ''id'' of None \<Rightarrow> Inl (KeyError ''id'') | Some i \<Rightarrow> Inr (py_str i, v))"

definition describe_sessions :: "'db env \<Rightarrow> session list \<Rightarrow> ('db st, (string \<times> val) list) act" where
  "describe_sessions E sessions =
     bindA (describe_sessions_at_broker E (map vs_dcv_id sessions)) (\<lambda>response.
     bindA (liftA (map_sum_list session_entry (list_of ''sessions'' response))) (\<lambda>entries.
     return (fold (\<lambda>(i, v) d. dict_set i v d) entries [])))"

text \<open>What the broker says of one session, \<open>{}\<close> when it does not know it, and the state it is in.\<close>

definition broker_state :: "(string \<times> val) list \<Rightarrow> string option \<Rightarrow> string option" where
  "broker_state sessions dcv_session_id =
     (case dcv_session_id of None \<Rightarrow> None
      | Some i \<Rightarrow> string_of ''state'' (VDict (the (get_value_as_dict i (map_of sessions) (Some [])))))"

definition num_of_connections :: "val \<Rightarrow> int" where
  "num_of_connections v = the (get_value_as_int ''num_of_connections'' (dict_of v) (Some 0))"

text \<open>
  The number of connections goes to the last session of the list with an identifier: the
  dictionary from identifiers to sessions holds that one.
\<close>

fun with_counts :: "(string \<times> val) list \<Rightarrow> session list \<Rightarrow> session list" where
  "with_counts response [] = []"
| "with_counts response (s # ss) =
     s\<lparr>vs_connections := Some
        (if vs_dcv_id s \<in> set (map vs_dcv_id ss) then 0
         else case vs_dcv_id s of None \<Rightarrow> 0
              | Some i \<Rightarrow> (case map_of response i of None \<Rightarrow> 0 | Some v \<Rightarrow> num_of_connections v))\<rparr>
     # with_counts response ss"

definition get_active_counts_for_sessions ::
  "'db env \<Rightarrow> session list \<Rightarrow> ('db st, session list) act" where
  "get_active_counts_for_sessions E sessions =
     (if sessions = [] then return []
      else bindA (describe_sessions E sessions) (\<lambda>response.
        case filter (\<lambda>i. Some i \<notin> set (map vs_dcv_id sessions)) (map fst response) of
          i # _ \<Rightarrow> raise (KeyError i)
        | [] \<Rightarrow> return (with_counts response sessions)))"

definition describe_session :: "session \<Rightarrow> string" where
  "describe_session s = fmt (vs_id s) @ '':'' @ fmt (vs_name s)"

definition active_connections_reason :: "session \<Rightarrow> string" where
  "active_connections_reason s =
     ''There exists '' @ int_str (the (vs_connections s)) @
     '' active connection(s) for idea_session_id: '' @ describe_session s @ ''. Please terminate.''"

definition delete_at_broker :: "'db env \<Rightarrow> session list \<Rightarrow> bool \<Rightarrow> ('db st, val) act" where
  "delete_at_broker E sessions force =
     (if sessions = [] then return (VDict [])
      else call E (DcvBroker ''delete_sessions''
        [(''body'', VList (map (\<lambda>s. VDict [(''session_id'', opt_str (vs_dcv_id s)),
            (''owner'', opt_str (vs_owner s)), (''force'', VBool force)]) sessions))]))"

definition SESSION_DOESNT_EXIST :: string where
  "SESSION_DOESNT_EXIST = ''The requested dcvSession does not exist''"

text \<open>
  Sessions without connections (or with \<open>force\<close>) are deleted. A session the broker does not know
  counts as deleted. The result lists the deleted sessions and those that were not.
\<close>

definition broker_delete_sessions ::
  "'db env \<Rightarrow> session list \<Rightarrow> ('db st, session list \<times> session list) act" where
  "broker_delete_sessions E sessions =
     (if sessions = [] then return ([], [])
      else
        (let forced = filter (\<lambda>s. vs_force s = Some True) sessions;
             to_check = filter (\<lambda>s. vs_force s \<noteq> Some True) sessions in
         bindA (get_active_counts_for_sessions E to_check) (\<lambda>counted.
         let busy = filter (\<lambda>s. 0 < the (vs_connections s)) counted;
             idle = filter (\<lambda>s. \<not> 0 < the (vs_connections s)) counted in
         bindA (delete_at_broker E (forced @ idle) True) (\<lambda>api_response.
         let deleted = map (string_of ''session_id'') (list_of ''successful_list'' api_response);
             failed = map (\<lambda>v. (string_of ''session_id'' v, string_of ''failure_reason'' v))
                        (list_of ''unsuccessful_list'' api_response) in
         return
           (map (\<lambda>i. no_session\<lparr>vs_dcv_id := i\<rparr>)
              (deleted @ map fst (filter (\<lambda>(i, r). r = Some SESSION_DOESNT_EXIST) failed)),
            map (\<lambda>s. s\<lparr>vs_failure := Some (active_connections_reason s)\<rparr>) busy @
            map (\<lambda>(i, r). no_session\<lparr>vs_dcv_id := i, vs_failure := r\<rparr>)
              (filter (\<lambda>(i, r). r \<noteq> Some SESSION_DOESNT_EXIST) failed))))))"

section \<open>Creating and resuming\<close>

definition get_storage_root_for_base_os :: "base_os \<Rightarrow> string option \<Rightarrow> string" where
  "get_storage_root_for_base_os os owner =
     (if os \<in> {AMAZON_LINUX2, CENTOS7, RHEL7, RHEL8, RHEL9}
      then ''/home/'' @ fmt owner @ ''/storage-root''
      else ''C:'' @ [CHR 0x5C] @ ''session-storage'' @ [CHR 0x5C] @ fmt owner)"

definition windows_path :: "string list \<Rightarrow> string" where
  "windows_path parts = join [CHR 0x5C] parts"

definition escaped :: "string \<Rightarrow> string" where
  "escaped s = [CHR 0x60, CHR 0x22] @ s @ [CHR 0x60, CHR 0x22]"

definition windows_resume_commands :: "session \<Rightarrow> session_type \<Rightarrow> string \<Rightarrow> string \<Rightarrow> string list" where
  "windows_resume_commands s ty storage_root permissions_content =
     (let folder = windows_path [''C:'', ''Program Files'', ''NICE'', ''DCV'', fmt (vs_dcv_id s), []];
          dcv_command = ''cmd.exe /c '' @ [CHR 0x22] @
            escaped (windows_path [''C:'', ''Program Files'', ''NICE'', ''DCV'', ''Server'', ''bin'', ''dcv.exe'']) @
            '' create-session --type '' @ py_lower (session_type_value ty) @ '' --name '' @
            escaped (fmt (vs_name s)) @ '' --user '' @ fmt (vs_owner s) @ '' --owner '' @ fmt (vs_owner s) @
            '' --storage-root '' @ escaped storage_root @ '' '';
          full = \<not> is_empty (VStr permissions_content) in
      (if full then
         [''Remove-Item -Recurse -Force '' @ double_quoted folder,
          ''New-Item -Path '' @ double_quoted folder @ '' -ItemType Directory'',
          ''New-Item -Path '' @ double_quoted folder @ '' -Name '' @ double_quoted ''idea.perm'' @
            '' -ItemType File -Force -Value '' @ double_quoted permissions_content]
       else []) @
      [dcv_command @ (if full then ''--permissions-file '' @ escaped (folder @ ''idea.perm'') @ '' '' else []) @
       fmt (vs_dcv_id s) @ [CHR 0x22]])"

definition linux_resume_commands :: "session \<Rightarrow> session_type \<Rightarrow> string \<Rightarrow> string \<Rightarrow> string list" where
  "linux_resume_commands s ty storage_root permissions_content =
     (let folder = ''/etc/dcv/'' @ fmt (vs_dcv_id s) @ ''/'';
          dcv_command = ''dcv create-session --type '' @ py_lower (session_type_value ty) @ '' --name '' @
            double_quoted (fmt (vs_name s)) @ '' --user '' @ fmt (vs_owner s) @ '' --owner '' @
            fmt (vs_owner s) @ '' --storage-root '' @ double_quoted storage_root @ '' '';
          full = \<not> is_empty (VStr permissions_content) in
      (if full then
         [''mkdir -p '' @ folder,
          ''echo '' @ double_quoted permissions_content @ '' > '' @ folder @ ''idea.perm'']
       else []) @
      [dcv_command @ (if full then ''--permissions-file '' @ double_quoted (folder @ ''idea.perm'') @ '' '' else []) @
       fmt (vs_dcv_id s)])"

definition get_commands_to_execute_for_resuming_session ::
  "'db env \<Rightarrow> session \<Rightarrow> ('db st, string list) act" where
  "get_commands_to_execute_for_resuming_session E s =
     (case vs_stack s of None \<Rightarrow> raise AttributeError | Some stk \<Rightarrow>
     (let storage_root = get_storage_root_for_base_os (ss_base_os stk) (vs_owner s) in
      bindA (generate_permissions_for_session E s False) (\<lambda>content.
      case vs_type s of None \<Rightarrow> raise AttributeError | Some ty \<Rightarrow>
        return (if ss_base_os stk = WINDOWS then windows_resume_commands s ty storage_root content
                else linux_resume_commands s ty storage_root content))))"

text \<open>The session comes back with the state \<open>RESUMING\<close>, or with the reason of the failure.\<close>

definition resume_session :: "'db env \<Rightarrow> session \<Rightarrow> ('db st, session) act" where
  "resume_session E s =
     (case (vs_server s, vs_stack s) of
        (Some sv, Some stk) \<Rightarrow>
          catchA
            (bindA (get_commands_to_execute_for_resuming_session E s) (\<lambda>commands.
             seqA (submit_ssm_command_to_resume_session E (sv_instance_id sv) (vs_id s) (vs_owner s) commands
                     (if ss_base_os stk = WINDOWS then ''AWS-RunPowerShellScript'' else ''AWS-RunShellScript''))
                  (return (s\<lparr>vs_state := Some RESUMING\<rparr>))))
            (\<lambda>e. case e of
                ServiceError c \<Rightarrow> return (s\<lparr>vs_failure := Some (''Instance '' @ fmt (sv_instance_id sv) @
                  '' is not yet ready to run ssm commands, because '' @ c)\<rparr>)
              | _ \<Rightarrow> raise e)
      | _ \<Rightarrow> raise AttributeError)"

definition create_at_broker :: "'db env \<Rightarrow> session \<Rightarrow> ('db st, val) act" where
  "create_at_broker E s =
     (case (vs_type s, vs_stack s) of
        (Some ty, Some stk) \<Rightarrow>
          bindA (permissions_file E s) (\<lambda>file.
          call E (DcvBroker ''create_sessions''
            [(''name'', opt_str (vs_name s)), (''owner'', opt_str (vs_owner s)),
             (''type'', VStr (session_type_value ty)),
             (''requirements'', VStr (''tag:idea_session_id='' @ single_quoted (fmt (vs_id s)))),
             (''permissions_file'', file),
             (''storage_root'', VStr (get_storage_root_for_base_os (ss_base_os stk) (vs_owner s)))]))
      | _ \<Rightarrow> raise AttributeError)"

text \<open>
  The server of a created session is read too; the class has no field for the family of its
  operating system, so the assignment of that tag raises.
\<close>

definition server_of_success_result :: "val \<Rightarrow> exn + unit" where
  "server_of_success_result server_json =
     (if \<exists>t \<in> set (list_of ''tags'' server_json). string_of ''key'' t = Some ''dcv:os-family''
      then Inl ValueError else Inr ())"

definition session_of_success_result :: "val \<Rightarrow> exn + session" where
  "session_of_success_result session_json =
     bindE (session_type_by_name (get_value_as_string ''type'' (dict_of session_json) (Some ''VIRTUAL''))) (\<lambda>ty.
     bindE (session_state_by_name (get_value_as_string ''state'' (dict_of session_json) (Some ''READY''))) (\<lambda>state.
     bindE (server_of_success_result (subdict ''server'' session_json)) (\<lambda>_.
     Inr (no_session\<lparr>vs_dcv_id := string_of ''id'' session_json, vs_owner := string_of ''owner'' session_json,
       vs_type := Some ty, vs_name := string_of ''name'' session_json, vs_state := Some state,
       vs_server := Some no_server\<rparr>))))"

definition session_of_error_result :: "val \<Rightarrow> exn + session" where
  "session_of_error_result session_json =
     (let data = subdict ''create_session_request_data'' session_json in
      bindE (session_type_by_name (get_value_as_string ''type'' (dict_of data) (Some ''VIRTUAL''))) (\<lambda>ty.
      Inr (no_session\<lparr>vs_dcv_id := string_of ''id'' data, vs_owner := string_of ''owner'' data,
        vs_type := Some ty, vs_name := string_of ''name'' data,
        vs_failure := string_of ''failure_reason'' session_json\<rparr>)))"

definition broker_create_session :: "'db env \<Rightarrow> session \<Rightarrow> ('db st, session) act" where
  "broker_create_session E s =
     bindA (create_at_broker E s) (\<lambda>response.
     bindA (liftA (map_sum_list session_of_success_result (list_of ''successful_list'' response))) (\<lambda>created.
     bindA (liftA (map_sum_list session_of_error_result (list_of ''unsuccessful_list'' response))) (\<lambda>failed.
     return (last (s # created @ failed)))))"

end
