(* ===== verification/Vdc_Memory.thy ===== *)
theory Vdc_Memory
  imports Vdc_Data
begin

text \<open>
  Sizes of memory: the units and the arithmetic of \<^verbatim>\<open>SocaMemory\<close>
  (\<^verbatim>\<open>ideadatamodel/common/common_model.py\<close>).
\<close>

section \<open>Memory\<close>

text \<open>
  The value is a float, kept as its decimal text: \<open>decimal\<close> reads \<open>n / 10^k\<close>. Products with a unit are
  exact within the precision of a double.
\<close>

definition decimal :: "string \<Rightarrow> int \<times> nat" where
  "decimal v = (case split_sign v of (sg, ds) \<Rightarrow>
     (let w = takeWhile (\<lambda>c. c \<noteq> CHR ''.'') ds; f = drop 1 (dropWhile (\<lambda>c. c \<noteq> CHR ''.'') ds)
      in (sg * (case parse_digits 0 False (w @ f) of None \<Rightarrow> 0 | Some n \<Rightarrow> int n), length f)))"

fun unit_bytes :: "memory_unit \<Rightarrow> int" where
  "unit_bytes BYTES = 1"
| "unit_bytes KiB = 1024"
| "unit_bytes MiB = 1024 ^ 2"
| "unit_bytes GiB = 1024 ^ 3"
| "unit_bytes TiB = 1024 ^ 4"
| "unit_bytes KB = 1000"
| "unit_bytes MB = 1000 ^ 2"
| "unit_bytes GB = 1000 ^ 3"
| "unit_bytes TB = 1000 ^ 4"

text \<open>\<open>int()\<close> of a quotient cuts towards zero.\<close>

definition trunc_div :: "int \<Rightarrow> int \<Rightarrow> int" where
  "trunc_div a b = sgn a * (\<bar>a\<bar> div b)"

definition memory_bytes :: "memory \<Rightarrow> int" where
  "memory_bytes m = (case decimal (m_value m) of (n, k) \<Rightarrow> trunc_div (n * unit_bytes (m_unit m)) (10 ^ k))"

definition memory_less :: "memory \<Rightarrow> memory \<Rightarrow> bool" where
  "memory_less a b \<longleftrightarrow> memory_bytes a < memory_bytes b"

text \<open>Compared with a number, only the value counts, whatever its unit.\<close>

definition memory_greater_int :: "memory \<Rightarrow> int \<Rightarrow> bool" where
  "memory_greater_int m i = (case decimal (m_value m) of (n, k) \<Rightarrow> i * 10 ^ k < n)"

definition int_val :: "memory \<Rightarrow> int" where
  "int_val m = (case decimal (m_value m) of (n, k) \<Rightarrow> trunc_div n (10 ^ k))"

fun unit_rank :: "memory_unit \<Rightarrow> nat" where
  "unit_rank BYTES = 0"
| "unit_rank KB = 1"
| "unit_rank KiB = 2"
| "unit_rank MB = 3"
| "unit_rank MiB = 4"
| "unit_rank GB = 5"
| "unit_rank GiB = 6"
| "unit_rank TB = 7"
| "unit_rank TiB = 8"

text \<open>\<open>round(value, 1)\<close> of \<open>b / f\<close>, in tenths; a tie goes to the even digit.\<close>

definition round_tenths :: "int \<Rightarrow> int \<Rightarrow> int" where
  "round_tenths b f =
     (let q = 10 * b div f; r = 10 * b mod f
      in if 2 * r < f then q else if 2 * r > f then q + 1 else if even q then q else q + 1)"

definition quotient_text :: "int \<Rightarrow> int \<Rightarrow> string" where
  "quotient_text b f =
     (if b mod f = 0 then int_str (b div f) @ ''.0''
      else let t = round_tenths b f in int_str (t div 10) @ ''.'' @ int_str (t mod 10))"

definition as_unit :: "memory_unit \<Rightarrow> memory \<Rightarrow> memory" where
  "as_unit u m =
     (if u = BYTES then \<lparr>m_value = int_str (memory_bytes m) @ ''.0'', m_unit = u\<rparr>
      else if u = m_unit m
      then (case decimal (m_value m) of (n, k) \<Rightarrow> \<lparr>m_value = quotient_text n (10 ^ k), m_unit = u\<rparr>)
      else \<lparr>m_value = quotient_text (memory_bytes m) (unit_bytes u), m_unit = u\<rparr>)"

definition memory_plus :: "memory \<Rightarrow> memory \<Rightarrow> memory" where
  "memory_plus a b =
     as_unit (if unit_rank (m_unit b) < unit_rank (m_unit a) then m_unit a else m_unit b)
       \<lparr>m_value = int_str (memory_bytes a + memory_bytes b) @ ''.0'', m_unit = BYTES\<rparr>"

end
