(* ===== verification/Vdc_Sessions.thy ===== *)
theory Vdc_Sessions
  imports Vdc_Schedules Vdc_Broker Vdc_Memory
begin

text \<open>
  The requests on sessions: \<^verbatim>\<open>servers/virtual_desktop_server_utils.py\<close>,
  \<^verbatim>\<open>session_permissions/virtual_desktop_session_permission_utils.py\<close> and
  \<^verbatim>\<open>sessions/virtual_desktop_session_utils.py\<close>. A request names several sessions; each is looked up,
  sorted into those to act on and those that fail, and the calls to the broker and to EC2 are made for
  all of them together.
\<close>

section \<open>Servers\<close>

text \<open>
  The subnets to try for a new host: the one the request names, the configured ones, or those of
  the cluster.
\<close>

definition attempt_subnets :: "world \<Rightarrow> server \<Rightarrow> string list" where
  "attempt_subnets w sv =
     (let configured = config_list w ''vdc.dcv_session.network.private_subnets'';
          subnets = (if \<not> empty_str (sv_server_id sv) then [fmt (sv_server_id sv)]
                     else if configured \<noteq> [] then configured
                     else config_list w ''cluster.network.private_subnets'')
      in if config_bool w ''vdc.dcv_session.network.randomize_subnets'' = Some True
         then shuffle w subnets else subnets)"

definition run_instances :: "'db env \<Rightarrow> session \<Rightarrow> string \<Rightarrow> ('db st, val) act" where
  "run_instances E s subnet =
     (case (vs_stack s, vs_server s) of
        (Some stk, Some sv) \<Rightarrow> (case sv_root_volume sv of
          None \<Rightarrow> raise AttributeError
        | Some volume \<Rightarrow>
            call E (Ec2 ''run_instances''
              [(''ImageId'', opt_str (ss_ami_id stk)), (''InstanceType'', opt_str (sv_instance_type sv)),
               (''SubnetId'', VStr subnet), (''Groups'', opt_val (\<lambda>gs. VList (map VStr gs)) (sv_security_groups sv)),
               (''Arn'', opt_str (sv_profile_arn sv)), (''VolumeSize'', VInt (int_val volume)),
               (''KeyName'', opt_str (sv_key_pair sv)),
               (''Hibernation'', VBool (case vs_hibernation s of None \<Rightarrow> False | Some b \<Rightarrow> b))]))
      | _ \<Rightarrow> raise AttributeError)"

text \<open>\<open>None\<close> is the answer of a loop that ends without an answer of the service.\<close>

fun try_subnets :: "'db env \<Rightarrow> bool \<Rightarrow> session \<Rightarrow> string list \<Rightarrow> ('db st, val option) act" where
  "try_subnets E autoretry s [] = raise IndexError"
| "try_subnets E autoretry s (subnet # rest) =
     bindA (catchA (bindA (run_instances E s subnet) (\<lambda>r. return (Inr r)))
              (\<lambda>e. if autoretry \<and> rest \<noteq> [] then return (Inl e) else raise e)) (\<lambda>answer.
     case answer of
       Inl _ \<Rightarrow> try_subnets E autoretry s rest
     | Inr r \<Rightarrow>
         if py_truthy r then return (Some r)
         else if rest = [] then return None
         else try_subnets E autoretry s rest)"

definition provision_dcv_host_for_session :: "'db env \<Rightarrow> session \<Rightarrow> ('db st, val option) act" where
  "provision_dcv_host_for_session E s =
     (case vs_server s of None \<Rightarrow> raise AttributeError | Some sv \<Rightarrow>
      try_subnets E (config_bool (cfg E) ''vdc.dcv_session.network.subnet_autoretry'' \<noteq> Some False) s
        (attempt_subnets (cfg E) sv))"

definition provision_host_for_session :: "'db env \<Rightarrow> session \<Rightarrow> ('db st, server option) act" where
  "provision_host_for_session E s =
     bindA (provision_dcv_host_for_session E s) (\<lambda>response.
     case list_of ''Instances'' (case response of None \<Rightarrow> VNone | Some r \<Rightarrow> r) of
       [] \<Rightarrow> raise IndexError
     | instance # _ \<Rightarrow>
         server_db_create E
           (map_option (\<lambda>sv. sv\<lparr>sv_instance_id := string_of ''InstanceId'' instance\<rparr>) (vs_server s))
           (vs_id s) (vs_owner s))"

definition instance_ids :: "server option list \<Rightarrow> exn + val list" where
  "instance_ids servers = map_sum_list (\<lambda>v. case v of
      None \<Rightarrow> Inl AttributeError | Some sv \<Rightarrow> Inr (opt_str (sv_instance_id sv))) servers"

definition ec2_instances ::
  "'db env \<Rightarrow> string \<Rightarrow> server option list \<Rightarrow> (string \<times> val) list \<Rightarrow> ('db st, val) act" where
  "ec2_instances E operation servers params =
     bindA (liftA (instance_ids servers)) (\<lambda>ids.
     call E (Ec2 operation ([(''InstanceIds'', VList ids)] @ params)))"

definition stop_dcv_hosts :: "'db env \<Rightarrow> server option list \<Rightarrow> bool \<Rightarrow> ('db st, val) act" where
  "stop_dcv_hosts E servers hibernate =
     (if servers = [] then return (VDict [])
      else ec2_instances E ''stop_instances'' servers [(''Hibernate'', VBool hibernate)])"

definition set_server_state :: "'db env \<Rightarrow> string \<Rightarrow> val \<Rightarrow> ('db st, unit) act" where
  "set_server_state E state instance =
     bindA (server_db_get E (string_of ''InstanceId'' instance)) (\<lambda>v.
     case v of None \<Rightarrow> raise AttributeError
     | Some sv \<Rightarrow> seqA (server_db_update E (Some (sv\<lparr>sv_state := Some state\<rparr>))) (return ()))"

definition stop_and_record ::
  "'db env \<Rightarrow> server option list \<Rightarrow> bool \<Rightarrow> string \<Rightarrow> ('db st, unit) act" where
  "stop_and_record E servers hibernate state =
     whenA (servers \<noteq> [])
       (bindA (stop_dcv_hosts E servers hibernate) (\<lambda>response.
        for_each (list_of ''StoppingInstances'' response) (set_server_state E state)))"

definition stop_or_hibernate_servers ::
  "'db env \<Rightarrow> server option list \<Rightarrow> server option list \<Rightarrow> ('db st, unit) act" where
  "stop_or_hibernate_servers E servers_to_stop servers_to_hibernate =
     seqA (stop_and_record E servers_to_stop False ''STOPPED'')
          (stop_and_record E servers_to_hibernate True ''HIBERNATED'')"

text \<open>The error of EC2, when there is one.\<close>

definition start_dcv_hosts :: "'db env \<Rightarrow> server option list \<Rightarrow> ('db st, string option) act" where
  "start_dcv_hosts E servers =
     bindA (liftA (instance_ids servers)) (\<lambda>ids.
     catchA (seqA (call E (Ec2 ''start_instances'' [(''InstanceIds'', VList ids)])) (return None))
       (\<lambda>e. case e of ServiceError c \<Rightarrow> return (Some c) | _ \<Rightarrow> raise e))"

definition reboot_dcv_hosts :: "'db env \<Rightarrow> server option list \<Rightarrow> ('db st, unit) act" where
  "reboot_dcv_hosts E servers =
     whenA (servers \<noteq> []) (seqA (ec2_instances E ''reboot_instances'' servers []) (return ()))"

definition terminate_dcv_hosts :: "'db env \<Rightarrow> server option list \<Rightarrow> ('db st, unit) act" where
  "terminate_dcv_hosts E servers =
     whenA (servers \<noteq> [])
       (bindA (ec2_instances E ''terminate_instances'' servers []) (\<lambda>response.
        for_each (list_of ''TerminatingInstances'' response)
          (\<lambda>instance. server_db_delete E (string_of ''InstanceId'' instance))))"

section \<open>Permissions of sessions\<close>

definition delete_permissions_for_session :: "'db env \<Rightarrow> session \<Rightarrow> ('db st, unit) act" where
  "delete_permissions_for_session E s =
     bindA (get_for_session E (vs_id s)) (\<lambda>session_permissions.
     for_each session_permissions (permission_db_delete E))"

text \<open>A Python set of pairs, in the order of the hash.\<close>

definition pair_set ::
  "'db env \<Rightarrow> (string option \<times> string option) list \<Rightarrow> (string option \<times> string option) list" where
  "pair_set E ps = py_set_list (\<lambda>(a, b). str_hash (cfg E) (fmt a @ fmt b)) ps"

definition session_info :: "permission \<Rightarrow> string option \<times> string option" where
  "session_info p = (sp_session_id p, sp_session_owner p)"

definition update_permission_for_sessions ::
  "'db env \<Rightarrow> permission list \<Rightarrow> permission list \<Rightarrow> permission list \<Rightarrow> ('db st, permission list) act" where
  "update_permission_for_sessions E create update delete =
     bindA (map_each create (permission_db_create E)) (\<lambda>created.
     bindA (map_each update (permission_db_update E)) (\<lambda>updated.
     seqA (for_each delete (permission_db_delete E))
    (seqA (for_each (pair_set E (map session_info (create @ update @ delete)))
             (\<lambda>(i, owner). publish_enforce_session_permissions_event E i owner))
          (return (created @ updated)))))"

section \<open>Requests\<close>

definition in_state :: "session_state set \<Rightarrow> session \<Rightarrow> bool" where
  "in_state states s \<longleftrightarrow> (case vs_state s of None \<Rightarrow> False | Some x \<Rightarrow> x \<in> states)"

definition fmt_state :: "session \<Rightarrow> string" where
  "fmt_state s = fmt (map_option state_value (vs_state s))"

definition state_reason :: "session \<Rightarrow> string \<Rightarrow> string" where
  "state_reason s tail =
     ''RES Session ID: '' @ describe_session s @ '' for user: '' @ fmt (vs_owner s) @ '' is in '' @
     fmt_state s @ '' state. Can'' @ [CHR 0x27] @ tail"

definition failed_with :: "string \<Rightarrow> session \<Rightarrow> session" where
  "failed_with reason s = s\<lparr>vs_failure := Some reason\<rparr>"

definition refuse :: "string \<Rightarrow> session \<Rightarrow> session" where
  "refuse tail s = failed_with (state_reason s tail) (s\<lparr>vs_force := None\<rparr>)"

fun exn_text :: "exn \<Rightarrow> string" where
  "exn_text (ServiceError c) = c"
| "exn_text (KeyError k) = k"
| "exn_text _ = ''error''"

definition create_session :: "'db env \<Rightarrow> session \<Rightarrow> ('db st, session) act" where
  "create_session E s =
     bindA (catchA (bindA (provision_host_for_session E s) (\<lambda>sv. return (Inr sv)))
              (\<lambda>e. return (Inl e))) (\<lambda>host.
     case host of
       Inl e \<Rightarrow> return (failed_with (exn_text e) s)
     | Inr sv \<Rightarrow>
         bindA (liftA (get_default_schedules (cfg E))) (\<lambda>week.
         bindA (update_schedule_for_session E week (s\<lparr>vs_server := sv\<rparr>)) (\<lambda>s'.
         session_db_create E (s'\<lparr>vs_state := Some PROVISIONING\<rparr>))))"

text \<open>
  The session a request names. A session that does not exist is not reported: the message is
  built from the missing object, an \<open>AttributeError\<close>.
\<close>

definition stored_session :: "'db env \<Rightarrow> session \<Rightarrow> ('db st, session) act" where
  "stored_session E s =
     bindA (get_from_db E (vs_owner s) (vs_id s)) (\<lambda>v.
     case v of None \<Rightarrow> raise AttributeError | Some x \<Rightarrow> return x)"

definition stored_sessions :: "'db env \<Rightarrow> session list \<Rightarrow> ('db st, session list) act" where
  "stored_sessions E sessions =
     map_each sessions (\<lambda>s. bindA (stored_session E s) (\<lambda>x. return (x\<lparr>vs_force := vs_force s\<rparr>)))"

text \<open>
  The dictionary from the identifiers at the broker to the sessions of a request. The sessions the
  broker deleted get the new state, are stored and their deletion is to be validated.
\<close>

type_synonym session_map = "(string option \<times> session) list"

definition session_map :: "session list \<Rightarrow> session_map" where
  "session_map ss = fold (\<lambda>s m. AList.update (vs_dcv_id s) s m) ss []"

definition map_lookup :: "session_map \<Rightarrow> string option \<Rightarrow> ('s, session) act" where
  "map_lookup m i = (case map_of m i of None \<Rightarrow> raise (KeyError (fmt i)) | Some s \<Rightarrow> return s)"

fun broker_deleted ::
  "'db env \<Rightarrow> session_state \<Rightarrow> session_map \<Rightarrow> session list \<Rightarrow> ('db st, session_map \<times> session list) act"
where
  "broker_deleted E state m [] = return (m, [])"
| "broker_deleted E state m (entry # es) =
     bindA (map_lookup m (vs_dcv_id entry)) (\<lambda>s.
     let s' = s\<lparr>vs_state := Some state\<rparr> in
     bindA (session_db_update E s') (\<lambda>stored.
     seqA (publish_validate_dcv_session_deletion_event E (vs_id stored) (vs_owner stored))
    (bindA (broker_deleted E state (AList.update (vs_dcv_id entry) s' m) es) (\<lambda>(m', done).
     return (m', stored # done)))))"

definition broker_failed :: "session_map \<Rightarrow> session list \<Rightarrow> ('s, session list) act" where
  "broker_failed m errors =
     map_each errors (\<lambda>e. bindA (map_lookup m (vs_dcv_id e)) (\<lambda>s.
       return (s\<lparr>vs_failure := vs_failure e\<rparr>)))"

definition stop_sessions ::
  "'db env \<Rightarrow> session list \<Rightarrow> ('db st, session list \<times> session list) act" where
  "stop_sessions E sessions =
     bindA (stored_sessions E sessions) (\<lambda>found.
     let refused = filter (\<lambda>s. \<not> in_state {READY} s) found;
         ready = filter (in_state {READY}) found;
         invalid_dcv_sessions = filter (\<lambda>s. empty_str (vs_dcv_id s)) ready;
         sessions_to_delete = filter (\<lambda>s. \<not> empty_str (vs_dcv_id s)) ready in
     bindA (broker_delete_sessions E sessions_to_delete) (\<lambda>(success_list, error_list).
     bindA (broker_deleted E STOPPING (session_map sessions_to_delete) success_list) (\<lambda>(m, stopped).
     bindA (map_each invalid_dcv_sessions
              (\<lambda>s. session_db_update E (s\<lparr>vs_state := Some STOPPING\<rparr>))) (\<lambda>others.
     bindA (broker_failed m error_list) (\<lambda>failed.
     seqA (stop_or_hibernate_servers E
             (map vs_server (filter (\<lambda>s. vs_hibernation s \<noteq> Some True) invalid_dcv_sessions))
             (map vs_server (filter (\<lambda>s. vs_hibernation s = Some True) invalid_dcv_sessions)))
          (return (stopped @ others,
             map (refuse ''t stop. Wait for it to be READY.'') refused @
             failed)))))))"

definition instance_of :: "session \<Rightarrow> exn + string option" where
  "instance_of s = (case vs_server s of None \<Rightarrow> Inl AttributeError | Some sv \<Rightarrow> Inr (sv_instance_id sv))"

definition resume_sessions ::
  "'db env \<Rightarrow> session list \<Rightarrow> ('db st, session list \<times> session list) act" where
  "resume_sessions E sessions =
     bindA (map_each sessions (stored_session E)) (\<lambda>found.
     let refused = filter (\<lambda>s. \<not> in_state {STOPPED} s) found;
         stopped = filter (in_state {STOPPED}) found;
         refusals = map (refuse ''t resume a session not in STOPPED state'') refused in
     bindA (liftA (map_sum_list instance_of stopped)) (\<lambda>ids.
     let by_instance = map_of (rev (zip ids stopped)) in
     bindA (start_dcv_hosts E (map vs_server stopped)) (\<lambda>error.
     case error of
       Some msg \<Rightarrow>
         return ([], refusals @
           map (\<lambda>i. failed_with (if is_empty (VStr msg) then ''There is an error, please check with Admin.''
                                else py_strip msg) (the (by_instance i))) ids)
     | None \<Rightarrow>
         bindA (map_each ids (\<lambda>i. session_db_update E ((the (by_instance i))\<lparr>vs_state := Some RESUMING\<rparr>)))
           (\<lambda>resumed. return (resumed, refusals)))))"

definition reboot_sessions ::
  "'db env \<Rightarrow> session list \<Rightarrow> ('db st, session list \<times> session list) act" where
  "reboot_sessions E sessions =
     bindA (stored_sessions E sessions) (\<lambda>found.
     let refused = filter (\<lambda>s. \<not> in_state {READY, ERROR} s) found;
         fit = filter (in_state {READY, ERROR}) found;
         forced = filter (\<lambda>s. vs_force s = Some True) fit;
         pending = filter (\<lambda>s. vs_force s \<noteq> Some True) fit in
     bindA (get_active_counts_for_sessions E pending) (\<lambda>counted.
     let busy = filter (\<lambda>s. 0 < the (vs_connections s)) counted;
         idle = filter (\<lambda>s. \<not> 0 < the (vs_connections s)) counted in
     bindA (map_each (forced @ idle) (\<lambda>s. session_db_update E (s\<lparr>vs_state := Some RESUMING\<rparr>))) (\<lambda>rebooted.
     seqA (reboot_dcv_hosts E (map vs_server rebooted))
          (return (rebooted,
             map (refuse ''t reboot. Wait for it to be READY or ERROR.'') refused @
             map (\<lambda>s. failed_with (active_connections_reason s) s) busy)))))"

definition delete_stopped_session :: "'db env \<Rightarrow> session \<Rightarrow> ('db st, session) act" where
  "delete_stopped_session E s =
     seqA (delete_schedules_for_session E s)
    (seqA (delete_permissions_for_session E s)
    (seqA (session_db_delete E s)
    (bindA (current_time_ms E) (\<lambda>now.
     return (s\<lparr>vs_state := Some DELETED, vs_updated_on := Some (now div 1000)\<rparr>)))))"

definition terminate_sessions ::
  "'db env \<Rightarrow> session list \<Rightarrow> ('db st, session list \<times> session list) act" where
  "terminate_sessions E sessions =
     bindA (stored_sessions E sessions) (\<lambda>found.
     let is_stopped = (\<lambda>s. empty_str (vs_dcv_id s) \<or> in_state {STOPPED} s);
         stopped_sessions = map (\<lambda>s. s\<lparr>vs_force := None\<rparr>) (filter is_stopped found);
         sessions_to_delete = filter (\<lambda>s. \<not> is_stopped s) found in
     bindA (broker_delete_sessions E sessions_to_delete) (\<lambda>(success_list, error_list).
     bindA (broker_deleted E DELETING (session_map sessions_to_delete) success_list) (\<lambda>(m, deleting).
     seqA (terminate_dcv_hosts E (map vs_server stopped_sessions))
    (bindA (map_each stopped_sessions (delete_stopped_session E)) (\<lambda>deleted.
     bindA (broker_failed m error_list) (\<lambda>failed.
     return (deleting @ deleted, failed)))))))"

end
