(* ===== verification/Vdc_Roundtrip.thy ===== *)
theory Vdc_Roundtrip
  imports Vdc_Rows
begin

text \<open>
  What is written to a row of the session table is read back: the server, the software stack, the
  seven schedules and the project of a session survive as dictionaries inside its row. Each part
  states what its fields must satisfy; a session that was read satisfies it.
\<close>

section \<open>Reading\<close>

lemma read_opt_str:
  "i k = Some (opt_str x) \<Longrightarrow> clean x \<Longrightarrow> get_value_as_string k i None = x"
  by (cases x) (simp_all add: get_value_as_string_VStr clean_def get_value_as_string_def value_exists_def)

definition clean_or_blank :: "string option \<Rightarrow> bool" where
  "clean_or_blank x \<longleftrightarrow> x \<noteq> None \<and> py_strip (fmt x) = fmt x"

lemma read_clean_or_blank:
  "i k = Some (opt_str x) \<Longrightarrow> clean_or_blank x \<Longrightarrow> get_value_as_string k i (Some []) = x"
  by (cases x)
     (auto simp: clean_or_blank_def fmt_def get_value_as_string_def value_exists_def)

lemma read_bool_val: "i k = Some (VBool b) \<Longrightarrow> get_value_as_bool k i d = Some b"
  by (rule get_value_as_bool_VBool)

lemma read_opt_bool: "i k = Some (opt_val VBool x) \<Longrightarrow> get_value_as_bool k i None = x"
  by (cases x) (simp_all add: get_value_as_bool_def value_exists_def)

lemma read_opt_list:
  "i k = Some (opt_val VList x) \<Longrightarrow> x \<noteq> Some [] \<Longrightarrow> get_value_as_list k i None = x"
  by (cases x) (auto simp: get_value_as_list_def value_exists_def)

lemma read_nested: "i k = Some (VDict d) \<Longrightarrow> nested k i = (if d = [] then None else Some (map_of d))"
  by (simp add: nested_def get_value_as_dict_def value_exists_def)

lemma to_datetime_ms [simp]: "to_datetime (Some (to_milliseconds (Some t))) = Some t"
  using nonzero_mult_div_cancel_right [of 1000 "- t"] by (simp add: to_datetime_def to_milliseconds_def)

lemma read_time:
  "i k = Some (VInt (to_milliseconds t)) \<Longrightarrow> t \<noteq> None \<Longrightarrow> to_datetime (get_value_as_int k i None) = t"
  by (cases t) auto

lemma clean_value:
  assumes "py_strip v = v" and "v \<noteq> []"
  shows "i k = Some (VStr v) \<Longrightarrow> get_value_as_string k i d = Some v"
  using assms by (simp add: get_value_as_string_VStr)

text \<open>The names of the members of an enumeration are clean, and each is found again.\<close>

lemma enum_values_clean:
  "py_strip (base_os_value a) = base_os_value a" "base_os_value a \<noteq> []"
  "py_strip (memory_unit_value b) = memory_unit_value b" "memory_unit_value b \<noteq> []"
  "py_strip (architecture_value c) = architecture_value c" "architecture_value c \<noteq> []"
  "py_strip (gpu_value d) = gpu_value d" "gpu_value d \<noteq> []"
  "py_strip (schedule_type_value e) = schedule_type_value e" "schedule_type_value e \<noteq> []"
  "py_strip (day_value f) = day_value f" "day_value f \<noteq> []"
  "py_strip (session_type_value g) = session_type_value g" "session_type_value g \<noteq> []"
  "py_strip (state_value h) = state_value h" "state_value h \<noteq> []"
  by (cases a; hypsubst; code_simp)+
     (cases b; hypsubst; code_simp | cases c; hypsubst; code_simp | cases d; hypsubst; code_simp |
      cases e; hypsubst; code_simp | cases f; hypsubst; code_simp | cases g; hypsubst; code_simp |
      cases h; hypsubst; code_simp)+

lemma enum_found [simp]:
  "base_os_by_value (Some (base_os_value a)) = Inr a"
  "memory_unit_by_value (Some (memory_unit_value b)) = Inr b"
  "architecture_by_value (Some (architecture_value c)) = Inr c"
  "gpu_by_value (Some (gpu_value d)) = Inr d"
  "schedule_type_by_value (Some (schedule_type_value e)) = Inr e"
  "day_by_value (Some (day_value f)) = Inr f"
  "session_type_by_name (Some (session_type_value g)) = Inr g"
  "session_state_by_name (Some (state_value h)) = Inr h"
  subgoal by (cases a) (simp_all add: base_os_by_value_def by_value_def member_of_def)
  subgoal by (cases b) (simp_all add: memory_unit_by_value_def by_value_def member_of_def)
  subgoal by (cases c) (simp_all add: architecture_by_value_def by_value_def member_of_def)
  subgoal by (cases d) (simp_all add: gpu_by_value_def by_value_def member_of_def)
  subgoal by (cases e) (simp_all add: schedule_type_by_value_def by_value_def member_of_def)
  subgoal by (cases f) (simp_all add: day_by_value_def by_value_def member_of_def days_def)
  subgoal by (cases g) (simp_all add: session_type_by_name_def by_name_def member_of_def)
  subgoal by (cases h) (simp_all add: session_state_by_name_def by_name_def member_of_def session_states_def)
  done

lemma read_enums:
  "i k = Some (VStr (base_os_value a)) \<Longrightarrow> get_value_as_string k i z = Some (base_os_value a)"
  "i k = Some (VStr (memory_unit_value b)) \<Longrightarrow> get_value_as_string k i z = Some (memory_unit_value b)"
  "i k = Some (VStr (architecture_value c)) \<Longrightarrow> get_value_as_string k i z = Some (architecture_value c)"
  "i k = Some (VStr (gpu_value d)) \<Longrightarrow> get_value_as_string k i z = Some (gpu_value d)"
  "i k = Some (VStr (schedule_type_value e)) \<Longrightarrow> get_value_as_string k i z = Some (schedule_type_value e)"
  "i k = Some (VStr (day_value f)) \<Longrightarrow> get_value_as_string k i z = Some (day_value f)"
  "i k = Some (VStr (session_type_value g)) \<Longrightarrow> get_value_as_string k i z = Some (session_type_value g)"
  "i k = Some (VStr (state_value h)) \<Longrightarrow> get_value_as_string k i z = Some (state_value h)"
  by (rule clean_value; (rule enum_values_clean | assumption))+

section \<open>Parts of a session\<close>

definition canonical_server :: "server \<Rightarrow> bool" where
  "canonical_server sv \<longleftrightarrow> sv_server_id sv = None \<and> clean (sv_instance_id sv) \<and> clean (sv_instance_type sv) \<and>
     clean (sv_session_id sv) \<and> clean (sv_session_owner sv) \<and> sv_state sv = None \<and> sv_locked sv \<noteq> None \<and>
     sv_root_volume sv = None \<and> sv_profile_arn sv = None \<and> sv_security_groups sv = None \<and> sv_key_pair sv = None"

lemma server_round_trip:
  "canonical_server sv \<Longrightarrow> server_from_db (Some (map_of (server_to_db (Some sv)))) = Some sv"
  by (cases sv)
     (auto simp: canonical_server_def server_to_db_def server_from_db_def no_server_def read_opt_str read_bool_val
        split: option.splits)

definition canonical_stack :: "stack \<Rightarrow> bool" where
  "canonical_stack ss \<longleftrightarrow> clean (ss_id ss) \<and> clean (ss_name ss) \<and> clean (ss_description ss) \<and>
     ss_created_on ss \<noteq> None \<and> ss_updated_on ss \<noteq> None \<and> clean (ss_ami_id ss) \<and>
     float_repr (m_value (ss_min_storage ss)) = Some (m_value (ss_min_storage ss)) \<and>
     float_repr (m_value (ss_min_ram ss)) = Some (m_value (ss_min_ram ss))"

lemma read_projects:
  "i k = Some (VList (map opt_str xs)) \<Longrightarrow>
     map_sum_list (\<lambda>v. opt_str_field (Some v)) (the (get_value_as_list k i (Some []))) = Inr xs"
proof -
  have "opt_str_field (Some (opt_str x)) = Inr x" for x by (cases x) (simp_all add: opt_str_field_def)
  then have "map_sum_list (\<lambda>v. opt_str_field (Some v)) (map opt_str xs) = Inr xs"
    by (induction xs) simp_all
  then show "i k = Some (VList (map opt_str xs)) \<Longrightarrow> ?thesis"
    by (auto simp: get_value_as_list_def value_exists_def)
qed

lemma read_memory:
  assumes "i vk = Some (VStr (m_value m))" and "i uk = Some (VStr (memory_unit_value (m_unit m)))"
    and "float_repr (m_value m) = Some (m_value m)"
  shows "memory_from_db i vk uk = Inr m"
proof -
  have "py_strip (m_value m) \<noteq> []" using assms(3) by (auto simp: float_repr_def split_sign_def)
  then show ?thesis
    using assms by (simp add: memory_from_db_def read_enums get_value_as_float_def value_exists_def)
qed

lemma stack_round_trip:
  assumes "canonical_stack ss"
  shows "stack_from_db (Some (map_of (stack_to_db (Some ss)))) = Inr (Some ss)"
proof -
  let ?i = "map_of (stack_to_db (Some ss))"
  have "memory_from_db ?i ''min_storage_value'' ''min_storage_unit'' = Inr (ss_min_storage ss)"
    by (rule read_memory) (use assms in \<open>simp_all add: stack_to_db_def canonical_stack_def\<close>)
  moreover have "memory_from_db ?i ''min_ram_value'' ''min_ram_unit'' = Inr (ss_min_ram ss)"
    by (rule read_memory) (use assms in \<open>simp_all add: stack_to_db_def canonical_stack_def\<close>)
  moreover have "get_value_as_string ''base_os'' ?i None = Some (base_os_value (ss_base_os ss))"
    and "get_value_as_string ''architecture'' ?i None = Some (architecture_value (ss_architecture ss))"
    and "get_value_as_string ''gpu'' ?i None = Some (gpu_value (ss_gpu ss))"
    by (rule read_enums; simp add: stack_to_db_def)+
  moreover have "map_sum_list (\<lambda>v. opt_str_field (Some v)) (the (get_value_as_list ''projects'' ?i (Some []))) =
      Inr (ss_projects ss)"
    by (rule read_projects) (simp add: stack_to_db_def)
  moreover have "get_value_as_string ''stack_id'' ?i None = ss_id ss"
    and "get_value_as_string ''name'' ?i None = ss_name ss"
    and "get_value_as_string ''description'' ?i None = ss_description ss"
    and "get_value_as_string ''ami_id'' ?i None = ss_ami_id ss"
    by (rule read_opt_str; use assms in \<open>simp add: stack_to_db_def canonical_stack_def\<close>)+
  moreover have "to_datetime (get_value_as_int ''created_on'' ?i None) = ss_created_on ss"
    and "to_datetime (get_value_as_int ''updated_on'' ?i None) = ss_updated_on ss"
    by (rule read_time; use assms in \<open>simp add: stack_to_db_def canonical_stack_def\<close>)+
  moreover have "get_value_as_bool ''enabled'' ?i None = ss_enabled ss"
    by (rule read_opt_bool) (simp add: stack_to_db_def)
  ultimately show ?thesis by (simp add: stack_from_db_def)
qed

text \<open>
  A schedule is the empty one, which has no identifier, or it has an identifier, a day and a type; the
  times are those of its type, and only a custom schedule has its own.
\<close>

definition canonical_schedule :: "world \<Rightarrow> schedule \<Rightarrow> bool" where
  "canonical_schedule w sc \<longleftrightarrow> sc = get_empty_schedule None \<or>
     (sc_id sc \<noteq> None \<and> clean (sc_id sc) \<and> clean (sc_session_id sc) \<and> clean (sc_session_owner sc) \<and>
      sc_day sc \<noteq> None \<and>
      (case sc_type sc of
         None \<Rightarrow> False
       | Some CUSTOM_SCHEDULE \<Rightarrow> clean (sc_start_up sc) \<and> clean (sc_shut_down sc)
       | Some ty \<Rightarrow> schedule_times w ty Map.empty = Inr (sc_start_up sc, sc_shut_down sc)))"

lemma schedule_round_trip:
  assumes "canonical_schedule w sc" and "schedule_to_db (Some sc) = Inr d"
  shows "schedule_from_db w (Some (map_of d)) = Inr sc"
proof (cases "sc = get_empty_schedule None")
  case True
  then have "get_value_as_string ''schedule_id'' (map_of d) None = None"
    using assms(2) by (auto simp: schedule_to_db_def get_empty_schedule_def get_value_as_string_def value_exists_def
        py_strip_def)
  then show ?thesis using True by (simp add: schedule_from_db_def empty_str_def)
next
  case False
  then obtain ty day where ty: "sc_type sc = Some ty" and day: "sc_day sc = Some day"
    using assms(1) by (auto simp: canonical_schedule_def split: option.splits)
  have c: "sc_id sc \<noteq> None" "clean (sc_id sc)" "clean (sc_session_id sc)" "clean (sc_session_owner sc)"
    using assms(1) False by (auto simp: canonical_schedule_def)
  have id: "get_value_as_string ''schedule_id'' (map_of d) None = sc_id sc"
    and s: "get_value_as_string ''idea_session_id'' (map_of d) None = sc_session_id sc"
    and o: "get_value_as_string ''idea_session_owner'' (map_of d) None = sc_session_owner sc"
    by (rule read_opt_str; use assms(2) c in \<open>auto simp: schedule_to_db_def\<close>)+
  have t: "get_value_as_string ''schedule_type'' (map_of d) None = Some (schedule_type_value ty)"
    and dy: "get_value_as_string ''day_of_week'' (map_of d) None = Some (day_value day)"
    by (rule read_enums; use assms(2) ty day in \<open>auto simp: schedule_to_db_def fmt_def\<close>)+
  have times: "schedule_times w ty (map_of d) = Inr (sc_start_up sc, sc_shut_down sc)"
  proof (cases "ty = CUSTOM_SCHEDULE")
    case True
    then have "get_value_as_string ''shut_down_time'' (map_of d) None = sc_start_up sc"
      and "get_value_as_string ''start_up_time'' (map_of d) None = sc_shut_down sc"
      using assms False ty
      by (auto intro!: read_opt_str simp: schedule_to_db_def canonical_schedule_def)
    then show ?thesis using True by (simp add: schedule_times_def)
  next
    case f: False
    then have "map_of d ''shut_down_time'' = None" "map_of d ''start_up_time'' = None"
      using assms(2) ty by (auto simp: schedule_to_db_def)
    then have "schedule_times w ty (map_of d) = schedule_times w ty Map.empty"
      by (cases ty) (simp_all add: schedule_times_def)
    then show ?thesis using assms(1) False ty f
      by (cases ty) (auto simp: canonical_schedule_def)
  qed
  have "\<not> empty_str (sc_id sc)" using c by (auto simp: empty_str_def clean_def)
  then show ?thesis
    using ty day by (cases sc) (simp add: schedule_from_db_def id s o t dy times)
qed

section \<open>Sessions\<close>

definition canonical_project :: "session_project \<Rightarrow> bool" where
  "canonical_project p \<longleftrightarrow> clean (pj_id p) \<and> clean (pj_name p) \<and> clean (pj_title p) \<and>
     p = no_project\<lparr>pj_id := pj_id p, pj_name := pj_name p, pj_title := pj_title p\<rparr>"

lemma session_project_round_trip:
  assumes "canonical_project p"
    and "i ''project'' = Some (VDict [(''project_id'', opt_str (pj_id p)), (''title'', opt_str (pj_title p)),
      (''name'', opt_str (pj_name p))])"
  shows "project_of_row i = p"
proof -
  let ?p = "map_of [(''project_id'', opt_str (pj_id p)), (''title'', opt_str (pj_title p)),
      (''name'', opt_str (pj_name p))]"
  have "the (get_value_as_dict ''project'' i (Some [])) = [(''project_id'', opt_str (pj_id p)),
      (''title'', opt_str (pj_title p)), (''name'', opt_str (pj_name p))]"
    using assms(2) by (simp add: get_value_as_dict_def value_exists_def)
  moreover have "get_value_as_string ''project_id'' ?p None = pj_id p"
    and "get_value_as_string ''name'' ?p None = pj_name p"
    and "get_value_as_string ''title'' ?p None = pj_title p"
    by (rule read_opt_str; use assms(1) in \<open>simp add: canonical_project_def\<close>)+
  moreover have "p = no_project\<lparr>pj_id := pj_id p, pj_name := pj_name p, pj_title := pj_title p\<rparr>"
    using assms(1) by (simp add: canonical_project_def)
  ultimately show ?thesis unfolding project_of_row_def Let_def by simp
qed

definition canonical_session :: "world \<Rightarrow> session \<Rightarrow> bool" where
  "canonical_session w s \<longleftrightarrow>
     clean (vs_owner s) \<and> clean (vs_id s) \<and> clean (vs_name s) \<and>
     clean_or_blank (vs_description s) \<and> clean_or_blank (vs_dcv_id s) \<and>
     vs_created_on s \<noteq> None \<and> vs_updated_on s \<noteq> None \<and> vs_locked s \<noteq> None \<and>
     vs_type s \<noteq> None \<and> vs_state s \<noteq> None \<and> vs_tags s \<noteq> Some [] \<and>
     vs_force s = None \<and> vs_connections s = None \<and> vs_failure s = None \<and>
     (case vs_server s of None \<Rightarrow> True | Some sv \<Rightarrow> canonical_server sv) \<and>
     (case vs_stack s of None \<Rightarrow> False
      | Some stk \<Rightarrow> canonical_stack stk \<and> vs_base_os s = Some (ss_base_os stk)) \<and>
     (case vs_project s of None \<Rightarrow> False | Some p \<Rightarrow> canonical_project p) \<and>
     (case vs_schedule s of None \<Rightarrow> False
      | Some week \<Rightarrow> list_all (\<lambda>d. case week d of None \<Rightarrow> False | Some sc \<Rightarrow> canonical_schedule w sc) days)"

lemma all_days: "d \<in> set days"
  by (cases d) (simp_all add: days_def)

definition entry_of_day :: "week_schedule \<Rightarrow> day_of_week \<Rightarrow> (string \<times> val) list" where
  "entry_of_day week d = (case schedule_to_db (week d) of Inl _ \<Rightarrow> [] | Inr e \<Rightarrow> e)"

lemma week_to_db:
  assumes "\<And>d. week d \<noteq> None"
  shows "map_sum_list (\<lambda>d. schedule_to_db (week d)) days = Inr (map (entry_of_day week) days)"
  using assms
  by (intro map_sum_list_Inr) (auto simp: entry_of_day_def schedule_to_db_def split: option.split)

lemma week_from_db:
  assumes "\<And>d. \<exists>sc. week d = Some sc \<and> canonical_schedule w sc"
    and "\<And>d. i (schedule_key d) = Some (VDict (entry_of_day week d))"
  shows "map_sum_list (\<lambda>d. schedule_from_db w (nested (schedule_key d) i)) days = Inr (map (the \<circ> week) days)"
    and "map_of (zip days (map (the \<circ> week) days)) = week"
proof -
  have "schedule_from_db w (nested (schedule_key d) i) = Inr ((the \<circ> week) d)" for d
  proof -
    obtain sc where sc: "week d = Some sc" "canonical_schedule w sc" using assms(1) by blast
    then obtain e where e: "schedule_to_db (Some sc) = Inr e" and "e \<noteq> []"
      by (simp add: schedule_to_db_def)
    then have "nested (schedule_key d) i = Some (map_of e)"
      using assms(2) [of d] sc by (simp add: read_nested entry_of_day_def)
    then show ?thesis using schedule_round_trip [OF sc(2) e] sc(1) by simp
  qed
  then show "map_sum_list (\<lambda>d. schedule_from_db w (nested (schedule_key d) i)) days = Inr (map (the \<circ> week) days)"
    by (intro map_sum_list_Inr) simp
  show "map_of (zip days (map (the \<circ> week) days)) = week"
  proof
    fix d
    show "map_of (zip days (map (the \<circ> week) days)) d = week d"
      using all_days [of d] assms(1) [of d]
      by (auto simp: zip_map2 zip_same_conv_map map_of_map_Pair comp_def)
  qed
qed

text \<open>
  A row that holds what was written for a session, whatever the time of its last update, is read as
  that session with that time.
\<close>

definition holds_session :: "session \<Rightarrow> item \<Rightarrow> bool" where
  "holds_session s i \<longleftrightarrow> (\<exists>e ms. session_to_db s = Inr e \<and>
     (\<forall>k. k \<noteq> ''updated_on'' \<longrightarrow> i k = map_of e k) \<and> i ''updated_on'' = Some (VInt ms))"

lemma session_row_read:
  assumes "canonical_session w s" and "session_to_db s = Inr e"
    and row: "\<And>k. k \<noteq> ''updated_on'' \<Longrightarrow> i k = map_of e k" and ms: "i ''updated_on'' = Some (VInt ms)"
  shows "session_from_db w (Some i) = Inr (Some (s\<lparr>vs_updated_on := to_datetime (Some ms)\<rparr>))"
proof -
  obtain stk p week where stk: "vs_stack s = Some stk" and p: "vs_project s = Some p"
    and week: "vs_schedule s = Some week"
    using assms(1) by (auto simp: canonical_session_def split: option.splits)
  obtain ty x lck where ty: "vs_type s = Some ty" and x: "vs_state s = Some x" and lck: "vs_locked s = Some lck"
    using assms(1) by (auto simp: canonical_session_def)
  have c: "clean (vs_owner s)" "clean (vs_id s)" "clean (vs_name s)" "clean_or_blank (vs_description s)"
      "clean_or_blank (vs_dcv_id s)" "vs_created_on s \<noteq> None" "vs_tags s \<noteq> Some []" "canonical_stack stk"
      "vs_base_os s = Some (ss_base_os stk)" "canonical_project p" "vs_force s = None"
      "vs_connections s = None" "vs_failure s = None"
    using assms(1) stk p by (simp_all add: canonical_session_def)
  have days: "\<exists>sc. week d = Some sc \<and> canonical_schedule w sc" for d
    using assms(1) week all_days [of d] by (force simp: canonical_session_def list_all_iff split: option.splits)
  have wk: "map_sum_list (\<lambda>d. schedule_to_db (week d)) days = Inr (map (entry_of_day week) days)"
    by (rule week_to_db) (use days in \<open>metis option.distinct(1)\<close>)
  have e: "e = [(''owner'', opt_str (vs_owner s)), (''idea_session_id'', opt_str (vs_id s)),
      (''created_on'', VInt (to_milliseconds (vs_created_on s))),
      (''updated_on'', VInt (to_milliseconds (vs_updated_on s))),
      (''server'', VDict (server_to_db (vs_server s))), (''software_stack'', VDict (stack_to_db (Some stk))),
      (''base_os'', VStr (base_os_value (ss_base_os stk))), (''name'', opt_str (vs_name s)),
      (''description'', opt_str (vs_description s)), (''dcv_session_id'', opt_str (vs_dcv_id s)),
      (''session_type'', VStr (session_type_value ty)), (''state'', VStr (state_value x)),
      (''locked'', VBool lck), (''hibernation_enabled'', opt_val VBool (vs_hibernation s)),
      (''is_launched_by_admin'', opt_val VBool (vs_by_admin s)),
      (''project'', VDict [(''project_id'', opt_str (pj_id p)), (''title'', opt_str (pj_title p)),
         (''name'', opt_str (pj_name p))])] @
      zip (map schedule_key days) (map VDict (map (entry_of_day week) days)) @
      [(''session_tags'', opt_val VList (vs_tags s))]"
    using assms(2) stk p week ty x lck by (simp add: session_to_db_def wk)
  have sched: "i (schedule_key d) = Some (VDict (entry_of_day week d))" for d
    using row [of "schedule_key d"] by (cases d) (simp_all add: e days_def)
  have server: "server_from_db (nested ''server'' i) = vs_server s"
  proof (cases "vs_server s")
    case None
    then show ?thesis
      using row [of "''server''"] by (simp add: e read_nested server_to_db_def server_from_db_def)
  next
    case (Some sv)
    then have "canonical_server sv" using assms(1) by (simp add: canonical_session_def)
    moreover have "nested ''server'' i = Some (map_of (server_to_db (Some sv)))"
      using row [of "''server''"] Some by (simp add: e read_nested server_to_db_def)
    ultimately show ?thesis using server_round_trip Some by simp
  qed
  have "nested ''software_stack'' i = Some (map_of (stack_to_db (Some stk)))"
    using row [of "''software_stack''"] by (simp add: e read_nested stack_to_db_def)
  then have stack: "stack_from_db (nested ''software_stack'' i) = Inr (Some stk)"
    using stack_round_trip [OF c(8)] by simp
  have enums: "get_value_as_string ''base_os'' i None = Some (base_os_value (ss_base_os stk))"
      "get_value_as_string ''session_type'' i None = Some (session_type_value ty)"
      "get_value_as_string ''state'' i None = Some (state_value x)"
    by (rule read_enums; simp add: row e)+
  have strings: "get_value_as_string ''owner'' i None = vs_owner s"
      "get_value_as_string ''idea_session_id'' i None = vs_id s" "get_value_as_string ''name'' i None = vs_name s"
    by (rule read_opt_str; simp add: row e c)+
  have blanks: "get_value_as_string ''description'' i (Some []) = vs_description s"
      "get_value_as_string ''dcv_session_id'' i (Some []) = vs_dcv_id s"
    by (rule read_clean_or_blank; simp add: row e c)+
  have created: "to_datetime (get_value_as_int ''created_on'' i None) = vs_created_on s"
    by (rule read_time) (simp_all add: row e c)
  have bools: "get_value_as_bool ''locked'' i (Some False) = vs_locked s"
      "get_value_as_bool ''hibernation_enabled'' i None = vs_hibernation s"
      "get_value_as_bool ''is_launched_by_admin'' i None = vs_by_admin s"
    unfolding lck by (rule read_bool_val read_opt_bool; simp add: row e)+
  have tags: "get_value_as_list ''session_tags'' i None = vs_tags s"
    by (rule read_opt_list) (simp_all add: row e c days_def)
  have project: "project_of_row i = p"
    by (rule session_project_round_trip [OF c(10)]) (simp add: row e)
  have weeks: "map_sum_list (\<lambda>d. schedule_from_db w (nested (schedule_key d) i)) days = Inr (map (the \<circ> week) days)"
      "map_of (zip days (map (the \<circ> week) days)) = week"
    using week_from_db [of week w i] days sched by blast+
  show ?thesis
    unfolding session_from_db_def
    using stk p week ty x c ms
    by (cases s) (simp add: enums strings blanks created bools tags project weeks server stack no_session_def)
qed

lemma canonical_entry:
  assumes "canonical_session w s"
  obtains e where "session_to_db s = Inr e"
proof -
  obtain stk p week where stk: "vs_stack s = Some stk" "vs_project s = Some p" and week: "vs_schedule s = Some week"
    using assms by (auto simp: canonical_session_def split: option.splits)
  have "week d \<noteq> None" for d
    using assms week all_days [of d] by (auto simp: canonical_session_def list_all_iff split: option.splits)
  then show ?thesis using that stk week by (simp add: session_to_db_def week_to_db)
qed


definition desk_stack :: stack where
  "desk_stack = \<lparr>ss_base_os = AMAZON_LINUX2, ss_id = Some ''ss-base'', ss_name = Some ''AL2'',
     ss_description = Some ''Amazon Linux'', ss_created_on = Some 10, ss_updated_on = Some 20,
     ss_ami_id = Some ''ami-1'', ss_enabled = Some True,
     ss_min_storage = \<lparr>m_value = ''10.0'', m_unit = GB\<rparr>, ss_min_ram = \<lparr>m_value = ''4.0'', m_unit = GB\<rparr>,
     ss_architecture = X86_64, ss_gpu = NO_GPU, ss_projects = [Some ''p1'']\<rparr>"

definition desk_server :: server where
  "desk_server = no_server\<lparr>sv_instance_id := Some ''i-1'', sv_instance_type := Some ''t3.large'',
     sv_session_id := Some ''s1'', sv_session_owner := Some ''ann'', sv_locked := Some False\<rparr>"

definition desk_schedule :: "day_of_week \<Rightarrow> schedule option" where
  "desk_schedule d = Some (if d = MONDAY
     then \<lparr>sc_id = Some ''m1'', sc_session_id = Some ''s1'', sc_session_owner = Some ''ann'', sc_day = Some MONDAY,
           sc_start_up = Some ''09:30'', sc_shut_down = Some ''17:00'', sc_type = Some CUSTOM_SCHEDULE\<rparr>
     else get_empty_schedule None)"

definition desk :: session where
  "desk = no_session\<lparr>vs_owner := Some ''ann'', vs_id := Some ''s1'', vs_base_os := Some AMAZON_LINUX2,
     vs_created_on := Some 100, vs_updated_on := Some 200, vs_locked := Some False, vs_server := Some desk_server,
     vs_stack := Some desk_stack, vs_name := Some ''desk'', vs_description := Some [], vs_dcv_id := Some ''dcv1'',
     vs_type := Some VIRTUAL, vs_state := Some READY, vs_hibernation := Some False, vs_by_admin := Some False,
     vs_schedule := Some desk_schedule,
     vs_project := Some (no_project\<lparr>pj_id := Some ''p1'', pj_name := Some ''proj'',
       pj_title := Some ''Project''\<rparr>)\<rparr>"

lemma desk_canonical: "canonical_session w desk"
proof -
  have strip: "py_strip ''ann'' = ''ann''" "py_strip ''s1'' = ''s1''" "py_strip ''desk'' = ''desk''"
    "py_strip ''dcv1'' = ''dcv1''" "py_strip [] = []" "py_strip ''i-1'' = ''i-1''" "py_strip ''t3.large'' = ''t3.large''"
    "py_strip ''ss-base'' = ''ss-base''" "py_strip ''AL2'' = ''AL2''" "py_strip ''Amazon Linux'' = ''Amazon Linux''"
    "py_strip ''ami-1'' = ''ami-1''" "py_strip ''p1'' = ''p1''" "py_strip ''proj'' = ''proj''"
    "py_strip ''Project'' = ''Project''" "py_strip ''m1'' = ''m1''" "py_strip ''09:30'' = ''09:30''"
    "py_strip ''17:00'' = ''17:00''" "float_repr ''10.0'' = Some ''10.0''" "float_repr ''4.0'' = Some ''4.0''"
    by code_simp+
  have "canonical_stack desk_stack" and "canonical_server desk_server"
    by (simp_all add: canonical_stack_def canonical_server_def desk_stack_def desk_server_def no_server_def
        clean_def strip)
  moreover have "canonical_schedule w (the (desk_schedule d))" for d
    by (simp add: desk_schedule_def canonical_schedule_def clean_def strip)
  ultimately show ?thesis
    by (simp add: canonical_session_def desk_def no_session_def clean_def clean_or_blank_def fmt_def strip
        canonical_project_def list_all_iff desk_schedule_def desk_stack_def)
qed


end
