(* ===== verification/Vdc_Lifecycle.thy ===== *)
theory Vdc_Lifecycle
  imports Vdc_Sessions Vdc_Roundtrip
begin

text \<open>
  Which states the requests on sessions may bring a session to. The rows of the session table
  are compared with those before the request: a request changes rows of the sessions it names, in
  the states it accepts, to the state it stands for, however it ends.
\<close>

section \<open>Frames\<close>

text \<open>A step whose results have a property, followed by steps that keep the invariant for those.\<close>

lemma keeps_bind_result:
  "keeps I m \<Longrightarrow> (\<And>s x t. m s = (Inr x, t) \<Longrightarrow> Q x) \<Longrightarrow> (\<And>x. Q x \<Longrightarrow> keeps I (f x)) \<Longrightarrow>
     keeps I (bindA m f)"
  by (fastforce simp: keeps_def bindA_def split: prod.splits sum.splits)

lemma bindA_liftA [simp]: "bindA (liftA (Inr x)) f = f x"
  by (simp add: fun_eq_iff bindA_def)

lemma keeps_publish_event [keeps_rules]: "keeps (table_inv P) (publish_event E g ty d)"
  unfolding publish_event_def by (intro keeps_rules)

lemma keeps_publications [keeps_rules]:
  "keeps (table_inv P) (publish_validate_dcv_session_deletion_event E i owner)"
  "keeps (table_inv P) (trigger_create_event E t k d)"
  "keeps (table_inv P) (trigger_update_event E t k d d')"
  "keeps (table_inv P) (trigger_delete_event E t k d)"
  unfolding publish_validate_dcv_session_deletion_event_def publish_session_event_def
    trigger_create_event_def trigger_update_event_def trigger_delete_event_def trigger_event_def
  by (rule keeps_publish_event)+

lemma keeps_entries [keeps_rules]:
  "tolerates E P t \<Longrightarrow> keeps (table_inv P) (put_entry E t d)"
  "tolerates E P t \<Longrightarrow> keeps (table_inv P) (update_entry E t keep d)"
  unfolding put_entry_def update_entry_def by (intro keeps_rules; assumption)+

lemma keeps_servers [keeps_rules]:
  "keeps (table_inv P) (server_db_get E i)"
  "tolerates E P Servers \<Longrightarrow> keeps (table_inv P) (server_db_update E sv)"
  "tolerates E P Servers \<Longrightarrow> keeps (table_inv P) (server_db_delete E i)"
  unfolding server_db_get_def server_db_update_def server_db_delete_def Let_def
  by (intro keeps_rules; assumption?)+

lemma keeps_hosts [keeps_rules]:
  "keeps (table_inv P) (ec2_instances E op servers params)"
  "keeps (table_inv P) (start_dcv_hosts E servers)"
  "keeps (table_inv P) (reboot_dcv_hosts E servers)"
  "tolerates E P Servers \<Longrightarrow> keeps (table_inv P) (terminate_dcv_hosts E servers)"
  "tolerates E P Servers \<Longrightarrow> keeps (table_inv P) (stop_and_record E servers h state)"
  unfolding ec2_instances_def start_dcv_hosts_def reboot_dcv_hosts_def terminate_dcv_hosts_def
    stop_and_record_def stop_dcv_hosts_def set_server_state_def
  by (intro keeps_rules; assumption?; auto split: exn.split intro!: keeps_rules)+

lemma keeps_stop_or_hibernate [keeps_rules]:
  "tolerates E P Servers \<Longrightarrow> keeps (table_inv P) (stop_or_hibernate_servers E xs ys)"
  unfolding stop_or_hibernate_servers_def by (intro keeps_rules)

lemma keeps_broker [keeps_rules]:
  "keeps (table_inv P) (get_active_counts_for_sessions E ss)"
  "keeps (table_inv P) (broker_delete_sessions E ss)"
proof -
  show a: "keeps (table_inv P) (get_active_counts_for_sessions E ss)" for ss
    unfolding get_active_counts_for_sessions_def describe_sessions_def describe_sessions_at_broker_def
    by (intro keeps_rules) (auto split: list.split intro!: keeps_rules)
  show "keeps (table_inv P) (broker_delete_sessions E ss)"
    unfolding broker_delete_sessions_def delete_at_broker_def Let_def by (intro keeps_rules a)
qed

lemma keeps_get_for_session [keeps_rules]: "keeps (table_inv P) (get_for_session E i)"
  unfolding get_for_session_def by (intro keeps_rules)

lemma keeps_delete_permissions [keeps_rules]:
  "tolerates E P SessionPermissions \<Longrightarrow> keeps (table_inv P) (delete_permissions_for_session E s)"
  unfolding delete_permissions_for_session_def permission_db_delete_def Let_def
  by (intro keeps_rules; assumption?)

lemma keeps_schedules [keeps_rules]:
  "tolerates E P Schedules \<Longrightarrow> keeps (table_inv P) (schedule_db_delete E sc)"
  "tolerates E P Schedules \<Longrightarrow> keeps (table_inv P) (delete_schedule E v)"
  "tolerates E P Schedules \<Longrightarrow> keeps (table_inv P) (delete_schedules_for_session E s)"
  unfolding schedule_db_delete_def delete_schedule_def delete_schedules_for_session_def Let_def
  by (intro keeps_rules; assumption?)+

lemma keeps_read_back [keeps_rules]: "keeps I (read_back E d)"
  unfolding read_back_def by (intro keeps_rules)

lemma keeps_map_lookup [keeps_rules]: "keeps I (map_lookup m i)"
  unfolding map_lookup_def by (intro keeps_rules)

lemma keeps_broker_failed [keeps_rules]: "keeps I (broker_failed m es)"
  unfolding broker_failed_def by (intro keeps_rules)

lemma in_state_UNIV: "in_state UNIV s \<longleftrightarrow> vs_state s \<noteq> None"
  by (simp add: in_state_def split: option.split)

section \<open>What a request does to the sessions it found\<close>

text \<open>
  A request reads the sessions it names and then acts on some of them. \<open>session_frame E P states M\<close>: writing
  to other tables keeps \<open>P\<close>, and so does storing a session of \<open>M\<close> in one of \<open>states\<close>.
\<close>

definition session_frame ::
  "'db env \<Rightarrow> ('db \<Rightarrow> bool) \<Rightarrow> session_state set \<Rightarrow> (session \<Rightarrow> bool) \<Rightarrow> bool" where
  "session_frame E P states M \<longleftrightarrow>
     (\<forall>t. t \<noteq> Sessions \<longrightarrow> tolerates E P t) \<and>
     (\<forall>s f n x. M s \<longrightarrow> M (s\<lparr>vs_force := f\<rparr>) \<and> M (s\<lparr>vs_connections := n\<rparr>) \<and> M (s\<lparr>vs_state := Some x\<rparr>)) \<and>
     (\<forall>s x. M s \<longrightarrow> x \<in> states \<longrightarrow> keeps (table_inv P) (session_db_update E (s\<lparr>vs_state := Some x\<rparr>)))"

lemma session_frame_tolerates: "session_frame E P states M \<Longrightarrow> t \<noteq> Sessions \<Longrightarrow> tolerates E P t"
  by (simp add: session_frame_def)

lemma session_frame_update:
  "session_frame E P states M \<Longrightarrow> M s \<Longrightarrow> x \<in> states \<Longrightarrow>
     keeps (table_inv P) (session_db_update E (s\<lparr>vs_state := Some x\<rparr>))"
  by (simp add: session_frame_def)

lemma session_frame_fields:
  assumes "session_frame E P states M" and "M s"
  shows "M (s\<lparr>vs_force := f\<rparr>)" and "M (s\<lparr>vs_connections := n\<rparr>)" and "M (s\<lparr>vs_state := Some x\<rparr>)"
  using assms unfolding session_frame_def by blast+

text \<open>
  \<open>found_sessions\<close>: the sessions of a request as they are stored, with the request's own settings.
\<close>

definition found_sessions ::
  "'db env \<Rightarrow> (session \<Rightarrow> session \<Rightarrow> session) \<Rightarrow> session list \<Rightarrow> ('db st, session list) act" where
  "found_sessions E g ss = map_each ss (\<lambda>s. bindA (stored_session E s) (\<lambda>x. return (g s x)))"

lemma stored_session_reads: "snd (stored_session E s st) = st"
  by (auto simp: stored_session_def get_from_db_def bindA_def split: option.splits sum.splits)

lemma found_sessions_reads: "snd (found_sessions E g ss st) = st"
proof (induction ss)
  case (Cons s ss)
  then show ?case
    using stored_session_reads [of E s st]
    by (cases "stored_session E s st"; cases "found_sessions E g ss st")
       (auto simp: found_sessions_def bindA_def split: sum.splits)
qed (simp add: found_sessions_def)

lemma stored_sessions_found: "stored_sessions E ss = found_sessions E (\<lambda>s x. x\<lparr>vs_force := vs_force s\<rparr>) ss"
  by (simp add: stored_sessions_def found_sessions_def)

lemma plain_sessions_found: "map_each ss (stored_session E) = found_sessions E (\<lambda>s x. x) ss"
proof -
  have "bindA (stored_session E s) return = stored_session E s" for s
    by (auto simp: fun_eq_iff bindA_def split: prod.split sum.split)
  then show ?thesis by (simp add: found_sessions_def)
qed

lemma frame_of_found:
  assumes "P (st_db st)"
    and "\<And>found. found_sessions E g ss st = (Inr found, st) \<Longrightarrow> keeps (table_inv P) (f found)"
  shows "P (st_db (snd (bindA (found_sessions E g ss) f st)))"
proof (cases "found_sessions E g ss st")
  case (Pair r st')
  have st': "st' = st" using found_sessions_reads [of E g ss st] Pair by simp
  show ?thesis
    using assms(1) assms(2) Pair st' by (cases r) (auto simp: keeps_def table_inv_def bindA_def)
qed

lemmas frame_of_request = frame_of_found [where g = "\<lambda>s x. x\<lparr>vs_force := vs_force s\<rparr>", folded stored_sessions_found]
lemmas frame_of_plain_request = frame_of_found [where g = "\<lambda>s x. x", folded plain_sessions_found]

text \<open>What the broker deleted is a session of the request.\<close>

lemma update_range: "snd ` set (AList.update k v m) \<subseteq> insert v (snd ` set m)"
  by (induction m) auto

lemma session_map_range: "snd ` set (session_map ss) \<subseteq> set ss"
proof -
  have "snd ` set (fold (\<lambda>s m. AList.update (vs_dcv_id s) s m) ss m) \<subseteq> snd ` set m \<union> set ss" for m
  proof (induction ss arbitrary: m)
    case (Cons s ss)
    have "snd ` set (fold (\<lambda>s m. AList.update (vs_dcv_id s) s m) (s # ss) m) \<subseteq>
        snd ` set (AList.update (vs_dcv_id s) s m) \<union> set ss"
      using Cons.IH [of "AList.update (vs_dcv_id s) s m"] by simp
    then show ?case using update_range [of "vs_dcv_id s" s m] unfolding list.set by blast
  qed simp
  then show ?thesis by (force simp: session_map_def)
qed

lemma map_lookup_run: "map_lookup m i s = (Inr x, t) \<Longrightarrow> x \<in> snd ` set m"
  by (auto simp: map_lookup_def rev_image_eqI split: option.splits dest!: map_of_SomeD)

lemma map_of_session_map:
  "(\<And>s. s \<in> set ss \<Longrightarrow> Q s) \<Longrightarrow> \<forall>s \<in> snd ` set (session_map ss). Q s"
  using session_map_range by blast

lemma broker_deleted_frame:
  assumes "session_frame E P states M" and "state \<in> states" and "\<forall>s \<in> snd ` set m. M s"
  shows "keeps (table_inv P) (broker_deleted E state m es)"
  using assms(3)
proof (induction es arbitrary: m)
  case Nil
  then show ?case by (simp only: broker_deleted.simps keeps_return)
next
  case (Cons e es)
  have upd: "keeps (table_inv P) (session_db_update E (s\<lparr>vs_state := Some state\<rparr>))" if "s \<in> snd ` set m" for s
    using session_frame_update [OF assms(1) _ assms(2)] Cons.prems that by blast
  have rest: "keeps (table_inv P) (broker_deleted E state (AList.update (vs_dcv_id e) (s\<lparr>vs_state := Some state\<rparr>) m) es)"
    if "s \<in> snd ` set m" for s
  proof (rule Cons.IH)
    let ?s' = "s\<lparr>vs_state := Some state\<rparr>"
    have s': "M ?s'" by (rule session_frame_fields(3) [OF assms(1)]) (rule bspec [OF Cons.prems that])
    show "\<forall>y \<in> snd ` set (AList.update (vs_dcv_id e) ?s' m). M y"
    proof
      fix y assume "y \<in> snd ` set (AList.update (vs_dcv_id e) ?s' m)"
      then have "y \<in> insert ?s' (snd ` set m)" by (rule subsetD [OF update_range])
      then show "M y" using s' Cons.prems by (elim insertE) auto
    qed
  qed
  show ?case
    unfolding broker_deleted.simps Let_def
    by (rule keeps_bind_result [where Q = "\<lambda>s. s \<in> snd ` set m"])
       (auto intro!: keeps_bindA keeps_seqA keeps_map_lookup keeps_publications keeps_return upd rest
          keeps_case_prod dest: map_lookup_run)
qed

lemma stop_sessions_frame:
  assumes "session_frame E P {STOPPING} M" and "P (st_db st)"
    and "\<And>found. stored_sessions E ss st = (Inr found, st) \<Longrightarrow> \<forall>x \<in> set found. in_state {READY} x \<longrightarrow> M x"
  shows "P (st_db (snd (stop_sessions E ss st)))"
  unfolding stop_sessions_def Let_def
  by (rule frame_of_request [where P = P and st = st, OF assms(2)], drule assms(3),
      intro keeps_bindA keeps_broker keeps_case_prod broker_deleted_frame [OF assms(1)] map_of_session_map
        keeps_map_each session_frame_update [OF assms(1)] keeps_broker_failed keeps_seqA keeps_stop_or_hibernate
        session_frame_tolerates [OF assms(1)] keeps_return)
     auto

lemma counted_sessions:
  assumes "get_active_counts_for_sessions E ss st = (Inr counted, st')" and "c \<in> set counted"
  shows "\<exists>s n. s \<in> set ss \<and> c = s\<lparr>vs_connections := n\<rparr>"
proof -
  have "\<exists>s n. s \<in> set ss \<and> c = s\<lparr>vs_connections := n\<rparr>" if "c \<in> set (with_counts r ss)" for r
    using that by (induction ss) auto
  moreover have "counted = [] \<or> (\<exists>r. counted = with_counts r ss)"
    using assms(1)
    by (auto simp: get_active_counts_for_sessions_def bindA_eq_Inr neq_Nil_conv split: if_splits list.splits)
  ultimately show ?thesis using assms(2) by auto
qed

lemma reboot_sessions_frame:
  assumes "session_frame E P {RESUMING} M" and "P (st_db st)"
    and "\<And>found. stored_sessions E ss st = (Inr found, st) \<Longrightarrow> \<forall>x \<in> set found. in_state {READY, ERROR} x \<longrightarrow> M x"
  shows "P (st_db (snd (reboot_sessions E ss st)))"
  unfolding reboot_sessions_def Let_def
proof (rule frame_of_request [where P = P and st = st, OF assms(2)], drule assms(3), rule keeps_bind_result [OF keeps_broker(1)])
  fix found s x t
  let ?fit = "filter (in_state {READY, ERROR}) found"
  let ?pending = "filter (\<lambda>s. vs_force s \<noteq> Some True) ?fit"
  assume ok: "\<forall>x \<in> set found. in_state {READY, ERROR} x \<longrightarrow> M x"
  assume "get_active_counts_for_sessions E ?pending s = (Inr x, t)"
  then show "\<forall>c \<in> set x. M c"
    using ok session_frame_fields(2) [OF assms(1)] by (auto dest!: counted_sessions)
qed (intro keeps_bindA keeps_map_each session_frame_update [OF assms(1)] keeps_seqA keeps_hosts keeps_return; auto)

lemma zipped_sessions:
  assumes "map_sum_list instance_of ss = Inr ids" and "i \<in> set ids"
  shows "the (map_of (rev (zip ids ss)) i) \<in> set ss"
proof -
  have "length ids = length ss" using assms(1)
    by (induction ss arbitrary: ids) (auto simp: bindE_eq_Inr)
  then have "i \<in> fst ` set (rev (zip ids ss))" using assms(2) by (simp add: map_fst_zip flip: set_map)
  then obtain s where "map_of (rev (zip ids ss)) i = Some s"
    by (metis domD dom_map_of_conv_image_fst)
  then show ?thesis by (auto dest!: map_of_SomeD set_zip_rightD)
qed

lemma resume_sessions_frame:
  assumes "session_frame E P {RESUMING} M" and "P (st_db st)"
    and "\<And>found. map_each ss (stored_session E) st = (Inr found, st) \<Longrightarrow>
      \<forall>x \<in> set found. in_state {STOPPED} x \<longrightarrow> M x"
  shows "P (st_db (snd (resume_sessions E ss st)))"
  unfolding resume_sessions_def Let_def
proof (rule frame_of_plain_request [where P = P and st = st, OF assms(2)], drule assms(3))
  fix found
  let ?stopped = "filter (in_state {STOPPED}) found"
  assume ok: "\<forall>x \<in> set found. in_state {STOPPED} x \<longrightarrow> M x"
  have upd: "keeps (table_inv P) (session_db_update E ((the (map_of (rev (zip ids ?stopped)) i))\<lparr>vs_state := Some RESUMING\<rparr>))"
    if "map_sum_list instance_of ?stopped = Inr ids" "i \<in> set ids" for ids i
    by (rule session_frame_update [OF assms(1)]) (use ok zipped_sessions [OF that] in auto)
  show "keeps (table_inv P) (bindA (liftA (map_sum_list instance_of ?stopped)) (\<lambda>ids.
      bindA (start_dcv_hosts E (map vs_server ?stopped)) (\<lambda>error. case error of
        None \<Rightarrow>
          bindA (map_each ids (\<lambda>i. session_db_update E
                   ((the (map_of (rev (zip ids ?stopped)) i))\<lparr>vs_state := Some RESUMING\<rparr>)))
            (\<lambda>resumed. return (resumed, map (refuse ''t resume a session not in STOPPED state'')
               (filter (\<lambda>s. \<not> in_state {STOPPED} s) found)))
      | Some msg \<Rightarrow> return ([], map (refuse ''t resume a session not in STOPPED state'')
              (filter (\<lambda>s. \<not> in_state {STOPPED} s) found) @
            map (\<lambda>i. failed_with (if is_empty (VStr msg) then ''There is an error, please check with Admin.''
                 else py_strip msg) (the (map_of (rev (zip ids ?stopped)) i))) ids))))"
    by (rule keeps_bind_result [where Q = "\<lambda>ids. map_sum_list instance_of ?stopped = Inr ids"])
       (auto intro!: keeps_liftA keeps_bindA keeps_hosts keeps_case_option keeps_map_each keeps_return upd)
qed

lemma terminate_sessions_frame:
  assumes "session_frame E P {DELETING} M" and "P (st_db st)"
    and "\<And>s. M s \<Longrightarrow> keeps (table_inv P) (session_db_delete E s)"
    and "\<And>found. stored_sessions E ss st = (Inr found, st) \<Longrightarrow> \<forall>x \<in> set found. M x"
  shows "P (st_db (snd (terminate_sessions E ss st)))"
  unfolding terminate_sessions_def delete_stopped_session_def Let_def
  by (rule frame_of_request [where P = P and st = st, OF assms(2)], drule assms(4),
      intro keeps_bindA keeps_broker keeps_case_prod broker_deleted_frame [OF assms(1)] map_of_session_map
        keeps_map_each assms(3) keeps_broker_failed keeps_seqA keeps_hosts keeps_schedules
        keeps_delete_permissions keeps_table_reads session_frame_tolerates [OF assms(1)] keeps_return)
     (auto intro: session_frame_fields [OF assms(1)])

section \<open>Moves\<close>

definition session_key :: "session \<Rightarrow> key" where
  "session_key s = (fmt (vs_owner s), fmt (vs_id s))"

definition clean_key :: "key \<Rightarrow> bool" where
  "clean_key k \<longleftrightarrow> py_strip (fst k) = fst k \<and> py_strip (snd k) = snd k"

definition state_of_row :: "item option \<Rightarrow> session_state option" where
  "state_of_row r = (case r of None \<Rightarrow> None
     | Some i \<Rightarrow> member_of state_value session_states (get_value_as_string ''state'' i None))"

text \<open>
  \<open>session_moves E d0 named A after d\<close>: from \<open>d0\<close> to \<open>d\<close> only rows of \<open>named\<close> sessions whose state was
  in \<open>A\<close> have changed, and their state is now in \<open>after\<close>; \<open>None\<close> is the state of a row that is gone.
\<close>

definition session_moves ::
  "'db env \<Rightarrow> 'db \<Rightarrow> key set \<Rightarrow> session_state set \<Rightarrow> session_state option set \<Rightarrow> 'db \<Rightarrow> bool" where
  "session_moves E d0 named A after d \<longleftrightarrow> (\<forall>k.
     ddb_get E d Sessions k = ddb_get E d0 Sessions k \<or>
     k \<in> named \<and> (\<exists>x \<in> A. state_of_row (ddb_get E d0 Sessions k) = Some x) \<and>
     state_of_row (ddb_get E d Sessions k) \<in> after)"

text \<open>What a request knows of a session it acts on.\<close>

definition movable :: "'db env \<Rightarrow> 'db \<Rightarrow> key set \<Rightarrow> session_state set \<Rightarrow> session \<Rightarrow> bool" where
  "movable E d0 named A s \<longleftrightarrow> session_key s \<in> named \<and>
     (\<exists>x \<in> A. state_of_row (ddb_get E d0 Sessions (session_key s)) = Some x)"

lemma movable_fields [simp]:
  "movable E d0 named A (s\<lparr>vs_state := x\<rparr>) = movable E d0 named A s"
  "movable E d0 named A (s\<lparr>vs_force := b\<rparr>) = movable E d0 named A s"
  "movable E d0 named A (s\<lparr>vs_connections := n\<rparr>) = movable E d0 named A s"
  by (simp_all add: movable_def session_key_def)

lemma map_of_filter_fst:
  "map_of (filter (\<lambda>kv. fst kv \<notin> S) xs) k = (if k \<in> S then None else map_of xs k)"
  by (induction xs) auto

lemma map_of_dict_set [simp]: "map_of (dict_set k v d) = (map_of d)(k \<mapsto> v)"
  by (simp add: dict_set_def update_conv')

lemmas state_value_clean [simp] = enum_values_clean(15,16)

lemma member_of_state [simp]: "member_of state_value session_states (Some (state_value x)) = Some x"
  by (cases x) (simp_all add: member_of_def session_states_def)

lemma session_entry_fields:
  assumes "session_to_db s = Inr d"
  shows "map_of d ''owner'' = Some (opt_str (vs_owner s))"
    and "map_of d ''idea_session_id'' = Some (opt_str (vs_id s))"
    and "map_of d ''state'' = Some (opt_val (VStr \<circ> state_value) (vs_state s))"
  using assms
  by (auto simp: session_to_db_def bindE_eq_Inr split: option.splits)

lemma session_entry_key:
  assumes "session_to_db s = Inr d"
    and "entry_key Sessions (dict_set ''updated_on'' v d) = Inr k"
  shows "k = session_key s"
  using assms session_entry_fields [OF assms(1)]
  by (cases "vs_owner s"; cases "vs_id s")
     (auto simp: entry_key_def dict_get_def key_of_def schema_defs bindE_eq_Inr session_key_def fmt_def
        split: option.splits)

context dynamodb
begin

lemma moves_tolerates:
  "t \<noteq> Sessions \<Longrightarrow> tolerates E (session_moves E d0 named A after) t"
  unfolding tolerates_def session_moves_def by (auto simp del: split_paired_All)

lemma write_moves:
  assumes "movable E d0 named A s" and "is_key Sessions (session_key s)"
    and "upd ''state'' = Some (VStr (state_value x))" and "Some x \<in> after"
  shows "keeps (table_inv (session_moves E d0 named A after)) (db_update E Sessions (session_key s) upd)"
proof -
  have "state_of_row (Some (set_attributes Sessions k old upd)) = Some x" for k old
    using assms(3) by (simp add: state_of_row_def set_attributes_def key_item_def schema_defs
        get_value_as_string_VStr map_add_def split: option.splits)
  then show ?thesis
    using assms by (auto simp: keeps_def table_inv_def session_moves_def movable_def simp del: split_paired_All)
qed

text \<open>Storing a session is an update of its row that says its state.\<close>

lemma session_update_keeps:
  assumes "\<And>upd. is_key Sessions (session_key s) \<Longrightarrow>
    upd ''state'' = Some (opt_val (VStr \<circ> state_value) (vs_state s)) \<Longrightarrow>
    keeps (table_inv P) (db_update E Sessions (session_key s) upd)"
  shows "keeps (table_inv P) (session_db_update E s)"
proof (cases "session_to_db s")
  case (Inr d)
  let ?keep = "[''owner'', ''idea_session_id'', ''created_on'']"
  have upd: "keeps (table_inv P) (update_entry E Sessions ?keep (dict_set ''updated_on'' v d))" for v
  proof (cases "entry_key Sessions (dict_set ''updated_on'' v d)")
    case (Inl e)
    then show ?thesis by (simp add: update_entry_def keeps_def bindA_def)
  next
    case k: (Inr k)
    define upd where "upd = map_of (filter (\<lambda>kv. fst kv \<notin> set ?keep) (dict_set ''updated_on'' v d))"
    have key: "k = session_key s" using session_entry_key [OF Inr k] .
    have "key_of Sessions (map_of (dict_set ''updated_on'' v d)) = Some k"
      using k by (auto simp: entry_key_def bindE_eq_Inr split: option.splits)
    then have isk: "is_key Sessions (session_key s)" using key key_of_is_key by blast
    have "upd ''state'' = Some (opt_val (VStr \<circ> state_value) (vs_state s))"
      using session_entry_fields(3) [OF Inr] unfolding upd_def map_of_filter_fst by simp
    then have "keeps (table_inv P) (db_update E Sessions (session_key s) upd)"
      by (rule assms [OF isk])
    moreover have "update_entry E Sessions ?keep (dict_set ''updated_on'' v d) =
        bindA (db_get E Sessions (session_key s)) (\<lambda>old.
          seqA (db_update E Sessions (session_key s) upd) (return (session_key s, old)))"
      by (simp add: update_entry_def k key upd_def fun_eq_iff bindA_def del: filter_filter)
    ultimately show ?thesis by (auto intro!: keeps_rules)
  qed
  show ?thesis
    unfolding session_db_update_def Let_def Inr bindA_liftA
    by (intro keeps_bindA keeps_liftA keeps_table_reads keeps_case_prod keeps_case_option upd
        keeps_seqA keeps_publications keeps_read_back keeps_raise)
qed (simp add: session_db_update_def keeps_def bindA_def)

lemma session_update_moves:
  assumes "movable E d0 named A s" and "vs_state s = Some x" and "Some x \<in> after"
  shows "keeps (table_inv (session_moves E d0 named A after)) (session_db_update E s)"
  by (rule session_update_keeps, rule write_moves [OF assms(1)]) (use assms in simp_all)

text \<open>A session read from its row: its key and its state are those of the row.\<close>

lemma stored_session_run:
  assumes "stored_session E s st = (Inr x, st')" and "clean_key (session_key s)"
  shows "st' = st" and "session_key x = session_key s"
    and "vs_state x \<noteq> None"
    and "state_of_row (row E st Sessions (session_key s)) = vs_state x"
proof -
  let ?k = "session_key s"
  have ne: "\<not> empty_str (vs_owner s)" "\<not> empty_str (vs_id s)" and st: "st' = st"
    and from_db: "session_from_db (cfg E) (row E st Sessions ?k) = Inr (Some x)"
    using assms(1)
    by (auto simp: stored_session_def get_from_db_def session_key_def bindA_def
        split: if_splits option.splits sum.splits)
  obtain i where i: "row E st Sessions ?k = Some i" and rd: "session_from_db (cfg E) (Some i) = Inr (Some x)"
    using from_db by (cases "row E st Sessions ?k") (auto simp: session_from_db_def)
  have "key_of Sessions i = Some ?k" using row_key [OF i] .
  then have "i ''owner'' = Some (VStr (fst ?k))" and "i ''idea_session_id'' = Some (VStr (snd ?k))"
    by (cases ?k; auto simp: key_of_def schema_defs split: option.splits val.splits)+
  moreover have "py_strip (fst ?k) = fst ?k" "py_strip (snd ?k) = snd ?k" "fst ?k \<noteq> []" "snd ?k \<noteq> []"
    using assms(2) ne
    by (auto simp: clean_key_def session_key_def empty_str_def fmt_def split: option.splits)
  ultimately have "get_value_as_string ''owner'' i None = Some (fst ?k)"
    and "get_value_as_string ''idea_session_id'' i None = Some (snd ?k)"
    by (simp_all add: get_value_as_string_VStr)
  then show "session_key x = ?k"
    using rd by (auto simp: session_from_db_def bindE_eq_Inr session_key_def fmt_def)
  show "st' = st" by (rule st)
  show "vs_state x \<noteq> None" and "state_of_row (row E st Sessions ?k) = vs_state x"
    using rd by (auto simp: session_from_db_def bindE_eq_Inr i state_of_row_def session_state_by_name_def
        by_name_def split: option.splits)
qed

lemma found_sessions_run:
  assumes "found_sessions E g ss st = (Inr found, st')" and "\<forall>s \<in> set ss. clean_key (session_key s)"
    and "\<And>s x. session_key (g s x) = session_key x \<and> vs_state (g s x) = vs_state x"
    and "x \<in> set found"
  shows "session_key x \<in> session_key ` set ss"
    and "vs_state x \<noteq> None"
    and "state_of_row (row E st Sessions (session_key x)) = vs_state x"
proof -
  have "\<forall>x \<in> set found. session_key x \<in> session_key ` set ss \<and> vs_state x \<noteq> None \<and>
      state_of_row (row E st Sessions (session_key x)) = vs_state x"
    using assms(1,2)
  proof (induction ss arbitrary: st found)
    case (Cons s ss)
    obtain y u ys where y: "stored_session E s st = (Inr y, u)" and ys: "found_sessions E g ss u = (Inr ys, st')"
      and found: "found = g s y # ys"
      using Cons.prems(1) by (auto simp: found_sessions_def bindA_eq_Inr)
    have "clean_key (session_key s)" using Cons.prems(2) by simp
    note this = stored_session_run [OF y this]
    then show ?case using Cons.IH [of u ys] ys found Cons.prems(2) assms(3) by auto
  qed (simp add: found_sessions_def)
  then show "session_key x \<in> session_key ` set ss" "vs_state x \<noteq> None"
    "state_of_row (row E st Sessions (session_key x)) = vs_state x"
    using assms(4) by blast+
qed

lemma moves_frame:
  "(\<And>x. x \<in> states \<Longrightarrow> Some x \<in> after) \<Longrightarrow>
     session_frame E (session_moves E d0 named A after) states (movable E d0 named A)"
  unfolding session_frame_def by (auto intro!: moves_tolerates session_update_moves)

lemma moves_start: "session_moves E (st_db st) named A after (st_db st)"
  by (simp add: session_moves_def)

text \<open>A session that was found in a state the request accepts is one the request may move.\<close>

lemma found_movable:
  assumes "\<forall>s \<in> set ss. clean_key (session_key s)"
    and "\<And>s x. session_key (g s x) = session_key x \<and> vs_state (g s x) = vs_state x"
    and "found_sessions E g ss st = (Inr found, st)"
  shows "\<forall>x \<in> set found. in_state A x \<longrightarrow> movable E (st_db st) (session_key ` set ss) A x"
    and "\<forall>x \<in> set found. vs_state x \<noteq> None"
  using found_sessions_run [OF assms(3,1,2)] by (auto simp: movable_def in_state_def split: option.splits)

lemmas request_movable = found_movable [where g = "\<lambda>s x. x\<lparr>vs_force := vs_force s\<rparr>",
  folded stored_sessions_found, simplified session_key_def, simplified, folded session_key_def]
lemmas plain_request_movable = found_movable [where g = "\<lambda>s x. x", folded plain_sessions_found, simplified]

lemma stop_sessions_moves:
  assumes "\<forall>s \<in> set ss. clean_key (session_key s)"
  shows "session_moves E (st_db st) (session_key ` set ss) {READY} {Some STOPPING}
    (st_db (snd (stop_sessions E ss st)))"
  by (rule stop_sessions_frame [OF moves_frame moves_start request_movable(1) [OF assms]]) simp

lemma reboot_sessions_moves:
  assumes "\<forall>s \<in> set ss. clean_key (session_key s)"
  shows "session_moves E (st_db st) (session_key ` set ss) {READY, ERROR} {Some RESUMING}
    (st_db (snd (reboot_sessions E ss st)))"
  by (rule reboot_sessions_frame [OF moves_frame moves_start request_movable(1) [OF assms]]) simp

lemma resume_sessions_moves:
  assumes "\<forall>s \<in> set ss. clean_key (session_key s)"
  shows "session_moves E (st_db st) (session_key ` set ss) {STOPPED} {Some RESUMING}
    (st_db (snd (resume_sessions E ss st)))"
  by (rule resume_sessions_frame [OF moves_frame moves_start plain_request_movable(1) [OF assms]]) simp

lemma session_delete_moves:
  assumes "movable E d0 named A s" and "None \<in> after"
  shows "keeps (table_inv (session_moves E d0 named A after)) (session_db_delete E s)"
proof -
  have "keeps (table_inv (session_moves E d0 named A after)) (db_delete E Sessions (session_key s))"
    using assms
    by (auto simp: keeps_def table_inv_def session_moves_def movable_def state_of_row_def
        simp del: split_paired_All)
  then show ?thesis
    unfolding session_db_delete_def Let_def session_key_def
    by (intro keeps_raise_if keeps_bindA keeps_table_reads keeps_seqA keeps_case_option keeps_raise
        keeps_publications)
qed

lemma terminate_sessions_moves:
  assumes "\<forall>s \<in> set ss. clean_key (session_key s)"
  shows "session_moves E (st_db st) (session_key ` set ss) UNIV {Some DELETING, None}
    (st_db (snd (terminate_sessions E ss st)))"
  by (rule terminate_sessions_frame [OF moves_frame moves_start session_delete_moves])
     (use request_movable [OF assms] in \<open>auto simp: in_state_UNIV\<close>)

end

section \<open>The life cycle\<close>

text \<open>
  C11. Whatever sessions a request names, in whatever state they are, however often they are named and
  however the request ends: stopping only takes sessions from \<open>READY\<close> to \<open>STOPPING\<close>, resuming only from
  \<open>STOPPED\<close> to \<open>RESUMING\<close>, rebooting only from \<open>READY\<close> or \<open>ERROR\<close> to \<open>RESUMING\<close>, and terminating only to
  \<open>DELETING\<close> or to the deletion of the row. The row of a session that is not named stays as it is.
\<close>

theorem requests_follow_the_life_cycle:
  assumes "dynamodb E" and "\<forall>s \<in> set ss. clean_key (session_key s)"
  shows "session_moves E (st_db st) (session_key ` set ss) {READY} {Some STOPPING}
      (st_db (snd (stop_sessions E ss st))) \<and>
    session_moves E (st_db st) (session_key ` set ss) {STOPPED} {Some RESUMING}
      (st_db (snd (resume_sessions E ss st))) \<and>
    session_moves E (st_db st) (session_key ` set ss) {READY, ERROR} {Some RESUMING}
      (st_db (snd (reboot_sessions E ss st))) \<and>
    session_moves E (st_db st) (session_key ` set ss) UNIV {Some DELETING, None}
      (st_db (snd (terminate_sessions E ss st)))"
  using dynamodb.stop_sessions_moves [OF assms] dynamodb.resume_sessions_moves [OF assms]
    dynamodb.reboot_sessions_moves [OF assms] dynamodb.terminate_sessions_moves [OF assms]
  by blast

definition desk_entry :: "(string \<times> val) list" where
  "desk_entry = (case session_to_db desk of Inl _ \<Rightarrow> [] | Inr e \<Rightarrow> e)"

definition desk_state :: "mem_db st" where
  "desk_state = local_state
     [((Sessions, (''ann'', ''s1'')), map_of desk_entry),
      ((Servers, (''i-1'', [])), map_of (server_to_db (Some desk_server)))]"

lemma requests_follow_the_life_cycle_witness:
  "session_moves local_env (st_db desk_state) {(''ann'', ''s1'')} {READY} {Some STOPPING}
     (st_db (snd (stop_sessions local_env [desk] desk_state)))"
proof -
  have k: "session_key desk = (''ann'', ''s1'')" by (simp add: session_key_def desk_def fmt_def)
  have "clean_key (''ann'', ''s1'')" by code_simp
  then have "\<forall>s \<in> set [desk]. clean_key (session_key s)" by (simp add: k)
  from requests_follow_the_life_cycle [OF mem_dynamodb this]
  show ?thesis by (simp add: k)
qed

end
