(* ===== verification/Vdc_Handlers.thy ===== *)
theory Vdc_Handlers
  imports Vdc_Sessions
begin

text \<open>
  The handlers of the controller's event queue that move a session through its life
  (\<^verbatim>\<open>events/handlers\<close>). A handler gets the identity the queue recorded for the sender and the details
  of the event. It ends normally when the message is done with; it raises
  \<open>DO_NOT_DELETE_MESSAGE\<close> to see the message again and \<open>MESSAGE_SOURCE_VALIDATION_FAILED\<close> when the
  sender is not the one such an event comes from.
\<close>

section \<open>Senders\<close>

definition do_not_delete_message :: exn where
  "do_not_delete_message = SocaException DO_NOT_DELETE_MESSAGE"

definition message_source_validation_failed :: exn where
  "message_source_validation_failed = SocaException MESSAGE_SOURCE_VALIDATION_FAILED"

definition role_id_of_sender :: "string \<Rightarrow> string" where
  "role_id_of_sender sender_id = hd (split_at (CHR '':'') sender_id)"

definition get_dcv_instance_id_from_sender_id :: "string \<Rightarrow> string option" where
  "get_dcv_instance_id_from_sender_id sender_id =
     (let parts = split_at (CHR '':'') sender_id in if length parts < 2 then None else Some (parts ! 1))"

definition is_sender_role :: "world \<Rightarrow> string \<Rightarrow> string \<Rightarrow> exn + bool" where
  "is_sender_role w role_key sender_id =
     (let role = role_id_of_sender sender_id in
      if empty_str (Some role) then Inr False
      else bindE (required_string w (''virtual-desktop-controller.'' @ role_key)) (\<lambda>r. Inr (r = role)))"

definition from_role :: "'db env \<Rightarrow> string \<Rightarrow> string \<Rightarrow> ('db st, 'a) act \<Rightarrow> ('db st, 'a) act" where
  "from_role E role_key sender_id k =
     bindA (liftA (is_sender_role (cfg E) role_key sender_id)) (\<lambda>ok.
     raise_if (\<not> ok) message_source_validation_failed k)"

definition from_controller :: "'db env \<Rightarrow> string \<Rightarrow> ('db st, 'a) act \<Rightarrow> ('db st, 'a) act" where
  "from_controller E = from_role E ''controller_iam_role_id''"

definition from_scheduled_lambda :: "'db env \<Rightarrow> string \<Rightarrow> ('db st, 'a) act \<Rightarrow> ('db st, 'a) act" where
  "from_scheduled_lambda E = from_role E ''scheduled_event_transformer_lambda_role_id''"

text \<open>An attribute of the event's details, and the session an event is about.\<close>

definition field :: "item \<Rightarrow> string \<Rightarrow> string option" where
  "field detail key = get_value_as_string key detail None"

definition session_of :: "'db env \<Rightarrow> item \<Rightarrow> ('db st, session option) act" where
  "session_of E detail =
     get_from_db E (field detail ''idea_session_owner'') (field detail ''idea_session_id'')"

definition when_session ::
  "'db env \<Rightarrow> item \<Rightarrow> (session \<Rightarrow> ('db st, unit) act) \<Rightarrow> ('db st, unit) act" where
  "when_session E detail k =
     bindA (session_of E detail) (\<lambda>v. case v of None \<Rightarrow> return () | Some s \<Rightarrow> k s)"

text \<open>The handlers that go on without a test: a missing session has no attributes.\<close>

definition with_session ::
  "'db env \<Rightarrow> item \<Rightarrow> (session \<Rightarrow> ('db st, unit) act) \<Rightarrow> ('db st, unit) act" where
  "with_session E detail k =
     bindA (session_of E detail) (\<lambda>v. case v of None \<Rightarrow> raise AttributeError | Some s \<Rightarrow> k s)"

definition update_session :: "'db env \<Rightarrow> session \<Rightarrow> ('db st, unit) act" where
  "update_session E s = seqA (session_db_update E s) (return ())"

definition update_server :: "'db env \<Rightarrow> server option \<Rightarrow> ('db st, unit) act" where
  "update_server E sv = seqA (server_db_update E sv) (return ())"

text \<open>An event about the host of a session must come from that host.\<close>

definition from_host_of_session ::
  "'db env \<Rightarrow> string \<Rightarrow> item \<Rightarrow> (session \<Rightarrow> server \<Rightarrow> ('db st, unit) act) \<Rightarrow> ('db st, unit) act" where
  "from_host_of_session E sender_id detail k =
     (let sender_instance_id = get_dcv_instance_id_from_sender_id sender_id in
      raise_if (empty_str sender_instance_id) message_source_validation_failed
      (when_session E detail (\<lambda>s.
       case vs_server s of None \<Rightarrow> raise AttributeError | Some sv \<Rightarrow>
         raise_if (sv_instance_id sv \<noteq> sender_instance_id) message_source_validation_failed (k s sv))))"

section \<open>State changes of EC2\<close>

definition handle_stopping_events :: "'db env \<Rightarrow> item \<Rightarrow> ('db st, unit) act" where
  "handle_stopping_events E detail =
     when_session E detail (\<lambda>s.
       if in_state {STOPPED, DELETING, DELETED, ERROR} s then return ()
       else if in_state {PROVISIONING, CREATING, INITIALIZING, RESUMING} s
       then update_session E (s\<lparr>vs_state := Some ERROR\<rparr>)
       else bindA (server_db_get E (field detail ''instance_id'')) (\<lambda>v.
         case v of None \<Rightarrow> raise AttributeError | Some sv \<Rightarrow>
           if field detail ''state'' = Some ''stopping''
           then update_session E (s\<lparr>vs_state := Some STOPPING\<rparr>)
           else seqA (update_server E (Some (sv\<lparr>sv_state := Some ''STOPPED''\<rparr>)))
                     (update_session E (s\<lparr>vs_state := Some STOPPED\<rparr>))))"

definition handle_running_event :: "'db env \<Rightarrow> item \<Rightarrow> ('db st, unit) act" where
  "handle_running_event E detail =
     when_session E detail (\<lambda>s.
       seqA (whenA (vs_hibernation s = Some True \<and> in_state {RESUMING} s)
               (publish_dcv_host_reboot_complete_event E (field detail ''idea_session_id'')
                  (field detail ''idea_session_owner'') (field detail ''instance_id'')))
       (bindA (server_db_get E (field detail ''instance_id'')) (\<lambda>v.
        case v of None \<Rightarrow> raise AttributeError | Some sv \<Rightarrow>
          update_server E (Some (sv\<lparr>sv_state := Some ''CREATED''\<rparr>)))))"

definition ec2_state_change_handler :: "'db env \<Rightarrow> string \<Rightarrow> item \<Rightarrow> ('db st, unit) act" where
  "ec2_state_change_handler E sender_id detail =
     from_controller E sender_id
       (if empty_str (field detail ''instance_id'') then return ()
        else if field detail ''state'' \<in> {Some ''stopping'', Some ''stopped''}
        then handle_stopping_events E detail
        else if field detail ''state'' = Some ''running'' then handle_running_event E detail
        else return ())"

section \<open>Hosts\<close>

definition SESSION_CREATION_THRESHOLD_COUNT :: int where
  "SESSION_CREATION_THRESHOLD_COUNT = 30"

definition create_tag :: "'db env \<Rightarrow> string option \<Rightarrow> string \<Rightarrow> string option \<Rightarrow> ('db st, unit) act" where
  "create_tag E instance_id tag_key tag_value =
     do_call E (Ec2 ''create_tags'' [(''Resources'', VList [opt_str instance_id]),
       (''Tags'', VList [VDict [(''Key'', VStr tag_key), (''Value'', opt_str tag_value)]])])"

definition count_up :: "session_counter \<Rightarrow> session_counter" where
  "count_up c = c\<lparr>ct_counter := ct_counter c + 1\<rparr>"

definition create_dcv_session :: "'db env \<Rightarrow> session \<Rightarrow> ('db st, session) act" where
  "create_dcv_session E s =
     bindA (broker_create_session E s) (\<lambda>session_response.
     bindA (counter_db_get E (vs_id s) DCV_SESSION_CREATION_REQUEST_ACCPETED_COUNTER) (\<lambda>counter.
     if empty_str (vs_failure session_response)
     then bindA (session_db_update E
              (s\<lparr>vs_state := Some INITIALIZING, vs_dcv_id := vs_dcv_id session_response\<rparr>)) (\<lambda>s'.
          case vs_server s' of None \<Rightarrow> raise AttributeError | Some sv \<Rightarrow>
          seqA (create_tag E (sv_instance_id sv) ''res:DCVSessionUUID'' (vs_dcv_id s'))
         (seqA (publish_validate_dcv_session_creation_event E (vs_id s') (vs_owner s'))
         (seqA (whenA (ct_counter counter \<noteq> 0) (counter_db_delete E counter)) (return s'))))
     else if ct_counter counter < SESSION_CREATION_THRESHOLD_COUNT
     then seqA (counter_db_create_or_update E (count_up counter))
            (if vs_state s \<noteq> Some CREATING then session_db_update E (s\<lparr>vs_state := Some CREATING\<rparr>)
             else return s)
     else seqA (counter_db_create_or_update E counter)
            (session_db_update E (s\<lparr>vs_dcv_id := Some [], vs_state := Some ERROR\<rparr>))))"

definition dcv_host_ready_handler :: "'db env \<Rightarrow> string \<Rightarrow> item \<Rightarrow> ('db st, unit) act" where
  "dcv_host_ready_handler E sender_id detail =
     from_host_of_session E sender_id detail (\<lambda>s _.
       if \<not> in_state {PROVISIONING, CREATING} s then return ()
       else bindA (create_dcv_session E s) (\<lambda>s'.
         raise_if (in_state {CREATING} s') do_not_delete_message (return ())))"

definition RESUME_REQUEST_COUNT_THRESHOLD :: int where
  "RESUME_REQUEST_COUNT_THRESHOLD = 6"

definition state_at_broker :: "'db env \<Rightarrow> session \<Rightarrow> ('db st, string option) act" where
  "state_at_broker E s =
     bindA (describe_sessions E [s]) (\<lambda>sessions. return (broker_state sessions (vs_dcv_id s)))"

definition resume_at_broker :: "'db env \<Rightarrow> session \<Rightarrow> ('db st, unit) act" where
  "resume_at_broker E s =
     bindA (resume_session E s) (\<lambda>s'.
     raise_if (\<not> empty_str (vs_failure s')) do_not_delete_message
     (bindA (if vs_state s' \<noteq> Some RESUMING then session_db_update E (s'\<lparr>vs_state := Some RESUMING\<rparr>)
             else return s') (\<lambda>s''.
      case vs_server s'' of None \<Rightarrow> raise AttributeError | Some sv \<Rightarrow>
      bindA (server_db_get E (sv_instance_id sv)) (\<lambda>v.
      case v of None \<Rightarrow> raise AttributeError | Some x \<Rightarrow>
        whenA (sv_state x \<noteq> Some ''CREATED'') (update_server E (Some (x\<lparr>sv_state := Some ''CREATED''\<rparr>)))))))"

text \<open>A session that is \<open>READY\<close> is resumed only when the broker does not know it as working.\<close>

definition dcv_host_reboot_complete_handler :: "'db env \<Rightarrow> string \<Rightarrow> item \<Rightarrow> ('db st, unit) act" where
  "dcv_host_reboot_complete_handler E sender_id detail =
     from_host_of_session E sender_id detail (\<lambda>s _.
       if \<not> in_state {RESUMING, READY, ERROR, STOPPED} s then return ()
       else if in_state {READY} s
       then bindA (state_at_broker E s) (\<lambda>state.
         if state = Some ''CREATING'' then return ()
         else if state = Some ''READY''
         then bindA (counter_db_get E (vs_id s) DCV_SESSION_RESUMED_COUNTER) (\<lambda>counter.
           if ct_counter counter < RESUME_REQUEST_COUNT_THRESHOLD
           then seqA (counter_db_create_or_update E (count_up counter)) (raise do_not_delete_message)
           else counter_db_delete E counter)
         else resume_at_broker E s)
       else resume_at_broker E s)"

section \<open>Validation\<close>

definition VALIDATION_REQUEST_THRESHOLD :: int where
  "VALIDATION_REQUEST_THRESHOLD = 30"

definition SESSION_DELETED_THRESHOLD :: int where
  "SESSION_DELETED_THRESHOLD = 4"

definition validate_creation :: "'db env \<Rightarrow> session \<Rightarrow> ('db st, unit) act" where
  "validate_creation E s =
     bindA (counter_db_get E (vs_id s) VALIDATE_DCV_SESSION_CREATED_COUNTER) (\<lambda>counter.
     if in_state {DELETING, DELETED} s then counter_db_delete E counter
     else bindA (state_at_broker E s) (\<lambda>state.
       if state = Some ''READY''
       then seqA (update_session E (s\<lparr>vs_state := Some READY\<rparr>)) (counter_db_delete E counter)
       else if SESSION_DELETED_THRESHOLD < ct_counter counter \<and> state = Some ''DELETED''
       then update_session E (s\<lparr>vs_state := Some ERROR\<rparr>)
       else if VALIDATION_REQUEST_THRESHOLD < ct_counter counter
       then update_session E (s\<lparr>vs_state := Some ERROR\<rparr>)
       else if in_state {STOPPING} s then return ()
       else seqA (whenA (vs_state s \<noteq> Some INITIALIZING)
                    (update_session E (s\<lparr>vs_state := Some INITIALIZING\<rparr>)))
           (seqA (counter_db_create_or_update E (count_up counter)) (raise do_not_delete_message))))"

definition validate_dcv_session_creation_handler :: "'db env \<Rightarrow> string \<Rightarrow> item \<Rightarrow> ('db st, unit) act" where
  "validate_dcv_session_creation_handler E sender_id detail =
     from_controller E sender_id (when_session E detail (validate_creation E))"

definition continue_stop_session :: "'db env \<Rightarrow> session \<Rightarrow> ('db st, unit) act" where
  "continue_stop_session E s =
     (if vs_hibernation s = Some True then stop_or_hibernate_servers E [] [vs_server s]
      else stop_or_hibernate_servers E [vs_server s] [])"

definition continue_delete_session :: "'db env \<Rightarrow> session \<Rightarrow> ('db st, unit) act" where
  "continue_delete_session E s =
     seqA (delete_schedules_for_session E s)
    (seqA (delete_permissions_for_session E s)
    (seqA (session_db_delete E s)
          (terminate_dcv_hosts E [vs_server s])))"

definition validate_deletion :: "'db env \<Rightarrow> session \<Rightarrow> ('db st, unit) act" where
  "validate_deletion E s =
     (if \<not> in_state {STOPPING, DELETING} s then return ()
      else bindA (state_at_broker E s) (\<lambda>state.
        raise_if (\<not> (empty_str state \<or> state = Some ''DELETED'')) do_not_delete_message
        (if in_state {DELETING} s then continue_delete_session E s else continue_stop_session E s)))"

definition validate_dcv_session_deletion_handler :: "'db env \<Rightarrow> string \<Rightarrow> item \<Rightarrow> ('db st, unit) act" where
  "validate_dcv_session_deletion_handler E sender_id detail =
     from_controller E sender_id (when_session E detail (validate_deletion E))"

end
