(* ===== verification/Vdc_Requests.thy ===== *)
theory Vdc_Requests
  imports Vdc_Handlers
begin

text \<open>
  The other handlers of the event queue: the progress of commands on the hosts, the requests that
  were queued (scheduled stop and resume, termination, permissions), the clock's event, the users,
  the software stacks and the writes to the tables, which are turned into notifications.
\<close>

section \<open>Progress of commands\<close>

definition command_finished :: "item \<Rightarrow> string option" where
  "command_finished detail =
     (let status = the (get_value_as_string ''status'' detail (Some [])) in
      if status \<in> {''Success'', ''Failed''} then Some status else None)"

definition resume_session_progress_handler :: "'db env \<Rightarrow> string \<Rightarrow> item \<Rightarrow> ('db st, unit) act" where
  "resume_session_progress_handler E sender_id detail =
     from_controller E sender_id
       (case command_finished detail of None \<Rightarrow> return () | Some status \<Rightarrow>
        with_session E detail (\<lambda>s.
          if status = ''Success''
          then seqA (publish_validate_dcv_session_creation_event E (vs_id s) (vs_owner s))
              (seqA (ssm_commands_db_delete E (field detail ''command_id''))
                    (update_session E (s\<lparr>vs_state := Some INITIALIZING\<rparr>)))
          else update_session E (s\<lparr>vs_state := Some ERROR\<rparr>)))"

definition disable_userdata_progress_handler :: "'db env \<Rightarrow> string \<Rightarrow> item \<Rightarrow> ('db st, unit) act" where
  "disable_userdata_progress_handler E sender_id detail =
     from_controller E sender_id
       (case command_finished detail of None \<Rightarrow> return () | Some status \<Rightarrow>
        with_session E detail (\<lambda>s.
          if status = ''Success''
          then (case vs_server s of None \<Rightarrow> raise AttributeError | Some sv \<Rightarrow>
             let sv' = Some (sv\<lparr>sv_locked := Some False\<rparr>) in
             seqA (ssm_commands_db_delete E (field detail ''command_id''))
            (seqA (update_server E sv')
                  (update_session E (s\<lparr>vs_locked := Some False, vs_server := sv'\<rparr>))))
          else seqA (update_server E (vs_server s)) (update_session E (s\<lparr>vs_state := Some ERROR\<rparr>))))"

definition create_image_for_instance_id ::
  "'db env \<Rightarrow> string option \<Rightarrow> string option \<Rightarrow> string option \<Rightarrow> ('db st, val) act" where
  "create_image_for_instance_id E instance_id image_name image_description =
     call E (Ec2 ''create_image''
       [(''Name'', VStr (if empty_str image_name then ''RES-IMAGE-NAME-'' @ fmt instance_id else fmt image_name)),
        (''Description'', VStr (if empty_str image_description
           then ''RES-IMAGE-DESCRIPTION-'' @ fmt instance_id else fmt image_description)),
        (''NoReboot'', VBool True), (''InstanceId'', opt_str instance_id)])"

definition continue_software_stack_creation ::
  "'db env \<Rightarrow> session \<Rightarrow> string option \<Rightarrow> ('db st, unit) act" where
  "continue_software_stack_creation E s software_stack_id =
     bindA (software_stack_db_get E software_stack_id (vs_base_os s)) (\<lambda>v.
     case (vs_server s, v) of
       (Some sv, Some stk) \<Rightarrow>
         bindA (create_image_for_instance_id E (sv_instance_id sv) (ss_name stk) (ss_description stk)) (\<lambda>response.
         seqA (software_stack_db_update E (stk\<lparr>ss_ami_id := string_of ''ImageId'' response\<rparr>))
              (publish_validate_software_stack_creation_event E (ss_id stk) (ss_base_os stk)
                 (vs_id s) (vs_owner s) (sv_instance_id sv)))
     | _ \<Rightarrow> raise AttributeError)"

definition enable_userdata_progress_handler :: "'db env \<Rightarrow> string \<Rightarrow> item \<Rightarrow> ('db st, unit) act" where
  "enable_userdata_progress_handler E sender_id detail =
     from_controller E sender_id
       (case command_finished detail of None \<Rightarrow> return () | Some status \<Rightarrow>
        bindA (session_of E detail) (\<lambda>v.
        if status = ''Success''
        then seqA (ssm_commands_db_delete E (field detail ''command_id''))
          (case v of None \<Rightarrow> raise AttributeError | Some s \<Rightarrow>
             seqA (continue_software_stack_creation E s (field detail ''software_stack_id''))
            (seqA (update_server E (vs_server s)) (update_session E s)))
        else (case v of None \<Rightarrow> raise AttributeError | Some s \<Rightarrow>
           seqA (update_server E (vs_server s)) (update_session E (s\<lparr>vs_state := Some ERROR\<rparr>)))))"

section \<open>Software stacks\<close>

definition describe_image_id :: "'db env \<Rightarrow> string option \<Rightarrow> ('db st, val) act" where
  "describe_image_id E ami_id =
     catchA (bindA (call E (Ec2 ''describe_images'' [(''ImageIds'', VList [opt_str ami_id])])) (\<lambda>response.
             return (case list_of ''Images'' response of [] \<Rightarrow> VDict [] | i # _ \<Rightarrow> i)))
       (\<lambda>e. case e of ServiceError _ \<Rightarrow> return (VDict []) | _ \<Rightarrow> raise e)"

definition validate_software_stack_handler :: "'db env \<Rightarrow> string \<Rightarrow> item \<Rightarrow> ('db st, unit) act" where
  "validate_software_stack_handler E sender_id detail =
     from_controller E sender_id
       (bindA (liftA (base_os_by_value (field detail ''software_stack_base_os''))) (\<lambda>os.
        bindA (software_stack_db_get E (field detail ''software_stack_id'') (Some os)) (\<lambda>v.
        case v of None \<Rightarrow> return () | Some stk \<Rightarrow>
        bindA (describe_image_id E (ss_ami_id stk)) (\<lambda>response.
        raise_if (string_of ''State'' response \<noteq> Some ''available'') do_not_delete_message
        (seqA (software_stack_db_update E (stk\<lparr>ss_enabled := Some True\<rparr>))
          (if os = WINDOWS
           then seqA (submit_ssm_command_to_disable_userdata_execution_on_windows E
                        (field detail ''instance_id'') (field detail ''idea_session_id'')
                        (field detail ''idea_session_owner'')) (return ())
           else with_session E detail (\<lambda>s.
             case vs_server s of None \<Rightarrow> raise AttributeError | Some sv \<Rightarrow>
             let sv' = Some (sv\<lparr>sv_locked := Some False\<rparr>) in
             seqA (update_session E (s\<lparr>vs_server := sv', vs_locked := Some False\<rparr>))
                  (update_server E sv'))))))))"

definition software_stack_updated_handler :: "'db env \<Rightarrow> string \<Rightarrow> item \<Rightarrow> ('db st, unit) act" where
  "software_stack_updated_handler E sender_id detail =
     from_controller E sender_id
       (let new_software_stack = the (get_value_as_dict ''new_software_stack'' detail (Some [])) in
        if empty_str (field detail ''idea_session_id'') \<or> empty_str (field detail ''idea_session_owner'') \<or>
           new_software_stack = []
        then return ()
        else when_session E detail (\<lambda>s.
          case vs_stack s of None \<Rightarrow> raise AttributeError | Some stk \<Rightarrow>
          if ss_id stk \<noteq> get_value_as_string ''stack_id'' (map_of new_software_stack) None then return ()
          else bindA (liftA (stack_from_db (Some (map_of new_software_stack)))) (\<lambda>new.
            update_session E (s\<lparr>vs_stack := new\<rparr>))))"

section \<open>Queued requests\<close>

text \<open>A request for one session that failed is seen again.\<close>

definition must_succeed :: "('s, session list \<times> session list) act \<Rightarrow> ('s, unit) act" where
  "must_succeed m = bindA m (\<lambda>(success_list, fail_list).
     raise_if (fail_list \<noteq> []) do_not_delete_message (return ()))"

definition scheduled_resume_handler :: "'db env \<Rightarrow> string \<Rightarrow> item \<Rightarrow> ('db st, unit) act" where
  "scheduled_resume_handler E sender_id detail =
     from_controller E sender_id (when_session E detail (\<lambda>s.
       if in_state {STOPPING, PROVISIONING, CREATING, RESUMING, READY, INITIALIZING, DELETED, DELETING} s
       then return ()
       else must_succeed (resume_sessions E [s])))"

definition scheduled_stop_handler :: "'db env \<Rightarrow> string \<Rightarrow> item \<Rightarrow> ('db st, unit) act" where
  "scheduled_stop_handler E sender_id detail =
     from_controller E sender_id (when_session E detail (\<lambda>s.
       if \<not> in_state {READY} s then return ()
       else if get_value_as_bool ''force'' detail (Some False) \<noteq> Some True
       then (case vs_server s of None \<Rightarrow> raise AttributeError | Some sv \<Rightarrow>
          seqA (submit_ssm_command_to_get_cpu_utilization E (sv_instance_id sv) (vs_id s) (vs_owner s)
                  (vs_base_os s)) (return ()))
       else must_succeed (stop_sessions E [s\<lparr>vs_force := Some True\<rparr>])))"

definition terminate_handler :: "'db env \<Rightarrow> string \<Rightarrow> item \<Rightarrow> ('db st, unit) act" where
  "terminate_handler E sender_id detail =
     from_controller E sender_id
       (must_succeed (terminate_sessions E [no_session
          \<lparr>vs_id := field detail ''idea_session_id'', vs_owner := field detail ''idea_session_owner'',
           vs_force := get_value_as_bool ''force'' detail (Some False)\<rparr>]))"

text \<open>The second test of the state cannot succeed after the first.\<close>

definition permissions_enforce_handler :: "'db env \<Rightarrow> string \<Rightarrow> item \<Rightarrow> ('db st, unit) act" where
  "permissions_enforce_handler E sender_id detail =
     from_controller E sender_id (when_session E detail (\<lambda>s.
       if \<not> in_state {READY, RESUMING, CREATING, INITIALIZING} s then return ()
       else raise_if (in_state {PROVISIONING, STOPPING, STOPPED, ERROR, DELETING} s) do_not_delete_message
         (enforce_session_permissions E s)))"

definition updated_permission :: "item \<Rightarrow> permission \<Rightarrow> exn + permission" where
  "updated_permission detail p =
     (let name = field detail ''new_name''; instance_type = field detail ''new_instance_type'';
          state = field detail ''new_state'';
          p1 = (if empty_str name then p else p\<lparr>sp_session_name := name\<rparr>);
          p2 = (if empty_str instance_type then p1 else p1\<lparr>sp_instance_type := instance_type\<rparr>) in
      if empty_str state then Inr p2
      else bindE (session_state_by_value state) (\<lambda>x. Inr (p2\<lparr>sp_session_state := Some x\<rparr>)))"

definition permissions_update_handler :: "'db env \<Rightarrow> string \<Rightarrow> item \<Rightarrow> ('db st, unit) act" where
  "permissions_update_handler E sender_id detail =
     from_controller E sender_id
       (bindA (get_for_session E (field detail ''idea_session_id'')) (\<lambda>session_permissions.
        for_each session_permissions (\<lambda>p.
          bindA (liftA (updated_permission detail p)) (\<lambda>p'.
          whenA (\<not> (empty_str (field detail ''new_name'') \<and> empty_str (field detail ''new_instance_type'') \<and>
                     empty_str (field detail ''new_state'')))
            (seqA (permission_db_update E p') (return ()))))))"

section \<open>Users\<close>

definition user_created_handler :: "'db env \<Rightarrow> string \<Rightarrow> item \<Rightarrow> ('db st, unit) act" where
  "user_created_handler E sender_id detail = from_controller E sender_id (return ())"

definition user_disabled_handler :: "'db env \<Rightarrow> string \<Rightarrow> item \<Rightarrow> ('db st, unit) act" where
  "user_disabled_handler E sender_id detail =
     from_controller E sender_id
       (if empty_str (field detail ''username'') then return ()
        else bindA (list_all_for_user E (fmt (field detail ''username''))) (\<lambda>sessions.
          for_each sessions (\<lambda>s. publish_idea_session_terminate_event E (vs_id s) (vs_owner s) True)))"

section \<open>The clock\<close>

text \<open>
  Days since 1 January 1970, a Thursday. A permission without an expiry date cannot be compared
  with the time. The pages of permissions are read one after the other; \<open>None\<close> says that there
  were more than \<open>pages\<close> of them, the state is then the one behind those.
\<close>

definition weekday :: "int \<times> int \<Rightarrow> day_of_week" where
  "weekday t = days ! nat (((fst t + snd t) div 86400 + 3) mod 7)"

definition time_of_day :: "int \<times> int \<Rightarrow> int" where
  "time_of_day t = (fst t + snd t) mod 86400"

fun expire_permissions ::
  "'db env \<Rightarrow> int \<Rightarrow> permission list \<Rightarrow> ('db st, (string option \<times> string option) list) act" where
  "expire_permissions E now [] = return []"
| "expire_permissions E now (p # ps) =
     (case sp_expiry_date p of None \<Rightarrow> raise TypeError | Some t \<Rightarrow>
        if t \<le> now
        then seqA (permission_db_delete E p)
              (bindA (expire_permissions E now ps) (\<lambda>infos. return (session_info p # infos)))
        else expire_permissions E now ps)"

fun expire_pages ::
  "'db env \<Rightarrow> int \<Rightarrow> nat \<Rightarrow> key option \<Rightarrow> ('db st, (string option \<times> string option) list option) act" where
  "expire_pages E now 0 cursor = return None"
| "expire_pages E now (Suc pages) cursor =
     bindA (list_all_from_db E cursor) (\<lambda>(permissions, next).
     bindA (expire_permissions E now permissions) (\<lambda>infos.
     case next of
       None \<Rightarrow> return (Some infos)
     | Some k \<Rightarrow> bindA (expire_pages E now pages (Some k)) (\<lambda>rest. return (map_option ((@) infos) rest))))"

definition scheduled_event_handler :: "'db env \<Rightarrow> nat \<Rightarrow> string \<Rightarrow> item \<Rightarrow> ('db st, unit) act" where
  "scheduled_event_handler E pages sender_id detail =
     from_scheduled_lambda E sender_id
       (let event_time = the (get_value_as_string ''time'' detail (Some [])) in
        if is_empty (VStr event_time) then return ()
        else bindA (liftA (local_time (cfg E) event_time)) (\<lambda>t.
          bindA (get_schedules_for_day_of_week E (weekday t)) (\<lambda>schedules.
          seqA (for_each schedules (trigger_schedule E (time_of_day t)))
          (bindA (expire_pages E (fst t) pages None) (\<lambda>infos.
           case infos of None \<Rightarrow> return () | Some is \<Rightarrow>
             for_each (pair_set E is) (\<lambda>(i, owner). publish_enforce_session_permissions_event E i owner))))))"

end
