(* ===== verification/Vdc_Notices.thy ===== *)
theory Vdc_Notices
  imports Vdc_Requests
begin

text \<open>
  The handlers of the events that announce writes to the tables (\<^verbatim>\<open>db_entry_event_handlers\<close>): mails to
  the owner of a session and to those it is shared with, and the events that carry a change on to
  the permissions. A mail is a user and the name of a template; its parameters are left out, and the
  address of the cluster is configured.
\<close>

section \<open>Mails\<close>

definition notification_key :: "string \<Rightarrow> string \<Rightarrow> string" where
  "notification_key name attribute =
     ''virtual-desktop-controller.dcv_session.notifications.'' @ name @ ''.'' @ attribute"

definition required_bool :: "world \<Rightarrow> string \<Rightarrow> exn + bool" where
  "required_bool w key = (case config_bool w key of
      None \<Rightarrow> Inl (SocaException CONFIG_KEY_NOT_FOUND) | Some b \<Rightarrow> Inr b)"

definition send_notification :: "'db env \<Rightarrow> string option \<Rightarrow> string \<Rightarrow> ('db st, unit) act" where
  "send_notification E username template_name = do_call E (SendNotification (fmt username) template_name)"

definition notify_session_owner_of_state_update ::
  "'db env \<Rightarrow> session \<Rightarrow> bool \<Rightarrow> ('db st, unit) act" where
  "notify_session_owner_of_state_update E s deleted =
     bindA (liftA (if deleted then Inr ''deleted''
                   else case vs_state s of None \<Rightarrow> Inl AttributeError
                     | Some x \<Rightarrow> Inr (py_lower (state_value x)))) (\<lambda>name.
     bindA (liftA (required_string (cfg E) (notification_key name ''email_template''))) (\<lambda>template_name.
     bindA (liftA (required_bool (cfg E) (notification_key name ''enabled''))) (\<lambda>enabled.
     whenA enabled (send_notification E (vs_owner s) template_name))))"

definition session_of_entry :: "'db env \<Rightarrow> (string \<times> val) list \<Rightarrow> exn + session" where
  "session_of_entry E entry =
     bindE (session_from_db (cfg E) (if entry = [] then None else Some (map_of entry))) (\<lambda>v.
     case v of None \<Rightarrow> Inl AttributeError | Some s \<Rightarrow> Inr s)"

text \<open>The text of a mail names the day a permission ends on, which must be there.\<close>

definition notify_of_permission ::
  "'db env \<Rightarrow> string \<Rightarrow> bool \<Rightarrow> permission \<Rightarrow> ('db st, unit) act" where
  "notify_of_permission E name dated p =
     bindA (liftA (required_string (cfg E) (notification_key name ''email_template''))) (\<lambda>template_name.
     raise_if (dated \<and> sp_expiry_date p = None) AttributeError
       (send_notification E (sp_actor_name p) template_name))"

definition when_enabled :: "'db env \<Rightarrow> string \<Rightarrow> ('db st, unit) act \<Rightarrow> ('db st, unit) act" where
  "when_enabled E name m =
     bindA (liftA (required_bool (cfg E) (notification_key name ''enabled''))) (\<lambda>enabled. whenA enabled m)"

section \<open>Entries created and deleted\<close>

definition table_of_event :: "world \<Rightarrow> item \<Rightarrow> exn + table" where
  "table_of_event w detail =
     (let name = field detail ''table_name'' in
      case find (\<lambda>t. Some (vdc_table_name w t) = name)
             [SoftwareStacks, Schedules, Sessions, Servers, SessionPermissions, PermissionProfiles] of
        None \<Rightarrow> Inl (KeyError (fmt name))
      | Some t \<Rightarrow> Inr t)"

definition value_of_event :: "string \<Rightarrow> item \<Rightarrow> (string \<times> val) list" where
  "value_of_event key detail = the (get_value_as_dict key detail (Some []))"

definition entry_created :: "'db env \<Rightarrow> table \<Rightarrow> (string \<times> val) list \<Rightarrow> ('db st, unit) act" where
  "entry_created E t new_value = (case t of
      Sessions \<Rightarrow> bindA (liftA (session_of_entry E new_value)) (\<lambda>s.
        notify_session_owner_of_state_update E s False)
    | SessionPermissions \<Rightarrow> bindA (liftA (permission_from_db (map_of new_value))) (\<lambda>p.
        when_enabled E ''session-shared'' (notify_of_permission E ''session-shared'' True p))
    | _ \<Rightarrow> return ())"

definition db_entry_created_handler :: "'db env \<Rightarrow> string \<Rightarrow> item \<Rightarrow> ('db st, unit) act" where
  "db_entry_created_handler E sender_id detail =
     from_controller E sender_id
       (bindA (liftA (table_of_event (cfg E) detail)) (\<lambda>t.
        entry_created E t (value_of_event ''new_value'' detail)))"

definition entry_deleted :: "'db env \<Rightarrow> table \<Rightarrow> (string \<times> val) list \<Rightarrow> ('db st, unit) act" where
  "entry_deleted E t deleted_value = (case t of
      Sessions \<Rightarrow> bindA (liftA (session_of_entry E deleted_value)) (\<lambda>s.
        notify_session_owner_of_state_update E s True)
    | SessionPermissions \<Rightarrow> bindA (liftA (permission_from_db (map_of deleted_value))) (\<lambda>p.
        when_enabled E ''session-permission-expired''
          (notify_of_permission E ''session-permission-expired'' False p))
    | _ \<Rightarrow> return ())"

definition db_entry_deleted_handler :: "'db env \<Rightarrow> string \<Rightarrow> item \<Rightarrow> ('db st, unit) act" where
  "db_entry_deleted_handler E sender_id detail =
     from_controller E sender_id
       (bindA (liftA (table_of_event (cfg E) detail)) (\<lambda>t.
        entry_deleted E t (value_of_event ''deleted_value'' detail)))"

section \<open>Entries updated\<close>

definition instance_type_of :: "session \<Rightarrow> string option" where
  "instance_type_of s = (case vs_server s of None \<Rightarrow> None | Some sv \<Rightarrow> sv_instance_type sv)"

definition handle_user_session_updated ::
  "'db env \<Rightarrow> (string \<times> val) list \<Rightarrow> (string \<times> val) list \<Rightarrow> ('db st, unit) act" where
  "handle_user_session_updated E old_value new_value =
     bindA (liftA (session_from_db (cfg E) (if new_value = [] then None else Some (map_of new_value)))) (\<lambda>new.
     bindA (liftA (session_of_entry E old_value)) (\<lambda>old_session.
     case new of None \<Rightarrow> raise AttributeError | Some new_session \<Rightarrow>
     let new_state = (vs_state old_session \<noteq> vs_state new_session);
         new_type = (vs_server old_session \<noteq> None \<and> vs_server new_session \<noteq> None \<and>
                     instance_type_of old_session \<noteq> instance_type_of new_session) in
     seqA (whenA new_state (notify_session_owner_of_state_update E new_session False))
          (whenA (new_state \<or> vs_name old_session \<noteq> vs_name new_session \<or> new_type)
            (publish_update_session_permissions_event E (vs_id new_session) (vs_name new_session)
               (instance_type_of new_session) (vs_state new_session)))))"

definition handle_software_stack_updated ::
  "'db env \<Rightarrow> (string \<times> val) list \<Rightarrow> (string \<times> val) list \<Rightarrow> ('db st, unit) act" where
  "handle_software_stack_updated E old_value new_value =
     bindA (liftA (stack_from_db (if new_value = [] then None else Some (map_of new_value)))) (\<lambda>v.
     bindA (liftA (stack_from_db (if old_value = [] then None else Some (map_of old_value)))) (\<lambda>u.
     case (v, u) of
       (Some new, Some old) \<Rightarrow>
         whenA (ss_name new \<noteq> ss_name old \<or> ss_description new \<noteq> ss_description old)
           (bindA (list_sessions_with E
                     (case ss_id new of None \<Rightarrow> [] | Some i \<Rightarrow> [(''stack_id'', CONTAINS, VStr i)])) (\<lambda>sessions.
            for_each (pair_set E (map (\<lambda>s. (vs_id s, vs_owner s)) sessions)) (\<lambda>(i, owner).
              publish_idea_session_software_stack_updated_event E i owner new_value)))
     | _ \<Rightarrow> raise AttributeError))"

definition handle_permission_profile_updated ::
  "'db env \<Rightarrow> (string \<times> val) list \<Rightarrow> (string \<times> val) list \<Rightarrow> ('db st, unit) act" where
  "handle_permission_profile_updated E old_value new_value =
     raise_if (new_value = [] \<or> old_value = []) AttributeError
     (let new = profile_permissions (cfg E) (map_of new_value);
          old = profile_permissions (cfg E) (map_of old_value) in
      whenA (\<exists>p \<in> set new. \<exists>q \<in> set old. fst p = fst q \<and> snd p \<noteq> snd q)
        (bindA (list_session_permissions E
                  [(''permission_profile_id'', CONTAINS,
                    VStr (the (get_value_as_string ''profile_id'' (map_of new_value) (Some []))))]) (\<lambda>ps.
         for_each (pair_set E (map session_info ps)) (\<lambda>(i, owner).
           publish_enforce_session_permissions_event E i owner))))"

definition handle_session_permission_updated ::
  "'db env \<Rightarrow> (string \<times> val) list \<Rightarrow> (string \<times> val) list \<Rightarrow> ('db st, unit) act" where
  "handle_session_permission_updated E old_value new_value =
     bindA (liftA (permission_from_db (map_of new_value))) (\<lambda>new.
     when_enabled E ''session-permission-updated''
       (bindA (liftA (permission_from_db (map_of old_value))) (\<lambda>old.
        whenA (sp_profile_id new \<noteq> sp_profile_id old \<or> sp_expiry_date new \<noteq> sp_expiry_date old)
          (notify_of_permission E ''session-permission-updated'' True new))))"

definition entry_updated ::
  "'db env \<Rightarrow> table \<Rightarrow> (string \<times> val) list \<Rightarrow> (string \<times> val) list \<Rightarrow> ('db st, unit) act" where
  "entry_updated E t old_value new_value = (case t of
      SoftwareStacks \<Rightarrow> handle_software_stack_updated E old_value new_value
    | Sessions \<Rightarrow> handle_user_session_updated E old_value new_value
    | PermissionProfiles \<Rightarrow> handle_permission_profile_updated E old_value new_value
    | SessionPermissions \<Rightarrow> handle_session_permission_updated E old_value new_value
    | _ \<Rightarrow> return ())"

definition db_entry_updated_handler :: "'db env \<Rightarrow> string \<Rightarrow> item \<Rightarrow> ('db st, unit) act" where
  "db_entry_updated_handler E sender_id detail =
     from_controller E sender_id
       (bindA (liftA (table_of_event (cfg E) detail)) (\<lambda>t.
        entry_updated E t (value_of_event ''old_value'' detail) (value_of_event ''new_value'' detail)))"

end
