(* ===== verification/Vdc_Queue.thy ===== *)
theory Vdc_Queue
  imports Vdc_Notices
begin

text \<open>
  The two queues of the controller. Threads take messages from the events queue, find the handler of
  the event's type and delete what was handled (\<^verbatim>\<open>events/service/events_handler_thread.py\<close>); another
  thread turns what AWS and the cluster manager send into such events
  (\<^verbatim>\<open>events/service/controller_queue_monitor_service.py\<close>).
\<close>

section \<open>Events\<close>

datatype event_type =
    VALIDATE_SOFTWARE_STACK_CREATION_EVENT
  | VALIDATE_DCV_SESSION_DELETION_EVENT
  | VALIDATE_DCV_SESSION_CREATION_EVENT
  | IDEA_SESSION_RESUME_SESSION_COMMAND_PROGRESS_EVENT
  | IDEA_SESSION_CPU_UTILIZATION_COMMAND_PROGRESS_EVENT
  | ENABLE_USERDATA_WINDOWS_COMMAND_PROGRESS_EVENT
  | DISABLE_USERDATA_WINDOWS_COMMAND_PROGRESS_EVENT
  | IDEA_SESSION_SCHEDULED_RESUME_EVENT
  | IDEA_SESSION_SCHEDULED_STOP_EVENT
  | IDEA_SESSION_TERMINATE_EVENT
  | IDEA_SESSION_SOFTWARE_STACK_UPDATED_EVENT
  | IDEA_SESSION_PERMISSIONS_ENFORCE_EVENT
  | IDEA_SESSION_PERMISSIONS_UPDATE_EVENT
  | EC2_INSTANCE_STATE_CHANGED_EVENT
  | DB_ENTRY_CREATED_EVENT
  | DB_ENTRY_UPDATED_EVENT
  | DB_ENTRY_DELETED_EVENT
  | DCV_HOST_READY_EVENT
  | DCV_HOST_REBOOT_COMPLETE_EVENT
  | DCV_BROKER_USERDATA_EXECUTION_COMPLETE_EVENT
  | SCHEDULED_EVENT
  | USER_CREATED_EVENT
  | USER_DISABLED_EVENT

fun event_type_value :: "event_type \<Rightarrow> string" where
  "event_type_value VALIDATE_SOFTWARE_STACK_CREATION_EVENT = ''VALIDATE_SOFTWARE_STACK_CREATION_EVENT''"
| "event_type_value VALIDATE_DCV_SESSION_DELETION_EVENT = ''VALIDATE_DCV_SESSION_DELETION_EVENT''"
| "event_type_value VALIDATE_DCV_SESSION_CREATION_EVENT = ''VALIDATE_DCV_SESSION_CREATION_EVENT''"
| "event_type_value IDEA_SESSION_RESUME_SESSION_COMMAND_PROGRESS_EVENT = ''IDEA_SESSION_RESUME_SESSION_COMMAND_PROGRESS_EVENT''"
| "event_type_value IDEA_SESSION_CPU_UTILIZATION_COMMAND_PROGRESS_EVENT = ''IDEA_SESSION_CPU_UTILIZATION_COMMAND_PROGRESS_EVENT''"
| "event_type_value ENABLE_USERDATA_WINDOWS_COMMAND_PROGRESS_EVENT = ''ENABLE_USERDATA_WINDOWS_COMMAND_PROGRESS_EVENT''"
| "event_type_value DISABLE_USERDATA_WINDOWS_COMMAND_PROGRESS_EVENT = ''DISABLE_USERDATA_WINDOWS_COMMAND_PROGRESS_EVENT''"
| "event_type_value IDEA_SESSION_SCHEDULED_RESUME_EVENT = ''IDEA_SESSION_SCHEDULED_RESUME_EVENT''"
| "event_type_value IDEA_SESSION_SCHEDULED_STOP_EVENT = ''IDEA_SESSION_SCHEDULED_STOP_EVENT''"
| "event_type_value IDEA_SESSION_TERMINATE_EVENT = ''IDEA_SESSION_TERMINATE_EVENT''"
| "event_type_value IDEA_SESSION_SOFTWARE_STACK_UPDATED_EVENT = ''IDEA_SESSION_SOFTWARE_STACK_UPDATED_EVENT''"
| "event_type_value IDEA_SESSION_PERMISSIONS_ENFORCE_EVENT = ''IDEA_SESSION_PERMISSIONS_ENFORCE_EVENT''"
| "event_type_value IDEA_SESSION_PERMISSIONS_UPDATE_EVENT = ''IDEA_SESSION_PERMISSIONS_UPDATE_EVENT''"
| "event_type_value EC2_INSTANCE_STATE_CHANGED_EVENT = ''EC2_INSTANCE_STATE_CHANGED_EVENT''"
| "event_type_value DB_ENTRY_CREATED_EVENT = ''DB_ENTRY_CREATED_EVENT''"
| "event_type_value DB_ENTRY_UPDATED_EVENT = ''DB_ENTRY_UPDATED_EVENT''"
| "event_type_value DB_ENTRY_DELETED_EVENT = ''DB_ENTRY_DELETED_EVENT''"
| "event_type_value DCV_HOST_READY_EVENT = ''DCV_HOST_READY_EVENT''"
| "event_type_value DCV_HOST_REBOOT_COMPLETE_EVENT = ''DCV_HOST_REBOOT_COMPLETE_EVENT''"
| "event_type_value DCV_BROKER_USERDATA_EXECUTION_COMPLETE_EVENT = ''DCV_BROKER_USERDATA_EXECUTION_COMPLETE_EVENT''"
| "event_type_value SCHEDULED_EVENT = ''SCHEDULED_EVENT''"
| "event_type_value USER_CREATED_EVENT = ''USER_CREATED_EVENT''"
| "event_type_value USER_DISABLED_EVENT = ''USER_DISABLED_EVENT''"

definition event_types :: "event_type list" where
  "event_types =
     [VALIDATE_SOFTWARE_STACK_CREATION_EVENT, VALIDATE_DCV_SESSION_DELETION_EVENT,
      VALIDATE_DCV_SESSION_CREATION_EVENT, IDEA_SESSION_RESUME_SESSION_COMMAND_PROGRESS_EVENT,
      IDEA_SESSION_CPU_UTILIZATION_COMMAND_PROGRESS_EVENT,
      ENABLE_USERDATA_WINDOWS_COMMAND_PROGRESS_EVENT,
      DISABLE_USERDATA_WINDOWS_COMMAND_PROGRESS_EVENT, IDEA_SESSION_SCHEDULED_RESUME_EVENT,
      IDEA_SESSION_SCHEDULED_STOP_EVENT, IDEA_SESSION_TERMINATE_EVENT,
      IDEA_SESSION_SOFTWARE_STACK_UPDATED_EVENT, IDEA_SESSION_PERMISSIONS_ENFORCE_EVENT,
      IDEA_SESSION_PERMISSIONS_UPDATE_EVENT, EC2_INSTANCE_STATE_CHANGED_EVENT,
      DB_ENTRY_CREATED_EVENT, DB_ENTRY_UPDATED_EVENT, DB_ENTRY_DELETED_EVENT,
      DCV_HOST_READY_EVENT, DCV_HOST_REBOOT_COMPLETE_EVENT,
      DCV_BROKER_USERDATA_EXECUTION_COMPLETE_EVENT, SCHEDULED_EVENT, USER_CREATED_EVENT,
      USER_DISABLED_EVENT]"

text \<open>
  An event from the body of a message: a type that is no event type is refused by the data class,
  a missing one is not.
\<close>

record event =
  ev_type :: "event_type option"
  ev_detail :: item

definition event_of_body :: "val \<Rightarrow> exn + event" where
  "event_of_body v = (case v of
      VDict body \<Rightarrow>
        bindE (opt_str_field (map_of body ''event_group_id'')) (\<lambda>_.
        bindE (case map_of body ''event_type'' of
            None \<Rightarrow> Inr None
          | Some VNone \<Rightarrow> Inr None
          | Some (VStr s) \<Rightarrow> (case member_of event_type_value event_types (Some s) of
                None \<Rightarrow> Inl ValidationError | Some t \<Rightarrow> Inr (Some t))
          | Some _ \<Rightarrow> Inl ValidationError) (\<lambda>ty.
        case map_of body ''detail'' of
          None \<Rightarrow> Inr \<lparr>ev_type = ty, ev_detail = Map.empty\<rparr>
        | Some VNone \<Rightarrow> Inr \<lparr>ev_type = ty, ev_detail = Map.empty\<rparr>
        | Some (VDict d) \<Rightarrow> Inr \<lparr>ev_type = ty, ev_detail = map_of d\<rparr>
        | Some _ \<Rightarrow> Inl ValidationError))
    | _ \<Rightarrow> Inl TypeError)"

section \<open>The events queue\<close>

text \<open>
  The handler of a type. The two that are not modelled (the set-up of the broker's tables and the
  measured load of a host) are the parameter \<open>others\<close>; \<open>pages\<close> bounds the pages of permissions the
  clock's event reads.
\<close>

type_synonym 'db handler = "string \<Rightarrow> item \<Rightarrow> ('db st, unit) act"

fun handle_event ::
  "'db env \<Rightarrow> nat \<Rightarrow> (event_type \<Rightarrow> 'db handler) \<Rightarrow> event_type \<Rightarrow> 'db handler"
where
  "handle_event E pages others VALIDATE_SOFTWARE_STACK_CREATION_EVENT = validate_software_stack_handler E"
| "handle_event E pages others VALIDATE_DCV_SESSION_DELETION_EVENT = validate_dcv_session_deletion_handler E"
| "handle_event E pages others VALIDATE_DCV_SESSION_CREATION_EVENT = validate_dcv_session_creation_handler E"
| "handle_event E pages others IDEA_SESSION_RESUME_SESSION_COMMAND_PROGRESS_EVENT = resume_session_progress_handler E"
| "handle_event E pages others IDEA_SESSION_CPU_UTILIZATION_COMMAND_PROGRESS_EVENT =
     others IDEA_SESSION_CPU_UTILIZATION_COMMAND_PROGRESS_EVENT"
| "handle_event E pages others ENABLE_USERDATA_WINDOWS_COMMAND_PROGRESS_EVENT = enable_userdata_progress_handler E"
| "handle_event E pages others DISABLE_USERDATA_WINDOWS_COMMAND_PROGRESS_EVENT = disable_userdata_progress_handler E"
| "handle_event E pages others IDEA_SESSION_SCHEDULED_RESUME_EVENT = scheduled_resume_handler E"
| "handle_event E pages others IDEA_SESSION_SCHEDULED_STOP_EVENT = scheduled_stop_handler E"
| "handle_event E pages others IDEA_SESSION_TERMINATE_EVENT = terminate_handler E"
| "handle_event E pages others IDEA_SESSION_SOFTWARE_STACK_UPDATED_EVENT = software_stack_updated_handler E"
| "handle_event E pages others IDEA_SESSION_PERMISSIONS_ENFORCE_EVENT = permissions_enforce_handler E"
| "handle_event E pages others IDEA_SESSION_PERMISSIONS_UPDATE_EVENT = permissions_update_handler E"
| "handle_event E pages others EC2_INSTANCE_STATE_CHANGED_EVENT = ec2_state_change_handler E"
| "handle_event E pages others DB_ENTRY_CREATED_EVENT = db_entry_created_handler E"
| "handle_event E pages others DB_ENTRY_UPDATED_EVENT = db_entry_updated_handler E"
| "handle_event E pages others DB_ENTRY_DELETED_EVENT = db_entry_deleted_handler E"
| "handle_event E pages others DCV_HOST_READY_EVENT = dcv_host_ready_handler E"
| "handle_event E pages others DCV_HOST_REBOOT_COMPLETE_EVENT = dcv_host_reboot_complete_handler E"
| "handle_event E pages others DCV_BROKER_USERDATA_EXECUTION_COMPLETE_EVENT =
     others DCV_BROKER_USERDATA_EXECUTION_COMPLETE_EVENT"
| "handle_event E pages others SCHEDULED_EVENT = scheduled_event_handler E pages"
| "handle_event E pages others USER_CREATED_EVENT = user_created_handler E"
| "handle_event E pages others USER_DISABLED_EVENT = user_disabled_handler E"

text \<open>A message as \<open>receive_message\<close> answers it, and its parts.\<close>

definition attribute_of :: "string \<Rightarrow> val \<Rightarrow> string" where
  "attribute_of key message =
     the (get_value_as_string key (dict_of (subdict ''Attributes'' message)) (Some []))"

definition group_of :: "val \<Rightarrow> string" where
  "group_of message = attribute_of ''MessageGroupId'' message"

definition receipt_of :: "val \<Rightarrow> string" where
  "receipt_of message = fmt (string_of ''ReceiptHandle'' message)"

definition is_checksum_valid :: "world \<Rightarrow> string option \<Rightarrow> string option \<Rightarrow> exn + bool" where
  "is_checksum_valid w md5checksum body = (case body of
      None \<Rightarrow> Inl AttributeError | Some b \<Rightarrow> Inr (Some (md5 w b) = md5checksum))"

text \<open>
  Is the message to be deleted? An exception of the handler answers that; one that comes from
  reading the message goes on to the caller.
\<close>

definition process_message ::
  "'db env \<Rightarrow> (event_type \<Rightarrow> 'db handler) \<Rightarrow> string set \<Rightarrow> val \<Rightarrow> ('db st, bool) act" where
  "process_message E handle do_not_process message =
     (let body = string_of ''Body'' message in
      bindA (liftA (is_checksum_valid (cfg E) (string_of ''MD5OfBody'' message) body)) (\<lambda>valid.
      if \<not> valid then return True
      else bindA (liftA (bindE (from_json (cfg E) (fmt body)) event_of_body)) (\<lambda>event.
        case ev_type event of
          None \<Rightarrow> return True
        | Some ty \<Rightarrow>
            if group_of message \<notin> do_not_process
            then catchA (seqA (handle ty (attribute_of ''SenderId'' message) (ev_detail event)) (return True))
                   (\<lambda>e. return (e = message_source_validation_failed))
            else return False)))"

text \<open>The messages of a batch in order: those to delete, and the groups that are blocked.\<close>

fun process_messages ::
  "'db env \<Rightarrow> (event_type \<Rightarrow> 'db handler) \<Rightarrow> string set \<Rightarrow> val list \<Rightarrow> ('db st, string list) act" where
  "process_messages E handle do_not_process [] = return []"
| "process_messages E handle do_not_process (message # messages) =
     bindA (process_message E handle do_not_process message) (\<lambda>should_delete_message.
     if should_delete_message
     then bindA (process_messages E handle do_not_process messages) (\<lambda>receipts.
            return (receipt_of message # receipts))
     else process_messages E handle (insert (group_of message) do_not_process) messages)"

definition poll_and_process_queue ::
  "'db env \<Rightarrow> (event_type \<Rightarrow> 'db handler) \<Rightarrow> val list \<Rightarrow> ('db st, unit) act" where
  "poll_and_process_queue E handle messages =
     bindA (liftA (required_string (cfg E) ''virtual-desktop-controller.events_sqs_queue_url'')) (\<lambda>_.
     bindA (process_messages E handle {} messages) (\<lambda>delete_message_info.
     whenA (delete_message_info \<noteq> []) (do_call E (DeleteMessageBatch delete_message_info))))"

text \<open>One turn of a thread: every exception is logged.\<close>

definition monitor_queue_turn ::
  "'db env \<Rightarrow> (event_type \<Rightarrow> 'db handler) \<Rightarrow> val list \<Rightarrow> ('db st, unit) act" where
  "monitor_queue_turn E handle messages =
     catchA (poll_and_process_queue E handle messages) (\<lambda>_. return ())"

section \<open>The controller's queue\<close>

definition publish_user_disabled_event :: "'db env \<Rightarrow> string \<Rightarrow> ('db st, unit) act" where
  "publish_user_disabled_event E username =
     publish_event E (Some username) ''USER_DISABLED_EVENT'' [(''username'', VStr username)]"

definition publish_ec2_state_updated_event ::
  "'db env \<Rightarrow> string option \<Rightarrow> string option \<Rightarrow> string option \<Rightarrow> string option \<Rightarrow> ('db st, unit) act" where
  "publish_ec2_state_updated_event E idea_session_id idea_session_owner instance_id state =
     publish_timed_event E ''EC2_INSTANCE_STATE_CHANGED_EVENT'' idea_session_id
       (session_detail idea_session_id idea_session_owner @
        [(''instance_id'', opt_str instance_id), (''state'', opt_str state)]) []"

text \<open>The event a finished command is reported by, from the type stored with the command.\<close>

definition progress_event :: "string \<Rightarrow> string option" where
  "progress_event t =
     (if t = ''RESUME_SESSION'' then Some ''IDEA_SESSION_RESUME_SESSION_COMMAND_PROGRESS_EVENT''
      else if t = ''WINDOWS_ENABLE_USERDATA_EXECUTION''
      then Some ''ENABLE_USERDATA_WINDOWS_COMMAND_PROGRESS_EVENT''
      else if t = ''WINDOWS_DISABLE_USERDATA_EXECUTION''
      then Some ''DISABLE_USERDATA_WINDOWS_COMMAND_PROGRESS_EVENT''
      else if t = ''CPU_UTILIZATION_CHECK_STOP_SCHEDULED_SESSION''
      then Some ''IDEA_SESSION_CPU_UTILIZATION_COMMAND_PROGRESS_EVENT''
      else None)"

definition publish_command_status_event ::
  "'db env \<Rightarrow> string \<Rightarrow> string \<Rightarrow> item \<Rightarrow> string option \<Rightarrow> ('db st, unit) act" where
  "publish_command_status_event E command_id event_type payload status =
     (let part = (\<lambda>key. get_value_as_string key payload (Some [])) in
      publish_timed_event E event_type (part ''idea_session_id'')
        (session_detail (part ''idea_session_id'') (part ''idea_session_owner'') @
         [(''instance_id'', opt_str (part ''instance_id'')), (''status'', opt_str status),
          (''command_id'', VStr command_id)] @
         (if event_type = ''ENABLE_USERDATA_WINDOWS_COMMAND_PROGRESS_EVENT''
          then [(''software_stack_id'', opt_str (part ''software_stack_id''))] else [])) [])"

definition handle_ssm_commands :: "'db env \<Rightarrow> val \<Rightarrow> ('db st, unit) act" where
  "handle_ssm_commands E message_body =
     bindA (liftA (from_json (cfg E) (the (get_value_as_string ''Message'' (dict_of message_body) (Some []))))) (\<lambda>message.
     case string_of ''commandId'' message of
       None \<Rightarrow> return ()
     | Some command_id \<Rightarrow>
         bindA (db_get E SsmCommands (command_id, [])) (\<lambda>v.
         case v of
           None \<Rightarrow> return ()
         | Some i \<Rightarrow> (case get_value_as_string ''command_type'' i None of
               None \<Rightarrow> raise ValueError
             | Some t \<Rightarrow> (case progress_event t of
                   None \<Rightarrow> raise ValueError
                 | Some event_type \<Rightarrow>
                     publish_command_status_event E command_id event_type
                       (map_of (the (get_value_as_dict ''additional_payload'' i (Some []))))
                       (string_of ''status'' message)))))"

text \<open>An envelope must be a dictionary; the attributes of its payload are read.\<close>

definition handle_ec2_state_change :: "'db env \<Rightarrow> val \<Rightarrow> ('db st, unit) act" where
  "handle_ec2_state_change E message_body =
     bindA (liftA (from_json (cfg E) (the (get_value_as_string ''Message'' (dict_of message_body) (Some []))))) (\<lambda>message.
     let payload = subdict ''payload'' message; instance_id = string_of ''instance-id'' payload in
     bindA (server_db_get E instance_id) (\<lambda>v.
     case v of
       None \<Rightarrow> return ()
     | Some sv \<Rightarrow>
         publish_ec2_state_updated_event E (sv_session_id sv) (sv_session_owner sv) instance_id
           (string_of ''state'' payload)))"

definition handle_user_disabled_event :: "'db env \<Rightarrow> val \<Rightarrow> ('db st, unit) act" where
  "handle_user_disabled_event E envelope =
     (let username = string_of ''username'' (subdict ''payload'' envelope) in
      if empty_str username then return () else publish_user_disabled_event E (fmt username))"

definition process_controller_message :: "'db env \<Rightarrow> val \<Rightarrow> ('db st, unit) act" where
  "process_controller_message E message =
     bindA (liftA (from_json (cfg E) (fmt (string_of ''Body'' message)))) (\<lambda>body.
     if empty_str (string_of ''TopicArn'' body)
     then (if dict_of body ''header'' \<in> {None, Some VNone} then raise AttributeError
       else if string_of ''namespace'' (subdict ''header'' body) = Some ''Accounts.UserDisabledEvent''
       then handle_user_disabled_event E body else return ())
     else
       bindA (liftA (required_string (cfg E) ''virtual-desktop-controller.ssm_commands_sns_topic_arn'')) (\<lambda>ssm.
       if string_of ''TopicArn'' body = Some ssm then handle_ssm_commands E body
       else
         bindA (liftA (required_string (cfg E) ''cluster.ec2.state_change_notifications_sns_topic_arn'')) (\<lambda>ec2.
         if string_of ''TopicArn'' body = Some ec2 then handle_ec2_state_change E body
         else return ())))"

definition poll_controller_queue :: "'db env \<Rightarrow> val list \<Rightarrow> ('db st, unit) act" where
  "poll_controller_queue E messages =
     bindA (liftA (required_string (cfg E) ''virtual-desktop-controller.controller_sqs_queue_url'')) (\<lambda>_.
     seqA (for_each messages (process_controller_message E))
          (whenA (messages \<noteq> []) (do_call E (DeleteMessageBatch (map receipt_of messages)))))"

end
