(* ===== verification/Vdc_Safety.thy ===== *)
theory Vdc_Safety
  imports Vdc_Queue
begin

text \<open>
  What the queue of events guarantees: who may send an event, and that the messages of a group are
  handled in their order.
\<close>

section \<open>Senders\<close>

text \<open>The events that come from the controller itself, and the one that comes from the clock.\<close>

definition sender_role :: "event_type \<Rightarrow> string option" where
  "sender_role ty =
     (if ty \<in> {DCV_HOST_READY_EVENT, DCV_HOST_REBOOT_COMPLETE_EVENT,
               DCV_BROKER_USERDATA_EXECUTION_COMPLETE_EVENT,
               IDEA_SESSION_CPU_UTILIZATION_COMMAND_PROGRESS_EVENT} then None
      else if ty = SCHEDULED_EVENT then Some ''scheduled_event_transformer_lambda_role_id''
      else Some ''controller_iam_role_id'')"

lemma foreign_role_fails:
  assumes "required_string (cfg E) (''virtual-desktop-controller.'' @ role_key) = Inr r"
    and "role_id_of_sender sender \<noteq> r"
  shows "from_role E role_key sender k s = (Inl message_source_validation_failed, s)"
  using assms by (simp add: from_role_def is_sender_role_def Let_def raise_if_def bindA_def)

lemmas handler_defs =
  validate_software_stack_handler_def validate_dcv_session_deletion_handler_def
  validate_dcv_session_creation_handler_def resume_session_progress_handler_def
  enable_userdata_progress_handler_def disable_userdata_progress_handler_def
  scheduled_resume_handler_def scheduled_stop_handler_def terminate_handler_def
  software_stack_updated_handler_def permissions_enforce_handler_def permissions_update_handler_def
  ec2_state_change_handler_def db_entry_created_handler_def db_entry_updated_handler_def
  db_entry_deleted_handler_def scheduled_event_handler_def user_created_handler_def
  user_disabled_handler_def from_controller_def from_scheduled_lambda_def

lemma foreign_sender_fails:
  assumes "sender_role ty = Some role_key"
    and "required_string (cfg E) (''virtual-desktop-controller.'' @ role_key) = Inr r"
    and "role_id_of_sender sender \<noteq> r"
  shows "handle_event E pages others ty sender detail s = (Inl message_source_validation_failed, s)"
  using assms(1)
  by (cases ty)
     (auto simp: sender_role_def handler_defs foreign_role_fails [OF assms(2,3)])

text \<open>
  A message of the queue, as the threads see it: its check sum is right and its body is an event of
  a known type.
\<close>

definition carries :: "world \<Rightarrow> val \<Rightarrow> event_type \<Rightarrow> item \<Rightarrow> bool" where
  "carries w message ty detail \<longleftrightarrow> (\<exists>body. string_of ''Body'' message = Some body \<and>
     string_of ''MD5OfBody'' message = Some (md5 w body) \<and>
     bindE (from_json w body) event_of_body = Inr \<lparr>ev_type = Some ty, ev_detail = detail\<rparr>)"

lemma process_carried:
  assumes "carries (cfg E) message ty detail"
  shows "process_message E handle blocked message s =
    (if group_of message \<in> blocked then (Inr False, s)
     else catchA (seqA (handle ty (attribute_of ''SenderId'' message) detail) (return True))
            (\<lambda>e. return (e = message_source_validation_failed)) s)"
proof -
  obtain body where "string_of ''Body'' message = Some body"
    and "string_of ''MD5OfBody'' message = Some (md5 (cfg E) body)"
    and "bindE (from_json (cfg E) body) event_of_body = Inr \<lparr>ev_type = Some ty, ev_detail = detail\<rparr>"
    using assms by (auto simp: carries_def)
  then show ?thesis
    by (simp add: process_message_def is_checksum_valid_def fmt_def bindA_def)
qed

text \<open>
  C9. An event that did not come from the role its type belongs to changes nothing at all, and the
  thread deletes its message: a message forged into the queue has no effect.
\<close>

theorem forged_events_have_no_effect:
  assumes "carries (cfg E) message ty detail"
    and "group_of message \<notin> blocked"
    and "sender_role ty = Some role_key"
    and "required_string (cfg E) (''virtual-desktop-controller.'' @ role_key) = Inr r"
    and "role_id_of_sender (attribute_of ''SenderId'' message) \<noteq> r"
  shows "process_message E (handle_event E pages others) blocked message s = (Inr True, s)"
  using foreign_sender_fails [OF assms(3-5)] assms(1,2)
  by (simp add: process_carried)

definition forged_message :: val where
  "forged_message = VDict
     [(''Attributes'', VDict [(''MessageGroupId'', VStr ''s1''), (''SenderId'', VStr ''AROAEVIL:i-1'')]),
      (''Body'', VStr ''body''), (''MD5OfBody'', VStr ''body''), (''ReceiptHandle'', VStr ''r1'')]"

definition forged_body :: val where
  "forged_body = VDict [(''event_type'', VStr ''IDEA_SESSION_TERMINATE_EVENT''), (''detail'', VDict [])]"

definition queue_env :: "mem_db env" where
  "queue_env = mem_env None (local_world\<lparr>from_json := \<lambda>_. Inr forged_body\<rparr>)"

section \<open>Order\<close>

lemma process_blocked:
  assumes "carries (cfg E) message ty detail" and "group_of message \<in> blocked"
  shows "process_message E handle blocked message = return False"
  using assms by (simp add: process_carried fun_eq_iff)

lemma return_bindA: "bindA (return x) f = f x"
  by (simp add: fun_eq_iff)

text \<open>Messages of blocked groups are passed over: they are neither handled nor deleted.\<close>

lemma process_skips_blocked:
  assumes "\<And>m. m \<in> set messages \<Longrightarrow> group_of m \<in> b \<Longrightarrow> \<exists>ty detail. carries (cfg E) m ty detail"
    and "b \<subseteq> blocked"
  shows "process_messages E handle blocked messages =
    process_messages E handle blocked (filter (\<lambda>m. group_of m \<notin> b) messages)"
  using assms
proof (induction messages arbitrary: blocked)
  case (Cons m ms)
  have rest: "process_messages E handle b' ms = process_messages E handle b' (filter (\<lambda>m. group_of m \<notin> b) ms)"
    if "b \<subseteq> b'" for b'
    using Cons.IH [OF _ that] Cons.prems(1) by simp
  show ?case
  proof (cases "group_of m \<in> b")
    case True
    then obtain ty detail where "carries (cfg E) m ty detail" using Cons.prems(1) [of m] by auto
    moreover have "group_of m \<in> blocked" using True Cons.prems(2) by blast
    ultimately show ?thesis
      using True rest [OF Cons.prems(2)] by (simp add: process_blocked return_bindA insert_absorb)
  next
    case False
    have "b \<subseteq> insert (group_of m) blocked" using Cons.prems(2) by blast
    then show ?thesis using False rest [OF Cons.prems(2)] rest by (simp cong: if_cong)
  qed
qed simp

text \<open>
  C16. When a message is not handled, the rest of the batch is processed as if the later messages of its
  group had not been received: none of them is handled or deleted before the first one is, so the events
  of a session take effect in their order.
\<close>

theorem order_within_a_group_is_kept:
  assumes "process_message E handle blocked message s = (Inr False, t)"
    and "\<And>m. m \<in> set messages \<Longrightarrow> group_of m = group_of message \<Longrightarrow> \<exists>ty detail. carries (cfg E) m ty detail"
  shows "process_messages E handle blocked (message # messages) s =
    process_messages E handle (insert (group_of message) blocked)
      (filter (\<lambda>m. group_of m \<noteq> group_of message) messages) t"
proof -
  have "process_messages E handle (insert (group_of message) blocked) messages =
      process_messages E handle (insert (group_of message) blocked)
        (filter (\<lambda>m. group_of m \<notin> {group_of message}) messages)"
    by (rule process_skips_blocked) (use assms(2) in auto)
  then show ?thesis using assms(1) by (simp add: bindA_def)
qed

definition retry :: "event_type \<Rightarrow> mem_db handler" where
  "retry ty sender detail = raise do_not_delete_message"

lemma forged_message_carries:
  "carries (cfg queue_env) forged_message IDEA_SESSION_TERMINATE_EVENT Map.empty"
proof -
  have "string_of ''Body'' forged_message = Some ''body''"
    and "string_of ''MD5OfBody'' forged_message = Some (md5 (cfg queue_env) ''body'')"
    by code_simp+
  moreover have "bindE (from_json (cfg queue_env) ''body'') event_of_body =
      Inr \<lparr>ev_type = Some IDEA_SESSION_TERMINATE_EVENT, ev_detail = Map.empty\<rparr>"
    by (simp add: queue_env_def forged_body_def event_of_body_def member_of_def event_types_def
        opt_str_field_def)
  ultimately show ?thesis unfolding carries_def by blast
qed

lemma forged_events_have_no_effect_witness:
  "process_message queue_env (handle_event queue_env 1 (\<lambda>_ _ _. return ())) {} forged_message (local_state []) =
     (Inr True, local_state [])"
proof (rule forged_events_have_no_effect [OF forged_message_carries])
  show "sender_role IDEA_SESSION_TERMINATE_EVENT = Some ''controller_iam_role_id''"
    by (simp add: sender_role_def)
  show "required_string (cfg queue_env) (''virtual-desktop-controller.'' @ ''controller_iam_role_id'') =
      Inr ''virtual-desktop-controller.controller_iam_role_id''"
    by code_simp
  show "role_id_of_sender (attribute_of ''SenderId'' forged_message) \<noteq>
      ''virtual-desktop-controller.controller_iam_role_id''"
    by code_simp
qed simp

lemma order_within_a_group_is_kept_witness:
  "process_messages queue_env retry {} [forged_message, forged_message] (local_state []) = (Inr [], local_state [])"
proof -
  have "process_messages queue_env retry {} [forged_message, forged_message] (local_state []) =
      process_messages queue_env retry (insert (group_of forged_message) {})
        (filter (\<lambda>m. group_of m \<noteq> group_of forged_message) [forged_message]) (local_state [])"
    by (rule order_within_a_group_is_kept)
       (use forged_message_carries in \<open>auto simp: process_carried [OF forged_message_carries] retry_def
          do_not_delete_message_def message_source_validation_failed_def\<close>)
  then show ?thesis by simp
qed

end
