(* ===== verification/Vdc_States.thy ===== *)
theory Vdc_States
  imports Vdc_Lifecycle Vdc_Safety
begin

text \<open>
  The session as the handlers of the event queue see it: an abstract session whose row in the
  table carries it, what reading and updating do to it, and from that the state machine the handlers
  implement.
\<close>

section \<open>A session in its table\<close>

text \<open>\<open>session_at\<close>: the row of the session holds it. The time of the last update is not compared.\<close>

definition session_at :: "'db env \<Rightarrow> 'db st \<Rightarrow> session \<Rightarrow> bool" where
  "session_at E st s \<longleftrightarrow> canonical_session (cfg E) s \<and> vs_owner s \<noteq> None \<and> vs_id s \<noteq> None \<and>
     (\<exists>i. row E st Sessions (session_key s) = Some i \<and> holds_session s i)"

text \<open>The events queue takes every event.\<close>

definition queue_accepts :: "'db env \<Rightarrow> bool" where
  "queue_accepts E \<longleftrightarrow> (\<forall>calls g ty d. \<exists>v. ext_result (cfg E) calls (PublishEvent g ty d) = Inr v)"

text \<open>
  The rows \<open>st'\<close> has are those of \<open>st\<close>, but for one: the frame of an update.
\<close>

definition only_row :: "'db env \<Rightarrow> table \<Rightarrow> key \<Rightarrow> 'db st \<Rightarrow> 'db st \<Rightarrow> bool" where
  "only_row E t k st st' \<longleftrightarrow> (\<forall>t' k'. (t', k') \<noteq> (t, k) \<longrightarrow> row E st' t' k' = row E st t' k')"

lemma session_at_db: "st_db st' = st_db st \<Longrightarrow> session_at E st' s = session_at E st s"
  by (simp add: session_at_def)

lemma map_of_other: "k \<noteq> j \<Longrightarrow> map_of (xs @ (j, v) # ys) k = map_of (xs @ (j, v') # ys) k"
  by (simp add: map_add_def split: option.split)

lemma updated_on_entry:
  assumes "session_to_db s = Inr e"
  shows "\<exists>e'. session_to_db (s\<lparr>vs_updated_on := u\<rparr>) = Inr e' \<and> (\<forall>k. k \<noteq> ''updated_on'' \<longrightarrow> map_of e' k = map_of e k)"
proof -
  have "\<exists>xs ys. \<forall>u. session_to_db (s\<lparr>vs_updated_on := u\<rparr>) =
      Inr (xs @ (''updated_on'', VInt (to_milliseconds u)) # ys)"
    using assms
    by (intro exI [of _ "[(''owner'', opt_str (vs_owner s)), (''idea_session_id'', opt_str (vs_id s)),
          (''created_on'', VInt (to_milliseconds (vs_created_on s)))]"]
        exI [of _ "drop 4 e"])
       (auto simp: session_to_db_def bindE_eq_Inr split: option.splits)
  then obtain xs ys where *: "session_to_db (s\<lparr>vs_updated_on := u\<rparr>) =
      Inr (xs @ (''updated_on'', VInt (to_milliseconds u)) # ys)" for u by blast
  have "e = xs @ (''updated_on'', VInt (to_milliseconds (vs_updated_on s))) # ys"
    using * [of "vs_updated_on s"] assms by simp
  then show ?thesis using * [of u] map_of_other by metis
qed

lemma holds_updated_on: "holds_session s i \<Longrightarrow> holds_session (s\<lparr>vs_updated_on := u\<rparr>) i"
  unfolding holds_session_def by (metis updated_on_entry)

lemma canonical_updated_on [simp]:
  "canonical_session w s \<Longrightarrow> canonical_session w (s\<lparr>vs_updated_on := Some u\<rparr>)"
  by (simp add: canonical_session_def cong: option.case_cong)

lemma canonical_state [simp]:
  "canonical_session w s \<Longrightarrow> canonical_session w (s\<lparr>vs_state := Some x\<rparr>)"
  by (simp add: canonical_session_def cong: option.case_cong)

lemma session_key_fields [simp]:
  "session_key (s\<lparr>vs_updated_on := u\<rparr>) = session_key s" "session_key (s\<lparr>vs_state := x\<rparr>) = session_key s"
  by (simp_all add: session_key_def)

lemma get_from_db_run:
  assumes "session_at E st s"
  obtains u where "get_from_db E (vs_owner s) (vs_id s) st = (Inr (Some (s\<lparr>vs_updated_on := Some u\<rparr>)), st)"
proof -
  obtain i e ms where i: "row E st Sessions (session_key s) = Some i" and e: "session_to_db s = Inr e"
    and r: "\<And>k. k \<noteq> ''updated_on'' \<Longrightarrow> i k = map_of e k" and ms: "i ''updated_on'' = Some (VInt ms)"
    using assms by (auto simp: session_at_def holds_session_def)
  have c: "canonical_session (cfg E) s" using assms by (simp add: session_at_def)
  have "\<not> empty_str (vs_owner s)" "\<not> empty_str (vs_id s)"
    using assms by (auto simp: session_at_def canonical_session_def clean_def empty_str_def)
  moreover obtain u where "to_datetime (Some ms) = Some u" by (simp add: to_datetime_def)
  ultimately show thesis
    using that session_row_read [OF c e r ms] i
    by (simp add: get_from_db_def session_key_def bindA_def)
qed

lemma publish_event_run:
  assumes "queue_accepts E"
  shows "\<exists>calls. publish_event E (Some g) ty d st = (Inr (), st\<lparr>st_trace := st_trace st @ calls\<rparr>)"
proof (cases "empty_str (config_string (cfg E) ''virtual-desktop-controller.events_sqs_queue_url'')")
  case True
  then show ?thesis by (intro exI [of _ "[]"]) (simp add: publish_event_def)
next
  case False
  let ?c = "PublishEvent (map (\<lambda>c. if c = CHR '' '' then CHR ''_'' else c) g) ty d"
  obtain v where "ext_result (cfg E) (st_trace st) ?c = Inr v"
    using assms unfolding queue_accepts_def by blast
  then show ?thesis using False by (intro exI [of _ "[?c]"]) (simp add: publish_event_def)
qed

lemma map_sum_list_length: "map_sum_list f xs = Inr ys \<Longrightarrow> length ys = length xs"
  by (induction xs arbitrary: ys) (auto simp: bindE_eq_Inr)

lemma entry_columns:
  assumes "session_to_db s = Inr e"
  shows "map fst e = [''owner'', ''idea_session_id'', ''created_on'', ''updated_on'', ''server'', ''software_stack'',
      ''base_os'', ''name'', ''description'', ''dcv_session_id'', ''session_type'', ''state'', ''locked'',
      ''hibernation_enabled'', ''is_launched_by_admin'', ''project''] @ map schedule_key days @ [''session_tags'']"
  using assms
  by (auto simp: session_to_db_def bindE_eq_Inr split: option.splits dest!: map_sum_list_length)

lemma entry_same_columns:
  assumes "session_to_db s = Inr e" and "session_to_db s' = Inr e'"
  shows "map_of e k = None \<longleftrightarrow> map_of e' k = None"
  using entry_columns [OF assms(1)] entry_columns [OF assms(2)]
  by (metis list.set_map map_of_eq_None_iff)

lemma entry_created_on:
  "session_to_db s = Inr e \<Longrightarrow> map_of e ''created_on'' = Some (VInt (to_milliseconds (vs_created_on s)))"
  by (auto simp: session_to_db_def bindE_eq_Inr split: option.splits)

lemma entry_updated_on:
  "session_to_db s = Inr e \<Longrightarrow> map_of e ''updated_on'' = Some (VInt (to_milliseconds (vs_updated_on s)))"
  by (auto simp: session_to_db_def bindE_eq_Inr split: option.splits)

text \<open>
  The row after an update of a stored session: what was written replaces the stored attributes, the
  keys and the creation time stay.
\<close>

lemma holds_after_update:
  assumes "holds_session s i" and "session_to_db s' = Inr e'"
    and "vs_created_on s' = vs_created_on s" and "session_key s' = session_key s"
    and "vs_owner s' \<noteq> None" and "vs_id s' \<noteq> None"
  shows "holds_session s' (set_attributes Sessions (session_key s) (Some i)
    (map_of (filter (\<lambda>kv. fst kv \<notin> {''owner'', ''idea_session_id'', ''created_on''})
      (dict_set ''updated_on'' (VInt now) e'))))"
proof -
  obtain e ms where e: "session_to_db s = Inr e" and i: "\<And>k. k \<noteq> ''updated_on'' \<Longrightarrow> i k = map_of e k"
    using assms(1) by (auto simp: holds_session_def)
  define upd where "upd = map_of (filter (\<lambda>kv. fst kv \<notin> {''owner'', ''idea_session_id'', ''created_on''})
      (dict_set ''updated_on'' (VInt now) e'))"
  have upd: "upd k = (if k \<in> {''owner'', ''idea_session_id'', ''created_on''} then None
      else ((map_of e')(''updated_on'' \<mapsto> VInt now)) k)" for k
    unfolding upd_def map_of_filter_fst map_of_dict_set ..
  let ?row = "set_attributes Sessions (session_key s) (Some i) upd"
  have keys: "?row ''owner'' = map_of e' ''owner''" "?row ''idea_session_id'' = map_of e' ''idea_session_id''"
    using session_entry_fields [OF assms(2)] assms(4-6)
    by (auto simp: set_attributes_def key_item_def schema_defs session_key_def fmt_def map_add_def
        split: option.splits)
  have created: "?row ''created_on'' = map_of e' ''created_on''"
    using i [of "''created_on''"] entry_created_on [OF e] entry_created_on [OF assms(2)] assms(3)
    by (simp add: set_attributes_def key_item_def schema_defs map_add_def upd)
  have "?row k = map_of e' k" if "k \<noteq> ''updated_on''" "k \<notin> {''owner'', ''idea_session_id'', ''created_on''}" for k
    using that i [of k] entry_same_columns [OF e assms(2), of k]
    by (auto simp: set_attributes_def key_item_def schema_defs map_add_def upd split: option.splits)
  then have "?row k = map_of e' k" if "k \<noteq> ''updated_on''" for k
    using that keys created by blast
  moreover have "?row ''updated_on'' = Some (VInt now)"
    by (simp add: set_attributes_def key_item_def schema_defs map_add_def upd)
  ultimately show ?thesis using assms(2) unfolding holds_session_def upd_def by blast
qed

section \<open>Updates\<close>

lemma entry_has_key:
  assumes "session_to_db s = Inr e" and "vs_owner s \<noteq> None" and "vs_id s \<noteq> None"
  shows "entry_key Sessions (dict_set ''updated_on'' v e) = Inr (session_key s)"
  using assms session_entry_fields [OF assms(1)]
  by (auto simp: entry_key_def dict_get_def key_of_def schema_defs session_key_def fmt_def)

text \<open>The sessions an update of a stored session may write: the same row, readable again.\<close>

definition version_of :: "'db env \<Rightarrow> session \<Rightarrow> session \<Rightarrow> bool" where
  "version_of E s s' \<longleftrightarrow> canonical_session (cfg E) s' \<and> vs_owner s' = vs_owner s \<and> vs_id s' = vs_id s \<and>
     vs_created_on s' = vs_created_on s"

context dynamodb
begin

lemma session_db_update_run:
  assumes "session_at E st s" and "queue_accepts E" and "version_of E s s'"
  obtains u t where "session_db_update E s' st = (Inr (s'\<lparr>vs_updated_on := Some u\<rparr>), t)"
    and "session_at E t s'" and "only_row E Sessions (session_key s) st t"
proof -
  obtain i where i: "row E st Sessions (session_key s) = Some i" and h: "holds_session s i"
    and ids: "vs_owner s \<noteq> None" "vs_id s \<noteq> None"
    using assms(1) by (auto simp: session_at_def)
  have c: "canonical_session (cfg E) s'" and k: "session_key s' = session_key s"
    and ids': "vs_owner s' \<noteq> None" "vs_id s' \<noteq> None" and cr: "vs_created_on s' = vs_created_on s"
    using assms(3) ids by (simp_all add: version_of_def session_key_def)
  obtain e where e: "session_to_db s' = Inr e" using canonical_entry [OF c] .
  define tm where "tm = time_at (cfg E) (st_ticks st)"
  define st1 where "st1 = st\<lparr>st_ticks := Suc (st_ticks st)\<rparr>"
  define d where "d = dict_set ''updated_on'' (VInt tm) e"
  define upd where "upd = map_of (filter (\<lambda>kv. fst kv \<notin> {''owner'', ''idea_session_id'', ''created_on''}) d)"
  define new where "new = set_attributes Sessions (session_key s) (Some i) upd"
  define st2 where "st2 = st1\<lparr>st_db := ddb_put E (st_db st1) Sessions new\<rparr>"
  have isk: "is_key Sessions (session_key s)" using row_is_key i by blast
  have upd_run: "update_entry E Sessions [''owner'', ''idea_session_id'', ''created_on''] d st1 =
      (Inr (session_key s, Some i), st2)"
    using i isk entry_has_key [OF e ids', of "VInt tm"]
    by (simp add: update_entry_def d_def k st1_def st2_def new_def upd_def del: filter_filter)
  have held: "holds_session s' new"
    using holds_after_update [OF h e cr k ids'] by (simp only: new_def upd_def d_def)
  have "\<exists>calls. trigger_update_event E Sessions (session_key s) (row_dict session_columns i) d st2 =
      (Inr (), st2\<lparr>st_trace := st_trace st2 @ calls\<rparr>)"
    unfolding trigger_update_event_def trigger_event_def by (rule publish_event_run [OF assms(2)])
  then obtain calls where trig: "trigger_update_event E Sessions (session_key s) (row_dict session_columns i) d st2 =
      (Inr (), st2\<lparr>st_trace := st_trace st2 @ calls\<rparr>)" by blast
  obtain u where u: "to_datetime (Some tm) = Some u" by (simp add: to_datetime_def)
  have "session_from_db (cfg E) (Some (map_of d)) = Inr (Some (s'\<lparr>vs_updated_on := Some u\<rparr>))"
    using session_row_read [OF c e, of "map_of d" tm] u by (simp add: d_def)
  then have rb: "read_back E d st' = (Inr (s'\<lparr>vs_updated_on := Some u\<rparr>), st')" for st'
    by (simp add: read_back_def)
  let ?t = "st2\<lparr>st_trace := st_trace st2 @ calls\<rparr>"
  have "session_db_update E s' st = (Inr (s'\<lparr>vs_updated_on := Some u\<rparr>), ?t)"
    using upd_run trig rb
    by (simp add: session_db_update_def e tm_def [symmetric] d_def [symmetric] st1_def [symmetric] Let_def bindA_def seqA_def)
  moreover have "session_at E ?t s'"
    using c ids' held isk k by (auto simp: session_at_def st2_def new_def)
  moreover have "only_row E Sessions (session_key s) st ?t"
    using isk by (auto simp: only_row_def st2_def st1_def new_def)
  ultimately show thesis by (rule that)
qed

lemma update_session_run:
  assumes "session_at E st s" and "queue_accepts E" and "version_of E s s'"
  obtains t where "update_session E s' st = (Inr (), t)" and "session_at E t s'"
    and "only_row E Sessions (session_key s) st t"
proof -
  obtain u t where "session_db_update E s' st = (Inr (s'\<lparr>vs_updated_on := Some u\<rparr>), t)"
    and "session_at E t s'" and "only_row E Sessions (session_key s) st t"
    using session_db_update_run [OF assms] .
  then show thesis using that by (simp add: update_session_def)
qed

text \<open>The state of a stored session is replaced; the session is the one that was just read.\<close>

lemma update_state_run:
  assumes "session_at E st s" and "queue_accepts E"
  obtains t where "update_session E (s\<lparr>vs_updated_on := Some u, vs_state := Some x\<rparr>) st = (Inr (), t)"
    and "session_at E t (s\<lparr>vs_state := Some x\<rparr>)" and "only_row E Sessions (session_key s) st t"
proof -
  let ?s' = "s\<lparr>vs_updated_on := Some u, vs_state := Some x\<rparr>"
  have c: "canonical_session (cfg E) s" using assms(1) by (simp add: session_at_def)
  then have c': "canonical_session (cfg E) (s\<lparr>vs_state := Some x\<rparr>)" by simp
  have "canonical_session (cfg E) (s\<lparr>vs_updated_on := Some u\<rparr>\<lparr>vs_state := Some x\<rparr>)"
    by (rule canonical_state, rule canonical_updated_on, rule c)
  then have v: "version_of E s ?s'" by (simp add: version_of_def)
  obtain t where t: "update_session E ?s' st = (Inr (), t)" "session_at E t ?s'"
    "only_row E Sessions (session_key s) st t"
    using update_session_run [OF assms v] .
  obtain i where i: "row E t Sessions (session_key ?s') = Some i" "holds_session ?s' i"
    using t(2) by (auto simp: session_at_def)
  have "holds_session (?s'\<lparr>vs_updated_on := vs_updated_on s\<rparr>) i" by (rule holds_updated_on [OF i(2)])
  moreover have "?s'\<lparr>vs_updated_on := vs_updated_on s\<rparr> = s\<lparr>vs_state := Some x\<rparr>" by (cases s) simp
  ultimately have "holds_session (s\<lparr>vs_state := Some x\<rparr>) i" by simp
  then have "session_at E t (s\<lparr>vs_state := Some x\<rparr>)"
    using c' i(1) t(2) by (auto simp: session_at_def session_key_def)
  then show thesis using that t by blast
qed

end

section \<open>Events about a session\<close>

definition trusted :: "'db env \<Rightarrow> string \<Rightarrow> bool" where
  "trusted E sender \<longleftrightarrow> is_sender_role (cfg E) ''controller_iam_role_id'' sender = Inr True"

lemma from_controller_run: "trusted E sender \<Longrightarrow> from_controller E sender k = k"
  by (simp add: trusted_def from_controller_def from_role_def fun_eq_iff bindA_def)

definition about :: "item \<Rightarrow> session \<Rightarrow> bool" where
  "about detail s \<longleftrightarrow> field detail ''idea_session_owner'' = vs_owner s \<and>
     field detail ''idea_session_id'' = vs_id s"

lemma about_state [simp]: "about detail (s\<lparr>vs_state := x\<rparr>) = about detail s"
  by (simp add: about_def)

lemma when_session_run:
  assumes "session_at E st s" and "about detail s"
  obtains u where "\<And>k. when_session E detail k st = k (s\<lparr>vs_updated_on := Some u\<rparr>) st"
proof -
  obtain u where "get_from_db E (vs_owner s) (vs_id s) st = (Inr (Some (s\<lparr>vs_updated_on := Some u\<rparr>)), st)"
    using get_from_db_run [OF assms(1)] .
  then have "when_session E detail k st = k (s\<lparr>vs_updated_on := Some u\<rparr>) st" for k
    using assms(2) by (simp add: when_session_def session_of_def about_def bindA_def)
  then show thesis using that by blast
qed

lemma in_state_fields [simp]:
  "in_state A (s\<lparr>vs_updated_on := u\<rparr>) = in_state A s"
  by (simp add: in_state_def)

lemma in_state_Some: "vs_state s = Some x \<Longrightarrow> in_state A s \<longleftrightarrow> x \<in> A"
  by (simp add: in_state_def)

definition server_at :: "'db env \<Rightarrow> 'db st \<Rightarrow> string \<Rightarrow> bool" where
  "server_at E st i \<longleftrightarrow> clean (Some i) \<and> row E st Servers (i, []) \<noteq> None"

context dynamodb
begin

lemma server_run:
  assumes "server_at E st i"
  obtains sv where "server_db_get E (Some i) st = (Inr (Some sv), st)" and "sv_instance_id sv = Some i"
proof -
  obtain r where r: "row E st Servers (i, []) = Some r" using assms by (auto simp: server_at_def)
  have "r ''instance_id'' = Some (VStr i)"
    using row_key [OF r] by (auto simp: key_of_def schema_defs split: option.splits val.splits)
  then have "get_value_as_string ''instance_id'' r None = Some i"
    using assms by (simp add: get_value_as_string_VStr server_at_def clean_def)
  moreover have "\<not> empty_str (Some i)" using assms by (simp add: server_at_def clean_def empty_str_def)
  ultimately show thesis
    using that r by (simp add: server_db_get_def bindA_def fmt_def server_from_db_def no_server_def)
qed

lemma update_server_run:
  assumes "server_at E st i" and "queue_accepts E" and "sv_instance_id sv = Some i"
  obtains t where "update_server E (Some sv) st = (Inr (), t)" and "only_row E Servers (i, []) st t"
proof -
  define d where "d = dict_set ''updated_on'' (VInt (time_at (cfg E) (st_ticks st))) (server_to_db (Some sv))"
  define st1 where "st1 = st\<lparr>st_ticks := Suc (st_ticks st)\<rparr>"
  have key: "entry_key Servers d = Inr (i, [])"
    using assms(3) by (simp add: entry_key_def dict_get_def d_def server_to_db_def key_of_def schema_defs)
  have isk: "is_key Servers (i, [])" by (simp add: is_key_def)
  obtain old where old: "row E st Servers (i, []) = Some old" using assms(1) by (auto simp: server_at_def)
  define new where "new = set_attributes Servers (i, []) (Some old)
      (map_of (filter (\<lambda>kv. fst kv \<notin> {''instance_id'', ''created_on''}) d))"
  define st2 where "st2 = st1\<lparr>st_db := ddb_put E (st_db st1) Servers new\<rparr>"
  have upd: "update_entry E Servers [''instance_id'', ''created_on''] d st1 = (Inr ((i, []), Some old), st2)"
    using old isk key by (simp add: update_entry_def st1_def st2_def new_def del: filter_filter)
  have "\<exists>calls. trigger_update_event E Servers (i, []) (row_dict server_columns old) d st2 =
      (Inr (), st2\<lparr>st_trace := st_trace st2 @ calls\<rparr>)"
    unfolding trigger_update_event_def trigger_event_def by (rule publish_event_run [OF assms(2)])
  then obtain calls where trig: "trigger_update_event E Servers (i, []) (row_dict server_columns old) d st2 =
      (Inr (), st2\<lparr>st_trace := st_trace st2 @ calls\<rparr>)" by blast
  have "update_server E (Some sv) st = (Inr (), st2\<lparr>st_trace := st_trace st2 @ calls\<rparr>)"
    using upd trig
    by (simp add: update_server_def server_db_update_def d_def [symmetric] st1_def [symmetric] Let_def bindA_def seqA_def)
  moreover have "only_row E Servers (i, []) st (st2\<lparr>st_trace := st_trace st2 @ calls\<rparr>)"
    using isk by (auto simp: only_row_def st2_def st1_def new_def)
  ultimately show thesis by (rule that)
qed

end

section \<open>The state machine of EC2 events\<close>

text \<open>What a host that stops means for its session: expected, unexpected, or of no interest.\<close>

fun after_ec2_stop :: "string \<Rightarrow> session_state \<Rightarrow> session_state" where
  "after_ec2_stop ev x =
     (if x \<in> {STOPPED, DELETING, DELETED, ERROR} then x
      else if x \<in> {PROVISIONING, CREATING, INITIALIZING, RESUMING} then ERROR
      else if ev = ''stopping'' then STOPPING else STOPPED)"

lemma session_at_same_state: "session_at E st s \<Longrightarrow> vs_state s = Some x \<Longrightarrow> session_at E st (s\<lparr>vs_state := Some x\<rparr>)"
  by (cases s) simp

lemma session_at_frame:
  "session_at E st s \<Longrightarrow> only_row E t k st st' \<Longrightarrow> t \<noteq> Sessions \<Longrightarrow> session_at E st' s"
  unfolding session_at_def only_row_def by (auto simp del: split_paired_All)

context dynamodb
begin

lemma ec2_stop_run:
  assumes "queue_accepts E" and "trusted E sender"
    and "session_at E st s" and "about detail s" and "vs_state s = Some x"
    and "field detail ''instance_id'' = Some i" and "server_at E st i"
    and "field detail ''state'' = Some ev" and "ev \<in> {''stopping'', ''stopped''}"
  shows "\<exists>t. ec2_state_change_handler E sender detail st = (Inr (), t) \<and>
    session_at E t (s\<lparr>vs_state := Some (after_ec2_stop ev x)\<rparr>)"
proof -
  have "\<not> empty_str (Some i)" using assms(7) by (simp add: server_at_def clean_def empty_str_def)
  then have h: "ec2_state_change_handler E sender detail st = handle_stopping_events E detail st"
    using assms(2,6,8,9) by (auto simp: ec2_state_change_handler_def from_controller_run)
  obtain u where w: "\<And>k. when_session E detail k st = k (s\<lparr>vs_updated_on := Some u\<rparr>) st"
    using when_session_run [OF assms(3,4)] by blast
  obtain sv where sv: "server_db_get E (Some i) st = (Inr (Some sv), st)" "sv_instance_id sv = Some i"
    using server_run [OF assms(7)] .
  have "sv_instance_id (sv\<lparr>sv_state := Some ''STOPPED''\<rparr>) = Some i" using sv(2) by simp
  then obtain st1 where st1: "update_server E (Some (sv\<lparr>sv_state := Some ''STOPPED''\<rparr>)) st = (Inr (), st1)"
    "only_row E Servers (i, []) st st1"
    using update_server_run [OF assms(7,1)] by blast
  have at1: "session_at E st1 s" using session_at_frame [OF assms(3) st1(2)] by simp
  obtain t where t: "update_session E (s\<lparr>vs_updated_on := Some u, vs_state := Some STOPPED\<rparr>) st1 = (Inr (), t)"
    "session_at E t (s\<lparr>vs_state := Some STOPPED\<rparr>)"
    using update_state_run [OF at1 assms(1)] by blast
  have upd: "\<exists>t. update_session E (s\<lparr>vs_updated_on := Some u, vs_state := Some y\<rparr>) st = (Inr (), t) \<and>
      session_at E t (s\<lparr>vs_state := Some y\<rparr>)" for y
    using update_state_run [OF assms(3,1)] by metis
  have in_st: "in_state A s \<longleftrightarrow> x \<in> A" for A using in_state_Some [OF assms(5)] .
  consider "x \<in> {STOPPED, DELETING, DELETED, ERROR}" | "x \<in> {PROVISIONING, CREATING, INITIALIZING, RESUMING}"
    | "x \<in> {READY, STOPPING}" by (cases x) auto
  then show ?thesis
  proof cases
    case 1
    then show ?thesis
      using session_at_same_state [OF assms(3,5)] by (simp add: h handle_stopping_events_def w in_st)
  next
    case 2
    then show ?thesis using upd [of ERROR] by (auto simp: h handle_stopping_events_def w in_st)
  next
    case 3
    then show ?thesis
      using upd [of STOPPING] sv(1) st1(1) t assms(6,8,9)
      by (auto simp: h handle_stopping_events_def w in_st seqA_def bindA_def)
  qed
qed

end


section \<open>Validation of a new session\<close>

text \<open>
  The counter of a session's validations: no row stands for 0. What the broker answers about a session, at
  every time.
\<close>

definition counter_at :: "'db env \<Rightarrow> 'db st \<Rightarrow> string \<Rightarrow> int \<Rightarrow> bool" where
  "counter_at E st i n \<longleftrightarrow> clean (Some i) \<and>
     (case row E st SessionCounters (i, counter_type_value VALIDATE_DCV_SESSION_CREATED_COUNTER) of
        None \<Rightarrow> n = 0 | Some c \<Rightarrow> c ''counter'' = Some (VInt n))"

definition validations :: "string \<Rightarrow> int \<Rightarrow> session_counter" where
  "validations i n = \<lparr>ct_session_id = Some i, ct_type = VALIDATE_DCV_SESSION_CREATED_COUNTER, ct_counter = n\<rparr>"

definition broker_answers :: "'db env \<Rightarrow> string option \<Rightarrow> string option \<Rightarrow> bool" where
  "broker_answers E dcv_session_id state \<longleftrightarrow> (\<forall>calls. \<exists>v entries.
     ext_result (cfg E) calls (DcvBroker ''describe_sessions''
       [(''session_ids'', VList [opt_str dcv_session_id]), (''filters'', VList [])]) = Inr v \<and>
     map_sum_list session_entry (list_of ''sessions'' v) = Inr entries \<and>
     broker_state (fold (\<lambda>(i, v) d. dict_set i v d) entries []) dcv_session_id = state)"

lemma state_at_broker_run:
  assumes "broker_answers E (vs_dcv_id s) state"
  shows "\<exists>calls. state_at_broker E s st = (Inr state, st\<lparr>st_trace := calls\<rparr>)"
proof -
  let ?c = "DcvBroker ''describe_sessions''
       [(''session_ids'', VList [opt_str (vs_dcv_id s)]), (''filters'', VList [])]"
  obtain v entries where "ext_result (cfg E) (st_trace st) ?c = Inr v"
    and "map_sum_list session_entry (list_of ''sessions'' v) = Inr entries"
    and "broker_state (fold (\<lambda>(i, v) d. dict_set i v d) entries []) (vs_dcv_id s) = state"
    using assms unfolding broker_answers_def by blast
  then show ?thesis
    by (intro exI [of _ "st_trace st @ [?c]"])
       (simp add: state_at_broker_def describe_sessions_def describe_sessions_at_broker_def bindA_def)
qed

context dynamodb
begin

lemma counter_get_run:
  assumes "counter_at E st i n"
  shows "counter_db_get E (Some i) VALIDATE_DCV_SESSION_CREATED_COUNTER st = (Inr (validations i n), st)"
proof -
  let ?k = "(i, counter_type_value VALIDATE_DCV_SESSION_CREATED_COUNTER)"
  have i: "py_strip i = i" "i \<noteq> []" using assms by (simp_all add: counter_at_def clean_def)
  have ty: "py_strip (counter_type_value VALIDATE_DCV_SESSION_CREATED_COUNTER) =
      counter_type_value VALIDATE_DCV_SESSION_CREATED_COUNTER" by code_simp
  have found: "counter_from_db c = Inr (validations i n)"
    if "c ''idea_session_id'' = Some (VStr i)"
      "c ''counter_type'' = Some (VStr (counter_type_value VALIDATE_DCV_SESSION_CREATED_COUNTER))"
      "get_value_as_int ''counter'' c (Some 0) = Some n" for c
    using that i ty
    by (simp add: counter_from_db_def get_value_as_string_VStr counter_type_by_value_def by_value_def
        member_of_def validations_def)
  have "\<not> empty_str (Some i)" using i by (simp add: empty_str_def)
  moreover have "counter_from_db (case row E st SessionCounters ?k of
      None \<Rightarrow> [''idea_session_id'' \<mapsto> opt_str (Some i),
        ''counter_type'' \<mapsto> VStr (counter_type_value VALIDATE_DCV_SESSION_CREATED_COUNTER)]
    | Some c \<Rightarrow> c) = Inr (validations i n)"
  proof (cases "row E st SessionCounters ?k")
    case None
    then show ?thesis using assms by (intro found) (simp_all add: counter_at_def)
  next
    case (Some c)
    then have "c ''idea_session_id'' = Some (VStr i)"
      and "c ''counter_type'' = Some (VStr (counter_type_value VALIDATE_DCV_SESSION_CREATED_COUNTER))"
      using row_key [OF Some] by (auto simp: key_of_def schema_defs split: option.splits val.splits)
    then show ?thesis using Some assms found by (simp add: counter_at_def)
  qed
  ultimately show ?thesis by (simp add: counter_db_get_def fmt_def bindA_def)
qed

lemma counter_update_run:
  assumes "clean (Some i)"
  obtains r t where "counter_db_create_or_update E (validations i n) st = (Inr r, t)"
    and "counter_at E t i n"
    and "only_row E SessionCounters (i, counter_type_value VALIDATE_DCV_SESSION_CREATED_COUNTER) st t"
proof -
  let ?k = "(i, counter_type_value VALIDATE_DCV_SESSION_CREATED_COUNTER)"
  let ?new = "set_attributes SessionCounters ?k (row E st SessionCounters ?k) [''counter'' \<mapsto> VInt n]"
  let ?t = "st\<lparr>st_db := ddb_put E (st_db st) SessionCounters ?new\<rparr>"
  have isk: "is_key SessionCounters ?k" by (simp add: is_key_def schema_defs)
  have key: "entry_key SessionCounters (counter_to_db (validations i n)) = Inr ?k"
    by (simp add: entry_key_def dict_get_def counter_to_db_def key_of_def schema_defs validations_def)
  have new: "?new ''counter'' = Some (VInt n)" "?new ''idea_session_id'' = Some (VStr i)"
    "?new ''counter_type'' = Some (VStr (snd ?k))"
    by (simp_all add: set_attributes_def key_item_def schema_defs map_add_def)
  have "py_strip (snd ?k) = snd ?k" by code_simp
  then have "\<exists>r. counter_from_db ?new = Inr r"
    using new assms
    by (simp add: counter_from_db_def get_value_as_string_VStr counter_type_by_value_def by_value_def
        member_of_def clean_def)
  then obtain r where r: "counter_from_db ?new = Inr r" by blast
  have "counter_db_create_or_update E (validations i n) st = (Inr r, ?t)"
    using isk key r by (simp add: counter_db_create_or_update_def validations_def bindA_def)
  moreover have "counter_at E ?t i n" using isk new(1) assms by (simp add: counter_at_def)
  moreover have "only_row E SessionCounters ?k st ?t" using isk by (simp add: only_row_def)
  ultimately show thesis by (rule that)
qed

lemma counter_frame:
  "counter_at E st i n \<Longrightarrow> only_row E t k st st' \<Longrightarrow> t \<noteq> SessionCounters \<Longrightarrow> counter_at E st' i n"
  by (simp add: counter_at_def only_row_def del: split_paired_All)

lemma counter_db: "st_db st' = st_db st \<Longrightarrow> counter_at E st' i n = counter_at E st i n"
  by (simp add: counter_at_def)

text \<open>One delivery of the message, before the threshold and behind it.\<close>

lemma validation_visit:
  assumes "queue_accepts E" and "trusted E sender" and "session_at E st s" and "about detail s"
    and "vs_id s = Some i" and "counter_at E st i n" and "vs_state s = Some x"
    and "x \<notin> {DELETING, DELETED, STOPPING}"
    and "broker_answers E (vs_dcv_id s) state" and "state \<notin> {Some ''READY'', Some ''DELETED''}"
  shows "n \<le> 30 \<Longrightarrow> \<exists>t. validate_dcv_session_creation_handler E sender detail st = (Inl do_not_delete_message, t) \<and>
      session_at E t (s\<lparr>vs_state := Some INITIALIZING\<rparr>) \<and> counter_at E t i (n + 1)"
    and "30 < n \<Longrightarrow> \<exists>t. validate_dcv_session_creation_handler E sender detail st = (Inr (), t) \<and>
      session_at E t (s\<lparr>vs_state := Some ERROR\<rparr>)"
proof -
  obtain u where w: "\<And>k. when_session E detail k st = k (s\<lparr>vs_updated_on := Some u\<rparr>) st"
    using when_session_run [OF assms(3,4)] by blast
  let ?s = "s\<lparr>vs_updated_on := Some u\<rparr>"
  have in_st: "in_state A s \<longleftrightarrow> x \<in> A" for A using in_state_Some [OF assms(7)] .
  have counter: "counter_db_get E (Some i) VALIDATE_DCV_SESSION_CREATED_COUNTER st = (Inr (validations i n), st)"
    by (rule counter_get_run [OF assms(6)])
  have "broker_answers E (vs_dcv_id ?s) state" using assms(9) by simp
  then obtain calls where broker: "state_at_broker E ?s st = (Inr state, st\<lparr>st_trace := calls\<rparr>)"
    using state_at_broker_run by blast
  let ?st = "st\<lparr>st_trace := calls\<rparr>"
  have at: "session_at E ?st s" and cnt: "counter_at E ?st i n"
    using session_at_db [of ?st st E s] counter_db [of ?st st i n] assms(3,6) by simp_all
  have cl: "clean (Some i)" using assms(6) by (simp add: counter_at_def)
  have up: "count_up (validations i n) = validations i (n + 1)" by (simp add: count_up_def validations_def)
  have h: "validate_dcv_session_creation_handler E sender detail st = validate_creation E ?s st"
    using assms(2) by (simp add: validate_dcv_session_creation_handler_def from_controller_run w)
  show "\<exists>t. validate_dcv_session_creation_handler E sender detail st = (Inl do_not_delete_message, t) \<and>
      session_at E t (s\<lparr>vs_state := Some INITIALIZING\<rparr>) \<and> counter_at E t i (n + 1)" if "n \<le> 30"
  proof -
    obtain t1 where t1: "whenA (vs_state ?s \<noteq> Some INITIALIZING)
        (update_session E (?s\<lparr>vs_state := Some INITIALIZING\<rparr>)) ?st = (Inr (), t1)"
      "session_at E t1 (s\<lparr>vs_state := Some INITIALIZING\<rparr>)" "only_row E Sessions (session_key s) ?st t1"
    proof (cases "x = INITIALIZING")
      case True
      then show thesis
        using that [of ?st] session_at_same_state [OF at] assms(7) by (simp add: only_row_def)
    next
      case False
      then have w1: "whenA (vs_state ?s \<noteq> Some INITIALIZING) m = m" for m :: "('a st, unit) act"
        using assms(7) by simp
      show thesis
        using that unfolding w1 by (rule update_state_run [where u = u and x = INITIALIZING, OF at assms(1)])
    qed
    obtain r t where t: "counter_db_create_or_update E (validations i (n + 1)) t1 = (Inr r, t)"
      "counter_at E t i (n + 1)"
      "only_row E SessionCounters (i, counter_type_value VALIDATE_DCV_SESSION_CREATED_COUNTER) t1 t"
      using counter_update_run [OF cl] by blast
    have "validate_creation E ?s st = (Inl do_not_delete_message, t)"
      using counter broker t1(1) t(1) that assms(5,8,10)
      by (auto simp: validate_creation_def in_st up [unfolded validations_def [of i n]]
          validations_def [of i n] SESSION_DELETED_THRESHOLD_def
          VALIDATION_REQUEST_THRESHOLD_def bindA_def seqA_def)
    moreover have "session_at E t (s\<lparr>vs_state := Some INITIALIZING\<rparr>)"
      using session_at_frame [OF t1(2) t(3)] by simp
    ultimately show ?thesis using h t(2) by simp
  qed
  show "\<exists>t. validate_dcv_session_creation_handler E sender detail st = (Inr (), t) \<and>
      session_at E t (s\<lparr>vs_state := Some ERROR\<rparr>)" if "30 < n"
  proof -
    obtain t where t: "update_session E (?s\<lparr>vs_state := Some ERROR\<rparr>) ?st = (Inr (), t)"
      "session_at E t (s\<lparr>vs_state := Some ERROR\<rparr>)"
      using update_state_run [OF at assms(1)] by blast
    have "validate_creation E ?s st = (Inr (), t)"
      using counter broker t(1) that assms(5,8,10)
      by (auto simp: validate_creation_def in_st validations_def SESSION_DELETED_THRESHOLD_def
          VALIDATION_REQUEST_THRESHOLD_def bindA_def)
    then show ?thesis using h t(2) by simp
  qed
qed

end

text \<open>
  A message is delivered until the thread deletes it: when the handler ends normally, or does not accept the
  sender. Every other exception leaves it in the queue, and SQS delivers it again.
\<close>

fun deliver_until_done :: "('db st, unit) act \<Rightarrow> nat \<Rightarrow> 'db st \<Rightarrow> bool \<times> 'db st" where
  "deliver_until_done h 0 st = (False, st)"
| "deliver_until_done h (Suc n) st =
     (case h st of
        (Inr _, t) \<Rightarrow> (True, t)
      | (Inl e, t) \<Rightarrow> if e = message_source_validation_failed then (True, t) else deliver_until_done h n t)"

lemma do_not_delete_differs: "do_not_delete_message \<noteq> message_source_validation_failed"
  by (simp add: do_not_delete_message_def message_source_validation_failed_def)

context dynamodb
begin

lemma validation_run:
  assumes "queue_accepts E" and "trusted E sender" and "about detail s" and "vs_id s = Some i"
    and "broker_answers E (vs_dcv_id s) state" and "state \<notin> {Some ''READY'', Some ''DELETED''}"
  shows "session_at E st (s\<lparr>vs_state := Some x\<rparr>) \<Longrightarrow> x \<notin> {DELETING, DELETED, STOPPING} \<Longrightarrow>
    counter_at E st i (31 - int k) \<Longrightarrow> k \<le> 31 \<Longrightarrow>
    (\<exists>t. deliver_until_done (validate_dcv_session_creation_handler E sender detail) (Suc k) st = (True, t) \<and>
       session_at E t (s\<lparr>vs_state := Some ERROR\<rparr>)) \<and>
    (\<exists>t. deliver_until_done (validate_dcv_session_creation_handler E sender detail) k st = (False, t))"
proof (induction k arbitrary: st x)
  case 0
  have "\<exists>t. validate_dcv_session_creation_handler E sender detail st = (Inr (), t) \<and>
      session_at E t (s\<lparr>vs_state := Some x\<rparr>\<lparr>vs_state := Some ERROR\<rparr>)"
    by (rule validation_visit(2) [where s = "s\<lparr>vs_state := Some x\<rparr>" and n = 31 and i = i and state = state and x = x])
       (use 0 assms in simp_all)
  then show ?case by auto
next
  case (Suc k)
  have "\<exists>t. validate_dcv_session_creation_handler E sender detail st = (Inl do_not_delete_message, t) \<and>
      session_at E t (s\<lparr>vs_state := Some x\<rparr>\<lparr>vs_state := Some INITIALIZING\<rparr>) \<and>
      counter_at E t i (31 - int (Suc k) + 1)"
    by (rule validation_visit(1) [where s = "s\<lparr>vs_state := Some x\<rparr>" and state = state and x = x])
       (use Suc.prems assms in simp_all)
  then obtain t where t: "validate_dcv_session_creation_handler E sender detail st = (Inl do_not_delete_message, t)"
    "session_at E t (s\<lparr>vs_state := Some INITIALIZING\<rparr>)" "counter_at E t i (31 - int k)"
    by auto
  show ?case using Suc.IH [OF t(2) _ t(3)] Suc.prems(4) t(1) do_not_delete_differs by simp
qed

end

text \<open>
  C12. The validation of a new session comes to an end. For a stored session that is not being deleted or
  stopped, whose broker never says that it is ready or deleted, and with no visit counted yet, the message is
  delivered exactly 32 times: the 31 deliveries before leave it in the queue, the 32nd deletes it and leaves the
  session in the state \<open>ERROR\<close>.
\<close>

theorem validation_gives_up:
  assumes "dynamodb E" and "queue_accepts E" and "trusted E sender"
    and "session_at E st s" and "about detail s" and "vs_id s = Some i" and "vs_state s = Some x"
    and "x \<notin> {DELETING, DELETED, STOPPING}" and "counter_at E st i 0"
    and "broker_answers E (vs_dcv_id s) state" and "state \<notin> {Some ''READY'', Some ''DELETED''}"
  shows "(\<exists>t. deliver_until_done (validate_dcv_session_creation_handler E sender detail) 32 st = (True, t) \<and>
      session_at E t (s\<lparr>vs_state := Some ERROR\<rparr>)) \<and>
    (\<exists>t. deliver_until_done (validate_dcv_session_creation_handler E sender detail) 31 st = (False, t))"
proof -
  have "session_at E st (s\<lparr>vs_state := Some x\<rparr>)" by (rule session_at_same_state [OF assms(4,7)])
  then show ?thesis
    using dynamodb.validation_run [OF assms(1,2,3,5,6,10,11) _ assms(8), of st 31] assms(9) by simp
qed

section \<open>A session on a desk\<close>

lemma desk_strings:
  "py_strip ''ann'' = ''ann''" "py_strip ''s1'' = ''s1''" "py_strip ''i-1'' = ''i-1''"
  "py_strip ''stopping'' = ''stopping''"
  by code_simp+

lemma desk_at: "session_at local_env desk_state desk"
proof -
  have e: "session_to_db desk = Inr desk_entry"
    using canonical_entry [OF desk_canonical] by (metis desk_entry_def sum.case(2))
  have k: "session_key desk = (''ann'', ''s1'')" by (simp add: session_key_def desk_def fmt_def)
  have "holds_session desk (map_of desk_entry)" using e entry_updated_on [OF e] by (auto simp: holds_session_def)
  moreover have "key_item Sessions (''ann'', ''s1'') \<subseteq>\<^sub>m map_of desk_entry"
    using session_entry_fields [OF e] by (auto simp: map_le_def key_item_def schema_defs desk_def fmt_def)
  then have "row local_env desk_state Sessions (session_key desk) = Some (map_of desk_entry)"
    by (simp add: k desk_state_def mem_get_def is_key_def schema_defs
        map_add_subsumed2 map_add_subsumed1)
  ultimately show ?thesis
    using desk_canonical by (simp add: session_at_def desk_def)
qed

definition desk_event :: item where
  "desk_event = [''idea_session_owner'' \<mapsto> VStr ''ann'', ''idea_session_id'' \<mapsto> VStr ''s1'',
     ''instance_id'' \<mapsto> VStr ''i-1'', ''state'' \<mapsto> VStr ''stopping'']"

lemma desk_event_about: "about desk_event desk"
  by (simp add: about_def desk_event_def desk_def field_def get_value_as_string_VStr desk_strings)

lemma local_queue: "queue_accepts local_env"
  by (simp add: queue_accepts_def local_world_def)

lemma local_sender: "trusted local_env ''virtual-desktop-controller.controller_iam_role_id:controller''"
proof -
  have "is_sender_role local_world ''controller_iam_role_id'' ''virtual-desktop-controller.controller_iam_role_id:controller'' =
      Inr True" by code_simp
  then show ?thesis by (simp add: trusted_def)
qed


lemma validation_gives_up_witness:
  "\<exists>t. deliver_until_done (validate_dcv_session_creation_handler local_env
        ''virtual-desktop-controller.controller_iam_role_id:controller'' desk_event) 32 desk_state = (True, t) \<and>
     session_at local_env t (desk\<lparr>vs_state := Some ERROR\<rparr>)"
proof -
  have "counter_at local_env desk_state ''s1'' 0"
    by (simp add: counter_at_def desk_state_def mem_get_def clean_def desk_strings)
  moreover have "broker_answers local_env (vs_dcv_id desk) None"
  proof -
    have "list_of ''sessions'' VNone = []" by code_simp
    moreover have "broker_state [] (Some ''dcv1'') = None" by code_simp
    ultimately show ?thesis by (simp add: broker_answers_def local_world_def desk_def)
  qed
  moreover have "vs_id desk = Some ''s1''" "vs_state desk = Some READY" by (simp_all add: desk_def)
  ultimately show ?thesis
    using validation_gives_up [OF mem_dynamodb local_queue local_sender desk_at desk_event_about] by simp
qed

end
