(* ===== verification/Vdc_Instances.thy ===== *)
theory Vdc_Instances
  imports Vdc_Sessions
begin

text \<open>
  The instance types of EC2 a session may run on (\<^verbatim>\<open>virtual_desktop_controller_utils.py\<close>). The descriptions of the instance
  types are what EC2 answers; the code keeps them in a cache.
\<close>

section \<open>Instance types\<close>

definition get_instance_type_info :: "world \<Rightarrow> string option \<Rightarrow> exn + val" where
  "get_instance_type_info w instance_type =
     (case map_of (instance_types w) (fmt instance_type) of
        None \<Rightarrow> Inl (KeyError (fmt instance_type)) | Some info \<Rightarrow> Inr info)"

definition ram_of_info :: "val \<Rightarrow> memory" where
  "ram_of_info info =
     \<lparr>m_value = (case get_value_as_float ''SizeInMiB'' (dict_of (subdict ''MemoryInfo'' info)) of
        None \<Rightarrow> ''0.0'' | Some v \<Rightarrow> v), m_unit = MiB\<rparr>"

definition get_instance_ram :: "world \<Rightarrow> string option \<Rightarrow> exn + memory" where
  "get_instance_ram w instance_type =
     bindE (get_instance_type_info w instance_type) (\<lambda>info. Inr (ram_of_info info))"

definition supported_archs :: "val \<Rightarrow> val list" where
  "supported_archs info = list_of ''SupportedArchitectures'' (subdict ''ProcessorInfo'' info)"

definition get_architecture :: "world \<Rightarrow> string option \<Rightarrow> exn + architecture option" where
  "get_architecture w instance_type =
     bindE (get_instance_type_info w instance_type) (\<lambda>info.
     Inr (case List.map_filter (\<lambda>v. if v = VStr ''arm64'' then Some ARM64
                  else if v = VStr ''x86_64'' then Some X86_64 else None) (supported_archs info) of
            [] \<Rightarrow> None | a # _ \<Rightarrow> Some a))"

definition supported_gpus :: "val \<Rightarrow> val list" where
  "supported_gpus info = list_of ''Gpus'' (subdict ''GpuInfo'' info)"

definition manufacturer :: "val \<Rightarrow> string" where
  "manufacturer supported_gpu =
     py_lower (the (get_value_as_string ''Manufacturer'' (dict_of supported_gpu) (Some [])))"

definition get_gpu_manufacturer :: "world \<Rightarrow> string option \<Rightarrow> exn + gpu" where
  "get_gpu_manufacturer w instance_type =
     bindE (get_instance_type_info w instance_type) (\<lambda>info.
     Inr (case filter (\<lambda>g. manufacturer g \<in> {''nvidia'', ''amd''}) (supported_gpus info) of
            [] \<Rightarrow> NO_GPU
          | g # _ \<Rightarrow> if manufacturer g = ''nvidia'' then NVIDIA else AMD))"

text \<open>The lists of the configuration name instance types and families of them.\<close>

definition instance_type_family :: "string \<Rightarrow> string" where
  "instance_type_family name = hd (split_at (CHR ''.'') name)"

definition named_or_family :: "string list \<Rightarrow> string \<Rightarrow> bool" where
  "named_or_family configured name \<longleftrightarrow>
     name \<in> set (filter (\<lambda>t. CHR ''.'' \<in> set t) configured) \<or>
     instance_type_family name \<in> set (filter (\<lambda>t. CHR ''.'' \<notin> set t) configured)"

text \<open>
  Which GPU must be there: the one asked for; else that of the stack, which only matters on
  Windows or when the stack has one.
\<close>

definition gpu_to_check_against :: "stack option \<Rightarrow> gpu option \<Rightarrow> gpu option" where
  "gpu_to_check_against software_stack asked = (case asked of
      Some g \<Rightarrow> Some g
    | None \<Rightarrow> (case software_stack of None \<Rightarrow> None
        | Some stk \<Rightarrow> if ss_base_os stk = WINDOWS \<or> ss_gpu stk \<noteq> NO_GPU then Some (ss_gpu stk) else None))"

definition gpu_fits :: "gpu option \<Rightarrow> val list \<Rightarrow> bool" where
  "gpu_fits required gpus = (case required of
      None \<Rightarrow> True
    | Some g \<Rightarrow> if g = NO_GPU then gpus = []
        else list_ex (\<lambda>v. manufacturer v = py_lower (gpu_value g)) gpus)"

definition stack_fits :: "stack option \<Rightarrow> (stack \<Rightarrow> bool) \<Rightarrow> bool" where
  "stack_fits software_stack P = (case software_stack of None \<Rightarrow> True | Some stk \<Rightarrow> P stk)"

definition is_valid_instance_type ::
  "world \<Rightarrow> bool \<Rightarrow> stack option \<Rightarrow> gpu option \<Rightarrow> string \<times> val \<Rightarrow> bool" where
  "is_valid_instance_type w hibernation_support software_stack asked = (\<lambda>(name, info).
     stack_fits software_stack (\<lambda>stk. \<not> (ss_base_os stk = RHEL8 \<and> instance_type_family name = ''g4dn'')) \<and>
     named_or_family (config_list w ''virtual-desktop-controller.dcv_session.instance_types.allow'') name \<and>
     \<not> named_or_family (config_list w ''virtual-desktop-controller.dcv_session.instance_types.deny'') name \<and>
     stack_fits software_stack (\<lambda>stk. \<not> memory_less (ram_of_info info) (ss_min_ram stk)) \<and>
     (hibernation_support \<longrightarrow> get_value_as_bool ''HibernationSupported'' (dict_of info) (Some False) = Some True) \<and>
     stack_fits software_stack (\<lambda>stk. VStr (architecture_value (ss_architecture stk)) \<in> set (supported_archs info)) \<and>
     gpu_fits (gpu_to_check_against software_stack asked) (supported_gpus info))"

definition get_valid_instance_types ::
  "world \<Rightarrow> bool \<Rightarrow> stack option \<Rightarrow> gpu option \<Rightarrow> val list" where
  "get_valid_instance_types w hibernation_support software_stack asked =
     map snd (filter (is_valid_instance_type w hibernation_support software_stack asked) (instance_types w))"

text \<open>The answer is a message and whether it went well.\<close>

definition change_instance_type ::
  "'db env \<Rightarrow> string option \<Rightarrow> string option \<Rightarrow> ('db st, string \<times> bool) act" where
  "change_instance_type E instance_id instance_type_name =
     (if empty_str instance_id \<or> empty_str instance_type_name
      then return (''Invalid '' @ fmt instance_id @ '' or '' @ fmt instance_type_name, False)
      else catchA
        (seqA (call E (Ec2 ''modify_instance_attribute''
           [(''InstanceId'', opt_str instance_id), (''Attribute'', VStr ''instanceType''),
            (''Value'', opt_str instance_type_name)])) (return ('''', True)))
        (\<lambda>e. return (exn_text e, False)))"

end
