(* ===== verification/Vdc_Api.thy ===== *)
theory Vdc_Api
  imports Vdc_Instances Vdc_Requests Vdi_Role
begin

text \<open>
  What the user's and the administrator's API of the virtual desktop controller share
  (\<^verbatim>\<open>api/virtual_desktop_api.py\<close>): the checks of requests, what the controller fills in, and the requests
  themselves. The caller is the user of the token, \<open>None\<close> for an application. A check that fails gives the
  object back with the reason, together with \<open>False\<close>; the reasons leave out the sizes of volumes.
\<close>

section \<open>Requests on sessions\<close>

definition complete_session_request :: "string option \<Rightarrow> session \<Rightarrow> session" where
  "complete_session_request caller s = (if empty_str (vs_owner s) then s\<lparr>vs_owner := caller\<rparr> else s)"

definition missing_session_id :: "session \<Rightarrow> session \<times> bool" where
  "missing_session_id s =
     (if empty_str (vs_id s) then (failed_with ''missing session.res_session_id'' s, False) else (s, True))"

definition validate_delete_session_request :: "session \<Rightarrow> session \<times> bool" where
  "validate_delete_session_request s = missing_session_id s"

definition validate_resume_session_request :: "session \<Rightarrow> session \<times> bool" where
  "validate_resume_session_request s = missing_session_id s"

text \<open>The checks of a stop, a reboot and a look-up raise, and end the whole request.\<close>

definition validate_stop_session_request :: "session \<Rightarrow> exn + unit" where
  "validate_stop_session_request s = (if empty_str (vs_id s) then Inl invalid_params else Inr ())"

definition validate_reboot_session_request :: "session \<Rightarrow> exn + unit" where
  "validate_reboot_session_request s = (if empty_str (vs_id s) then Inl invalid_params else Inr ())"

definition validate_get_session_info_request :: "session \<Rightarrow> exn + unit" where
  "validate_get_session_info_request s = (if empty_str (vs_id s) then Inl invalid_params else Inr ())"

section \<open>Creation\<close>

text \<open>
  A project as the cluster manager sends it. The software stack a request names is its key:
  identifier and operating system.
\<close>

definition raw_string :: "string \<Rightarrow> val \<Rightarrow> string option" where
  "raw_string key v = (case dict_of v key of Some (VStr s) \<Rightarrow> Some s | _ \<Rightarrow> None)"

definition raw_strings :: "string \<Rightarrow> val \<Rightarrow> string list option" where
  "raw_strings key v = (case dict_of v key of
      Some (VList vs) \<Rightarrow> Some (List.map_filter (\<lambda>x. case x of VStr s \<Rightarrow> Some s | _ \<Rightarrow> None) vs) | _ \<Rightarrow> None)"

definition project_of_client :: "val \<Rightarrow> session_project" where
  "project_of_client v =
     \<lparr>pj_id = raw_string ''project_id'' v, pj_name = raw_string ''name'' v, pj_title = raw_string ''title'' v,
      pj_enable_budgets = (dict_of v ''enable_budgets'' = Some (VBool True)),
      pj_budget_name = (case dict_of v ''budget'' of Some b \<Rightarrow> raw_string ''budget_name'' b | None \<Rightarrow> None),
      pj_policy_arns = raw_strings ''policy_arns'' v, pj_security_groups = raw_strings ''security_groups'' v\<rparr>"

definition client_user_projects :: "'db env \<Rightarrow> string option \<Rightarrow> ('db st, session_project list) act" where
  "client_user_projects E username =
     bindA (call E (ProjectsClient ''get_user_projects'' [(''username'', opt_str username)])) (\<lambda>r.
     return (case r of VList vs \<Rightarrow> map project_of_client vs | _ \<Rightarrow> []))"

type_synonym stack_key = "string option \<times> base_os option"

type_synonym 'db check = "('db st, session \<times> bool) act"

definition refused :: "string \<Rightarrow> session \<Rightarrow> 'db check" where
  "refused reason s = return (failed_with reason s, False)"

text \<open>\<open>float < float\<close> on decimal texts.\<close>

definition decimal_less :: "string \<Rightarrow> string \<Rightarrow> bool" where
  "decimal_less a b = (case (decimal a, decimal b) of ((n, k), (m, l)) \<Rightarrow> n * 10 ^ l < m * 10 ^ k)"

definition required_int :: "world \<Rightarrow> string \<Rightarrow> exn + int" where
  "required_int w key = (case config_int w key of
      None \<Rightarrow> Inl (SocaException CONFIG_KEY_NOT_FOUND) | Some i \<Rightarrow> Inr i)"

subsection \<open>Budget\<close>

text \<open>Is the budget of the project used up?\<close>

definition budget_exceeded :: "'db env \<Rightarrow> session_project \<Rightarrow> exn + bool" where
  "budget_exceeded E p =
     (if config_bool (cfg E) ''vdc.controller.enforce_project_budgets'' = Some False then Inr False
      else if \<not> pj_enable_budgets p \<or> empty_str (pj_budget_name p) then Inr False
      else bindE (budgets_get_budget (cfg E) (fmt (pj_budget_name p))) (\<lambda>amounts.
        Inr (case amounts of None \<Rightarrow> False | Some (actual_spend, budget_limit) \<Rightarrow>
          decimal_less budget_limit actual_spend)))"

subsection \<open>The host\<close>

definition hibernates :: "session \<Rightarrow> bool" where
  "hibernates s \<longleftrightarrow> vs_hibernation s = Some True"

definition check_hibernation :: "world \<Rightarrow> session \<Rightarrow> stack \<Rightarrow> server \<Rightarrow> exn + string option" where
  "check_hibernation w s stk sv =
     (if hibernates s \<and> ss_base_os stk \<in> {RHEL7, RHEL8, RHEL9, CENTOS7}
      then Inr (Some (''OS '' @ base_os_value (ss_base_os stk) @ '' does not support Instance Hibernation''))
      else if hibernates s \<and> ss_base_os stk = WINDOWS
      then bindE (get_instance_ram w (sv_instance_type sv)) (\<lambda>ram.
        Inr (if memory_greater_int (as_unit GiB ram) 16
             then Some (''OS '' @ base_os_value (ss_base_os stk) @
               '' does not support Instance Hibernation for instances with RAM greater than 16GiB.'')
             else None))
      else Inr None)"

definition check_session_type :: "world \<Rightarrow> session \<Rightarrow> stack \<Rightarrow> server \<Rightarrow> exn + string option" where
  "check_session_type w s stk sv =
     (if vs_type s = Some VIRTUAL \<and> ss_base_os stk = WINDOWS
      then Inr (Some (base_os_value (ss_base_os stk) @ '' does not support Virtual Sessions''))
      else bindE (get_gpu_manufacturer w (sv_instance_type sv)) (\<lambda>g.
      if vs_type s = Some VIRTUAL \<and> g = AMD
      then Inr (Some (''Instance type: '' @ fmt (sv_instance_type sv) @ '' with GPU '' @ gpu_value g @
        '' does not support Virtual Sessions''))
      else bindE (get_architecture w (sv_instance_type sv)) (\<lambda>a.
      if vs_type s = Some CONSOLE \<and> a = Some ARM64
      then Inr (Some (''Instance type: '' @ fmt (sv_instance_type sv) @ '' does not support Console Sessions''))
      else Inr None)))"

definition min_root_volume :: "world \<Rightarrow> session \<Rightarrow> stack \<Rightarrow> server \<Rightarrow> exn + memory" where
  "min_root_volume w s stk sv =
     (if hibernates s
      then bindE (get_instance_ram w (sv_instance_type sv)) (\<lambda>ram. Inr (memory_plus (ss_min_storage stk) ram))
      else Inr (ss_min_storage stk))"

definition check_root_volume :: "world \<Rightarrow> session \<Rightarrow> stack \<Rightarrow> server \<Rightarrow> exn + string option" where
  "check_root_volume w s stk sv = (case sv_root_volume sv of
      None \<Rightarrow> Inr (Some ''missing session.server.root_volume_size'')
    | Some volume \<Rightarrow>
        bindE (required_int w ''virtual-desktop-controller.dcv_session.max_root_volume_memory'') (\<lambda>largest.
        if memory_greater_int volume largest
        then Inr (Some ''root volume size is greater than maximum allowed root volume size'')
        else bindE (min_root_volume w s stk sv) (\<lambda>smallest.
        Inr (if memory_less volume smallest
             then Some ''root volume size is less than the minimum required root volume size'' else None))))"

definition instance_type_allowed :: "world \<Rightarrow> session \<Rightarrow> stack \<Rightarrow> server \<Rightarrow> bool" where
  "instance_type_allowed w s stk sv = list_ex (\<lambda>v.
     sv_instance_type sv = Some (the (get_value_as_string ''InstanceType'' (dict_of v) (Some []))))
     (get_valid_instance_types w (hibernates s) (Some stk) None)"

text \<open>A check of the host: the next one follows when it has nothing to say.\<close>

definition checked ::
  "(exn + string option) \<Rightarrow> session \<Rightarrow> 'db check \<Rightarrow> 'db check" where
  "checked c s k = bindA (liftA c) (\<lambda>r. case r of Some reason \<Rightarrow> refused reason s | None \<Rightarrow> k)"

definition validate_host :: "'db env \<Rightarrow> session \<Rightarrow> stack \<Rightarrow> 'db check" where
  "validate_host E s stk =
     (if vs_hibernation s = None then refused ''missing session.hibernation_enabled'' s
      else case vs_server s of
        None \<Rightarrow> refused ''missing session.server.instance_type'' s
      | Some sv \<Rightarrow>
          if empty_str (sv_instance_type sv) then refused ''missing session.server.instance_type'' s
          else if \<not> instance_type_allowed (cfg E) s stk sv
          then refused (''Invalid session.server.instance_type: '' @ fmt (sv_instance_type sv) @
                 ''. Not allowed for current configuration'') s
          else checked (check_hibernation (cfg E) s stk sv) s
              (checked (check_session_type (cfg E) s stk sv) s
              (checked (check_root_volume (cfg E) s stk sv) s
              (return (s, True)))))"

subsection \<open>The whole request\<close>

text \<open>The project, the stack and its place in the project, the budget, then the host.\<close>

definition validate_stack :: "'db env \<Rightarrow> session \<Rightarrow> session_project \<Rightarrow> stack_key option \<Rightarrow> 'db check" where
  "validate_stack E s p software_stack = (case software_stack of
      None \<Rightarrow> refused ''missing session.software_stack'' s
    | Some (stack_id, os) \<Rightarrow>
        if empty_str stack_id \<or> os = None
        then refused ''missing session.software_stack.stack_id and/or session.software_stack.base_os'' s
        else bindA (software_stack_db_get E stack_id os) (\<lambda>v. case v of
          None \<Rightarrow> refused (''Invalid session.software_stack.stack_id: '' @ fmt stack_id @
            '' and/or session.software_stack.base_os: '' @ fmt (map_option base_os_value os)) s
        | Some stk \<Rightarrow>
            if pj_id p \<notin> set (ss_projects stk)
            then refused (''session.software_stack.stack_id: '' @ fmt stack_id @
                   '' is not part of session.project.project_id: '' @ fmt (pj_id p)) s
            else bindA (liftA (budget_exceeded E p)) (\<lambda>exceeded.
              if exceeded then refused (''Project '' @ fmt (pj_budget_name p) @
                '' budget has been exceeded. Unable to start session. Contact your Administrator.'') s
              else validate_host E (s\<lparr>vs_stack := Some stk\<rparr>) stk)))"

definition validate_create_session_request :: "'db env \<Rightarrow> session \<Rightarrow> stack_key option \<Rightarrow> 'db check" where
  "validate_create_session_request E s software_stack = (case vs_project s of
      None \<Rightarrow> refused ''missing session.project.project_id'' s
    | Some asked \<Rightarrow>
        if empty_str (pj_id asked) then refused ''missing session.project.project_id'' s
        else bindA (client_user_projects E (vs_owner s)) (\<lambda>user_projects.
          case find (\<lambda>p. pj_id p = pj_id asked) user_projects of
            None \<Rightarrow> refused (''User '' @ fmt (vs_owner s) @ '' does not belong in project_id '' @ fmt (pj_id asked)) s
          | Some p \<Rightarrow> validate_stack E (s\<lparr>vs_project := Some p\<rparr>) p software_stack))"

subsection \<open>What is filled in\<close>

definition vdi_iam_instance_profile_arn :: "world \<Rightarrow> string option \<Rightarrow> string" where
  "vdi_iam_instance_profile_arn w project_name =
     ''arn:'' @ fmt (config_string w ''cluster.aws.partition'') @ '':iam::'' @
     fmt (config_string w ''cluster.aws.account_id'') @ '':instance-profile/'' @
     get_vdi_instance_profile_path (cluster_name w) (aws_region w) @ ''/'' @
     get_vdi_instance_profile_name (cluster_name w) (fmt project_name)"

definition instance_profile_arn :: "world \<Rightarrow> session_project \<Rightarrow> server \<Rightarrow> exn + string option" where
  "instance_profile_arn w p sv =
     (if \<not> empty_str (sv_profile_arn sv) then Inr (sv_profile_arn sv)
      else if pj_policy_arns p = None \<or> pj_policy_arns p = Some []
      then bindE (required_string w ''virtual-desktop-controller.dcv_host_instance_profile_arn'') (\<lambda>a. Inr (Some a))
      else Inr (Some (vdi_iam_instance_profile_arn w (pj_name p))))"

definition key_pair_name :: "world \<Rightarrow> server \<Rightarrow> exn + string option" where
  "key_pair_name w sv =
     (if \<not> empty_str (sv_key_pair sv) then Inr (sv_key_pair sv)
      else bindE (required_string w ''cluster.network.ssh_key_pair'') (\<lambda>k. Inr (Some k)))"

definition strings_or_nil :: "string list option \<Rightarrow> string list" where
  "strings_or_nil v = (case v of None \<Rightarrow> [] | Some xs \<Rightarrow> xs)"

definition host_security_groups :: "'db env \<Rightarrow> session_project \<Rightarrow> server \<Rightarrow> exn + string list" where
  "host_security_groups E p sv =
     bindE (required_string (cfg E) ''virtual-desktop-controller.dcv_host_security_group_id'') (\<lambda>g.
     Inr (name_set E (strings_or_nil (sv_security_groups sv) @ [g] @
            config_list (cfg E) ''virtual-desktop-controller.dcv_session.additional_security_groups'' @
            strings_or_nil (pj_security_groups p))))"

definition default_session_type :: "stack \<Rightarrow> gpu \<Rightarrow> session_type" where
  "default_session_type stk g = (if ss_base_os stk = WINDOWS \<or> g = AMD then CONSOLE else VIRTUAL)"

definition complete_create_session_request ::
  "'db env \<Rightarrow> string option \<Rightarrow> session \<Rightarrow> ('db st, session) act" where
  "complete_create_session_request E caller s =
     bindA (if empty_str (vs_name s) then bindA (new_uuid E) (\<lambda>i. return (Some i)) else return (vs_name s)) (\<lambda>name.
     case (vs_server s, vs_stack s, vs_project s) of
       (Some sv, Some stk, Some p) \<Rightarrow>
         bindA (liftA (get_gpu_manufacturer (cfg E) (sv_instance_type sv))) (\<lambda>g.
         bindA (liftA (instance_profile_arn (cfg E) p sv)) (\<lambda>profile.
         bindA (liftA (key_pair_name (cfg E) sv)) (\<lambda>key_pair.
         bindA (liftA (host_security_groups E p sv)) (\<lambda>security_groups.
         bindA (new_uuid E) (\<lambda>idea_session_id.
         return ((complete_session_request caller s)
           \<lparr>vs_name := name,
            vs_type := (case vs_type s of None \<Rightarrow> Some (default_session_type stk g) | t \<Rightarrow> t),
            vs_server := Some (sv\<lparr>sv_profile_arn := profile, sv_key_pair := key_pair,
                                 sv_security_groups := Some security_groups\<rparr>),
            vs_id := Some idea_session_id\<rparr>))))))
     | _ \<Rightarrow> raise AttributeError)"

end
