(* ===== verification/Vdc_Api_Requests.thy ===== *)
theory Vdc_Api_Requests
  imports Vdc_Api
begin

text \<open>
  The requests both APIs of the virtual desktop controller carry out the same way
  (\<^verbatim>\<open>api/virtual_desktop_api.py\<close>): changes of a session, connections and screenshots at the broker
  (\<^verbatim>\<open>dcv_broker_client.py\<close>), permissions and listings. The texts of failures are kept where a later
  step reads whether there is one.
\<close>

section \<open>Changing a session\<close>

text \<open>The name and the description: a new value that is not blank replaces the old one.\<close>

definition new_text :: "string option \<Rightarrow> string option \<Rightarrow> bool" where
  "new_text new old \<longleftrightarrow> \<not> empty_str new \<and> new \<noteq> old"

definition with_new_texts :: "session \<Rightarrow> session \<Rightarrow> session" where
  "with_new_texts new old =
     old\<lparr>vs_name := (if new_text (vs_name new) (vs_name old) then vs_name new else vs_name old),
         vs_description := (if new_text (vs_description new) (vs_description old) then vs_description new
                            else vs_description old)\<rparr>"

definition texts_changed :: "session \<Rightarrow> session \<Rightarrow> bool" where
  "texts_changed new old \<longleftrightarrow>
     new_text (vs_name new) (vs_name old) \<or> new_text (vs_description new) (vs_description old)"

text \<open>
  The instance type is changed on the instance the request names. The answer is the reason of a failure, or
  whether there was a change.
\<close>

definition change_type_of_host ::
  "'db env \<Rightarrow> session \<Rightarrow> session \<Rightarrow> ('db st, string + bool) act" where
  "change_type_of_host E new old = (case vs_server new of
      None \<Rightarrow> return (Inr False)
    | Some sv \<Rightarrow>
        if empty_str (sv_instance_type sv) then return (Inr False)
        else bindA (server_db_get E (sv_instance_id sv)) (\<lambda>v. case v of
          None \<Rightarrow> return (Inr False)
        | Some old_server \<Rightarrow>
            if sv_instance_type old_server = sv_instance_type sv then return (Inr False)
            else if vs_hibernation old = Some True
            then return (Inl (''Not allowed to change Instance type for session: '' @ fmt (vs_id new) @
                   '' because hibernation is enabled''))
            else bindA (change_instance_type E (sv_instance_id sv) (sv_instance_type sv)) (\<lambda>(error, ok).
              return (if ok then Inr True else Inl error))))"

definition with_instance_type :: "string option \<Rightarrow> session \<Rightarrow> exn + session" where
  "with_instance_type instance_type s = (case vs_server s of
      None \<Rightarrow> Inl AttributeError
    | Some sv \<Rightarrow> Inr (s\<lparr>vs_server := Some (sv\<lparr>sv_instance_type := instance_type\<rparr>)\<rparr>))"

definition name_tag :: "'db env \<Rightarrow> session \<Rightarrow> ('db st, unit) act" where
  "name_tag E s = (case vs_server s of
      None \<Rightarrow> raise AttributeError
    | Some sv \<Rightarrow> create_tag E (sv_instance_id sv) ''Name''
        (Some (cluster_name (cfg E) @ ''-'' @ fmt (vs_name s) @ ''-'' @ fmt (vs_owner s))))"

definition save_session :: "'db env \<Rightarrow> session \<Rightarrow> ('db st, session) act" where
  "save_session E s =
     bindA (session_db_update E s) (\<lambda>updated. seqA (name_tag E updated) (return updated))"

definition save_changes ::
  "'db env \<Rightarrow> session \<Rightarrow> session \<Rightarrow> bool \<Rightarrow> session \<Rightarrow> ('db st, session) act" where
  "save_changes E new stored type_changed old =
     bindA (case vs_schedule new of
              None \<Rightarrow> return old | Some week \<Rightarrow> update_schedule_for_session E week old) (\<lambda>old.
     seqA (whenA type_changed (update_server E (vs_server old)))
       (if texts_changed new stored \<or> type_changed \<or> vs_schedule new \<noteq> None
        then save_session E old else return new))"

definition api_update_session :: "'db env \<Rightarrow> session \<Rightarrow> ('db st, session) act" where
  "api_update_session E new =
     bindA (get_from_db E (vs_owner new) (vs_id new)) (\<lambda>v. case v of
       None \<Rightarrow> return (failed_with (''invalid RES session id: '' @ describe_session new @ '' or owner '' @
                 fmt (vs_owner new) @ ''. Not updating the session.'') new)
     | Some stored \<Rightarrow>
         let old = with_new_texts new stored in
         bindA (change_type_of_host E new old) (\<lambda>r. case r of
           Inl error \<Rightarrow> return (new\<lparr>vs_failure := Some error\<rparr>)
         | Inr changed \<Rightarrow>
             bindA (if changed
                    then liftA (with_instance_type (case vs_server new of None \<Rightarrow> None | Some sv \<Rightarrow> sv_instance_type sv) old)
                    else return old)
               (save_changes E new stored changed)))"

section \<open>Connections\<close>

record connection_info =
  ci_dcv_id :: "string option"
  ci_session_id :: "string option"
  ci_session_owner :: "string option"
  ci_endpoint :: "string option"
  ci_username :: "string option"
  ci_web_url_path :: "string option"
  ci_access_token :: "string option"
  ci_failure :: "string option"

definition no_connection :: connection_info where
  "no_connection = \<lparr>ci_dcv_id = None, ci_session_id = None, ci_session_owner = None, ci_endpoint = None,
     ci_username = None, ci_web_url_path = None, ci_access_token = None, ci_failure = None\<rparr>"

definition validate_get_connection_info_request :: "connection_info \<Rightarrow> bool" where
  "validate_get_connection_info_request c \<longleftrightarrow>
     \<not> empty_str (ci_dcv_id c) \<or> \<not> empty_str (ci_session_owner c) \<and> \<not> empty_str (ci_session_id c)"

definition broker_connection_data ::
  "'db env \<Rightarrow> string option \<Rightarrow> string option \<Rightarrow> ('db st, connection_info) act" where
  "broker_connection_data E dcv_session_id username =
     bindA (catchA (bindA (call E (DcvBroker ''get_session_connection_data''
                [(''session_id'', opt_str dcv_session_id), (''user'', opt_str username)])) (\<lambda>r. return (Some r)))
              (\<lambda>e. return None)) (\<lambda>answer.
     return (case answer of
       None \<Rightarrow> no_connection\<lparr>ci_failure := Some (''Error in retrieving session connection data for DCV Session ID: '' @
                 fmt dcv_session_id @ '' for username: '' @ fmt username)\<rparr>
     | Some r \<Rightarrow> (let s = subdict ''session'' r in
         no_connection\<lparr>ci_dcv_id := string_of ''id'' s, ci_session_owner := string_of ''owner'' s,
           ci_username := username, ci_web_url_path := string_of ''web_url_path'' (subdict ''server'' s),
           ci_access_token := string_of ''connection_token'' r\<rparr>)))"

definition connection_endpoint :: "world \<Rightarrow> exn + string" where
  "connection_endpoint w =
     bindE (if config_bool w ''virtual-desktop-controller.dcv_connection_gateway.certificate.provided'' = Some True
            then required_string w ''virtual-desktop-controller.dcv_connection_gateway.certificate.custom_dns_name''
            else required_string w ''virtual-desktop-controller.external_nlb.load_balancer_dns_name'')
       (\<lambda>host. Inr (''https://'' @ host))"

text \<open>
  When the broker refuses, the session is taken for broken: its state becomes \<open>ERROR\<close>. \<open>known\<close> is the
  session if it was looked up before.
\<close>

definition connect :: "'db env \<Rightarrow> connection_info \<Rightarrow> session option \<Rightarrow> ('db st, connection_info) act" where
  "connect E rq known =
     bindA (broker_connection_data E (ci_dcv_id rq) (ci_username rq)) (\<lambda>info.
     if \<not> empty_str (ci_failure info)
     then bindA (if known = None \<and> \<not> empty_str (ci_session_id rq)
                 then get_from_db E (ci_session_owner rq) (ci_session_id rq) else return known) (\<lambda>v.
          seqA (case v of None \<Rightarrow> return () | Some s \<Rightarrow> update_session E (s\<lparr>vs_state := Some ERROR\<rparr>))
               (return info))
     else bindA (liftA (connection_endpoint (cfg E))) (\<lambda>endpoint.
          return (info\<lparr>ci_endpoint := Some endpoint\<rparr>)))"

definition get_connection_info ::
  "'db env \<Rightarrow> string option \<Rightarrow> connection_info \<Rightarrow> ('db st, connection_info) act" where
  "get_connection_info E caller rq =
     (if \<not> empty_str (ci_dcv_id rq) then connect E rq None
      else bindA (get_from_db E (ci_session_owner rq) (ci_session_id rq)) (\<lambda>v. case v of
        None \<Rightarrow> return (no_connection\<lparr>ci_failure := Some (''Invalid RES session id: '' @ fmt (ci_session_id rq) @
                  '' for user: '' @ fmt caller @ ''.'')\<rparr>)
      | Some s \<Rightarrow> (case vs_state s of
          None \<Rightarrow> raise (KeyError ''None'')
        | Some state \<Rightarrow>
            if state \<noteq> READY
            then return (no_connection\<lparr>ci_failure := Some (''session '' @ fmt (ci_session_id rq) @
                   '' status is '' @ state_value state)\<rparr>)
            else connect E (rq\<lparr>ci_dcv_id := vs_dcv_id s\<rparr>) (Some s))))"

section \<open>Screenshots\<close>

record screenshot =
  sh_dcv_id :: "string option"
  sh_session_id :: "string option"
  sh_session_owner :: "string option"
  sh_data :: "string option"
  sh_type :: "string option"
  sh_time :: "string option"
  sh_failure :: "string option"

definition no_screenshot :: screenshot where
  "no_screenshot = \<lparr>sh_dcv_id = None, sh_session_id = None, sh_session_owner = None, sh_data = None,
     sh_type = None, sh_time = None, sh_failure = None\<rparr>"

definition validate_get_session_screenshot_request :: "screenshot \<Rightarrow> screenshot \<times> bool" where
  "validate_get_session_screenshot_request sh =
     (if empty_str (sh_session_id sh) \<and> empty_str (sh_dcv_id sh)
      then (sh\<lparr>sh_failure := Some ''Provide either res_session_id or dcv_session_id''\<rparr>, False) else (sh, True))"

definition complete_screenshot :: "string option \<Rightarrow> screenshot \<Rightarrow> screenshot" where
  "complete_screenshot caller sh = (if empty_str (sh_session_owner sh) then sh\<lparr>sh_session_owner := caller\<rparr> else sh)"

text \<open>The first primary picture of an answer.\<close>

definition taken_screenshot :: "val \<Rightarrow> screenshot option" where
  "taken_screenshot entry =
     (let shot = subdict ''session_screenshot'' entry in
      case filter (\<lambda>i. get_value_as_bool ''primary'' (dict_of i) (Some False) = Some True) (list_of ''images'' shot) of
        [] \<Rightarrow> None
      | i # _ \<Rightarrow> Some (no_screenshot\<lparr>sh_data := string_of ''data'' i,
          sh_type := get_value_as_string ''format'' (dict_of i) (Some ''png''),
          sh_time := string_of ''creation_time'' i, sh_dcv_id := string_of ''session_id'' shot\<rparr>))"

definition failed_screenshot :: "val \<Rightarrow> screenshot" where
  "failed_screenshot entry = no_screenshot
     \<lparr>sh_dcv_id := string_of ''session_id'' (subdict ''get_session_screenshot_request_data'' entry),
      sh_failure := string_of ''failure_reason'' entry\<rparr>"

definition screenshots_at_broker ::
  "'db env \<Rightarrow> screenshot list \<Rightarrow> ('db st, screenshot list \<times> screenshot list) act" where
  "screenshots_at_broker E shots =
     bindA (if shots = [] then return (VDict [])
            else call E (DcvBroker ''get_session_screenshots'' [(''session_ids'', VList (map (opt_str \<circ> sh_dcv_id) shots))]))
       (\<lambda>r. return (List.map_filter taken_screenshot (list_of ''successful_list'' r),
                    map failed_screenshot (list_of ''unsuccessful_list'' r)))"

text \<open>The broker is asked for five at a time.\<close>

function broker_screenshots ::
  "'db env \<Rightarrow> screenshot list \<Rightarrow> ('db st, screenshot list \<times> screenshot list) act" where
  "broker_screenshots E shots =
     (if shots = [] then return ([], [])
      else bindA (screenshots_at_broker E (take 5 shots)) (\<lambda>(ok, failed).
           bindA (broker_screenshots E (drop 5 shots)) (\<lambda>(ok', failed').
           return (ok @ ok', failed @ failed'))))"
  by pat_completeness auto

termination by (relation "measure (length \<circ> snd)") (auto simp: neq_Nil_conv)

declare broker_screenshots.simps [simp del]

text \<open>
  A request that names the session at the broker is passed on as it is; the others are looked up
  under the owner they name.
\<close>

definition resolve_screenshot :: "'db env \<Rightarrow> screenshot \<Rightarrow> ('db st, screenshot \<times> bool) act" where
  "resolve_screenshot E sh =
     (if \<not> empty_str (sh_dcv_id sh) then return (sh, True)
      else bindA (get_from_db E (sh_session_owner sh) (sh_session_id sh)) (\<lambda>v. case v of
        None \<Rightarrow> return (sh\<lparr>sh_failure := Some (''invalid RES session id: '' @ fmt (sh_session_id sh) @
                  '' for user: '' @ fmt (sh_session_owner sh))\<rparr>, False)
      | Some s \<Rightarrow>
          if empty_str (vs_dcv_id s)
          then return (sh\<lparr>sh_failure := Some (''DCV session does not yet exist for RES session id: '' @
                 fmt (sh_session_id sh) @ '' for user: '' @ fmt (sh_session_owner sh))\<rparr>, False)
          else return (sh\<lparr>sh_dcv_id := vs_dcv_id s\<rparr>, True)))"

definition get_session_screenshots ::
  "'db env \<Rightarrow> screenshot list \<Rightarrow> ('db st, screenshot list \<times> screenshot list) act" where
  "get_session_screenshots E shots =
     (if shots = [] then return ([], [])
      else bindA (map_each shots (resolve_screenshot E)) (\<lambda>resolved.
           bindA (broker_screenshots E (map fst (filter snd resolved))) (\<lambda>(ok, failed).
           return (ok, failed @ map fst (filter (Not \<circ> snd) resolved)))))"

section \<open>Permissions\<close>

text \<open>The first field a new permission lacks.\<close>

definition missing_field :: "permission \<Rightarrow> string option" where
  "missing_field p =
     (if empty_str (sp_session_id p) then Some ''res_session_id''
      else if empty_str (sp_session_owner p) then Some ''res_session_owner''
      else if empty_str (sp_session_name p) then Some ''res_session_name''
      else if empty_str (sp_instance_type p) then Some ''res_session_instance_type''
      else if sp_session_state p = None then Some ''res_session_state''
      else if sp_base_os p = None then Some ''res_session_base_os''
      else if sp_session_created_on p = None then Some ''res_session_created_on''
      else if sp_session_type p = None then Some ''res_session_type''
      else if empty_str (sp_profile_id p) then Some ''permission_profile.profile_id''
      else if sp_actor_type p = None then Some ''actor_type''
      else if empty_str (sp_actor_name p) then Some ''actor_name''
      else if sp_expiry_date p = None then Some ''expiry_date''
      else None)"

definition supports_permissions :: "world \<Rightarrow> session option \<Rightarrow> bool" where
  "supports_permissions w v = (case v of None \<Rightarrow> False
    | Some s \<Rightarrow> vs_base_os s = Some WINDOWS \<longrightarrow> ds_provider w \<in> {''aws_managed_activedirectory'', ''activedirectory''})"

definition validate_permission ::
  "'db env \<Rightarrow> (permission \<Rightarrow> bool) \<Rightarrow> permission \<Rightarrow> ('db st, bool) act" where
  "validate_permission E complete p =
     (if \<not> complete p then return False
      else bindA (get_from_db E (sp_session_owner p) (sp_session_id p)) (\<lambda>v.
        return (supports_permissions (cfg E) v)))"

text \<open>Permissions to delete are only looked at for their actor, which may not occur twice.\<close>

definition validate_update_session_permission_request ::
  "'db env \<Rightarrow> permission list \<Rightarrow> permission list \<Rightarrow> permission list \<Rightarrow> ('db st, bool) act" where
  "validate_update_session_permission_request E create update delete =
     bindA (map_each create (validate_permission E (\<lambda>p. missing_field p = None))) (\<lambda>created.
     bindA (map_each update (validate_permission E (\<lambda>p. \<not> empty_str (sp_session_id p)))) (\<lambda>updated.
     return (list_all id (created @ updated) \<and> create @ update @ delete \<noteq> [] \<and>
       distinct (map sp_actor_name (create @ update @ delete)))))"

section \<open>Listings\<close>

text \<open>
  A filter of a request. Of its three conditions the last one given is the one in the scan, and a filter
  replaces earlier ones for the same attribute.
\<close>

record listing_filter =
  lf_key :: string
  lf_eq :: "val option"
  lf_value :: "val option"
  lf_like :: "val option"

definition value_filter :: "string \<Rightarrow> string option \<Rightarrow> listing_filter" where
  "value_filter key v = \<lparr>lf_key = key, lf_eq = None, lf_value = map_option VStr v, lf_like = None\<rparr>"

definition filter_condition :: "listing_filter \<Rightarrow> (scan_op \<times> val) option" where
  "filter_condition f = (case lf_like f of Some v \<Rightarrow> Some (CONTAINS, v)
    | None \<Rightarrow> (case lf_value f of Some v \<Rightarrow> Some (CONTAINS, v)
    | None \<Rightarrow> map_option (Pair EQ) (lf_eq f)))"

definition add_condition :: "listing_filter \<Rightarrow> scan_filter \<Rightarrow> scan_filter" where
  "add_condition f flt = (case filter_condition f of None \<Rightarrow> flt | Some c \<Rightarrow> AList.update (lf_key f) c flt)"

definition scan_filter_of :: "listing_filter list \<Rightarrow> scan_filter" where
  "scan_filter_of filters = fold add_condition filters []"

text \<open>\<open>scan_db_records\<close> leaves out a filter for \<open>$all\<close>.\<close>

definition scan_db_filter :: "listing_filter list \<Rightarrow> scan_filter" where
  "scan_db_filter filters = scan_filter_of (filter (\<lambda>f. lf_value f \<noteq> Some (VStr ''$all'')) filters)"

text \<open>The value of the filters for an attribute is fixed; there is one in any case.\<close>

definition fix_filter :: "string \<Rightarrow> string option \<Rightarrow> listing_filter list \<Rightarrow> listing_filter list" where
  "fix_filter key v filters =
     map (\<lambda>f. if lf_key f = key then f\<lparr>lf_value := map_option VStr v\<rparr> else f) filters @
     (if list_ex (\<lambda>f. lf_key f = key) filters then [] else [value_filter key v])"

definition permissions_of_session ::
  "'db env \<Rightarrow> string option \<Rightarrow> listing_filter list \<Rightarrow> ('db st, permission list) act" where
  "permissions_of_session E idea_session_id filters =
     list_session_permissions E (scan_filter_of (fix_filter ''idea_session_id'' idea_session_id filters))"

definition permissions_of_actor ::
  "'db env \<Rightarrow> string option \<Rightarrow> listing_filter list \<Rightarrow> ('db st, permission list) act" where
  "permissions_of_actor E username filters =
     list_session_permissions E (scan_filter_of (fix_filter ''actor_name'' username filters))"

definition sessions_of_user ::
  "'db env \<Rightarrow> string option \<Rightarrow> listing_filter list \<Rightarrow> ('db st, session list) act" where
  "sessions_of_user E username filters =
     list_sessions_with E (scan_db_filter (filters @ [value_filter ''owner'' username]))"

end
