(* ===== verification/Vdc_Profiles.thy ===== *)
theory Vdc_Profiles
  imports Vdc_Instances Vdc_Requests
begin

text \<open>
  The permission profiles (\<^verbatim>\<open>permission_profiles/virtual_desktop_permission_profile_db.py\<close>), and the rows
  both configuration tables start with: the base profiles and, for every operating system and
  architecture, the base software stacks (\<^verbatim>\<open>software_stacks/virtual_desktop_software_stack_db.py\<close>). What the YAML
  files say is an argument.
\<close>

section \<open>Profiles\<close>

record profile =
  pf_id :: "string option"
  pf_title :: "string option"
  pf_description :: "string option"
  pf_permissions :: "(string \<times> bool option) list"
  pf_created_on :: "int option"
  pf_updated_on :: "int option"

definition get_permission :: "profile \<Rightarrow> string \<Rightarrow> bool option option" where
  "get_permission p key = map_of (pf_permissions p) key"

text \<open>Every type of permission gets an attribute; what the profile does not name is not allowed.\<close>

definition permission_entry :: "profile \<Rightarrow> string \<Rightarrow> val" where
  "permission_entry p key = (case get_permission p key of None \<Rightarrow> VBool False | Some v \<Rightarrow> opt_val VBool v)"

definition profile_to_db :: "world \<Rightarrow> profile \<Rightarrow> (string \<times> val) list" where
  "profile_to_db w p = fold (\<lambda>key. dict_set key (permission_entry p key)) (permission_types w)
     [(''profile_id'', opt_str (pf_id p)), (''title'', opt_str (pf_title p)),
      (''description'', opt_str (pf_description p)),
      (''created_on'', VInt (to_milliseconds (pf_created_on p))),
      (''updated_on'', VInt (to_milliseconds (pf_updated_on p)))]"

definition profile_from_db :: "world \<Rightarrow> item \<Rightarrow> profile" where
  "profile_from_db w i =
     \<lparr>pf_id = get_value_as_string ''profile_id'' i (Some []),
      pf_title = get_value_as_string ''title'' i (Some []),
      pf_description = get_value_as_string ''description'' i (Some []),
      pf_permissions = map (\<lambda>key. (key, get_value_as_bool key i (Some False))) (permission_types w),
      pf_created_on = to_datetime (get_value_as_int ''created_on'' i (Some 0)),
      pf_updated_on = to_datetime (get_value_as_int ''updated_on'' i (Some 0))\<rparr>"

definition profile_columns :: "world \<Rightarrow> string list" where
  "profile_columns w = [''profile_id'', ''title'', ''description'', ''created_on'', ''updated_on''] @ permission_types w"

definition profile_db_create :: "'db env \<Rightarrow> profile \<Rightarrow> ('db st, profile) act" where
  "profile_db_create E p =
     bindA (current_time_ms E) (\<lambda>created.
     bindA (current_time_ms E) (\<lambda>updated.
     let db_entry = dict_set ''updated_on'' (VInt updated)
                      (dict_set ''created_on'' (VInt created) (profile_to_db (cfg E) p)) in
     seqA (put_entry E PermissionProfiles db_entry) (return (profile_from_db (cfg E) (map_of db_entry)))))"

text \<open>An update of a profile that is not there creates its row; the old row is then the empty one.\<close>

definition profile_db_update :: "'db env \<Rightarrow> profile \<Rightarrow> ('db st, profile) act" where
  "profile_db_update E p =
     bindA (current_time_ms E) (\<lambda>now.
     let db_entry = dict_set ''updated_on'' (VInt now) (profile_to_db (cfg E) p) in
     bindA (update_entry E PermissionProfiles [''profile_id'', ''created_on''] db_entry) (\<lambda>(k, old).
     seqA (trigger_update_event E PermissionProfiles k
             (case old of None \<Rightarrow> [] | Some i \<Rightarrow> row_dict (profile_columns (cfg E)) i) db_entry)
          (return (profile_from_db (cfg E) (map_of db_entry)))))"

definition profile_db_get :: "'db env \<Rightarrow> string option \<Rightarrow> ('db st, profile option) act" where
  "profile_db_get E profile_id =
     (if empty_str profile_id then return None
      else bindA (db_get E PermissionProfiles (fmt profile_id, [])) (\<lambda>db_entry.
        return (map_option (profile_from_db (cfg E)) db_entry)))"

definition profile_db_list :: "'db env \<Rightarrow> scan_filter \<Rightarrow> ('db st, profile list) act" where
  "profile_db_list E list_filter =
     bindA (db_scan E PermissionProfiles list_filter) (\<lambda>(rows, _). return (map (profile_from_db (cfg E)) rows))"

text \<open>Errors of a deletion are logged; deleting what is not there is one.\<close>

definition profile_db_delete :: "'db env \<Rightarrow> string option \<Rightarrow> ('db st, unit) act" where
  "profile_db_delete E profile_name =
     (if empty_str profile_name then return ()
      else let k = (fmt profile_name, []) in
        catchA
          (bindA (db_get E PermissionProfiles k) (\<lambda>old.
           seqA (db_delete E PermissionProfiles k)
                (case old of None \<Rightarrow> raise (KeyError ''profile_id'')
                 | Some r \<Rightarrow> trigger_delete_event E PermissionProfiles k (row_dict (profile_columns (cfg E)) r))))
          (\<lambda>_. return ()))"

text \<open>What the permissions file of a session reads of a profile is the profile.\<close>

lemma permission_profile_get_is_profile_db_get:
  "permission_profile_get E profile_id =
     bindA (profile_db_get E profile_id) (\<lambda>v.
       return (map_option (\<lambda>p. map (\<lambda>(key, v). (key, v = Some True)) (pf_permissions p)) v))"
  by (rule ext)
     (simp add: permission_profile_get_def profile_db_get_def profile_permissions_def [abs_def] profile_from_db_def bindA_def
        return_def option.map_comp comp_def split: prod.split sum.split)

section \<open>The first rows\<close>

subsection \<open>Base profiles\<close>

definition create_base_profile :: "'db env \<Rightarrow> string \<times> val \<Rightarrow> ('db st, unit) act" where
  "create_base_profile E = (\<lambda>(profile_name, v).
     let profile_info = dict_of v;
         profile_title = get_value_as_string ''profile_title'' profile_info (Some []);
         profile_description = get_value_as_string ''profile_description'' profile_info (Some []) in
     raise_if (empty_str profile_title) invalid_params
    (bindA (profile_db_get E (Some profile_name)) (\<lambda>current_profile.
     whenA (current_profile = None)
       (seqA (profile_db_create E ((profile_from_db (cfg E) profile_info)
                \<lparr>pf_id := Some profile_name, pf_title := profile_title, pf_description := profile_description\<rparr>))
             (return ())))))"

definition create_base_permission_profiles :: "'db env \<Rightarrow> (string \<times> val) list \<Rightarrow> ('db st, unit) act" where
  "create_base_permission_profiles E base_permission_profile_config =
     for_each base_permission_profile_config (create_base_profile E)"

subsection \<open>Base software stacks\<close>

definition config_entry :: "string \<Rightarrow> val \<Rightarrow> val" where
  "config_entry key v = (case dict_of v key of None \<Rightarrow> VNone | Some x \<Rightarrow> x)"

definition or_default :: "val \<Rightarrow> val \<Rightarrow> val" where
  "or_default v d = (if is_empty v then d else v)"

definition arch_key :: "architecture \<Rightarrow> string" where
  "arch_key arch = py_lower (dashes (architecture_value arch))"

definition memory_of_config :: "val \<Rightarrow> val \<Rightarrow> exn + memory" where
  "memory_of_config v u = (case u of
      VStr s \<Rightarrow> bindE (memory_unit_by_value (Some s)) (\<lambda>unit. case get_as_float v of
          None \<Rightarrow> Inl ValidationError | Some f \<Rightarrow> Inr \<lparr>m_value = f, m_unit = unit\<rparr>)
    | _ \<Rightarrow> Inl ValueError)"

text \<open>One image of a region: what it does not say comes from the architecture.\<close>

definition base_stack_of ::
  "base_os \<Rightarrow> architecture \<Rightarrow> val \<Rightarrow> val \<Rightarrow> string \<Rightarrow> gpu \<Rightarrow> exn + stack" where
  "base_stack_of os arch arch_config region_config stack_id gpu_manufacturer =
     (let custom = (\<lambda>key. or_default (config_entry key region_config) (config_entry (''default-'' @ key) arch_config)) in
      bindE (memory_of_config (custom ''min-storage-value'') (custom ''min-storage-unit'')) (\<lambda>storage.
      bindE (memory_of_config (custom ''min-ram-value'') (custom ''min-ram-unit'')) (\<lambda>ram.
      bindE (opt_str_field (Some (custom ''name''))) (\<lambda>name.
      bindE (opt_str_field (Some (custom ''description''))) (\<lambda>description.
      bindE (opt_str_field (Some (config_entry ''ami-id'' region_config))) (\<lambda>ami_id.
      Inr \<lparr>ss_base_os = os, ss_id = Some stack_id, ss_name = name, ss_description = description,
           ss_created_on = None, ss_updated_on = None, ss_ami_id = ami_id, ss_enabled = Some True,
           ss_min_storage = storage, ss_min_ram = ram, ss_architecture = arch, ss_gpu = gpu_manufacturer,
           ss_projects = []\<rparr>))))))"

definition create_base_stack ::
  "'db env \<Rightarrow> base_os \<Rightarrow> architecture \<Rightarrow> val \<Rightarrow> val \<Rightarrow> ('db st, unit) act" where
  "create_base_stack E os arch arch_config region_config =
     raise_if (is_empty (config_entry ''ami-id'' region_config)) general_exception
    (raise_if (is_empty (config_entry ''ss-id-suffix'' region_config)) general_exception
    (let manufacturer = or_default (config_entry ''gpu-manufacturer'' region_config) (VStr ''NO_GPU'') in
     raise_if (manufacturer \<notin> {VStr ''AMD'', VStr ''NVIDIA'', VStr ''NO_GPU''}) general_exception
    (bindA (liftA (opt_str_field (Some (config_entry ''ss-id-suffix'' region_config)))) (\<lambda>suffix.
     let stack_id = ''ss-base-'' @ base_os_value os @ ''-'' @ arch_key arch @ ''-'' @ fmt suffix in
     bindA (liftA (bindE (opt_str_field (Some manufacturer)) gpu_by_value)) (\<lambda>gpu.
     bindA (software_stack_db_get E (Some stack_id) (Some os)) (\<lambda>software_stack_db_entry.
     whenA (software_stack_db_entry = None)
       (bindA (liftA (base_stack_of os arch arch_config region_config stack_id gpu)) (\<lambda>stk.
        seqA (software_stack_db_create E stk) (return ())))))))))"

definition arch_defaults :: "string list" where
  "arch_defaults = [''default-name'', ''default-description'', ''default-min-storage-value'',
     ''default-min-storage-unit'', ''default-min-ram-value'', ''default-min-ram-unit'']"

definition create_stacks_for_arch :: "'db env \<Rightarrow> base_os \<Rightarrow> val \<Rightarrow> architecture \<Rightarrow> ('db st, unit) act" where
  "create_stacks_for_arch E os os_config arch =
     (let arch_config = config_entry (arch_key arch) os_config in
      whenA (\<not> is_empty arch_config)
        (raise_if (list_ex (\<lambda>key. is_empty (config_entry key arch_config)) arch_defaults) invalid_params
          (bindA (liftA (required_string (cfg E) ''cluster.aws.region'')) (\<lambda>region.
           for_each (list_of region arch_config) (create_base_stack E os arch arch_config)))))"

definition create_base_software_stacks :: "'db env \<Rightarrow> (string \<times> val) list \<Rightarrow> ('db st, unit) act" where
  "create_base_software_stacks E base_stacks_config =
     whenA (base_stacks_config \<noteq> [])
       (for_each [AMAZON_LINUX2, CENTOS7, RHEL7, RHEL8, RHEL9, WINDOWS] (\<lambda>os.
          case map_of base_stacks_config (base_os_value os) of
            None \<Rightarrow> raise AttributeError
          | Some os_config \<Rightarrow> for_each [X86_64, ARM64] (create_stacks_for_arch E os os_config)))"

end
