(* ===== verification/Vdc_User_Api.thy ===== *)
theory Vdc_User_Api
  imports Vdc_Api_Requests Vdc_Profiles Api_Context
begin

text \<open>
  The APIs of the virtual desktop controller (\<^verbatim>\<open>api/virtual_desktop_user_api.py\<close>,
  \<^verbatim>\<open>api/virtual_desktop_admin_api.py\<close>, \<^verbatim>\<open>api/virtual_desktop_api_invoker.py\<close>): who may send a request and what it does. A
  method takes the caller, the user of the token, and the payload, and ends with an answer. Requests
  with a cursor for a further page are left out.
\<close>

section \<open>Requests and answers\<close>

text \<open>
  A software stack as a request describes it, all of it optional: projects by their identifiers.
\<close>

record stack_request =
  sr_base_os :: "base_os option"
  sr_id :: "string option"
  sr_name :: "string option"
  sr_description :: "string option"
  sr_ami_id :: "string option"
  sr_enabled :: "bool option"
  sr_min_storage :: "memory option"
  sr_min_ram :: "memory option"
  sr_architecture :: "architecture option"
  sr_gpu :: "gpu option"
  sr_projects :: "string option list option"
  sr_created_on :: "int option"
  sr_updated_on :: "int option"
  sr_failure :: "string option"

record vdc_payload =
  vp_session :: "session option"
  vp_stack :: "stack_key option"
  vp_sessions :: "session list"
  vp_creations :: "(session option \<times> stack_key option) list"
  vp_connection :: connection_info
  vp_screenshots :: "screenshot list"
  vp_create :: "permission list"
  vp_update :: "permission list"
  vp_delete :: "permission list"
  vp_filters :: "listing_filter list"
  vp_session_id :: "string option"
  vp_username :: "string option"
  vp_project_id :: "string option"
  vp_new_stack :: "stack_request option"
  vp_profile :: profile
  vp_profile_id :: "string option"
  vp_hibernation :: "bool option"
  vp_shown_stack :: "stack option"

datatype vdc_answer =
    Batch "session list" "session list"
  | Single session
  | Refused error_code session
  | Connection connection_info
  | NoConnection error_code connection_info
  | Screenshots "screenshot list" "screenshot list"
  | Permissions "permission list"
  | Sessions_Found "session list"
  | Stacks_Found "stack list"
  | Stack_Answer stack_request
  | Stack_Refused error_code stack_request
  | Stack_Of stack "(string option \<times> val) list"
  | Profile_Answer profile
  | Profiles_Found "profile list"
  | Instance_Types_Found "val list"
  | Names_Found "string list"
  | Broker_Answer val
  | Done
  | Rejected error_code
  | No_Answer

type_synonym 'db vdc_method = "string option \<Rightarrow> vdc_payload \<Rightarrow> ('db st, vdc_answer) act"

text \<open>The requests of a batch that pass their check, and the others.\<close>

definition accepted :: "('a \<times> bool) list \<Rightarrow> 'a list" where
  "accepted xs = map fst (filter snd xs)"

definition rejected :: "('a \<times> bool) list \<Rightarrow> 'a list" where
  "rejected xs = map fst (filter (Not \<circ> snd) xs)"

definition run_batch ::
  "(session list \<Rightarrow> ('db st, session list \<times> session list) act) \<Rightarrow> string option \<Rightarrow> (session \<times> bool) list \<Rightarrow>
     ('db st, vdc_answer) act" where
  "run_batch run caller reviewed =
     bindA (run (map (complete_session_request caller) (accepted reviewed))) (\<lambda>(ok, failed).
     return (Batch ok (failed @ rejected reviewed)))"

definition unless_empty ::
  "('a list \<Rightarrow> ('db st, 'a list \<times> 'a list) act) \<Rightarrow> 'a list \<Rightarrow> ('db st, 'a list \<times> 'a list) act" where
  "unless_empty run xs = (if xs = [] then return ([], []) else run xs)"

section \<open>The user's API\<close>

subsection \<open>Checks\<close>

definition invalid_owner :: string where
  "invalid_owner = ''Invalid owner provided. Non Admin users can submit requests for themselves only''"

definition validate_owner :: "string option \<Rightarrow> string option \<Rightarrow> bool" where
  "validate_owner caller owner \<longleftrightarrow> empty_str owner \<or> owner = caller"

definition add_reason :: "string \<Rightarrow> session \<Rightarrow> session" where
  "add_reason msg s = failed_with (the (get_as_string (opt_str (vs_failure s)) (Some [])) @ msg) s"

definition owner_checked :: "string option \<Rightarrow> session \<Rightarrow> session \<times> bool" where
  "owner_checked caller s =
     (if validate_owner caller (vs_owner s) then (s, True) else (failed_with invalid_owner s, False))"

definition user_validate_delete :: "string option \<Rightarrow> session \<Rightarrow> session \<times> bool" where
  "user_validate_delete caller s = (case validate_delete_session_request s of (s', ok) \<Rightarrow>
     if validate_owner caller (vs_owner s') then (s', ok) else (add_reason invalid_owner s', False))"

definition user_validate_resume :: "string option \<Rightarrow> session \<Rightarrow> session \<times> bool" where
  "user_validate_resume caller s = (case validate_resume_session_request s of (s', ok) \<Rightarrow>
     if ok then owner_checked caller s' else (s', False))"

definition user_validate_stop :: "string option \<Rightarrow> session \<Rightarrow> exn + session \<times> bool" where
  "user_validate_stop caller s = bindE (validate_stop_session_request s) (\<lambda>_. Inr (owner_checked caller s))"

definition user_validate_reboot :: "string option \<Rightarrow> session \<Rightarrow> exn + session \<times> bool" where
  "user_validate_reboot caller s = bindE (validate_reboot_session_request s) (\<lambda>_. Inr (owner_checked caller s))"

definition user_validate_info :: "string option \<Rightarrow> session \<Rightarrow> exn + session \<times> bool" where
  "user_validate_info caller s = bindE (validate_get_session_info_request s) (\<lambda>_. Inr (owner_checked caller s))"

definition user_validate_screenshot :: "string option \<Rightarrow> screenshot \<Rightarrow> screenshot \<times> bool" where
  "user_validate_screenshot caller sh = (case validate_get_session_screenshot_request sh of (sh', ok) \<Rightarrow>
     if validate_owner caller (sh_session_owner sh') then (sh', ok)
     else (sh'\<lparr>sh_failure := Some (the (get_as_string (opt_str (sh_failure sh')) (Some [])) @ invalid_owner)\<rparr>, False))"

text \<open>The quota of the user comes before everything else.\<close>

definition user_validate_create ::
  "'db env \<Rightarrow> string option \<Rightarrow> session option \<Rightarrow> stack_key option \<Rightarrow> 'db check" where
  "user_validate_create E caller v software_stack = (case v of
      None \<Rightarrow> refused ''Missing Create Session Info'' no_session
    | Some s \<Rightarrow>
        if \<not> validate_owner caller (vs_owner s) then return (add_reason invalid_owner s, False)
        else let s' = s\<lparr>vs_owner := caller\<rparr> in
          bindA (case caller of None \<Rightarrow> raise (ServiceError ''ValidationException'')
                 | Some u \<Rightarrow> get_session_count_for_user E u) (\<lambda>count.
          bindA (liftA (required_int (cfg E) ''virtual-desktop-controller.dcv_session.allowed_sessions_per_user''))
            (\<lambda>allowed.
          if allowed \<le> count
          then refused (''User '' @ fmt caller @ '' has exceeded the allowed number of sessions: '' @ int_str count) s'
          else validate_create_session_request E s' software_stack)))"

subsection \<open>Methods\<close>

definition created_answer :: "session \<Rightarrow> vdc_answer" where
  "created_answer s = (if empty_str (vs_failure s) then Single s else Refused CREATE_SESSION_FAILED s)"

definition user_create_session :: "'db env \<Rightarrow> 'db vdc_method" where
  "user_create_session E caller rq =
     bindA (user_validate_create E caller (vp_session rq) (vp_stack rq)) (\<lambda>(s, ok).
     if \<not> ok then return (Refused INVALID_PARAMS s)
     else bindA (complete_create_session_request E caller s) (\<lambda>s.
          bindA (create_session E (s\<lparr>vs_by_admin := Some False\<rparr>)) (\<lambda>s. return (created_answer s))))"

definition user_delete_sessions :: "'db env \<Rightarrow> 'db vdc_method" where
  "user_delete_sessions E caller rq =
     run_batch (terminate_sessions E) caller (map (user_validate_delete caller) (vp_sessions rq))"

definition user_stop_sessions :: "'db env \<Rightarrow> 'db vdc_method" where
  "user_stop_sessions E caller rq =
     bindA (liftA (map_sum_list (user_validate_stop caller) (vp_sessions rq)))
       (run_batch (unless_empty (stop_sessions E)) caller)"

definition user_reboot_sessions :: "'db env \<Rightarrow> 'db vdc_method" where
  "user_reboot_sessions E caller rq =
     bindA (liftA (map_sum_list (user_validate_reboot caller) (vp_sessions rq)))
       (run_batch (unless_empty (reboot_sessions E)) caller)"

definition user_resume_sessions :: "'db env \<Rightarrow> 'db vdc_method" where
  "user_resume_sessions E caller rq =
     run_batch (unless_empty (resume_sessions E)) caller (map (user_validate_resume caller) (vp_sessions rq))"

definition the_session :: "vdc_payload \<Rightarrow> ('s, session) act" where
  "the_session rq = (case vp_session rq of None \<Rightarrow> raise AttributeError | Some s \<Rightarrow> return s)"

definition updated_answer :: "session \<Rightarrow> vdc_answer" where
  "updated_answer s = (if empty_str (vs_failure s) then Single s else Refused UPDATE_SESSION_FAILED s)"

definition user_update_session :: "'db env \<Rightarrow> 'db vdc_method" where
  "user_update_session E caller rq =
     bindA (the_session rq) (\<lambda>s.
     case owner_checked caller s of (s', ok) \<Rightarrow>
       if \<not> ok then return (Refused INVALID_PARAMS s')
       else bindA (api_update_session E (complete_session_request caller s')) (\<lambda>r. return (updated_answer r)))"

text \<open>A session that is not there has no attributes: the look-up raises.\<close>

definition info_answer :: "'db env \<Rightarrow> session \<Rightarrow> ('db st, vdc_answer) act" where
  "info_answer E s =
     bindA (get_from_db E (vs_owner s) (vs_id s)) (\<lambda>v. case v of
       None \<Rightarrow> raise AttributeError
     | Some r \<Rightarrow> return (if empty_str (vs_failure r) then Single r else Refused INVALID_PARAMS r))"

definition user_get_session_info :: "'db env \<Rightarrow> 'db vdc_method" where
  "user_get_session_info E caller rq =
     bindA (case vp_session rq of None \<Rightarrow> raise invalid_params | Some s \<Rightarrow> liftA (user_validate_info caller s)) (\<lambda>(s, ok).
     if \<not> ok then return (Refused INVALID_PARAMS s) else info_answer E (complete_session_request caller s))"

definition connection_answer :: "connection_info \<Rightarrow> vdc_answer" where
  "connection_answer c =
     (if empty_str (ci_failure c) then Connection c else NoConnection SESSION_CONNECTION_ERROR c)"

text \<open>The name the caller gives for the connection is checked, not the owner of the session.\<close>

definition user_get_session_connection_info :: "'db env \<Rightarrow> 'db vdc_method" where
  "user_get_session_connection_info E caller rq =
     (let c = vp_connection rq in
      if \<not> validate_get_connection_info_request c \<or> \<not> validate_owner caller (ci_username c)
      then return (NoConnection INVALID_PARAMS c)
      else bindA (get_connection_info E caller (c\<lparr>ci_username := caller\<rparr>)) (\<lambda>r. return (connection_answer r)))"

definition user_get_session_screenshots :: "'db env \<Rightarrow> 'db vdc_method" where
  "user_get_session_screenshots E caller rq =
     (let reviewed = map (user_validate_screenshot caller) (vp_screenshots rq) in
      bindA (get_session_screenshots E (map (complete_screenshot caller) (accepted reviewed))) (\<lambda>(ok, failed).
      return (Screenshots ok (rejected reviewed @ failed))))"

definition user_list_sessions :: "'db env \<Rightarrow> 'db vdc_method" where
  "user_list_sessions E caller rq =
     bindA (sessions_of_user E caller (vp_filters rq)) (\<lambda>ss. return (Sessions_Found ss))"

definition user_list_shared_permissions :: "'db env \<Rightarrow> 'db vdc_method" where
  "user_list_shared_permissions E caller rq =
     bindA (permissions_of_actor E caller (vp_filters rq)) (\<lambda>ps. return (Permissions ps))"

definition user_list_session_permissions :: "'db env \<Rightarrow> 'db vdc_method" where
  "user_list_session_permissions E caller rq =
     (if empty_str (vp_session_id rq) then return (Rejected INVALID_PARAMS)
      else bindA (get_from_db E caller (vp_session_id rq)) (\<lambda>v.
        if v = None then return (Rejected INVALID_PARAMS)
        else bindA (permissions_of_session E (vp_session_id rq) (vp_filters rq)) (\<lambda>ps. return (Permissions ps))))"

text \<open>What a request on permissions does once the caller is allowed to send it.\<close>

definition change_permissions :: "'db env \<Rightarrow> vdc_payload \<Rightarrow> ('db st, vdc_answer) act" where
  "change_permissions E rq =
     bindA (validate_update_session_permission_request E (vp_create rq) (vp_update rq) (vp_delete rq)) (\<lambda>ok.
     if \<not> ok then return (Rejected INVALID_PARAMS)
     else bindA (update_permission_for_sessions E (vp_create rq) (vp_update rq) (vp_delete rq)) (\<lambda>ps.
          return (Permissions ps)))"

definition user_update_session_permission :: "'db env \<Rightarrow> 'db vdc_method" where
  "user_update_session_permission E caller rq =
     (if \<not> list_all (\<lambda>p. sp_session_owner p = caller) (vp_create rq @ vp_delete rq @ vp_update rq)
      then return (Rejected INVALID_PARAMS)
      else change_permissions E rq)"

text \<open>A filter for a project is put behind those of the request whatever these are.\<close>

definition list_stacks :: "'db env \<Rightarrow> listing_filter list \<Rightarrow> ('db st, vdc_answer) act" where
  "list_stacks E filters =
     bindA (db_scan E SoftwareStacks (scan_db_filter filters)) (\<lambda>(rows, _).
     bindA (map_each rows (\<lambda>r. liftA (stack_from_db (Some r)))) (\<lambda>stks.
     return (Stacks_Found (List.map_filter id stks))))"

fun set_project_filter :: "string option \<Rightarrow> listing_filter list \<Rightarrow> listing_filter list" where
  "set_project_filter project_id [] = []"
| "set_project_filter project_id (f # fs) =
     (if lf_key f = ''project_id'' then f\<lparr>lf_value := map_option VStr project_id\<rparr> # fs
      else f # set_project_filter project_id fs)"

definition user_list_software_stacks :: "'db env \<Rightarrow> 'db vdc_method" where
  "user_list_software_stacks E caller rq =
     (if empty_str (vp_project_id rq) then return (Rejected INVALID_PARAMS)
      else list_stacks E (set_project_filter (vp_project_id rq) (vp_filters rq) @
             [value_filter ''projects'' (vp_project_id rq)]))"

subsection \<open>Access\<close>

type_synonym 'db vdc_acl = "(string \<times> string \<times> 'db vdc_method) list"

definition user_acl :: "'db env \<Rightarrow> 'db vdc_acl" where
  "user_acl E =
    (let r = module_scope (cfg E) ''read''; w = module_scope (cfg E) ''write'' in
     [(''VirtualDesktop.CreateSession'', w, user_create_session E),
      (''VirtualDesktop.UpdateSession'', w, user_update_session E),
      (''VirtualDesktop.DeleteSessions'', w, user_delete_sessions E),
      (''VirtualDesktop.GetSessionInfo'', r, user_get_session_info E),
      (''VirtualDesktop.GetSessionScreenshot'', r, user_get_session_screenshots E),
      (''VirtualDesktop.GetSessionConnectionInfo'', r, user_get_session_connection_info E),
      (''VirtualDesktop.ListSessions'', r, user_list_sessions E),
      (''VirtualDesktop.StopSessions'', w, user_stop_sessions E),
      (''VirtualDesktop.ResumeSessions'', w, user_resume_sessions E),
      (''VirtualDesktop.RebootSessions'', w, user_reboot_sessions E),
      (''VirtualDesktop.ListSoftwareStacks'', r, user_list_software_stacks E),
      (''VirtualDesktop.ListSharedPermissions'', r, user_list_shared_permissions E),
      (''VirtualDesktop.ListSessionPermissions'', r, user_list_session_permissions E),
      (''VirtualDesktop.UpdateSessionPermissions'', w, user_update_session_permission E)])"

text \<open>The dispatch of a list of methods, elevated or not.\<close>

definition vdc_invoke ::
  "'db env \<Rightarrow> bool \<Rightarrow> 'db vdc_acl \<Rightarrow> vdc_payload \<Rightarrow> ('db api, vdc_answer) act" where
  "vdc_invoke E elevated_access acl rq = bindA (ctxA ctx_namespace) (\<lambda>namespace.
     case map_of acl namespace of
       None \<Rightarrow> raise unauthorized_access
     | Some (scope, meth) \<Rightarrow>
         bindA (is_authorized E elevated_access [scope]) (\<lambda>ok.
         raise_if (\<not> ok) unauthorized_access
        (bindA (get_username E) (\<lambda>caller. on_db (meth caller rq)))))"

definition user_api_invoke :: "'db env \<Rightarrow> vdc_payload \<Rightarrow> ('db api, vdc_answer) act" where
  "user_api_invoke E = vdc_invoke E False (user_acl E)"

end
