(* ===== verification/Vdc_Admin_Api.thy ===== *)
theory Vdc_Admin_Api
  imports Vdc_User_Api
begin

text \<open>
  The APIs of the virtual desktop controller for administrators
  (\<^verbatim>\<open>api/virtual_desktop_admin_api.py\<close>, \<^verbatim>\<open>virtual_desktop_dcv_api.py\<close>), the look-ups for everyone
  (\<^verbatim>\<open>virtual_desktop_utils_api.py\<close>) and the dispatch among all of them.
\<close>

section \<open>Sessions\<close>

text \<open>\<open>SESSION_NAME_REGEX\<close>: 3 to 50 characters other than a newline.\<close>

definition matches_name_regex :: "string \<Rightarrow> bool" where
  "matches_name_regex s = list_ex (\<lambda>t. 3 \<le> length t \<and> length t \<le> 50 \<and> CHR 0x0A \<notin> set t) [s, drop_newline s]"

definition validate_name :: "string option \<Rightarrow> exn + unit" where
  "validate_name v = (case v of
      Some name \<Rightarrow> if name \<noteq> [] \<and> \<not> matches_name_regex name then Inl invalid_params else Inr ()
    | None \<Rightarrow> Inr ())"

definition admin_validate_create :: "'db env \<Rightarrow> session option \<Rightarrow> stack_key option \<Rightarrow> 'db check" where
  "admin_validate_create E v software_stack = (case v of
      None \<Rightarrow> refused ''Missing Create Session Info'' no_session
    | Some s \<Rightarrow> validate_create_session_request E s software_stack)"

definition admin_create_session :: "'db env \<Rightarrow> 'db vdc_method" where
  "admin_create_session E caller rq =
     bindA (the_session rq) (\<lambda>s.
     bindA (liftA (validate_name (vs_name s))) (\<lambda>_.
     bindA (admin_validate_create E (Some s) (vp_stack rq)) (\<lambda>(s, ok).
     if \<not> ok then return (Refused INVALID_PARAMS s)
     else bindA (complete_create_session_request E caller s) (\<lambda>s.
          bindA (create_session E (s\<lparr>vs_by_admin := Some True\<rparr>)) (\<lambda>s. return (created_answer s))))))"

text \<open>A batch takes the sessions as they are: neither their names nor who launched them is looked at.\<close>

definition create_one_of_batch ::
  "'db env \<Rightarrow> string option \<Rightarrow> session option \<times> stack_key option \<Rightarrow> ('db st, session \<times> bool) act" where
  "create_one_of_batch E caller = (\<lambda>(v, software_stack).
     bindA (admin_validate_create E v software_stack) (\<lambda>(s, ok).
     if \<not> ok then return (s, False)
     else bindA (complete_create_session_request E caller s) (\<lambda>s.
          bindA (create_session E s) (\<lambda>s. return (s, empty_str (vs_failure s))))))"

definition admin_batch_create_sessions :: "'db env \<Rightarrow> 'db vdc_method" where
  "admin_batch_create_sessions E caller rq =
     bindA (map_each (vp_creations rq) (create_one_of_batch E caller)) (\<lambda>rs.
     return (Batch (accepted rs) (rejected rs)))"

definition admin_get_session_screenshots :: "'db env \<Rightarrow> 'db vdc_method" where
  "admin_get_session_screenshots E caller rq =
     (let reviewed = map validate_get_session_screenshot_request (vp_screenshots rq) in
      bindA (get_session_screenshots E (map (complete_screenshot caller) (accepted reviewed))) (\<lambda>(ok, failed).
      return (Screenshots ok (rejected reviewed @ failed))))"

definition admin_get_session_info :: "'db env \<Rightarrow> 'db vdc_method" where
  "admin_get_session_info E caller rq =
     bindA (case vp_session rq of None \<Rightarrow> raise invalid_params | Some s \<Rightarrow> return s) (\<lambda>s.
     bindA (liftA (validate_get_session_info_request s)) (\<lambda>_. info_answer E (complete_session_request caller s)))"

definition admin_delete_sessions :: "'db env \<Rightarrow> 'db vdc_method" where
  "admin_delete_sessions E caller rq =
     run_batch (terminate_sessions E) caller (map validate_delete_session_request (vp_sessions rq))"

definition admin_validate_stop :: "session \<Rightarrow> exn + session \<times> bool" where
  "admin_validate_stop s = bindE (validate_stop_session_request s) (\<lambda>_. Inr (s, True))"

definition admin_reboot_sessions :: "'db env \<Rightarrow> 'db vdc_method" where
  "admin_reboot_sessions E caller rq =
     bindA (liftA (map_sum_list admin_validate_stop (vp_sessions rq)))
       (run_batch (unless_empty (reboot_sessions E)) caller)"

definition admin_stop_sessions :: "'db env \<Rightarrow> 'db vdc_method" where
  "admin_stop_sessions E caller rq =
     bindA (liftA (map_sum_list admin_validate_stop (vp_sessions rq)))
       (run_batch (unless_empty (stop_sessions E)) caller)"

definition admin_resume_sessions :: "'db env \<Rightarrow> 'db vdc_method" where
  "admin_resume_sessions E caller rq =
     run_batch (unless_empty (resume_sessions E)) caller (map validate_resume_session_request (vp_sessions rq))"

definition admin_list_sessions :: "'db env \<Rightarrow> 'db vdc_method" where
  "admin_list_sessions E caller rq =
     bindA (list_sessions_with E (scan_db_filter (vp_filters rq))) (\<lambda>ss. return (Sessions_Found ss))"

definition admin_update_session :: "'db env \<Rightarrow> 'db vdc_method" where
  "admin_update_session E caller rq =
     bindA (the_session rq) (\<lambda>s.
     bindA (api_update_session E (complete_session_request caller s)) (\<lambda>r. return (updated_answer r)))"

definition admin_update_session_permission :: "'db env \<Rightarrow> 'db vdc_method" where
  "admin_update_session_permission E caller rq = change_permissions E rq"

definition admin_get_session_connection_info :: "'db env \<Rightarrow> 'db vdc_method" where
  "admin_get_session_connection_info E caller rq =
     (let c = vp_connection rq in
      if \<not> validate_get_connection_info_request c then return (NoConnection INVALID_PARAMS c)
      else bindA (get_connection_info E caller
                    (if empty_str (ci_username c) then c\<lparr>ci_username := caller\<rparr> else c)) (\<lambda>r.
           return (connection_answer r)))"

definition admin_list_shared_permissions :: "'db env \<Rightarrow> 'db vdc_method" where
  "admin_list_shared_permissions E caller rq =
     (if empty_str (vp_username rq) then return (Rejected INVALID_PARAMS)
      else bindA (permissions_of_actor E (vp_username rq) (vp_filters rq)) (\<lambda>ps. return (Permissions ps)))"

definition admin_list_session_permissions :: "'db env \<Rightarrow> 'db vdc_method" where
  "admin_list_session_permissions E caller rq =
     (if empty_str (vp_session_id rq) then return (Rejected INVALID_PARAMS)
      else bindA (permissions_of_session E (vp_session_id rq) (vp_filters rq)) (\<lambda>ps. return (Permissions ps)))"

section \<open>Software stacks\<close>

definition stack_failed :: "string \<Rightarrow> stack_request \<Rightarrow> stack_request" where
  "stack_failed reason sr = sr\<lparr>sr_failure := Some reason\<rparr>"

definition no_stack_request :: stack_request where
  "no_stack_request = \<lparr>sr_base_os = None, sr_id = None, sr_name = None, sr_description = None, sr_ami_id = None,
     sr_enabled = None, sr_min_storage = None, sr_min_ram = None, sr_architecture = None, sr_gpu = None,
     sr_projects = Some [], sr_created_on = None, sr_updated_on = None, sr_failure = None\<rparr>"

definition request_of_stack :: "stack \<Rightarrow> stack_request" where
  "request_of_stack stk = \<lparr>sr_base_os = Some (ss_base_os stk), sr_id = ss_id stk, sr_name = ss_name stk,
     sr_description = ss_description stk, sr_ami_id = ss_ami_id stk, sr_enabled = ss_enabled stk,
     sr_min_storage = Some (ss_min_storage stk), sr_min_ram = Some (ss_min_ram stk),
     sr_architecture = Some (ss_architecture stk), sr_gpu = Some (ss_gpu stk), sr_projects = Some (ss_projects stk),
     sr_created_on = ss_created_on stk, sr_updated_on = ss_updated_on stk, sr_failure = None\<rparr>"

text \<open>
  The row of a stack that is not complete: without a size there is no row. It may lack the attributes
  of the key.
\<close>

definition stack_request_to_db :: "stack_request \<Rightarrow> exn + (string \<times> val) list" where
  "stack_request_to_db sr = (case (sr_min_storage sr, sr_min_ram sr) of
      (Some storage, Some ram) \<Rightarrow> Inr
        [(''base_os'', opt_val (VStr \<circ> base_os_value) (sr_base_os sr)),
         (''stack_id'', opt_str (sr_id sr)), (''name'', opt_str (sr_name sr)),
         (''description'', opt_str (sr_description sr)),
         (''created_on'', VInt (to_milliseconds (sr_created_on sr))),
         (''updated_on'', VInt (to_milliseconds (sr_updated_on sr))),
         (''ami_id'', opt_str (sr_ami_id sr)), (''enabled'', opt_val VBool (sr_enabled sr)),
         (''min_storage_value'', VStr (m_value storage)),
         (''min_storage_unit'', VStr (memory_unit_value (m_unit storage))),
         (''min_ram_value'', VStr (m_value ram)),
         (''min_ram_unit'', VStr (memory_unit_value (m_unit ram))),
         (''architecture'', opt_val (VStr \<circ> architecture_value) (sr_architecture sr)),
         (''gpu'', opt_val (VStr \<circ> gpu_value) (sr_gpu sr)),
         (''projects'', VList (case sr_projects sr of None \<Rightarrow> [] | Some ps \<Rightarrow> map opt_str ps))]
    | _ \<Rightarrow> Inl AttributeError)"

text \<open>A new stack is stored under a fresh identifier; a row without its key is refused by the table.\<close>

definition complete_stack :: "stack_request \<Rightarrow> exn + stack" where
  "complete_stack sr = (case (sr_min_storage sr, sr_min_ram sr) of
      (Some storage, Some ram) \<Rightarrow> (case (sr_base_os sr, sr_architecture sr, sr_gpu sr) of
          (Some os, Some arch, Some gpu) \<Rightarrow> Inr
            \<lparr>ss_base_os = os, ss_id = sr_id sr, ss_name = sr_name sr, ss_description = sr_description sr,
             ss_created_on = sr_created_on sr, ss_updated_on = sr_updated_on sr, ss_ami_id = sr_ami_id sr,
             ss_enabled = sr_enabled sr, ss_min_storage = storage, ss_min_ram = ram, ss_architecture = arch,
             ss_gpu = gpu, ss_projects = (case sr_projects sr of None \<Rightarrow> [] | Some ps \<Rightarrow> ps)\<rparr>
        | _ \<Rightarrow> Inl (ServiceError ''ValidationException''))
    | _ \<Rightarrow> Inl AttributeError)"

definition create_software_stack :: "'db env \<Rightarrow> stack_request \<Rightarrow> ('db st, stack) act" where
  "create_software_stack E sr =
     bindA (new_uuid E) (\<lambda>i.
     bindA (liftA (complete_stack (sr\<lparr>sr_id := Some i\<rparr>))) (\<lambda>stk.
     bindA (software_stack_db_create E stk) (\<lambda>v. case v of None \<Rightarrow> raise AttributeError | Some r \<Rightarrow> return r)))"

definition validate_create_software_stack_request :: "stack_request option \<Rightarrow> stack_request \<times> bool" where
  "validate_create_software_stack_request v = (case v of
      None \<Rightarrow> (stack_failed ''missing software_stack'' no_stack_request, False)
    | Some sr \<Rightarrow>
        if sr_min_storage sr = None then (stack_failed ''missing software_stack.min_storage'' sr, False)
        else if empty_str (sr_name sr) then (stack_failed ''missing software_stack.name'' sr, False)
        else (sr, True))"

text \<open>The image must exist under its identifier and, where the architecture is given, have it.\<close>

definition check_image :: "'db env \<Rightarrow> stack_request \<Rightarrow> ('db st, stack_request \<times> bool) act" where
  "check_image E sr =
     bindA (describe_image_id E (sr_ami_id sr)) (\<lambda>image.
     if is_empty image \<or> string_of ''ImageId'' image \<noteq> sr_ami_id sr
     then return (stack_failed (''Invalid software_stack.ami_id: '' @ fmt (sr_ami_id sr)) sr, False)
     else (case sr_architecture sr of
         Some arch \<Rightarrow>
           if string_of ''Architecture'' image \<noteq> Some (architecture_value arch)
           then return (stack_failed (''Invalid software_stack.ami_id: '' @ fmt (sr_ami_id sr) @
                  '' with architecture: '' @ architecture_value arch) sr, False)
           else return (sr, True)
       | None \<Rightarrow> bindA (liftA (architecture_by_value (string_of ''Architecture'' image))) (\<lambda>arch.
           return (sr\<lparr>sr_architecture := Some arch\<rparr>, True))))"

definition admin_validate_create_stack ::
  "'db env \<Rightarrow> stack_request option \<Rightarrow> ('db st, stack_request \<times> bool) act" where
  "admin_validate_create_stack E v = (case validate_create_software_stack_request v of (sr, ok) \<Rightarrow>
     if \<not> ok then return (sr, False)
     else if sr_min_ram sr = None then return (stack_failed ''software_stack.min_ram missing'' sr, False)
     else if sr_gpu sr = None then return (stack_failed ''software_stack.gpu missing'' sr, False)
     else if empty_str (sr_ami_id sr) then return (stack_failed ''software_stack.ami_id'' sr, False)
     else check_image E sr)"

definition admin_create_software_stack :: "'db env \<Rightarrow> 'db vdc_method" where
  "admin_create_software_stack E caller rq = (case vp_new_stack rq of
      None \<Rightarrow> raise AttributeError
    | Some sr \<Rightarrow>
        bindA (liftA (validate_name (sr_name sr))) (\<lambda>_.
        bindA (admin_validate_create_stack E (Some sr)) (\<lambda>(sr, ok).
        if \<not> ok then return (Stack_Refused INVALID_PARAMS sr)
        else bindA (create_software_stack E sr) (\<lambda>stk. return (Stack_Answer (request_of_stack stk))))))"

subsection \<open>From a session\<close>

definition submit_ssm_command_to_enable_userdata_execution_on_windows ::
  "'db env \<Rightarrow> string option \<Rightarrow> string option \<Rightarrow> string option \<Rightarrow> string option \<Rightarrow> ('db st, unit) act" where
  "submit_ssm_command_to_enable_userdata_execution_on_windows E instance_id idea_session_id idea_session_owner
       software_stack_id =
     bindA (send_ssm_command E instance_id ''AWS-RunPowerShellScript''
              ''Enabling userdata execution for Windows EC2 Instance''
              [''C:'' @ [CHR 0x5C] @ ''ProgramData'' @ [CHR 0x5C] @ ''Amazon'' @ [CHR 0x5C] @ ''EC2-Windows'' @
               [CHR 0x5C] @ ''Launch'' @ [CHR 0x5C] @ ''Scripts'' @ [CHR 0x5C] @ ''InitializeInstance.ps1 -Schedule'']
              (fmt idea_session_id @ ''/enable-userdata'')) (\<lambda>response.
     let command_id = the (get_value_as_string ''CommandId'' (dict_of (subdict ''Command'' response)) (Some [])) in
     ssm_commands_db_create E command_id ''WINDOWS_ENABLE_USERDATA_EXECUTION''
       (session_detail idea_session_id idea_session_owner @
        [(''instance_id'', opt_str instance_id), (''software_stack_id'', opt_str software_stack_id)]))"

text \<open>
  On Windows the image is made later, when the host is prepared for it; elsewhere at once. Until then the
  session and its server are locked.
\<close>

definition image_of_session :: "'db env \<Rightarrow> session \<Rightarrow> server \<Rightarrow> stack_request \<Rightarrow> ('db st, string option) act" where
  "image_of_session E s sv sr =
     (if vs_base_os s = Some WINDOWS then return (Some ''TEMP_IMAGE_ID'')
      else bindA (create_image_for_instance_id E (sv_instance_id sv) (sr_name sr) (sr_description sr)) (\<lambda>response.
           return (string_of ''ImageId'' response)))"

definition start_image_check :: "'db env \<Rightarrow> session \<Rightarrow> server \<Rightarrow> stack \<Rightarrow> ('db st, unit) act" where
  "start_image_check E s sv stk =
     (if vs_base_os s = Some WINDOWS
      then submit_ssm_command_to_enable_userdata_execution_on_windows E (sv_instance_id sv) (vs_id s) (vs_owner s)
             (ss_id stk)
      else publish_validate_software_stack_creation_event E (ss_id stk) (ss_base_os stk) (vs_id s) (vs_owner s)
             (sv_instance_id sv))"

definition stack_for_session ::
  "world \<Rightarrow> session \<Rightarrow> server \<Rightarrow> string option \<Rightarrow> stack_request \<Rightarrow> exn + stack_request" where
  "stack_for_session w s sv image_id sr = (case (vs_base_os s, vs_stack s, vs_project s) of
      (None, _, _) \<Rightarrow> Inl ValueError
    | (Some os, Some old, Some p) \<Rightarrow>
        bindE (get_gpu_manufacturer w (sv_instance_type sv)) (\<lambda>g.
        bindE (get_instance_ram w (sv_instance_type sv)) (\<lambda>ram.
        Inr (sr\<lparr>sr_base_os := Some os, sr_ami_id := image_id, sr_architecture := Some (ss_architecture old),
               sr_gpu := Some g, sr_projects := Some [pj_id p], sr_min_ram := Some (as_unit GB ram)\<rparr>)))
    | _ \<Rightarrow> Inl AttributeError)"

definition lock_session :: "'db env \<Rightarrow> session \<Rightarrow> server \<Rightarrow> ('db st, unit) act" where
  "lock_session E s sv =
     (let locked = sv\<lparr>sv_locked := Some True\<rparr> in
      seqA (update_server E (Some locked))
           (update_session E (s\<lparr>vs_locked := Some True, vs_server := Some locked\<rparr>)))"

definition create_software_stack_from_session ::
  "'db env \<Rightarrow> session \<Rightarrow> stack_request \<Rightarrow> ('db st, stack_request) act" where
  "create_software_stack_from_session E asked sr =
     bindA (get_from_db E (vs_owner asked) (vs_id asked)) (\<lambda>v. case v of
       None \<Rightarrow> raise AttributeError
     | Some s \<Rightarrow> (case vs_server s of
         None \<Rightarrow> raise AttributeError
       | Some sv \<Rightarrow>
           bindA (image_of_session E s sv sr) (\<lambda>image_id.
           if empty_str image_id
           then return (stack_failed (''Unable to create AMI for InstanceID: '' @ fmt (sv_instance_id sv) @
                  '' for some reason. Please contact Administrators.'') sr)
           else bindA (liftA (stack_for_session (cfg E) s sv image_id sr)) (\<lambda>sr.
                bindA (create_software_stack E sr) (\<lambda>stk.
                seqA (start_image_check E s sv stk)
               (seqA (lock_session E s sv) (return (request_of_stack stk))))))))"

definition admin_create_software_stack_from_session :: "'db env \<Rightarrow> 'db vdc_method" where
  "admin_create_software_stack_from_session E caller rq =
     bindA (the_session rq) (\<lambda>s.
     if empty_str (vs_owner s) then return (Rejected INVALID_PARAMS)
     else (case validate_create_software_stack_request (vp_new_stack rq) of (sr, ok) \<Rightarrow>
       if \<not> ok then return (Rejected INVALID_PARAMS)
       else bindA (create_software_stack_from_session E s sr) (\<lambda>r.
            return (if empty_str (sr_failure r) then Stack_Answer r
                    else Stack_Refused CREATED_SOFTWARE_STACK_FROM_SESSION_FAILED r))))"

subsection \<open>Reading, updating, deleting\<close>

text \<open>The projects as the cluster manager knows them; a look-up reads the name of each, an update does not.\<close>

definition project_info :: "'db env \<Rightarrow> bool \<Rightarrow> string option \<Rightarrow> ('db st, string option \<times> val) act" where
  "project_info E names project_id =
     bindA (call E (ProjectsClient ''get_project'' [(''project_id'', opt_str project_id)])) (\<lambda>r.
     raise_if (names \<and> subdict ''project'' r = VDict []) AttributeError
       (return (project_id, subdict ''project'' r)))"

definition stack_with_projects :: "'db env \<Rightarrow> bool \<Rightarrow> stack \<Rightarrow> ('db st, vdc_answer) act" where
  "stack_with_projects E names stk =
     bindA (map_each (ss_projects stk) (project_info E names)) (\<lambda>infos. return (Stack_Of stk infos))"

text \<open>A stack that is not there is dereferenced before the code looks whether it is.\<close>

definition admin_get_software_stack_info :: "'db env \<Rightarrow> 'db vdc_method" where
  "admin_get_software_stack_info E caller rq = (case vp_stack rq of
      None \<Rightarrow> return (Rejected INVALID_PARAMS)
    | Some (stack_id, os) \<Rightarrow>
        if empty_str stack_id then return (Rejected INVALID_PARAMS)
        else bindA (software_stack_db_get E stack_id os) (\<lambda>v. case v of
          None \<Rightarrow> raise AttributeError
        | Some stk \<Rightarrow> stack_with_projects E True stk))"

definition admin_list_software_stacks :: "'db env \<Rightarrow> 'db vdc_method" where
  "admin_list_software_stacks E caller rq = list_stacks E (vp_filters rq)"

definition validate_update_software_stack_request :: "stack_request option \<Rightarrow> exn + stack_request \<times> bool" where
  "validate_update_software_stack_request v = (case v of
      None \<Rightarrow> Inr (stack_failed ''software_stack request missing'' no_stack_request, False)
    | Some sr \<Rightarrow>
        if empty_str (sr_name sr) then Inr (stack_failed ''software_stack.name missing'' sr, False)
        else if empty_str (sr_description sr) then Inr (stack_failed ''software_stack.description missing'' sr, False)
        else if sr_base_os sr = None then Inr (stack_failed ''software_stack.base_os missing'' sr, False)
        else (case sr_projects sr of
            None \<Rightarrow> Inl TypeError
          | Some ps \<Rightarrow> if list_ex empty_str ps
              then Inr (stack_failed ''software_stack.project.project_id missing'' sr, False)
              else Inr (sr, True)))"

definition with_stack_request :: "stack_request \<Rightarrow> stack \<Rightarrow> stack" where
  "with_stack_request sr old = old
    \<lparr>ss_description := (if empty_str (sr_description sr) then ss_description old else sr_description sr),
     ss_name := (if empty_str (sr_name sr) then ss_name old else sr_name sr),
     ss_enabled := (case sr_enabled sr of None \<Rightarrow> ss_enabled old | e \<Rightarrow> e),
     ss_projects := (case sr_projects sr of None \<Rightarrow> [] | Some ps \<Rightarrow> ps)\<rparr>"

definition admin_update_software_stack :: "'db env \<Rightarrow> 'db vdc_method" where
  "admin_update_software_stack E caller rq =
     bindA (liftA (validate_update_software_stack_request (vp_new_stack rq))) (\<lambda>(sr, ok).
     if \<not> ok then return (Stack_Refused INVALID_PARAMS sr)
     else if empty_str (sr_id sr)
     then return (Stack_Refused INVALID_PARAMS (stack_failed ''software_stack.stack_id missing'' sr))
     else bindA (software_stack_db_get E (sr_id sr) (sr_base_os sr)) (\<lambda>v. case v of
       None \<Rightarrow> return (Stack_Refused INVALID_PARAMS
         (stack_failed (''Invalid id '' @ fmt (sr_id sr) @ '' with base os '' @
            fmt (map_option base_os_value (sr_base_os sr))) sr))
     | Some old \<Rightarrow>
         bindA (software_stack_db_update E (with_stack_request sr old)) (\<lambda>v. case v of
           None \<Rightarrow> raise AttributeError
         | Some stk \<Rightarrow> stack_with_projects E False stk)))"

text \<open>
  A stack is in use when the row of a session carries exactly what the request says of the stack. The
  answer names the sessions.
\<close>

definition list_all_for_software_stack :: "'db env \<Rightarrow> stack_request \<Rightarrow> ('db st, session list) act" where
  "list_all_for_software_stack E sr =
     bindA (liftA (stack_request_to_db sr)) (\<lambda>d. list_sessions_with E [(''software_stack'', EQ, VDict d)])"

definition delete_software_stack :: "'db env \<Rightarrow> base_os \<Rightarrow> string option \<Rightarrow> ('db st, unit) act" where
  "delete_software_stack E os stack_id =
     raise_if (empty_str stack_id) invalid_params
     (let k = (base_os_value os, fmt stack_id) in
      bindA (db_get E SoftwareStacks k) (\<lambda>old.
      seqA (db_delete E SoftwareStacks k)
           (case old of None \<Rightarrow> raise (KeyError ''Attributes'')
            | Some r \<Rightarrow> trigger_delete_event E SoftwareStacks k (row_dict stack_columns r))))"

definition admin_delete_software_stack :: "'db env \<Rightarrow> 'db vdc_method" where
  "admin_delete_software_stack E caller rq = (case vp_new_stack rq of
      None \<Rightarrow> raise AttributeError
    | Some sr \<Rightarrow> (case sr_base_os sr of
        None \<Rightarrow> return (Rejected INVALID_PARAMS)
      | Some os \<Rightarrow>
          if empty_str (sr_id sr) then return (Rejected INVALID_PARAMS)
          else bindA (list_all_for_software_stack E sr) (\<lambda>sessions.
            if sessions \<noteq> [] then return (Rejected GENERAL_ERROR)
            else seqA (delete_software_stack E os (sr_id sr)) (return Done))))"

section \<open>Permission profiles\<close>

definition admin_update_permission_profile :: "'db env \<Rightarrow> 'db vdc_method" where
  "admin_update_permission_profile E caller rq =
     bindA (profile_db_get E (pf_id (vp_profile rq))) (\<lambda>existing.
     if existing = None then return (Rejected INVALID_PARAMS)
     else bindA (profile_db_update E (vp_profile rq)) (\<lambda>p. return (Profile_Answer p)))"

definition admin_create_permission_profile :: "'db env \<Rightarrow> 'db vdc_method" where
  "admin_create_permission_profile E caller rq =
     bindA (profile_db_get E (pf_id (vp_profile rq))) (\<lambda>existing.
     if existing \<noteq> None then return (Rejected INVALID_PARAMS)
     else bindA (profile_db_create E (vp_profile rq)) (\<lambda>p. return (Profile_Answer p)))"

definition admin_delete_permission_profile :: "'db env \<Rightarrow> 'db vdc_method" where
  "admin_delete_permission_profile E caller rq =
     (if vp_profile_id rq = None \<or> vp_profile_id rq = Some [] then return (Rejected INVALID_PARAMS)
      else bindA (profile_db_get E (vp_profile_id rq)) (\<lambda>existing.
           if existing = None then return Done
           else seqA (profile_db_delete E (vp_profile_id rq)) (return Done)))"

section \<open>Access\<close>

definition admin_acl :: "'db env \<Rightarrow> 'db vdc_acl" where
  "admin_acl E =
    (let r = module_scope (cfg E) ''read''; w = module_scope (cfg E) ''write'' in
     [(''VirtualDesktopAdmin.CreateSession'', w, admin_create_session E),
      (''VirtualDesktopAdmin.BatchCreateSessions'', w, admin_batch_create_sessions E),
      (''VirtualDesktopAdmin.UpdateSession'', w, admin_update_session E),
      (''VirtualDesktopAdmin.DeleteSessions'', w, admin_delete_sessions E),
      (''VirtualDesktopAdmin.GetSessionInfo'', r, admin_get_session_info E),
      (''VirtualDesktopAdmin.ListSessions'', r, admin_list_sessions E),
      (''VirtualDesktopAdmin.StopSessions'', w, admin_stop_sessions E),
      (''VirtualDesktopAdmin.RebootSessions'', w, admin_reboot_sessions E),
      (''VirtualDesktopAdmin.ResumeSessions'', w, admin_resume_sessions E),
      (''VirtualDesktopAdmin.GetSessionScreenshot'', r, admin_get_session_screenshots E),
      (''VirtualDesktopAdmin.GetSessionConnectionInfo'', r, admin_get_session_connection_info E),
      (''VirtualDesktopAdmin.CreateSoftwareStack'', w, admin_create_software_stack E),
      (''VirtualDesktopAdmin.UpdateSoftwareStack'', w, admin_update_software_stack E),
      (''VirtualDesktopAdmin.GetSoftwareStackInfo'', r, admin_get_software_stack_info E),
      (''VirtualDesktopAdmin.ListSoftwareStacks'', r, admin_list_software_stacks E),
      (''VirtualDesktopAdmin.CreateSoftwareStackFromSession'', w, admin_create_software_stack_from_session E),
      (''VirtualDesktopAdmin.DeleteSoftwareStack'', w, admin_delete_software_stack E),
      (''VirtualDesktopAdmin.CreatePermissionProfile'', w, admin_create_permission_profile E),
      (''VirtualDesktopAdmin.UpdatePermissionProfile'', w, admin_update_permission_profile E),
      (''VirtualDesktopAdmin.DeletePermissionProfile'', w, admin_delete_permission_profile E),
      (''VirtualDesktopAdmin.ListSessionPermissions'', r, admin_list_session_permissions E),
      (''VirtualDesktopAdmin.ListSharedPermissions'', r, admin_list_shared_permissions E),
      (''VirtualDesktopAdmin.UpdateSessionPermissions'', w, admin_update_session_permission E)])"

definition admin_api_invoke :: "'db env \<Rightarrow> vdc_payload \<Rightarrow> ('db api, vdc_answer) act" where
  "admin_api_invoke E = vdc_invoke E True (admin_acl E)"

section \<open>The other APIs\<close>

definition describe_dcv_servers :: "'db env \<Rightarrow> 'db vdc_method" where
  "describe_dcv_servers E caller rq =
     bindA (call E (DcvBroker ''describe_servers'' [])) (\<lambda>r. return (Broker_Answer r))"

definition describe_dcv_sessions :: "'db env \<Rightarrow> 'db vdc_method" where
  "describe_dcv_sessions E caller rq =
     bindA (describe_sessions E (vp_sessions rq)) (\<lambda>d. return (Broker_Answer (VDict d)))"

definition dcv_api_invoke :: "'db env \<Rightarrow> vdc_payload \<Rightarrow> ('db api, vdc_answer) act" where
  "dcv_api_invoke E = vdc_invoke E True
     (let r = module_scope (cfg E) ''read'' in
      [(''VirtualDesktopDCV.DescribeServers'', r, describe_dcv_servers E),
       (''VirtualDesktopDCV.DescribeSessions'', r, describe_dcv_sessions E)])"

definition utils_get_permission_profile :: "'db env \<Rightarrow> 'db vdc_method" where
  "utils_get_permission_profile E caller rq =
     (if empty_str (vp_profile_id rq) then return (Rejected INVALID_PARAMS)
      else bindA (profile_db_get E (vp_profile_id rq)) (\<lambda>v. return (case v of
        None \<Rightarrow> Rejected INVALID_PARAMS | Some p \<Rightarrow> Profile_Answer p)))"

text \<open>The list of profiles knows no filter by \<open>value\<close>.\<close>

definition profile_filter :: "listing_filter list \<Rightarrow> scan_filter" where
  "profile_filter filters = scan_filter_of (map (\<lambda>f. f\<lparr>lf_value := None\<rparr>) filters)"

definition utils_list_permission_profiles :: "'db env \<Rightarrow> 'db vdc_method" where
  "utils_list_permission_profiles E caller rq =
     bindA (profile_db_list E (profile_filter (vp_filters rq))) (\<lambda>ps. return (Profiles_Found ps))"

definition utils_list_allowed_for_session :: "'db env \<Rightarrow> 'db vdc_method" where
  "utils_list_allowed_for_session E caller rq =
     bindA (the_session rq) (\<lambda>s. case (vs_hibernation s, vs_stack s, vs_server s) of
       (Some hibernation, Some stk, Some sv) \<Rightarrow>
         if empty_str (sv_instance_type sv) then return (Rejected GENERAL_ERROR)
         else bindA (liftA (get_gpu_manufacturer (cfg E) (sv_instance_type sv))) (\<lambda>g.
              return (Instance_Types_Found (get_valid_instance_types (cfg E) hibernation (Some stk) (Some g))))
     | _ \<Rightarrow> return (Rejected GENERAL_ERROR))"

definition utils_list_allowed_instance_types :: "'db env \<Rightarrow> 'db vdc_method" where
  "utils_list_allowed_instance_types E caller rq =
     return (Instance_Types_Found
       (get_valid_instance_types (cfg E) (vp_hibernation rq = Some True) (vp_shown_stack rq) None))"

definition utils_acl :: "'db env \<Rightarrow> 'db vdc_acl" where
  "utils_acl E =
    (let r = module_scope (cfg E) ''read''; names = (\<lambda>ns _ _. return (Names_Found ns)) in
     [(''VirtualDesktopUtils.ListSupportedOS'', r,
         names (map base_os_value [AMAZON_LINUX2, CENTOS7, RHEL7, RHEL8, RHEL9, WINDOWS])),
      (''VirtualDesktopUtils.ListSupportedGPU'', r, names (map gpu_value [NO_GPU, NVIDIA, AMD])),
      (''VirtualDesktopUtils.ListScheduleTypes'', r, names (map schedule_type_value
         [WORKING_HOURS, STOP_ALL_DAY, START_ALL_DAY, CUSTOM_SCHEDULE, NO_SCHEDULE])),
      (''VirtualDesktopUtils.ListAllowedInstanceTypes'', r, utils_list_allowed_instance_types E),
      (''VirtualDesktopUtils.ListAllowedInstanceTypesForSession'', r, utils_list_allowed_for_session E),
      (''VirtualDesktopUtils.GetBasePermissions'', r, names (permission_types (cfg E))),
      (''VirtualDesktopUtils.ListPermissionProfiles'', r, utils_list_permission_profiles E),
      (''VirtualDesktopUtils.GetPermissionProfile'', r, utils_get_permission_profile E)])"

definition utils_api_invoke :: "'db env \<Rightarrow> vdc_payload \<Rightarrow> ('db api, vdc_answer) act" where
  "utils_api_invoke E = vdc_invoke E False (utils_acl E)"

section \<open>VirtualDesktopApiInvoker\<close>

definition vdc_api_invoke :: "'db env \<Rightarrow> vdc_payload \<Rightarrow> ('db api, vdc_answer) act" where
  "vdc_api_invoke E rq = bindA (ctxA ctx_namespace) (\<lambda>namespace.
     let leading_namespace = hd (split_at (CHR ''.'') namespace) in
     if leading_namespace = ''VirtualDesktopUtils'' then utils_api_invoke E rq
     else if leading_namespace = ''VirtualDesktopDCV'' then dcv_api_invoke E rq
     else if leading_namespace = ''VirtualDesktopAdmin'' then admin_api_invoke E rq
     else if leading_namespace = ''VirtualDesktop'' then user_api_invoke E rq
     else if leading_namespace = ''App''
     then return (if namespace = ''App.GetModuleInfo'' then Names_Found [module_id (cfg E)] else No_Answer)
     else raise (KeyError leading_namespace))"

end
