(* ===== verification/Vdc_Owners.thy ===== *)
theory Vdc_Owners
  imports Vdc_Admin_Api Vdc_States
begin

text \<open>
  Whose sessions the requests of a user reach. The invariant compares the session table with the one before
  the request: the rows of other owners are as they were.
\<close>

section \<open>The rows of one owner\<close>

definition own_rows :: "'db env \<Rightarrow> 'db \<Rightarrow> string \<Rightarrow> 'db \<Rightarrow> bool" where
  "own_rows E d0 u d \<longleftrightarrow> (\<forall>k. fst k \<noteq> u \<longrightarrow> ddb_get E d Sessions k = ddb_get E d0 Sessions k)"

definition owned :: "string \<Rightarrow> session \<Rightarrow> bool" where
  "owned u s \<longleftrightarrow> vs_owner s = Some u"

lemma owned_fields [simp]:
  "owned u (s\<lparr>vs_state := x\<rparr>) = owned u s" "owned u (s\<lparr>vs_force := f\<rparr>) = owned u s"
  "owned u (s\<lparr>vs_connections := n\<rparr>) = owned u s" "owned u (s\<lparr>vs_server := sv\<rparr>) = owned u s"
  "owned u (s\<lparr>vs_schedule := w\<rparr>) = owned u s" "owned u (s\<lparr>vs_by_admin := b\<rparr>) = owned u s"
  "owned u (s\<lparr>vs_stack := stk\<rparr>) = owned u s" "owned u (s\<lparr>vs_project := p\<rparr>) = owned u s"
  "owned u (s\<lparr>vs_name := nm\<rparr>) = owned u s" "owned u (s\<lparr>vs_type := ty\<rparr>) = owned u s"
  "owned u (s\<lparr>vs_id := i\<rparr>) = owned u s" "owned u (s\<lparr>vs_failure := r\<rparr>) = owned u s"
  "owned u (s\<lparr>vs_owner := o'\<rparr>) \<longleftrightarrow> o' = Some u"
  by (simp_all add: owned_def)

lemma owned_session_key: "owned u s \<Longrightarrow> fst (session_key s) = u"
  by (simp add: owned_def session_key_def fmt_def)

lemma keeps_table_inv: "(\<And>st. P (st_db st) \<Longrightarrow> P (st_db (snd (m st)))) \<Longrightarrow> keeps (table_inv P) m"
  by (simp add: keeps_def table_inv_def)

context dynamodb
begin

lemma own_tolerates: "t \<noteq> Sessions \<Longrightarrow> tolerates E (own_rows E d0 u) t"
  unfolding tolerates_def own_rows_def by (auto simp del: split_paired_All)

lemma own_update: "owned u s \<Longrightarrow> keeps (table_inv (own_rows E d0 u)) (session_db_update E s)"
  by (rule session_update_keeps)
     (auto simp: keeps_def table_inv_def own_rows_def dest: owned_session_key simp del: split_paired_All)

lemma own_delete: "owned u s \<Longrightarrow> keeps (table_inv (own_rows E d0 u)) (session_db_delete E s)"
proof -
  assume "owned u s"
  then have "keeps (table_inv (own_rows E d0 u)) (db_delete E Sessions (session_key s))"
    by (auto simp: keeps_def table_inv_def own_rows_def dest: owned_session_key simp del: split_paired_All)
  then show ?thesis
    unfolding session_db_delete_def Let_def session_key_def
    by (intro keeps_raise_if keeps_bindA keeps_table_reads keeps_seqA keeps_case_option keeps_raise
        keeps_publications)
qed

lemma own_create: "owned u s \<Longrightarrow> keeps (table_inv (own_rows E d0 u)) (session_db_create E s)"
proof -
  assume o: "owned u s"
  have put: "keeps (table_inv (own_rows E d0 u)) (db_put E Sessions (map_of
      (dict_set ''updated_on'' x (dict_set ''created_on'' y d))))" if d: "session_to_db s = Inr d" for d x y
  proof -
    let ?i = "map_of (dict_set ''updated_on'' x (dict_set ''created_on'' y d))"
    have "?i ''owner'' = Some (VStr u)"
      using session_entry_fields(1) [OF d] o by (simp add: owned_def)
    then have "fst k = u" if "key_of Sessions ?i = Some k" for k
      using that by (auto simp: key_of_def schema_defs split: option.splits val.splits)
    then show ?thesis
      by (auto simp: keeps_def table_inv_def own_rows_def db_put_def simp del: split_paired_All split: option.splits)
  qed
  show ?thesis
  proof (cases "session_to_db s")
    case (Inr d)
    show ?thesis
      unfolding session_db_create_def Let_def Inr bindA_liftA put_entry_def
      by (intro keeps_bindA keeps_table_reads keeps_seqA put [OF Inr] keeps_liftA keeps_publications keeps_read_back)
  qed (simp add: session_db_create_def keeps_def bindA_def)
qed

lemma own_frame: "session_frame E (own_rows E d0 u) states (owned u)"
  unfolding session_frame_def by (simp add: own_tolerates own_update)

text \<open>A session that is read under a name is one of that owner.\<close>

lemma get_from_db_owner:
  assumes "get_from_db E (Some u) i st = (Inr (Some x), st')" and "py_strip u = u"
  shows "owned u x"
proof -
  obtain r where r: "row E st Sessions (u, fmt i) = Some r" and rd: "session_from_db (cfg E) (Some r) = Inr (Some x)"
    and ne: "\<not> empty_str (Some u)"
    using assms(1)
    by (cases "row E st Sessions (u, fmt i)")
       (auto simp: get_from_db_def bindA_def fmt_def session_from_db_def split: if_splits sum.splits)
  have "r ''owner'' = Some (VStr u)"
    using row_key [OF r] by (auto simp: key_of_def schema_defs split: option.splits val.splits)
  then have "get_value_as_string ''owner'' r None = Some u"
    using ne assms(2) by (simp add: get_value_as_string_VStr empty_str_def)
  then show ?thesis using rd by (auto simp: session_from_db_def bindE_eq_Inr owned_def)
qed

lemma stored_session_owner:
  "stored_session E s st = (Inr x, st') \<Longrightarrow> owned u s \<Longrightarrow> py_strip u = u \<Longrightarrow> owned u x"
  by (auto simp: stored_session_def owned_def bindA_eq_Inr split: option.splits dest: get_from_db_owner [unfolded owned_def])

lemma found_owned:
  assumes "found_sessions E g ss st = (Inr found, st')" and "\<forall>s \<in> set ss. owned u s" and "py_strip u = u"
    and "\<And>s x. owned u (g s x) = owned u x"
  shows "\<forall>x \<in> set found. owned u x"
  using assms(1,2)
proof (induction ss arbitrary: st found)
  case (Cons s ss)
  then show ?case
    using stored_session_owner [OF _ _ assms(3)] assms(4) by (fastforce simp: found_sessions_def bindA_eq_Inr)
qed (simp add: found_sessions_def)

lemmas request_owned = found_owned [where g = "\<lambda>s x. x\<lparr>vs_force := vs_force s\<rparr>", folded stored_sessions_found, simplified]
lemmas plain_request_owned = found_owned [where g = "\<lambda>s x. x", folded plain_sessions_found, simplified]

lemma own_requests:
  assumes "\<forall>s \<in> set ss. owned u s" and "py_strip u = u"
  shows "keeps (table_inv (own_rows E d0 u)) (stop_sessions E ss)"
    and "keeps (table_inv (own_rows E d0 u)) (resume_sessions E ss)"
    and "keeps (table_inv (own_rows E d0 u)) (reboot_sessions E ss)"
    and "keeps (table_inv (own_rows E d0 u)) (terminate_sessions E ss)"
proof -
  note owned = request_owned [OF _ assms] plain_request_owned [OF _ assms]
  show "keeps (table_inv (own_rows E d0 u)) (stop_sessions E ss)"
    by (rule keeps_table_inv, rule stop_sessions_frame [OF own_frame]) (blast dest: owned(1))+
  show "keeps (table_inv (own_rows E d0 u)) (resume_sessions E ss)"
    by (rule keeps_table_inv, rule resume_sessions_frame [OF own_frame]) (blast dest: owned(2))+
  show "keeps (table_inv (own_rows E d0 u)) (reboot_sessions E ss)"
    by (rule keeps_table_inv, rule reboot_sessions_frame [OF own_frame]) (blast dest: owned(1))+
  show "keeps (table_inv (own_rows E d0 u)) (terminate_sessions E ss)"
    by (rule keeps_table_inv, rule terminate_sessions_frame [OF own_frame _ own_delete]) (blast dest: owned(1))+
qed

end

section \<open>Frames\<close>

lemma keeps_case_sum [keeps_rules]:
  "(\<And>e. x = Inl e \<Longrightarrow> keeps I (f e)) \<Longrightarrow> (\<And>y. x = Inr y \<Longrightarrow> keeps I (g y)) \<Longrightarrow>
     keeps I (case x of Inl e \<Rightarrow> f e | Inr y \<Rightarrow> g y)"
  by (cases x) auto

lemma keeps_case_list [keeps_rules]:
  "(x = [] \<Longrightarrow> keeps I m) \<Longrightarrow> (\<And>y ys. x = y # ys \<Longrightarrow> keeps I (f y ys)) \<Longrightarrow>
     keeps I (case x of [] \<Rightarrow> m | y # ys \<Rightarrow> f y ys)"
  by (cases x) auto

lemma keeps_update_schedule [keeps_rules]:
  assumes "tolerates E P Schedules"
  shows "keeps (table_inv P) (update_schedule_for_session E week s)"
proof -
  have "keeps (table_inv P) (update_schedule_days E ds week s)" for ds s
    by (induction ds arbitrary: s)
       (auto simp: create_or_update_schedule_def create_schedule_for_day_of_week_def schedule_db_create_def Let_def
         intro!: keeps_rules assms)
  then show ?thesis by (simp add: update_schedule_for_session_def)
qed

lemma update_schedule_owner:
  assumes "update_schedule_for_session E week s st = (Inr s', st')"
  shows "vs_owner s' = vs_owner s"
proof -
  have days_owner: "update_schedule_days E ds week s st = (Inr s', st') \<Longrightarrow> vs_owner s' = vs_owner s" for ds s st
    by (induction ds arbitrary: s st) (auto simp: bindA_eq_Inr)
  then show ?thesis using assms by (auto simp: update_schedule_for_session_def dest!: days_owner)
qed

lemma keeps_provision [keeps_rules]:
  assumes "tolerates E P Servers"
  shows "keeps (table_inv P) (provision_host_for_session E s)"
proof -
  have run: "keeps (table_inv P) (run_instances E s subnet)" for subnet
    by (cases "vs_stack s"; cases "vs_server s") (auto simp: run_instances_def intro!: keeps_rules)
  have "keeps (table_inv P) (try_subnets E retry s subnets)" for retry subnets
  proof (induction subnets)
    case (Cons subnet rest)
    show ?case unfolding try_subnets.simps by (intro keeps_rules run Cons.IH)
  qed (simp only: try_subnets.simps keeps_raise)
  then show ?thesis
    unfolding provision_host_for_session_def provision_dcv_host_for_session_def server_db_create_def Let_def
    by (intro keeps_rules assms)
qed

lemma keeps_session_reads [keeps_rules]:
  "keeps (table_inv P) (get_from_db E owner i)"
  "keeps (table_inv P) (list_sessions_with E flt)"
  "keeps (table_inv P) (get_session_count_for_user E u)"
  "keeps (table_inv P) (list_session_permissions E flt)"
  "keeps (table_inv P) (software_stack_db_get E i os)"
  unfolding get_from_db_def list_sessions_with_def get_session_count_for_user_def list_session_permissions_def
    software_stack_db_get_def
  by (intro keeps_rules)+

lemma keeps_permission_writes [keeps_rules]:
  assumes "tolerates E P SessionPermissions"
  shows "keeps (table_inv P) (update_permission_for_sessions E create update delete)"
  unfolding update_permission_for_sessions_def permission_db_create_def permission_db_update_def
    permission_db_delete_def publish_enforce_session_permissions_event_def publish_timed_event_def Let_def
  by (intro keeps_rules assms)

lemma keeps_screenshots [keeps_rules]: "keeps (table_inv P) (get_session_screenshots E shots)"
proof -
  have "keeps (table_inv P) (screenshots_at_broker E shots)" for shots
    unfolding screenshots_at_broker_def by (intro keeps_rules)
  note one = this
  have "keeps (table_inv P) (broker_screenshots E shots)" for shots
  proof (induction shots rule: measure_induct_rule [where f = length])
    case (less shots)
    have "keeps (table_inv P) (broker_screenshots E (drop 5 shots))" if "shots \<noteq> []"
      by (rule less.IH) (use that in \<open>auto simp: neq_Nil_conv\<close>)
    then show ?case by (subst broker_screenshots.simps) (intro keeps_rules one)
  qed
  then show ?thesis
    unfolding get_session_screenshots_def resolve_screenshot_def by (intro keeps_rules)
qed

section \<open>The requests of a user\<close>

lemma completed_owned:
  "validate_owner (Some u) (vs_owner s) \<Longrightarrow> owned u (complete_session_request (Some u) s)"
  by (auto simp: validate_owner_def complete_session_request_def owned_def)

lemma owner_checked_accepts:
  "owner_checked caller s = (s', True) \<Longrightarrow> s' = s \<and> validate_owner caller (vs_owner s)"
  by (simp add: owner_checked_def split: if_splits)

text \<open>The sessions of a batch that pass the check of a user's request become the user's own.\<close>

lemma reviewed_owned:
  assumes "\<And>s s'. (s', True) \<in> set reviewed \<Longrightarrow> validate_owner (Some u) (vs_owner s')"
  shows "\<forall>s \<in> set (map (complete_session_request (Some u)) (accepted reviewed)). owned u s"
  using assms by (auto simp: accepted_def intro!: completed_owned)

lemma map_sum_list_member: "map_sum_list f xs = Inr ys \<Longrightarrow> y \<in> set ys \<Longrightarrow> \<exists>x \<in> set xs. f x = Inr y"
  by (induction xs arbitrary: ys) (auto simp: bindE_eq_Inr)

lemma user_checks_accept:
  "user_validate_delete caller s = (s', True) \<Longrightarrow> validate_owner caller (vs_owner s')"
  "user_validate_resume caller s = (s', True) \<Longrightarrow> validate_owner caller (vs_owner s')"
  "user_validate_stop caller s = Inr (s', True) \<Longrightarrow> validate_owner caller (vs_owner s')"
  "user_validate_reboot caller s = Inr (s', True) \<Longrightarrow> validate_owner caller (vs_owner s')"
  "user_validate_info caller s = Inr (s', True) \<Longrightarrow> validate_owner caller (vs_owner s')"
  by (auto simp: user_validate_delete_def user_validate_resume_def user_validate_stop_def user_validate_reboot_def
      user_validate_info_def bindE_eq_Inr dest!: owner_checked_accepts split: prod.splits if_splits)

lemma keeps_run_batch:
  assumes "keeps I (run (map (complete_session_request caller) (accepted reviewed)))"
  shows "keeps I (run_batch run caller reviewed)"
  unfolding run_batch_def by (intro keeps_rules assms)

lemma keeps_unless_empty: "keeps I (run xs) \<Longrightarrow> keeps I (unless_empty run xs)"
  by (simp add: unless_empty_def keeps_return)

subsection \<open>Creation\<close>

text \<open>A creation passes the checks with the user as its owner.\<close>

lemma refused_run [simp]: "refused reason s st = (Inr (failed_with reason s, False), st)"
  by (simp add: refused_def)

lemma checked_accepts:
  "checked c s k st = (Inr (s', True), st') \<Longrightarrow> c = Inr None \<and> k st = (Inr (s', True), st')"
  by (cases c) (auto simp: checked_def bindA_def split: option.splits)

text \<open>What the checks of the host, the stack and the project let through.\<close>

definition host_fits :: "'db env \<Rightarrow> session \<Rightarrow> stack \<Rightarrow> server \<Rightarrow> bool" where
  "host_fits E s stk sv \<longleftrightarrow> vs_hibernation s \<noteq> None \<and> instance_type_allowed (cfg E) s stk sv \<and>
     check_hibernation (cfg E) s stk sv = Inr None \<and> check_session_type (cfg E) s stk sv = Inr None \<and>
     check_root_volume (cfg E) s stk sv = Inr None"

lemma validate_host_accepts:
  assumes "validate_host E s stk st = (Inr (s', True), st')"
  shows "s' = s \<and> st' = st \<and> (\<exists>sv. vs_server s = Some sv \<and> host_fits E s stk sv)"
  using assms
  by (auto simp: validate_host_def host_fits_def split: if_splits option.splits dest!: checked_accepts)

lemma validate_stack_accepts:
  assumes "validate_stack E s p software_stack st = (Inr (s', True), st')"
  obtains i os stk where "software_stack = Some (i, Some os)" and "\<not> empty_str i"
    and "stack_from_db (row E st SoftwareStacks (base_os_value os, fmt i)) = Inr (Some stk)"
    and "pj_id p \<in> set (ss_projects stk)" and "budget_exceeded E p = Inr False"
    and "s' = s\<lparr>vs_stack := Some stk\<rparr>" and "st' = st"
    and "\<exists>sv. vs_server s = Some sv \<and> host_fits E s' stk sv"
proof -
  obtain i o' where ss: "software_stack = Some (i, o')"
    using assms by (cases software_stack) (auto simp: validate_stack_def)
  then obtain os where os: "o' = Some os" and ne: "\<not> empty_str i"
    using assms by (cases o') (auto simp: validate_stack_def split: if_splits)
  obtain stk st1 where get: "software_stack_db_get E i (Some os) st = (Inr (Some stk), st1)"
    and rest: "pj_id p \<in> set (ss_projects stk)" "budget_exceeded E p = Inr False"
      "validate_host E (s\<lparr>vs_stack := Some stk\<rparr>) stk st1 = (Inr (s', True), st')"
    using assms ne unfolding validate_stack_def ss os
    by (auto simp: bindA_eq_Inr split: option.splits if_splits)
  have "st1 = st" and "stack_from_db (row E st SoftwareStacks (base_os_value os, fmt i)) = Inr (Some stk)"
    using get ne by (auto simp: software_stack_db_get_def bindA_def split: sum.splits)
  then show thesis
    using that [OF ss [unfolded os] ne] rest validate_host_accepts [OF rest(3)] by auto
qed

definition projects_answer :: "'db env \<Rightarrow> 'db st \<Rightarrow> string option \<Rightarrow> session_project list" where
  "projects_answer E st username =
     (case ext_result (cfg E) (st_trace st) (ProjectsClient ''get_user_projects'' [(''username'', opt_str username)]) of
        Inr (VList vs) \<Rightarrow> map project_of_client vs | _ \<Rightarrow> [])"

lemma client_user_projects_run:
  "client_user_projects E u st = (Inr ps, st') \<Longrightarrow> ps = projects_answer E st u \<and> st_db st' = st_db st"
  by (auto simp: client_user_projects_def projects_answer_def call_def bindA_def split: sum.splits val.splits)

lemma validate_create_accepts:
  assumes "validate_create_session_request E s software_stack st = (Inr (s', True), st')"
  obtains p i os stk where "p \<in> set (projects_answer E st (vs_owner s))"
    and "map_option pj_id (vs_project s) = Some (pj_id p)"
    and "software_stack = Some (i, Some os)"
    and "stack_from_db (row E st SoftwareStacks (base_os_value os, fmt i)) = Inr (Some stk)"
    and "pj_id p \<in> set (ss_projects stk)" and "budget_exceeded E p = Inr False"
    and "s' = s\<lparr>vs_project := Some p, vs_stack := Some stk\<rparr>" and "st_db st' = st_db st"
    and "\<exists>sv. vs_server s = Some sv \<and> host_fits E s' stk sv"
proof -
  obtain asked where asked: "vs_project s = Some asked" and ne: "\<not> empty_str (pj_id asked)"
    using assms by (auto simp: validate_create_session_request_def split: option.splits if_splits)
  obtain ps st1 p where ps: "client_user_projects E (vs_owner s) st = (Inr ps, st1)"
    and p: "find (\<lambda>p. pj_id p = pj_id asked) ps = Some p"
    and v: "validate_stack E (s\<lparr>vs_project := Some p\<rparr>) p software_stack st1 = (Inr (s', True), st')"
    using assms asked ne
    by (auto simp: validate_create_session_request_def bindA_eq_Inr split: option.splits)
  have p': "p \<in> set ps" "pj_id p = pj_id asked" using p by (auto simp: find_Some_iff)
  show thesis
  proof (rule validate_stack_accepts [OF v])
    fix i os stk
    assume a: "software_stack = Some (i, Some os)"
      "stack_from_db (row E st1 SoftwareStacks (base_os_value os, fmt i)) = Inr (Some stk)"
      "pj_id p \<in> set (ss_projects stk)" "budget_exceeded E p = Inr False"
      "s' = s\<lparr>vs_project := Some p\<rparr>\<lparr>vs_stack := Some stk\<rparr>" "st' = st1"
      "\<exists>sv. vs_server (s\<lparr>vs_project := Some p\<rparr>) = Some sv \<and> host_fits E s' stk sv"
    show thesis
      by (rule that [of p i os stk])
         (use a p' asked client_user_projects_run [OF ps] in auto)
  qed
qed

lemma user_validate_create_accepts:
  assumes "user_validate_create E caller v software_stack st = (Inr (s', True), st')"
  obtains s u count allowed st1 where "v = Some s" and "caller = Some u" and "validate_owner caller (vs_owner s)"
    and "get_session_count_for_user E u st = (Inr count, st1)" and "st1 = st"
    and "config_int (cfg E) ''virtual-desktop-controller.dcv_session.allowed_sessions_per_user'' = Some allowed"
    and "count < allowed"
    and "validate_create_session_request E (s\<lparr>vs_owner := caller\<rparr>) software_stack st = (Inr (s', True), st')"
proof -
  obtain s where v: "v = Some s" and o: "validate_owner caller (vs_owner s)"
    using assms by (cases v) (auto simp: user_validate_create_def split: if_splits)
  obtain u where u: "caller = Some u"
    using assms v o by (cases caller) (auto simp: user_validate_create_def Let_def bindA_def)
  obtain count st1 allowed where c: "get_session_count_for_user E u st = (Inr count, st1)"
    and "config_int (cfg E) ''virtual-desktop-controller.dcv_session.allowed_sessions_per_user'' = Some allowed"
    and "count < allowed"
    and "validate_create_session_request E (s\<lparr>vs_owner := caller\<rparr>) software_stack st1 = (Inr (s', True), st')"
    using assms v o u
    by (auto simp: user_validate_create_def Let_def bindA_eq_Inr required_int_def not_le split: option.splits if_splits)
  moreover have "st1 = st"
    using c by (auto simp: get_session_count_for_user_def bindA_def split: prod.splits)
  ultimately show thesis using that v u o by blast
qed

lemma create_accepted_owned:
  "user_validate_create E (Some u) v software_stack st = (Inr (s', True), st') \<Longrightarrow> owned u s'"
  by (elim user_validate_create_accepts validate_create_accepts) simp

lemma complete_create_owned:
  assumes "complete_create_session_request E (Some u) s st = (Inr s', st')" and "owned u s"
  shows "owned u s'"
proof -
  have "owned u (complete_session_request (Some u) s)"
    using assms(2) by (auto simp: complete_session_request_def owned_def)
  then show ?thesis
    using assms(1) unfolding complete_create_session_request_def
    by (cases "vs_server s"; cases "vs_stack s"; cases "vs_project s") (auto simp: bindA_eq_Inr owned_def)
qed

lemma keeps_creation_checks [keeps_rules]:
  "keeps (table_inv P) (user_validate_create E caller v software_stack)"
  "keeps (table_inv P) (complete_create_session_request E caller s)"
proof -
  have checked: "keeps I k \<Longrightarrow> keeps I (checked c s k)" for I c s and k :: "('db st, session \<times> bool) act"
    unfolding checked_def refused_def by (intro keeps_rules)
  have host: "keeps (table_inv P) (validate_host E s stk)" for s stk
    unfolding validate_host_def refused_def by (intro keeps_rules checked)
  have stk: "keeps (table_inv P) (validate_stack E s p software_stack)" for s p software_stack
    unfolding validate_stack_def refused_def by (intro keeps_rules host)
  have "keeps (table_inv P) (validate_create_session_request E s software_stack)" for s software_stack
    unfolding validate_create_session_request_def client_user_projects_def refused_def by (intro keeps_rules stk)
  then show "keeps (table_inv P) (user_validate_create E caller v software_stack)"
    unfolding user_validate_create_def refused_def Let_def by (intro keeps_rules)
  show "keeps (table_inv P) (complete_create_session_request E caller s)"
    unfolding complete_create_session_request_def
    by (auto split: option.split intro!: keeps_rules)
qed

context dynamodb
begin

lemma own_create_session:
  assumes "owned u s"
  shows "keeps (table_inv (own_rows E d0 u)) (create_session E s)"
proof -
  let ?I = "table_inv (own_rows E d0 u)"
  have store: "keeps ?I (bindA (update_schedule_for_session E week (s\<lparr>vs_server := sv\<rparr>))
      (\<lambda>s'. session_db_create E (s'\<lparr>vs_state := Some PROVISIONING\<rparr>)))" for week sv
  proof (rule keeps_bind_result [where Q = "owned u"])
    show "owned u x" if "update_schedule_for_session E week (s\<lparr>vs_server := sv\<rparr>) st = (Inr x, t)" for st x t
      using update_schedule_owner [OF that] assms by (simp add: owned_def)
  qed (simp_all add: own_create keeps_update_schedule own_tolerates)
  show ?thesis
    unfolding create_session_def
    by (rule keeps_bindA, intro keeps_catchA keeps_bindA keeps_provision own_tolerates keeps_return, simp,
        rule keeps_case_sum, rule keeps_return, rule keeps_bindA, rule keeps_liftA, rule store)
qed

lemma own_save_changes:
  assumes "owned u old"
  shows "keeps (table_inv (own_rows E d0 u)) (save_changes E new stored changed old)"
proof -
  let ?I = "table_inv (own_rows E d0 u)"
  have save: "keeps ?I (save_session E s)" if "owned u s" for s
    unfolding save_session_def name_tag_def create_tag_def by (intro keeps_rules own_update that)
  have server: "keeps ?I (update_server E sv)" for sv
    unfolding update_server_def by (intro keeps_rules own_tolerates) simp
  have rest: "keeps ?I (seqA (whenA changed (update_server E (vs_server s))) (if b then save_session E s else return new))"
    if "owned u s" for s b
    by (intro keeps_rules server save that)
  show ?thesis
  proof (cases "vs_schedule new")
    case (Some week)
    have "owned u x" if "update_schedule_for_session E week old st = (Inr x, t)" for st x t
      using update_schedule_owner [OF that] assms by (simp add: owned_def)
    then show ?thesis
      unfolding save_changes_def Some option.case
      by (intro keeps_bind_result [where Q = "owned u", OF keeps_update_schedule] rest own_tolerates) simp_all
  next
    case None
    have "bindA (return old) f = f old" for f :: "session \<Rightarrow> ('db st, session) act"
      by (simp add: fun_eq_iff bindA_def)
    then show ?thesis
      using rest [OF assms, of "texts_changed new stored \<or> changed"] None by (simp add: save_changes_def)
  qed
qed

lemma own_update_session:
  assumes "owned u s" and "py_strip u = u"
  shows "keeps (table_inv (own_rows E d0 u)) (api_update_session E s)"
  unfolding api_update_session_def Let_def
proof (rule keeps_bind_result [where Q = "\<lambda>v. \<forall>x. v = Some x \<longrightarrow> owned u x"], rule keeps_session_reads)
  show "\<forall>x. v = Some x \<longrightarrow> owned u x" if "get_from_db E (vs_owner s) (vs_id s) st = (Inr v, t)" for st v t
    using that get_from_db_owner [of u "vs_id s" st _ t] assms by (auto simp: owned_def)
next
  let ?I = "table_inv (own_rows E d0 u)"
  fix v assume v: "\<forall>x. v = Some x \<longrightarrow> owned u x"
  have type: "keeps ?I (change_type_of_host E s old)" for old
    unfolding change_type_of_host_def change_instance_type_def by (intro keeps_rules)
  have texts: "owned u (with_new_texts s y)" if "v = Some y" for y
    using that v by (auto simp: with_new_texts_def owned_def)
  have changes: "keeps ?I (bindA (if changed then liftA (with_instance_type ty old) else return old)
      (save_changes E s stored changed))" if "owned u old" for old ty stored changed
    by (rule keeps_bind_result [where Q = "owned u"])
       (use that in \<open>auto simp: with_instance_type_def intro!: keeps_rules own_save_changes split: if_splits option.splits\<close>)
  show "keeps ?I (case v of None \<Rightarrow> return (failed_with (''invalid RES session id: '' @ describe_session s @
        '' or owner '' @ fmt (vs_owner s) @ ''. Not updating the session.'') s)
    | Some stored \<Rightarrow> bindA (change_type_of_host E s (with_new_texts s stored)) (\<lambda>r. case r of
        Inl error \<Rightarrow> return (s\<lparr>vs_failure := Some error\<rparr>)
      | Inr changed \<Rightarrow>
          bindA (if changed then liftA (with_instance_type
                   (case vs_server s of None \<Rightarrow> None | Some sv \<Rightarrow> sv_instance_type sv) (with_new_texts s stored))
                 else return (with_new_texts s stored)) (save_changes E s stored changed)))"
    by (intro keeps_case_option keeps_return keeps_bindA type keeps_case_sum changes texts)
qed

text \<open>No method but the one for connections writes to another owner's row.\<close>

lemma own_method:
  assumes "py_strip u = u" and "(ns, scope, meth) \<in> set (user_acl E)"
    and "ns \<noteq> ''VirtualDesktop.GetSessionConnectionInfo''"
  shows "keeps (table_inv (own_rows E d0 u)) (meth (Some u) rq)"
proof -
  let ?I = "table_inv (own_rows E d0 u)"
  have batch: "keeps ?I (run_batch run (Some u) reviewed)"
    if "\<And>ss. \<forall>s \<in> set ss. owned u s \<Longrightarrow> keeps ?I (run ss)"
      and "\<And>s'. (s', True) \<in> set reviewed \<Longrightarrow> validate_owner (Some u) (vs_owner s')" for run reviewed
    by (rule keeps_run_batch, rule that(1), rule reviewed_owned, rule that(2))
  note requests = own_requests [OF _ assms(1)]
  have checked: "validate_owner caller (vs_owner s')"
    if "map_sum_list f ss = Inr reviewed" "(s', True) \<in> set reviewed"
      "\<And>s s'. f s = Inr (s', True) \<Longrightarrow> validate_owner caller (vs_owner s')" for f ss reviewed s' caller
    using map_sum_list_member [OF that(1,2)] that(3) by blast
  have "keeps ?I (user_create_session E (Some u) rq)"
  proof -
    have create: "keeps ?I (bindA (complete_create_session_request E (Some u) s) (\<lambda>s.
        bindA (create_session E (s\<lparr>vs_by_admin := Some False\<rparr>)) (\<lambda>s. return (created_answer s))))"
      if "owned u s" for s
      by (rule keeps_bind_result [where Q = "owned u", OF keeps_creation_checks(2)])
         (auto intro!: keeps_rules own_create_session dest: complete_create_owned [OF _ that])
    show ?thesis
      unfolding user_create_session_def
      by (rule keeps_bind_result [where Q = "\<lambda>(s, ok). ok \<longrightarrow> owned u s", OF keeps_creation_checks(1)])
         (auto intro!: keeps_return create dest: create_accepted_owned)
  qed
  moreover have "keeps ?I (user_delete_sessions E (Some u) rq)"
    unfolding user_delete_sessions_def
    by (rule batch [OF requests(4)]) (auto dest: user_checks_accept(1) [OF sym])
  moreover have "keeps ?I (user_stop_sessions E (Some u) rq)" and "keeps ?I (user_reboot_sessions E (Some u) rq)"
    unfolding user_stop_sessions_def user_reboot_sessions_def
    by (rule keeps_bind_result [where Q = "\<lambda>r. \<forall>s'. (s', True) \<in> set r \<longrightarrow> validate_owner (Some u) (vs_owner s')",
          OF keeps_liftA], auto dest: checked user_checks_accept intro!: batch keeps_unless_empty requests)+
  moreover have "keeps ?I (user_resume_sessions E (Some u) rq)"
    unfolding user_resume_sessions_def
    by (rule batch [OF keeps_unless_empty [OF requests(2)]]) (auto dest: user_checks_accept(2) [OF sym])
  moreover have "keeps ?I (user_update_session E (Some u) rq)"
    unfolding user_update_session_def the_session_def
    by (intro keeps_rules own_update_session completed_owned assms(1)) (auto dest: owner_checked_accepts)
  moreover have "keeps ?I (user_get_session_info E (Some u) rq)" and "keeps ?I (user_get_session_screenshots E (Some u) rq)"
    and "keeps ?I (user_list_sessions E (Some u) rq)" and "keeps ?I (user_list_software_stacks E (Some u) rq)"
    and "keeps ?I (user_list_shared_permissions E (Some u) rq)"
    and "keeps ?I (user_list_session_permissions E (Some u) rq)"
    unfolding user_get_session_info_def info_answer_def user_get_session_screenshots_def user_list_sessions_def
      sessions_of_user_def user_list_software_stacks_def list_stacks_def user_list_shared_permissions_def
      permissions_of_actor_def user_list_session_permissions_def permissions_of_session_def Let_def
    by (intro keeps_rules)+
  moreover have "keeps ?I (user_update_session_permission E (Some u) rq)"
    unfolding user_update_session_permission_def change_permissions_def validate_update_session_permission_request_def
      validate_permission_def
    by (intro keeps_rules own_tolerates) simp
  ultimately show ?thesis
    using assms(2,3) by (auto simp: user_acl_def Let_def)
qed

end

end
