(* ===== verification/Vdc_Access.thy ===== *)
theory Vdc_Access
  imports Vdc_Owners Api_Access
begin

text \<open>
  The APIs of the virtual desktop controller as their callers meet them: what a user can and cannot
  do to sessions, permissions and stacks, and what a creation must satisfy.
\<close>

section \<open>The dispatch for a user\<close>

lemma user_is_not_elevated:
  assumes "fresh c" and "caller_of E s c = Inr a" and "auth_type a = USER"
  shows "yields E s c (Inr False) (is_authorized E True scopes)"
    and "yields E s c (Inr True) (is_authorized E False scopes)"
    and "yields E s c (Inr (auth_username a)) (get_username E)"
proof -
  note y = yields_user(1) [OF assms]
  show "yields E s c (Inr False) (is_authorized E True scopes)"
    and "yields E s c (Inr True) (is_authorized E False scopes)"
    unfolding is_authorized_def
    by (rule yields_bindA_Inr [OF y],
        simp add: assms(3) is_administrator_def is_authorized_user_def is_authorized_app_def yields_def)+
  show "yields E s c (Inr (auth_username a)) (get_username E)"
    unfolding get_username_def by (intro yields_bindA_Inr [OF y] yields_return)
qed

text \<open>A list of methods for administrators refuses a user, whatever the request.\<close>

lemma elevated_refuses:
  assumes "fresh c" and "caller_of E s c = Inr a" and "auth_type a = USER"
  shows "refuses E s c {unauthorized_access} (vdc_invoke E True acl rq)"
  unfolding vdc_invoke_def
proof (rule refuses_namespace, cases "map_of acl (ctx_namespace c)")
  case (Some entry)
  then show "refuses E s c {unauthorized_access} (case map_of acl (ctx_namespace c) of
      None \<Rightarrow> raise unauthorized_access
    | Some (scope, meth) \<Rightarrow> bindA (is_authorized E True [scope]) (\<lambda>ok. raise_if (\<not> ok) unauthorized_access
        (bindA (get_username E) (\<lambda>caller. on_db (meth caller rq)))))"
    by (cases entry)
       (auto intro!: refuses_bindA_Inr [OF user_is_not_elevated(1) [OF assms]] refuses_raise simp: raise_if_def)
qed (simp add: refuses_raise)

lemma elevated_writes_nothing:
  assumes "fresh c" and "caller_of E s c = Inr a" and "auth_type a = USER"
  shows "st_db (fst (snd (vdc_invoke E True acl rq (s, c)))) = st_db s"
  using elevated_refuses [OF assms, of acl rq] during_start [OF assms(1), of E s]
  by (fastforce simp: refuses_def during_def at_rest_def)

text \<open>Elsewhere the method runs for the user, on the tables as they were.\<close>

lemma user_runs_method:
  assumes "fresh c" and "caller_of E s c = Inr a" and "auth_type a = USER"
    and "\<And>scope meth. (ctx_namespace c, scope, meth) \<in> set acl \<Longrightarrow> keeps (table_inv P) (meth (auth_username a) rq)"
    and "during E s c x" and "P (st_db s)"
  shows "P (st_db (fst (snd (vdc_invoke E False acl rq x))))"
proof -
  have P: "P (st_db (fst t))" if "during E s c t" for t
    using that assms(6) by (auto simp: during_def at_rest_def)
  have ns: "vdc_invoke E False acl rq x = (case map_of acl (ctx_namespace c) of
      None \<Rightarrow> raise unauthorized_access
    | Some (scope, meth) \<Rightarrow> bindA (is_authorized E False [scope]) (\<lambda>ok. raise_if (\<not> ok) unauthorized_access
        (bindA (get_username E) (\<lambda>caller. on_db (meth caller rq))))) x"
    using assms(5) by (auto simp: vdc_invoke_def during_def same_request_def)
  show ?thesis
  proof (cases "map_of acl (ctx_namespace c)")
    case None
    then show ?thesis using ns P [OF assms(5)] by simp
  next
    case (Some entry)
    obtain scope meth where e: "entry = (scope, meth)" by (cases entry)
    obtain t1 where t1: "is_authorized E False [scope] x = (Inr True, t1)" "during E s c t1"
      using yieldsD [OF user_is_not_elevated(2) [OF assms(1-3)] assms(5)] by blast
    obtain t2 where t2: "get_username E t1 = (Inr (auth_username a), t2)" "during E s c t2"
      using yieldsD [OF user_is_not_elevated(3) [OF assms(1-3)] t1(2)] by blast
    have "keeps (table_inv P) (meth (auth_username a) rq)"
      using assms(4) Some e by (blast dest: map_of_SomeD)
    then have "P (st_db (snd (meth (auth_username a) rq (fst t2))))"
      using P [OF t2(2)] by (simp add: keeps_def table_inv_def)
    then show ?thesis
      using ns Some e t1 t2 by (cases t2) (simp add: bindA_def raise_if_def on_db_def split: prod.splits)
  qed
qed

lemma keeps_utils_methods:
  assumes "(ns, scope, meth) \<in> set (utils_acl E)"
  shows "keeps (table_inv P) (meth who rq)"
proof -
  have "keeps (table_inv P) (utils_list_allowed_instance_types E who rq)"
    and "keeps (table_inv P) (utils_list_allowed_for_session E who rq)"
    and "keeps (table_inv P) (utils_list_permission_profiles E who rq)"
    and "keeps (table_inv P) (utils_get_permission_profile E who rq)"
    unfolding utils_list_allowed_instance_types_def utils_list_allowed_for_session_def the_session_def
      utils_list_permission_profiles_def profile_db_list_def utils_get_permission_profile_def profile_db_get_def
    by (intro keeps_rules | auto split: option.split intro!: keeps_rules)+
  then show ?thesis using assms by (auto simp: utils_acl_def Let_def keeps_return)
qed



definition empty_payload :: vdc_payload where
  "empty_payload = \<lparr>vp_session = None, vp_stack = None, vp_sessions = [], vp_creations = [],
     vp_connection = no_connection, vp_screenshots = [], vp_create = [], vp_update = [], vp_delete = [],
     vp_filters = [], vp_session_id = None, vp_username = None, vp_project_id = None, vp_new_stack = None,
     vp_profile = \<lparr>pf_id = None, pf_title = None, pf_description = None, pf_permissions = [],
       pf_created_on = None, pf_updated_on = None\<rparr>,
     vp_profile_id = None, vp_hibernation = None, vp_shown_stack = None\<rparr>"

definition shared_state :: "mem_db st" where
  "shared_state = local_state (admin_db @ [((Sessions, (''ann'', ''s1'')), map_of desk_entry)])"


section \<open>Where a request reaches further\<close>

lemma not_empty_str: "\<not> py_space c \<Longrightarrow> \<not> empty_str (Some (c # cs))"
  by (auto simp: empty_str_def py_strip_def dropWhile_eq_Nil_conv)

definition broker_refuses :: "'db env \<Rightarrow> string option \<Rightarrow> string option \<Rightarrow> bool" where
  "broker_refuses E dcv_session_id username \<longleftrightarrow> (\<forall>calls. \<exists>e. ext_result (cfg E) calls
     (DcvBroker ''get_session_connection_data''
        [(''session_id'', opt_str dcv_session_id), (''user'', opt_str username)]) = Inl e)"

text \<open>A controller whose broker refuses everything.\<close>

definition refusing_env :: "mem_db env" where
  "refusing_env = mem_env None (local_world\<lparr>ext_result := \<lambda>calls c. case c of
     DcvBroker _ _ \<Rightarrow> Inl (ServiceError ''403'') | _ \<Rightarrow> Inr VNone\<rparr>)"

lemma broker_connection_data_refused:
  assumes "broker_refuses E i u"
  obtains info calls where "broker_connection_data E i u st = (Inr info, st\<lparr>st_trace := st_trace st @ calls\<rparr>)"
    and "\<not> empty_str (ci_failure info)"
proof -
  let ?c = "DcvBroker ''get_session_connection_data'' [(''session_id'', opt_str i), (''user'', opt_str u)]"
  let ?info = "no_connection\<lparr>ci_failure := Some (''Error in retrieving session connection data for DCV Session ID: '' @
      fmt i @ '' for username: '' @ fmt u)\<rparr>"
  obtain e where "ext_result (cfg E) (st_trace st) ?c = Inl e"
    using assms unfolding broker_refuses_def by blast
  then have "broker_connection_data E i u st = (Inr ?info, st\<lparr>st_trace := st_trace st @ [?c]\<rparr>)"
    by (simp add: broker_connection_data_def bindA_def catchA_def call_def)
  moreover have "\<not> empty_str (ci_failure ?info)"
    using not_empty_str [of "CHR ''E''"] by (simp add: py_space_def)
  ultimately show thesis using that by blast
qed

text \<open>
  C19. Any user can put any ready session in the state \<open>ERROR\<close>: the request for a connection names the
  owner and the session, only the name to connect with is compared with the caller, and when the
  broker refuses that name the session is taken for broken.
\<close>

theorem a_refused_connection_breaks_any_session:
  assumes "dynamodb E" and "queue_accepts E" and "session_at E st s" and "vs_state s = Some READY"
    and "vp_connection rq = no_connection\<lparr>ci_session_owner := vs_owner s, ci_session_id := vs_id s\<rparr>"
    and "broker_refuses E (vs_dcv_id s) caller'"
  shows "\<exists>info t. user_get_session_connection_info E caller' rq st =
      (Inr (NoConnection SESSION_CONNECTION_ERROR info), t) \<and>
    session_at E t (s\<lparr>vs_state := Some ERROR\<rparr>)"
proof -
  let ?c = "no_connection\<lparr>ci_session_owner := vs_owner s, ci_session_id := vs_id s, ci_username := caller'\<rparr>"
  have names: "\<not> empty_str (vs_owner s)" "\<not> empty_str (vs_id s)"
    using assms(3) by (auto simp: session_at_def canonical_session_def clean_def empty_str_def)
  obtain u where u: "get_from_db E (vs_owner s) (vs_id s) st = (Inr (Some (s\<lparr>vs_updated_on := Some u\<rparr>)), st)"
    using get_from_db_run [OF assms(3)] .
  obtain info calls where b: "broker_connection_data E (vs_dcv_id s) caller' st =
      (Inr info, st\<lparr>st_trace := st_trace st @ calls\<rparr>)" and f: "\<not> empty_str (ci_failure info)"
    using broker_connection_data_refused [OF assms(6)] .
  have "session_at E (st\<lparr>st_trace := st_trace st @ calls\<rparr>) s"
    using assms(3) session_at_db [of "st\<lparr>st_trace := st_trace st @ calls\<rparr>" st E s] by simp
  then obtain t where t: "update_session E (s\<lparr>vs_updated_on := Some u, vs_state := Some ERROR\<rparr>)
      (st\<lparr>st_trace := st_trace st @ calls\<rparr>) = (Inr (), t)" "session_at E t (s\<lparr>vs_state := Some ERROR\<rparr>)"
    using dynamodb.update_state_run [OF assms(1) _ assms(2)] by metis
  have "get_connection_info E caller' ?c st = (Inr info, t)"
    using u b f t(1) assms(4) by (simp add: get_connection_info_def connect_def no_connection_def empty_str_def bindA_def seqA_def)
  then show ?thesis
    using assms(5) names f t(2)
    by (simp add: user_get_session_connection_info_def validate_get_connection_info_request_def validate_owner_def
        connection_answer_def no_connection_def empty_str_def bindA_def)
qed

lemma a_refused_connection_breaks_any_session_witness:
  "\<exists>info t. user_get_session_connection_info refusing_env (Some ''eve'')
      (empty_payload\<lparr>vp_connection := no_connection\<lparr>ci_session_owner := Some ''ann'', ci_session_id := Some ''s1''\<rparr>\<rparr>) desk_state =
      (Inr (NoConnection SESSION_CONNECTION_ERROR info), t) \<and>
    session_at refusing_env t (desk\<lparr>vs_state := Some ERROR\<rparr>)"
proof -
  have d: "dynamodb refusing_env" and q: "queue_accepts refusing_env"
    and b: "broker_refuses refusing_env (vs_dcv_id desk) (Some ''eve'')"
    by (simp_all add: refusing_env_def mem_dynamodb queue_accepts_def broker_refuses_def)
  have at: "session_at refusing_env desk_state desk"
    using desk_at desk_canonical by (simp add: session_at_def refusing_env_def)
  have "vs_state desk = Some READY" and f: "vs_owner desk = Some ''ann''" "vs_id desk = Some ''s1''"
    by (simp_all add: desk_def)
  then show ?thesis
    using a_refused_connection_breaks_any_session [OF d q at _ _ b,
        of "empty_payload\<lparr>vp_connection := no_connection\<lparr>ci_session_owner := vs_owner desk, ci_session_id := vs_id desk\<rparr>\<rparr>"]
    unfolding f by simp
qed

definition bobs_permission :: permission where
  "bobs_permission = \<lparr>sp_session_id = Some ''s1'', sp_session_owner = Some ''ann'', sp_session_name = None,
     sp_instance_type = None, sp_session_state = None, sp_base_os = None, sp_session_created_on = None,
     sp_hibernation = None, sp_session_type = None, sp_profile_id = None, sp_actor_type = None,
     sp_actor_name = Some ''bob'', sp_created_on = None, sp_updated_on = None, sp_expiry_date = None\<rparr>"

lemma permission_is_gone:
  assumes "dynamodb E" and "\<not> empty_str (sp_session_id p)" and "\<not> empty_str (sp_actor_name p)"
    and "\<And>u. keeps (table_inv (\<lambda>d. ddb_get E d SessionPermissions (fmt (sp_session_id p), fmt (sp_actor_name p)) = None)) (k u)"
  shows "row E (snd (seqA (permission_db_delete E p) (k ()) st)) SessionPermissions
    (fmt (sp_session_id p), fmt (sp_actor_name p)) = None"
proof -
  let ?k = "(fmt (sp_session_id p), fmt (sp_actor_name p))"
  let ?I = "table_inv (\<lambda>d. ddb_get E d SessionPermissions ?k = None)"
  define rest where "rest = (\<lambda>old :: item option. seqA (case old of None \<Rightarrow> raise (KeyError ''idea_session_id'')
            | Some r \<Rightarrow> trigger_delete_event E SessionPermissions ?k (row_dict permission_columns r)) (k ()))"
  have "seqA (permission_db_delete E p) (k ()) st =
      seqA (db_delete E SessionPermissions ?k) (rest (row E st SessionPermissions ?k)) st"
    using assms(2,3) by (simp add: permission_db_delete_def raise_if_def rest_def Let_def seqA_def bindA_def split: prod.splits sum.splits)
  moreover have "keeps ?I (rest old)" for old
    unfolding rest_def by (intro keeps_seqA keeps_case_option keeps_raise keeps_publications assms(4))
  moreover have "row E (snd (db_delete E SessionPermissions ?k st)) SessionPermissions ?k = None"
    using assms(1) by (simp add: dynamodb.row_delete)
  ultimately show ?thesis
    by (auto simp: keeps_def table_inv_def seqA_def bindA_def split: prod.splits sum.splits)
qed

text \<open>
  C20. Any user can take the permission of any actor for any session away: a request to delete is
  compared with the caller by the owner it names, and neither with the row nor with the session.
\<close>

theorem permissions_are_deleted_without_a_look:
  assumes "dynamodb E" and "\<not> empty_str (sp_session_id p)" and "\<not> empty_str (sp_actor_name p)"
    and "sp_session_owner p = caller'"
    and "vp_create rq = []" and "vp_update rq = []" and "vp_delete rq = [p]"
  shows "row E (snd (user_update_session_permission E caller' rq st)) SessionPermissions
      (fmt (sp_session_id p), fmt (sp_actor_name p)) = None"
proof -
  let ?I = "table_inv (\<lambda>d. ddb_get E d SessionPermissions (fmt (sp_session_id p), fmt (sp_actor_name p)) = None)"
  define k where "k = (\<lambda>_ :: unit. bindA (seqA (return ()) (seqA (for_each (pair_set E [session_info p])
      (\<lambda>(i, owner). publish_enforce_session_permissions_event E i owner)) (return ([] :: permission list))))
        (\<lambda>ps. return (Permissions ps)))"
  have "user_update_session_permission E caller' rq st = seqA (permission_db_delete E p) (k ()) st"
    using assms(4-7)
    by (simp add: user_update_session_permission_def change_permissions_def validate_update_session_permission_request_def
        update_permission_for_sessions_def k_def seqA_def bindA_def split: prod.splits sum.splits)
  moreover have "keeps ?I (k u)" for u
    unfolding k_def
    by (intro keeps_rules)
       (auto simp: publish_enforce_session_permissions_event_def publish_timed_event_def intro!: keeps_rules)
  ultimately show ?thesis using permission_is_gone [OF assms(1-3), of k st] by simp
qed

lemma permissions_are_deleted_without_a_look_witness:
  "row local_env (local_state [((SessionPermissions, (''s1'', ''bob'')), [''idea_session_owner'' \<mapsto> VStr ''ann''])])
     SessionPermissions (''s1'', ''bob'') \<noteq> None \<and>
   row local_env (snd (user_update_session_permission local_env (Some ''eve'')
       (empty_payload\<lparr>vp_delete := [bobs_permission\<lparr>sp_session_owner := Some ''eve''\<rparr>]\<rparr>)
       (local_state [((SessionPermissions, (''s1'', ''bob'')), [''idea_session_owner'' \<mapsto> VStr ''ann''])])))
     SessionPermissions (''s1'', ''bob'') = None"
proof -
  let ?p = "bobs_permission\<lparr>sp_session_owner := Some ''eve''\<rparr>"
  have "\<not> empty_str (sp_session_id ?p)" "\<not> empty_str (sp_actor_name ?p)" by code_simp+
  then show ?thesis
    using permissions_are_deleted_without_a_look [OF mem_dynamodb, of ?p "Some ''eve''"
        "empty_payload\<lparr>vp_delete := [?p]\<rparr>"]
    by (simp add: bobs_permission_def empty_payload_def fmt_def mem_get_def is_key_def schema_defs)
qed

definition creation_allowed :: "'db env \<Rightarrow> string \<Rightarrow> vdc_payload \<Rightarrow> 'db st \<Rightarrow> bool" where
  "creation_allowed E u rq st \<longleftrightarrow> (\<exists>s count allowed p i os stk s'.
     vp_session rq = Some s \<and> (empty_str (vs_owner s) \<or> vs_owner s = Some u) \<and>
     fst (get_session_count_for_user E u st) = Inr count \<and>
     config_int (cfg E) ''virtual-desktop-controller.dcv_session.allowed_sessions_per_user'' = Some allowed \<and>
     count < allowed \<and> p \<in> set (projects_answer E st (Some u)) \<and>
     map_option pj_id (vs_project s) = Some (pj_id p) \<and> budget_exceeded E p = Inr False \<and>
     vp_stack rq = Some (i, Some os) \<and>
     stack_from_db (row E st SoftwareStacks (base_os_value os, fmt i)) = Inr (Some stk) \<and>
     pj_id p \<in> set (ss_projects stk) \<and>
     s' = s\<lparr>vs_owner := Some u, vs_project := Some p, vs_stack := Some stk\<rparr> \<and>
     (\<exists>sv. vs_server s = Some sv \<and> host_fits E s' stk sv))"

lemma accepted_creation_allowed:
  assumes "user_validate_create E (Some u) (vp_session rq) (vp_stack rq) st = (Inr (s', True), t1)"
  shows "creation_allowed E u rq st"
proof (rule user_validate_create_accepts [OF assms])
  fix s u' count allowed st1
  assume a: "vp_session rq = Some s" "Some u = Some u'" "validate_owner (Some u) (vs_owner s)"
    "get_session_count_for_user E u' st = (Inr count, st1)"
    "config_int (cfg E) ''virtual-desktop-controller.dcv_session.allowed_sessions_per_user'' = Some allowed"
    "count < allowed"
    "validate_create_session_request E (s\<lparr>vs_owner := Some u\<rparr>) (vp_stack rq) st = (Inr (s', True), t1)"
  show ?thesis
  proof (rule validate_create_accepts [OF a(7)])
    fix p i os stk
    assume b: "p \<in> set (projects_answer E st (vs_owner (s\<lparr>vs_owner := Some u\<rparr>)))"
      "map_option pj_id (vs_project (s\<lparr>vs_owner := Some u\<rparr>)) = Some (pj_id p)" "vp_stack rq = Some (i, Some os)"
      "stack_from_db (row E st SoftwareStacks (base_os_value os, fmt i)) = Inr (Some stk)"
      "pj_id p \<in> set (ss_projects stk)" "budget_exceeded E p = Inr False"
      "s' = s\<lparr>vs_owner := Some u\<rparr>\<lparr>vs_project := Some p, vs_stack := Some stk\<rparr>"
      "\<exists>sv. vs_server (s\<lparr>vs_owner := Some u\<rparr>) = Some sv \<and> host_fits E s' stk sv"
    show ?thesis
      unfolding creation_allowed_def
      by (rule exI [of _ s], rule exI [of _ count], rule exI [of _ allowed], rule exI [of _ p], rule exI [of _ i],
          rule exI [of _ os], rule exI [of _ stk], rule exI [of _ s'])
         (use a b in \<open>simp add: validate_owner_def\<close>)
  qed
qed

text \<open>The checks ask the projects service and read the tables; they write and start nothing.\<close>

definition only_asked :: "'db st \<Rightarrow> 'db st \<Rightarrow> bool" where
  "only_asked st t \<longleftrightarrow> st_db t = st_db st \<and>
     (\<exists>calls. st_trace t = st_trace st @ calls \<and> (\<forall>c \<in> set calls. \<exists>op ps. c = ProjectsClient op ps))"

lemma keeps_only_asked:
  "keeps (only_asked st) (user_validate_create E caller' v software_stack)"
proof -
  have reads: "keeps (only_asked st) (software_stack_db_get E i os)" "keeps (only_asked st) (get_session_count_for_user E u)"
    for i os u
    by (simp_all add: keeps_def software_stack_db_get_def get_session_count_for_user_def bindA_def
        split: prod.splits option.split)
  have asked: "keeps (only_asked st) (client_user_projects E o')" for o'
    by (fastforce simp: keeps_def only_asked_def client_user_projects_def bindA_def split: sum.splits)
  have checked: "keeps (only_asked st) k \<Longrightarrow> keeps (only_asked st) (checked c s k)" for c s k
    unfolding checked_def refused_def by (intro keeps_rules)
  have host: "keeps (only_asked st) (validate_host E s stk)" for s stk
    unfolding validate_host_def refused_def by (intro keeps_rules checked)
  have stk: "keeps (only_asked st) (validate_stack E s p software_stack)" for s p software_stack
    unfolding validate_stack_def refused_def by (intro keeps_rules host reads)
  have "keeps (only_asked st) (validate_create_session_request E s software_stack)" for s software_stack
    unfolding validate_create_session_request_def refused_def by (intro keeps_rules stk asked)
  then show ?thesis
    unfolding user_validate_create_def refused_def Let_def by (intro keeps_rules reads)
qed

text \<open>
  C8. A creation a user sends changes a table or starts a host only when every rule is met: the
  session is the user's own, the user has fewer sessions than the cluster allows, the project is among those
  the projects service names for the user and within its budget, and the stack is one the table gives
  to that project, with a host that fits it.
\<close>

theorem only_allowed_creations_start_a_host:
  assumes "\<not> creation_allowed E u rq st"
  shows "only_asked st (snd (user_create_session E (Some u) rq st))"
proof -
  obtain r t1 where v: "user_validate_create E (Some u) (vp_session rq) (vp_stack rq) st = (r, t1)" by fastforce
  have "only_asked st st" by (simp add: only_asked_def)
  then have "only_asked st t1" using keepsD [OF keeps_only_asked _ v] by blast
  moreover have "r \<noteq> Inr (s', True)" for s' using accepted_creation_allowed assms v by metis
  ultimately show ?thesis
    using v by (auto simp: user_create_session_def bindA_def split: sum.split)
qed

lemma only_allowed_creations_start_a_host_witness:
  "only_asked desk_state (snd (user_create_session local_env (Some ''eve'')
     (empty_payload\<lparr>vp_session := Some desk, vp_stack := Some (Some ''ss-base'', Some AMAZON_LINUX2)\<rparr>) desk_state))"
proof (rule only_allowed_creations_start_a_host)
  have "\<not> empty_str (vs_owner desk)" by code_simp
  then show "\<not> creation_allowed local_env ''eve''
      (empty_payload\<lparr>vp_session := Some desk, vp_stack := Some (Some ''ss-base'', Some AMAZON_LINUX2)\<rparr>) desk_state"
    by (simp add: creation_allowed_def desk_def)
qed

definition volume_world :: world where
  "volume_world = local_world\<lparr>config_int :=
     [''virtual-desktop-controller.dcv_session.max_root_volume_memory'' \<mapsto> 1000]\<rparr>"

lemma trunc_div_mono: "0 \<le> a \<Longrightarrow> a \<le> b \<Longrightarrow> 0 < c \<Longrightarrow> trunc_div a c \<le> trunc_div b c"
  by (cases "a = 0") (auto simp: trunc_div_def sgn_if zdiv_mono1 pos_imp_zdiv_nonneg_iff)



lemma map_of_zip_days:
  "length week = length days \<Longrightarrow> \<exists>sc. map_of (zip days week) d = Some sc"
proof -
  assume "length week = length days"
  moreover have "d \<in> set days" by (cases d) (simp_all add: days_def)
  ultimately show ?thesis by (metis map_of_eq_None_iff map_fst_zip not_None_eq set_map)
qed



context dynamodb
begin

lemma empty_scan:
  assumes "\<And>k i. ddb_get E d t k = Some i \<Longrightarrow> \<not> scan_matches flt i"
  shows "\<exists>nxt. ddb_scan E d t flt = ([], nxt)"
proof -
  obtain rows nxt where q: "ddb_scan E d t flt = (rows, nxt)" by force
  have none: "{k. \<exists>i. ddb_get E d t k = Some i \<and> scan_matches flt i} = {}" using assms by blast
  have "rows = []" using scan_page [OF q] unfolding none by auto
  then show ?thesis using q by blast
qed

end

lemma entry_stack:
  "session_to_db s = Inr e \<Longrightarrow> vs_stack s = Some stk \<Longrightarrow>
     map_of e ''software_stack'' = Some (VDict (stack_to_db (Some stk)))"
  by (auto simp: session_to_db_def bindE_eq_Inr split: option.splits)

text \<open>What follows the deletion of the row of a stack.\<close>

definition stack_deleted :: "'db env \<Rightarrow> key \<Rightarrow> item option \<Rightarrow> ('db st, unit) act" where
  "stack_deleted E k old = (case old of None \<Rightarrow> raise (KeyError ''Attributes'')
     | Some r \<Rightarrow> trigger_delete_event E SoftwareStacks k (row_dict stack_columns r))"

lemma keeps_stack_deleted: "keeps (table_inv P) (stack_deleted E k old)"
  unfolding stack_deleted_def by (intro keeps_rules)

definition used_stack_state :: "mem_db st" where
  "used_stack_state = local_state
     [((Sessions, (''ann'', ''s1'')), map_of desk_entry),
      ((SoftwareStacks, (''amazonlinux2'', ''ss-base'')), map_of (stack_to_db (Some desk_stack)))]"

text \<open>
  C21. A software stack that sessions run on can be deleted: the request is refused only when a row
  of a session carries exactly what the request says of the stack, down to the description and the
  times. One word of difference and the stack is gone, with the sessions left as they are.
\<close>

theorem a_stack_in_use_is_deleted:
  assumes "dynamodb E" and "vp_new_stack rq = Some sr" and "sr_base_os sr = Some os"
    and "\<not> empty_str (sr_id sr)" and "stack_request_to_db sr = Inr d"
    and "\<forall>k i. row E st Sessions k = Some i \<longrightarrow> i ''software_stack'' \<noteq> Some (VDict d)"
  shows "row E (snd (admin_delete_software_stack E caller' rq st)) SoftwareStacks (base_os_value os, fmt (sr_id sr)) = None \<and>
    row E (snd (admin_delete_software_stack E caller' rq st)) Sessions = row E st Sessions"
proof -
  let ?k = "(base_os_value os, fmt (sr_id sr))"
  let ?st = "st\<lparr>st_db := ddb_delete E (st_db st) SoftwareStacks ?k\<rparr>"
  have "\<exists>nxt. ddb_scan E (st_db st) Sessions [(''software_stack'', EQ, VDict d)] = ([], nxt)"
    by (rule dynamodb.empty_scan [OF assms(1)]) (use assms(6) in \<open>auto simp: scan_matches_def split: option.splits\<close>)
  then have "list_all_for_software_stack E sr st = (Inr [], st)"
    using assms(5) by (auto simp: list_all_for_software_stack_def list_sessions_with_def bindA_def map_filter_simps)
  then have "\<exists>r. admin_delete_software_stack E caller' rq st = (r, snd (stack_deleted E ?k (row E st SoftwareStacks ?k) ?st))"
    using assms(2-4) by (simp add: admin_delete_software_stack_def delete_software_stack_def stack_deleted_def
        bindA_def seqA_def raise_if_def Let_def split: prod.splits sum.splits)
  moreover have "st_db (snd (stack_deleted E ?k old ?st)) = st_db ?st" for old
    using keepsD [OF keeps_stack_deleted [where P = "\<lambda>d. d = st_db ?st"], of ?st] prod.collapse
    by (metis (mono_tags, lifting) table_inv_def)
  ultimately show ?thesis using assms(1) by (auto simp: dynamodb.row_delete simp del: split_paired_All)
qed

lemma a_stack_in_use_is_deleted_witness:
  "row local_env used_stack_state Sessions (''ann'', ''s1'') \<noteq> None \<and>
   row local_env (snd (admin_delete_software_stack local_env (Some ''clusteradmin'')
     (empty_payload\<lparr>vp_new_stack := Some (request_of_stack (desk_stack\<lparr>ss_description := Some ''Linux''\<rparr>))\<rparr>)
     used_stack_state)) SoftwareStacks (''amazonlinux2'', ''ss-base'') = None"
proof -
  let ?sr = "request_of_stack (desk_stack\<lparr>ss_description := Some ''Linux''\<rparr>)"
  obtain d where d: "stack_request_to_db ?sr = Inr d" and de: "map_of d ''description'' = Some (VStr ''Linux'')"
    by (simp add: stack_request_to_db_def request_of_stack_def)
  have r: "sr_base_os ?sr = Some AMAZON_LINUX2" "sr_id ?sr = Some ''ss-base''"
    by (simp_all add: request_of_stack_def desk_stack_def)
  have ne: "\<not> empty_str (sr_id ?sr)" by code_simp
  have e: "session_to_db desk = Inr desk_entry"
    using canonical_entry [OF desk_canonical] by (metis desk_entry_def sum.case(2))
  then have st: "map_of desk_entry ''software_stack'' = Some (VDict (stack_to_db (Some desk_stack)))"
    by (rule entry_stack) (simp add: desk_def)
  have "map_of (stack_to_db (Some desk_stack)) ''description'' = Some (VStr ''Amazon Linux'')"
    by (simp add: stack_to_db_def desk_stack_def)
  then have nd: "stack_to_db (Some desk_stack) \<noteq> d" using de by auto
  have only: "\<forall>k i. row local_env used_stack_state Sessions k = Some i \<longrightarrow> i ''software_stack'' \<noteq> Some (VDict d)"
    using st nd
    by (auto simp: used_stack_state_def mem_get_def key_item_def schema_defs split: if_splits)
  have "row local_env used_stack_state Sessions (''ann'', ''s1'') \<noteq> None"
    by (simp add: used_stack_state_def mem_get_def is_key_def schema_defs)
  then show ?thesis
    using only a_stack_in_use_is_deleted [where E = local_env and st = used_stack_state and caller' = "Some ''clusteradmin''"
        and rq = "empty_payload\<lparr>vp_new_stack := Some ?sr\<rparr>", OF mem_dynamodb _ r(1) ne d] r
    by (simp add: fmt_def)
qed

end
