(* ===== verification/Cluster_Config.thy ===== *)
theory Cluster_Config
  imports Vdc_Admin_Api
begin

text \<open>
  The settings of the cluster: the entries of the settings table
  (\<^verbatim>\<open>ideasdk/config/cluster_config_db.py\<close>), the tree a process keeps of them
  (\<^verbatim>\<open>ideasdk/config/soca_config.py\<close>, \<^verbatim>\<open>ideasdk/config/cluster_config.py\<close>) and the listener that
  carries the changes of the table into the tree. Most services only read settings; these
  reads are the fields \<open>config_string\<close>, \<open>config_int\<close> and the like of the world. The entries of the
  shared file systems are written too: they live in the table \<open>ClusterSettings\<close> and in the tree
  \<open>st_config\<close> of the state. The library that keeps the tree is a parameter; what the code relies on
  in it is stated by the locale \<open>hocon\<close>.
\<close>

section \<open>Answers of the services\<close>

text \<open>\<open>v[k]\<close>, \<open>v.get(k)\<close> and \<open>v[0]\<close>.\<close>

definition v_at :: "val \<Rightarrow> string \<Rightarrow> exn + val" where
  "v_at v k = (case v of
      VDict d \<Rightarrow> (case map_of d k of None \<Rightarrow> Inl (KeyError k) | Some x \<Rightarrow> Inr x)
    | _ \<Rightarrow> Inl TypeError)"

definition v_get :: "val \<Rightarrow> string \<Rightarrow> exn + val" where
  "v_get v k = (case v of
      VDict d \<Rightarrow> Inr (case map_of d k of None \<Rightarrow> VNone | Some x \<Rightarrow> x)
    | _ \<Rightarrow> Inl AttributeError)"

definition v_first :: "val \<Rightarrow> exn + val" where
  "v_first v = (case v of
      VList [] \<Rightarrow> Inl IndexError
    | VList (x # xs) \<Rightarrow> Inr x
    | VDict d \<Rightarrow> Inl (KeyError ''0'')
    | _ \<Rightarrow> Inl TypeError)"

text \<open>What \<open>for x in v\<close> goes through.\<close>

definition v_list :: "val \<Rightarrow> exn + val list" where
  "v_list v = (case v of
      VList vs \<Rightarrow> Inr vs
    | VStr s \<Rightarrow> Inr (map (\<lambda>c. VStr [c]) s)
    | VDict d \<Rightarrow> Inr (map (VStr \<circ> fst) d)
    | _ \<Rightarrow> Inl TypeError)"

text \<open>
  \<open>except Exception\<close>: a loop that never ends raises nothing. \<open>except botocore.exceptions.ClientError\<close>:
  an error the service answers with; a parameter the client itself refuses is none.
\<close>

definition catch_exception :: "('s, 'a) act \<Rightarrow> (exn \<Rightarrow> ('s, 'a) act) \<Rightarrow> ('s, 'a) act" where
  "catch_exception m h = catchA m (\<lambda>e. if e = DoesNotReturn then raise e else h e)"

fun is_client_error :: "exn \<Rightarrow> bool" where
  "is_client_error (ServiceError c) = (c \<noteq> ''ParamValidationError'')"
| "is_client_error ConditionalCheckFailed = True"
| "is_client_error _ = False"

definition or_general_exception :: "('s, 'a) act \<Rightarrow> ('s, 'a) act" where
  "or_general_exception m = catchA m (\<lambda>e. raise (if is_client_error e then general_exception else e))"

section \<open>SocaConfig\<close>

text \<open>An empty value is kept as no value.\<close>

definition soca_put :: "world \<Rightarrow> string \<Rightarrow> val \<Rightarrow> (string \<times> val) list \<Rightarrow> (string \<times> val) list" where
  "soca_put w key v t = hocon_put w t key (if is_empty v then VNone else v)"

definition put_config :: "'db env \<Rightarrow> string \<Rightarrow> val \<Rightarrow> ('db st, unit) act" where
  "put_config E key v = modifyA (\<lambda>s. s\<lparr>st_config := soca_put (cfg E) key v (st_config s)\<rparr>)"

definition pop_config :: "'db env \<Rightarrow> string \<Rightarrow> ('db st, unit) act" where
  "pop_config E key = modifyA (\<lambda>s. s\<lparr>st_config := hocon_pop (cfg E) (st_config s) key\<rparr>)"

section \<open>ClusterConfig\<close>

text \<open>The first part of a key names a module; in the tree its identifier stands in its place.\<close>

definition module_id_of :: "world \<Rightarrow> string \<Rightarrow> string" where
  "module_id_of w m =
     (let i = (if own_module_name w = m then Some (module_id w)
               else config_string w (''global-settings.module_sets.'' @ module_set w @ ''.'' @ m @ ''.module_id''))
      in if empty_str i then m else fmt i)"

definition get_real_key :: "world \<Rightarrow> string \<Rightarrow> string" where
  "get_real_key w key =
     (let parts = dot_parts key; m = hd parts in
      if m = ''global-settings'' then key else module_id_of w m @ ''.'' @ join ''.'' (tl parts))"

definition get_config :: "world \<Rightarrow> (string \<times> val) list \<Rightarrow> string \<Rightarrow> exn + (string \<times> val) list option" where
  "get_config w t key = (case hocon_get w t (get_real_key w key) of
      None \<Rightarrow> Inr None
    | Some VNone \<Rightarrow> Inr None
    | Some (VDict d) \<Rightarrow> Inr (if is_empty (VDict d) then None else Some d)
    | Some v \<Rightarrow> Inl (SocaException CONFIG_TYPE_ERROR))"

text \<open>What the listener does with an event.\<close>

definition entry_value :: "item \<Rightarrow> val" where
  "entry_value i = attr_or i ''value'' VNone"

definition on_event :: "'db env \<Rightarrow> stream_event \<Rightarrow> ('db st, unit) act" where
  "on_event E ev = (case ev of
      On_Create new \<Rightarrow> bindA (attr new ''key'') (\<lambda>k. put_config E (py_str k) (entry_value new))
    | On_Update old new \<Rightarrow> bindA (attr new ''key'') (\<lambda>k. put_config E (py_str k) (entry_value new))
    | On_Delete old \<Rightarrow> bindA (attr old ''key'') (\<lambda>k. pop_config E (py_str k)))"

text \<open>The listener takes \<open>n\<close> of the waiting events; it has time for them while the code sleeps.\<close>

definition listen :: "'db env \<Rightarrow> nat \<Rightarrow> ('db st, unit) act" where
  "listen E n =
     bindA (getA (\<lambda>s. take n (st_stream s))) (\<lambda>events.
     seqA (modifyA (\<lambda>s. s\<lparr>st_stream := drop n (st_stream s)\<rparr>))
          (for_each events (on_event E)))"

definition sleep_ms :: "'db env \<Rightarrow> int \<Rightarrow> ('db st, unit) act" where
  "sleep_ms E ms =
     seqA (do_call E (Sleep ms))
          (bindA (getA (\<lambda>s. stream_progress (cfg E) (st_trace s))) (listen E))"

text \<open>
  \<open>while True\<close>: ask, look at the answer, sleep. \<open>None\<close> is a loop that never ends.
\<close>

partial_function (option) poll_loop ::
  "'db env \<Rightarrow> ext_call \<Rightarrow> (val \<Rightarrow> exn + 'a option) \<Rightarrow> int \<Rightarrow> 'db st \<Rightarrow> ((exn + 'a) \<times> 'db st) option" where
  "poll_loop E c check ms s =
     (case call E c s of
        (Inl e, t) \<Rightarrow> Some (Inl e, t)
      | (Inr r, t) \<Rightarrow> (case check r of
          Inl e \<Rightarrow> Some (Inl e, t)
        | Inr (Some x) \<Rightarrow> Some (Inr x, t)
        | Inr None \<Rightarrow> (case sleep_ms E ms t of
            (Inl e, u) \<Rightarrow> Some (Inl e, u)
          | (Inr _, u) \<Rightarrow> poll_loop E c check ms u)))"

definition poll :: "'db env \<Rightarrow> ext_call \<Rightarrow> (val \<Rightarrow> exn + 'a option) \<Rightarrow> int \<Rightarrow> ('db st, 'a) act" where
  "poll E c check ms = (\<lambda>s. case poll_loop E c check ms s of
      None \<Rightarrow> (Inl DoesNotReturn, s) | Some r \<Rightarrow> r)"

section \<open>ClusterConfigDB\<close>

definition push_event :: "stream_event \<Rightarrow> ('db st, unit) act" where
  "push_event ev = modifyA (\<lambda>s. s\<lparr>st_stream := st_stream s @ [ev]\<rparr>)"

text \<open>\<open>ADD #version :version\<close> adds to a number or creates it; every write is an event of the stream.\<close>

definition next_version :: "item option \<Rightarrow> exn + val" where
  "next_version old = (case old of
      None \<Rightarrow> Inr (VInt 1)
    | Some i \<Rightarrow> (case i ''version'' of
        None \<Rightarrow> Inr (VInt 1)
      | Some (VInt n) \<Rightarrow> Inr (VInt (n + 1))
      | Some _ \<Rightarrow> Inl (ServiceError ''ValidationException'')))"

definition set_config_entry :: "'db env \<Rightarrow> string \<Rightarrow> val \<Rightarrow> ('db st, unit) act" where
  "set_config_entry E key v =
     bindA (db_get E ClusterSettings (key, [])) (\<lambda>old.
     bindA (liftA (next_version old)) (\<lambda>version.
     bindA (db_update E ClusterSettings (key, []) [''value'' \<mapsto> v, ''version'' \<mapsto> version]) (\<lambda>new.
     push_event (case old of None \<Rightarrow> On_Create new | Some i \<Rightarrow> On_Update i new))))"

definition get_config_entry :: "'db env \<Rightarrow> string \<Rightarrow> ('db st, item option) act" where
  "get_config_entry E key = db_get E ClusterSettings (key, [])"

text \<open>\<open>get_config_entry(key)['value']\<close>\<close>

definition config_entry_value :: "'db env \<Rightarrow> string \<Rightarrow> ('db st, val) act" where
  "config_entry_value E key =
     bindA (get_config_entry E key) (\<lambda>v. case v of None \<Rightarrow> raise TypeError | Some i \<Rightarrow> attr i ''value'')"

definition sync_cluster_settings_in_db ::
  "'db env \<Rightarrow> (string \<times> val) list \<Rightarrow> bool \<Rightarrow> ('db st, unit) act" where
  "sync_cluster_settings_in_db E config_entries overwrite =
     for_each config_entries (\<lambda>(key, v).
       bindA (db_get E ClusterSettings (key, [])) (\<lambda>db_item.
       if \<not> overwrite \<and> db_item \<noteq> None then return () else set_config_entry E key v))"

text \<open>
  The loops over the table: the second page is asked for with a parameter \<open>Table.scan\<close> does not
  know, so a table of more than one page is never read.
\<close>

definition scan_settings :: "'db env \<Rightarrow> (item list \<Rightarrow> exn + 'a) \<Rightarrow> ('db st, 'a) act" where
  "scan_settings E f =
     bindA (db_scan E ClusterSettings []) (\<lambda>(rows, last_evaluated_key).
     bindA (liftA (f rows)) (\<lambda>x.
     raise_if (last_evaluated_key \<noteq> None) (ServiceError ''ParamValidationError'') (return x)))"

definition post_process_ddb_config_entry :: "item \<Rightarrow> item" where
  "post_process_ddb_config_entry i =
     i(''version'' \<mapsto> attr_or i ''version'' VNone, ''value'' \<mapsto> attr_or i ''value'' VNone)"

text \<open>The entries whose key the compiled pattern of a query matches, in the order of their keys.\<close>

definition matching_entry :: "(string \<Rightarrow> bool) option \<Rightarrow> item \<Rightarrow> exn + item option" where
  "matching_entry pattern i = (let entry = post_process_ddb_config_entry i in
     case pattern of
       None \<Rightarrow> Inr (Some entry)
     | Some m \<Rightarrow> (case get_value_as_string ''key'' i None of
         None \<Rightarrow> Inl TypeError
       | Some k \<Rightarrow> Inr (if m k then Some entry else None)))"

definition get_config_entries :: "'db env \<Rightarrow> (string \<Rightarrow> bool) option \<Rightarrow> ('db st, item list) act" where
  "get_config_entries E pattern =
     bindA (scan_settings E (map_sum_list (matching_entry pattern))) (\<lambda>entries.
     return (sort_key (\<lambda>i. case i ''key'' of Some (VStr k) \<Rightarrow> k | _ \<Rightarrow> []) (List.map_filter id entries)))"

fun put_entries :: "world \<Rightarrow> item list \<Rightarrow> (string \<times> val) list \<Rightarrow> exn + (string \<times> val) list" where
  "put_entries w [] t = Inr t"
| "put_entries w (i # is) t = (case (i ''key'', i ''value'') of
     (Some k, Some v) \<Rightarrow> put_entries w is (soca_put w (py_str k) v t)
   | (None, _) \<Rightarrow> Inl (KeyError ''key'')
   | _ \<Rightarrow> Inl (KeyError ''value''))"

definition build_config_from_db ::
  "'db env \<Rightarrow> (string \<Rightarrow> bool) option \<Rightarrow> ('db st, (string \<times> val) list) act" where
  "build_config_from_db E pattern =
     bindA (get_config_entries E pattern) (\<lambda>entries. liftA (put_entries (cfg E) entries []))"

definition delete_entry :: "'db env \<Rightarrow> item \<Rightarrow> ('db st, unit) act" where
  "delete_entry E i =
     bindA (attr i ''key'') (\<lambda>k.
     seqA (db_delete E ClusterSettings (py_str k, [])) (push_event (On_Delete i)))"

definition has_key_prefix :: "string \<Rightarrow> item \<Rightarrow> exn + item option" where
  "has_key_prefix prefix i = (case get_value_as_string ''key'' i None of
      None \<Rightarrow> Inl AttributeError
    | Some k \<Rightarrow> Inr (if starts_with k prefix then Some i else None))"

definition delete_config_entries :: "'db env \<Rightarrow> string \<Rightarrow> ('db st, unit) act" where
  "delete_config_entries E config_key_prefix =
     raise_if (blank config_key_prefix) invalid_params
    (bindA (scan_settings E (map_sum_list (has_key_prefix config_key_prefix))) (\<lambda>found.
     for_each (List.map_filter id found) (delete_entry E)))"

section \<open>The library of the configuration tree\<close>

text \<open>
  A plain key has letters, digits, dashes, underscores and dots only: the library reads no quotes and
  no references in it. On plain keys it is the tree of nested dictionaries.
\<close>

definition plain_name :: "string \<Rightarrow> bool" where
  "plain_name k \<longleftrightarrow> k \<noteq> [] \<and> list_all (\<lambda>c. is_alnum c \<or> c \<in> set ''-_'') k"

definition plain_path :: "string \<Rightarrow> bool" where
  "plain_path k \<longleftrightarrow> list_all (\<lambda>c. is_alnum c \<or> c \<in> set ''-_.'') k"

locale hocon =
  fixes w :: world
  assumes hocon_get: "plain_path k \<Longrightarrow> hocon_get w t k = tree_get (key_path k) (VDict t)"
    and hocon_put: "plain_path k \<Longrightarrow> \<forall>d. v \<noteq> VDict d \<Longrightarrow> hocon_put w t k v = tree_put (key_path k) v t"

lemma map_of_tree_update: "map_of (AList.update k v d) j = (if j = k then Some v else map_of d j)"
  by (induction d) auto

lemma tree_get_put: "ps \<noteq> [] \<Longrightarrow> tree_get ps (VDict (tree_put ps v d)) = Some v"
  by (induction ps v d rule: tree_put.induct) (simp_all add: map_of_tree_update)

lemma dot_parts_append: "CHR ''.'' \<notin> set p \<Longrightarrow> dot_parts (p @ CHR ''.'' # k) = p # dot_parts k"
  by (induction p) auto

lemma dot_parts_name: "CHR ''.'' \<notin> set p \<Longrightarrow> dot_parts p = [p]"
  by (induction p) auto

lemma key_path_append: "CHR ''.'' \<notin> set p \<Longrightarrow> p \<noteq> [] \<Longrightarrow> key_path (p @ CHR ''.'' # k) = p # key_path k"
  by (simp add: key_path_def dot_parts_append)

lemma key_path_name: "CHR ''.'' \<notin> set p \<Longrightarrow> p \<noteq> [] \<Longrightarrow> key_path p = [p]"
  by (simp add: key_path_def dot_parts_name)

lemma plain_name_no_dot: "plain_name p \<Longrightarrow> CHR ''.'' \<notin> set p"
  by (auto simp: plain_name_def list_all_iff is_alnum_def between_def)

context hocon
begin

text \<open>What is put is read back.\<close>

lemma get_put: "plain_path k \<Longrightarrow> key_path k \<noteq> [] \<Longrightarrow> \<forall>d. v \<noteq> VDict d \<Longrightarrow>
     hocon_get w (hocon_put w t k v) k = Some v"
  by (simp add: hocon_get hocon_put tree_get_put)

end

lemma tree_world_hocon:
  assumes "hocon_get w = (\<lambda>t k. tree_get (key_path k) (VDict t))"
    and "hocon_put w = (\<lambda>t k v. tree_put (key_path k) v t)"
  shows "hocon w"
  by unfold_locales (simp_all add: assms)

interpretation local_tree: hocon local_world
  by (rule tree_world_hocon) (simp_all add: local_world_def)

end
