(* ===== verification/Shared_Filesystems.thy ===== *)
theory Shared_Filesystems
  imports Cluster_Config
begin

text \<open>
  \<^verbatim>\<open>shared_filesystem/shared_filesystem_service.py\<close>: the file systems of the cluster are entries
  \<open>shared-storage.<name>. ...\<close> of the settings. They are read from the tree in memory and written
  to the table; the listener carries them back. EFS, FSx and EC2 are outside.
\<close>

section \<open>File systems\<close>

text \<open>A name and what the tree holds under it (\<^verbatim>\<open>shared_filesystem_model.py\<close>).\<close>

type_synonym filesystem = "string \<times> (string \<times> val) list"

definition fs_projects :: "filesystem \<Rightarrow> val" where
  "fs_projects fs = attr_or (map_of (snd fs)) ''projects'' VNone"

definition fs_id :: "filesystem \<Rightarrow> exn + val" where
  "fs_id fs = (case map_of (snd fs) ''provider'' of
      Some (VStr p) \<Rightarrow> bindE (v_get (VDict (snd fs)) p) (\<lambda>f. v_get f ''file_system_id'')
    | Some (VList _) \<Rightarrow> Inl TypeError
    | Some (VDict _) \<Rightarrow> Inl TypeError
    | _ \<Rightarrow> Inl AttributeError)"

definition shared_entry :: "string \<times> val \<Rightarrow> filesystem option" where
  "shared_entry e = (case get_as_dict (snd e) None of
      None \<Rightarrow> None
    | Some d \<Rightarrow> if ''projects'' \<in> fst ` set d then Some (fst e, d) else None)"

definition shared_filesystems :: "world \<Rightarrow> (string \<times> val) list \<Rightarrow> exn + filesystem list" where
  "shared_filesystems w t = bindE (get_config w t ''shared-storage'') (\<lambda>v. case v of
      None \<Rightarrow> Inl AttributeError
    | Some d \<Rightarrow> Inr (List.map_filter shared_entry d))"

definition list_shared_filesystems :: "'db env \<Rightarrow> ('db st, filesystem list) act" where
  "list_shared_filesystems E = bindA (getA st_config) (\<lambda>t. liftA (shared_filesystems (cfg E) t))"

definition get_filesystem :: "'db env \<Rightarrow> string \<Rightarrow> ('db st, filesystem) act" where
  "get_filesystem E filesystem_name =
     bindA (list_shared_filesystems E) (\<lambda>fss.
     raise_if (fss = []) (SocaException NO_SHARED_FILESYSTEM_FOUND)
       (case find (\<lambda>fs. fst fs = filesystem_name) fss of
          None \<Rightarrow> raise (SocaException FILESYSTEM_NOT_FOUND)
        | Some fs \<Rightarrow> return fs))"

definition onboarded_ids :: "'db env \<Rightarrow> ('db st, val list) act" where
  "onboarded_ids E = bindA (list_shared_filesystems E) (\<lambda>fss. liftA (map_sum_list fs_id fss))"

section \<open>File systems in the network\<close>

fun collect_each :: "'x list \<Rightarrow> ('x \<Rightarrow> ('s, 'a option) act) \<Rightarrow> ('s, 'a list) act" where
  "collect_each [] f = return []"
| "collect_each (x # xs) f =
     bindA (f x) (\<lambda>r. bindA (collect_each xs f) (\<lambda>rs. return (case r of None \<Rightarrow> rs | Some y \<Rightarrow> y # rs)))"

definition list_at :: "val \<Rightarrow> string \<Rightarrow> exn + val list" where
  "list_at v k = bindE (v_at v k) v_list"

definition first_at :: "val \<Rightarrow> string \<Rightarrow> exn + val" where
  "first_at v k = bindE (v_at v k) v_first"

definition unonboarded_efs :: "'db env \<Rightarrow> val list \<Rightarrow> val list \<Rightarrow> val \<Rightarrow> val \<Rightarrow> ('db st, val option) act" where
  "unonboarded_efs E onboarded internal env_vpc_id efs =
     bindA (liftA (v_at efs ''LifeCycleState'')) (\<lambda>state.
     if state \<noteq> VStr ''available'' then return None
     else bindA (liftA (v_at efs ''FileSystemId'')) (\<lambda>i.
          bindA (call E (Efs ''describe_mount_targets'' [(''FileSystemId'', i)])) (\<lambda>r.
          bindA (liftA (list_at r ''MountTargets'')) (\<lambda>targets.
          if targets = [] then return None
          else bindA (liftA (v_at (hd targets) ''VpcId'')) (\<lambda>vpc.
               return (if env_vpc_id = vpc \<and> i \<notin> set onboarded \<and> i \<notin> set internal
                       then Some efs else None))))))"

definition list_unonboarded_efs_file_systems :: "'db env \<Rightarrow> val list \<Rightarrow> ('db st, val list) act" where
  "list_unonboarded_efs_file_systems E onboarded = or_general_exception
     (bindA (config_entry_value E ''shared-storage.home.efs.file_system_id'') (\<lambda>home.
      bindA (config_entry_value E ''shared-storage.internal.efs.file_system_id'') (\<lambda>internal.
      bindA (config_entry_value E ''cluster.network.vpc_id'') (\<lambda>env_vpc_id.
      bindA (call E (Efs ''describe_file_systems'' [])) (\<lambda>r.
      bindA (liftA (list_at r ''FileSystems'')) (\<lambda>fss.
      collect_each fss (unonboarded_efs E onboarded [home, internal] env_vpc_id)))))))"

text \<open>The available FSx file systems of a type in the cluster's network that are not onboarded.\<close>

definition fsx_candidate :: "'db env \<Rightarrow> string \<Rightarrow> val list \<Rightarrow> val \<Rightarrow> val \<Rightarrow> ('db st, val option) act" where
  "fsx_candidate E ty onboarded env_vpc_id fsx =
     bindA (liftA (v_at fsx ''FileSystemType'')) (\<lambda>t.
     if t \<noteq> VStr ty then return None
     else bindA (liftA (v_at fsx ''Lifecycle'')) (\<lambda>state.
       if state \<noteq> VStr ''AVAILABLE'' then return None
       else bindA (liftA (v_at fsx ''FileSystemId'')) (\<lambda>i.
            bindA (liftA (v_at fsx ''SubnetIds'')) (\<lambda>subnets.
            bindA (call E (Ec2 ''describe_subnets'' [(''SubnetIds'', subnets)])) (\<lambda>r.
            bindA (liftA (bindE (first_at r ''Subnets'') (\<lambda>x. v_at x ''VpcId''))) (\<lambda>vpc.
            return (if env_vpc_id = vpc \<and> i \<notin> set onboarded then Some i else None)))))))"

definition created_only :: "val list \<Rightarrow> exn + val list" where
  "created_only vs = bindE (map_sum_list (\<lambda>v. v_at v ''Lifecycle'') vs) (\<lambda>states.
     Inr (map fst (filter (\<lambda>p. snd p = VStr ''CREATED'') (zip vs states))))"

text \<open>An ONTAP file system with its storage virtual machines and its volumes.\<close>

type_synonym ontap = "val \<times> val list \<times> val list"

definition of_filesystem :: "val \<Rightarrow> (string \<times> val) list" where
  "of_filesystem i = [(''Filters'', VList [VDict [(''Name'', VStr ''file-system-id''), (''Values'', VList [i])]])]"

definition unonboarded_ontap :: "'db env \<Rightarrow> val list \<Rightarrow> val \<Rightarrow> val \<Rightarrow> ('db st, ontap option) act" where
  "unonboarded_ontap E onboarded env_vpc_id fsx =
     bindA (fsx_candidate E ''ONTAP'' onboarded env_vpc_id fsx) (\<lambda>v. case v of
       None \<Rightarrow> return None
     | Some i \<Rightarrow>
         bindA (call E (Fsx ''describe_volumes'' (of_filesystem i))) (\<lambda>volume_response.
         bindA (call E (Fsx ''describe_storage_virtual_machines'' (of_filesystem i))) (\<lambda>svm_response.
         bindA (liftA (list_at svm_response ''StorageVirtualMachines'')) (\<lambda>svms.
         bindA (liftA (if svms = [] then Inr [] else list_at volume_response ''Volumes'')) (\<lambda>volumes.
         if svms = [] \<or> volumes = [] then return None
         else bindA (liftA (created_only svms)) (\<lambda>svms.
              bindA (liftA (created_only volumes)) (\<lambda>volumes.
              return (Some (fsx, svms, volumes)))))))))"

definition list_unonboarded_ontap_file_systems :: "'db env \<Rightarrow> val list \<Rightarrow> ('db st, ontap list) act" where
  "list_unonboarded_ontap_file_systems E onboarded = or_general_exception
     (bindA (config_entry_value E ''cluster.network.vpc_id'') (\<lambda>env_vpc_id.
      bindA (call E (Fsx ''describe_file_systems'' [])) (\<lambda>r.
      bindA (liftA (list_at r ''FileSystems'')) (\<lambda>fss.
      collect_each fss (unonboarded_ontap E onboarded env_vpc_id)))))"

definition unonboarded_lustre :: "'db env \<Rightarrow> val list \<Rightarrow> val \<Rightarrow> val \<Rightarrow> ('db st, val option) act" where
  "unonboarded_lustre E onboarded env_vpc_id fsx =
     bindA (fsx_candidate E ''LUSTRE'' onboarded env_vpc_id fsx) (\<lambda>v. return (map_option (\<lambda>_. fsx) v))"

definition list_unonboarded_lustre_file_systems :: "'db env \<Rightarrow> val list \<Rightarrow> ('db st, val list) act" where
  "list_unonboarded_lustre_file_systems E onboarded = or_general_exception
     (bindA (config_entry_value E ''cluster.network.vpc_id'') (\<lambda>env_vpc_id.
      bindA (call E (Fsx ''describe_file_systems'' [])) (\<lambda>r.
      bindA (liftA (list_at r ''FileSystems'')) (\<lambda>fss.
      collect_each fss (unonboarded_lustre E onboarded env_vpc_id)))))"

record vpc_filesystems =
  vf_efs :: "val list"
  vf_ontap :: "ontap list"
  vf_lustre :: "val list"

definition filesystems_in_vpc :: "'db env \<Rightarrow> val list \<Rightarrow> ('db st, vpc_filesystems) act" where
  "filesystems_in_vpc E onboarded =
     bindA (list_unonboarded_efs_file_systems E onboarded) (\<lambda>efs.
     bindA (list_unonboarded_ontap_file_systems E onboarded) (\<lambda>ontap.
     bindA (list_unonboarded_lustre_file_systems E onboarded) (\<lambda>lustre.
     return \<lparr>vf_efs = efs, vf_ontap = ontap, vf_lustre = lustre\<rparr>)))"

definition vpc_filesystem_ids :: "vpc_filesystems \<Rightarrow> exn + val list" where
  "vpc_filesystem_ids v =
     map_sum_list (\<lambda>f. v_get f ''FileSystemId'') (vf_efs v @ map fst (vf_ontap v) @ vf_lustre v)"

definition list_file_systems_in_vpc :: "'db env \<Rightarrow> ('db st, vpc_filesystems) act" where
  "list_file_systems_in_vpc E = bindA (onboarded_ids E) (filesystems_in_vpc E)"

section \<open>Checks\<close>

definition validate_filesystem_does_not_exist :: "'db env \<Rightarrow> string \<Rightarrow> ('db st, unit) act" where
  "validate_filesystem_does_not_exist E filesystem_name =
     catch_soca
       (bindA (get_filesystem E filesystem_name) (\<lambda>_. raise invalid_params))
       (\<lambda>c. if c = FILESYSTEM_NOT_FOUND \<or> c = NO_SHARED_FILESYSTEM_FOUND then return ()
            else raise (SocaException c))"

definition validate_filesystem_present_in_vpc_and_not_onboarded ::
  "'db env \<Rightarrow> string \<Rightarrow> ('db st, unit) act" where
  "validate_filesystem_present_in_vpc_and_not_onboarded E filesystem_id =
     bindA (onboarded_ids E) (\<lambda>onboarded.
     raise_if (VStr filesystem_id \<in> set onboarded) (SocaException FILESYSTEM_ALREADY_ONBOARDED)
    (bindA (filesystems_in_vpc E onboarded) (\<lambda>v.
     bindA (liftA (vpc_filesystem_ids v)) (\<lambda>ids.
     raise_if (VStr filesystem_id \<notin> set ids) (SocaException FILESYSTEM_NOT_IN_VPC) (return ())))))"

text \<open>\<open>^[a-z0-9_]{3,18}$\<close>, \<open>^/[a-z0-9-]{3,18}$\<close> and \<open>^[ABD-Z]{1}$\<close>; \<open>$\<close> also matches before a newline at the end.\<close>

definition is_lower_alnum :: "char \<Rightarrow> bool" where
  "is_lower_alnum c \<longleftrightarrow> between 48 57 c \<or> between 97 122 c"

definition matches_filesystem_name :: "string \<Rightarrow> bool" where
  "matches_filesystem_name s = list_ex (\<lambda>t. 3 \<le> length t \<and> length t \<le> 18 \<and>
     list_all (\<lambda>c. is_lower_alnum c \<or> c = CHR ''_'') t) [s, drop_newline s]"

definition matches_mount_directory :: "string \<Rightarrow> bool" where
  "matches_mount_directory s = list_ex (\<lambda>t. t \<noteq> [] \<and> hd t = CHR 0x2F \<and> 3 \<le> length (tl t) \<and> length (tl t) \<le> 18 \<and>
     list_all (\<lambda>c. is_lower_alnum c \<or> c = CHR ''-'') (tl t)) [s, drop_newline s]"

definition matches_mount_drive :: "string \<Rightarrow> bool" where
  "matches_mount_drive s = list_ex (\<lambda>t. case t of [c] \<Rightarrow> between 65 66 c \<or> between 68 90 c | _ \<Rightarrow> False)
     [s, drop_newline s]"

text \<open>\<open>ApiUtils.validate_input\<close>: no text at all is no argument for the regular expression.\<close>

definition validate_input :: "(string \<Rightarrow> bool) \<Rightarrow> string option \<Rightarrow> ('s, unit) act" where
  "validate_input matches v = (case v of
      None \<Rightarrow> raise TypeError
    | Some s \<Rightarrow> raise_if (\<not> matches s) invalid_params (return ()))"

definition no_text :: "string option \<Rightarrow> bool" where
  "no_text v \<longleftrightarrow> v = None \<or> v = Some []"

definition validate_create_filesystem_request :: "string option \<Rightarrow> string option \<Rightarrow> ('s, unit) act" where
  "validate_create_filesystem_request filesystem_name filesystem_title =
     raise_if (no_text filesystem_name \<or> no_text filesystem_title) invalid_params
       (validate_input matches_filesystem_name filesystem_name)"

definition val_in :: "val \<Rightarrow> val \<Rightarrow> exn + bool" where
  "val_in x v = (case v of
      VList vs \<Rightarrow> Inr (x \<in> set vs)
    | VStr s \<Rightarrow> (case x of VStr p \<Rightarrow> Inr (val_contains v x) | _ \<Rightarrow> Inl TypeError)
    | VDict d \<Rightarrow> Inr (\<exists>k \<in> fst ` set d. x = VStr k)
    | _ \<Rightarrow> Inl TypeError)"

text \<open>The order in which a set of two subnets is gone through does not matter for the answer.\<close>

definition validate_correct_subnet_selection :: "'db env \<Rightarrow> string option list \<Rightarrow> ('db st, unit) act" where
  "validate_correct_subnet_selection E subnet_ids =
     bindA (config_entry_value E ''cluster.network.private_subnets'') (\<lambda>res_private_subnets.
     for_each subnet_ids (\<lambda>subnet_id. case subnet_id of
       None \<Rightarrow> return ()
     | Some i \<Rightarrow> bindA (liftA (val_in (VStr i) res_private_subnets)) (\<lambda>ok.
         raise_if (\<not> ok) invalid_params (return ()))))"

section \<open>Settings of a file system\<close>

text \<open>
  \<open>traverse_config\<close>: the leaves of a nested dictionary as settings. A value that is empty is read as
  no value, an empty dictionary too.
\<close>

function traverse_config ::
  "string \<Rightarrow> (string \<times> val) list \<Rightarrow> exn + (string \<times> val) list" where
  "traverse_config prefix [] = Inr []"
| "traverse_config prefix ((key, v) # rest) =
     (if CHR ''.'' \<in> set key \<or> CHR '':'' \<in> set key then Inl general_exception
      else
        let path_prefix = (if blank prefix then key else prefix @ ''.'' @ key);
            v' = (if is_empty v then VNone else v) in
        bindE (case v' of VDict d \<Rightarrow> traverse_config path_prefix d | x \<Rightarrow> Inr [(path_prefix, x)]) (\<lambda>entries.
        bindE (traverse_config prefix rest) (\<lambda>more. Inr (entries @ more))))"
  by pat_completeness auto

termination
  by (relation "measure (\<lambda>(p, d). size (VDict d))") (auto split: if_splits)

definition storage_entries :: "string \<Rightarrow> (string \<times> val) list \<Rightarrow> exn + (string \<times> val) list" where
  "storage_entries filesystem_name config =
     traverse_config ''shared-storage'' [(filesystem_name, VDict config)]"

definition NFS_OPTIONS :: string where
  "NFS_OPTIONS = ''nfs4 nfsvers=4.1,rsize=1048576,wsize=1048576,hard,timeo=600,retrans=2,noresvport 0 0''"

definition LUSTRE_OPTIONS :: string where
  "LUSTRE_OPTIONS = ''lustre defaults,noatime,flock,_netdev 0 0''"

text \<open>The storage virtual machine and the volume of an ONTAP file system, as FSx describes them.\<close>

definition endpoint_dns :: "val \<Rightarrow> string \<Rightarrow> exn + val" where
  "endpoint_dns svm protocol =
     bindE (v_get svm ''Endpoints'') (\<lambda>e. bindE (v_get e protocol) (\<lambda>p. v_get p ''DNSName''))"

definition smb_dns :: "val \<Rightarrow> exn + val" where
  "smb_dns svm = bindE (v_get svm ''Endpoints'') (\<lambda>e. bindE (v_get e ''Smb'') (\<lambda>p.
     if p = VNone then Inr VNone else v_get p ''DNSName''))"

definition ontap_volume :: "val \<Rightarrow> val \<Rightarrow> exn + val" where
  "ontap_volume volume file_share_name =
     bindE (v_get volume ''VolumeId'') (\<lambda>i.
     bindE (bindE (v_get volume ''OntapConfiguration'') (\<lambda>c. v_get c ''JunctionPath'')) (\<lambda>path.
     bindE (bindE (v_get volume ''OntapConfiguration'') (\<lambda>c. v_get c ''SecurityStyle'')) (\<lambda>style.
     Inr (VDict [(''volume_id'', i), (''volume_path'', path), (''security_style'', style),
                 (''cifs_share_name'', file_share_name)]))))"

definition ontap_svm :: "val \<Rightarrow> val \<Rightarrow> exn + val" where
  "ontap_svm svm smb =
     bindE (v_get svm ''StorageVirtualMachineId'') (\<lambda>i.
     bindE (endpoint_dns svm ''Nfs'') (\<lambda>nfs.
     bindE (endpoint_dns svm ''Management'') (\<lambda>mgmt.
     bindE (endpoint_dns svm ''Iscsi'') (\<lambda>iscsi.
     Inr (VDict [(''svm_id'', i), (''smb_dns'', smb), (''nfs_dns'', nfs), (''management_dns'', mgmt),
                 (''iscsi_dns'', iscsi)])))))"

section \<open>Onboarding\<close>

record onboard_request =
  or_name :: string
  or_title :: string
  or_id :: string
  or_mount_directory :: "string option"
  or_mount_drive :: "string option"
  or_svm_id :: string
  or_volume_id :: string
  or_file_share_name :: "string option"

definition efs_dns :: "world \<Rightarrow> string \<Rightarrow> string" where
  "efs_dns w i = i @ ''.efs.'' @ aws_region w @ ''.amazonaws.com''"

definition fsx_dns :: "world \<Rightarrow> string \<Rightarrow> string" where
  "fsx_dns w i = i @ ''.fsx.'' @ aws_region w @ ''.amazonaws.com''"

definition build_config_for_vpc_efs :: "'db env \<Rightarrow> onboard_request \<Rightarrow> ('db st, (string \<times> val) list) act" where
  "build_config_for_vpc_efs E r =
     bindA (call E (Efs ''describe_file_systems'' [(''FileSystemId'', VStr (or_id r))])) (\<lambda>response.
     bindA (liftA (first_at response ''FileSystems'')) (\<lambda>file_system.
     liftA (storage_entries (or_name r)
       [(''title'', VStr (or_title r)), (''provider'', VStr ''efs''), (''scope'', strs [''project'']),
        (''projects'', VList []), (''mount_dir'', opt_str (or_mount_directory r)),
        (''mount_options'', VStr NFS_OPTIONS),
        (''efs'', VDict [(''removal_policy'', VStr ''RETAIN''), (''use_existing_fs'', VBool True),
           (''file_system_id'', VStr (or_id r)), (''dns'', VStr (efs_dns (cfg E) (or_id r))),
           (''encrypted'', opt_str (string_of ''Encrypted'' file_system))])])))"

definition build_config_for_vpc_ontap :: "'db env \<Rightarrow> onboard_request \<Rightarrow> ('db st, (string \<times> val) list) act" where
  "build_config_for_vpc_ontap E r =
     bindA (call E (Fsx ''describe_storage_virtual_machines''
              [(''StorageVirtualMachineIds'', strs [or_svm_id r])])) (\<lambda>describe_svm_response.
     bindA (call E (Fsx ''describe_volumes'' [(''VolumeIds'', strs [or_volume_id r])])) (\<lambda>describe_volumes_response.
     bindA (liftA (first_at describe_svm_response ''StorageVirtualMachines'')) (\<lambda>svm.
     bindA (liftA (first_at describe_volumes_response ''Volumes'')) (\<lambda>volume.
     bindA (liftA (bindE (smb_dns svm) (ontap_svm svm))) (\<lambda>svm.
     bindA (liftA (ontap_volume volume (opt_str (or_file_share_name r)))) (\<lambda>volume.
     liftA (storage_entries (or_name r)
       [(''title'', VStr (or_title r)), (''provider'', VStr ''fsx_netapp_ontap''), (''scope'', strs [''project'']),
        (''projects'', VList []), (''mount_dir'', opt_str (or_mount_directory r)),
        (''mount_drive'', opt_str (or_mount_drive r)), (''mount_options'', VStr NFS_OPTIONS),
        (''fsx_netapp_ontap'', VDict [(''removal_policy'', VStr ''RETAIN''), (''use_existing_fs'', VBool True),
           (''file_system_id'', VStr (or_id r)), (''svm'', svm), (''volume'', volume)])])))))))"

definition build_config_for_vpc_lustre :: "'db env \<Rightarrow> onboard_request \<Rightarrow> ('db st, (string \<times> val) list) act" where
  "build_config_for_vpc_lustre E r =
     bindA (call E (Fsx ''describe_file_systems'' [(''FileSystemIds'', strs [or_id r])])) (\<lambda>response.
     bindA (liftA (v_get response ''FileSystems'')) (\<lambda>found.
     raise_if (\<not> py_truthy found) invalid_params
    (bindA (liftA (v_first found)) (\<lambda>file_system.
     bindA (liftA (bindE (Projects_DAO.dict_get file_system ''LustreConfiguration'' (VDict [])) (\<lambda>c.
              Projects_DAO.dict_get c ''MountName'' (VStr [])))) (\<lambda>mount_name.
     liftA (storage_entries (or_name r)
       [(''title'', VStr (or_title r)), (''provider'', VStr ''fsx_lustre''), (''scope'', strs [''project'']),
        (''projects'', VList []), (''mount_dir'', opt_str (or_mount_directory r)),
        (''mount_options'', VStr LUSTRE_OPTIONS), (''mount_name'', mount_name),
        (''fsx_lustre'', VDict [(''removal_policy'', VStr ''RETAIN''), (''use_existing_fs'', VBool True),
           (''file_system_id'', VStr (or_id r)), (''dns'', VStr (fsx_dns (cfg E) (or_id r))),
           (''encrypted'', opt_str (string_of ''Encrypted'' file_system))])]))))))"

definition validate_onboard_filesystem_request :: "onboard_request \<Rightarrow> ('s, unit) act" where
  "validate_onboard_filesystem_request r =
     raise_if (or_id r = [] \<or> or_name r = [] \<or> or_title r = []) invalid_params (return ())"

definition onboard_with ::
  "'db env \<Rightarrow> ('db env \<Rightarrow> onboard_request \<Rightarrow> ('db st, (string \<times> val) list) act) \<Rightarrow> onboard_request \<Rightarrow>
     ('db st, unit) act" where
  "onboard_with E build r =
     seqA (validate_onboard_filesystem_request r)
    (seqA (validate_filesystem_does_not_exist E (or_name r))
    (seqA (validate_filesystem_present_in_vpc_and_not_onboarded E (or_id r))
    (bindA (build E r) (\<lambda>config_entries. sync_cluster_settings_in_db E config_entries True))))"

definition onboard_efs_filesystem :: "'db env \<Rightarrow> onboard_request \<Rightarrow> ('db st, unit) act" where
  "onboard_efs_filesystem E = onboard_with E build_config_for_vpc_efs"

definition onboard_ontap_filesystem :: "'db env \<Rightarrow> onboard_request \<Rightarrow> ('db st, unit) act" where
  "onboard_ontap_filesystem E = onboard_with E build_config_for_vpc_ontap"

definition onboard_lustre_filesystem :: "'db env \<Rightarrow> onboard_request \<Rightarrow> ('db st, unit) act" where
  "onboard_lustre_filesystem E = onboard_with E build_config_for_vpc_lustre"

text \<open>The entries of the file system are found by the prefix its name makes, without a dot behind it.\<close>

definition offboard_filesystem :: "'db env \<Rightarrow> string \<Rightarrow> ('db st, unit) act" where
  "offboard_filesystem E filesystem_name = delete_config_entries E (''shared-storage.'' @ filesystem_name)"

section \<open>Projects of a file system\<close>

definition projects_key :: "string \<Rightarrow> string" where
  "projects_key filesystem_name = ''shared-storage.'' @ filesystem_name @ ''.projects''"

text \<open>The table and the tree are written both.\<close>

definition update_projects_for_filesystem :: "'db env \<Rightarrow> string \<Rightarrow> val list \<Rightarrow> ('db st, unit) act" where
  "update_projects_for_filesystem E filesystem_name projects =
     seqA (set_config_entry E (projects_key filesystem_name) (VList projects))
          (put_config E (projects_key filesystem_name) (VList projects))"

definition update_filesystem_to_project_mapping :: "'db env \<Rightarrow> string \<Rightarrow> string \<Rightarrow> ('db st, unit) act" where
  "update_filesystem_to_project_mapping E filesystem_name project_name =
     bindA (get_filesystem E filesystem_name) (\<lambda>fs.
     let projects = fs_projects fs in
     bindA (if is_empty projects then return [] else as_list projects) (\<lambda>projects.
     whenA (VStr project_name \<notin> set projects)
       (update_projects_for_filesystem E (fst fs) (projects @ [VStr project_name]))))"

definition check_project_parameters :: "string option \<Rightarrow> string option \<Rightarrow> ('s, unit) act" where
  "check_project_parameters filesystem_name project_name =
     raise_if (empty_str filesystem_name) invalid_params
    (raise_if (empty_str project_name) invalid_params (return ()))"

definition add_filesystem_to_project :: "'db env \<Rightarrow> string option \<Rightarrow> string option \<Rightarrow> ('db st, unit) act" where
  "add_filesystem_to_project E filesystem_name project_name =
     seqA (check_project_parameters filesystem_name project_name)
          (update_filesystem_to_project_mapping E (fmt filesystem_name) (fmt project_name))"

definition remove_filesystem_from_project :: "'db env \<Rightarrow> string option \<Rightarrow> string option \<Rightarrow> ('db st, unit) act" where
  "remove_filesystem_from_project E filesystem_name project_name =
     seqA (check_project_parameters filesystem_name project_name)
    (bindA (get_filesystem E (fmt filesystem_name)) (\<lambda>fs.
     bindA (as_list (fs_projects fs)) (\<lambda>projects.
     whenA (VStr (fmt project_name) \<in> set projects)
       (update_projects_for_filesystem E (fst fs) (remove1 (VStr (fmt project_name)) projects)))))"

section \<open>Creation\<close>

text \<open>\<open>s.split(mark)[1]\<close>\<close>

fun split_first :: "string \<Rightarrow> string \<Rightarrow> (string \<times> string) option" where
  "split_first mark [] = (if mark = [] then Some ([], []) else None)"
| "split_first mark (c # cs) =
     (if starts_with (c # cs) mark then Some ([], drop (length mark) (c # cs))
      else map_option (\<lambda>(a, b). (c # a, b)) (split_first mark cs))"

definition behind :: "string \<Rightarrow> string \<Rightarrow> exn + string" where
  "behind mark s = (case split_first mark s of
      None \<Rightarrow> Inl IndexError
    | Some (_, b) \<Rightarrow> Inr (case split_first mark b of None \<Rightarrow> b | Some (x, _) \<Rightarrow> x))"

definition custom_tag :: "string \<Rightarrow> exn + string \<times> string" where
  "custom_tag s = (case split_first '','' s of
      None \<Rightarrow> Inl IndexError
    | Some (k, v) \<Rightarrow> bindE (behind ''Key='' k) (\<lambda>k. bindE (behind ''Value='' v) (\<lambda>v.
        Inr (py_strip k, py_strip v))))"

definition convert_custom_tags_to_key_value_pairs :: "string list \<Rightarrow> exn + (string \<times> val) list" where
  "convert_custom_tags_to_key_value_pairs tags = bindE (map_sum_list custom_tag tags) (\<lambda>kvs.
     Inr (fold (\<lambda>(k, v) d. if k = [] \<or> v = [] then d else dict_set k (VStr v) d) kvs []))"

definition aws_tag :: "string \<Rightarrow> val \<Rightarrow> val" where
  "aws_tag k v = VDict [(''Key'', VStr k), (''Value'', v)]"

definition create_tags :: "'db env \<Rightarrow> string \<Rightarrow> exn + val" where
  "create_tags E filesystem_name =
     bindE (convert_custom_tags_to_key_value_pairs
              (config_list (cfg E) ''cluster.backups.backup_plan.selection.tags'')) (\<lambda>backup.
     bindE (required_string (cfg E) (''global-settings.module_sets.'' @ module_set (cfg E) @ ''.shared-storage.module_id''))
       (\<lambda>storage_module.
     Inr (VList ([aws_tag ''Name'' (VStr filesystem_name),
        aws_tag ''res:EnvironmentName'' (opt_str (config_string (cfg E) ''cluster.cluster_name'')),
        aws_tag ''res:ModuleId'' (VStr storage_module), aws_tag ''res:ModuleName'' (VStr ''shared-storage''),
        aws_tag ''res:ModuleVersion'' (VStr (module_version (cfg E)))] @ map (\<lambda>(k, v). aws_tag k v) backup))))"

text \<open>The loop that waits until a new file system is available; a file system that is not there ends it too.\<close>

definition efs_available :: "val \<Rightarrow> exn + unit option" where
  "efs_available r = bindE (first_at r ''FileSystems'') (\<lambda>f. bindE (v_at f ''LifeCycleState'') (\<lambda>state.
     Inr (if state = VStr ''available'' then Some () else None)))"

definition efs_check_filesystem_exists :: "'db env \<Rightarrow> val \<Rightarrow> bool \<Rightarrow> ('db st, bool) act" where
  "efs_check_filesystem_exists E filesystem_id wait =
     (let describe = Efs ''describe_file_systems'' [(''FileSystemId'', filesystem_id)] in
      on_client_error
        (seqA (if wait then poll E describe efs_available 2000 else do_call E describe) (return True))
        (\<lambda>c. if c = ''ResourceNotFoundException'' then return False else raise (ServiceError c)))"

record create_request =
  cr_name :: "string option"
  cr_title :: "string option"
  cr_projects :: "string list option"
  cr_mount_directory :: "string option"
  cr_mount_drive :: "string option"
  cr_subnet_1 :: "string option"
  cr_subnet_2 :: "string option"
  cr_single_az :: bool
  cr_security_style :: string
  cr_storage_capacity :: int
  cr_file_share_name :: "string option"

definition common_filesystem_config :: "create_request \<Rightarrow> (string \<times> val) list" where
  "common_filesystem_config r =
     [(''mount_options'', VStr NFS_OPTIONS), (''projects'', case cr_projects r of None \<Rightarrow> VNone | Some ps \<Rightarrow> strs ps),
      (''scope'', strs [''project'']), (''title'', opt_str (cr_title r))]"

definition build_config_for_new_efs :: "'db env \<Rightarrow> val \<Rightarrow> create_request \<Rightarrow> exn + (string \<times> val) list" where
  "build_config_for_new_efs E efs r =
     bindE (v_get efs ''FileSystemId'') (\<lambda>i.
     bindE (v_get efs ''Encrypted'') (\<lambda>encrypted.
     bindE (v_get efs ''KmsKeyId'') (\<lambda>kms.
     bindE (v_get efs ''PerformanceMode'') (\<lambda>performance.
     bindE (v_get efs ''ThroughputMode'') (\<lambda>throughput.
     storage_entries (fmt (cr_name r))
       ([(''efs'', VDict [(''cloudwatch_monitoring'', VBool False), (''dns'', VStr (efs_dns (cfg E) (py_str i))),
           (''encrypted'', encrypted), (''file_system_id'', i), (''kms_key_id'', opt_str (get_as_string kms None)),
           (''performance_mode'', performance), (''removal_policy'', VStr ''RETAIN''),
           (''throughput_mode'', throughput), (''transition_to_ia'', VStr ''AFTER_30_DAYS'')]),
         (''provider'', VStr ''efs''), (''mount_dir'', opt_str (cr_mount_directory r))] @
        common_filesystem_config r))))))"

definition create_mount_target :: "'db env \<Rightarrow> val \<Rightarrow> string option \<Rightarrow> string option \<Rightarrow> ('db st, unit) act" where
  "create_mount_target E i subnet_id security_group_id =
     do_call E (Efs ''create_mount_target'' [(''FileSystemId'', i), (''SubnetId'', opt_str subnet_id),
       (''SecurityGroups'', VList [opt_str security_group_id])])"

definition efs_policy :: "world \<Rightarrow> val \<Rightarrow> val" where
  "efs_policy w i = VDict
     [(''Version'', VStr ''2012-10-17''), (''Id'', VStr ''efs-prevent-anonymous-access-policy''),
      (''Statement'', VList [VDict
        [(''Sid'', VStr ''efs-statement''), (''Effect'', VStr ''Allow''),
         (''Principal'', VDict [(''AWS'', VStr ''*'')]),
         (''Action'', strs [''elasticfilesystem:ClientRootAccess'', ''elasticfilesystem:ClientWrite'',
            ''elasticfilesystem:ClientMount'']),
         (''Resource'', VStr (''arn:'' @ aws_partition w @ '':elasticfilesystem:'' @
            aws_region w @ '':'' @ aws_account_id w @ '':file-system/'' @ py_str i)),
         (''Condition'', VDict [(''Bool'', VDict [(''elasticfilesystem:AccessedViaMountTarget'', VStr ''true'')])])]])]"

definition create_efs :: "'db env \<Rightarrow> create_request \<Rightarrow> ('db st, unit) act" where
  "create_efs E r =
     seqA (validate_create_filesystem_request (cr_name r) (cr_title r))
    (seqA (validate_correct_subnet_selection E [cr_subnet_1 r, cr_subnet_2 r])
    (seqA (validate_filesystem_does_not_exist E (fmt (cr_name r)))
    (seqA (validate_input matches_mount_directory (cr_mount_directory r))
    (or_general_exception
      (let security_group_id = config_string (cfg E) ''shared-storage.security_group_id'' in
       bindA (liftA (create_tags E (fmt (cr_name r)))) (\<lambda>tags_for_fs.
       bindA (call E (Efs ''create_file_system'' [(''ThroughputMode'', VStr ''elastic''), (''Encrypted'', VBool True),
                (''Tags'', tags_for_fs)])) (\<lambda>efs.
       bindA (liftA (v_get efs ''FileSystemId'')) (\<lambda>i.
       seqA (efs_check_filesystem_exists E i True)
      (seqA (do_call E (Efs ''put_file_system_policy'' [(''FileSystemId'', i), (''Policy'', efs_policy (cfg E) i)]))
      (seqA (create_mount_target E i (cr_subnet_1 r) security_group_id)
      (seqA (create_mount_target E i (cr_subnet_2 r) security_group_id)
      (bindA (liftA (build_config_for_new_efs E efs r)) (\<lambda>config_entries.
       sync_cluster_settings_in_db E config_entries True)))))))))))))"

definition build_config_for_new_ontap :: "val \<Rightarrow> val \<Rightarrow> create_request \<Rightarrow> exn + (string \<times> val) list" where
  "build_config_for_new_ontap svm volume r =
     bindE (v_get svm ''FileSystemId'') (\<lambda>i.
     bindE (ontap_svm svm VNone) (\<lambda>s.
     bindE (ontap_volume volume (opt_str (cr_file_share_name r))) (\<lambda>v.
     storage_entries (fmt (cr_name r))
       ([(''fsx_netapp_ontap'', VDict [(''removal_policy'', VStr ''RETAIN''), (''file_system_id'', i), (''svm'', s),
            (''volume'', v)]),
         (''provider'', VStr ''fsx_netapp_ontap''), (''mount_dir'', opt_str (cr_mount_directory r)),
         (''mount_drive'', opt_str (cr_mount_drive r))] @ common_filesystem_config r))))"

text \<open>A directory is checked when there is one; a drive and, with it, the name of the share.\<close>

definition validate_ontap_mount :: "create_request \<Rightarrow> ('s, unit) act" where
  "validate_ontap_mount r =
     raise_if (no_text (cr_mount_directory r) \<and> no_text (cr_mount_drive r)) invalid_params
    (seqA (whenA (\<not> no_text (cr_mount_directory r)) (validate_input matches_mount_directory (cr_mount_directory r)))
    (seqA (whenA (\<not> no_text (cr_mount_drive r))
             (seqA (validate_input matches_mount_drive (cr_mount_drive r))
                   (validate_input matches_filesystem_name (cr_file_share_name r))))
          (raise_if (cr_storage_capacity r < 1024 \<or> cr_storage_capacity r > 196608) invalid_params (return ()))))"

definition create_fsx_ontap :: "'db env \<Rightarrow> create_request \<Rightarrow> ('db st, unit) act" where
  "create_fsx_ontap E r =
     seqA (validate_create_filesystem_request (cr_name r) (cr_title r))
    (seqA (validate_correct_subnet_selection E [cr_subnet_1 r, cr_subnet_2 r])
    (seqA (validate_filesystem_does_not_exist E (fmt (cr_name r)))
    (seqA (validate_ontap_mount r)
    (or_general_exception
      (let security_group_id = config_string (cfg E) ''shared-storage.security_group_id'';
           subnet_ids = (if cr_single_az r then [cr_subnet_1 r] else [cr_subnet_1 r, cr_subnet_2 r]) in
       bindA (liftA (create_tags E (fmt (cr_name r)))) (\<lambda>tags_for_fs.
       bindA (call E (Fsx ''create_file_system'' [(''FileSystemType'', VStr ''ONTAP''),
                (''SecurityGroupIds'', VList [opt_str security_group_id]), (''Tags'', tags_for_fs),
                (''StorageCapacity'', VInt (cr_storage_capacity r)), (''SubnetIds'', VList (map opt_str subnet_ids)),
                (''OntapConfiguration'', VDict [(''PreferredSubnetId'', opt_str (cr_subnet_1 r)),
                   (''DeploymentType'', VStr (if cr_single_az r then ''SINGLE_AZ_1'' else ''MULTI_AZ_1'')),
                   (''ThroughputCapacity'', VInt 128)])])) (\<lambda>fs_create_response.
       bindA (liftA (bindE (v_at fs_create_response ''FileSystem'') (\<lambda>f. v_get f ''FileSystemId''))) (\<lambda>fs_id.
       bindA (call E (Fsx ''create_storage_virtual_machine'' [(''FileSystemId'', fs_id), (''Name'', VStr ''fsx'')]))
         (\<lambda>svm_response.
       bindA (liftA (v_at svm_response ''StorageVirtualMachine'')) (\<lambda>svm.
       bindA (liftA (v_at svm ''StorageVirtualMachineId'')) (\<lambda>svm_id.
       bindA (call E (Fsx ''create_volume'' [(''VolumeType'', VStr ''ONTAP''), (''Name'', VStr ''vol1''),
                (''OntapConfiguration'', VDict [(''JunctionPath'', VStr ''/vol1''),
                   (''SecurityStyle'', VStr (cr_security_style r)), (''SizeInMegabytes'', VInt 1024),
                   (''StorageVirtualMachineId'', svm_id), (''StorageEfficiencyEnabled'', VBool True)])]))
         (\<lambda>volume_response.
       bindA (liftA (v_at volume_response ''Volume'')) (\<lambda>volume.
       bindA (liftA (build_config_for_new_ontap svm volume r)) (\<lambda>config_entries.
       sync_cluster_settings_in_db E config_entries True))))))))))))))"

end
