(* ===== verification/Filesystem_Facts.thy ===== *)
theory Filesystem_Facts
  imports Shared_Filesystems Frames
begin

text \<open>
  What is proved of the shared file systems: which settings an off-boarding deletes, that it takes
  an onboarding back, and that a project given to a file system is seen at once. The last rests on
  the locale \<open>hocon\<close>, which states what the code relies on in the library of the configuration tree.
\<close>

section \<open>Keys of settings\<close>

lemma all_dropWhile: "(\<forall>x \<in> set (dropWhile P xs). P x) \<longleftrightarrow> (\<forall>x \<in> set xs. P x)"
  by (induction xs) auto

lemma blank_iff: "blank s \<longleftrightarrow> (\<forall>c \<in> set s. py_space c)"
  by (simp add: blank_def py_strip_def dropWhile_eq_Nil_conv all_dropWhile)

lemma dropWhile_append_first: "x \<in> set xs \<Longrightarrow> \<not> P x \<Longrightarrow> dropWhile P (xs @ ys) = dropWhile P xs @ ys"
  by (induction xs) auto

text \<open>Blanks are stripped off behind a text that has none at its ends.\<close>

lemma py_strip_behind:
  assumes "p \<noteq> []" and "\<not> py_space (hd p)" and "\<not> py_space (last p)"
  shows "\<exists>r. py_strip (p @ x) = p @ r"
proof -
  have "dropWhile py_space (p @ x) = p @ x" using assms by (cases p) auto
  moreover have "dropWhile py_space (rev (p @ x)) = dropWhile py_space (rev x) @ rev p"
    using assms by (induction x rule: rev_induct) (auto simp: hd_rev dropWhile_eq_self_iff)
  ultimately show ?thesis by (simp add: py_strip_def)
qed

lemma get_key_of_row: "i ''key'' = Some (VStr k) \<Longrightarrow>
    get_value_as_string ''key'' i None = (if blank k then None else Some (py_strip k))"
  by (simp add: get_value_as_string_def value_exists_def blank_def Let_def)

text \<open>A key that the prefix search reads the way it is stored.\<close>

definition plain_key :: "string \<Rightarrow> string \<Rightarrow> bool" where
  "plain_key p k \<longleftrightarrow> \<not> blank k \<and> starts_with (py_strip k) p = starts_with k p"

lemma clean_is_plain: "py_strip k = k \<Longrightarrow> k \<noteq> [] \<Longrightarrow> plain_key p k"
  by (simp add: plain_key_def blank_def)

lemma has_key_prefix_plain:
  "i ''key'' = Some (VStr k) \<Longrightarrow> plain_key p k \<Longrightarrow>
     has_key_prefix p i = Inr (if starts_with k p then Some i else None)"
  by (simp add: has_key_prefix_def get_key_of_row plain_key_def)

lemma find_prefixed:
  assumes "\<And>i. i \<in> set rows \<Longrightarrow> i ''key'' = Some (VStr (k i)) \<and> plain_key p (k i)"
  shows "\<exists>found. map_sum_list (has_key_prefix p) rows = Inr found \<and>
    List.map_filter id found = filter (\<lambda>i. starts_with (k i) p) rows"
  using assms
proof (induction rows)
  case (Cons i rows)
  then show ?case by (force simp: has_key_prefix_plain)
qed simp

section \<open>Deleting the settings under a prefix\<close>

context dynamodb
begin

lemma setting_key: "ddb_get E d ClusterSettings k = Some i \<Longrightarrow> i ''key'' = Some (VStr (fst k)) \<and> snd k = []"
  using row_key [of d ClusterSettings k i]
  by (auto simp: key_of_def schema_defs split: option.splits val.splits)

lemma delete_entries:
  assumes "\<And>i. i \<in> set is \<Longrightarrow> i ''key'' = Some (VStr (f i))"
  shows "\<exists>t. for_each is (delete_entry E) s = (Inr (), t) \<and>
    (\<forall>tb k. row E t tb k = (if tb = ClusterSettings \<and> k \<in> (\<lambda>i. (f i, [])) ` set is then None else row E s tb k))"
  using assms
proof (induction "is" arbitrary: s)
  case (Cons i js)
  let ?s = "s\<lparr>st_db := ddb_delete E (st_db s) ClusterSettings (f i, []), st_stream := st_stream s @ [On_Delete i]\<rparr>"
  have run: "delete_entry E i s = (Inr (), ?s)"
    using Cons.prems [of i] by (simp add: delete_entry_def push_event_def)
  obtain t where t: "for_each js (delete_entry E) ?s = (Inr (), t)"
    and rows: "\<And>tb k. row E t tb k =
      (if tb = ClusterSettings \<and> k \<in> (\<lambda>i. (f i, [])) ` set js then None else row E ?s tb k)"
    using Cons.IH [of ?s] Cons.prems by auto
  show ?case by (rule exI [of _ t]) (simp add: run t rows)
qed simp

end

context dynamodb_one_page
begin

lemma delete_prefixed:
  assumes "\<not> blank p"
    and "\<forall>k. row E s ClusterSettings (k, []) \<noteq> None \<longrightarrow> plain_key p k"
  shows "\<exists>t. delete_config_entries E p s = (Inr (), t) \<and>
    (\<forall>tb k. row E t tb k = (if tb = ClusterSettings \<and> starts_with (fst k) p then None else row E s tb k))"
proof -
  obtain ks where page: "fst (ddb_scan E (st_db s) ClusterSettings []) =
      map (\<lambda>k. the (row E s ClusterSettings k)) ks" (is "_ = ?rows")
    and "set ks = {k. \<exists>i. row E s ClusterSettings k = Some i \<and> scan_matches [] i}"
    by (rule scan_all)
  then have ks: "set ks = {k. row E s ClusterSettings k \<noteq> None}" by (simp add: scan_matches_def)
  define f where "f i = (case i ''key'' of Some (VStr k) \<Rightarrow> k | _ \<Rightarrow> [])" for i :: item
  have key: "i ''key'' = Some (VStr (fst k)) \<and> f i = fst k \<and> k = (f i, [])"
    if "row E s ClusterSettings k = Some i" for i k
    using setting_key [OF that] by (cases k) (simp add: f_def)
  have setting: "i ''key'' = Some (VStr (f i)) \<and> plain_key p (f i)" if "i \<in> set ?rows" for i
  proof -
    from that obtain k where i: "i = the (row E s ClusterSettings k)" and k: "k \<in> set ks"
      unfolding set_map by blast
    then have "row E s ClusterSettings k = Some i" using ks by auto
    then show ?thesis using key assms(2) by (metis option.distinct(1))
  qed
  then obtain found where found: "map_sum_list (has_key_prefix p) ?rows = Inr found"
    and hits: "List.map_filter id found = filter (\<lambda>i. starts_with (f i) p) ?rows"
    using find_prefixed [of ?rows f p] by blast
  obtain t where t: "for_each (filter (\<lambda>i. starts_with (f i) p) ?rows) (delete_entry E) s = (Inr (), t)"
    and rows: "\<And>tb k. row E t tb k = (if tb = ClusterSettings \<and>
        k \<in> (\<lambda>i. (f i, [])) ` set (filter (\<lambda>i. starts_with (f i) p) ?rows) then None else row E s tb k)"
    using delete_entries [of "filter (\<lambda>i. starts_with (f i) p) ?rows" f s] setting by auto
  have gone: "k \<in> (\<lambda>i. (f i, [])) ` set (filter (\<lambda>i. starts_with (f i) p) ?rows) \<longleftrightarrow>
      starts_with (fst k) p \<and> row E s ClusterSettings k \<noteq> None" for k
  proof
    assume "k \<in> (\<lambda>i. (f i, [])) ` set (filter (\<lambda>i. starts_with (f i) p) ?rows)"
    then obtain j where "j \<in> set ?rows" and k_eq: "k = (f j, [])" and "starts_with (f j) p" by auto
    then obtain k' where "j = the (row E s ClusterSettings k')" and k': "k' \<in> set ks"
      unfolding set_map by blast
    moreover note k_eq \<open>starts_with (f j) p\<close>
    moreover obtain i where "row E s ClusterSettings k' = Some i" using k' ks by auto
    ultimately show "starts_with (fst k) p \<and> row E s ClusterSettings k \<noteq> None"
      by (metis key fst_conv option.distinct(1) option.sel)
  next
    assume k: "starts_with (fst k) p \<and> row E s ClusterSettings k \<noteq> None"
    then obtain i where i: "row E s ClusterSettings k = Some i" by auto
    then have "k \<in> set ks" and "i = the (row E s ClusterSettings k)" using ks by simp_all
    then have "i \<in> set ?rows" unfolding set_map by blast
    then show "k \<in> (\<lambda>i. (f i, [])) ` set (filter (\<lambda>i. starts_with (f i) p) ?rows)"
      using k key [OF i] by (force simp: image_iff)
  qed
  have scan: "ddb_scan E (st_db s) ClusterSettings [] = (?rows, None)"
    using page scan_one_page [of "st_db s" ClusterSettings "[]"] by (simp add: prod_eq_iff)
  have "delete_config_entries E p s = (Inr (), t)"
    using assms(1) found hits t
    by (simp add: delete_config_entries_def scan_settings_def scan bindA_def)
  then show ?thesis using rows gone by (intro exI [of _ t]) auto
qed

end

section \<open>The settings of an onboarding\<close>

lemma traverse_keys:
  "traverse_config p d = Inr es \<Longrightarrow> \<not> blank p \<Longrightarrow> (k, v) \<in> set es \<Longrightarrow> \<exists>r. k = p @ ''.'' @ r"
proof (induction p d arbitrary: es k v rule: traverse_config.induct)
  case (2 p key x rest)
  let ?p = "p @ CHR ''.'' # key" and ?x = "if is_empty x then VNone else x"
  have nb: "\<not> blank ?p" using "2.prems"(2) by (auto simp: blank_iff)
  obtain here more where here: "(case ?x of VDict d \<Rightarrow> traverse_config ?p d | y \<Rightarrow> Inr [(?p, y)]) = Inr here"
    and more: "traverse_config p rest = Inr more" and es: "es = here @ more"
    and ok: "\<not> (CHR ''.'' \<in> set key \<or> CHR '':'' \<in> set key)"
    using "2.prems"(1,2) by (auto simp: Let_def bindE_eq_Inr split: if_splits)
  show ?case
  proof (cases "(k, v) \<in> set more")
    case True
    then show ?thesis using "2.IH"(2) [OF ok refl refl more "2.prems"(2)] by blast
  next
    case False
    then have k: "(k, v) \<in> set here" using "2.prems"(3) es by simp
    show ?thesis
    proof (cases ?x)
      case (VDict d')
      have "\<exists>r. k = ?p @ ''.'' @ r"
        using "2.IH"(1) [OF ok _ refl VDict, of ?p] "2.prems"(2) here k nb VDict
        by (simp add: blank_def split: if_splits)
      then show ?thesis by auto
    qed (use here k in auto)
  qed
qed simp

lemma storage_keys:
  assumes "storage_entries n d = Inr es" and "d \<noteq> []" and "(k, v) \<in> set es"
  shows "\<exists>r. k = ''shared-storage.'' @ n @ ''.'' @ r"
proof -
  have "\<exists>es'. traverse_config (''shared-storage.'' @ n) d = Inr es' \<and> (k, v) \<in> set es'"
    using assms by (auto simp: storage_entries_def bindE_eq_Inr blank_def py_strip_def py_space_def split: if_splits)
  moreover have "\<not> blank (''shared-storage.'' @ n)" by (simp add: blank_iff py_space_def)
  ultimately show ?thesis using traverse_keys by fastforce
qed

section \<open>What the operations write\<close>

lemma keeps_catch_exception [keeps_rules]:
  "keeps I m \<Longrightarrow> (\<And>e. keeps I (h e)) \<Longrightarrow> keeps I (catch_exception m h)"
  unfolding catch_exception_def by (intro keeps_rules)

lemma keeps_or_general_exception [keeps_rules]: "keeps I m \<Longrightarrow> keeps I (or_general_exception m)"
  unfolding or_general_exception_def by (intro keeps_rules)

lemma keeps_collect_each [keeps_rules]: "(\<And>x. keeps I (f x)) \<Longrightarrow> keeps I (collect_each xs f)"
  by (induction xs) (auto intro!: keeps_rules)

lemma keeps_config_state [keeps_rules]:
  "keeps (table_inv P) (put_config E k v)"
  "keeps (table_inv P) (pop_config E k)"
  "keeps (table_inv P) (push_event ev)"
  by (simp_all add: put_config_def pop_config_def push_event_def keeps_def table_inv_def)

lemma keeps_filesystem_reads [keeps_rules]:
  "keeps I (list_shared_filesystems E)"
  "keeps I (get_filesystem E n)"
  "keeps I (onboarded_ids E)"
  "keeps I (validate_input m v)"
  unfolding list_shared_filesystems_def get_filesystem_def onboarded_ids_def validate_input_def
  by (intro keeps_rules)+

lemma keeps_network_reads [keeps_rules]:
  "keeps (table_inv P) (config_entry_value E k)"
  "keeps (table_inv P) (filesystems_in_vpc E xs)"
  "keeps (table_inv P) (list_file_systems_in_vpc E)"
  "keeps (table_inv P) (validate_filesystem_does_not_exist E n)"
  "keeps (table_inv P) (validate_filesystem_present_in_vpc_and_not_onboarded E i)"
  unfolding config_entry_value_def get_config_entry_def filesystems_in_vpc_def list_file_systems_in_vpc_def
    list_unonboarded_efs_file_systems_def list_unonboarded_ontap_file_systems_def
    list_unonboarded_lustre_file_systems_def unonboarded_efs_def unonboarded_ontap_def
    unonboarded_lustre_def fsx_candidate_def validate_filesystem_does_not_exist_def
    validate_filesystem_present_in_vpc_and_not_onboarded_def
  by (intro keeps_rules)+

lemma keeps_build_config [keeps_rules]:
  "keeps (table_inv P) (build_config_for_vpc_efs E r)"
  "keeps (table_inv P) (build_config_for_vpc_ontap E r)"
  "keeps (table_inv P) (build_config_for_vpc_lustre E r)"
  unfolding build_config_for_vpc_efs_def build_config_for_vpc_ontap_def build_config_for_vpc_lustre_def
  by (intro keeps_rules)+

lemma keeps_set_config_entry:
  "tolerates_row E P ClusterSettings (k, []) \<Longrightarrow> keeps (table_inv P) (set_config_entry E k v)"
proof -
  assume a: "tolerates_row E P ClusterSettings (k, [])"
  have upd: "keeps (table_inv P) (db_update E ClusterSettings (k, []) u)" for u
    using a by (auto simp: tolerates_row_def keeps_def table_inv_def key_of_set_attributes is_key_def)
  show ?thesis unfolding set_config_entry_def
    by (intro keeps_bindA keeps_liftA keeps_table_reads keeps_config_state upd)
qed

text \<open>A write to the settings of one key leaves the others.\<close>

context dynamodb
begin

lemma sync_writes:
  assumes "sync_cluster_settings_in_db E es b s = (r, t)" and "tb \<noteq> ClusterSettings \<or> fst k \<notin> fst ` set es"
  shows "row E t tb k = row E s tb k"
proof -
  define P where "P d \<longleftrightarrow> (\<forall>tb k. tb \<noteq> ClusterSettings \<or> fst k \<notin> fst ` set es \<longrightarrow>
      ddb_get E d tb k = ddb_get E (st_db s) tb k)" for d
  have "tolerates_row E P ClusterSettings (k, [])" if "k \<in> fst ` set es" for k
    using that by (auto simp: tolerates_row_def P_def)
  then have "keeps (table_inv P) (sync_cluster_settings_in_db E es b)"
    unfolding sync_cluster_settings_in_db_def by (intro keeps_rules keeps_set_config_entry) force
  then have "P (st_db t)" using assms(1) by (auto simp: keeps_def table_inv_def P_def dest: spec [of _ s])
  then show ?thesis using assms(2) unfolding P_def by blast
qed

lemma onboarding_writes:
  assumes "onboard_with E build r s = (Inr (), t)"
    and "\<And>P. keeps (table_inv P) (build E r)"
    and "\<forall>s es t. build E r s = (Inr es, t) \<longrightarrow> (\<exists>d. d \<noteq> [] \<and> storage_entries (or_name r) d = Inr es)"
  shows "\<exists>ks. (\<forall>k \<in> ks. \<exists>x. k = ''shared-storage.'' @ or_name r @ ''.'' @ x) \<and>
    (\<forall>tb k. tb \<noteq> ClusterSettings \<or> fst k \<notin> ks \<longrightarrow> row E t tb k = row E s tb k)"
proof -
  obtain s1 s2 s3 es where
    v: "validate_filesystem_does_not_exist E (or_name r) s = (Inr (), s1)"
      "validate_filesystem_present_in_vpc_and_not_onboarded E (or_id r) s1 = (Inr (), s2)"
    and b: "build E r s2 = (Inr es, s3)" and y: "sync_cluster_settings_in_db E es True s3 = (Inr (), t)"
    using assms(1) by (auto simp: onboard_with_def validate_onboard_filesystem_request_def act_inversions)
  have "st_db s3 = st_db s"
    using keepsD [OF keeps_network_reads(4) _ v(1), of "\<lambda>d. d = st_db s"]
      keepsD [OF keeps_network_reads(5) _ v(2), of "\<lambda>d. d = st_db s"]
      keepsD [OF assms(2) _ b, of "\<lambda>d. d = st_db s"] by (simp add: table_inv_def)
  moreover obtain d where "d \<noteq> []" and "storage_entries (or_name r) d = Inr es" using assms(3) b by blast
  ultimately show ?thesis using storage_keys sync_writes [OF y]
    by (intro exI [of _ "fst ` set es"]) (auto simp del: split_paired_All)
qed

end

lemma build_config_entries:
  "\<forall>s es t. build_config_for_vpc_efs E r s = (Inr es, t) \<longrightarrow>
     (\<exists>d. d \<noteq> [] \<and> storage_entries (or_name r) d = Inr es)"
  "\<forall>s es t. build_config_for_vpc_ontap E r s = (Inr es, t) \<longrightarrow>
     (\<exists>d. d \<noteq> [] \<and> storage_entries (or_name r) d = Inr es)"
  "\<forall>s es t. build_config_for_vpc_lustre E r s = (Inr es, t) \<longrightarrow>
     (\<exists>d. d \<noteq> [] \<and> storage_entries (or_name r) d = Inr es)"
  unfolding build_config_for_vpc_efs_def build_config_for_vpc_ontap_def build_config_for_vpc_lustre_def
  by (auto simp: act_inversions liftA_def)

lemmas onboarding_defs =
  onboard_efs_filesystem_def onboard_ontap_filesystem_def onboard_lustre_filesystem_def

section \<open>Off-boarding\<close>

text \<open>Every key of the settings is a word without blanks around it.\<close>

definition clean_settings :: "'db env \<Rightarrow> 'db st \<Rightarrow> bool" where
  "clean_settings E s \<longleftrightarrow> (\<forall>k. row E s ClusterSettings (k, []) \<noteq> None \<longrightarrow> py_strip k = k \<and> k \<noteq> [])"

lemma storage_prefix_not_blank [simp]: "\<not> blank (''shared-storage.'' @ n)"
  by (simp add: blank_iff py_space_def)

lemma storage_key_plain: "plain_key (''shared-storage.'' @ n) (''shared-storage.'' @ n @ ''.'' @ x)"
proof -
  let ?p = "''shared-storage.'' @ n @ ''.''"
  have "last ?p = CHR ''.''" by simp
  then obtain r where "py_strip (?p @ x) = ?p @ r"
    using py_strip_behind [of ?p x] by (auto simp: py_space_def)
  then show ?thesis by (auto simp: plain_key_def starts_with_iff blank_iff py_space_def)
qed

context dynamodb_one_page
begin

lemma offboarding_after_onboarding:
  assumes clean: "clean_settings E s"
    and fresh: "\<forall>k. starts_with k (''shared-storage.'' @ or_name r) \<longrightarrow> row E s ClusterSettings (k, []) = None"
    and run: "onboard_with E build r s = (Inr (), t)"
    and frame: "\<And>P. keeps (table_inv P) (build E r)"
    and entries: "\<forall>s es t. build E r s = (Inr es, t) \<longrightarrow> (\<exists>d. d \<noteq> [] \<and> storage_entries (or_name r) d = Inr es)"
  shows "\<exists>u. offboard_filesystem E (or_name r) t = (Inr (), u) \<and> (\<forall>tb k. row E u tb k = row E s tb k)"
proof -
  let ?p = "''shared-storage.'' @ or_name r"
  obtain ks where ks_all: "\<forall>k \<in> ks. \<exists>x. k = ''shared-storage.'' @ or_name r @ ''.'' @ x"
    and same_all: "\<forall>tb k. tb \<noteq> ClusterSettings \<or> fst k \<notin> ks \<longrightarrow> row E t tb k = row E s tb k"
    using onboarding_writes [OF run frame entries] by (elim exE conjE)
  note ks = ks_all [rule_format] and same = same_all [rule_format]
  have "plain_key ?p k" if "row E t ClusterSettings (k, []) \<noteq> None" for k
  proof (cases "k \<in> ks")
    case True
    then show ?thesis using ks storage_key_plain by blast
  next
    case False
    then have "row E s ClusterSettings (k, []) \<noteq> None" using same that by simp
    then show ?thesis using clean clean_is_plain unfolding clean_settings_def by blast
  qed
  then obtain u where u: "offboard_filesystem E (or_name r) t = (Inr (), u)" and
    rows: "\<And>tb k. row E u tb k = (if tb = ClusterSettings \<and> starts_with (fst k) ?p then None else row E t tb k)"
    using delete_prefixed [of ?p t] unfolding offboard_filesystem_def by (metis storage_prefix_not_blank)
  have "row E u tb k = row E s tb k" for tb k
  proof (cases "tb = ClusterSettings \<and> starts_with (fst k) ?p")
    case True
    have "row E s ClusterSettings k = None"
    proof (rule ccontr)
      assume "row E s ClusterSettings k \<noteq> None"
      then have "snd k = []" using setting_key by blast
      then show False using True fresh \<open>row E s ClusterSettings k \<noteq> None\<close> by (metis prod.collapse)
    qed
    then show ?thesis using rows True by simp
  next
    case False
    then have "tb \<noteq> ClusterSettings \<or> fst k \<notin> ks" using ks by (auto simp: starts_with_iff)
    then have "row E t tb k = row E s tb k" by (rule same)
    moreover have "row E u tb k = row E t tb k" unfolding rows by (rule if_not_P [OF False])
    ultimately show ?thesis by simp
  qed
  then show ?thesis using u by blast
qed

end


definition storage_item :: "string \<Rightarrow> string \<Rightarrow> (table \<times> key) \<times> item" where
  "storage_item k v = ((ClusterSettings, (k, [])), [''key'' \<mapsto> VStr k, ''value'' \<mapsto> VStr v, ''version'' \<mapsto> VInt 1])"

definition two_filesystems :: "mem_db st" where
  "two_filesystems = local_state
     [storage_item ''shared-storage.data.title'' ''Data'', storage_item ''shared-storage.data2.title'' ''More data'']"



text \<open>A network with one file system that can be onboarded.\<close>

definition network_answer :: "ext_call \<Rightarrow> val" where
  "network_answer c = (case c of
      Efs op args \<Rightarrow> if op = ''describe_mount_targets''
        then VDict [(''MountTargets'', VList [VDict [(''VpcId'', VStr ''vpc-1'')]])]
        else VDict [(''FileSystems'', VList [VDict [(''LifeCycleState'', VStr ''available''),
               (''FileSystemId'', VStr ''fs-1''), (''Encrypted'', VBool True)]])]
    | Fsx op args \<Rightarrow> VDict [(''FileSystems'', VList [])]
    | _ \<Rightarrow> VNone)"

definition network_env :: "mem_db env" where
  "network_env = mem_env None (local_world\<lparr>ext_result := \<lambda>_ c. Inr (network_answer c),
     config_string := \<lambda>k. Some ''shared-storage''\<rparr>)"

definition network_state :: "mem_db st" where
  "network_state = (local_state
     [storage_item ''shared-storage.home.efs.file_system_id'' ''fs-2'',
      storage_item ''shared-storage.internal.efs.file_system_id'' ''fs-3'',
      storage_item ''cluster.network.vpc_id'' ''vpc-1''])
     \<lparr>st_config := [(''shared-storage'', VDict [(''home'', VDict [(''title'', VStr ''Home'')])])]\<rparr>"

definition data_request :: onboard_request where
  "data_request = \<lparr>or_name = ''data'', or_title = ''Data'', or_id = ''fs-1'', or_mount_directory = Some ''/data'',
     or_mount_drive = None, or_svm_id = [], or_volume_id = [], or_file_share_name = None\<rparr>"

lemma network_cfg [simp]: "cfg network_env = local_world\<lparr>ext_result := \<lambda>_ c. Inr (network_answer c),
     config_string := \<lambda>k. Some ''shared-storage''\<rparr>"
  by (simp add: network_env_def)

lemma no_network_filesystems: "shared_filesystems (cfg network_env) (st_config network_state) = Inr []"
  by code_simp

lemma network_filesystems:
  "st_config s = st_config network_state \<Longrightarrow> list_shared_filesystems network_env s = (Inr [], s)"
  using no_network_filesystems by (simp add: list_shared_filesystems_def del: network_cfg)

lemma data_is_new: "validate_filesystem_does_not_exist network_env ''data'' network_state = (Inr (), network_state)"
  by (simp add: validate_filesystem_does_not_exist_def get_filesystem_def network_filesystems act_simps)

lemma nothing_onboarded: "onboarded_ids network_env network_state = (Inr [], network_state)"
  by (simp add: onboarded_ids_def network_filesystems)

lemma network_config_entries:
  "st_db s = st_db network_state \<Longrightarrow> config_entry_value network_env ''cluster.network.vpc_id'' s = (Inr (VStr ''vpc-1''), s)"
  "st_db s = st_db network_state \<Longrightarrow>
     config_entry_value network_env ''shared-storage.home.efs.file_system_id'' s = (Inr (VStr ''fs-2''), s)"
  "st_db s = st_db network_state \<Longrightarrow>
     config_entry_value network_env ''shared-storage.internal.efs.file_system_id'' s = (Inr (VStr ''fs-3''), s)"
  by (simp_all add: config_entry_value_def get_config_entry_def network_env_def network_state_def storage_item_def
      mem_get_def is_key_def schema_defs key_item_def attr_def)

lemmas network_simps = v_at_def v_get_def v_first_def v_list_def list_at_def first_at_def network_answer_def
  or_general_exception_def local_world_def

lemma network_listing:
  "\<exists>t. filesystems_in_vpc network_env [] network_state =
     (Inr \<lparr>vf_efs = [VDict [(''LifeCycleState'', VStr ''available''), (''FileSystemId'', VStr ''fs-1''),
        (''Encrypted'', VBool True)]], vf_ontap = [], vf_lustre = []\<rparr>, t) \<and>
     st_db t = st_db network_state \<and> st_config t = st_config network_state"
  by (simp add: filesystems_in_vpc_def list_unonboarded_efs_file_systems_def unonboarded_efs_def
      list_unonboarded_ontap_file_systems_def list_unonboarded_lustre_file_systems_def network_config_entries
      network_simps)

lemma data_in_network: "\<exists>t. validate_filesystem_present_in_vpc_and_not_onboarded network_env ''fs-1'' network_state = (Inr (), t) \<and>
    st_db t = st_db network_state"
  using network_listing
  by (auto simp: validate_filesystem_present_in_vpc_and_not_onboarded_def nothing_onboarded vpc_filesystem_ids_def v_get_def)

lemma traverse_leaf:
  "CHR ''.'' \<notin> set key \<Longrightarrow> CHR '':'' \<notin> set key \<Longrightarrow> \<forall>d. x \<noteq> VDict d \<Longrightarrow>
     (\<exists>es. traverse_config p ((key, x) # rest) = Inr es) \<longleftrightarrow> (\<exists>es. traverse_config p rest = Inr es)"
  by (cases x) (auto simp: Let_def bindE_eq_Inr)

lemma traverse_dict:
  "CHR ''.'' \<notin> set key \<Longrightarrow> CHR '':'' \<notin> set key \<Longrightarrow> \<not> blank p \<Longrightarrow> d \<noteq> [] \<Longrightarrow>
     (\<exists>es. traverse_config p ((key, VDict d) # rest) = Inr es) \<longleftrightarrow>
       (\<exists>es. traverse_config (p @ ''.'' @ key) d = Inr es) \<and> (\<exists>es. traverse_config p rest = Inr es)"
  by (auto simp: Let_def bindE_eq_Inr)

lemma opt_str_leaf: "opt_str v \<noteq> VDict d"
  by (cases v) simp_all

lemma data_entries: "\<exists>es t. build_config_for_vpc_efs network_env data_request s = (Inr es, t) \<and> st_db t = st_db s"
  by (simp add: build_config_for_vpc_efs_def network_simps storage_entries_def data_request_def blank_iff
      py_space_def traverse_leaf traverse_dict opt_str_leaf del: traverse_config.simps(2))

text \<open>A setting can be written when its version is a number.\<close>

definition counted :: "'db env \<Rightarrow> 'db st \<Rightarrow> bool" where
  "counted E s \<longleftrightarrow> (\<forall>k. case row E s ClusterSettings (k, []) of None \<Rightarrow> True
     | Some i \<Rightarrow> (case i ''version'' of None \<Rightarrow> True | Some v \<Rightarrow> \<exists>n. v = VInt n))"

context dynamodb
begin

lemma set_config_entry_runs:
  assumes "counted E s"
  shows "\<exists>t. set_config_entry E k v s = (Inr (), t) \<and> counted E t"
proof -
  obtain n where n: "next_version (row E s ClusterSettings (k, [])) = Inr (VInt n)"
    using assms [unfolded counted_def, rule_format, of k]
    by (cases "row E s ClusterSettings (k, [])") (auto simp: next_version_def split: option.splits)
  have key: "is_key ClusterSettings (j, [])" for j by (simp add: is_key_def)
  show ?thesis using assms
    by (simp add: set_config_entry_def n key push_event_def counted_def)
       (simp add: set_attributes_def key_item_def schema_defs)
qed

lemma sync_runs: "counted E s \<Longrightarrow> \<exists>t. sync_cluster_settings_in_db E es True s = (Inr (), t)"
proof (induction es arbitrary: s)
  case (Cons e es)
  obtain t where "set_config_entry E (fst e) (snd e) s = (Inr (), t)" and "counted E t"
    using set_config_entry_runs [OF Cons.prems] by blast
  then show ?case using Cons.IH [of t]
    by (cases e) (simp add: sync_cluster_settings_in_db_def)
qed (simp add: sync_cluster_settings_in_db_def)

end

lemma data_is_onboarded: "fst (onboard_efs_filesystem network_env data_request network_state) = Inr ()"
proof -
  obtain t where t: "validate_filesystem_present_in_vpc_and_not_onboarded network_env ''fs-1'' network_state = (Inr (), t)"
    and db: "st_db t = st_db network_state" using data_in_network by blast
  obtain es u where b: "build_config_for_vpc_efs network_env data_request t = (Inr es, u)" and "st_db u = st_db t"
    using data_entries by blast
  then have "counted network_env u" using db
    by (simp add: counted_def network_env_def network_state_def storage_item_def mem_get_def is_key_def key_item_def schema_defs)
  then obtain v where "sync_cluster_settings_in_db network_env es True u = (Inr (), v)"
    using dynamodb.sync_runs [OF mem_dynamodb] unfolding network_env_def by blast
  then show ?thesis using t b data_is_new
    by (simp add: onboard_efs_filesystem_def onboard_with_def validate_onboard_filesystem_request_def data_request_def)
qed


section \<open>File systems in the tree\<close>

context hocon
begin

text \<open>
  The file systems after the projects of one of them were put: it is found with these projects.
\<close>

lemma projects_path:
  assumes "plain_name n"
  shows "plain_path (projects_key n)" and "key_path (projects_key n) = [''shared-storage'', n, ''projects'']"
proof -
  show "plain_path (projects_key n)"
    using assms by (simp add: projects_key_def plain_path_def plain_name_def is_alnum_def between_def)
       (auto simp: list_all_iff is_alnum_def between_def)
  show "key_path (projects_key n) = [''shared-storage'', n, ''projects'']"
    using assms plain_name_no_dot [OF assms]
    by (simp add: projects_key_def key_path_def dot_parts_append plain_name_def)
qed

lemma storage_path:
  "plain_path ''shared-storage.''" "plain_path ''shared-storage''"
  "key_path ''shared-storage.'' = [''shared-storage'']"
  by (simp_all add: plain_path_def is_alnum_def between_def key_path_def)

lemma storage_key: "module_id_of w ''shared-storage'' = ''shared-storage'' \<Longrightarrow>
    get_real_key w ''shared-storage'' = ''shared-storage.''"
  by (simp add: get_real_key_def Let_def)

lemma listed:
  assumes "module_id_of w ''shared-storage'' = ''shared-storage''"
  shows "shared_filesystems w t = Inr fss \<longleftrightarrow>
    subtree t ''shared-storage'' \<noteq> [] \<and> fss = List.map_filter shared_entry (subtree t ''shared-storage'')"
  using assms
  by (auto simp: shared_filesystems_def get_config_def storage_key hocon_get storage_path subtree_def
      split: option.splits val.splits)

lemma shared_entry_name: "shared_entry e = Some fs \<Longrightarrow> fst fs = fst e"
  by (auto simp: shared_entry_def split: option.splits if_splits)

lemma find_filesystem:
  assumes "d \<noteq> []" and "''projects'' \<in> fst ` set d"
  shows "find (\<lambda>fs. fst fs = n) (List.map_filter shared_entry (AList.update n (VDict d) st)) = Some (n, d)"
proof (induction st)
  case (Cons e st)
  have here: "shared_entry (n, VDict d) = Some (n, d)" using assms by (simp add: shared_entry_def)
  show ?case
  proof (cases "fst e = n")
    case True
    then show ?thesis using here by (cases e) simp
  next
    case False
    then show ?thesis using Cons.IH shared_entry_name [of e] by (cases e) (auto split: option.split)
  qed
qed (use assms in \<open>simp add: shared_entry_def\<close>)

lemma projects_put:
  assumes "module_id_of w ''shared-storage'' = ''shared-storage''" and "plain_name n"
    and "\<forall>d. v \<noteq> VDict d"
  shows "\<exists>fss d. shared_filesystems w (hocon_put w t (projects_key n) v) = Inr fss \<and>
    find (\<lambda>fs. fst fs = n) fss = Some (n, d) \<and> map_of d ''projects'' = Some v"
proof -
  let ?st = "subtree t ''shared-storage''"
  let ?d = "AList.update ''projects'' v (subtree ?st n)"
  let ?st' = "AList.update n (VDict ?d) ?st"
  have d: "map_of ?d ''projects'' = Some v" by (simp add: map_of_tree_update)
  then have p: "''projects'' \<in> fst ` set ?d" and "?d \<noteq> []"
    by (auto simp: dom_map_of_conv_image_fst [symmetric] dom_def simp del: map_of_eq_Some_iff)
  have "subtree (hocon_put w t (projects_key n) v) ''shared-storage'' = ?st'"
    using projects_path [OF assms(2)] assms(3) by (simp add: hocon_put subtree_def map_of_tree_update)
  moreover have "?st' \<noteq> []" by (cases ?st) auto
  moreover have "find (\<lambda>fs. fst fs = n) (List.map_filter shared_entry ?st') = Some (n, ?d)"
    using p \<open>?d \<noteq> []\<close> by (rule find_filesystem [rotated])
  ultimately show ?thesis using listed [OF assms(1)] d by auto
qed

end

section \<open>Projects of a file system\<close>

lemma is_key_setting [simp]: "is_key ClusterSettings (k, [])"
  by (simp add: is_key_def)

lemma written_setting:
  "set_attributes ClusterSettings (k, []) old [''value'' \<mapsto> v, ''version'' \<mapsto> n] ''value'' = Some v"
  "set_attributes ClusterSettings (k, []) old [''value'' \<mapsto> v, ''version'' \<mapsto> n] ''version'' = Some n"
  by (simp_all add: set_attributes_def key_item_def schema_defs)

lemma next_version_int: "next_version old = Inr v \<Longrightarrow> \<exists>n. v = VInt n"
  by (auto simp: next_version_def split: option.splits val.splits)

text \<open>What a setting is after the projects were stored, in the table and in the tree.\<close>

definition projects_stored :: "'db env \<Rightarrow> string \<Rightarrow> val list \<Rightarrow> 'db st \<Rightarrow> 'db st \<Rightarrow> bool" where
  "projects_stored E n ps s t \<longleftrightarrow>
     (\<exists>i m. row E t ClusterSettings (projects_key n, []) = Some i \<and> i ''value'' = Some (VList ps) \<and>
        i ''version'' = Some (VInt m)) \<and>
     st_config t = hocon_put (cfg E) (st_config s) (projects_key n) (if ps = [] then VNone else VList ps)"

context dynamodb
begin

lemma update_projects_stored:
  "update_projects_for_filesystem E n ps s = (Inr (), t) \<Longrightarrow> projects_stored E n ps s t"
  by (auto simp: update_projects_for_filesystem_def set_config_entry_def put_config_def push_event_def
      act_inversions liftA_def soca_put_def projects_stored_def written_setting dest!: next_version_int)

lemma update_projects_runs:
  assumes "row E s ClusterSettings (projects_key n, []) = Some i" and "i ''version'' = Some (VInt m)"
  shows "\<exists>t. update_projects_for_filesystem E n ps s = (Inr (), t)"
  using assms
  by (simp add: update_projects_for_filesystem_def set_config_entry_def put_config_def push_event_def
      next_version_def)

end

lemma find_satisfies: "find P xs = Some x \<Longrightarrow> P x"
  by (induction xs) (auto split: if_splits)

lemma get_filesystem_name: "get_filesystem E n s = (Inr fs, t) \<Longrightarrow> fst fs = n"
  by (auto simp: get_filesystem_def act_inversions split: option.splits dest: find_satisfies
      simp del: split_paired_Ex)

lemma get_filesystem_stored:
  assumes "hocon (cfg E)" and "module_id_of (cfg E) ''shared-storage'' = ''shared-storage''"
    and "plain_name n" and "projects_stored E n ps s t"
  shows "\<exists>d. get_filesystem E n t = (Inr (n, d), t) \<and>
    fs_projects (n, d) = (if ps = [] then VNone else VList ps)"
proof -
  let ?v = "if ps = [] then VNone else VList ps"
  have "\<forall>d. ?v \<noteq> VDict d" by simp
  then obtain fss d where "shared_filesystems (cfg E) (hocon_put (cfg E) (st_config s) (projects_key n) ?v) = Inr fss"
    and "find (\<lambda>fs. fst fs = n) fss = Some (n, d)" and "map_of d ''projects'' = Some ?v"
    using hocon.projects_put [OF assms(1-3), of ?v "st_config s"] by blast
  moreover from this have "fss \<noteq> []" by auto
  ultimately show ?thesis using assms(4)
    by (intro exI [of _ d])
       (simp add: get_filesystem_def list_shared_filesystems_def projects_stored_def fs_projects_def attr_or_def)
qed

text \<open>
  C24. A project given to a file system is seen at once, in the tree the process reads from and in the
  table: the file system has its former projects and the new one. Taking it away again succeeds and
  leaves the former projects, an empty list of them as no value at all.
\<close>

theorem added_project_is_seen_at_once:
  assumes "dynamodb E" and "hocon (cfg E)" and "module_id_of (cfg E) ''shared-storage'' = ''shared-storage''"
    and "plain_name n" and "get_filesystem E n s = (Inr fs, s)"
    and "fs_projects fs = (if ps = [] then VNone else VList ps)" and "VStr p \<notin> set ps"
    and "add_filesystem_to_project E (Some n) (Some p) s = (Inr (), t)"
  shows "(\<exists>d. get_filesystem E n t = (Inr (n, d), t) \<and> fs_projects (n, d) = VList (ps @ [VStr p])) \<and>
    (\<exists>i. row E t ClusterSettings (projects_key n, []) = Some i \<and> i ''value'' = Some (VList (ps @ [VStr p]))) \<and>
    (\<exists>u d. remove_filesystem_from_project E (Some n) (Some p) t = (Inr (), u) \<and>
       get_filesystem E n u = (Inr (n, d), u) \<and> fs_projects (n, d) = (if ps = [] then VNone else VList ps))"
proof -
  have name: "fst fs = n" by (rule get_filesystem_name [OF assms(5)])
  have args: "\<not> empty_str (Some n)" "\<not> empty_str (Some p)"
    and "update_filesystem_to_project_mapping E n p s = (Inr (), t)"
    using assms(8) by (auto simp: add_filesystem_to_project_def check_project_parameters_def fmt_def act_inversions)
  then have "update_projects_for_filesystem E n (ps @ [VStr p]) s = (Inr (), t)"
    using assms(5-7) name by (simp add: update_filesystem_to_project_mapping_def split: if_splits)
  then have stored: "projects_stored E n (ps @ [VStr p]) s t"
    using dynamodb.update_projects_stored [OF assms(1)] by blast
  then obtain d where d: "get_filesystem E n t = (Inr (n, d), t)" "fs_projects (n, d) = VList (ps @ [VStr p])"
    using get_filesystem_stored [OF assms(2-4)] by fastforce
  obtain i m where i: "row E t ClusterSettings (projects_key n, []) = Some i" "i ''version'' = Some (VInt m)"
    "i ''value'' = Some (VList (ps @ [VStr p]))" using stored by (auto simp: projects_stored_def)
  obtain u where u: "update_projects_for_filesystem E n ps t = (Inr (), u)"
    using dynamodb.update_projects_runs [OF assms(1) i(1,2)] by blast
  then have "remove_filesystem_from_project E (Some n) (Some p) t = (Inr (), u)"
    using d args assms(7)
    by (simp add: remove_filesystem_from_project_def check_project_parameters_def fmt_def remove1_append)
  then show ?thesis
    using d i get_filesystem_stored [OF assms(2-4) dynamodb.update_projects_stored [OF assms(1) u]] by blast
qed

definition mounted_state :: "mem_db st" where
  "mounted_state = (local_state [])\<lparr>st_config :=
     [(''shared-storage'', VDict [(''data'', VDict [(''title'', VStr ''Data''), (''projects'', VNone)])])]\<rparr>"

lemma shared_data: "get_filesystem network_env ''data'' mounted_state =
    (Inr (''data'', [(''title'', VStr ''Data''), (''projects'', VNone)]), mounted_state)"
proof -
  have "shared_filesystems (cfg network_env) (st_config mounted_state) =
      Inr [(''data'', [(''title'', VStr ''Data''), (''projects'', VNone)])]" by code_simp
  then show ?thesis by (simp add: get_filesystem_def list_shared_filesystems_def del: network_cfg)
qed

theorem added_project_is_seen_at_once_witness:
  "\<exists>t d. add_filesystem_to_project network_env (Some ''data'') (Some ''p1'') mounted_state = (Inr (), t) \<and>
    get_filesystem network_env ''data'' t = (Inr (''data'', d), t) \<and> fs_projects (''data'', d) = VList [VStr ''p1'']"
proof -
  let ?fs = "(''data'', [(''title'', VStr ''Data''), (''projects'', VNone)])"
  have dyn: "dynamodb network_env" unfolding network_env_def by (rule mem_dynamodb)
  have hoc: "hocon (cfg network_env)" by (rule tree_world_hocon) (simp_all add: local_world_def)
  have m: "module_id_of (cfg network_env) ''shared-storage'' = ''shared-storage''" by code_simp
  have n: "plain_name ''data''" by (simp add: plain_name_def is_alnum_def between_def)
  have none: "fs_projects ?fs = (if ([] :: val list) = [] then VNone else VList [])" by (simp add: fs_projects_def attr_or_def)
  have add: "fst (add_filesystem_to_project network_env (Some ''data'') (Some ''p1'') mounted_state) = Inr ()"
    using shared_data none
    by (simp add: add_filesystem_to_project_def update_filesystem_to_project_mapping_def check_project_parameters_def
        fmt_def empty_str_def py_strip_def py_space_def update_projects_for_filesystem_def set_config_entry_def
        mounted_state_def put_config_def push_event_def next_version_def mem_get_def network_env_def)
  show ?thesis
    using added_project_is_seen_at_once [OF dyn hoc m n shared_data none, of "''p1''"
        "snd (add_filesystem_to_project network_env (Some ''data'') (Some ''p1'') mounted_state)"] add
    by (auto simp: prod_eq_iff)
qed

end
