(* ===== verification/Vdc_Client.thy ===== *)
theory Vdc_Client
  imports Cluster_Config
begin

text \<open>
  \<^verbatim>\<open>ideasdk/client/vdc_client.py\<close> over \<^verbatim>\<open>ideasdk/client/soca_client.py\<close>: the cluster manager calls the
  API of the virtual desktop controller. The method called is the one of the theory
  \<open>Vdc_Admin_Api\<close>; between the two stand the network, which may fail
  before the method runs, and the answer of the server: an exception of the method arrives as an
  error answer, and the client turns an error answer into an exception of its own. The token of the
  client is one the API accepts.
\<close>

definition client_payload :: vdc_payload where
  "client_payload = \<lparr>vp_session = None, vp_stack = None, vp_sessions = [], vp_creations = [],
     vp_connection = no_connection, vp_screenshots = [], vp_create = [], vp_update = [], vp_delete = [],
     vp_filters = [], vp_session_id = None, vp_username = None, vp_project_id = None, vp_new_stack = None,
     vp_profile = \<lparr>pf_id = None, pf_title = None, pf_description = None, pf_permissions = [],
       pf_created_on = None, pf_updated_on = None\<rparr>,
     vp_profile_id = None, vp_hibernation = None, vp_shown_stack = None\<rparr>"

text \<open>The error code of an answer and, where the code looks at it, its message.\<close>

definition answer_error :: "vdc_answer \<Rightarrow> (error_code \<times> string) option" where
  "answer_error a = (case a of
      Refused c s \<Rightarrow> Some (c, [])
    | NoConnection c i \<Rightarrow> Some (c, [])
    | Stack_Refused c sr \<Rightarrow> Some (c, fmt (sr_failure sr))
    | Rejected c \<Rightarrow> Some (c, [])
    | _ \<Rightarrow> None)"

definition invoke_alt ::
  "'db env \<Rightarrow> string \<Rightarrow> 'db vdc_method \<Rightarrow> vdc_payload \<Rightarrow> ('db st, (error_code \<times> string) + vdc_answer) act" where
  "invoke_alt E namespace method rq =
     seqA (do_call E (VdcClient namespace))
          (catch_exception
             (bindA (method None rq) (\<lambda>a. return (case answer_error a of None \<Rightarrow> Inr a | Some x \<Rightarrow> Inl x)))
             (\<lambda>e. return (Inl (error_code_of e, []))))"

definition client_call :: "'db env \<Rightarrow> string \<Rightarrow> 'db vdc_method \<Rightarrow> vdc_payload \<Rightarrow> ('db st, vdc_answer) act" where
  "client_call E namespace method rq = bindA (invoke_alt E namespace method rq) (\<lambda>r. case r of
      Inl (c, _) \<Rightarrow> raise (SocaException c) | Inr a \<Rightarrow> return a)"

section \<open>Permission profiles\<close>

definition get_base_permissions :: "'db env \<Rightarrow> ('db st, string list) act" where
  "get_base_permissions E =
     bindA (client_call E ''VirtualDesktopUtils.GetBasePermissions''
              (\<lambda>_ _. return (Names_Found (permission_types (cfg E)))) client_payload) (\<lambda>a.
     return (case a of Names_Found ns \<Rightarrow> ns | _ \<Rightarrow> []))"

definition profile_of_answer :: "vdc_answer \<Rightarrow> ('s, profile) act" where
  "profile_of_answer a = (case a of Profile_Answer p \<Rightarrow> return p | _ \<Rightarrow> raise ValidationError)"

definition create_permission_profile :: "'db env \<Rightarrow> profile \<Rightarrow> ('db st, profile) act" where
  "create_permission_profile E p =
     bindA (client_call E ''VirtualDesktopAdmin.CreatePermissionProfile'' (admin_create_permission_profile E)
              (client_payload\<lparr>vp_profile := p\<rparr>)) profile_of_answer"

definition delete_permission_profile :: "'db env \<Rightarrow> string option \<Rightarrow> ('db st, unit) act" where
  "delete_permission_profile E profile_id =
     seqA (client_call E ''VirtualDesktopAdmin.DeletePermissionProfile'' (admin_delete_permission_profile E)
             (client_payload\<lparr>vp_profile_id := profile_id\<rparr>)) (return ())"

definition get_permission_profile :: "'db env \<Rightarrow> string option \<Rightarrow> ('db st, profile) act" where
  "get_permission_profile E profile_id =
     bindA (client_call E ''VirtualDesktopUtils.GetPermissionProfile'' (utils_get_permission_profile E)
              (client_payload\<lparr>vp_profile_id := profile_id\<rparr>)) profile_of_answer"

section \<open>Software stacks\<close>

text \<open>The filter of the listing has a \<open>value\<close>, which the controller reads as "contains".\<close>

definition get_software_stacks_by_name :: "'db env \<Rightarrow> string \<Rightarrow> ('db st, stack list) act" where
  "get_software_stacks_by_name E stack_name =
     bindA (client_call E ''VirtualDesktopAdmin.ListSoftwareStacks'' (admin_list_software_stacks E)
              (client_payload\<lparr>vp_filters := [value_filter ''name'' (Some stack_name)]\<rparr>)) (\<lambda>a.
     return (case a of Stacks_Found stks \<Rightarrow> stks | _ \<Rightarrow> []))"

text \<open>The caller looks at the message of a refusal, so the error is handed out with it.\<close>

definition client_create_software_stack ::
  "'db env \<Rightarrow> stack \<Rightarrow> ('db st, (error_code \<times> string) + stack) act" where
  "client_create_software_stack E stk =
     bindA (invoke_alt E ''VirtualDesktopAdmin.CreateSoftwareStack'' (admin_create_software_stack E)
              (client_payload\<lparr>vp_new_stack := Some (request_of_stack stk)\<rparr>)) (\<lambda>r. case r of
       Inl err \<Rightarrow> return (Inl err)
     | Inr (Stack_Answer sr) \<Rightarrow> bindA (liftA (complete_stack sr)) (\<lambda>created. return (Inr created))
     | Inr _ \<Rightarrow> raise ValidationError)"

definition client_delete_software_stack :: "'db env \<Rightarrow> stack \<Rightarrow> ('db st, unit) act" where
  "client_delete_software_stack E stk =
     seqA (client_call E ''VirtualDesktopAdmin.DeleteSoftwareStack'' (admin_delete_software_stack E)
             (client_payload\<lparr>vp_new_stack := Some (request_of_stack stk)\<rparr>)) (return ())"

end
