(* ===== verification/Snapshot_Data.thy ===== *)
theory Snapshot_Data
  imports Vdc_Client Shared_Filesystems
begin

text \<open>
  What the snapshots are made of: the names and versions of
  \<^verbatim>\<open>ideadatamodel/snapshots/snapshot_model.py\<close>, the tables of
  \<^verbatim>\<open>snapshots/helpers/apply_snapshots_config.py\<close>, the deltas of
  \<^verbatim>\<open>helpers/merged_record_utils.py\<close>, the conversions of \<^verbatim>\<open>helpers/db_utils.py\<close> and the two data
  access objects under \<^verbatim>\<open>snapshots/db\<close>.
\<close>

section \<open>Names\<close>

datatype table_name =
    CLUSTER_SETTINGS_TABLE_NAME | USERS_TABLE_NAME | PROJECTS_TABLE_NAME
  | PERMISSION_PROFILES_TABLE_NAME | SOFTWARE_STACKS_TABLE_NAME

fun table_name_value :: "table_name \<Rightarrow> string" where
  "table_name_value CLUSTER_SETTINGS_TABLE_NAME = ''cluster-settings''"
| "table_name_value USERS_TABLE_NAME = ''accounts.users''"
| "table_name_value PROJECTS_TABLE_NAME = ''projects''"
| "table_name_value PERMISSION_PROFILES_TABLE_NAME = ''vdc.controller.permission-profiles''"
| "table_name_value SOFTWARE_STACKS_TABLE_NAME = ''vdc.controller.software-stacks''"

definition table_names :: "table_name list" where
  "table_names = [CLUSTER_SETTINGS_TABLE_NAME, USERS_TABLE_NAME, PROJECTS_TABLE_NAME,
     PERMISSION_PROFILES_TABLE_NAME, SOFTWARE_STACKS_TABLE_NAME]"

datatype snapshot_status = SNAPSHOT_IN_PROGRESS | SNAPSHOT_COMPLETED | SNAPSHOT_FAILED

fun snapshot_status_value :: "snapshot_status \<Rightarrow> string" where
  "snapshot_status_value SNAPSHOT_IN_PROGRESS = ''IN_PROGRESS''"
| "snapshot_status_value SNAPSHOT_COMPLETED = ''COMPLETED''"
| "snapshot_status_value SNAPSHOT_FAILED = ''FAILED''"

datatype apply_status =
    IN_PROGRESS | COMPLETED | FAILED | ROLLBACK_IN_PROGRESS | ROLLBACK_COMPLETE | ROLLBACE_FAILED

fun apply_status_value :: "apply_status \<Rightarrow> string" where
  "apply_status_value IN_PROGRESS = ''IN_PROGRESS''"
| "apply_status_value COMPLETED = ''COMPLETED''"
| "apply_status_value FAILED = ''FAILED''"
| "apply_status_value ROLLBACK_IN_PROGRESS = ''ROLLBACK_IN_PROGRESS''"
| "apply_status_value ROLLBACK_COMPLETE = ''ROLLBACK_COMPLETE''"
| "apply_status_value ROLLBACE_FAILED = ''ROLLBACK_FAILED''"

section \<open>Versions\<close>

definition RES_VERSION_IN_TOPOLOGICAL_ORDER :: "string list" where
  "RES_VERSION_IN_TOPOLOGICAL_ORDER =
     [''2023.11'', ''2024.01'', ''2024.01.01'', ''2024.04'', ''2024.04.01'', ''2024.04.02'']"

type_synonym table_keys = "string \<times> string option"

definition TABLE_TO_TABLE_KEYS_BY_VERSION :: "table_name \<Rightarrow> (string \<times> table_keys) list" where
  "TABLE_TO_TABLE_KEYS_BY_VERSION t = [(''2023.11'', case t of
      CLUSTER_SETTINGS_TABLE_NAME \<Rightarrow> (''key'', None)
    | USERS_TABLE_NAME \<Rightarrow> (''username'', None)
    | PROJECTS_TABLE_NAME \<Rightarrow> (''project_id'', None)
    | PERMISSION_PROFILES_TABLE_NAME \<Rightarrow> (''profile_id'', None)
    | SOFTWARE_STACKS_TABLE_NAME \<Rightarrow> (''base_os'', Some ''stack_id''))]"

definition TABLES_IN_MERGE_DEPENDENCY_ORDER :: "table_name list" where
  "TABLES_IN_MERGE_DEPENDENCY_ORDER = [USERS_TABLE_NAME, PERMISSION_PROFILES_TABLE_NAME, PROJECTS_TABLE_NAME,
     SOFTWARE_STACKS_TABLE_NAME, CLUSTER_SETTINGS_TABLE_NAME]"

definition index_of :: "string \<Rightarrow> string list \<Rightarrow> exn + nat" where
  "index_of x xs = (if x \<in> set xs then Inr (length (takeWhile (\<lambda>y. y \<noteq> x) xs)) else Inl ValueError)"

text \<open>
  \<open>newest_keys details n\<close>: the keys of the most recent of the first \<open>n\<close> versions that has some.
  (The source walks down to the index \<open>-1\<close>, which Python reads as the last version, and stops there.)
\<close>

fun newest_keys :: "(string \<times> table_keys) list \<Rightarrow> nat \<Rightarrow> table_keys option" where
  "newest_keys details 0 = None"
| "newest_keys details (Suc n) = (case map_of details (RES_VERSION_IN_TOPOLOGICAL_ORDER ! n) of
     Some keys \<Rightarrow> Some keys | None \<Rightarrow> newest_keys details n)"

definition keys_of_table :: "nat \<Rightarrow> table_name \<Rightarrow> exn + table_name \<times> table_keys" where
  "keys_of_table i t = (case newest_keys (TABLE_TO_TABLE_KEYS_BY_VERSION t) (Suc i) of
      None \<Rightarrow> Inl RuntimeError | Some keys \<Rightarrow> Inr (t, keys))"

definition get_table_keys_by_res_version ::
  "table_name list \<Rightarrow> string \<Rightarrow> exn + (table_name \<times> table_keys) list" where
  "get_table_keys_by_res_version names res_version =
     bindE (index_of res_version RES_VERSION_IN_TOPOLOGICAL_ORDER) (\<lambda>i. map_sum_list (keys_of_table i) names)"

type_synonym snapshot_data = "(table_name \<times> item list) list"

text \<open>Only the first version has a transformation, and it leaves the data as they are.\<close>

definition transformation_from_version :: "string \<Rightarrow> (snapshot_data \<Rightarrow> snapshot_data) option" where
  "transformation_from_version version = (if version = ''2023.11'' then Some (\<lambda>data. data) else None)"

definition apply_data_transformations :: "string \<Rightarrow> snapshot_data \<Rightarrow> exn + snapshot_data" where
  "apply_data_transformations res_version data =
     bindE (index_of res_version RES_VERSION_IN_TOPOLOGICAL_ORDER) (\<lambda>i.
     Inr (fold (\<lambda>version d. case transformation_from_version version of None \<Rightarrow> d | Some f \<Rightarrow> f d)
            (drop i RES_VERSION_IN_TOPOLOGICAL_ORDER) data))"

section \<open>Deltas\<close>

datatype merged_record_action = CREATE | UPDATE | DELETE

text \<open>The first key of the resolved record is read for file systems only, whose record has just one.\<close>

record delta =
  original_record :: "item option"
  snapshot_record :: item
  resolved_record :: item
  resolved_first_key :: string
  action_performed :: merged_record_action

definition unique_resource_id_generator :: "val \<Rightarrow> string \<Rightarrow> val" where
  "unique_resource_id_generator key dedup_id = VStr (py_str key @ ''_'' @ dedup_id)"

section \<open>Conversions\<close>

definition enum_field :: "(string option \<Rightarrow> exn + 'a) \<Rightarrow> item \<Rightarrow> string \<Rightarrow> exn + 'a" where
  "enum_field f i k = f (case i k of Some (VStr s) \<Rightarrow> Some s | _ \<Rightarrow> None)"

definition memory_field :: "item \<Rightarrow> string \<Rightarrow> string \<Rightarrow> exn + memory" where
  "memory_field i value_key unit_key =
     bindE (enum_field memory_unit_by_value i unit_key) (\<lambda>u.
     case get_as_float (attr_or i value_key VNone) of
       None \<Rightarrow> Inl ValidationError | Some v \<Rightarrow> Inr \<lparr>m_value = v, m_unit = u\<rparr>)"

text \<open>\<open>Utils.to_datetime\<close> of what an attribute holds.\<close>

definition datetime_field :: "val \<Rightarrow> exn + int option" where
  "datetime_field v = (case v of
      VInt n \<Rightarrow> Inr (to_datetime (Some n))
    | VBool b \<Rightarrow> Inr (Some 0)
    | _ \<Rightarrow> if is_empty v then Inr None else Inl TypeError)"

definition convert_db_dict_to_software_stack_object :: "item \<Rightarrow> exn + stack option" where
  "convert_db_dict_to_software_stack_object i =
     (if i = Map.empty then Inr None else
      bindE (enum_field base_os_by_value i ''base_os'') (\<lambda>os.
      bindE (datetime_field (attr_or i ''created_on'' VNone)) (\<lambda>created_on.
      bindE (datetime_field (attr_or i ''updated_on'' VNone)) (\<lambda>updated_on.
      bindE (memory_field i ''min_storage_value'' ''min_storage_unit'') (\<lambda>storage.
      bindE (memory_field i ''min_ram_value'' ''min_ram_unit'') (\<lambda>ram.
      bindE (enum_field architecture_by_value i ''architecture'') (\<lambda>arch.
      bindE (enum_field gpu_by_value i ''gpu'') (\<lambda>gpu.
      bindE (opt_str_field (i ''stack_id'')) (\<lambda>stack_id.
      bindE (opt_str_field (i ''name'')) (\<lambda>name.
      bindE (opt_str_field (i ''description'')) (\<lambda>description.
      bindE (opt_str_field (i ''ami_id'')) (\<lambda>ami_id.
      bindE (opt_bool_field (i ''enabled'')) (\<lambda>enabled.
      bindE (bindE (v_list (attr_or i ''projects'' (VList []))) (map_sum_list (\<lambda>v. opt_str_field (Some v)))) (\<lambda>projects.
      Inr (Some \<lparr>ss_base_os = os, ss_id = stack_id, ss_name = name, ss_description = description,
            ss_created_on = created_on, ss_updated_on = updated_on, ss_ami_id = ami_id, ss_enabled = enabled,
            ss_min_storage = storage, ss_min_ram = ram, ss_architecture = arch, ss_gpu = gpu,
            ss_projects = projects\<rparr>)))))))))))))))"

text \<open>The other way the code is a copy of what the controller does itself.\<close>

definition convert_software_stack_object_to_db_dict :: "stack \<Rightarrow> item" where
  "convert_software_stack_object_to_db_dict stk = map_of (stack_to_db (Some stk))"

definition permission_field :: "item \<Rightarrow> string \<Rightarrow> exn + string \<times> bool option" where
  "permission_field i key = bindE (opt_bool_field (Some (attr_or i key (VBool False)))) (\<lambda>b. Inr (key, b))"

definition convert_db_dict_to_permission_profile_object :: "item \<Rightarrow> string list \<Rightarrow> exn + profile" where
  "convert_db_dict_to_permission_profile_object i types =
     bindE (datetime_field (attr_or i ''created_on'' (VInt 0))) (\<lambda>created_on.
     bindE (datetime_field (attr_or i ''updated_on'' (VInt 0))) (\<lambda>updated_on.
     bindE (opt_str_field (Some (attr_or i ''profile_id'' (VStr [])))) (\<lambda>profile_id.
     bindE (opt_str_field (Some (attr_or i ''title'' (VStr [])))) (\<lambda>title.
     bindE (opt_str_field (Some (attr_or i ''description'' (VStr [])))) (\<lambda>description.
     bindE (map_sum_list (permission_field i) types) (\<lambda>permissions.
     Inr \<lparr>pf_id = profile_id, pf_title = title, pf_description = description, pf_permissions = permissions,
          pf_created_on = created_on, pf_updated_on = updated_on\<rparr>))))))"

definition convert_permission_profile_object_to_db_dict :: "profile \<Rightarrow> string list \<Rightarrow> item" where
  "convert_permission_profile_object_to_db_dict p types =
     map_of (fold (\<lambda>key. dict_set key (permission_entry p key)) types
       [(''profile_id'', opt_str (pf_id p)), (''title'', opt_str (pf_title p)),
        (''description'', opt_str (pf_description p)),
        (''created_on'', VInt (to_milliseconds (pf_created_on p))),
        (''updated_on'', VInt (to_milliseconds (pf_updated_on p)))])"

section \<open>ApplySnapshotDAO\<close>

definition new_apply_record ::
  "string \<Rightarrow> string \<Rightarrow> apply_status \<Rightarrow> string option \<Rightarrow> int \<Rightarrow> (string \<times> val) list" where
  "new_apply_record s3_bucket_name snapshot_path status failure_reason created_on =
     [(''s3_bucket_name'', VStr s3_bucket_name), (''snapshot_path'', VStr snapshot_path),
      (''status'', VStr (apply_status_value status))] @
     (case failure_reason of None \<Rightarrow> [] | Some r \<Rightarrow> [(''failure_reason'', VStr r)]) @
     [(''apply_snapshot_identifier'', VStr (s3_bucket_name @ ''-'' @ snapshot_path @ ''-'' @ int_str created_on)),
      (''created_on'', VInt created_on)]"

definition apply_dao_create ::
  "'db env \<Rightarrow> string \<Rightarrow> string \<Rightarrow> apply_status \<Rightarrow> string option \<Rightarrow> int \<Rightarrow> ('db st, item) act" where
  "apply_dao_create E s3_bucket_name snapshot_path status failure_reason created_on =
     raise_if (blank s3_bucket_name) invalid_params
    (raise_if (blank snapshot_path) invalid_params
    (let record = map_of (new_apply_record s3_bucket_name snapshot_path status failure_reason created_on) in
     seqA (db_put E ApplySnapshots record) (return record)))"

text \<open>The write fails when the record has this status already.\<close>

definition has_status :: "item option \<Rightarrow> string \<Rightarrow> bool" where
  "has_status old status = (case old of None \<Rightarrow> False | Some i \<Rightarrow> i ''status'' = Some (VStr status))"

definition update_status ::
  "'db env \<Rightarrow> string \<Rightarrow> apply_status \<Rightarrow> string option \<Rightarrow> ('db st, unit) act" where
  "update_status E identifier status failure_message =
     bindA (db_get E ApplySnapshots (identifier, [])) (\<lambda>old.
     raise_if (has_status old (apply_status_value status)) ConditionalCheckFailed
    (seqA (db_update E ApplySnapshots (identifier, [])
             ([''status'' \<mapsto> VStr (apply_status_value status)] ++
              (case failure_message of None \<Rightarrow> Map.empty
               | Some m \<Rightarrow>
                   if m \<noteq> [] \<and> status \<in> {FAILED, ROLLBACK_IN_PROGRESS, ROLLBACK_COMPLETE, ROLLBACE_FAILED}
                   then [''failure_reason'' \<mapsto> VStr m] else Map.empty)))
          (return ())))"

section \<open>SnapshotDAO\<close>

definition snapshot_dao_create ::
  "'db env \<Rightarrow> string \<Rightarrow> string \<Rightarrow> snapshot_status \<Rightarrow> string option \<Rightarrow> ('db st, unit) act" where
  "snapshot_dao_create E s3_bucket_name snapshot_path status failure_reason =
     raise_if (blank s3_bucket_name) invalid_params
    (raise_if (blank snapshot_path) invalid_params
    (bindA (current_time_ms E) (\<lambda>now.
     db_put E SnapshotRecords (map_of
       ([(''s3_bucket_name'', VStr s3_bucket_name), (''snapshot_path'', VStr snapshot_path),
         (''status'', VStr (snapshot_status_value status))] @
        (case failure_reason of None \<Rightarrow> [] | Some r \<Rightarrow> [(''failure_reason'', VStr r)]) @
        [(''created_on'', VInt now)])))))"

definition update_snapshot_status ::
  "'db env \<Rightarrow> key \<Rightarrow> snapshot_status \<Rightarrow> string option \<Rightarrow> ('db st, unit) act" where
  "update_snapshot_status E k status failure_message =
     bindA (db_get E SnapshotRecords k) (\<lambda>old.
     raise_if (has_status old (snapshot_status_value status)) ConditionalCheckFailed
    (seqA (db_update E SnapshotRecords k
             ([''status'' \<mapsto> VStr (snapshot_status_value status)] ++
              (case failure_message of None \<Rightarrow> Map.empty
               | Some m \<Rightarrow> if m \<noteq> [] \<and> status = SNAPSHOT_FAILED
                   then [''failure_reason'' \<mapsto> VStr m] else Map.empty)))
          (return ())))"

end
