(* ===== verification/Snapshot_Mergers.thy ===== *)
theory Snapshot_Mergers
  imports Snapshot_Data
begin

text \<open>
  \<^verbatim>\<open>snapshots/apply_snapshot_merge_table\<close>: for each table of a snapshot a merger that creates
  through the services what the cluster lacks, remembers it in deltas and can take it back. A
  merger answers the deltas and whether it succeeded; an exception it lets through loses the deltas.
\<close>

section \<open>The loop of a merger\<close>

text \<open>
  What the body of the loop does with one record: \<open>continue\<close>, \<open>return record_deltas, False\<close>, or a
  delta to append.
\<close>

datatype outcome = Skip | Give_Up | Merged delta

fun merge_records ::
  "('x \<Rightarrow> ('s, outcome) act) \<Rightarrow> 'x list \<Rightarrow> delta list \<Rightarrow> ('s, delta list \<times> bool) act" where
  "merge_records step [] record_deltas = return (record_deltas, True)"
| "merge_records step (r # rs) record_deltas =
     bindA (step r) (\<lambda>result. case result of
       Skip \<Rightarrow> merge_records step rs record_deltas
     | Give_Up \<Rightarrow> return (record_deltas, False)
     | Merged d \<Rightarrow> merge_records step rs (record_deltas @ [d]))"

text \<open>The deltas are taken back in the order they were made; the first that fails ends it.\<close>

definition rollback_records :: "(delta \<Rightarrow> ('s, unit) act) \<Rightarrow> delta list \<Rightarrow> ('s, unit) act" where
  "rollback_records undo record_deltas = for_each record_deltas undo"

definition give_up :: "('s, outcome) act \<Rightarrow> ('s, outcome) act" where
  "give_up m = catch_exception m (\<lambda>_. return Give_Up)"

text \<open>\<open>not record or not record.get(key)\<close>\<close>

definition lacks :: "string \<Rightarrow> item \<Rightarrow> bool" where
  "lacks key r \<longleftrightarrow> r = Map.empty \<or> \<not> py_truthy (attr_or r key VNone)"

definition created_delta :: "item \<Rightarrow> item \<Rightarrow> delta" where
  "created_delta record resolved =
     \<lparr>original_record = None, snapshot_record = record, resolved_record = resolved, resolved_first_key = [],
      action_performed = CREATE\<rparr>"

section \<open>Users\<close>

text \<open>The role is all that is applied.\<close>

definition apply_role :: "'db env \<Rightarrow> user \<Rightarrow> ('db st, unit) act" where
  "apply_role E user =
     (if u_role user = Some ''admin'' then add_admin_user E (str_or_empty (u_username user))
      else remove_admin_user E (str_or_empty (u_username user)))"

text \<open>\<open>None\<close>: the user is not there; an inner \<open>None\<close>: the merger gives up.\<close>

definition look_up_user :: "'db env \<Rightarrow> user \<Rightarrow> ('db st, user option option) act" where
  "look_up_user E user =
     catch_exception (bindA (get_user E (str_or_empty (u_username user))) (\<lambda>u. return (Some (Some u))))
       (\<lambda>e. case e of
          SocaException c \<Rightarrow> if c = AUTH_USER_NOT_FOUND then return None else raise e
        | _ \<Rightarrow> return (Some None))"

definition merge_user :: "'db env \<Rightarrow> item \<Rightarrow> ('db st, outcome) act" where
  "merge_user E user_db_record =
     bindA (liftA (user_from_db user_db_record)) (\<lambda>user_to_merge.
     bindA (look_up_user E user_to_merge) (\<lambda>v. case v of
       None \<Rightarrow> return Skip
     | Some None \<Rightarrow> return Give_Up
     | Some (Some existing_user) \<Rightarrow>
         if u_role user_to_merge = u_role existing_user then return Skip
         else give_up (seqA (apply_role E user_to_merge)
                (return (Merged \<lparr>original_record = Some (user_to_db existing_user), snapshot_record = user_db_record,
                   resolved_record = Map.empty, resolved_first_key = [], action_performed = UPDATE\<rparr>)))))"

definition users_merge :: "'db env \<Rightarrow> item list \<Rightarrow> ('db st, delta list \<times> bool) act" where
  "users_merge E table_data_to_merge = merge_records (merge_user E) table_data_to_merge []"

definition undo_user :: "'db env \<Rightarrow> delta \<Rightarrow> ('db st, unit) act" where
  "undo_user E d = (case original_record d of
      None \<Rightarrow> raise AttributeError
    | Some original \<Rightarrow>
        bindA (liftA (user_from_db original)) (\<lambda>user.
        whenA (action_performed d = UPDATE) (apply_role E user)))"

definition users_rollback :: "'db env \<Rightarrow> delta list \<Rightarrow> ('db st, unit) act" where
  "users_rollback E = rollback_records (undo_user E)"

section \<open>Permission profiles\<close>

text \<open>A profile of the same identifier that differs stays; the record gets an identifier of its own.\<close>

definition resolve_profile ::
  "'db env \<Rightarrow> string \<Rightarrow> string list \<Rightarrow> item \<Rightarrow> ('db st, item \<times> merged_record_action option) act" where
  "resolve_profile E dedup_id ptypes db_entry =
     bindA (attr db_entry ''profile_id'') (\<lambda>profile_id.
     catch_soca
       (bindA (get_permission_profile E (Some (py_str profile_id))) (\<lambda>existing.
        bindA (liftA (convert_db_dict_to_permission_profile_object db_entry ptypes)) (\<lambda>snapshot_profile.
        if existing = snapshot_profile then return (db_entry, None)
        else return (db_entry(''profile_id'' \<mapsto> unique_resource_id_generator profile_id dedup_id), Some CREATE))))
       (\<lambda>c. if c = INVALID_PARAMS then return (db_entry, Some CREATE) else raise (SocaException c)))"

definition merge_profile ::
  "'db env \<Rightarrow> string \<Rightarrow> string list \<Rightarrow> item \<Rightarrow> ('db st, outcome) act" where
  "merge_profile E dedup_id ptypes record =
     (if lacks ''profile_id'' record then return Skip
      else give_up
        (bindA (resolve_profile E dedup_id ptypes record) (\<lambda>(resolved, action). case action of
           None \<Rightarrow> return Skip
         | Some _ \<Rightarrow>
             bindA (liftA (convert_db_dict_to_permission_profile_object resolved ptypes)) (\<lambda>p.
             bindA (create_permission_profile E p) (\<lambda>created.
             return (Merged (created_delta record
               (convert_permission_profile_object_to_db_dict created ptypes))))))))"

definition profiles_merge :: "'db env \<Rightarrow> string \<Rightarrow> item list \<Rightarrow> ('db st, delta list \<times> bool) act" where
  "profiles_merge E dedup_id table_data_to_merge =
     bindA (catch_exception (bindA (get_base_permissions E) (\<lambda>ts. return (Some ts))) (\<lambda>_. return None)) (\<lambda>v. case v of
       None \<Rightarrow> return ([], False)
     | Some ptypes \<Rightarrow> merge_records (merge_profile E dedup_id ptypes) table_data_to_merge [])"

definition undo_profile :: "'db env \<Rightarrow> delta \<Rightarrow> ('db st, unit) act" where
  "undo_profile E d =
     (let profile_id = attr_or (resolved_record d) ''profile_id'' (VStr []) in
      whenA (action_performed d = CREATE) (delete_permission_profile E (str_field profile_id)))"

definition profiles_rollback :: "'db env \<Rightarrow> delta list \<Rightarrow> ('db st, unit) act" where
  "profiles_rollback E = rollback_records (undo_profile E)"

section \<open>Projects\<close>

definition text_arg :: "val \<Rightarrow> exn + string" where
  "text_arg v = (case v of VNone \<Rightarrow> Inr [] | _ \<Rightarrow> case str_field v of None \<Rightarrow> Inl ValidationError | Some s \<Rightarrow> Inr s)"

definition resolve_project ::
  "'db env \<Rightarrow> string \<Rightarrow> item \<Rightarrow> ('db st, item \<times> merged_record_action option) act" where
  "resolve_project E dedup_id db_entry =
     bindA (attr db_entry ''name'') (\<lambda>project_name.
     catch_soca
       (bindA (liftA (text_arg project_name)) (\<lambda>name.
        bindA (get_project E [] name) (\<lambda>existing_project.
        bindA (liftA (project_from_db db_entry)) (\<lambda>snapshot_project.
        if existing_project = snapshot_project then return (db_entry, None)
        else return (db_entry(''name'' \<mapsto> unique_resource_id_generator project_name dedup_id), Some CREATE)))))
       (\<lambda>c. if c = PROJECT_NOT_FOUND then return (db_entry, Some CREATE) else raise (SocaException c)))"

definition budget_is_enabled_and_exists :: "world \<Rightarrow> project \<Rightarrow> bool" where
  "budget_is_enabled_and_exists w project =
     (if p_enable_budgets project \<noteq> Some True then False
      else case p_budget project of
        Some (Some budget_name) \<Rightarrow>
          if budget_name = [] then False
          else (case budgets_get_budget w budget_name of Inl _ \<Rightarrow> False | Inr _ \<Rightarrow> True)
      | _ \<Rightarrow> False)"

text \<open>A new project is created without members; they are added by an update that may fail.\<close>

definition create_resolved_project :: "'db env \<Rightarrow> item \<Rightarrow> ('db st, item) act" where
  "create_resolved_project E resolved =
     bindA (liftA (project_from_db resolved)) (\<lambda>project.
     let project = project\<lparr>p_ldap_groups := Some [], p_users := Some []\<rparr>;
         project = project\<lparr>p_enable_budgets := Some (budget_is_enabled_and_exists (cfg E) project)\<rparr> in
     bindA (create_project E (Some project)) (\<lambda>created. return (project_to_db created)))"

definition add_groups_and_users_to_project :: "'db env \<Rightarrow> item \<Rightarrow> item \<Rightarrow> ('db st, item) act" where
  "add_groups_and_users_to_project E record resolved =
     (let project = resolved(''ldap_groups'' \<mapsto> attr_or record ''ldap_groups'' (VList []),
                             ''users'' \<mapsto> attr_or record ''users'' (VList [])) in
      seqA (attr project ''name'')
           (catch_exception
              (bindA (liftA (project_from_db project)) (\<lambda>p.
               bindA (update_project E (Some p)) (\<lambda>updated. return (project_to_db updated))))
              (\<lambda>_. return resolved)))"

definition merge_project :: "'db env \<Rightarrow> string \<Rightarrow> item \<Rightarrow> ('db st, outcome) act" where
  "merge_project E dedup_id record =
     (if lacks ''name'' record then return Skip
      else bindA
        (give_up
          (bindA (resolve_project E dedup_id record) (\<lambda>(resolved, action). case action of
             None \<Rightarrow> return Skip
           | Some _ \<Rightarrow> bindA (create_resolved_project E resolved) (\<lambda>created.
               return (Merged (created_delta record created))))))
        (\<lambda>result. case result of
           Merged d \<Rightarrow> bindA (add_groups_and_users_to_project E record (resolved_record d)) (\<lambda>resolved.
             return (Merged (d\<lparr>resolved_record := resolved\<rparr>)))
         | _ \<Rightarrow> return result))"

definition projects_merge :: "'db env \<Rightarrow> string \<Rightarrow> item list \<Rightarrow> ('db st, delta list \<times> bool) act" where
  "projects_merge E dedup_id table_data_to_merge =
     merge_records (merge_project E dedup_id) table_data_to_merge []"

definition undo_project :: "'db env \<Rightarrow> delta \<Rightarrow> ('db st, unit) act" where
  "undo_project E d =
     whenA (action_performed d = CREATE)
       (bindA (liftA (text_arg (attr_or (resolved_record d) ''name'' (VStr [])))) (\<lambda>project_name.
        delete_project E [] project_name))"

definition projects_rollback :: "'db env \<Rightarrow> delta list \<Rightarrow> ('db st, unit) act" where
  "projects_rollback E = rollback_records (undo_project E)"

section \<open>Software stacks\<close>

type_synonym merged_deltas = "(table_name \<times> delta list) list"

definition deltas_of :: "merged_deltas \<Rightarrow> table_name \<Rightarrow> delta list" where
  "deltas_of merged t = (case map_of merged t of None \<Rightarrow> [] | Some ds \<Rightarrow> ds)"

text \<open>The identifiers the projects of the snapshot got; a later delta replaces an earlier one.\<close>

definition project_id_mapping :: "delta \<Rightarrow> exn + val \<times> val" where
  "project_id_mapping d = (case (snapshot_record d ''project_id'', resolved_record d ''project_id'') of
      (Some old, Some new) \<Rightarrow> Inr (old, new) | _ \<Rightarrow> Inl (KeyError ''project_id''))"

definition mapped_project :: "(val \<times> val) list \<Rightarrow> val \<Rightarrow> val" where
  "mapped_project project_id_mappings project_id = (case map_of (rev project_id_mappings) project_id of
      None \<Rightarrow> project_id
    | Some new \<Rightarrow> if py_truthy new then new else project_id)"

definition resolve_project_ids :: "(val \<times> val) list \<Rightarrow> item \<Rightarrow> exn + item" where
  "resolve_project_ids project_id_mappings db_entry =
     bindE (v_list (attr_or db_entry ''projects'' (VList []))) (\<lambda>projects.
     Inr (db_entry(''projects'' \<mapsto> VList (map (mapped_project project_id_mappings) projects))))"

definition resolve_stack ::
  "'db env \<Rightarrow> string \<Rightarrow> (val \<times> val) list \<Rightarrow> item \<Rightarrow> ('db st, item \<times> merged_record_action option) act" where
  "resolve_stack E dedup_id project_id_mappings record =
     bindA (liftA (resolve_project_ids project_id_mappings record)) (\<lambda>db_entry.
     bindA (attr db_entry ''name'') (\<lambda>stack_name.
     bindA (get_software_stacks_by_name E (py_str stack_name)) (\<lambda>software_stacks_by_name.
     if software_stacks_by_name = [] then return (db_entry, Some CREATE)
     else bindA (liftA (convert_db_dict_to_software_stack_object db_entry)) (\<lambda>snapshot_stack.
          if snapshot_stack \<in> Some ` set software_stacks_by_name then return (db_entry, None)
          else return (db_entry(''name'' \<mapsto> unique_resource_id_generator stack_name dedup_id), Some CREATE)))))"

text \<open>
  A refusal because of the image skips the record; any other exception of the client leaves the
  merger.
\<close>

definition give_up_unless_soca :: "('s, outcome) act \<Rightarrow> ('s, outcome) act" where
  "give_up_unless_soca m = catch_exception m (\<lambda>e. if is_soca e then raise e else return Give_Up)"

definition is_image_refusal :: "error_code \<times> string \<Rightarrow> bool" where
  "is_image_refusal err \<longleftrightarrow> fst err = INVALID_PARAMS \<and> starts_with (snd err) ''Invalid software_stack.ami_id''"

definition merge_stack ::
  "'db env \<Rightarrow> string \<Rightarrow> (val \<times> val) list \<Rightarrow> item \<Rightarrow> ('db st, outcome) act" where
  "merge_stack E dedup_id project_id_mappings record =
     (if lacks ''name'' record then return Skip
      else give_up_unless_soca
        (bindA (resolve_stack E dedup_id project_id_mappings record) (\<lambda>(resolved, action). case action of
           None \<Rightarrow> return Skip
         | Some _ \<Rightarrow>
             bindA (liftA (convert_db_dict_to_software_stack_object resolved)) (\<lambda>v. case v of
               None \<Rightarrow> raise AttributeError
             | Some stk \<Rightarrow> bindA (client_create_software_stack E stk) (\<lambda>r. case r of
                 Inl err \<Rightarrow> if is_image_refusal err then return Skip else raise (SocaException (fst err))
               | Inr created \<Rightarrow> return (Merged (created_delta record
                   (convert_software_stack_object_to_db_dict created))))))))"

definition stacks_merge ::
  "'db env \<Rightarrow> string \<Rightarrow> merged_deltas \<Rightarrow> item list \<Rightarrow> ('db st, delta list \<times> bool) act" where
  "stacks_merge E dedup_id merged_record_deltas table_data_to_merge =
     bindA (liftA (map_sum_list project_id_mapping (deltas_of merged_record_deltas PROJECTS_TABLE_NAME))) (\<lambda>mappings.
     merge_records (merge_stack E dedup_id mappings) table_data_to_merge [])"

definition undo_stack :: "'db env \<Rightarrow> delta \<Rightarrow> ('db st, unit) act" where
  "undo_stack E d =
     whenA (action_performed d = CREATE)
       (bindA (liftA (convert_db_dict_to_software_stack_object (resolved_record d))) (\<lambda>v. case v of
          None \<Rightarrow> raise AttributeError
        | Some stk \<Rightarrow> client_delete_software_stack E stk))"

definition stacks_rollback :: "'db env \<Rightarrow> delta list \<Rightarrow> ('db st, unit) act" where
  "stacks_rollback E = rollback_records (undo_stack E)"

section \<open>File systems\<close>

text \<open>
  \<open>extract_filesystem_details_to_dict\<close>: the settings of the shared storage as a tree; without any the
  default dictionary of the look-up has no \<open>as_plain_ordered_dict\<close>.
\<close>

definition extract_filesystem_details_to_dict :: "world \<Rightarrow> item list \<Rightarrow> exn + (string \<times> val) list" where
  "extract_filesystem_details_to_dict w table_data =
     bindE (map_sum_list (\<lambda>i. case (i ''key'', i ''value'') of
              (Some k, Some v) \<Rightarrow> Inr (py_str k, v)
            | (None, _) \<Rightarrow> Inl (KeyError ''key'') | _ \<Rightarrow> Inl (KeyError ''value'')) table_data) (\<lambda>settings.
     let tree = fold (\<lambda>(k, v) t. hocon_put w t k v)
                  (filter (\<lambda>(k, v). starts_with k ''shared-storage'') settings) [] in
     case hocon_get w tree ''shared-storage'' of
       Some (VDict d) \<Rightarrow> Inr d
     | _ \<Rightarrow> Inl AttributeError)"

definition accessible_filesystem_ids :: "'db env \<Rightarrow> ('db st, val list) act" where
  "accessible_filesystem_ids E = bindA (filesystems_in_vpc E []) (\<lambda>v. liftA (vpc_filesystem_ids v))"

definition project_names_in_env :: "'db env \<Rightarrow> ('db st, string option list) act" where
  "project_names_in_env E =
     bindA (list_projects E \<lparr>r_cursor = None, r_filters = []\<rparr>) (\<lambda>(ps, _). return (map p_name ps))"

text \<open>The provider's part of the details, and the identifier in it.\<close>

definition detail_id :: "val \<Rightarrow> exn + val" where
  "detail_id details = bindE (v_at details ''provider'') (\<lambda>provider.
     case provider of VStr p \<Rightarrow> bindE (v_at details p) (\<lambda>f. v_at f ''file_system_id'') | _ \<Rightarrow> Inl TypeError)"

definition required_text :: "val \<Rightarrow> exn + string" where
  "required_text v = (case str_field v of None \<Rightarrow> Inl ValidationError | Some s \<Rightarrow> Inr s)"

definition onboard_details ::
  "'db env \<Rightarrow> string \<Rightarrow> string \<Rightarrow> val \<Rightarrow> ('db st, unit) act" where
  "onboard_details E provider filesystem_name details =
     (if provider \<notin> {''efs'', ''fsx_netapp_ontap'', ''fsx_lustre''} then return ()
      else
        bindA (liftA (bindE (v_at details ''title'') required_text)) (\<lambda>title.
        bindA (liftA (bindE (detail_id details) required_text)) (\<lambda>i.
        bindA (liftA (v_at details ''mount_dir'')) (\<lambda>mount_dir.
        let request = \<lparr>or_name = filesystem_name, or_title = title, or_id = i, or_mount_directory = None,
              or_mount_drive = None, or_svm_id = [], or_volume_id = [], or_file_share_name = None\<rparr> in
        if provider = ''fsx_netapp_ontap'' then
          bindA (liftA (bindE (v_at details ''mount_drive'') (\<lambda>v. opt_str_field (Some v)))) (\<lambda>drive.
          bindA (liftA (opt_str_field (Some mount_dir))) (\<lambda>dir.
          bindA (liftA (v_at details provider)) (\<lambda>f.
          bindA (liftA (bindE (bindE (v_at f ''svm'') (\<lambda>x. v_at x ''svm_id'')) required_text)) (\<lambda>svm_id.
          bindA (liftA (bindE (bindE (v_at f ''volume'') (\<lambda>x. v_at x ''volume_id'')) required_text)) (\<lambda>volume_id.
          bindA (liftA (bindE (bindE (v_at f ''volume'') (\<lambda>x. v_at x ''cifs_share_name''))
                          (\<lambda>v. opt_str_field (Some v)))) (\<lambda>share.
          onboard_ontap_filesystem E (request\<lparr>or_mount_directory := dir, or_mount_drive := drive,
            or_svm_id := svm_id, or_volume_id := volume_id, or_file_share_name := share\<rparr>)))))))
        else
          bindA (liftA (required_text mount_dir)) (\<lambda>dir.
          (if provider = ''efs'' then onboard_efs_filesystem E else onboard_lustre_filesystem E)
            (request\<lparr>or_mount_directory := Some dir\<rparr>))))))"

text \<open>
  The wait for the listener, at most fifteen times five seconds: it ends when the tree has a file
  system of the given name, and nothing is said when it never has.
\<close>

fun wait_for_sync :: "nat \<Rightarrow> 'db env \<Rightarrow> string \<Rightarrow> ('db st, unit) act" where
  "wait_for_sync 0 E filesystem_name = return ()"
| "wait_for_sync (Suc n) E filesystem_name =
     seqA (sleep_ms E 5000)
    (bindA (catch_soca (seqA (get_filesystem E filesystem_name) (return True)) (\<lambda>_. return False)) (\<lambda>found.
     if found then return () else wait_for_sync n E filesystem_name))"

definition RETRY_COUNT :: nat where
  "RETRY_COUNT = 15"

definition add_filesystem_to_projects ::
  "'db env \<Rightarrow> string \<Rightarrow> val \<Rightarrow> string option list \<Rightarrow> string \<Rightarrow> ('db st, unit) act" where
  "add_filesystem_to_projects E filesystem_name details env_project_names dedup_id =
     bindA (liftA (v_get details ''projects'')) (\<lambda>fs_projects.
     if \<not> py_truthy fs_projects then return ()
     else bindA (liftA (v_list fs_projects)) (\<lambda>names.
       for_each names (\<lambda>project_name.
         if project_name \<notin> opt_str ` set env_project_names then return ()
         else
           let deduped = unique_resource_id_generator project_name dedup_id;
               project_name_to_use = (if deduped \<in> opt_str ` set env_project_names then deduped else project_name) in
           catch_exception (add_filesystem_to_project E (Some filesystem_name) (Some (py_str project_name_to_use)))
             (\<lambda>_. return ()))))"

text \<open>A file system that is onboarded already or out of reach is passed over.\<close>

definition skip_unavailable :: "('s, outcome) act \<Rightarrow> ('s, outcome) act" where
  "skip_unavailable m = catch_exception m (\<lambda>e. case e of
      SocaException c \<Rightarrow> if c = FILESYSTEM_ALREADY_ONBOARDED \<or> c = FILESYSTEM_NOT_IN_VPC then return Skip else raise e
    | _ \<Rightarrow> return Give_Up)"

definition scope_has_project :: "val \<Rightarrow> exn + bool" where
  "scope_has_project scope = (if \<not> py_truthy scope then Inr False else val_in (VStr ''project'') scope)"

text \<open>
  The identifiers that may still be onboarded: one leaves the set when its file system has been
  onboarded, which is why the loop hands the set on.
\<close>

definition apply_filesystem ::
  "'db env \<Rightarrow> string \<Rightarrow> string option list \<Rightarrow> val list \<Rightarrow> string \<Rightarrow> string \<Rightarrow> val \<Rightarrow>
     ('db st, outcome \<times> val list) act" where
  "apply_filesystem E dedup_id env_project_names accessible provider filesystem_name details =
     bindA (catch_exception
              (bindA (get_filesystem E filesystem_name) (\<lambda>_. return (Some True)))
              (\<lambda>e. case e of
                 SocaException c \<Rightarrow>
                   if c = NO_SHARED_FILESYSTEM_FOUND \<or> c = FILESYSTEM_NOT_FOUND then return (Some False) else raise e
               | _ \<Rightarrow> return None)) (\<lambda>v. case v of
       None \<Rightarrow> return (Give_Up, accessible)
     | Some already_present \<Rightarrow>
         let name_to_use = (if already_present then py_str (unique_resource_id_generator (VStr filesystem_name) dedup_id)
                            else filesystem_name) in
         bindA (skip_unavailable
                  (seqA (onboard_details E provider name_to_use details)
                  (seqA (wait_for_sync RETRY_COUNT E filesystem_name)
                  (bindA (liftA (detail_id details)) (\<lambda>i.
                   raise_if (i \<notin> set accessible) (KeyError (py_str i))
                  (seqA (add_filesystem_to_projects E name_to_use details env_project_names dedup_id)
                        (return (Merged
                           \<lparr>original_record = Some Map.empty, snapshot_record = [filesystem_name \<mapsto> details],
                            resolved_record = [name_to_use \<mapsto> details], resolved_first_key = name_to_use,
                            action_performed = CREATE\<rparr>))))))))
           (\<lambda>result. return (result, case (result, detail_id details) of
              (Merged _, Inr i) \<Rightarrow> filter (\<lambda>x. x \<noteq> i) accessible | _ \<Rightarrow> accessible)))"

text \<open>The checks before: a dictionary with a provider and the scope of projects, in reach and not onboarded.\<close>

definition filesystem_wanted :: "val list \<Rightarrow> val list \<Rightarrow> val \<Rightarrow> ('s, outcome option) act" where
  "filesystem_wanted onboarded accessible details =
     catchA
       (bindA (liftA (detail_id details)) (\<lambda>i.
        return (if i \<in> set onboarded \<or> i \<notin> set accessible then Some Skip else None)))
       (\<lambda>_. return (Some Give_Up))"

definition merge_filesystem ::
  "'db env \<Rightarrow> string \<Rightarrow> string option list \<Rightarrow> val list \<Rightarrow> val list \<Rightarrow> string \<times> val \<Rightarrow>
     ('db st, outcome \<times> val list) act" where
  "merge_filesystem E dedup_id env_project_names onboarded accessible = (\<lambda>(filesystem_name, details).
     case details of
       VDict d \<Rightarrow>
         let provider = attr_or (map_of d) ''provider'' VNone in
         if \<not> py_truthy provider then return (Skip, accessible)
         else bindA (liftA (scope_has_project (attr_or (map_of d) ''scope'' VNone))) (\<lambda>in_scope.
           if \<not> in_scope then return (Skip, accessible)
           else bindA (filesystem_wanted onboarded accessible details) (\<lambda>v. case v of
             Some result \<Rightarrow> return (result, accessible)
           | None \<Rightarrow> apply_filesystem E dedup_id env_project_names accessible (py_str provider) filesystem_name details))
     | _ \<Rightarrow> return (Skip, accessible))"

fun merge_filesystems ::
  "'db env \<Rightarrow> string \<Rightarrow> string option list \<Rightarrow> val list \<Rightarrow> val list \<Rightarrow> (string \<times> val) list \<Rightarrow> delta list \<Rightarrow>
     ('db st, delta list \<times> bool) act" where
  "merge_filesystems E dedup_id env_project_names onboarded accessible [] record_deltas =
     return (record_deltas, True)"
| "merge_filesystems E dedup_id env_project_names onboarded accessible (f # fs) record_deltas =
     bindA (merge_filesystem E dedup_id env_project_names onboarded accessible f) (\<lambda>(result, accessible').
     case result of
       Skip \<Rightarrow> merge_filesystems E dedup_id env_project_names onboarded accessible' fs record_deltas
     | Give_Up \<Rightarrow> return (record_deltas, False)
     | Merged d \<Rightarrow>
         merge_filesystems E dedup_id env_project_names onboarded accessible' fs (record_deltas @ [d]))"

definition filesystems_merge :: "'db env \<Rightarrow> string \<Rightarrow> item list \<Rightarrow> ('db st, delta list \<times> bool) act" where
  "filesystems_merge E dedup_id table_data_to_merge =
     bindA (onboarded_ids E) (\<lambda>onboarded.
     bindA (accessible_filesystem_ids E) (\<lambda>accessible.
     bindA (project_names_in_env E) (\<lambda>env_project_names.
     bindA (liftA (extract_filesystem_details_to_dict (cfg E) table_data_to_merge)) (\<lambda>details.
     merge_filesystems E dedup_id env_project_names onboarded accessible details []))))"

definition undo_filesystem :: "'db env \<Rightarrow> delta \<Rightarrow> ('db st, unit) act" where
  "undo_filesystem E d = whenA (action_performed d = CREATE) (offboard_filesystem E (resolved_first_key d))"

definition filesystems_rollback :: "'db env \<Rightarrow> delta list \<Rightarrow> ('db st, unit) act" where
  "filesystems_rollback E = rollback_records (undo_filesystem E)"

end
