(* ===== verification/Apply_Snapshot.thy ===== *)
theory Apply_Snapshot
  imports Snapshot_Mergers
begin

text \<open>
  \<^verbatim>\<open>snapshots/apply_snapshot.py\<close> with \<^verbatim>\<open>helpers/apply_snapshot_temp_tables_helper.py\<close> and the import
  and deletion of tables of \<^verbatim>\<open>ideasdk/aws/aws_util.py\<close>. A request is checked, its metadata read and a
  record made (\<open>initialize\<close>); the rest runs in a thread of its own (\<open>apply_snapshot_main\<close>): import,
  scan, transformation, merge of the tables in their order and, when a merge fails, the roll-back in
  the reverse order. The record tells how far it came. The threads of the import are run one after the
  other: they only start imports and wait for them.
\<close>

section \<open>Checking a request\<close>

text \<open>
  \<open>^[a-z0-9]+[\.\-\w]*[a-z0-9]+$\<close> and \<open>^([\w\.\-\!\*\'\(\)]+[\/]*)+$\<close>, for texts of ASCII characters; \<open>$\<close> also
  matches before a newline at the end.
\<close>

definition is_word_char :: "char \<Rightarrow> bool" where
  "is_word_char c \<longleftrightarrow> is_alnum c \<or> c = CHR ''_''"

definition matches_bucket_name :: "string \<Rightarrow> bool" where
  "matches_bucket_name s = list_ex (\<lambda>t. 2 \<le> length t \<and> is_lower_alnum (hd t) \<and> is_lower_alnum (last t) \<and>
     list_all (\<lambda>c. is_word_char c \<or> c \<in> set ''.-'') t) [s, drop_newline s]"

definition is_path_char :: "char \<Rightarrow> bool" where
  "is_path_char c \<longleftrightarrow> is_word_char c \<or> c \<in> set (''.-!*()'' @ [CHR 0x27])"

definition matches_snapshot_path :: "string \<Rightarrow> bool" where
  "matches_snapshot_path s = list_ex (\<lambda>t. t \<noteq> [] \<and> is_path_char (hd t) \<and>
     list_all (\<lambda>c. is_path_char c \<or> c = CHR 0x2F) t) [s, drop_newline s]"

definition validate_input_of_snapshot :: "string option \<Rightarrow> string option \<Rightarrow> ('s, unit) act" where
  "validate_input_of_snapshot s3_bucket_name snapshot_path =
     raise_if (blank (str_or_empty s3_bucket_name)) invalid_params
    (raise_if (\<not> matches_bucket_name (str_or_empty s3_bucket_name)) invalid_params
    (raise_if (blank (str_or_empty snapshot_path)) invalid_params
    (raise_if (\<not> matches_snapshot_path (str_or_empty snapshot_path)) invalid_params (return ()))))"

section \<open>The job\<close>

text \<open>The fields of the object the thread works with.\<close>

record apply_job =
  aj_bucket :: string
  aj_path :: string
  aj_created_on :: int
  aj_version :: string
  aj_descriptions :: val
  aj_tables :: "table_name list"
  aj_keys :: "(table_name \<times> table_keys) list"
  aj_identifier :: string

definition get_temp_table_name :: "world \<Rightarrow> int \<Rightarrow> table_name \<Rightarrow> string" where
  "get_temp_table_name w created_on t =
     cluster_name w @ ''.temp-'' @ table_name_value t @ ''-'' @ int_str created_on"

definition metadata_key :: "string \<Rightarrow> string" where
  "metadata_key snapshot_path = snapshot_path @ ''/metadata.json''"

definition fetch_snapshot_metadata :: "'db env \<Rightarrow> string \<Rightarrow> string \<Rightarrow> ('db st, val) act" where
  "fetch_snapshot_metadata E s3_bucket_name snapshot_path =
     bindA (call E (S3 ''get_object'' [(''Bucket'', VStr s3_bucket_name),
              (''Key'', VStr (metadata_key snapshot_path))])) (\<lambda>r.
     bindA (liftA (v_at r ''Body'')) (\<lambda>body. liftA (from_json (cfg E) (py_str body))))"

definition get_list_of_tables_to_be_imported :: "val \<Rightarrow> exn + table_name list" where
  "get_list_of_tables_to_be_imported table_export_descriptions =
     bindE (map_sum_list (\<lambda>t. val_in (VStr (table_name_value t)) table_export_descriptions) table_names) (\<lambda>present.
     Inr (map fst (filter snd (zip table_names present))))"

definition prepare_job :: "string \<Rightarrow> string \<Rightarrow> int \<Rightarrow> val \<Rightarrow> exn + apply_job" where
  "prepare_job s3_bucket_name snapshot_path created_on metadata =
     bindE (v_at metadata ''version'') (\<lambda>version.
     bindE (v_at metadata ''table_export_descriptions'') (\<lambda>descriptions.
     bindE (get_list_of_tables_to_be_imported descriptions) (\<lambda>tables.
     bindE (case version of VStr v \<Rightarrow> Inr v | _ \<Rightarrow> Inl ValueError) (\<lambda>version.
     bindE (get_table_keys_by_res_version tables version) (\<lambda>keys.
     Inr \<lparr>aj_bucket = s3_bucket_name, aj_path = snapshot_path, aj_created_on = created_on, aj_version = version,
          aj_descriptions = descriptions, aj_tables = tables, aj_keys = keys,
          aj_identifier = s3_bucket_name @ ''-'' @ snapshot_path @ ''-'' @ int_str created_on\<rparr>)))))"

definition record_failure :: "'db env \<Rightarrow> string \<Rightarrow> string \<Rightarrow> int \<Rightarrow> exn \<Rightarrow> ('db st, 'a) act" where
  "record_failure E bucket path created_on e =
     seqA (apply_dao_create E bucket path FAILED (Some (message_of (cfg E) e)) created_on) (raise e)"

text \<open>
  The request answers when the record is made; what is returned is the thread's work. A failure up to
  there leaves a record that says so and raises again.
\<close>

definition initialize :: "'db env \<Rightarrow> string option \<Rightarrow> string option \<Rightarrow> ('db st, apply_job) act" where
  "initialize E s3_bucket_name snapshot_path =
     bindA (current_time_ms E) (\<lambda>created_on.
     seqA (validate_input_of_snapshot s3_bucket_name snapshot_path)
    (let bucket = str_or_empty s3_bucket_name; path = str_or_empty snapshot_path in
     bindA (catchA (fetch_snapshot_metadata E bucket path)
              (\<lambda>e. if is_client_error e then record_failure E bucket path created_on e else raise e)) (\<lambda>metadata.
     catch_exception
       (bindA (liftA (prepare_job bucket path created_on metadata)) (\<lambda>job.
        seqA (apply_dao_create E bucket path IN_PROGRESS None created_on) (return job)))
       (record_failure E bucket path created_on))))"

section \<open>Importing the tables\<close>

definition rstrip_slash :: "string \<Rightarrow> string" where
  "rstrip_slash s = rev (dropWhile (\<lambda>c. c = CHR 0x2F) (rev s))"

text \<open>\<open>os.path.dirname\<close>\<close>

definition dirname :: "string \<Rightarrow> string" where
  "dirname p = (let head = rev (dropWhile (\<lambda>c. c \<noteq> CHR 0x2F) (rev p)) in
     if head \<noteq> [] \<and> rstrip_slash head = [] then head else rstrip_slash head)"

definition string_key :: "string \<Rightarrow> val" where
  "string_key k = VDict [(''AttributeName'', VStr k), (''AttributeType'', VStr ''S'')]"

definition key_element :: "string \<Rightarrow> string \<Rightarrow> val" where
  "key_element k ty = VDict [(''AttributeName'', VStr k), (''KeyType'', VStr ty)]"

definition initiate_import_table ::
  "'db env \<Rightarrow> string \<Rightarrow> string \<Rightarrow> string \<Rightarrow> table_keys \<Rightarrow> ('db st, val) act" where
  "initiate_import_table E s3_bucket_name s3_key_prefix temp_table_name keys =
     (let sort_key = (case snd keys of None \<Rightarrow> [] | Some k \<Rightarrow> if k = [] then [] else [k]);
          encryption = (case config_string (cfg E) ''cluster.dynamodb.kms_key_id'' of None \<Rightarrow> []
            | Some k \<Rightarrow> [(''SSESpecification'', VDict [(''Enabled'', VBool True), (''SSEType'', VStr ''KMS''),
                (''KMSMasterKeyId'', VStr k)])]) in
      call E (DynamoDb ''import_table''
        [(''S3BucketSource'', VDict [(''S3Bucket'', VStr s3_bucket_name), (''S3KeyPrefix'', VStr s3_key_prefix)]),
         (''InputFormat'', VStr ''DYNAMODB_JSON''), (''InputCompressionType'', VStr ''GZIP''),
         (''TableCreationParameters'', VDict ([(''TableName'', VStr temp_table_name),
            (''AttributeDefinitions'', VList (map string_key (fst keys # sort_key))),
            (''KeySchema'', VList (key_element (fst keys) ''HASH'' # map (\<lambda>k. key_element k ''RANGE'') sort_key)),
            (''BillingMode'', VStr ''PAY_PER_REQUEST'')] @ encryption))]))"

definition import_status :: "val \<Rightarrow> exn + bool option" where
  "import_status r = bindE (v_at r ''ImportTableDescription'') (\<lambda>d. bindE (v_at d ''ImportStatus'') (\<lambda>status.
     if status = VStr ''COMPLETED'' then Inr (Some True)
     else if status = VStr ''CANCELLED'' then Inr (Some False)
     else if status = VStr ''FAILED'' then
       bindE (v_at d ''FailureCode'') (\<lambda>_. bindE (v_at d ''FailureMessage'') (\<lambda>_. Inr (Some False)))
     else Inr None))"

definition dynamodb_check_import_completed_successfully :: "'db env \<Rightarrow> val \<Rightarrow> ('db st, bool) act" where
  "dynamodb_check_import_completed_successfully E import_arn =
     poll E (DynamoDb ''describe_import'' [(''ImportArn'', import_arn)]) import_status 10000"

definition import_table :: "'db env \<Rightarrow> apply_job \<Rightarrow> table_name \<times> table_keys \<Rightarrow> ('db st, unit) act" where
  "import_table E job = (\<lambda>(t, keys).
     bindA (liftA (bindE (v_get (aj_descriptions job) (table_name_value t)) (\<lambda>d. v_at d ''ExportManifest''))) (\<lambda>manifest.
     bindA (initiate_import_table E (aj_bucket job) (dirname (py_str manifest) @ ''/data/'')
              (get_temp_table_name (cfg E) (aj_created_on job) t) keys) (\<lambda>res.
     bindA (liftA (bindE (v_at res ''ImportTableDescription'') (\<lambda>d. v_at d ''ImportArn''))) (\<lambda>import_arn.
     bindA (dynamodb_check_import_completed_successfully E import_arn) (\<lambda>imported.
     raise_if (\<not> imported) RuntimeError (return ()))))))"

text \<open>Every import runs to its end before the failed ones are counted.\<close>

definition import_all_tables :: "'db env \<Rightarrow> apply_job \<Rightarrow> ('db st, unit) act" where
  "import_all_tables E job =
     bindA (map_each (aj_keys job) (\<lambda>k.
       catch_exception (seqA (import_table E job k) (return True)) (\<lambda>_. return False))) (\<lambda>imported.
     raise_if (False \<in> set imported) (SocaException TABLE_IMPORT_FAILED) (return ()))"

text \<open>One page of each temporary table, however many there are.\<close>

definition scan_ddb_table :: "'db env \<Rightarrow> apply_job \<Rightarrow> table_name \<Rightarrow> ('db st, table_name \<times> item list) act" where
  "scan_ddb_table E job t =
     bindA (call E (DynamoDb ''scan'' [(''TableName'', VStr (get_temp_table_name (cfg E) (aj_created_on job) t))])) (\<lambda>r.
     bindA (liftA (list_at r ''Items'')) (\<lambda>items. return (t, map dict_of items)))"

definition scan_ddb_tables :: "'db env \<Rightarrow> apply_job \<Rightarrow> ('db st, snapshot_data) act" where
  "scan_ddb_tables E job = map_each (aj_tables job) (scan_ddb_table E job)"

section \<open>Deleting the temporary tables\<close>

definition table_active :: "val \<Rightarrow> exn + unit option" where
  "table_active r = bindE (v_at r ''Table'') (\<lambda>t. bindE (v_at t ''TableStatus'') (\<lambda>status.
     Inr (if status = VStr ''ACTIVE'' then Some () else None)))"

definition dynamodb_check_table_exists :: "'db env \<Rightarrow> string \<Rightarrow> ('db st, bool) act" where
  "dynamodb_check_table_exists E temp_table_name =
     catchA (seqA (poll E (DynamoDb ''describe_table'' [(''TableName'', VStr temp_table_name)]) table_active 2000)
                  (return True))
       (\<lambda>e. if e = ServiceError ''ResourceNotFoundException'' then return False else raise e)"

text \<open>The answer is not looked at, and what is not "not found" is swallowed: the table is deleted in any case.\<close>

definition dynamodb_delete_table :: "'db env \<Rightarrow> string \<Rightarrow> ('db st, unit) act" where
  "dynamodb_delete_table E temp_table_name =
     seqA (catchA (dynamodb_check_table_exists E temp_table_name)
             (\<lambda>e. if is_client_error e then return True else raise e))
          (do_call E (DynamoDb ''delete_table'' [(''TableName'', VStr temp_table_name)]))"

definition delete_imported_tables :: "'db env \<Rightarrow> string list \<Rightarrow> ('db st, unit) act" where
  "delete_imported_tables E names =
     for_each names (\<lambda>t. catchA (dynamodb_delete_table E t)
       (\<lambda>e. if is_client_error e then return () else raise e))"

section \<open>Merging\<close>

definition merge_table ::
  "'db env \<Rightarrow> table_name \<Rightarrow> item list \<Rightarrow> string \<Rightarrow> merged_deltas \<Rightarrow> ('db st, delta list \<times> bool) act" where
  "merge_table E t rows dedup_id merged = (case t of
      USERS_TABLE_NAME \<Rightarrow> users_merge E rows
    | PERMISSION_PROFILES_TABLE_NAME \<Rightarrow> profiles_merge E dedup_id rows
    | PROJECTS_TABLE_NAME \<Rightarrow> projects_merge E dedup_id rows
    | SOFTWARE_STACKS_TABLE_NAME \<Rightarrow> stacks_merge E dedup_id merged rows
    | CLUSTER_SETTINGS_TABLE_NAME \<Rightarrow> filesystems_merge E dedup_id rows)"

definition rollback_table :: "'db env \<Rightarrow> table_name \<Rightarrow> delta list \<Rightarrow> ('db st, unit) act" where
  "rollback_table E t record_deltas = (case t of
      USERS_TABLE_NAME \<Rightarrow> users_rollback E record_deltas
    | PERMISSION_PROFILES_TABLE_NAME \<Rightarrow> profiles_rollback E record_deltas
    | PROJECTS_TABLE_NAME \<Rightarrow> projects_rollback E record_deltas
    | SOFTWARE_STACKS_TABLE_NAME \<Rightarrow> stacks_rollback E record_deltas
    | CLUSTER_SETTINGS_TABLE_NAME \<Rightarrow> filesystems_rollback E record_deltas)"

text \<open>
  The loop over the tables inside the \<open>try\<close>: its result is the \<open>SocaException\<close> it ended with, if any,
  and the deltas of the tables whose merger returned.
\<close>

fun merge_tables ::
  "'db env \<Rightarrow> string \<Rightarrow> snapshot_data \<Rightarrow> table_name list \<Rightarrow> merged_deltas \<Rightarrow>
     ('db st, error_code option \<times> merged_deltas) act" where
  "merge_tables E dedup_id data [] merged = return (None, merged)"
| "merge_tables E dedup_id data (t # ts) merged =
     bindA (catch_soca
              (bindA (merge_table E t (case map_of data t of None \<Rightarrow> [] | Some rows \<Rightarrow> rows) dedup_id merged)
                     (\<lambda>r. return (Inr r)))
              (\<lambda>c. return (Inl c))) (\<lambda>r. case r of
       Inl c \<Rightarrow> return (Some c, merged)
     | Inr (record_deltas, ok) \<Rightarrow>
         if ok then merge_tables E dedup_id data ts (merged @ [(t, record_deltas)])
         else return (Some TABLE_MERGE_FAILED, merged @ [(t, record_deltas)]))"

definition rollback_merged_tables :: "'db env \<Rightarrow> merged_deltas \<Rightarrow> ('db st, unit) act" where
  "rollback_merged_tables E merged =
     catch_exception
       (for_each (rev TABLES_IN_MERGE_DEPENDENCY_ORDER) (\<lambda>t. case map_of merged t of
          None \<Rightarrow> return () | Some record_deltas \<Rightarrow> rollback_table E t record_deltas))
       (\<lambda>_. raise (SocaException TABLE_ROLLBACK_FAILED))"

definition get_snapshot_record_dedup_id :: "apply_job \<Rightarrow> string" where
  "get_snapshot_record_dedup_id job = aj_version job @ ''_'' @ int_str (aj_created_on job)"

definition soca_message :: "'db env \<Rightarrow> error_code \<Rightarrow> string option" where
  "soca_message E c = Some (message_of (cfg E) (SocaException c))"

definition merge_transformed_data_for_all_tables :: "'db env \<Rightarrow> apply_job \<Rightarrow> snapshot_data \<Rightarrow> ('db st, unit) act" where
  "merge_transformed_data_for_all_tables E job data =
     bindA (merge_tables E (get_snapshot_record_dedup_id job) data TABLES_IN_MERGE_DEPENDENCY_ORDER [])
       (\<lambda>(failure, merged). case failure of
          None \<Rightarrow> update_status E (aj_identifier job) COMPLETED None
        | Some c \<Rightarrow>
            seqA (update_status E (aj_identifier job) ROLLBACK_IN_PROGRESS (soca_message E c))
                 (catch_soca
                    (seqA (rollback_merged_tables E merged)
                          (update_status E (aj_identifier job) ROLLBACK_COMPLETE (soca_message E c)))
                    (\<lambda>c'. update_status E (aj_identifier job) ROLLBACE_FAILED (soca_message E c'))))"

section \<open>The thread\<close>

text \<open>\<open>try: m finally: f\<close>; a loop that never ends does not get to its \<open>finally\<close>.\<close>

definition finallyA :: "('s, 'a) act \<Rightarrow> ('s, unit) act \<Rightarrow> ('s, 'a) act" where
  "finallyA m f = (\<lambda>s. case m s of
      (Inl DoesNotReturn, t) \<Rightarrow> (Inl DoesNotReturn, t)
    | (r, t) \<Rightarrow> (case f t of (Inl e, u) \<Rightarrow> (Inl e, u) | (Inr _, u) \<Rightarrow> (r, u)))"

definition apply_steps :: "'db env \<Rightarrow> apply_job \<Rightarrow> ('db st, unit) act" where
  "apply_steps E job =
     seqA (import_all_tables E job)
    (bindA (scan_ddb_tables E job) (\<lambda>data_by_table.
     bindA (liftA (apply_data_transformations (aj_version job) data_by_table)) (\<lambda>transformed_data.
     merge_transformed_data_for_all_tables E job transformed_data)))"

definition apply_snapshot_main :: "'db env \<Rightarrow> apply_job \<Rightarrow> ('db st, unit) act" where
  "apply_snapshot_main E job =
     finallyA
       (catch_exception (apply_steps E job)
          (\<lambda>e. update_status E (aj_identifier job) FAILED (Some (message_of (cfg E) e))))
       (delete_imported_tables E (map (get_temp_table_name (cfg E) (aj_created_on job)) (aj_tables job)))"

end
