(* ===== verification/Snapshot_Frames.thy ===== *)
theory Snapshot_Frames
  imports Filesystem_Facts Apply_Snapshot Vdc_Owners AD_Sync
begin

text \<open>
  Merging a snapshot goes through the services of the accounts, the projects, the file systems and the
  virtual desktop controller. None of them writes the table of the applied snapshots: every invariant
  that the writes to the other tables keep is kept by every merge, roll-back and import.
\<close>

definition spares_records :: "'db env \<Rightarrow> ('db \<Rightarrow> bool) \<Rightarrow> bool" where
  "spares_records E P \<longleftrightarrow> (\<forall>t. t \<noteq> ApplySnapshots \<longrightarrow> tolerates E P t)"

lemma spares_tolerates:
  assumes "spares_records E P"
  shows "tolerates E P Users" "tolerates E P GroupMembers" "tolerates E P Projects" "tolerates E P ProjectGroups"
    "tolerates E P UserProjects" "tolerates E P PermissionProfiles" "tolerates E P SoftwareStacks"
    "tolerates E P ClusterSettings"
  using assms by (simp_all add: spares_records_def)

lemma tolerates_bears_row: "tolerates E P t \<Longrightarrow> tolerates_row E P t k"
  by (simp add: tolerates_def tolerates_row_def del: split_paired_All)

section \<open>Users and projects\<close>

lemma keeps_roles:
  assumes "tolerates E P Users"
  shows "keeps (table_inv P) (add_admin_user E u)" and "keeps (table_inv P) (remove_admin_user E u)"
  unfolding add_admin_user_def remove_admin_user_def by (intro keeps_rules keeps_user_dao assms)+

lemma keeps_project_services:
  assumes "tolerates E P Projects" and "tolerates E P ProjectGroups" and "tolerates E P UserProjects"
  shows "keeps (table_inv P) (create_project E r)" and "keeps (table_inv P) (update_project E r)"
    and "keeps (table_inv P) (delete_project E p n)"
  unfolding create_project_def store_new_project_def enable_project_def set_project_enabled_def update_project_def
    store_project_update_def delete_project_def Let_def
  by (intro keeps_rules assms)+

lemma keeps_list_projects [keeps_rules]: "keeps (table_inv P) (list_projects E r)"
  unfolding list_projects_def projects_dao_list_projects_def by (intro keeps_rules)

section \<open>The client of the controller\<close>

lemma keeps_invoke [keeps_rules]:
  assumes "\<And>c rq. keeps (table_inv P) (m c rq)"
  shows "keeps (table_inv P) (invoke_alt E ns m rq)" and "keeps (table_inv P) (client_call E ns m rq)"
  unfolding invoke_alt_def client_call_def by (intro keeps_rules assms)+

lemma keeps_profile_of_answer [keeps_rules]: "keeps I (profile_of_answer a)"
  unfolding profile_of_answer_def by (cases a) (auto intro!: keeps_rules)

lemma keeps_client_profiles:
  assumes "tolerates E P PermissionProfiles"
  shows "keeps (table_inv P) (get_base_permissions E)" and "keeps (table_inv P) (create_permission_profile E p)"
    and "keeps (table_inv P) (delete_permission_profile E i)" and "keeps (table_inv P) (get_permission_profile E i)"
  unfolding get_base_permissions_def create_permission_profile_def delete_permission_profile_def
    get_permission_profile_def admin_create_permission_profile_def admin_delete_permission_profile_def
    utils_get_permission_profile_def profile_db_get_def profile_db_create_def profile_db_delete_def Let_def
  by (intro keeps_rules assms)+

lemma keeps_stack_answer: "keeps I (case a of Stack_Answer sr \<Rightarrow> f sr | _ \<Rightarrow> raise e)"
  if "\<And>sr. keeps I (f sr)"
  using that by (cases a) (simp_all add: keeps_raise)

lemma keeps_client_stacks:
  assumes "tolerates E P SoftwareStacks"
  shows "keeps (table_inv P) (get_software_stacks_by_name E n)" and "keeps (table_inv P) (client_create_software_stack E k)"
    and "keeps (table_inv P) (client_delete_software_stack E k)"
proof -
  have service: "keeps I (case e of ServiceError c \<Rightarrow> return x | _ \<Rightarrow> raise e)" for I e and x :: val
    by (cases e) (simp_all add: keeps_return keeps_raise)
  have image: "keeps (table_inv P) (check_image E sr)" for sr
    unfolding check_image_def describe_image_id_def Let_def by (intro keeps_rules service)
  have create: "keeps (table_inv P) (software_stack_db_create E stk)" for stk
    unfolding software_stack_db_create_def Let_def by (intro keeps_rules assms)
  show "keeps (table_inv P) (get_software_stacks_by_name E n)"
    unfolding get_software_stacks_by_name_def admin_list_software_stacks_def list_stacks_def by (intro keeps_rules)
  show "keeps (table_inv P) (client_create_software_stack E k)"
    unfolding client_create_software_stack_def admin_create_software_stack_def admin_validate_create_stack_def
      create_software_stack_def
    by (intro keeps_rules keeps_stack_answer image create)
  show "keeps (table_inv P) (client_delete_software_stack E k)"
    unfolding client_delete_software_stack_def admin_delete_software_stack_def delete_software_stack_def
      list_all_for_software_stack_def Let_def
    by (intro keeps_rules assms)
qed

section \<open>The listener and the file systems\<close>

lemma keeps_listener [keeps_rules]:
  "keeps (table_inv P) (listen E n)"
  "keeps (table_inv P) (sleep_ms E ms)"
proof -
  have "keeps (table_inv P) (modifyA (\<lambda>s. s\<lparr>st_stream := drop n (st_stream s)\<rparr>))" for n
    by (simp add: keeps_def table_inv_def)
  moreover have "keeps (table_inv P) (on_event E ev)" for ev
    by (cases ev) (auto simp: on_event_def intro!: keeps_rules)
  ultimately show l: "keeps (table_inv P) (listen E n)" for n
    unfolding listen_def by (intro keeps_rules)
  show "keeps (table_inv P) (sleep_ms E ms)" unfolding sleep_ms_def by (intro keeps_rules l)
qed

lemma keeps_wait_for_sync [keeps_rules]: "keeps (table_inv P) (wait_for_sync n E name)"
proof (induction n)
  case (Suc n)
  show ?case unfolding wait_for_sync.simps by (intro keeps_rules Suc.IH)
qed (simp only: wait_for_sync.simps keeps_return)

lemma keeps_settings_writes:
  assumes "tolerates E P ClusterSettings"
  shows "keeps (table_inv P) (set_config_entry E k v)" and "keeps (table_inv P) (sync_cluster_settings_in_db E es b)"
    and "keeps (table_inv P) (delete_config_entries E p)"
proof -
  show set: "keeps (table_inv P) (set_config_entry E k v)" for k v
    by (rule keeps_set_config_entry) (rule tolerates_bears_row [OF assms])
  show "keeps (table_inv P) (sync_cluster_settings_in_db E es b)"
    unfolding sync_cluster_settings_in_db_def by (intro keeps_rules set)
  show "keeps (table_inv P) (delete_config_entries E p)"
    unfolding delete_config_entries_def scan_settings_def delete_entry_def by (intro keeps_rules assms)
qed

lemma keeps_filesystem_writes:
  assumes "tolerates E P ClusterSettings"
  shows "keeps (table_inv P) (onboard_efs_filesystem E r)" and "keeps (table_inv P) (onboard_ontap_filesystem E r)"
    and "keeps (table_inv P) (onboard_lustre_filesystem E r)" and "keeps (table_inv P) (offboard_filesystem E n)"
    and "keeps (table_inv P) (add_filesystem_to_project E x y)"
  unfolding onboarding_defs onboard_with_def validate_onboard_filesystem_request_def offboard_filesystem_def
    add_filesystem_to_project_def check_project_parameters_def update_filesystem_to_project_mapping_def
    update_projects_for_filesystem_def Let_def
  by (intro keeps_rules keeps_settings_writes assms)+

section \<open>The mergers\<close>

lemma keeps_merge_records [keeps_rules]:
  "(\<And>x. keeps I (f x)) \<Longrightarrow> keeps I (merge_records f xs ds)"
  by (induction xs arbitrary: ds) (auto intro!: keeps_rules split: outcome.split)

lemma keeps_rollback_records [keeps_rules]: "(\<And>d. keeps I (f d)) \<Longrightarrow> keeps I (rollback_records f ds)"
  unfolding rollback_records_def by (intro keeps_rules)

lemma keeps_give_up [keeps_rules]:
  "keeps I m \<Longrightarrow> keeps I (give_up m)" "keeps I m \<Longrightarrow> keeps I (give_up_unless_soca m)"
  unfolding give_up_def give_up_unless_soca_def by (intro keeps_rules; assumption)+

lemma keeps_case_exn [keeps_rules]:
  "(\<And>c. keeps I (f c)) \<Longrightarrow> keeps I m \<Longrightarrow> keeps I (case e of SocaException c \<Rightarrow> f c | _ \<Rightarrow> m)"
  by (cases e) simp_all

lemma keeps_case_outcome [keeps_rules]:
  "keeps I m \<Longrightarrow> keeps I k \<Longrightarrow> (\<And>d. keeps I (f d)) \<Longrightarrow>
     keeps I (case r of Skip \<Rightarrow> m | Give_Up \<Rightarrow> k | Merged d \<Rightarrow> f d)"
  by (cases r) simp_all

lemma keeps_users_mergers:
  assumes "tolerates E P Users"
  shows "keeps (table_inv P) (users_merge E rows)" and "keeps (table_inv P) (users_rollback E ds)"
  unfolding users_merge_def merge_user_def look_up_user_def apply_role_def users_rollback_def undo_user_def
  by (intro keeps_rules keeps_roles assms)+

lemma keeps_profiles_mergers:
  assumes "tolerates E P PermissionProfiles"
  shows "keeps (table_inv P) (profiles_merge E dd rows)" and "keeps (table_inv P) (profiles_rollback E ds)"
  unfolding profiles_merge_def merge_profile_def resolve_profile_def profiles_rollback_def undo_profile_def Let_def
  by (intro keeps_rules keeps_client_profiles assms)+

lemma keeps_projects_mergers:
  assumes "tolerates E P Projects" and "tolerates E P ProjectGroups" and "tolerates E P UserProjects"
  shows "keeps (table_inv P) (projects_merge E dd rows)" and "keeps (table_inv P) (projects_rollback E ds)"
  unfolding projects_merge_def merge_project_def resolve_project_def create_resolved_project_def
    add_groups_and_users_to_project_def projects_rollback_def undo_project_def Let_def
  by (intro keeps_rules keeps_project_services assms)+

lemma keeps_stacks_mergers:
  assumes "tolerates E P SoftwareStacks"
  shows "keeps (table_inv P) (stacks_merge E dd m rows)" and "keeps (table_inv P) (stacks_rollback E ds)"
  unfolding stacks_merge_def merge_stack_def resolve_stack_def stacks_rollback_def undo_stack_def Let_def
  by (intro keeps_rules keeps_client_stacks assms)+

lemma keeps_filesystem_lookups [keeps_rules]:
  "keeps (table_inv P) (accessible_filesystem_ids E)"
  "keeps (table_inv P) (project_names_in_env E)"
  "keeps (table_inv P) (filesystem_wanted xs ys d)"
  unfolding accessible_filesystem_ids_def project_names_in_env_def filesystem_wanted_def
  by (intro keeps_rules)+

lemma keeps_filesystems_mergers:
  assumes "tolerates E P ClusterSettings"
  shows "keeps (table_inv P) (filesystems_merge E dd rows)" and "keeps (table_inv P) (filesystems_rollback E ds)"
proof -
  have onboard: "keeps (table_inv P) (onboard_details E p n d)" for p n d
    unfolding onboard_details_def Let_def
    by (intro keeps_rules keeps_filesystem_writes assms)
       (simp add: keeps_filesystem_writes assms)
  have add: "keeps (table_inv P) (add_filesystem_to_projects E n d ps dd)" for n d ps dd
    unfolding add_filesystem_to_projects_def Let_def by (intro keeps_rules keeps_filesystem_writes assms)
  have skip: "keeps I m \<Longrightarrow> keeps I (skip_unavailable m)" for I m
    unfolding skip_unavailable_def by (intro keeps_rules)
  have "keeps (table_inv P) (apply_filesystem E dd ps acc pr n d)" for dd ps acc pr n d
    unfolding apply_filesystem_def Let_def by (intro keeps_rules skip onboard add)
  note apply_fs = this
  have "keeps (table_inv P) (merge_filesystem E dd ps onb acc f)" for dd ps onb acc f
    by (cases f; cases "snd f") (auto simp: merge_filesystem_def Let_def intro!: keeps_rules apply_fs)
  then have "keeps (table_inv P) (merge_filesystems E dd ps onb acc fs ds)" for ps onb acc fs ds
    by (induction fs arbitrary: acc ds) (auto intro!: keeps_rules)
  then show "keeps (table_inv P) (filesystems_merge E dd rows)"
    unfolding filesystems_merge_def by (intro keeps_rules)
  show "keeps (table_inv P) (filesystems_rollback E ds)"
    unfolding filesystems_rollback_def undo_filesystem_def by (intro keeps_rules keeps_filesystem_writes assms)
qed

section \<open>The thread\<close>

lemma keeps_merge_table:
  assumes "spares_records E P"
  shows "keeps (table_inv P) (merge_table E t rows dd m)" and "keeps (table_inv P) (rollback_table E t ds)"
  by (cases t; simp add: merge_table_def rollback_table_def keeps_users_mergers keeps_profiles_mergers
      keeps_projects_mergers keeps_stacks_mergers keeps_filesystems_mergers spares_tolerates [OF assms])+

lemma keeps_merge_tables:
  assumes "spares_records E P"
  shows "keeps (table_inv P) (merge_tables E dd data ts m)" and "keeps (table_inv P) (rollback_merged_tables E m)"
proof -
  show "keeps (table_inv P) (merge_tables E dd data ts m)"
  proof (induction ts arbitrary: m)
    case (Cons t ts)
    show ?case unfolding merge_tables.simps by (intro keeps_rules keeps_merge_table assms Cons.IH)
  qed (simp only: merge_tables.simps keeps_return)
  show "keeps (table_inv P) (rollback_merged_tables E m)"
    unfolding rollback_merged_tables_def by (intro keeps_rules keeps_merge_table assms)
qed

lemma poll_loop_keeps: "poll_loop E c check ms s = Some y \<Longrightarrow> st_db (snd y) = st_db s"
proof (erule poll_loop.raw_induct [where P = "\<lambda>E c check ms s y. st_db (snd y) = st_db s", rotated])
  fix f E c check ms s y
  assume IH: "\<And>E c check ms s y. f E c check ms s = Some y \<Longrightarrow> st_db (snd y) = st_db s"
    and run: "(case call E c s of (Inl e, t) \<Rightarrow> Some (Inl e, t)
      | (Inr r, t) \<Rightarrow> (case check r of Inl e \<Rightarrow> Some (Inl e, t)
        | Inr None \<Rightarrow> (case sleep_ms E ms t of (Inl e, u) \<Rightarrow> Some (Inl e, u) | (Inr x, u) \<Rightarrow> f E c check ms u)
        | Inr (Some x) \<Rightarrow> Some (Inr x, t))) = Some y"
  have "sleep_ms E ms t = (r, u) \<Longrightarrow> st_db u = st_db t" for t r u
    by (rule reads_keep_db [OF keeps_listener(2)])
  then show "st_db (snd y) = st_db s"
    using run by (fastforce split: prod.splits sum.splits option.splits dest: IH)
qed

lemma keeps_poll [keeps_rules]: "keeps (table_inv P) (poll E c check ms)"
  by (auto simp: poll_def keeps_def table_inv_def dest: poll_loop_keeps split: option.split)

lemma keeps_table_import [keeps_rules]:
  "keeps (table_inv P) (import_all_tables E job)"
  "keeps (table_inv P) (scan_ddb_tables E job)"
  "keeps (table_inv P) (delete_imported_tables E ns)"
  unfolding import_all_tables_def import_table_def initiate_import_table_def
    dynamodb_check_import_completed_successfully_def scan_ddb_tables_def scan_ddb_table_def
    delete_imported_tables_def dynamodb_delete_table_def dynamodb_check_table_exists_def Let_def
  by (intro keeps_rules)+

end
