(* ===== verification/Snapshots_Service.thy ===== *)
theory Snapshots_Service
  imports Apply_Snapshot
begin

text \<open>
  \<^verbatim>\<open>snapshots/snapshots_service.py\<close>: creating snapshots, finding out how far their exports came, and
  listing them; the listings of the data access objects; and the APIs of the snapshots
  (\<^verbatim>\<open>app/api/snapshots_api.py\<close>) and of the shared file systems (\<^verbatim>\<open>app/api/filesystem_api.py\<close>).
\<close>

section \<open>Creating a snapshot\<close>

definition DYNAMODB_TABLES_TO_EXPORT :: "string list" where
  "DYNAMODB_TABLES_TO_EXPORT =
     [''accounts.group-members'', ''accounts.groups'', ''accounts.sso-state'', ''accounts.users'',
      ''ad-automation'', ''cluster-settings'', ''email-templates'', ''modules'', ''projects'',
      ''projects.project-groups'', ''projects.user-projects'', ''snapshots'',
      ''vdc.controller.permission-profiles'', ''vdc.controller.schedules'', ''vdc.controller.servers'',
      ''vdc.controller.session-permissions'', ''vdc.controller.software-stacks'',
      ''vdc.controller.ssm-commands'', ''vdc.controller.user-sessions'',
      ''vdc.controller.user-sessions-counter'', ''vdc.dcv-broker.AgentKeyPair'',
      ''vdc.dcv-broker.AgentOAuth2Clients'', ''vdc.dcv-broker.AuthServerPubKeys'',
      ''vdc.dcv-broker.BrokerAuthServerPrivateKey'', ''vdc.dcv-broker.ConnectSessionKeyPair'',
      ''vdc.dcv-broker.createSessionCustomerRequest'', ''vdc.dcv-broker.dcvServer'',
      ''vdc.dcv-broker.deleteSessionCustomerRequest'', ''vdc.dcv-broker.DescribeNextTokenKeyPair'',
      ''vdc.dcv-broker.HealthTest'', ''vdc.dcv-broker.JwksUrls'', ''vdc.dcv-broker.PortalOAuth2Clients'',
      ''vdc.dcv-broker.ServerDnsMapping'', ''vdc.dcv-broker.SoftwareStatement'',
      ''vdc.dcv-broker.UpdateSessionPermissionsSessionCustomerRequest'']"

definition get_ddb_table_arn :: "world \<Rightarrow> string \<Rightarrow> string" where
  "get_ddb_table_arn w table_name_suffix =
     ''arn:'' @ fmt (config_string w ''cluster.aws.partition'') @ '':dynamodb:'' @
     fmt (config_string w ''cluster.aws.region'') @ '':'' @ fmt (config_string w ''cluster.aws.account_id'') @
     '':table/'' @ fmt (config_string w ''cluster.cluster_name'') @ ''.'' @ table_name_suffix"

definition export_table :: "'db env \<Rightarrow> string \<Rightarrow> string \<Rightarrow> string \<Rightarrow> ('db st, string \<times> val) act" where
  "export_table E s3_bucket_name snapshot_path t =
     seqA (do_call E (DynamoDb ''update_continuous_backups''
             [(''TableName'', VStr (fmt (config_string (cfg E) ''cluster.cluster_name'') @ ''.'' @ t)),
              (''PointInTimeRecoverySpecification'', VDict [(''PointInTimeRecoveryEnabled'', VBool True)])]))
    (bindA (call E (DynamoDb ''export_table_to_point_in_time''
              [(''TableArn'', VStr (get_ddb_table_arn (cfg E) t)), (''S3Bucket'', VStr s3_bucket_name),
               (''S3Prefix'', VStr snapshot_path), (''ExportFormat'', VStr ''DYNAMODB_JSON'')])) (\<lambda>export_response.
     bindA (liftA (v_at export_response ''ExportDescription'')) (\<lambda>d. return (t, d))))"

text \<open>The body of the metadata file is the JSON text of this value.\<close>

definition put_metadata :: "'db env \<Rightarrow> string \<Rightarrow> string \<Rightarrow> val \<Rightarrow> ('db st, unit) act" where
  "put_metadata E s3_bucket_name snapshot_path metadata =
     do_call E (S3 ''put_object'' [(''Bucket'', VStr s3_bucket_name), (''Key'', VStr (metadata_key snapshot_path)),
       (''Body'', metadata)])"

definition on_aws_error :: "('s, 'a) act \<Rightarrow> (exn \<Rightarrow> ('s, 'a) act) \<Rightarrow> ('s, 'a) act" where
  "on_aws_error m h = catchA m (\<lambda>e. if is_client_error e then h e else raise e)"

definition create_snapshot :: "'db env \<Rightarrow> string option \<Rightarrow> string option \<Rightarrow> ('db st, unit) act" where
  "create_snapshot E s3_bucket_name snapshot_path =
     seqA (validate_input_of_snapshot s3_bucket_name snapshot_path)
    (let bucket = str_or_empty s3_bucket_name; path = str_or_empty snapshot_path in
     on_aws_error
       (bindA (map_each DYNAMODB_TABLES_TO_EXPORT (export_table E bucket path)) (\<lambda>descriptions.
        seqA (put_metadata E bucket path (VDict [(''table_export_descriptions'', VDict descriptions),
                (''version'', VStr (module_version (cfg E)))]))
             (snapshot_dao_create E bucket path SNAPSHOT_IN_PROGRESS None)))
       (\<lambda>e. seqA (snapshot_dao_create E bucket path SNAPSHOT_FAILED (Some (message_of (cfg E) e))) (raise e)))"

section \<open>The status of a snapshot\<close>

text \<open>\<open>Snapshot\<close> as the data class accepts a row.\<close>

record snapshot =
  sn_bucket :: "string option"
  sn_path :: "string option"
  sn_status :: "snapshot_status option"
  sn_created_on :: "int option"
  sn_failure_reason :: "string option"

definition snapshot_status_field :: "string option \<Rightarrow> exn + snapshot_status option" where
  "snapshot_status_field v = (case v of
      None \<Rightarrow> Inr None
    | Some s \<Rightarrow> (case find (\<lambda>x. snapshot_status_value x = s)
                    [SNAPSHOT_IN_PROGRESS, SNAPSHOT_COMPLETED, SNAPSHOT_FAILED] of
        None \<Rightarrow> Inl ValidationError | Some x \<Rightarrow> Inr (Some x)))"

definition snapshot_from_db :: "item \<Rightarrow> exn + snapshot" where
  "snapshot_from_db i =
     bindE (snapshot_status_field (get_value_as_string ''status'' i None)) (\<lambda>status.
     Inr \<lparr>sn_bucket = get_value_as_string ''s3_bucket_name'' i None,
          sn_path = get_value_as_string ''snapshot_path'' i None, sn_status = status,
          sn_created_on = get_value_as_int ''created_on'' i None,
          sn_failure_reason = get_value_as_string ''failure_reason'' i None\<rparr>)"

definition snapshot_key :: "snapshot \<Rightarrow> key" where
  "snapshot_key sn = (str_or_empty (sn_bucket sn), str_or_empty (sn_path sn))"

text \<open>
  What the loop over the tables has found: the descriptions, whether one changed, how many exports are
  complete, and the message of a failed one.
\<close>

record export_check =
  ec_descriptions :: "(string \<times> val) list"
  ec_updated :: bool
  ec_completed :: nat
  ec_failed :: bool
  ec_message :: val

definition export_status_of :: "val \<Rightarrow> exn + val" where
  "export_status_of description = v_at description ''ExportStatus''"

definition new_description :: "string \<Rightarrow> val \<Rightarrow> export_check \<Rightarrow> export_check" where
  "new_description t d c =
     c\<lparr>ec_descriptions := dict_set t d (ec_descriptions c), ec_updated := True\<rparr>"

definition check_running_export ::
  "'db env \<Rightarrow> string \<Rightarrow> val \<Rightarrow> export_check \<Rightarrow> ('db st, export_check) act" where
  "check_running_export E t description c =
     bindA (liftA (v_at description ''ExportArn'')) (\<lambda>export_arn.
     bindA (call E (DynamoDb ''describe_export'' [(''ExportArn'', export_arn)])) (\<lambda>r.
     bindA (liftA (v_at r ''ExportDescription'')) (\<lambda>latest.
     bindA (liftA (export_status_of latest)) (\<lambda>status.
     if status = VStr ''COMPLETED'' then return ((new_description t latest c)\<lparr>ec_completed := Suc (ec_completed c)\<rparr>)
     else if status = VStr ''FAILED'' then
       bindA (liftA (v_at latest ''FailureMessage'')) (\<lambda>m.
       return ((new_description t latest c)\<lparr>ec_failed := True, ec_message := m\<rparr>))
     else return c))))"

fun check_exports :: "'db env \<Rightarrow> string list \<Rightarrow> export_check \<Rightarrow> ('db st, export_check) act" where
  "check_exports E [] c = return c"
| "check_exports E (t # ts) c =
     bindA (liftA (v_at (VDict (ec_descriptions c)) t)) (\<lambda>description.
     bindA (liftA (export_status_of description)) (\<lambda>status.
     if status = VStr ''IN_PROGRESS'' then
       bindA (check_running_export E t description c) (check_exports E ts)
     else if status = VStr ''COMPLETED'' then check_exports E ts (c\<lparr>ec_completed := Suc (ec_completed c)\<rparr>)
     else return (c\<lparr>ec_failed := True, ec_updated := True,
       ec_message := VStr (''Invalid export status: '' @ py_str status @ '' for table '' @ t)\<rparr>)))"

definition no_check :: "(string \<times> val) list \<Rightarrow> export_check" where
  "no_check descriptions = \<lparr>ec_descriptions = descriptions, ec_updated = False, ec_completed = 0,
     ec_failed = False, ec_message = VStr []\<rparr>"

definition write_status :: "'db env \<Rightarrow> snapshot \<Rightarrow> (string \<times> val) list \<Rightarrow> export_check \<Rightarrow> ('db st, snapshot) act" where
  "write_status E sn metadata c =
     (if \<not> ec_updated c then return sn
      else
        seqA (put_metadata E (str_or_empty (sn_bucket sn)) (str_or_empty (sn_path sn))
                (VDict (dict_set ''table_export_descriptions'' (VDict (ec_descriptions c)) metadata)))
       (if ec_failed c then
          seqA (update_snapshot_status E (snapshot_key sn) SNAPSHOT_FAILED (Some (py_str (ec_message c))))
               (return (sn\<lparr>sn_status := Some SNAPSHOT_FAILED\<rparr>))
        else if ec_completed c = length DYNAMODB_TABLES_TO_EXPORT then
          seqA (update_snapshot_status E (snapshot_key sn) SNAPSHOT_COMPLETED None)
               (return (sn\<lparr>sn_status := Some SNAPSHOT_COMPLETED\<rparr>))
        else return sn))"

definition dict_arg :: "val \<Rightarrow> exn + (string \<times> val) list" where
  "dict_arg v = (case v of VDict d \<Rightarrow> Inr d | _ \<Rightarrow> Inl TypeError)"

definition update_status_of_snapshot :: "'db env \<Rightarrow> snapshot \<Rightarrow> ('db st, snapshot) act" where
  "update_status_of_snapshot E sn =
     on_aws_error
       (bindA (fetch_snapshot_metadata E (str_or_empty (sn_bucket sn)) (str_or_empty (sn_path sn))) (\<lambda>metadata.
        bindA (liftA (bindE (v_at metadata ''table_export_descriptions'') dict_arg)) (\<lambda>descriptions.
        bindA (check_exports E DYNAMODB_TABLES_TO_EXPORT (no_check descriptions)) (\<lambda>c.
        bindA (liftA (dict_arg metadata)) (\<lambda>metadata. write_status E sn metadata c)))))
       (\<lambda>e. seqA (update_snapshot_status E (snapshot_key sn) SNAPSHOT_FAILED (Some (message_of (cfg E) e)))
                 (return (sn\<lparr>sn_status := Some SNAPSHOT_FAILED\<rparr>)))"

text \<open>Listing the snapshots brings those that are in progress up to date.\<close>

definition list_snapshots :: "'db env \<Rightarrow> list_request \<Rightarrow> ('db st, snapshot list \<times> string option) act" where
  "list_snapshots E request =
     bindA (seqA (current_time_ms E) (list_rows E SnapshotRecords request)) (\<lambda>(db_snapshots, cursor).
     seqA (current_time_ms E)
    (seqA (current_time_ms E)
    (bindA (liftA (map_sum_list snapshot_from_db db_snapshots)) (\<lambda>listing.
     seqA (current_time_ms E)
    (bindA (map_each listing (\<lambda>sn. if sn_status sn = Some SNAPSHOT_IN_PROGRESS
              then update_status_of_snapshot E sn else return sn)) (\<lambda>listing.
     return (listing, cursor)))))))"

section \<open>The snapshots applied\<close>

record applied_snapshot =
  as_identifier :: "string option"
  as_bucket :: "string option"
  as_path :: "string option"
  as_status :: "apply_status option"
  as_created_on :: "int option"
  as_failure_reason :: "string option"

definition apply_status_field :: "val option \<Rightarrow> exn + apply_status option" where
  "apply_status_field v = (case v of
      None \<Rightarrow> Inr None
    | Some VNone \<Rightarrow> Inr None
    | Some (VStr s) \<Rightarrow> (case find (\<lambda>x. apply_status_value x = s)
          [IN_PROGRESS, COMPLETED, FAILED, ROLLBACK_IN_PROGRESS, ROLLBACK_COMPLETE, ROLLBACE_FAILED] of
        None \<Rightarrow> Inl ValidationError | Some x \<Rightarrow> Inr (Some x))
    | Some _ \<Rightarrow> Inl ValidationError)"

definition applied_from_db :: "item \<Rightarrow> exn + applied_snapshot" where
  "applied_from_db i =
     bindE (opt_str_field (i ''apply_snapshot_identifier'')) (\<lambda>identifier.
     bindE (opt_str_field (i ''s3_bucket_name'')) (\<lambda>bucket.
     bindE (opt_str_field (i ''snapshot_path'')) (\<lambda>path.
     bindE (apply_status_field (i ''status'')) (\<lambda>status.
     bindE (case i ''created_on'' of None \<Rightarrow> Inr None | Some VNone \<Rightarrow> Inr None | Some (VInt n) \<Rightarrow> Inr (Some n)
              | Some _ \<Rightarrow> Inl ValidationError) (\<lambda>created_on.
     bindE (opt_str_field (i ''failure_reason'')) (\<lambda>reason.
     Inr \<lparr>as_identifier = identifier, as_bucket = bucket, as_path = path, as_status = status,
          as_created_on = created_on, as_failure_reason = reason\<rparr>))))))"

definition list_applied_snapshots :: "'db env \<Rightarrow> list_request \<Rightarrow> ('db st, applied_snapshot list \<times> string option) act" where
  "list_applied_snapshots E request =
     bindA (list_rows E ApplySnapshots request) (\<lambda>(entries, cursor).
     bindA (liftA (map_sum_list applied_from_db entries)) (\<lambda>listing. return (listing, cursor)))"

section \<open>The APIs\<close>

text \<open>Every method needs an administrator or a scope of its own.\<close>

definition elevated_invoke ::
  "'db env \<Rightarrow> (string \<times> string \<times> ('rq \<Rightarrow> ('db st, 'r) act)) list \<Rightarrow> 'rq \<Rightarrow> ('db api, 'r) act" where
  "elevated_invoke E acl rq = bindA (ctxA ctx_namespace) (\<lambda>namespace. case map_of acl namespace of
      None \<Rightarrow> raise unauthorized_access
    | Some (scope, method) \<Rightarrow> bindA (is_authorized E True [scope]) (\<lambda>ok.
        if ok then on_db (method rq) else raise unauthorized_access))"

subsection \<open>SnapshotsAPI\<close>

record snapshots_payload =
  sp_snapshot :: "(string option \<times> string option) option"
  sp_list :: list_request

datatype snapshots_answer =
    Snapshot_Accepted
  | Applying apply_job
  | Snapshots_Listed "snapshot list" "string option"
  | Applied_Listed "applied_snapshot list" "string option"

definition with_snapshot ::
  "(string option \<Rightarrow> string option \<Rightarrow> ('s, snapshots_answer) act) \<Rightarrow> snapshots_payload \<Rightarrow> ('s, snapshots_answer) act" where
  "with_snapshot f rq = (case sp_snapshot rq of None \<Rightarrow> raise invalid_params | Some (b, p) \<Rightarrow> f b p)"

definition snapshots_methods ::
  "'db env \<Rightarrow> (string \<times> string \<times> (snapshots_payload \<Rightarrow> ('db st, snapshots_answer) act)) list" where
  "snapshots_methods E =
    (let r = module_scope (cfg E) ''read''; w = module_scope (cfg E) ''write'' in
     [(''Snapshots.CreateSnapshot'', w,
         with_snapshot (\<lambda>b p. seqA (create_snapshot E b p) (return Snapshot_Accepted))),
      (''Snapshots.ListSnapshots'', r,
         \<lambda>rq. bindA (list_snapshots E (sp_list rq)) (\<lambda>(l, c). return (Snapshots_Listed l c))),
      (''Snapshots.ApplySnapshot'', w,
         with_snapshot (\<lambda>b p. bindA (initialize E b p) (\<lambda>job. return (Applying job)))),
      (''Snapshots.ListAppliedSnapshots'', r,
         \<lambda>rq. bindA (list_applied_snapshots E (sp_list rq)) (\<lambda>(l, c). return (Applied_Listed l c)))])"

definition snapshots_methods_invoke :: "'db env \<Rightarrow> snapshots_payload \<Rightarrow> ('db api, snapshots_answer) act" where
  "snapshots_methods_invoke E = elevated_invoke E (snapshots_methods E)"

subsection \<open>FileSystemAPI\<close>

record filesystem_payload =
  fp_filesystem_name :: "string option"
  fp_project_name :: "string option"
  fp_create :: "exn + create_request"
  fp_onboard :: "exn + onboard_request"

datatype filesystem_answer = Filesystem_Done | In_Vpc vpc_filesystems

text \<open>A payload the data class refuses is a general error for a creation.\<close>

definition fs_done :: "('s, unit) act \<Rightarrow> ('s, filesystem_answer) act" where
  "fs_done m = seqA m (return Filesystem_Done)"

definition api_create_filesystem ::
  "('db env \<Rightarrow> create_request \<Rightarrow> ('db st, unit) act) \<Rightarrow> 'db env \<Rightarrow> filesystem_payload \<Rightarrow>
     ('db st, filesystem_answer) act" where
  "api_create_filesystem create E rq =
     fs_done (catchA (bindA (liftA (fp_create rq)) (create E))
       (\<lambda>e. raise (if e = ValidationError then general_exception else e)))"

definition api_onboard_filesystem ::
  "('db env \<Rightarrow> onboard_request \<Rightarrow> ('db st, unit) act) \<Rightarrow> 'db env \<Rightarrow> filesystem_payload \<Rightarrow>
     ('db st, filesystem_answer) act" where
  "api_onboard_filesystem onboard E rq = fs_done (bindA (liftA (fp_onboard rq)) (onboard E))"

definition filesystem_methods ::
  "'db env \<Rightarrow> (string \<times> string \<times> (filesystem_payload \<Rightarrow> ('db st, filesystem_answer) act)) list" where
  "filesystem_methods E =
    (let r = module_scope (cfg E) ''read''; w = module_scope (cfg E) ''write'' in
     [(''FileSystem.AddFileSystemToProject'', w,
         \<lambda>rq. fs_done (add_filesystem_to_project E (fp_filesystem_name rq) (fp_project_name rq))),
      (''FileSystem.RemoveFileSystemFromProject'', w,
         \<lambda>rq. fs_done (remove_filesystem_from_project E (fp_filesystem_name rq) (fp_project_name rq))),
      (''FileSystem.CreateEFS'', w, api_create_filesystem create_efs E),
      (''FileSystem.CreateONTAP'', w, api_create_filesystem create_fsx_ontap E),
      (''FileSystem.ListFSinVPC'', r, \<lambda>rq. bindA (list_file_systems_in_vpc E) (\<lambda>v. return (In_Vpc v))),
      (''FileSystem.OnboardEFSFileSystem'', w, api_onboard_filesystem onboard_efs_filesystem E),
      (''FileSystem.OnboardONTAPFileSystem'', w, api_onboard_filesystem onboard_ontap_filesystem E),
      (''FileSystem.OnboardLUSTREFileSystem'', w, api_onboard_filesystem onboard_lustre_filesystem E)])"

definition filesystem_methods_invoke :: "'db env \<Rightarrow> filesystem_payload \<Rightarrow> ('db api, filesystem_answer) act" where
  "filesystem_methods_invoke E = elevated_invoke E (filesystem_methods E)"

end
