(* ===== verification/Snapshot_Facts.thy ===== *)
theory Snapshot_Facts
  imports Snapshot_Frames Snapshots_Service
begin

text \<open>
  What is proved of the record of an application: however the thread that applies the snapshot ends, the
  record ends in a final status.
\<close>

section \<open>The record of an application\<close>

definition status_of :: "'db env \<Rightarrow> 'db st \<Rightarrow> string \<Rightarrow> val option" where
  "status_of E s i = (case row E s ApplySnapshots (i, []) of None \<Rightarrow> None | Some r \<Rightarrow> r ''status'')"

definition has_apply_status :: "'db env \<Rightarrow> 'db st \<Rightarrow> string \<Rightarrow> apply_status \<Rightarrow> bool" where
  "has_apply_status E s i x \<longleftrightarrow> status_of E s i = Some (VStr (apply_status_value x))"

definition final_status :: "apply_status \<Rightarrow> bool" where
  "final_status x \<longleftrightarrow> x \<in> {COMPLETED, FAILED, ROLLBACK_COMPLETE, ROLLBACE_FAILED}"

lemma apply_status_value_inject [simp]: "apply_status_value x = apply_status_value y \<longleftrightarrow> x = y"
  by (cases x; cases y) simp_all

lemma catch_returns:
  "catch_exception m h s = (Inr x, t) \<Longrightarrow> (\<And>e u. fst (h e u) \<noteq> Inr x) \<Longrightarrow> m s = (Inr x, t)"
  "catchA m h s = (Inr x, t) \<Longrightarrow> (\<And>e u. fst (h e u) \<noteq> Inr x) \<Longrightarrow> m s = (Inr x, t)"
  by (auto simp: catch_exception_def catchA_def split: prod.splits sum.splits if_splits) (metis fst_conv)+

lemma record_failure_raises: "fst (record_failure E b p n e s) \<noteq> Inr x"
  by (auto simp: record_failure_def seqA_def bindA_def split: prod.split sum.split)

lemma created_record: "map_of (new_apply_record b p x f n) ''status'' = Some (VStr (apply_status_value x))"
  "map_of (new_apply_record b p x f n) ''apply_snapshot_identifier'' = Some (VStr (b @ ''-'' @ p @ ''-'' @ int_str n))"
  by (cases f; simp add: new_apply_record_def)+

context dynamodb
begin

lemma spares_status: "spares_records E (\<lambda>d. ddb_get E d ApplySnapshots k = x)"
  by (auto simp: spares_records_def tolerates_def simp del: split_paired_All)

lemma status_kept:
  assumes "\<And>P. spares_records E P \<Longrightarrow> keeps (table_inv P) m" and "m s = (r, t)"
  shows "status_of E t i = status_of E s i"
  using keepsD [OF assms(1) [OF spares_status [of "(i, [])" "row E s ApplySnapshots (i, [])"]] _ assms(2)]
  by (simp add: table_inv_def status_of_def)

lemma is_key_record [simp]: "is_key ApplySnapshots (i, [])"
  by (simp add: is_key_def)

lemma status_written:
  assumes "has_apply_status E s i x" and "x \<noteq> y"
  shows "\<exists>t. update_status E i y m s = (Inr (), t) \<and> has_apply_status E t i y"
proof -
  define upd where "upd = [''status'' \<mapsto> VStr (apply_status_value y)] ++
      (case m of None \<Rightarrow> Map.empty
       | Some m \<Rightarrow> if m \<noteq> [] \<and> y \<in> {FAILED, ROLLBACK_IN_PROGRESS, ROLLBACK_COMPLETE, ROLLBACE_FAILED}
           then [''failure_reason'' \<mapsto> VStr m] else Map.empty)"
  let ?new = "set_attributes ApplySnapshots (i, []) (row E s ApplySnapshots (i, [])) upd"
  have "\<not> has_status (row E s ApplySnapshots (i, [])) (apply_status_value y)"
    using assms by (auto simp: has_apply_status_def status_of_def has_status_def split: option.splits)
  then have "update_status E i y m s = (Inr (), s\<lparr>st_db := ddb_put E (st_db s) ApplySnapshots ?new\<rparr>)"
    by (simp add: update_status_def upd_def)
  moreover have "?new ''status'' = Some (VStr (apply_status_value y))"
    by (simp add: set_attributes_def key_item_def schema_defs upd_def map_add_def split: option.split)
  ultimately show ?thesis by (simp add: has_apply_status_def status_of_def)
qed

lemma status_of_kept:
  assumes "\<And>P. spares_records E P \<Longrightarrow> keeps (table_inv P) m" and "m s = (r, t)" and "has_apply_status E s i x"
  shows "has_apply_status E t i x"
  using status_kept [OF assms(1,2)] assms(3) by (simp add: has_apply_status_def)

text \<open>How the merge phase may end when the record said that the application is in progress.\<close>

lemma rollback_raises: "rollback_merged_tables E m s = (Inl e, t) \<Longrightarrow> e = DoesNotReturn \<or> e = SocaException TABLE_ROLLBACK_FAILED"
  by (auto simp: rollback_merged_tables_def catch_exception_def catchA_def split: prod.splits sum.splits if_splits)

lemma merge_ends:
  assumes "has_apply_status E s (aj_identifier job) IN_PROGRESS"
    and "merge_transformed_data_for_all_tables E job data s = (r, t)" and "r \<noteq> Inl DoesNotReturn"
  shows "(\<exists>x. final_status x \<and> r = Inr () \<and> has_apply_status E t (aj_identifier job) x) \<or>
    (\<exists>e. r = Inl e \<and> has_apply_status E t (aj_identifier job) IN_PROGRESS)"
proof -
  let ?i = "aj_identifier job"
  obtain r1 s1 where m: "merge_tables E (get_snapshot_record_dedup_id job) data TABLES_IN_MERGE_DEPENDENCY_ORDER [] s = (r1, s1)"
    by force
  have st1: "has_apply_status E s1 ?i IN_PROGRESS"
    by (rule status_of_kept [OF keeps_merge_tables(1) m assms(1)])
  show ?thesis
  proof (cases r1)
    case (Inl e)
    then show ?thesis using m assms(2) st1 by (auto simp: merge_transformed_data_for_all_tables_def)
  next
    case (Inr fm)
    obtain failure merged where fm: "fm = (failure, merged)" by force
    show ?thesis
    proof (cases failure)
      case None
      then show ?thesis using status_written [OF st1, of COMPLETED None] Inr fm m assms(2)
        by (auto simp: merge_transformed_data_for_all_tables_def final_status_def)
    next
      case (Some c)
      let ?msg = "soca_message E c"
      obtain s2 where u2: "update_status E ?i ROLLBACK_IN_PROGRESS ?msg s1 = (Inr (), s2)"
        and st2: "has_apply_status E s2 ?i ROLLBACK_IN_PROGRESS" using status_written [OF st1] by blast
      obtain r3 s3 where rb: "rollback_merged_tables E merged s2 = (r3, s3)" by force
      have st3: "has_apply_status E s3 ?i ROLLBACK_IN_PROGRESS"
        by (rule status_of_kept [OF keeps_merge_tables(2) rb st2])
      have run: "merge_transformed_data_for_all_tables E job data s =
          catch_soca (seqA (rollback_merged_tables E merged) (update_status E ?i ROLLBACK_COMPLETE ?msg))
            (\<lambda>c'. update_status E ?i ROLLBACE_FAILED (soca_message E c')) s2"
        using m Inr fm Some u2 by (simp add: merge_transformed_data_for_all_tables_def)
      show ?thesis
      proof (cases r3)
        case (Inl e)
        then consider "e = DoesNotReturn" | "e = SocaException TABLE_ROLLBACK_FAILED" using rollback_raises rb by blast
        then show ?thesis
        proof cases
          case 1
          then show ?thesis using run rb Inl assms(2,3) by (simp add: catch_soca_def)
        next
          case 2
          obtain u where u: "update_status E ?i ROLLBACE_FAILED (soca_message E TABLE_ROLLBACK_FAILED) s3 = (Inr (), u)"
            and st: "has_apply_status E u ?i ROLLBACE_FAILED" using status_written [OF st3] by blast
          have "merge_transformed_data_for_all_tables E job data s = (Inr (), u)" using run rb Inl 2 u by simp
          then show ?thesis using st assms(2) by (auto simp: final_status_def)
        qed
      next
        case (Inr x)
        obtain u where u: "update_status E ?i ROLLBACK_COMPLETE ?msg s3 = (Inr (), u)"
          and st: "has_apply_status E u ?i ROLLBACK_COMPLETE" using status_written [OF st3] by blast
        have "merge_transformed_data_for_all_tables E job data s = (Inr (), u)" using run rb Inr u by simp
        then show ?thesis using st assms(2) by (auto simp: final_status_def)
      qed
    qed
  qed
qed

lemma steps_end:
  assumes "has_apply_status E s (aj_identifier job) IN_PROGRESS"
    and "apply_steps E job s = (r, t)" and "r \<noteq> Inl DoesNotReturn"
  shows "(\<exists>x. final_status x \<and> r = Inr () \<and> has_apply_status E t (aj_identifier job) x) \<or>
    (\<exists>e. r = Inl e \<and> has_apply_status E t (aj_identifier job) IN_PROGRESS)"
proof -
  let ?i = "aj_identifier job"
  obtain r1 s1 where i: "import_all_tables E job s = (r1, s1)" by force
  have st1: "has_apply_status E s1 ?i IN_PROGRESS" by (rule status_of_kept [OF keeps_table_import(1) i assms(1)])
  obtain r2 s2 where c: "scan_ddb_tables E job s1 = (r2, s2)" by force
  have st2: "has_apply_status E s2 ?i IN_PROGRESS" by (rule status_of_kept [OF keeps_table_import(2) c st1])
  show ?thesis
    using assms(2,3) i c st1 st2 merge_ends [OF st2]
    by (cases r1; cases r2; cases "apply_data_transformations (aj_version job) (projr r2)")
       (auto simp: apply_steps_def)
qed

lemma main_ends:
  assumes "has_apply_status E s (aj_identifier job) IN_PROGRESS"
    and "apply_snapshot_main E job s = (r, t)" and "r \<noteq> Inl DoesNotReturn"
  shows "\<exists>x. final_status x \<and> has_apply_status E t (aj_identifier job) x"
proof -
  let ?i = "aj_identifier job"
  let ?body = "catch_exception (apply_steps E job) (\<lambda>e. update_status E ?i FAILED (Some (message_of (cfg E) e)))"
  let ?clean = "delete_imported_tables E (map (get_temp_table_name (cfg E) (aj_created_on job)) (aj_tables job))"
  obtain r1 s1 where a: "apply_steps E job s = (r1, s1)" by force
  obtain r2 s2 where b: "?body s = (r2, s2)" by force
  obtain r3 s3 where c: "?clean s2 = (r3, s3)" by force
  have alive: "r2 \<noteq> Inl DoesNotReturn" using assms(2,3) b by (auto simp: apply_snapshot_main_def finallyA_def)
  then have "r1 \<noteq> Inl DoesNotReturn" using a b by (auto simp: catch_exception_def catchA_def)
  then have ends: "(\<exists>x. final_status x \<and> r1 = Inr () \<and> has_apply_status E s1 ?i x) \<or>
      (\<exists>e. r1 = Inl e \<and> has_apply_status E s1 ?i IN_PROGRESS)" by (rule steps_end [OF assms(1) a])
  have "\<exists>x. final_status x \<and> has_apply_status E s2 ?i x"
  proof (cases r1)
    case (Inl e)
    then have "has_apply_status E s1 ?i IN_PROGRESS" using ends by auto
    then obtain u where "update_status E ?i FAILED (Some (message_of (cfg E) e)) s1 = (Inr (), u)"
      and "has_apply_status E u ?i FAILED" using status_written by blast
    then show ?thesis using a b Inl \<open>r1 \<noteq> Inl DoesNotReturn\<close>
      by (auto simp: catch_exception_def final_status_def)
  next
    case (Inr x)
    then show ?thesis using a b ends by (auto simp: catch_exception_def)
  qed
  then obtain x where "final_status x" and st2: "has_apply_status E s2 ?i x" by blast
  moreover have "has_apply_status E s3 ?i x" by (rule status_of_kept [OF keeps_table_import(3) c st2])
  moreover have "t = s3" using assms(2) b c alive
    by (auto simp: apply_snapshot_main_def finallyA_def split: sum.splits exn.splits)
  ultimately show ?thesis by blast
qed

lemma initialized:
  assumes "initialize E b p s = (Inr job, t)"
  shows "has_apply_status E t (aj_identifier job) IN_PROGRESS"
proof -
  let ?b = "str_or_empty b" and ?p = "str_or_empty p"
  obtain n metadata u where m: "catch_exception
       (bindA (liftA (prepare_job ?b ?p n metadata)) (\<lambda>job.
        seqA (apply_dao_create E ?b ?p IN_PROGRESS None n) (return job))) (record_failure E ?b ?p n) u = (Inr job, t)"
    using assms by (auto simp: initialize_def Let_def act_inversions)
  have "bindA (liftA (prepare_job ?b ?p n metadata)) (\<lambda>job.
        seqA (apply_dao_create E ?b ?p IN_PROGRESS None n) (return job)) u = (Inr job, t)"
    by (rule catch_returns(1) [OF m]) (rule record_failure_raises)
  then obtain i where job: "prepare_job ?b ?p n metadata = Inr job"
    and "apply_dao_create E ?b ?p IN_PROGRESS None n u = (Inr i, t)"
    by (auto simp: act_inversions liftA_def)
  then have "db_put E ApplySnapshots (map_of (new_apply_record ?b ?p IN_PROGRESS None n)) u = (Inr (), t)"
    by (auto simp: apply_dao_create_def Let_def act_inversions)
  moreover have "aj_identifier job = ?b @ ''-'' @ ?p @ ''-'' @ int_str n"
    using job by (auto simp: prepare_job_def bindE_eq_Inr)
  moreover have "key_of ApplySnapshots (map_of (new_apply_record ?b ?p IN_PROGRESS None n)) =
      Some (?b @ ''-'' @ ?p @ ''-'' @ int_str n, [])"
    using created_record(2) [of ?b ?p IN_PROGRESS None n] by (simp add: key_of_def schema_defs)
  ultimately show ?thesis
    using created_record(1) [of ?b ?p IN_PROGRESS None n]
    by (auto simp: has_apply_status_def status_of_def)
qed

end

text \<open>
  C13. An accepted request to apply a snapshot leaves a record in the status IN_PROGRESS, and when the
  thread it starts ends, however it ends, the record is in a final status: COMPLETED, FAILED,
  ROLLBACK_COMPLETE or ROLLBACK_FAILED. In between other requests may run as long as they leave the
  record alone; the only way not to get there is a loop that waits for ever for an answer of AWS.
\<close>

theorem applying_a_snapshot_ends_in_a_final_status:
  assumes "dynamodb E" and "initialize E s3_bucket_name snapshot_path s = (Inr job, s1)"
    and "status_of E s2 (aj_identifier job) = status_of E s1 (aj_identifier job)"
    and "apply_snapshot_main E job s2 = (r, t)" and "r \<noteq> Inl DoesNotReturn"
  shows "has_apply_status E s1 (aj_identifier job) IN_PROGRESS \<and>
    (\<exists>x \<in> {COMPLETED, FAILED, ROLLBACK_COMPLETE, ROLLBACE_FAILED}. has_apply_status E t (aj_identifier job) x)"
proof -
  have "has_apply_status E s1 (aj_identifier job) IN_PROGRESS" by (rule dynamodb.initialized [OF assms(1,2)])
  then show ?thesis using dynamodb.main_ends [OF assms(1) _ assms(4,5)] assms(3)
    by (auto simp: has_apply_status_def final_status_def)
qed

text \<open>A snapshot of no table the program applies.\<close>

definition empty_snapshot :: val where
  "empty_snapshot = VDict [(''version'', VStr ''2024.04''), (''table_export_descriptions'', VDict [(''modules'', VNone)])]"

definition snapshot_env :: "mem_db env" where
  "snapshot_env = mem_env None (local_world\<lparr>ext_result := \<lambda>_ _. Inr (VDict [(''Body'', VStr ''metadata'')]),
     from_json := \<lambda>_. Inr empty_snapshot\<rparr>)"

definition snapshot_job :: apply_job where
  "snapshot_job = \<lparr>aj_bucket = ''bucket'', aj_path = ''path'', aj_created_on = 0, aj_version = ''2024.04'',
     aj_descriptions = VDict [(''modules'', VNone)], aj_tables = [], aj_keys = [], aj_identifier = ''bucket-path-0''\<rparr>"

lemma empty_snapshot_job: "prepare_job ''bucket'' ''path'' 0 empty_snapshot = Inr snapshot_job"
  by code_simp

lemma valid_request: "validate_input_of_snapshot (Some ''bucket'') (Some ''path'') s = (Inr (), s)"
proof -
  have "matches_bucket_name ''bucket'' \<and> matches_snapshot_path ''path'' \<and> \<not> blank ''bucket'' \<and> \<not> blank ''path''"
    by code_simp
  then show ?thesis by (simp add: validate_input_of_snapshot_def)
qed

lemma snapshot_world [simp]: "cfg snapshot_env = local_world\<lparr>ext_result := \<lambda>_ _. Inr (VDict [(''Body'', VStr ''metadata'')]),
    from_json := \<lambda>_. Inr empty_snapshot\<rparr>"
  by (simp add: snapshot_env_def)

lemma no_shared_storage: "shared_filesystems (cfg snapshot_env) [] = Inl AttributeError"
  by code_simp

lemma base_permissions_found:
  assumes "st_config s = []"
  shows "\<exists>ts t. get_base_permissions snapshot_env s = (Inr ts, t) \<and> st_config t = [] \<and> st_db t = st_db s"
  using assms by (simp add: get_base_permissions_def client_call_def invoke_alt_def catch_exception_def answer_error_def)

lemma nothing_onboarded_here:
  "st_config t = [] \<Longrightarrow> onboarded_ids snapshot_env t = (Inl AttributeError, t)"
  using no_shared_storage by (simp add: onboarded_ids_def list_shared_filesystems_def del: snapshot_world)

lemma nothing_merged:
  assumes "st_config s = []"
  shows "\<exists>t. apply_steps snapshot_env snapshot_job s = (Inl AttributeError, t) \<and> st_db t = st_db s"
proof -
  have tr: "apply_data_transformations ''2024.04'' [] = Inr []"
    by (simp add: apply_data_transformations_def index_of_def RES_VERSION_IN_TOPOLOGICAL_ORDER_def
        transformation_from_version_def)
  obtain ts t where p: "get_base_permissions snapshot_env s = (Inr ts, t)" and "st_config t = []"
    and db: "st_db t = st_db s"
    using base_permissions_found [OF assms] by blast
  then have o: "onboarded_ids snapshot_env t = (Inl AttributeError, t)" using nothing_onboarded_here by blast
  show ?thesis using p o tr db
    by (simp add: apply_steps_def import_all_tables_def scan_ddb_tables_def snapshot_job_def
        merge_transformed_data_for_all_tables_def TABLES_IN_MERGE_DEPENDENCY_ORDER_def merge_table_def
        users_merge_def profiles_merge_def projects_merge_def stacks_merge_def filesystems_merge_def deltas_of_def
        catch_exception_def catch_soca_def)
qed

lemma snapshot_initialized:
  "\<exists>s1. initialize snapshot_env (Some ''bucket'') (Some ''path'') (local_state []) = (Inr snapshot_job, s1) \<and>
     st_config s1 = []"
proof -
  have filled: "\<not> blank ''bucket'' \<and> \<not> blank ''path''" by code_simp
  have "int_str 0 = ''0''" by code_simp
  then have "key_of ApplySnapshots (map_of (new_apply_record ''bucket'' ''path'' IN_PROGRESS None 0)) = Some (''bucket-path-0'', [])"
    using created_record(2) [of "''bucket''" "''path''" IN_PROGRESS None 0]
    by (simp add: key_of_def schema_defs)
  then show ?thesis using filled
    by (simp add: initialize_def valid_request fetch_snapshot_metadata_def v_at_def empty_snapshot_job
        catch_exception_def apply_dao_create_def Let_def local_world_def)
qed

theorem applying_a_snapshot_ends_in_a_final_status_witness:
  "\<exists>s1 r t x. initialize snapshot_env (Some ''bucket'') (Some ''path'') (local_state []) = (Inr snapshot_job, s1) \<and>
     has_apply_status snapshot_env s1 ''bucket-path-0'' IN_PROGRESS \<and>
     apply_snapshot_main snapshot_env snapshot_job s1 = (r, t) \<and> has_apply_status snapshot_env t ''bucket-path-0'' x \<and>
     x \<noteq> IN_PROGRESS"
proof -
  have dyn: "dynamodb snapshot_env" unfolding snapshot_env_def by (rule mem_dynamodb)
  obtain s1 where i: "initialize snapshot_env (Some ''bucket'') (Some ''path'') (local_state []) = (Inr snapshot_job, s1)"
    and c: "st_config s1 = []" using snapshot_initialized by blast
  have st: "has_apply_status snapshot_env s1 ''bucket-path-0'' IN_PROGRESS"
    using dynamodb.initialized [OF dyn i] by (simp add: snapshot_job_def)
  obtain t where a: "apply_steps snapshot_env snapshot_job s1 = (Inl AttributeError, t)" and "st_db t = st_db s1"
    using nothing_merged [OF c] by blast
  then have "has_apply_status snapshot_env t ''bucket-path-0'' IN_PROGRESS"
    using st by (simp add: has_apply_status_def status_of_def)
  then obtain u where "update_status snapshot_env ''bucket-path-0'' FAILED (Some ''failed'') t = (Inr (), u)"
    using dynamodb.status_written [OF dyn, of t "''bucket-path-0''" IN_PROGRESS FAILED "Some ''failed''"] by auto
  then have m: "apply_snapshot_main snapshot_env snapshot_job s1 = (Inr (), u)"
    using a by (simp add: apply_snapshot_main_def finallyA_def catch_exception_def snapshot_job_def
        delete_imported_tables_def local_world_def)
  show ?thesis
    using applying_a_snapshot_ends_in_a_final_status [OF dyn i refl m] i m by (auto simp: snapshot_job_def)
qed

end
