(* ===== verification/Snapshot_Rollback.thy ===== *)
theory Snapshot_Rollback
  imports Snapshot_Facts
begin

text \<open>
  Merging and rolling back: what a merger promises and its roll-back relies on is stated by the locale
  \<open>table_merger\<close>; inside it the roll-back of all deltas is proved to restore what the merger
  changed, although the deltas are taken back in the order they were made. The merger of the users
  keeps these promises.
\<close>

section \<open>The contract of a merger\<close>

text \<open>
  \<open>view s k\<close> is what the merger may change under the key \<open>k\<close>, \<open>slot x\<close> the key of the record
  \<open>x\<close>. A step that answers a delta changed the slot of its record alone, from \<open>v\<close> to \<open>v'\<close>
  (\<open>made x d v v'\<close>); any other step changed nothing. Undoing a delta brings the slot from
  \<open>v'\<close> back to \<open>v\<close> and changes nothing else.
\<close>

locale table_merger =
  fixes step :: "'x \<Rightarrow> ('s, outcome) act" and undo :: "delta \<Rightarrow> ('s, unit) act"
    and good :: "'s \<Rightarrow> bool" and view :: "'s \<Rightarrow> 'k \<Rightarrow> 'v" and slot :: "'x \<Rightarrow> 'k" and fits :: "'x \<Rightarrow> bool"
    and made :: "'x \<Rightarrow> delta \<Rightarrow> 'v \<Rightarrow> 'v \<Rightarrow> bool"
  assumes merged: "fits x \<Longrightarrow> good s \<Longrightarrow> step x s = (Inr (Merged d), t) \<Longrightarrow>
      good t \<and> made x d (view s (slot x)) (view t (slot x)) \<and> (\<forall>k. k \<noteq> slot x \<longrightarrow> view t k = view s k)"
    and not_merged: "fits x \<Longrightarrow> good s \<Longrightarrow> step x s = (Inr r, t) \<Longrightarrow> \<forall>d. r \<noteq> Merged d \<Longrightarrow>
      good t \<and> view t = view s"
    and undone: "made x d v v' \<Longrightarrow> good s \<Longrightarrow> view s (slot x) = v' \<Longrightarrow>
      \<exists>t. undo d s = (Inr (), t) \<and> good t \<and> view t (slot x) = v \<and> (\<forall>k. k \<noteq> slot x \<longrightarrow> view t k = view s k)"
begin

text \<open>
  How the view \<open>g\<close> differs from the view \<open>f\<close> after the records of the list were merged with their
  deltas, each in a slot of its own.
\<close>

fun differs :: "('x \<times> delta) list \<Rightarrow> ('k \<Rightarrow> 'v) \<Rightarrow> ('k \<Rightarrow> 'v) \<Rightarrow> bool" where
  "differs [] f g \<longleftrightarrow> g = f"
| "differs ((x, d) # es) f g \<longleftrightarrow> made x d (f (slot x)) (g (slot x)) \<and> slot x \<notin> slot ` fst ` set es \<and>
     differs es (f(slot x := g (slot x))) g"

lemma differs_elsewhere: "differs es f g \<Longrightarrow> k \<notin> slot ` fst ` set es \<Longrightarrow> g k = f k"
  by (induction es f g rule: differs.induct) auto

lemma differs_update: "differs es f g \<Longrightarrow> k \<notin> slot ` fst ` set es \<Longrightarrow> differs es (f(k := a)) (g(k := a))"
proof (induction es f g rule: differs.induct)
  case (2 x d es f g)
  have ne: "slot x \<noteq> k" and k: "k \<notin> slot ` fst ` set es" using 2(3) by auto
  have same: "(f(k := a)) (slot x) = f (slot x)" "(g(k := a)) (slot x) = g (slot x)" using ne by simp_all
  have d: "made x d (f (slot x)) (g (slot x))" "slot x \<notin> slot ` fst ` set es" "differs es (f(slot x := g (slot x))) g"
    using 2(2) by simp_all
  have "differs es ((f(slot x := g (slot x)))(k := a)) (g(k := a))" by (rule 2(1) [OF d(3) k])
  moreover have "(f(slot x := g (slot x)))(k := a) = (f(k := a))(slot x := g (slot x))" by (rule fun_upd_twist [OF ne])
  ultimately show ?case unfolding differs.simps same using d by simp
qed simp

lemma merging_differs:
  "merge_records step xs ds0 s = (Inr (ds, ok), t) \<Longrightarrow> \<forall>x \<in> set xs. fits x \<Longrightarrow> distinct (map slot xs) \<Longrightarrow> good s \<Longrightarrow>
     \<exists>es. ds = ds0 @ map snd es \<and> good t \<and> differs es (view s) (view t) \<and> fst ` set es \<subseteq> set xs"
proof (induction xs arbitrary: ds0 s)
  case Nil
  then show ?case by (intro exI [of _ "[]"]) simp
next
  case (Cons x xs)
  obtain r u where x: "step x s = (Inr r, u)"
    and rest: "(case r of Skip \<Rightarrow> merge_records step xs ds0 | Give_Up \<Rightarrow> return (ds0, False)
      | Merged d \<Rightarrow> merge_records step xs (ds0 @ [d])) u = (Inr (ds, ok), t)"
    using Cons.prems(1) by (auto simp: bindA_eq_Inr)
  have fits: "fits x" "\<forall>x \<in> set xs. fits x" and dist: "distinct (map slot xs)" "slot x \<notin> slot ` set xs"
    using Cons.prems(2,3) by auto
  show ?case
  proof (cases r)
    case Skip
    then have "good u" and "view u = view s" using not_merged [OF fits(1) Cons.prems(4) x] by auto
    moreover have "merge_records step xs ds0 u = (Inr (ds, ok), t)" using rest Skip by simp
    ultimately obtain es where "ds = ds0 @ map snd es" "good t" "differs es (view s) (view t)" "fst ` set es \<subseteq> set xs"
      using Cons.IH [of ds0 u] fits(2) dist(1) by auto
    then show ?thesis by (intro exI [of _ es]) auto
  next
    case Give_Up
    then have "good u" and "view u = view s" using not_merged [OF fits(1) Cons.prems(4) x] by auto
    then show ?thesis using rest Give_Up by (intro exI [of _ "[]"]) simp
  next
    case (Merged d)
    then have u: "good u" "made x d (view s (slot x)) (view u (slot x))" "\<And>k. k \<noteq> slot x \<Longrightarrow> view u k = view s k"
      using merged [OF fits(1) Cons.prems(4)] x by auto
    have "merge_records step xs (ds0 @ [d]) u = (Inr (ds, ok), t)" using rest Merged by simp
    then obtain es where es: "ds = (ds0 @ [d]) @ map snd es" "good t" "differs es (view u) (view t)" "fst ` set es \<subseteq> set xs"
      using Cons.IH [of "ds0 @ [d]" u] fits(2) dist(1) u(1) by auto
    have fresh: "slot x \<notin> slot ` fst ` set es" using es(4) dist(2) by auto
    have "view t (slot x) = view u (slot x)" using differs_elsewhere [OF es(3) fresh] .
    moreover from this have "view u = (view s)(slot x := view t (slot x))" using u(3) by auto
    ultimately have "differs ((x, d) # es) (view s) (view t)" using es(3) u(2) fresh by simp
    then show ?thesis using es by (intro exI [of _ "(x, d) # es"]) auto
  qed
qed

lemma rolling_back:
  "differs es f (view t) \<Longrightarrow> good t \<Longrightarrow> \<exists>u. rollback_records undo (map snd es) t = (Inr (), u) \<and> good u \<and> view u = f"
proof (induction es arbitrary: t)
  case Nil
  then show ?case by (simp add: rollback_records_def)
next
  case (Cons e es)
  obtain x d where e: "e = (x, d)" by (cases e)
  then have made: "made x d (f (slot x)) (view t (slot x))" and fresh: "slot x \<notin> slot ` fst ` set es"
    and rest: "differs es (f(slot x := view t (slot x))) (view t)" using Cons.prems(1) by auto
  obtain u where u: "undo d t = (Inr (), u)" "good u" "view u (slot x) = f (slot x)"
      "\<And>k. k \<noteq> slot x \<Longrightarrow> view u k = view t k"
    using undone [OF made Cons.prems(2) refl] by auto
  then have "view u = (view t)(slot x := f (slot x))" by auto
  then have "differs es f (view u)" using differs_update [OF rest fresh, of "f (slot x)"] by simp
  then show ?case using Cons.IH [OF _ u(2)] u(1) by (auto simp: e rollback_records_def)
qed

lemma rollback_restores:
  assumes "merge_records step xs [] s = (Inr (ds, ok), t)" and "\<forall>x \<in> set xs. fits x"
    and "distinct (map slot xs)" and "good s"
  shows "\<exists>u. rollback_records undo ds t = (Inr (), u) \<and> good u \<and> view u = view s"
  using merging_differs [OF assms] rolling_back by fastforce

end

section \<open>The merger of the users\<close>

text \<open>What a merge may change is the role of a user.\<close>

definition role_of :: "'db env \<Rightarrow> 'db st \<Rightarrow> string \<Rightarrow> val option" where
  "role_of E s n = (case row E s Users (n, []) of None \<Rightarrow> None | Some i \<Rightarrow> i ''role'')"

definition role_value :: "val option \<Rightarrow> bool" where
  "role_value v \<longleftrightarrow> v = Some (VStr ''admin'') \<or> v = Some (VStr ''user'')"

text \<open>
  The users as the services write them: normalised names, rows the data class accepts, one of the two
  roles, and the cluster administrator an administrator.
\<close>

definition users_ok :: "'db env \<Rightarrow> 'db st \<Rightarrow> bool" where
  "users_ok E s \<longleftrightarrow> (\<forall>n i. row E s Users (n, []) = Some i \<longrightarrow>
     norm_name n \<and> (\<exists>u. user_from_db i = Inr u) \<and> role_value (i ''role'') \<and>
     (n = cluster_administrator (cfg E) \<longrightarrow> i ''role'' = Some (VStr ''admin'')))"

definition row_name :: "item \<Rightarrow> string" where
  "row_name i = (case i ''username'' of Some (VStr n) \<Rightarrow> n | _ \<Rightarrow> [])"

definition named_row :: "item \<Rightarrow> bool" where
  "named_row i \<longleftrightarrow> i ''username'' = Some (VStr (row_name i)) \<and> norm_name (row_name i)"

definition role_merged :: "'db env \<Rightarrow> item \<Rightarrow> delta \<Rightarrow> val option \<Rightarrow> val option \<Rightarrow> bool" where
  "role_merged E i d v v' \<longleftrightarrow> action_performed d = UPDATE \<and> norm_name (row_name i) \<and> v' \<noteq> None \<and> role_value v \<and>
     (row_name i = cluster_administrator (cfg E) \<longrightarrow> v = Some (VStr ''admin'')) \<and>
     (\<exists>u. original_record d = Some (user_to_db u) \<and> u_username u = Some (row_name i) \<and> v = map_option VStr (u_role u))"

lemma named_value: "i ''username'' = Some (VStr n) \<Longrightarrow> norm_name n \<Longrightarrow> get_value_as_string ''username'' i None = Some n"
  by (simp add: get_value_as_string_VStr norm_name_def)

lemma user_read:
  "user_from_db i = Inr u \<Longrightarrow> i ''username'' = Some (VStr n) \<Longrightarrow> norm_name n \<Longrightarrow> u_username u = Some n"
  "user_from_db i = Inr u \<Longrightarrow> role_value (i ''role'') \<Longrightarrow> i ''role'' = map_option VStr (u_role u)"
  by (auto simp: user_from_db_def bindE_eq_Inr named_value role_value_def opt_str_field_def)

lemma user_accepted: "(\<exists>u. user_from_db i = Inr u) \<longleftrightarrow>
    (\<exists>a. opt_list_field (get_value_as_list ''additional_groups'' i None) = Inr a) \<and> (\<exists>b. opt_str_field (i ''role'') = Inr b) \<and>
    (\<exists>c. int_of_attr (i ''synced_on'') = Inr c) \<and> (\<exists>e. opt_bool_field (i ''is_active'') = Inr e)"
  by (auto simp: user_from_db_def bindE_eq_Inr)

lemma user_reread:
  assumes "u_username u = Some n" and "norm_name n"
  shows "\<exists>w. user_from_db (user_to_db u) = Inr w \<and> u_username w = Some n \<and> u_role w = u_role u"
proof -
  let ?d = "user_to_db u"
  have "get_value_as_string ''username'' ?d None = Some n"
    using assms by (intro named_value) (simp_all add: user_to_db_def)
  moreover have "?d ''additional_groups'' = map_option strs (u_additional_groups u)"
    and "?d ''role'' = map_option VStr (u_role u)" and "?d ''synced_on'' = None"
    and "?d ''is_active'' = map_option VBool (u_is_active u)"
    by (simp_all add: user_to_db_def)
  ultimately show ?thesis by (simp add: user_from_db_def read_list int_of_attr_def)
qed

text \<open>The row of a user whose role is written.\<close>

definition with_role :: "item \<Rightarrow> string \<Rightarrow> string \<Rightarrow> bool \<Rightarrow> int \<Rightarrow> item" where
  "with_role i n r b now = set_attributes Users (n, []) (Some i)
     (without_keys [''username'', ''created_on''] [''username'' \<mapsto> VStr n, ''role'' \<mapsto> VStr r, ''sudo'' \<mapsto> VBool b, ''updated_on'' \<mapsto> VInt now])"

lemma with_role_values:
  "with_role i n r b now ''role'' = Some (VStr r)"
  "k \<notin> {''role'', ''sudo'', ''updated_on'', ''username''} \<Longrightarrow> with_role i n r b now k = i k"
  by (simp_all add: with_role_def set_attributes_def key_item_def schema_defs without_keys_def map_add_def restrict_map_def
      split: option.split)

lemma with_role_accepted: "\<exists>u. user_from_db i = Inr u \<Longrightarrow> \<exists>u. user_from_db (with_role i n r b now) = Inr u"
proof -
  assume "\<exists>u. user_from_db i = Inr u"
  moreover have "get_value_as_list ''additional_groups'' (with_role i n r b now) None = get_value_as_list ''additional_groups'' i None"
    by (simp add: get_value_as_list_def value_exists_def with_role_values)
  ultimately show ?thesis by (simp add: user_accepted with_role_values opt_str_field_def)
qed

context dynamodb
begin

lemma role_written:
  assumes "users_ok E s" and "row E s Users (n, []) = Some i" and "norm_name n" and "r \<in> {''admin'', ''user''}"
    and "n = cluster_administrator (cfg E) \<Longrightarrow> r = ''admin''"
    and "user_dao_update_user E [''username'' \<mapsto> VStr n, ''role'' \<mapsto> VStr r, ''sudo'' \<mapsto> VBool b] s = (x, t)"
  shows "(\<exists>u. x = Inr u) \<and> users_ok E t \<and> role_of E t n = Some (VStr r) \<and> (\<forall>k. k \<noteq> n \<longrightarrow> role_of E t k = role_of E s k)"
proof -
  let ?i = "with_role i n r b (time_at (cfg E) (st_ticks s))"
  have t: "(\<exists>u. x = Inr u) \<and> st_db t = ddb_put E (st_db s) Users ?i"
    using assms(2,3,6) by (auto simp: user_dao_update_user_def get_value_as_string_VStr norm_name_def with_role_def)
  have "key_of Users ?i = Some (n, [])" by (simp add: with_role_def key_of_set_attributes)
  then have rows: "row E t Users (k, []) = (if k = n then Some ?i else row E s Users (k, []))" for k using t by simp
  have "\<exists>u. user_from_db ?i = Inr u" using with_role_accepted assms(1,2) unfolding users_ok_def by blast
  then have "users_ok E t"
    using assms(1,3-5) rows unfolding users_ok_def by (auto simp: with_role_values role_value_def)
  then show ?thesis using t rows by (simp add: role_of_def with_role_values)
qed

lemma role_applied:
  assumes "users_ok E s" and "row E s Users (n, []) = Some i" and "norm_name n" and "u_username u = Some n"
    and "n = cluster_administrator (cfg E) \<Longrightarrow> u_role u = Some ''admin''"
  shows "\<exists>t. apply_role E u s = (Inr (), t) \<and> users_ok E t \<and>
    role_of E t n = Some (VStr (if u_role u = Some ''admin'' then ''admin'' else ''user'')) \<and>
    (\<forall>k. k \<noteq> n \<longrightarrow> role_of E t k = role_of E s k)"
proof -
  let ?s = "s\<lparr>st_ticks := st_ticks s + 2\<rparr>"
  let ?r = "if u_role u = Some ''admin'' then ''admin'' else ''user''"
  let ?upd = "user_dao_update_user E [''username'' \<mapsto> VStr n, ''role'' \<mapsto> VStr ?r, ''sudo'' \<mapsto> VBool (u_role u = Some ''admin'')] ?s"
  obtain x t where upd: "?upd = (x, t)" by (cases ?upd)
  have ok: "users_ok E ?s" and same: "role_of E ?s k = role_of E s k" for k using assms(1) by (simp_all add: users_ok_def role_of_def)
  have "apply_role E u s = (if i ''role'' = Some (VStr ?r) then (Inr (), ?s) else seqA (\<lambda>_. ?upd) (return ()) ?s)"
  proof (cases "u_role u = Some ''admin''")
    case True
    then show ?thesis using assms(2-4)
      by (simp add: apply_role_def add_admin_user_def norm_name_not_blank user_dao_get_user_run seqA_def bindA_def)
  next
    case False
    then have "n \<noteq> cluster_administrator (cfg E)" using assms(5) by blast
    then show ?thesis using False assms(2-4)
      by (simp add: apply_role_def remove_admin_user_def norm_name_not_blank user_dao_get_user_run
          is_cluster_administrator_def seqA_def bindA_def)
  qed
  moreover have "(\<exists>u. x = Inr u) \<and> users_ok E t \<and> role_of E t n = Some (VStr ?r) \<and> (\<forall>k. k \<noteq> n \<longrightarrow> role_of E t k = role_of E ?s k)"
    by (rule role_written [OF ok _ assms(3) _ _ upd]) (use assms(2,5) in auto)
  ultimately show ?thesis
    using upd ok same assms(2) by (cases "i ''role'' = Some (VStr ?r)") (auto simp: seqA_def bindA_def role_of_def)
qed

text \<open>What is merged: a role that differs is applied, and the delta remembers the user as it was.\<close>

lemma looked_up:
  assumes "norm_name n" and "u_username u = Some n" and "look_up_user E u s = (Inr v, t)"
  shows "t = s\<lparr>st_ticks := st_ticks s + 2\<rparr> \<and> (\<forall>w. v = Some (Some w) \<longrightarrow>
    (\<exists>i. row E s Users (n, []) = Some i \<and> user_from_db i = Inr w))"
proof -
  have "get_user E n s = (case row E s Users (n, []) of None \<Rightarrow> Inl user_not_found | Some i \<Rightarrow> user_from_db i,
      s\<lparr>st_ticks := st_ticks s + 2\<rparr>)"
    using assms(1) by (simp add: get_user_def norm_name_not_blank user_dao_get_user_run raise_def split: option.split)
  then show ?thesis using assms(2,3)
    by (cases "row E s Users (n, [])"; cases "user_from_db (the (row E s Users (n, [])))")
       (auto simp: look_up_user_def catch_exception_def catchA_def user_not_found_def raise_def split: if_splits exn.splits)
qed

lemma user_merge_step:
  assumes "named_row x" and "users_ok E s" and "merge_user E x s = (Inr r, t)"
  shows "users_ok E t \<and>
    (case r of Merged d \<Rightarrow> role_merged E x d (role_of E s (row_name x)) (role_of E t (row_name x)) \<and>
        (\<forall>k. k \<noteq> row_name x \<longrightarrow> role_of E t k = role_of E s k)
     | _ \<Rightarrow> role_of E t = role_of E s)"
proof -
  let ?n = "row_name x" and ?s = "s\<lparr>st_ticks := st_ticks s + 2\<rparr>"
  have ok: "users_ok E ?s" and same: "role_of E ?s = role_of E s"
    using assms(2) unfolding users_ok_def role_of_def by (auto simp: fun_eq_iff)
  have n: "norm_name ?n" "x ''username'' = Some (VStr ?n)" using assms(1) by (simp_all add: named_row_def)
  obtain u v t' where u: "user_from_db x = Inr u" and v: "look_up_user E u s = (Inr v, t')"
    and rest: "(case v of None \<Rightarrow> return Skip | Some None \<Rightarrow> return Give_Up
      | Some (Some w) \<Rightarrow> if u_role u = u_role w then return Skip
         else give_up (seqA (apply_role E u) (return (Merged \<lparr>original_record = Some (user_to_db w), snapshot_record = x,
           resolved_record = Map.empty, resolved_first_key = [], action_performed = UPDATE\<rparr>)))) t' = (Inr r, t)"
    using assms(3) by (auto simp: merge_user_def act_inversions liftA_def)
  have name: "u_username u = Some ?n" using user_read(1) [OF u n(2,1)] .
  have t': "t' = ?s" using looked_up [OF n(1) name v] by blast
  show ?thesis
  proof (cases "\<exists>w. v = Some (Some w) \<and> u_role u \<noteq> u_role w")
    case False
    then have "(r = Skip \<or> r = Give_Up) \<and> t = ?s" using rest t' by (auto split: option.splits if_splits)
    then show ?thesis using ok same by auto
  next
    case True
    then obtain w i where w: "v = Some (Some w)" "u_role u \<noteq> u_role w" and i: "row E s Users (?n, []) = Some i"
      "user_from_db i = Inr w" using looked_up [OF n(1) name v] by blast
    then have good: "role_value (i ''role'')" "?n = cluster_administrator (cfg E) \<longrightarrow> i ''role'' = Some (VStr ''admin'')"
      using assms(2) unfolding users_ok_def by blast+
    have wr: "i ''role'' = map_option VStr (u_role w)" using user_read(2) [OF i(2) good(1)] .
    have "i ''username'' = Some (VStr ?n)" using row_key [OF i(1)] by (auto simp: key_of_def schema_defs split: option.splits val.splits)
    then have wn: "u_username w = Some ?n" using user_read(1) [OF i(2) _ n(1)] by blast
    show ?thesis
    proof (cases "?n = cluster_administrator (cfg E) \<and> u_role u \<noteq> Some ''admin''")
      case True
      then have "apply_role E u ?s = (Inl invalid_operation, ?s)"
        using name n(1) by (simp add: apply_role_def remove_admin_user_def norm_name_not_blank is_cluster_administrator_def)
      then have "r = Give_Up \<and> t = ?s" using rest t' w
        by (auto simp: give_up_def catch_exception_def catchA_def invalid_operation_def)
      then show ?thesis using ok same by simp
    next
      case False
      then obtain t2 where a: "apply_role E u ?s = (Inr (), t2)" "users_ok E t2" "role_of E t2 ?n \<noteq> None"
        "\<forall>k. k \<noteq> ?n \<longrightarrow> role_of E t2 k = role_of E ?s k"
        using role_applied [OF ok _ n(1) name, of i] i(1) by auto
      then have "r = Merged \<lparr>original_record = Some (user_to_db w), snapshot_record = x,
           resolved_record = Map.empty, resolved_first_key = [], action_performed = UPDATE\<rparr> \<and> t = t2"
        using rest t' w by (auto simp: give_up_def catch_exception_def)
      moreover have "role_of E s ?n = i ''role''" using i(1) by (simp add: role_of_def)
      ultimately show ?thesis using a same n(1) good wr wn by (auto simp: role_merged_def)
    qed
  qed
qed

lemma user_undone:
  assumes "role_merged E x d v v'" and "users_ok E s" and "role_of E s (row_name x) = v'"
  shows "\<exists>t. undo_user E d s = (Inr (), t) \<and> users_ok E t \<and> role_of E t (row_name x) = v \<and>
    (\<forall>k. k \<noteq> row_name x \<longrightarrow> role_of E t k = role_of E s k)"
proof -
  obtain u where u: "original_record d = Some (user_to_db u)" "u_username u = Some (row_name x)" "v = map_option VStr (u_role u)"
    and d: "action_performed d = UPDATE" "norm_name (row_name x)" "v' \<noteq> None" "role_value v"
      "row_name x = cluster_administrator (cfg E) \<longrightarrow> v = Some (VStr ''admin'')"
    using assms(1) by (auto simp: role_merged_def)
  obtain w where w: "user_from_db (user_to_db u) = Inr w" "u_username w = Some (row_name x)" "u_role w = u_role u"
    using user_reread [OF u(2) d(2)] by blast
  obtain i where i: "row E s Users (row_name x, []) = Some i" using assms(3) d(3) by (auto simp: role_of_def split: option.splits)
  obtain t where "apply_role E w s = (Inr (), t)" "users_ok E t"
    "role_of E t (row_name x) = Some (VStr (if u_role w = Some ''admin'' then ''admin'' else ''user''))"
    "\<forall>k. k \<noteq> row_name x \<longrightarrow> role_of E t k = role_of E s k"
    using role_applied [OF assms(2) i d(2) w(2)] d(5) u(3) w(3) by auto
  then show ?thesis using u d w by (auto simp: undo_user_def role_value_def)
qed

end

sublocale dynamodb \<subseteq> user_merger: table_merger "merge_user E" "undo_user E" "users_ok E" "role_of E" row_name named_row
  "role_merged E"
proof unfold_locales
  show "users_ok E t \<and> role_merged E x d (role_of E s (row_name x)) (role_of E t (row_name x)) \<and>
      (\<forall>k. k \<noteq> row_name x \<longrightarrow> role_of E t k = role_of E s k)"
    if "named_row x" "users_ok E s" "merge_user E x s = (Inr (Merged d), t)" for x s d t
    using user_merge_step [OF that] by simp
  show "users_ok E t \<and> role_of E t = role_of E s"
    if "named_row x" "users_ok E s" "merge_user E x s = (Inr r, t)" "\<forall>d. r \<noteq> Merged d" for x s r t
    using user_merge_step [OF that(1-3)] that(4) by (cases r) simp_all
qed (rule user_undone)

end
