(* ===== verification/Snapshot_Outcomes.thy ===== *)
theory Snapshot_Outcomes
  imports Snapshot_Rollback
begin

text \<open>
  What is left after a snapshot was taken or applied: the roll-back of the users restores the roles,
  unless the merge ended with an exception, and a snapshot is complete when every export is.
\<close>

section \<open>Rolling back the users\<close>

context dynamodb
begin

lemma users_rolled_back:
  assumes "users_ok E s" and "\<forall>x \<in> set rows. named_row x" and "distinct (map row_name rows)"
    and "users_merge E rows s = (Inr (ds, ok), t)"
  shows "\<exists>u. users_rollback E ds t = (Inr (), u) \<and> users_ok E u \<and> role_of E u = role_of E s"
  using user_merger.rollback_restores [OF _ assms(2,3,1)] assms(4) unfolding users_merge_def users_rollback_def .

lemma status_written_elsewhere:
  assumes "update_status E i y m s = (Inr (), t)"
  shows "role_of E t = role_of E s"
proof -
  have "keeps (table_inv (\<lambda>d. ddb_get E d Users k = x)) (update_status E i y m)" for k x
  proof -
    have "tolerates E (\<lambda>d. ddb_get E d Users k = x) ApplySnapshots"
      by (auto simp: tolerates_def simp del: split_paired_All)
    then show ?thesis unfolding update_status_def by (intro keeps_rules)
  qed
  from keepsD [OF this [of _ "row E s Users _"] _ assms] show ?thesis
    by (simp add: table_inv_def role_of_def fun_eq_iff)
qed

text \<open>A \<open>SocaException\<close> in the first merger: nothing is rolled back.\<close>

lemma first_merger_raises:
  assumes "map_of data USERS_TABLE_NAME = Some rows" and "users_merge E rows s = (Inl (SocaException c), t)"
    and "has_apply_status E t (aj_identifier job) IN_PROGRESS"
  shows "\<exists>u. merge_transformed_data_for_all_tables E job data s = (Inr (), u) \<and>
    has_apply_status E u (aj_identifier job) ROLLBACK_COMPLETE \<and> role_of E u = role_of E t"
proof -
  let ?i = "aj_identifier job" and ?m = "soca_message E c"
  obtain t1 where u1: "update_status E ?i ROLLBACK_IN_PROGRESS ?m t = (Inr (), t1)"
    and st1: "has_apply_status E t1 ?i ROLLBACK_IN_PROGRESS" using status_written [OF assms(3)] by blast
  obtain t2 where u2: "update_status E ?i ROLLBACK_COMPLETE ?m t1 = (Inr (), t2)"
    and st2: "has_apply_status E t2 ?i ROLLBACK_COMPLETE" using status_written [OF st1] by blast
  have none: "rollback_merged_tables E [] t1 = (Inr (), t1)"
    by (simp add: rollback_merged_tables_def TABLES_IN_MERGE_DEPENDENCY_ORDER_def catch_exception_def)
  have "merge_tables E d data TABLES_IN_MERGE_DEPENDENCY_ORDER [] s = (Inr (Some c, []), t)" for d
    using assms(1,2) by (simp add: TABLES_IN_MERGE_DEPENDENCY_ORDER_def merge_table_def catch_soca_def)
  then have "merge_transformed_data_for_all_tables E job data s = (Inr (), t2)"
    using u1 u2 none by (simp add: merge_transformed_data_for_all_tables_def catch_soca_def)
  then show ?thesis using st2 status_written_elsewhere [OF u1] status_written_elsewhere [OF u2] by auto
qed

end

text \<open>
  C14. Merging the users of a snapshot and rolling back what was merged restores the role of every user
  of the cluster, whether the merger succeeded or gave up: the roll-back does not fail, although it
  takes the deltas back in the order they were made. It rests on the contract of a merger. The users of
  the cluster are as the services write them, and the snapshot names each user once.
\<close>

theorem users_are_rolled_back:
  assumes "dynamodb E" and "users_ok E s"
    and "\<forall>x \<in> set rows. named_row x" and "distinct (map row_name rows)"
    and "users_merge E rows s = (Inr (record_deltas, ok), t)"
  shows "\<exists>u. users_rollback E record_deltas t = (Inr (), u) \<and> (\<forall>n. role_of E u n = role_of E s n)"
  using dynamodb.users_rolled_back [OF assms] by auto

definition user_row :: "string \<Rightarrow> string \<Rightarrow> item" where
  "user_row n r = [''username'' \<mapsto> VStr n, ''role'' \<mapsto> VStr r]"

definition two_users :: "mem_db st" where
  "two_users = local_state [((Users, (''u'', [])), user_row ''u'' ''user''), ((Users, (''v'', [])), user_row ''v'' ''admin''),
     ((ApplySnapshots, (''id'', [])), [''status'' \<mapsto> VStr ''IN_PROGRESS''])]"

lemma two_users_rows: "mem_get (st_db two_users) Users (n, []) =
    (if n = ''u'' then Some (user_row ''u'' ''user'') else if n = ''v'' then Some (user_row ''v'' ''admin'') else None)"
  by (auto simp: two_users_def mem_get_def is_key_def user_row_def key_item_def schema_defs)

lemma two_users_ok: "users_ok local_env two_users"
  by (auto simp: users_ok_def two_users_rows user_accepted user_row_def role_value_def local_world_def opt_str_field_def
      opt_list_field_def int_of_attr_def opt_bool_field_def get_value_as_list_def value_exists_def)

definition snapshot_users :: "item list" where
  "snapshot_users = [user_row ''u'' ''admin'', user_row ''v'' ''user'']"

lemma snapshot_users_merged:
  "case users_merge local_env snapshot_users two_users of (r, t) \<Rightarrow> (case r of
     Inr (ds, ok) \<Rightarrow> ok \<and> length ds = 2 \<and> role_of local_env t ''u'' = Some (VStr ''admin'') \<and>
       role_of local_env t ''v'' = Some (VStr ''user'')
   | Inl e \<Rightarrow> False)"
  by code_simp

theorem users_are_rolled_back_witness:
  "\<exists>ds t u. users_merge local_env snapshot_users two_users = (Inr (ds, True), t) \<and> length ds = 2 \<and>
     role_of local_env t ''u'' = Some (VStr ''admin'') \<and> users_rollback local_env ds t = (Inr (), u) \<and>
     role_of local_env u ''u'' = Some (VStr ''user'') \<and> role_of local_env u ''v'' = Some (VStr ''admin'')"
proof -
  obtain ds t where m: "users_merge local_env snapshot_users two_users = (Inr (ds, True), t)" "length ds = 2"
    "role_of local_env t ''u'' = Some (VStr ''admin'')"
    using snapshot_users_merged by (auto split: prod.splits sum.splits)
  have norm: "norm_name ''u''" "norm_name ''v''" by code_simp+
  then have named: "\<forall>x \<in> set snapshot_users. named_row x" "distinct (map row_name snapshot_users)"
    by (auto simp: snapshot_users_def named_row_def row_name_def user_row_def)
  obtain u where "users_rollback local_env ds t = (Inr (), u)" "\<forall>n. role_of local_env u n = role_of local_env two_users n"
    using users_are_rolled_back [OF mem_dynamodb two_users_ok named m(1)] by blast
  then show ?thesis using m by (auto simp: role_of_def two_users_rows user_row_def)
qed

text \<open>
  C26. When the merger of the users ends with a \<open>SocaException\<close>, which \<open>look_up_user\<close> raises again, the
  deltas of the users it had merged are lost: the application ends with the status ROLLBACK_COMPLETE
  while every role is as the merger left it.
\<close>

theorem a_raising_merger_is_not_rolled_back:
  assumes "dynamodb E" and "map_of data USERS_TABLE_NAME = Some rows"
    and "users_merge E rows s = (Inl (SocaException c), t)"
    and "has_apply_status E s (aj_identifier job) IN_PROGRESS"
  shows "\<exists>u. merge_transformed_data_for_all_tables E job data s = (Inr (), u) \<and>
    has_apply_status E u (aj_identifier job) ROLLBACK_COMPLETE \<and> (\<forall>n. role_of E u n = role_of E t n)"
proof -
  have "has_apply_status E t (aj_identifier job) IN_PROGRESS"
    by (rule dynamodb.status_of_kept [OF assms(1) keeps_users_mergers(1) assms(3,4)]) (rule spares_tolerates)
  then show ?thesis using dynamodb.first_merger_raises [OF assms(1-3)] by fastforce
qed

definition nameless_users :: "item list" where
  "nameless_users = [user_row ''u'' ''admin'', user_row [] ''user'']"

lemma nameless_users_merged:
  "case users_merge local_env nameless_users two_users of (r, t) \<Rightarrow>
     (case r of Inl e \<Rightarrow> e = invalid_params | Inr x \<Rightarrow> False) \<and> role_of local_env t ''u'' = Some (VStr ''admin'')"
  by code_simp

theorem a_raising_merger_is_not_rolled_back_witness:
  "role_of local_env two_users ''u'' = Some (VStr ''user'') \<and>
   (\<exists>u. merge_transformed_data_for_all_tables local_env (snapshot_job\<lparr>aj_identifier := ''id''\<rparr>)
       [(USERS_TABLE_NAME, nameless_users)] two_users = (Inr (), u) \<and>
     has_apply_status local_env u ''id'' ROLLBACK_COMPLETE \<and> role_of local_env u ''u'' = Some (VStr ''admin''))"
proof -
  obtain t where m: "users_merge local_env nameless_users two_users = (Inl (SocaException INVALID_PARAMS), t)"
    "role_of local_env t ''u'' = Some (VStr ''admin'')"
    using nameless_users_merged by (auto simp: invalid_params_def split: prod.splits sum.splits)
  have "has_apply_status local_env two_users ''id'' IN_PROGRESS"
    by code_simp
  then show ?thesis
    using a_raising_merger_is_not_rolled_back [OF mem_dynamodb _ m(1),
        of "[(USERS_TABLE_NAME, nameless_users)]" "snapshot_job\<lparr>aj_identifier := ''id''\<rparr>"] m(2)
    by (auto simp: role_of_def two_users_rows user_row_def)
qed

section \<open>When a snapshot is complete\<close>

definition exported :: "(string \<times> val) list \<Rightarrow> string \<Rightarrow> bool" where
  "exported ds t \<longleftrightarrow> (\<exists>d. map_of ds t = Some d \<and> export_status_of d = Inr (VStr ''COMPLETED''))"

text \<open>One table of the loop: it counts only when its description says so at the end.\<close>

lemma running_export_checked:
  assumes "check_running_export E t d c s = (Inr c', s')"
  shows "ec_completed c \<le> ec_completed c' \<and> ec_completed c' \<le> Suc (ec_completed c) \<and>
    (ec_completed c' = Suc (ec_completed c) \<longrightarrow> exported (ec_descriptions c') t) \<and>
    (\<forall>k. k \<noteq> t \<longrightarrow> map_of (ec_descriptions c') k = map_of (ec_descriptions c) k)"
  using assms by (auto simp: check_running_export_def new_description_def exported_def bindA_eq_Inr split: if_splits)

lemma exports_checked:
  "check_exports E ts c s = (Inr c', s') \<Longrightarrow> distinct ts \<Longrightarrow>
     ec_completed c' \<le> ec_completed c + length ts \<and>
     (ec_completed c' = ec_completed c + length ts \<longrightarrow> (\<forall>t \<in> set ts. exported (ec_descriptions c') t)) \<and>
     (\<forall>k. k \<notin> set ts \<longrightarrow> map_of (ec_descriptions c') k = map_of (ec_descriptions c) k)"
proof (induction ts arbitrary: c s)
  case (Cons t ts)
  obtain d status s1 where d: "v_at (VDict (ec_descriptions c)) t = Inr d" "export_status_of d = Inr status"
    and rest: "(if status = VStr ''IN_PROGRESS'' then bindA (check_running_export E t d c) (check_exports E ts)
      else if status = VStr ''COMPLETED'' then check_exports E ts (c\<lparr>ec_completed := Suc (ec_completed c)\<rparr>)
      else return (c\<lparr>ec_failed := True, ec_updated := True,
        ec_message := VStr (''Invalid export status: '' @ py_str status @ '' for table '' @ t)\<rparr>)) s1 = (Inr c', s')"
    using Cons.prems(1) by (auto simp: bindA_eq_Inr liftA_def)
  have fresh: "t \<notin> set ts" "distinct ts" using Cons.prems(2) by simp_all
  consider "status = VStr ''IN_PROGRESS''" | "status = VStr ''COMPLETED''"
    | "status \<noteq> VStr ''IN_PROGRESS''" "status \<noteq> VStr ''COMPLETED''" by blast
  then show ?case
  proof cases
    case 1
    then obtain c1 s2 where c1: "check_running_export E t d c s1 = (Inr c1, s2)"
      and more: "check_exports E ts c1 s2 = (Inr c', s')" using rest by (auto simp: bindA_eq_Inr)
    show ?thesis using running_export_checked [OF c1] Cons.IH [OF more fresh(2)] fresh(1)
      by (auto simp: exported_def)
  next
    case 2
    then have more: "check_exports E ts (c\<lparr>ec_completed := Suc (ec_completed c)\<rparr>) s1 = (Inr c', s')" using rest by simp
    have "exported (ec_descriptions c) t" using d 2 by (auto simp: exported_def v_at_def split: option.splits)
    then show ?thesis using Cons.IH [OF more fresh(2)] fresh(1) by (auto simp: exported_def)
  next
    case 3
    then show ?thesis using rest by auto
  qed
qed simp

lemma distinct_exported_tables: "distinct DYNAMODB_TABLES_TO_EXPORT"
  by code_simp

context dynamodb
begin

lemma snapshot_status_written:
  assumes "update_snapshot_status E k x m s = (Inr (), t)"
  shows "st_trace t = st_trace s \<and>
    (\<exists>i. row E t SnapshotRecords k = Some i \<and> i ''status'' = Some (VStr (snapshot_status_value x)))"
proof -
  define upd where "upd = [''status'' \<mapsto> VStr (snapshot_status_value x)] ++ (case m of None \<Rightarrow> Map.empty
    | Some m \<Rightarrow> if m \<noteq> [] \<and> x = SNAPSHOT_FAILED then [''failure_reason'' \<mapsto> VStr m] else Map.empty)"
  have k: "is_key SnapshotRecords k" by (simp add: is_key_def schema_defs)
  have "set_attributes SnapshotRecords k old upd ''status'' = Some (VStr (snapshot_status_value x))" for old
    by (cases k) (simp add: set_attributes_def key_item_def schema_defs upd_def map_add_def split: option.split)
  then show ?thesis using assms k
    by (auto simp: update_snapshot_status_def upd_def [symmetric] raise_if_def split: if_splits)
qed

lemma snapshot_completed:
  assumes "update_status_of_snapshot E sn s = (Inr sn', t)"
    and "sn_status sn = Some SNAPSHOT_IN_PROGRESS" and "sn_status sn' = Some SNAPSHOT_COMPLETED"
  obtains descriptions metadata c u u' where
    "check_exports E DYNAMODB_TABLES_TO_EXPORT (no_check descriptions) u = (Inr c, u')"
    "ec_completed c = length DYNAMODB_TABLES_TO_EXPORT"
    "st_trace t = st_trace u' @ [S3 ''put_object'' [(''Bucket'', VStr (str_or_empty (sn_bucket sn))),
         (''Key'', VStr (metadata_key (str_or_empty (sn_path sn)))),
         (''Body'', VDict (dict_set ''table_export_descriptions'' (VDict (ec_descriptions c)) metadata))]]"
    "\<exists>i. row E t SnapshotRecords (snapshot_key sn) = Some i \<and> i ''status'' = Some (VStr ''COMPLETED'')"
proof -
  obtain metadata u u' descriptions c d where c: "check_exports E DYNAMODB_TABLES_TO_EXPORT (no_check descriptions) u = (Inr c, u')"
    and w: "write_status E sn d c u' = (Inr sn', t)"
    using assms
    by (auto simp: update_status_of_snapshot_def on_aws_error_def catchA_def act_inversions liftA_def
        split: prod.splits sum.splits if_splits)
  obtain v where all: "ec_completed c = length DYNAMODB_TABLES_TO_EXPORT"
    and p: "put_metadata E (str_or_empty (sn_bucket sn)) (str_or_empty (sn_path sn))
      (VDict (dict_set ''table_export_descriptions'' (VDict (ec_descriptions c)) d)) u' = (Inr (), v)"
    and st: "update_snapshot_status E (snapshot_key sn) SNAPSHOT_COMPLETED None v = (Inr (), t)"
    using w assms(2,3) by (auto simp: write_status_def act_inversions split: if_splits)
  have "st_trace v = st_trace u' @ [S3 ''put_object'' [(''Bucket'', VStr (str_or_empty (sn_bucket sn))),
         (''Key'', VStr (metadata_key (str_or_empty (sn_path sn)))),
         (''Body'', VDict (dict_set ''table_export_descriptions'' (VDict (ec_descriptions c)) d))]]"
    using p by (auto simp: put_metadata_def do_call_def call_def act_inversions)
  then show thesis using that [OF c all] snapshot_status_written [OF st] by auto
qed

end

text \<open>
  C15. Listing the snapshots turns one that is in progress into a completed one only when the metadata it
  has just written to the bucket says of every exported table that its export is complete, and then the
  record says COMPLETED too.
\<close>

theorem a_completed_snapshot_has_every_export:
  assumes "dynamodb E" and "update_status_of_snapshot E sn s = (Inr sn', t)"
    and "sn_status sn = Some SNAPSHOT_IN_PROGRESS" and "sn_status sn' = Some SNAPSHOT_COMPLETED"
  shows "(\<exists>i. row E t SnapshotRecords (snapshot_key sn) = Some i \<and> i ''status'' = Some (VStr ''COMPLETED'')) \<and>
    (\<exists>descriptions metadata. last (st_trace t) = S3 ''put_object'' [(''Bucket'', VStr (str_or_empty (sn_bucket sn))),
         (''Key'', VStr (metadata_key (str_or_empty (sn_path sn)))),
         (''Body'', VDict (dict_set ''table_export_descriptions'' (VDict descriptions) metadata))] \<and>
       (\<forall>table \<in> set DYNAMODB_TABLES_TO_EXPORT. exported descriptions table))"
proof -
  obtain descriptions metadata c u u' where
    c: "check_exports E DYNAMODB_TABLES_TO_EXPORT (no_check descriptions) u = (Inr c, u')"
      "ec_completed c = length DYNAMODB_TABLES_TO_EXPORT"
    and t: "st_trace t = st_trace u' @ [S3 ''put_object'' [(''Bucket'', VStr (str_or_empty (sn_bucket sn))),
         (''Key'', VStr (metadata_key (str_or_empty (sn_path sn)))),
         (''Body'', VDict (dict_set ''table_export_descriptions'' (VDict (ec_descriptions c)) metadata))]]"
      "\<exists>i. row E t SnapshotRecords (snapshot_key sn) = Some i \<and> i ''status'' = Some (VStr ''COMPLETED'')"
    by (rule dynamodb.snapshot_completed [OF assms])
  have "\<forall>table \<in> set DYNAMODB_TABLES_TO_EXPORT. exported (ec_descriptions c) table"
    using exports_checked [OF c(1) distinct_exported_tables] c(2) by (simp add: no_check_def)
  then show ?thesis using t by auto
qed

text \<open>A snapshot whose exports were running when the metadata was written and are all complete now.\<close>

definition running_exports :: "(string \<times> val) list" where
  "running_exports = map (\<lambda>t. (t, VDict [(''ExportStatus'', VStr ''IN_PROGRESS''), (''ExportArn'', VStr t)])) DYNAMODB_TABLES_TO_EXPORT"

definition export_env :: "mem_db env" where
  "export_env = mem_env None (local_world\<lparr>
     ext_result := \<lambda>_ _. Inr (VDict [(''Body'', VStr ''metadata''),
       (''ExportDescription'', VDict [(''ExportStatus'', VStr ''COMPLETED'')])]),
     from_json := \<lambda>_. Inr (VDict [(''table_export_descriptions'', VDict running_exports)])\<rparr>)"

definition running_snapshot :: snapshot where
  "running_snapshot = \<lparr>sn_bucket = Some ''bucket'', sn_path = Some ''path'', sn_status = Some SNAPSHOT_IN_PROGRESS,
     sn_created_on = Some 1, sn_failure_reason = None\<rparr>"

lemma export_found_complete:
  assumes "map_of (ec_descriptions c) t = Some (VDict [(''ExportStatus'', VStr ''IN_PROGRESS''), (''ExportArn'', VStr t)])"
  shows "\<exists>s'. st_db s' = st_db s \<and> check_exports export_env (t # ts) c s = check_exports export_env ts
    ((new_description t (VDict [(''ExportStatus'', VStr ''COMPLETED'')]) c)\<lparr>ec_completed := Suc (ec_completed c)\<rparr>) s'"
  using assms
  by (intro exI [of _ "s\<lparr>st_trace := st_trace s @ [DynamoDb ''describe_export'' [(''ExportArn'', VStr t)]]\<rparr>"])
     (simp add: check_running_export_def v_at_def export_status_of_def call_def export_env_def bindA_def)

lemma exports_found_complete:
  "distinct ts \<Longrightarrow>
   (\<forall>t \<in> set ts. map_of (ec_descriptions c) t = Some (VDict [(''ExportStatus'', VStr ''IN_PROGRESS''), (''ExportArn'', VStr t)])) \<Longrightarrow>
   \<exists>c' s'. check_exports export_env ts c s = (Inr c', s') \<and> ec_completed c' = ec_completed c + length ts \<and>
     ec_failed c' = ec_failed c \<and> (ts \<noteq> [] \<longrightarrow> ec_updated c') \<and> (ec_updated c \<longrightarrow> ec_updated c') \<and> st_db s' = st_db s"
proof (induction ts arbitrary: c s)
  case (Cons t ts)
  let ?c = "(new_description t (VDict [(''ExportStatus'', VStr ''COMPLETED'')]) c)\<lparr>ec_completed := Suc (ec_completed c)\<rparr>"
  obtain s1 where "st_db s1 = st_db s" and "check_exports export_env (t # ts) c s = check_exports export_env ts ?c s1"
    using export_found_complete Cons.prems(2) by fastforce
  moreover have "\<forall>k \<in> set ts. map_of (ec_descriptions ?c) k =
      Some (VDict [(''ExportStatus'', VStr ''IN_PROGRESS''), (''ExportArn'', VStr k)])"
    using Cons.prems by (auto simp: new_description_def)
  ultimately show ?case
    using Cons.IH [of ?c s1] Cons.prems(1) by (auto simp: new_description_def simp del: check_exports.simps)
qed simp

lemma running_snapshot_completes:
  "\<exists>sn t. update_status_of_snapshot export_env running_snapshot (local_state []) = (Inr sn, t) \<and>
     sn_status sn = Some SNAPSHOT_COMPLETED"
proof -
  let ?s = "local_state []\<lparr>st_trace := [S3 ''get_object'' [(''Bucket'', VStr ''bucket''), (''Key'', VStr ''path/metadata.json'')]]\<rparr>"
  let ?m = "VDict [(''table_export_descriptions'', VDict running_exports)]"
  have some_table: "DYNAMODB_TABLES_TO_EXPORT \<noteq> []" by (simp add: DYNAMODB_TABLES_TO_EXPORT_def)
  have "\<forall>t \<in> set DYNAMODB_TABLES_TO_EXPORT. map_of (ec_descriptions (no_check running_exports)) t =
      Some (VDict [(''ExportStatus'', VStr ''IN_PROGRESS''), (''ExportArn'', VStr t)])"
    by (simp add: no_check_def running_exports_def map_of_map_restrict)
  then obtain c' s' where "check_exports export_env DYNAMODB_TABLES_TO_EXPORT (no_check running_exports) ?s = (Inr c', s')"
    and c: "ec_completed c' = length DYNAMODB_TABLES_TO_EXPORT" "\<not> ec_failed c'" "ec_updated c'" "st_db s' = []"
    using exports_found_complete [OF distinct_exported_tables, of "no_check running_exports" ?s] some_table
    by (auto simp: no_check_def)
  moreover have "fetch_snapshot_metadata export_env ''bucket'' ''path'' (local_state []) = (Inr ?m, ?s)"
    by (simp add: fetch_snapshot_metadata_def export_env_def call_def bindA_def v_at_def metadata_key_def)
  ultimately have "update_status_of_snapshot export_env running_snapshot (local_state []) =
      on_aws_error (write_status export_env running_snapshot [(''table_export_descriptions'', VDict running_exports)] c')
        (\<lambda>e. seqA (update_snapshot_status export_env (snapshot_key running_snapshot) SNAPSHOT_FAILED (Some (message_of (cfg export_env) e)))
                 (return (running_snapshot\<lparr>sn_status := Some SNAPSHOT_FAILED\<rparr>))) s'"
    by (simp add: update_status_of_snapshot_def running_snapshot_def on_aws_error_def catchA_def bindA_def liftA_def
        v_at_def dict_arg_def str_or_empty_def)
  then show ?thesis using c
    by (simp add: on_aws_error_def catchA_def write_status_def put_metadata_def do_call_def call_def export_env_def
        update_snapshot_status_def has_status_def mem_get_def is_key_def schema_defs bindA_def seqA_def)
qed

theorem a_completed_snapshot_has_every_export_witness:
  "\<exists>sn' t i descriptions metadata. update_status_of_snapshot export_env running_snapshot (local_state []) = (Inr sn', t) \<and>
     sn_status sn' = Some SNAPSHOT_COMPLETED \<and>
     mem_get (st_db t) SnapshotRecords (''bucket'', ''path'') = Some i \<and> i ''status'' = Some (VStr ''COMPLETED'') \<and>
     last (st_trace t) = S3 ''put_object'' [(''Bucket'', VStr ''bucket''), (''Key'', VStr ''path/metadata.json''),
         (''Body'', VDict (dict_set ''table_export_descriptions'' (VDict descriptions) metadata))] \<and>
     exported descriptions ''projects''"
proof -
  obtain sn' t where m: "update_status_of_snapshot export_env running_snapshot (local_state []) = (Inr sn', t)"
    "sn_status sn' = Some SNAPSHOT_COMPLETED"
    using running_snapshot_completes by (auto split: prod.splits sum.splits)
  have dyn: "dynamodb export_env" unfolding export_env_def by (rule mem_dynamodb)
  have "''projects'' \<in> set DYNAMODB_TABLES_TO_EXPORT" by code_simp
  then show ?thesis
    using a_completed_snapshot_has_every_export [OF dyn m(1) _ m(2)] m
    by (auto simp: running_snapshot_def export_env_def snapshot_key_def str_or_empty_def metadata_key_def)
qed

end
