(* ===== verification/Spec2Isabelle.thy ===== *)
theory Spec2Isabelle
  imports Api_Access Vdc_States Vdc_Access Snapshot_Outcomes
begin

text \<open>
  A verification development for Research and Engineering Studio (RES), the Python packages
  under \<^verbatim>\<open>src/containres\<close>. RES lets an administrator of a cloud account give the users of a
  directory virtual desktops. Three services share one SDK: the cluster manager
  (\<^verbatim>\<open>ideaclustermanager\<close>: accounts, projects, directory synchronisation, file systems, snapshots), the
  virtual desktop controller (\<^verbatim>\<open>ideavirtualdesktopcontroller\<close>) and the installer. This development models
  three planes: the identity and project plane of the cluster manager, from the request that arrives at
  the HTTP handler down to the rows of the tables; the session plane of the virtual desktop controller,
  from the requests and the messages of its queues down to the session table and the hosts; and the
  snapshots of a cluster, with the shared file systems and the settings they are kept in.

  \<^bold>\<open>How the parts interact.\<close> A request carries a token. \<^verbatim>\<open>SocaServer._invoke\<close> decodes it
  (\<^verbatim>\<open>TokenService\<close>), asks the accounts tables who the caller is, looks the request up in the
  access control list of an API, and calls one method of \<^verbatim>\<open>AccountsService\<close>, \<^verbatim>\<open>ProjectsService\<close>
  or \<^verbatim>\<open>TokenService\<close>. These read and write the DynamoDB tables through the data access
  objects, call Cognito, IAM and the directory, and send messages to a queue. A message is a
  task, executed later; the tasks carry the consequences of a change of members, groups or
  projects to \<^verbatim>\<open>UserProjectsDAO\<close>, whose tables say which user may use which project. The
  synchronisation with Active Directory is such a task too, and goes through the accounts service.

  A virtual desktop is a session: a row of the sessions table that carries its server, software
  stack, project and seven schedules. A request on sessions changes the row, starts, stops or ends an
  EC2 instance and asks the DCV broker about active connections; what follows is driven by events. Hosts,
  EC2, the systems manager and the controller itself put messages on a queue. A thread takes them,
  finds the handler of the event's type and lets it move the session on: the host is up, so the
  session at the broker is requested; the broker has it, so the session is ready; the instance has stopped, so
  the session has. Writes to the tables are announced by events too, which become mails. A clock event
  applies the schedules, by further events.

  A snapshot is an export of the tables into a bucket. Applying one to another cluster imports its tables
  under other names, reads them, and merges five of them into the cluster, in an order that respects what
  refers to what: users, permission profiles, projects, software stacks, file systems. Each table has a
  merger, which creates what is missing through the services above (for profiles and stacks through the
  client of the controller, whose methods are the same definitions), renames what collides, and answers
  deltas; when one fails the deltas are rolled back. File systems are entries of the settings table; a
  process reads settings from a tree in memory, which a listener brings up to date.

  \<^bold>\<open>How the code is modelled.\<close> A method is an action of the type \<open>('db st, 'a) act\<close>: a state
  goes in, and a result or an exception comes out together with the state, so what was written
  before a raise stays written. The state \<open>st\<close> has the tables, the answers of the services still to
  come are drawn from an oracle that sees the trace of all earlier calls, the messages
  sent, and the ticks of the clock. What is not code of the repository is a parameter: the
  operations of DynamoDB (their laws are the assumptions of the locale \<open>dynamodb\<close>, interpreted
  on an association list model), the answers of Cognito, IAM, SQS, LDAP and of the virtual
  desktop controller, hashing orders of sets, and the JWT library. Python values read from
  tables are the datatype \<open>val\<close>, with the truth and the conversions of \<^verbatim>\<open>Utils\<close>.
  Exceptions are their error code, or the class of the Python error where the code raises none
  of its own (\<open>TypeError\<close>, \<open>KeyError\<close>, \<open>AttributeError\<close>).

  \<^bold>\<open>Theories.\<close>
  \<^item> \<open>RES_Prelude\<close>: exceptions, actions, loops, the rules \<open>act_simps\<close> and \<open>keeps_rules\<close>, Python strings.
  \<^item> \<open>Py_Values\<close>: \<open>val\<close> and \<^verbatim>\<open>ideadatamodel/model_utils.py\<close>.
  \<^item> \<open>Dynamo_Tables\<close>: key schemas, the record \<open>env\<close> of parameters, the locale \<open>dynamodb\<close> and its
    interpretation, the lemmas on single calls.
  \<^item> \<open>Cognito_User_Pool\<close>: \<^verbatim>\<open>accounts/cognito_user_pool.py\<close>.
  \<^item> \<open>Token_Service\<close>: \<^verbatim>\<open>ideasdk/auth/token_service.py\<close>.
  \<^item> \<open>Accounts_DAO\<close>: \<^verbatim>\<open>accounts/db\<close> and \<^verbatim>\<open>accounts/auth_utils.py\<close>; round trips of the rows and
    the paging loops.
  \<^item> \<open>Projects_DAO\<close>: the project row, launch scripts and \<^verbatim>\<open>projects/db/projects_dao.py\<close>.
  \<^item> \<open>User_Projects\<close>: \<^verbatim>\<open>projects/db/user_projects_dao.py\<close>, each operation refined to a set
    operation on the relation \<open>access\<close> (user, project, source).
  \<^item> \<open>Project_Access\<close>: the properties of that relation: members, links, enabling, disabling.
  \<^item> \<open>Accounts_Groups\<close>, \<open>Accounts_Users\<close>, \<open>Accounts_Auth\<close>: the three parts of
    \<^verbatim>\<open>accounts/accounts_service.py\<close>.
  \<^item> \<open>Vdi_Role\<close>: the IAM part of \<^verbatim>\<open>projects/projects_service.py\<close> and
    \<^verbatim>\<open>launch_configurations/launch_role_helper.py\<close> over a model of the roles as a fold of the trace; the roll-backs.
  \<^item> \<open>Projects_Service\<close>, \<open>Projects_Life\<close>: the rest of the projects service and its properties.
  \<^item> \<open>AD_Sync\<close>: \<^verbatim>\<open>adsync/adsync_service.py\<close>; the loop over directory groups and users.
  \<^item> \<open>Tasks\<close>, \<open>Task_Effects\<close>: \<^verbatim>\<open>accounts/account_tasks.py\<close>, \<^verbatim>\<open>projects/project_tasks.py\<close>,
    \<^verbatim>\<open>adsync/adsync_tasks.py\<close>, \<^verbatim>\<open>tasks/task_manager.py\<close>, and what executing a message does.
  \<^item> \<open>Frames\<close>, \<open>Accounts_Admin\<close>: which tables each operation writes, and the transition system of
    requests and messages with the invariant that the cluster administrator stays.
  \<^item> \<open>Api_Context\<close>: \<^verbatim>\<open>ideasdk/api/api_invocation_context.py\<close>,
    \<^verbatim>\<open>auth/api_authorization_service_base.py\<close> and \<^verbatim>\<open>SocaServer._invoke\<close>.
  \<^item> \<open>Cluster_Api\<close>: one definition per method of \<^verbatim>\<open>app/api/accounts_api.py\<close>,
    \<^verbatim>\<open>projects_api.py\<close> and \<^verbatim>\<open>auth_api.py\<close>, the access control lists of the other APIs, and the dispatch.
  \<^item> \<open>Api_Access\<close>: who is kept out of what.
  \<^item> \<open>Vdc_Data\<close>, \<open>Vdc_Rows\<close>: the classes of
    \<^verbatim>\<open>ideadatamodel/virtual_desktop/virtual_desktop_model.py\<close> and the conversions to and from rows of the
    \<^verbatim>\<open>*_db.py\<close> files of the controller; \<open>Vdc_Roundtrip\<close>: a session written is read back.
  \<^item> \<open>Vdc_Store\<close>, \<open>Vdc_DAO\<close>: the generic table access with its announcements
    (\<^verbatim>\<open>events/events_utils.py\<close>), and one operation per method of the data access objects.
  \<^item> \<open>Vdc_Schedules\<close>: \<^verbatim>\<open>schedules/virtual_desktop_schedule_utils.py\<close>.
  \<^item> \<open>Vdc_Broker\<close>: sessions and permissions at the DCV broker, session permissions, permission profiles.
  \<^item> \<open>Vdc_Sessions\<close>: \<^verbatim>\<open>sessions/virtual_desktop_session_utils.py\<close>,
    \<^verbatim>\<open>servers/virtual_desktop_server_utils.py\<close>: create, stop, resume, reboot, terminate.
  \<^item> \<open>Vdc_Memory\<close>: \<^verbatim>\<open>SocaMemory\<close>; \<open>Vdc_Instances\<close>: the instance types a session may have
    (\<^verbatim>\<open>virtual_desktop_controller_utils.py\<close>).
  \<^item> \<open>Vdc_Profiles\<close>: permission profiles, and the profiles and stacks made when the controller starts.
  \<^item> \<open>Vdc_Api\<close>, \<open>Vdc_Api_Requests\<close>: \<^verbatim>\<open>api/virtual_desktop_api.py\<close>: the checks of a creation, then those of the
    other requests, connections, screenshots, updates and listings. \<open>Vdc_User_Api\<close>, \<open>Vdc_Admin_Api\<close>: one
    definition per method of the APIs, the access control lists and the dispatch.
  \<^item> \<open>Vdc_Owners\<close>, \<open>Vdc_Access\<close>: whose sessions the requests of a user reach, where they reach further, and
    what a creation must satisfy.
  \<^item> \<open>Vdc_Handlers\<close>, \<open>Vdc_Requests\<close>, \<open>Vdc_Notices\<close>: \<^verbatim>\<open>events/handlers\<close>, one definition per handler.
  \<^item> \<open>Vdc_Queue\<close>: the queues: which handler gets an event, and what happens to a message.
  \<^item> \<open>Vdc_Lifecycle\<close>: a request on sessions changes only rows it names, in states it accepts, to the
    state it stands for. \<open>Vdc_Safety\<close>: who may send an event; the order within a group.
    \<open>Vdc_States\<close>: the handlers implement a state machine on an abstract session.

  \<^item> \<open>Cluster_Config\<close>: \<^verbatim>\<open>ideasdk/config\<close>: the settings table, the tree and the listener; the locale
    \<open>hocon\<close> states what the library of the tree promises and is interpreted on nested dictionaries.
  \<^item> \<open>Shared_Filesystems\<close>: \<^verbatim>\<open>shared_filesystem/shared_filesystem_service.py\<close>; \<open>Filesystem_Facts\<close>: what off-boarding
    deletes, that it takes onboarding back, and that a change of projects is seen in table and tree.
  \<^item> \<open>Vdc_Client\<close>: \<^verbatim>\<open>ideasdk/client/vdc_client.py\<close>, calling the methods of \<open>Vdc_Admin_Api\<close>.
  \<^item> \<open>Snapshot_Data\<close>: names, versions, deltas, conversions and records of \<^verbatim>\<open>app/snapshots\<close>;
    \<open>Snapshot_Mergers\<close>: the five mergers of \<^verbatim>\<open>apply_snapshot_merge_table\<close> with their roll-backs;
    \<open>Apply_Snapshot\<close>: \<^verbatim>\<open>apply_snapshot.py\<close>; \<open>Snapshots_Service\<close>: \<^verbatim>\<open>snapshots_service.py\<close> and the two APIs.
  \<^item> \<open>Snapshot_Frames\<close>: no merger writes the records of the applications; \<open>Snapshot_Facts\<close>: such a record ends
    in a final status; \<open>Snapshot_Rollback\<close>: the contract of a merger (locale \<open>table_merger\<close>), roll-back
    by it, and the merger of the users as an instance; \<open>Snapshot_Outcomes\<close>: roll-backs that happen and
    one that does not, and when a snapshot is complete.

  \<^bold>\<open>Loops.\<close> Loops over lists are structural recursions. The loop \<^verbatim>\<open>while True\<close> over the pages
  of a group (\<open>usernames_loop\<close>) is a partial function whose value \<open>None\<close> is a loop that never
  ends; \<open>usernames_in_group_complete\<close> proves that it ends whatever the size of a page, because
  each page starts behind the last key of the one before. The loops over the pages of the permissions of a
  session in the controller take a bound \<open>pages\<close>, an argument of the handlers that stands for the number of
  pages the table has; every property that mentions it holds for all its values. The loops that wait for AWS
  (\<open>poll_loop\<close>: an import, a table, a file system) are partial functions too; one that never ends is the
  exception \<open>DoesNotReturn\<close>, which no handler of the code catches. No other fuel is used.

  \<^bold>\<open>Not modelled.\<close> The LDAP clients and \<^verbatim>\<open>sssd\<close> (their answers are parameters), the
  creation of home directories (one call), metrics and logging, the HTTP sockets and routes of
  the server, the rewriting of cluster settings by the single sign-on and QUIC helpers,
  e-mail templates, the command-line clients, the web portal, the CDK stacks
  and the integration tests. The methods of the file browser, the e-mail templates and the cluster settings
  API are parameters of \<open>Cluster_Api\<close>; only who may call them is modelled there, and those of the file
  systems and snapshots are the definitions of \<open>Snapshots_Service\<close>. Concurrency between
  threads is modelled at the level of whole requests and messages; the threads that import the tables of a
  snapshot run one after the other, and the thread that
  applies one is not interrupted once it runs. Of the controller: the handler of
  the CPU load of a host (a parameter of the dispatch), the user data scripts of the hosts, requests for a
  further page, the search index and the web socket of the broker.
\<close>

end
